(* ===== verification/Prelude.thy ===== *)
theory Prelude
  imports Main
begin

text \<open>
  Shared vocabulary of the development: the error values of the Go code, transactions over a
  durable state (one Dex commit), their inversion rules, 64-bit integer arithmetic with its
  wrap-around, and the generic list lemmas the components share.
\<close>

named_theorems tx_defs \<open>definitions of transactional operations, unfolded by the step proofs\<close>
named_theorems tx_dest \<open>what a successful transactional operation did to its state\<close>

section \<open>Errors\<close>

text \<open>
  \<open>New t\<close> is \<^verbatim>\<open>errors.New(t)\<close>; \<open>Errorf f as\<close> is \<^verbatim>\<open>fmt.Errorf(f, as...)\<close> with the
  format string and the arguments of the source, not rendered (an \<open>ArgErr\<close> is an argument
  of the verb \<^verbatim>\<open>%w\<close> or \<^verbatim>\<open>%v\<close> that is itself an error). \<open>External t\<close> is an error made by
  code that is not in the repository, with the name of its Go type.
\<close>

datatype goError =
    New string
  | Errorf string "goArg list"
  | EnumValidationError string string
  | AttributeNotFoundError string
  | ChannelMessageNotFoundError string
  | CommandRejectedError string
  | PendingMessageNotFoundError string
  | ArchivedMessagesNotFoundError int
  | TransportValidationError string
  | External string
  | RuntimePanic string
and goArg = ArgStr string | ArgInt int | ArgStrs "string list" | ArgErr goError

type_synonym 'a result = "goError + 'a"

section \<open>Transactions\<close>

text \<open>
  A Step method or an RPC of the Flow reads and writes durable state through its
  \<^verbatim>\<open>dex.Context\<close>; the writes are committed together when the method returns no error and
  discarded when it returns one. \<open>('s, 'a) tx\<close> is such a method: \<open>Inl e\<close> is the error
  return (no state is committed), \<open>Inr (x, s')\<close> the value and the committed state.
\<close>

type_synonym ('s, 'a) tx = "'s \<Rightarrow> goError + ('a \<times> 's)"

definition returnTx :: "'a \<Rightarrow> ('s, 'a) tx" where
  "returnTx x = (\<lambda>s. Inr (x, s))"

definition throwTx :: "goError \<Rightarrow> ('s, 'a) tx" where
  "throwTx e = (\<lambda>s. Inl e)"

definition bindTx :: "('s, 'a) tx \<Rightarrow> ('a \<Rightarrow> ('s, 'b) tx) \<Rightarrow> ('s, 'b) tx" where
  "bindTx m f = (\<lambda>s. case m s of Inl e \<Rightarrow> Inl e | Inr (x, s') \<Rightarrow> f x s')"

definition readTx :: "('s \<Rightarrow> 'a) \<Rightarrow> ('s, 'a) tx" where
  "readTx f = (\<lambda>s. Inr (f s, s))"

definition writeTx :: "('s \<Rightarrow> 's) \<Rightarrow> ('s, unit) tx" where
  "writeTx f = (\<lambda>s. Inr ((), f s))"

definition liftTx :: "'a result \<Rightarrow> ('s, 'a) tx" where
  "liftTx r = (case r of Inl e \<Rightarrow> throwTx e | Inr x \<Rightarrow> returnTx x)"

text \<open>A Go \<^verbatim>\<open>for\<close> loop whose body may return an error.\<close>

fun forTx :: "'a list \<Rightarrow> ('a \<Rightarrow> ('s, unit) tx) \<Rightarrow> ('s, unit) tx" where
  "forTx [] body = returnTx ()"
| "forTx (x # xs) body = bindTx (body x) (\<lambda>_. forTx xs body)"

text \<open>What one method invocation leaves behind: its result, and the committed state.\<close>

definition commitTx :: "('s, 'a) tx \<Rightarrow> 's \<Rightarrow> 'a result \<times> 's" where
  "commitTx m s = (case m s of Inl e \<Rightarrow> (Inl e, s) | Inr (x, s') \<Rightarrow> (Inr x, s'))"

subsection \<open>Evaluation and inversion\<close>

lemma returnTx_apply [simp]: "returnTx x s = Inr (x, s)"
  by (simp add: returnTx_def)

lemma throwTx_apply [simp]: "throwTx e s = Inl e"
  by (simp add: throwTx_def)

lemma readTx_apply [simp]: "readTx f s = Inr (f s, s)"
  by (simp add: readTx_def)

lemma writeTx_apply [simp]: "writeTx f s = Inr ((), f s)"
  by (simp add: writeTx_def)

lemma liftTx_simps [simp]: "liftTx (Inl e) = throwTx e" "liftTx (Inr x) = returnTx x"
  by (simp_all add: liftTx_def)

lemma liftTx_Inr_iff: "liftTx r s = Inr (x, s') \<longleftrightarrow> r = Inr x \<and> s' = s"
  by (cases r) auto

lemma bindTx_apply: "bindTx m f s = (case m s of Inl e \<Rightarrow> Inl e | Inr (x, s') \<Rightarrow> f x s')"
  by (simp add: bindTx_def)

lemma bindTx_return [simp]: "bindTx (returnTx x) f = f x"
  by (rule ext) (simp add: bindTx_def)

lemma bindTx_throw [simp]: "bindTx (throwTx e) f = throwTx e"
  by (rule ext) (simp add: bindTx_def)

lemma bindTx_read [simp]: "bindTx (readTx g) f s = f (g s) s"
  by (simp add: bindTx_def)

lemma bindTx_write [simp]: "bindTx (writeTx g) f s = f () (g s)"
  by (simp add: bindTx_def)

lemma bindTx_assoc: "bindTx (bindTx m f) g = bindTx m (\<lambda>x. bindTx (f x) g)"
  by (rule ext) (simp add: bindTx_def split: sum.split prod.split)

lemma bindTx_Inr [simp]: "m s = Inr (x, s') \<Longrightarrow> bindTx m f s = f x s'"
  by (simp add: bindTx_def)

lemma bindTx_Inl [simp]: "m s = Inl e \<Longrightarrow> bindTx m f s = Inl e"
  by (simp add: bindTx_def)

lemma bindTx_eq_Inr:
  "bindTx m f s = Inr (y, s'') \<longleftrightarrow> (\<exists>x s'. m s = Inr (x, s') \<and> f x s' = Inr (y, s''))"
  by (auto simp: bindTx_def split: sum.splits)

lemma bindTx_eq_Inl:
  "bindTx m f s = Inl e \<longleftrightarrow> m s = Inl e \<or> (\<exists>x s'. m s = Inr (x, s') \<and> f x s' = Inl e)"
  by (auto simp: bindTx_def split: sum.splits)

lemma bindTx_cong [fundef_cong]:
  assumes "m s = m' s" and "\<And>x s'. m' s = Inr (x, s') \<Longrightarrow> f x s' = f' x s'"
  shows "bindTx m f s = bindTx m' f' s"
  using assms by (auto simp: bindTx_def split: sum.splits)

lemma commitTx_error: "fst (commitTx m s) = Inl e \<Longrightarrow> snd (commitTx m s) = s"
  by (auto simp: commitTx_def split: sum.splits)

text \<open>
  A relation on states that is reflexive and transitive and holds across every iteration
  holds across the loop.
\<close>

lemma forTx_rel:
  assumes step: "\<And>x s s' u. x \<in> set xs \<Longrightarrow> body x s = Inr (u, s') \<Longrightarrow> R s s'"
    and refl: "\<And>s. R s s" and trans: "\<And>a b c. R a b \<Longrightarrow> R b c \<Longrightarrow> R a c"
    and run: "forTx xs body s = Inr (v, s')"
  shows "R s s'"
  using step run
proof (induction xs arbitrary: s)
  case Nil
  then show ?case using refl by simp
next
  case (Cons x xs)
  from Cons.prems(2) obtain u t where "body x s = Inr (u, t)" and rest: "forTx xs body t = Inr (v, s')"
    by (auto simp: bindTx_eq_Inr)
  then have "R s t" by (intro Cons.prems(1)) simp_all
  moreover have "R t s'"
    by (rule Cons.IH [OF _ rest], rule Cons.prems(1)) auto
  ultimately show ?case by (rule trans)
qed

section \<open>64-bit integers\<close>

text \<open>
  \<open>wrap64\<close> is the value an \<^verbatim>\<open>int64\<close> (or a 64-bit \<^verbatim>\<open>int\<close>) holds after an operation whose
  exact result is its argument. Counters that only ever grow by one from one (message
  sequences, revisions, envelope counts) are plain \<open>int\<close>: \<open>2\<^sup>6\<^sup>3\<close> increments do not happen.
  Products and sums of values that arrive from outside are wrapped.
\<close>

definition wrap64 :: "int \<Rightarrow> int" where
  "wrap64 i = (i + 2 ^ 63) mod 2 ^ 64 - 2 ^ 63"

lemma wrap64_id: "- (2 ^ 63) \<le> i \<Longrightarrow> i < 2 ^ 63 \<Longrightarrow> wrap64 i = i"
  by (simp add: wrap64_def)

lemma wrap64_range: "- (2 ^ 63) \<le> wrap64 i" "wrap64 i < 2 ^ 63"
proof -
  have "0 \<le> (i + 2 ^ 63) mod 2 ^ 64" and "(i + 2 ^ 63) mod 2 ^ 64 < (2::int) ^ 64"
    by simp_all
  then show "- (2 ^ 63) \<le> wrap64 i" "wrap64 i < 2 ^ 63"
    by (simp_all add: wrap64_def)
qed

text \<open>Go's integer division truncates towards zero.\<close>

definition quot :: "int \<Rightarrow> int \<Rightarrow> int" where
  "quot a b = sgn a * sgn b * (\<bar>a\<bar> div \<bar>b\<bar>)"

definition rem64 :: "int \<Rightarrow> int \<Rightarrow> int" where
  "rem64 a b = a - b * quot a b"

lemma quot_nonneg: "0 \<le> a \<Longrightarrow> 0 < b \<Longrightarrow> quot a b = a div b"
  by (simp add: quot_def sgn_if)

lemma rem64_nonneg: "0 \<le> a \<Longrightarrow> 0 < b \<Longrightarrow> rem64 a b = a mod b"
  by (simp add: rem64_def quot_nonneg minus_mult_div_eq_mod)

subsection \<open>time.Duration and time.Time\<close>

text \<open>
  A \<^verbatim>\<open>time.Duration\<close> is an \<^verbatim>\<open>int64\<close> count of nanoseconds. A \<^verbatim>\<open>time.Time\<close> is an \<open>int\<close> count
  of nanoseconds since the zero time (year 1), so \<^verbatim>\<open>IsZero\<close> is \<open>= 0\<close> and \<^verbatim>\<open>UTC\<close> is the
  identity; \<^verbatim>\<open>Add\<close> is exact and \<^verbatim>\<open>Sub\<close> saturates, as the \<^verbatim>\<open>time\<close> package documents.
\<close>

type_synonym duration = int
type_synonym goTime = int

definition nanosecond :: duration where "nanosecond = 1"
definition second :: duration where "second = 1000000000"
definition minute :: duration where "minute = 60 * second"
definition hour :: duration where "hour = 60 * minute"

definition seconds :: "int \<Rightarrow> duration" where
  "seconds n = wrap64 (n * second)"

definition timeAdd :: "goTime \<Rightarrow> duration \<Rightarrow> goTime" where
  "timeAdd t d = t + d"

definition timeSub :: "goTime \<Rightarrow> goTime \<Rightarrow> duration" where
  "timeSub t u = max (- (2 ^ 63)) (min (2 ^ 63 - 1) (t - u))"

definition timeAfter :: "goTime \<Rightarrow> goTime \<Rightarrow> bool" where
  "timeAfter t u \<longleftrightarrow> u < t"

definition timeIsZero :: "goTime \<Rightarrow> bool" where
  "timeIsZero t \<longleftrightarrow> t = 0"

lemma seconds_exact: "0 \<le> n \<Longrightarrow> n \<le> 9223372036 \<Longrightarrow> seconds n = n * 1000000000"
  by (simp add: seconds_def second_def wrap64_id)

lemma timeSub_le_iff:
  "d < 2 ^ 63 - 1 \<Longrightarrow> - (2 ^ 63) \<le> d \<Longrightarrow> timeSub t u \<le> d \<longleftrightarrow> t - u \<le> d"
  by (auto simp: timeSub_def)

section \<open>Lists\<close>

lemma drop_nth_Cons: "i < length xs \<Longrightarrow> drop i xs = xs ! i # drop (Suc i) xs"
  by (simp add: Cons_nth_drop_Suc)

text \<open>The integers from \<open>a\<close> through \<open>b\<close>, in order: a Go loop \<^verbatim>\<open>for i := a; i <= b; i++\<close>.\<close>

definition range64 :: "int \<Rightarrow> int \<Rightarrow> int list" where
  "range64 a b = map (\<lambda>i. a + int i) [0..<nat (b - a + 1)]"

lemma set_range64 [simp]: "set (range64 a b) = {a..b}"
proof
  show "set (range64 a b) \<subseteq> {a..b}" by (auto simp: range64_def)
  show "{a..b} \<subseteq> set (range64 a b)"
  proof
    fix x assume "x \<in> {a..b}"
    then have "x = a + int (nat (x - a))" and "nat (x - a) < nat (b - a + 1)" by auto
    then show "x \<in> set (range64 a b)" unfolding range64_def by (auto intro!: image_eqI [of _ _ "nat (x - a)"])
  qed
qed

lemma length_range64 [simp]: "length (range64 a b) = nat (b - a + 1)"
  by (simp add: range64_def)

lemma distinct_range64 [simp]: "distinct (range64 a b)"
  by (simp add: range64_def distinct_map inj_on_def)

lemma range64_empty [simp]: "b < a \<Longrightarrow> range64 a b = []"
  by (simp add: range64_def)

lemma nth_range64 [simp]: "i < nat (b - a + 1) \<Longrightarrow> range64 a b ! i = a + int i"
  by (simp add: range64_def)

lemma range64_Cons: "a \<le> b \<Longrightarrow> range64 a b = a # range64 (a + 1) b"
  by (rule nth_equalityI) (auto simp: nth_Cons split: nat.splits)

lemma range64_snoc: "a \<le> b \<Longrightarrow> range64 a b = range64 a (b - 1) @ [b]"
  by (rule nth_equalityI) (auto simp: nth_append)

end
