(* ===== verification/GoText.thy ===== *)
theory GoText
  imports Prelude
begin

text \<open>
  Go strings. A \<open>string\<close> is a list of bytes (\<open>char\<close> is an 8-bit character), as in Go, where
  \<^verbatim>\<open>len\<close> counts bytes. This theory holds what the repository uses of the packages
  \<^verbatim>\<open>unicode/utf8\<close>, \<^verbatim>\<open>strings\<close>, \<^verbatim>\<open>fmt\<close> (the verb \<^verbatim>\<open>%d\<close>) and \<^verbatim>\<open>encoding/json\<close> (writing one
  string), and the facts about them the components need: decoding loses no byte, trimming
  only shortens, a decimal rendering determines its number.
\<close>

section \<open>UTF-8\<close>

abbreviation byte :: "char \<Rightarrow> int" where
  "byte c \<equiv> of_char c"

definition runeError :: int where
  "runeError = 0xFFFD"

definition inRange :: "int \<Rightarrow> int \<Rightarrow> int \<Rightarrow> bool" where
  "inRange lo hi b \<longleftrightarrow> lo \<le> b \<and> b \<le> hi"

definition cont :: "int \<Rightarrow> bool" where
  "cont b \<longleftrightarrow> inRange 0x80 0xBF b"

text \<open>
  \<^verbatim>\<open>utf8.DecodeRuneInString\<close>: the first rune and its width; an invalid first byte is
  \<^verbatim>\<open>RuneError\<close> of width one.
\<close>

fun decodeRune :: "string \<Rightarrow> int \<times> nat" where
  "decodeRune [] = (runeError, 0)"
| "decodeRune (c # cs) =
     (let b0 = byte c in
      if b0 < 0x80 then (b0, 1)
      else if inRange 0xC2 0xDF b0 then
        (case cs of
           c1 # _ \<Rightarrow> if cont (byte c1) then ((b0 - 0xC0) * 64 + (byte c1 - 0x80), 2) else (runeError, 1)
         | _ \<Rightarrow> (runeError, 1))
      else if inRange 0xE0 0xEF b0 then
        (case cs of
           c1 # c2 # _ \<Rightarrow>
             if inRange (if b0 = 0xE0 then 0xA0 else 0x80) (if b0 = 0xED then 0x9F else 0xBF) (byte c1)
                \<and> cont (byte c2)
             then ((b0 - 0xE0) * 4096 + (byte c1 - 0x80) * 64 + (byte c2 - 0x80), 3)
             else (runeError, 1)
         | _ \<Rightarrow> (runeError, 1))
      else if inRange 0xF0 0xF4 b0 then
        (case cs of
           c1 # c2 # c3 # _ \<Rightarrow>
             if inRange (if b0 = 0xF0 then 0x90 else 0x80) (if b0 = 0xF4 then 0x8F else 0xBF) (byte c1)
                \<and> cont (byte c2) \<and> cont (byte c3)
             then ((b0 - 0xF0) * 262144 + (byte c1 - 0x80) * 4096 + (byte c2 - 0x80) * 64 + (byte c3 - 0x80), 4)
             else (runeError, 1)
         | _ \<Rightarrow> (runeError, 1))
      else (runeError, 1))"

lemma decodeRune_width_pos: "s \<noteq> [] \<Longrightarrow> 0 < snd (decodeRune s)"
  by (cases s) (auto simp: Let_def split: list.splits)

declare decodeRune.simps(2) [simp del]

text \<open>A string cut into its runes: each rune with the bytes it was decoded from.\<close>

function segs :: "string \<Rightarrow> (int \<times> string) list" where
  "segs s =
     (if s = [] then []
      else (case decodeRune s of (r, n) \<Rightarrow> (r, take n s) # segs (drop n s)))"
  by pat_completeness auto
termination
proof (relation "measure length", goal_cases)
  case (2 s x y)
  then have "0 < y" using decodeRune_width_pos [of s] by (metis snd_conv)
  with 2 show ?case by simp
qed simp

declare segs.simps [simp del]

lemma segs_Nil [simp]: "segs [] = []"
  by (simp add: segs.simps)

lemma segs_eq_Nil_iff [simp]: "segs s = [] \<longleftrightarrow> s = []"
  by (subst segs.simps) (auto split: prod.split)

lemma concat_segs [simp]: "concat (map snd (segs s)) = s"
proof (induction s rule: segs.induct)
  case (1 s)
  show ?case
  proof (cases "s = []")
    case False
    obtain r n where "decodeRune s = (r, n)" by (cases "decodeRune s")
    with False "1.IH" show ?thesis by (simp add: segs.simps [of s])
  qed simp
qed

definition runes :: "string \<Rightarrow> int list" where
  "runes s = map fst (segs s)"

definition runeCount :: "string \<Rightarrow> nat" where
  "runeCount s = length (segs s)"

definition validUTF8 :: "string \<Rightarrow> bool" where
  "validUTF8 s \<longleftrightarrow> list_all (\<lambda>(r, b). \<not> (r = runeError \<and> length b = 1)) (segs s)"

text \<open>\<^verbatim>\<open>string([]rune)\<close>: each rune written as UTF-8, an invalid one as \<^verbatim>\<open>RuneError\<close>.\<close>

definition encodeRune :: "int \<Rightarrow> string" where
  "encodeRune rune =
     (let r = (if rune < 0 \<or> rune > 0x10FFFF \<or> inRange 0xD800 0xDFFF rune then runeError else rune) in
      if r < 0x80 then [char_of r]
      else if r < 0x800 then [char_of (0xC0 + r div 64), char_of (0x80 + r mod 64)]
      else if r < 0x10000 then
        [char_of (0xE0 + r div 4096), char_of (0x80 + r div 64 mod 64), char_of (0x80 + r mod 64)]
      else
        [char_of (0xF0 + r div 262144), char_of (0x80 + r div 4096 mod 64),
         char_of (0x80 + r div 64 mod 64), char_of (0x80 + r mod 64)])"

definition ofRunes :: "int list \<Rightarrow> string" where
  "ofRunes rs = concat (map encodeRune rs)"

section \<open>strings\<close>

text \<open>\<^verbatim>\<open>unicode.IsSpace\<close>.\<close>

definition isSpaceRune :: "int \<Rightarrow> bool" where
  "isSpaceRune r \<longleftrightarrow>
     r \<in> {9, 10, 11, 12, 13, 32, 0x85, 0xA0, 0x1680, 0x2028, 0x2029, 0x202F, 0x205F, 0x3000} \<or>
     inRange 0x2000 0x200A r"

definition spaceSeg :: "int \<times> string \<Rightarrow> bool" where
  "spaceSeg seg = isSpaceRune (fst seg)"

text \<open>\<^verbatim>\<open>strings.TrimSpace\<close>.\<close>

definition trimSpace :: "string \<Rightarrow> string" where
  "trimSpace s =
     concat (map snd (rev (dropWhile spaceSeg (rev (dropWhile spaceSeg (segs s))))))"

lemma length_concat_dropWhile:
  "length (concat (map snd (dropWhile P xs))) \<le> length (concat (map snd xs))"
  by (induction xs) auto

lemma length_concat_rev: "length (concat (rev xss)) = length (concat xss)"
  by (induction xss) auto

lemma length_trimSpace: "length (trimSpace s) \<le> length s"
proof -
  let ?a = "dropWhile spaceSeg (segs s)"
  have "length (trimSpace s) = length (concat (map snd (dropWhile spaceSeg (rev ?a))))"
    by (simp add: trimSpace_def rev_map [symmetric] length_concat_rev)
  also have "\<dots> \<le> length (concat (map snd (rev ?a)))" by (rule length_concat_dropWhile)
  also have "\<dots> = length (concat (map snd ?a))" by (simp add: rev_map [symmetric] length_concat_rev)
  also have "\<dots> \<le> length (concat (map snd (segs s)))" by (rule length_concat_dropWhile)
  also have "\<dots> = length s" by simp
  finally show ?thesis .
qed

lemma trimSpace_Nil [simp]: "trimSpace [] = []"
  by (simp add: trimSpace_def)

lemma decodeRune_snoc:
  assumes "s \<noteq> []" and "byte c < 128"
  shows "decodeRune (s @ [c]) = decodeRune s"
proof -
  have nc: "\<not> cont (byte c)" "\<And>lo hi. 128 \<le> lo \<Longrightarrow> \<not> inRange lo hi (byte c)"
    using assms(2) by (simp_all add: cont_def inRange_def)
  from assms(1) obtain c0 cs where s: "s = c0 # cs" by (cases s) auto
  show ?thesis
    unfolding s append_Cons decodeRune.simps Let_def
    by (cases cs; simp add: nc; cases "tl cs"; simp add: nc; cases "tl (tl cs)"; simp add: nc split: list.splits)
qed

lemma segs_snoc:
  assumes "byte c < 128"
  shows "segs (s @ [c]) = segs s @ [(byte c, [c])]"
proof (induction s rule: segs.induct)
  case (1 s)
  show ?case
  proof (cases "s = []")
    case True
    then show ?thesis using assms by (simp add: segs.simps [of "[c]"] decodeRune.simps(2))
  next
    case False
    obtain r n where rn: "decodeRune s = (r, n)" by (cases "decodeRune s")
    have n: "n \<le> length s" using rn False by (cases s) (auto simp: decodeRune.simps(2) Let_def split: list.splits if_splits)
    from False rn n "1.IH" decodeRune_snoc [OF False assms] show ?thesis
      by (simp add: segs.simps [of s] segs.simps [of "s @ [c]"])
  qed
qed

lemma segs_Cons_ascii:
  assumes "byte c < 128"
  shows "segs (c # s) = (byte c, [c]) # segs s"
  using assms by (simp add: segs.simps [of "c # s"] decodeRune.simps(2))

lemma trimSpace_keeps:
  assumes "byte c < 128" "\<not> isSpaceRune (byte c)" "byte d < 128" "\<not> isSpaceRune (byte d)"
  shows "trimSpace (c # s @ [d]) = c # s @ [d]"
  using assms concat_segs [of s]
  by (simp add: trimSpace_def segs_Cons_ascii segs_snoc spaceSeg_def)

text \<open>\<^verbatim>\<open>strings.Fields\<close>: the maximal runs of non-space runes.\<close>

function fieldsSegs :: "(int \<times> string) list \<Rightarrow> string list" where
  "fieldsSegs xs =
     (let ys = dropWhile spaceSeg xs in
      if ys = [] then []
      else concat (map snd (takeWhile (\<lambda>x. \<not> spaceSeg x) ys))
           # fieldsSegs (dropWhile (\<lambda>x. \<not> spaceSeg x) ys))"
  by pat_completeness auto
termination
proof (relation "measure length", goal_cases)
  case (2 xs ys)
  then have ys: "ys = dropWhile spaceSeg xs" "ys \<noteq> []" by simp_all
  then have hd: "\<not> spaceSeg (hd ys)" using hd_dropWhile [of spaceSeg xs] by simp
  from ys(2) obtain z zs where z: "ys = z # zs" by (cases ys) simp_all
  with hd have "dropWhile (\<lambda>x. \<not> spaceSeg x) ys = dropWhile (\<lambda>x. \<not> spaceSeg x) zs" by simp
  then have "length (dropWhile (\<lambda>x. \<not> spaceSeg x) ys) < length ys"
    using length_dropWhile_le [of "\<lambda>x. \<not> spaceSeg x" zs] z by simp
  also have "length ys \<le> length xs" unfolding ys(1) by (rule length_dropWhile_le)
  finally show ?case by simp
qed simp

declare fieldsSegs.simps [simp del]

definition stringFields :: "string \<Rightarrow> string list" where
  "stringFields s = fieldsSegs (segs s)"

text \<open>\<^verbatim>\<open>strings.Join\<close>.\<close>

fun joinStrings :: "string list \<Rightarrow> string \<Rightarrow> string" where
  "joinStrings [] sep = []"
| "joinStrings [x] sep = x"
| "joinStrings (x # y # ys) sep = x @ sep @ joinStrings (y # ys) sep"

text \<open>\<^verbatim>\<open>strings.EqualFold\<close> with an ASCII text: two more runes fold to ASCII letters.\<close>

definition foldRune :: "int \<Rightarrow> int" where
  "foldRune r = (if inRange 65 90 r then r + 32 else if r = 0x17F then 115 else if r = 0x212A then 107 else r)"

definition equalFold :: "string \<Rightarrow> string \<Rightarrow> bool" where
  "equalFold s t \<longleftrightarrow> map foldRune (runes s) = map foldRune (runes t)"

text \<open>\<^verbatim>\<open>strings.Cut\<close> at a one-byte separator: before, after, found.\<close>

definition cut :: "string \<Rightarrow> char \<Rightarrow> string \<times> string \<times> bool" where
  "cut s c =
     (if c \<in> set s then (takeWhile (\<lambda>x. x \<noteq> c) s, tl (dropWhile (\<lambda>x. x \<noteq> c) s), True)
      else (s, [], False))"

lemma cut_found: "cut s c = (a, b, True) \<Longrightarrow> s = a @ c # b \<and> c \<notin> set a"
proof -
  assume "cut s c = (a, b, True)"
  then have c: "c \<in> set s" and a: "a = takeWhile (\<lambda>x. x \<noteq> c) s"
    and b: "b = tl (dropWhile (\<lambda>x. x \<noteq> c) s)"
    by (auto simp: cut_def split: if_splits)
  from c have "dropWhile (\<lambda>x. x \<noteq> c) s \<noteq> []" by (auto simp: dropWhile_eq_Nil_conv)
  moreover from this have "hd (dropWhile (\<lambda>x. x \<noteq> c) s) = c" using hd_dropWhile by blast
  ultimately have "dropWhile (\<lambda>x. x \<noteq> c) s = c # b" using b by (metis list.collapse)
  then show ?thesis using a takeWhile_dropWhile_id [of "\<lambda>x. x \<noteq> c" s]
    by (auto dest: set_takeWhileD)
qed

section \<open>Decimal numbers: fmt's verb d\<close>

definition digitChar :: "nat \<Rightarrow> char" where
  "digitChar d = char_of (48 + d)"

fun showNat :: "nat \<Rightarrow> string" where
  "showNat n = (if n < 10 then [digitChar n] else showNat (n div 10) @ [digitChar (n mod 10)])"

declare showNat.simps [simp del]

definition showInt :: "int \<Rightarrow> string" where
  "showInt i = (if i < 0 then CHR ''-'' # showNat (nat (- i)) else showNat (nat i))"

definition readNat :: "string \<Rightarrow> nat" where
  "readNat s = foldl (\<lambda>a c. 10 * a + (of_char c - 48)) 0 s"

lemma of_char_digitChar [simp]: "d < 10 \<Longrightarrow> of_char (digitChar d) = 48 + d"
  by (simp add: digitChar_def)

lemma readNat_showNat [simp]: "readNat (showNat n) = n"
proof (induction n rule: showNat.induct)
  case (1 n)
  show ?case
  proof (cases "n < 10")
    case True
    then show ?thesis by (simp add: showNat.simps [of n] readNat_def)
  next
    case False
    with "1.IH" have "foldl (\<lambda>a c. 10 * a + (of_char c - 48)) 0 (showNat (n div 10)) = n div 10"
      by (simp add: readNat_def)
    with False show ?thesis by (simp add: showNat.simps [of n] readNat_def)
  qed
qed

lemma showNat_inject [simp]: "showNat m = showNat n \<longleftrightarrow> m = n"
  by (metis readNat_showNat)

lemma showNat_digits: "c \<in> set (showNat n) \<Longrightarrow> \<exists>d < 10. c = digitChar d"
proof (induction n rule: showNat.induct)
  case (1 n)
  show ?case
  proof (cases "n < 10")
    case True
    with 1 show ?thesis by (auto simp: showNat.simps [of n])
  next
    case False
    with 1(2) have "c \<in> set (showNat (n div 10)) \<or> c = digitChar (n mod 10)"
      by (auto simp: showNat.simps [of n])
    with False 1(1) show ?thesis by (auto intro: exI [of _ "n mod 10"])
  qed
qed

lemma minus_not_digit: "d < 10 \<Longrightarrow> digitChar d \<noteq> CHR ''-''"
proof
  assume "d < 10" and "digitChar d = CHR ''-''"
  then have "48 + d = of_char CHR ''-''" using of_char_digitChar [of d] by simp
  then show False by simp
qed

lemma showNat_not_minus: "showNat n \<noteq> CHR ''-'' # s"
proof
  assume "showNat n = CHR ''-'' # s"
  then have "CHR ''-'' \<in> set (showNat n)" by simp
  then show False using showNat_digits minus_not_digit by metis
qed

lemma showInt_inject [simp]: "showInt i = showInt j \<longleftrightarrow> i = j"
  by (auto simp: showInt_def showNat_not_minus showNat_not_minus [symmetric] split: if_splits)

section \<open>Writing JSON strings\<close>

definition hexDigit :: "int \<Rightarrow> char" where
  "hexDigit d = (if d < 10 then char_of (48 + d) else char_of (87 + d))"

definition unicodeEscape :: "int \<Rightarrow> string" where
  "unicodeEscape r =
     [CHR 92, CHR ''u''] @ map hexDigit [r div 4096 mod 16, r div 256 mod 16, r div 16 mod 16, r mod 16]"

text \<open>
  One rune as \<^verbatim>\<open>json.Marshal\<close> writes it: two-character escapes, \<^verbatim>\<open>\u00xx\<close> for the other
  control bytes and for the HTML characters, an invalid byte as \<^verbatim>\<open>\ufffd\<close>.
\<close>

definition jsonRune :: "int \<times> string \<Rightarrow> string" where
  "jsonRune seg =
     (case seg of (r, b) \<Rightarrow>
      if r = 34 then [CHR 92, CHR 34]
      else if r = 92 then [CHR 92, CHR 92]
      else if r = 8 then [CHR 92, CHR ''b'']
      else if r = 12 then [CHR 92, CHR ''f'']
      else if r = 10 then [CHR 92, CHR ''n'']
      else if r = 13 then [CHR 92, CHR ''r'']
      else if r = 9 then [CHR 92, CHR ''t'']
      else if r < 32 \<or> r = 60 \<or> r = 62 \<or> r = 38 then unicodeEscape r
      else if r = runeError \<and> length b = 1 then unicodeEscape runeError
      else if r = 0x2028 \<or> r = 0x2029 then unicodeEscape r
      else b)"

definition jsonString :: "string \<Rightarrow> string" where
  "jsonString s = [CHR 34] @ concat (map jsonRune (segs s)) @ [CHR 34]"

end
