(* ===== verification/Float64.thy ===== *)
theory Float64
  imports GoText
begin

text \<open>
  Go's \<^verbatim>\<open>float64\<close>, as far as the compaction budgets use it: conversion from an integer,
  one multiplication, comparison and conversion back. A finite value is a mantissa and a
  binary exponent; results are rounded to 53 bits, to nearest and ties to even, as IEEE 754
  prescribes (the sign of zero is not kept: nothing in the repository observes it).
\<close>

datatype float64 = Finite int int | PosInf | NegInf | NaN

function bitLength :: "int \<Rightarrow> nat" where
  "bitLength n = (if n \<le> 0 then 0 else Suc (bitLength (n div 2)))"
  by auto
termination by (relation "measure nat") auto

declare bitLength.simps [simp del]

lemma bitLength_bounds: "n < 2 ^ bitLength n" "0 < n \<Longrightarrow> 2 ^ (bitLength n - 1) \<le> n"
proof (induction n rule: bitLength.induct)
  case (1 n)
  {
    case 1
    then show ?case using "1.IH"(1) by (cases "n \<le> 0") (auto simp: bitLength.simps [of n])
  next
    case 2
    then have step: "bitLength n = Suc (bitLength (n div 2))" by (simp add: bitLength.simps [of n])
    show ?case
    proof (cases "n div 2 = 0")
      case True
      with 2 step show ?thesis by (simp add: bitLength.simps)
    next
      case False
      with "1.IH"(2) 2 have le: "2 ^ (bitLength (n div 2) - 1) \<le> n div 2" by simp
      have "bitLength (n div 2) \<noteq> 0" using False 2 by (subst bitLength.simps) simp
      then have "2 ^ bitLength (n div 2) = 2 * (2::int) ^ (bitLength (n div 2) - 1)"
        by (cases "bitLength (n div 2)") simp_all
      with le step show ?thesis by simp
    qed
  }
qed

text \<open>A magnitude divided by \<open>2 ^ k\<close>, rounded to nearest, ties to even.\<close>

definition roundNE :: "int \<Rightarrow> nat \<Rightarrow> int" where
  "roundNE a k =
     (let q = a div 2 ^ k; r = a mod 2 ^ k in
      if 2 * r < 2 ^ k \<or> (2 * r = 2 ^ k \<and> even q) then q else q + 1)"

lemma roundNE_le:
  assumes "a \<le> b * 2 ^ k"
  shows "roundNE a k \<le> b"
proof -
  from zdiv_mono1 [OF assms, of "2 ^ k"] have div: "a div 2 ^ k \<le> b" by simp
  show ?thesis
  proof (cases "a div 2 ^ k = b")
    case True
    have "0 \<le> a mod 2 ^ k" by simp
    moreover have "b * 2 ^ k + a mod 2 ^ k = a" using div_mult_mod_eq [of a "2 ^ k"] True by simp
    ultimately have "a mod 2 ^ k = 0" using assms by linarith
    with True show ?thesis by (simp add: roundNE_def)
  next
    case False
    with div show ?thesis by (simp add: roundNE_def Let_def)
  qed
qed

definition roundFloat :: "int \<Rightarrow> int \<Rightarrow> float64" where
  "roundFloat m e =
     (let a = \<bar>m\<bar>;
          k = nat (max (int (bitLength a) - 53) (- 1074 - e));
          q = (if k = 0 then a else roundNE a k);
          e' = e + int k
      in if int (bitLength q) + e' > 1024 then (if m < 0 then NegInf else PosInf)
         else Finite (sgn m * q) e')"

definition floatOfInt :: "int \<Rightarrow> float64" where
  "floatOfInt n = roundFloat n 0"

fun floatSign :: "float64 \<Rightarrow> int" where
  "floatSign (Finite m e) = sgn m"
| "floatSign PosInf = 1"
| "floatSign NegInf = -1"
| "floatSign NaN = 0"

fun floatMult :: "float64 \<Rightarrow> float64 \<Rightarrow> float64" where
  "floatMult (Finite m e) (Finite m' e') = roundFloat (m * m') (e + e')"
| "floatMult NaN y = NaN"
| "floatMult x NaN = NaN"
| "floatMult x y =
     (let s = floatSign x * floatSign y in if s = 0 then NaN else if s < 0 then NegInf else PosInf)"

text \<open>\<^verbatim>\<open>x < y\<close>: every comparison with NaN is false.\<close>

fun floatLess :: "float64 \<Rightarrow> float64 \<Rightarrow> bool" where
  "floatLess (Finite m e) (Finite m' e') \<longleftrightarrow>
     m * 2 ^ nat (e - min e e') < m' * 2 ^ nat (e' - min e e')"
| "floatLess NaN y \<longleftrightarrow> False"
| "floatLess x NaN \<longleftrightarrow> False"
| "floatLess NegInf y \<longleftrightarrow> y \<noteq> NegInf"
| "floatLess x NegInf \<longleftrightarrow> False"
| "floatLess PosInf y \<longleftrightarrow> False"
| "floatLess x PosInf \<longleftrightarrow> True"

fun floatLessEq :: "float64 \<Rightarrow> float64 \<Rightarrow> bool" where
  "floatLessEq NaN y \<longleftrightarrow> False"
| "floatLessEq x NaN \<longleftrightarrow> False"
| "floatLessEq x y \<longleftrightarrow> \<not> floatLess y x"

definition isFinite :: "float64 \<Rightarrow> bool" where
  "isFinite x \<longleftrightarrow> (case x of Finite m e \<Rightarrow> True | _ \<Rightarrow> False)"

text \<open>
  \<^verbatim>\<open>int(x)\<close> truncates towards zero. Outside the range of \<^verbatim>\<open>int\<close> the language leaves the
  value to the implementation; this is the one of amd64.
\<close>

definition intOfFloat :: "float64 \<Rightarrow> int" where
  "intOfFloat x =
     (case x of
        Finite m e \<Rightarrow>
          let i = (if 0 \<le> e then m * 2 ^ nat e else Prelude.quot m (2 ^ nat (- e)))
          in if - (2 ^ 63) \<le> i \<and> i < 2 ^ 63 then i else - (2 ^ 63)
      | _ \<Rightarrow> - (2 ^ 63))"

definition floatOne :: float64 where "floatOne = Finite 1 0"
definition floatZero :: float64 where "floatZero = Finite 0 0"

text \<open>The 53-bit values of the literals \<^verbatim>\<open>0.85\<close> and \<^verbatim>\<open>0.10\<close>.\<close>

definition float085 :: float64 where "float085 = Finite 7656119366529843 (- 53)"
definition float010 :: float64 where "float010 = Finite 3602879701896397 (- 55)"

text \<open>A small non-negative integer is converted exactly.\<close>

lemma floatOfInt_exact:
  assumes "0 \<le> n" and "n < 2 ^ 53"
  shows "floatOfInt n = Finite n 0"
proof -
  have "bitLength n \<le> 53"
  proof (rule ccontr)
    assume "\<not> bitLength n \<le> 53"
    then have le: "53 \<le> bitLength n - 1" and pos: "0 < n" using assms(1) by (auto simp: bitLength.simps [of n] split: if_splits)
    have "(2::int) ^ 53 \<le> 2 ^ (bitLength n - 1)" using le by (intro power_increasing) simp_all
    also have "\<dots> \<le> n" using pos by (rule bitLength_bounds(2))
    finally show False using assms(2) by simp
  qed
  with assms show ?thesis
    by (cases "n = 0") (simp_all add: floatOfInt_def roundFloat_def Let_def bitLength.simps [of 0])
qed

end
