(* ===== verification/Json.thy ===== *)
theory Json
  imports GoText
begin

text \<open>
  \<^verbatim>\<open>json.Valid\<close> of the package \<^verbatim>\<open>encoding/json\<close>: a scanner that reads one byte at a time
  and keeps a state and a stack of the composites that are open. It is a total fold over the
  bytes, so it needs no fuel; nesting deeper than 10000 is an error, as in the package.
\<close>

datatype jsonOpen = ObjectKey | ObjectValue | ArrayValue

datatype jsonState =
    BeginValue | BeginValueOrEmpty | BeginString | BeginStringOrEmpty | EndValue
  | InString | InStringEsc | InStringHex nat
  | InNeg | InZero | InDigits | InDot | InFraction | InExp | InExpSign | InExpDigits
  | InLiteral string

type_synonym jsonScanner = "jsonState \<times> jsonOpen list"

definition maxNestingDepth :: nat where "maxNestingDepth = 10000"

definition isJsonSpace :: "char \<Rightarrow> bool" where
  "isJsonSpace c \<longleftrightarrow> byte c \<in> {32, 9, 13, 10}"

definition isDigit :: "char \<Rightarrow> bool" where
  "isDigit c \<longleftrightarrow> inRange 48 57 (byte c)"

definition isHex :: "char \<Rightarrow> bool" where
  "isHex c \<longleftrightarrow> inRange 48 57 (byte c) \<or> inRange 97 102 (byte c) \<or> inRange 65 70 (byte c)"

definition pushOpen :: "jsonState \<Rightarrow> jsonOpen \<Rightarrow> jsonOpen list \<Rightarrow> jsonScanner option" where
  "pushOpen st new stack =
     (if length stack < maxNestingDepth then Some (st, new # stack) else None)"

definition beginValue :: "char \<Rightarrow> jsonOpen list \<Rightarrow> jsonScanner option" where
  "beginValue c stack =
     (if isJsonSpace c then Some (BeginValue, stack)
      else if c = CHR ''{'' then pushOpen BeginStringOrEmpty ObjectKey stack
      else if c = CHR ''['' then pushOpen BeginValueOrEmpty ArrayValue stack
      else if byte c = 34 then Some (InString, stack)
      else if c = CHR ''-'' then Some (InNeg, stack)
      else if c = CHR ''0'' then Some (InZero, stack)
      else if c = CHR ''t'' then Some (InLiteral ''rue'', stack)
      else if c = CHR ''f'' then Some (InLiteral ''alse'', stack)
      else if c = CHR ''n'' then Some (InLiteral ''ull'', stack)
      else if isDigit c then Some (InDigits, stack)
      else None)"

text \<open>After a complete value: what may follow depends on the innermost open composite.\<close>

definition endValue :: "char \<Rightarrow> jsonOpen list \<Rightarrow> jsonScanner option" where
  "endValue c stack =
     (if isJsonSpace c then Some (EndValue, stack)
      else (case stack of
        [] \<Rightarrow> None
      | ObjectKey # rest \<Rightarrow> if c = CHR '':'' then Some (BeginValue, ObjectValue # rest) else None
      | ObjectValue # rest \<Rightarrow>
          if c = CHR '','' then Some (BeginString, ObjectKey # rest)
          else if c = CHR ''}'' then Some (EndValue, rest) else None
      | ArrayValue # rest \<Rightarrow>
          if c = CHR '','' then Some (BeginValue, ArrayValue # rest)
          else if c = CHR '']'' then Some (EndValue, rest) else None))"

definition isEscape :: "char \<Rightarrow> bool" where
  "isEscape c \<longleftrightarrow> byte c \<in> {98, 102, 110, 114, 116, 92, 47, 34}"

fun scanByte :: "char \<Rightarrow> jsonScanner \<Rightarrow> jsonScanner option" where
  "scanByte c (BeginValue, stack) = beginValue c stack"
| "scanByte c (BeginValueOrEmpty, stack) =
     (if isJsonSpace c then Some (BeginValueOrEmpty, stack)
      else if c = CHR '']'' then endValue c stack else beginValue c stack)"
| "scanByte c (BeginString, stack) =
     (if isJsonSpace c then Some (BeginString, stack)
      else if byte c = 34 then Some (InString, stack) else None)"
| "scanByte c (BeginStringOrEmpty, stack) =
     (if isJsonSpace c then Some (BeginStringOrEmpty, stack)
      else if c = CHR ''}'' then Some (EndValue, tl stack)
      else if byte c = 34 then Some (InString, stack) else None)"
| "scanByte c (EndValue, stack) = endValue c stack"
| "scanByte c (InString, stack) =
     (if byte c = 34 then Some (EndValue, stack)
      else if byte c = 92 then Some (InStringEsc, stack)
      else if byte c < 32 then None else Some (InString, stack))"
| "scanByte c (InStringEsc, stack) =
     (if isEscape c then Some (InString, stack)
      else if c = CHR ''u'' then Some (InStringHex 4, stack) else None)"
| "scanByte c (InStringHex n, stack) =
     (if isHex c then Some (if n \<le> 1 then InString else InStringHex (n - 1), stack) else None)"
| "scanByte c (InNeg, stack) =
     (if c = CHR ''0'' then Some (InZero, stack)
      else if isDigit c then Some (InDigits, stack) else None)"
| "scanByte c (InZero, stack) =
     (if c = CHR ''.'' then Some (InDot, stack)
      else if c = CHR ''e'' \<or> c = CHR ''E'' then Some (InExp, stack) else endValue c stack)"
| "scanByte c (InDigits, stack) =
     (if isDigit c then Some (InDigits, stack)
      else if c = CHR ''.'' then Some (InDot, stack)
      else if c = CHR ''e'' \<or> c = CHR ''E'' then Some (InExp, stack) else endValue c stack)"
| "scanByte c (InDot, stack) = (if isDigit c then Some (InFraction, stack) else None)"
| "scanByte c (InFraction, stack) =
     (if isDigit c then Some (InFraction, stack)
      else if c = CHR ''e'' \<or> c = CHR ''E'' then Some (InExp, stack) else endValue c stack)"
| "scanByte c (InExp, stack) =
     (if c = CHR ''+'' \<or> c = CHR ''-'' then Some (InExpSign, stack)
      else if isDigit c then Some (InExpDigits, stack) else None)"
| "scanByte c (InExpSign, stack) = (if isDigit c then Some (InExpDigits, stack) else None)"
| "scanByte c (InExpDigits, stack) =
     (if isDigit c then Some (InExpDigits, stack) else endValue c stack)"
| "scanByte c (InLiteral rest, stack) =
     (case rest of
        [] \<Rightarrow> endValue c stack
      | x # xs \<Rightarrow> if c = x then Some (if xs = [] then EndValue else InLiteral xs, stack) else None)"

fun scanBytes :: "string \<Rightarrow> jsonScanner \<Rightarrow> jsonScanner option" where
  "scanBytes [] sc = Some sc"
| "scanBytes (c # cs) sc = (case scanByte c sc of None \<Rightarrow> None | Some sc' \<Rightarrow> scanBytes cs sc')"

text \<open>At the end of the input: one complete value has been read and nothing is open.\<close>

definition scanEnd :: "jsonScanner \<Rightarrow> bool" where
  "scanEnd sc \<longleftrightarrow>
     snd sc = [] \<and> fst sc \<in> {EndValue, InZero, InDigits, InFraction, InExpDigits}"

definition jsonValid :: "string \<Rightarrow> bool" where
  "jsonValid s \<longleftrightarrow>
     (case scanBytes s (BeginValue, []) of None \<Rightarrow> False | Some sc \<Rightarrow> scanEnd sc)"

lemma scanBytes_append:
  "scanBytes (s @ t) sc = (case scanBytes s sc of None \<Rightarrow> None | Some sc' \<Rightarrow> scanBytes t sc')"
  by (induction s arbitrary: sc) (auto split: option.split)

section \<open>Quoted strings are valid\<close>

lemma isHex_hexDigit: "0 \<le> d \<Longrightarrow> d < 16 \<Longrightarrow> isHex (hexDigit d)"
proof -
  assume d: "0 \<le> d" "d < 16"
  then have "byte (hexDigit d) = (if d < 10 then 48 + d else 87 + d)"
    by (simp add: hexDigit_def of_char_of)
  with d show ?thesis by (auto simp: isHex_def inRange_def)
qed

lemma scan_unicodeEscape:
  "scanBytes (unicodeEscape r) (InString, stack) = Some (InString, stack)"
  by (simp add: unicodeEscape_def isHex_hexDigit isEscape_def)

text \<open>
  A decoded rune takes either one ASCII byte that is the rune itself, or bytes of \<open>0x80\<close>
  and above.
\<close>

lemma decodeRune_bytes:
  "decodeRune s = (r, n) \<Longrightarrow> s \<noteq> [] \<Longrightarrow>
     (\<exists>c. take n s = [c] \<and> byte c = r \<and> r < 128) \<or> (list_all (\<lambda>c. 128 \<le> byte c) (take n s) \<and> 128 \<le> r)"
  by (cases s) (auto simp: decodeRune.simps(2) Let_def runeError_def cont_def inRange_def
    split: list.splits if_splits)

lemma scan_plain:
  "list_all (\<lambda>c. 32 \<le> byte c \<and> byte c \<noteq> 34 \<and> byte c \<noteq> 92) cs \<Longrightarrow>
     scanBytes cs (InString, stack) = Some (InString, stack)"
  by (induction cs) auto

lemma scan_jsonRune:
  assumes "decodeRune s = (r, n)" and "s \<noteq> []"
  shows "scanBytes (jsonRune (r, take n s)) (InString, stack) = Some (InString, stack)"
  using decodeRune_bytes [OF assms]
proof (elim disjE exE conjE)
  fix c assume "take n s = [c]" "byte c = r"
  then show ?thesis
    by (auto simp: jsonRune_def scan_unicodeEscape isEscape_def)
next
  assume high: "list_all (\<lambda>c. 128 \<le> byte c) (take n s)" and r: "128 \<le> r"
  have "scanBytes (take n s) (InString, stack) = Some (InString, stack)"
    by (rule scan_plain) (use high in \<open>auto simp: list_all_iff\<close>)
  with r show ?thesis by (auto simp: jsonRune_def scan_unicodeEscape)
qed

lemma scan_jsonRunes:
  "scanBytes (concat (map jsonRune (segs s))) (InString, stack) = Some (InString, stack)"
proof (induction s rule: segs.induct)
  case (1 s)
  show ?case
  proof (cases "s = []")
    case False
    obtain r n where rn: "decodeRune s = (r, n)" by (cases "decodeRune s")
    from False rn "1.IH" scan_jsonRune [OF rn False] show ?thesis
      by (simp add: segs.simps [of s] scanBytes_append)
  qed simp
qed

lemma scan_jsonString:
  assumes "st \<in> {BeginValue, BeginString}"
  shows "scanBytes (jsonString s) (st, stack) = Some (EndValue, stack)"
proof -
  have "scanByte (CHR 34) (st, stack) = Some (InString, stack)"
    using assms by (auto simp: beginValue_def isJsonSpace_def)
  then show ?thesis by (simp add: jsonString_def scanBytes_append scan_jsonRunes)
qed

section \<open>Objects and arrays\<close>

definition jsonMember :: "string \<Rightarrow> string \<Rightarrow> string" where
  "jsonMember name value = jsonString name @ '':'' @ value"

definition jsonBraces :: "string list \<Rightarrow> string" where
  "jsonBraces members = ''{'' @ joinStrings members '','' @ ''}''"

definition jsonBrackets :: "string list \<Rightarrow> string" where
  "jsonBrackets items = ''['' @ joinStrings items '','' @ '']''"

text \<open>
  \<open>jsonText d v\<close>: wherever a value may begin and \<open>d\<close> more levels may be opened, reading \<open>v\<close>
  ends just after one complete value. \<open>memberText\<close> is the same for a member of an object.
\<close>

definition valueEnd :: "jsonOpen list \<Rightarrow> jsonScanner \<Rightarrow> bool" where
  "valueEnd stack sc \<longleftrightarrow> snd sc = stack \<and> fst sc \<in> {EndValue, InZero, InDigits}"

definition jsonText :: "nat \<Rightarrow> string \<Rightarrow> bool" where
  "jsonText d v \<longleftrightarrow>
     (\<forall>stack st. length stack + d \<le> maxNestingDepth \<longrightarrow> st \<in> {BeginValue, BeginValueOrEmpty} \<longrightarrow>
        (\<exists>sc. scanBytes v (st, stack) = Some sc \<and> valueEnd stack sc))"

definition memberText :: "nat \<Rightarrow> string \<Rightarrow> bool" where
  "memberText d m \<longleftrightarrow>
     (\<forall>stack st. Suc (length stack) + d \<le> maxNestingDepth \<longrightarrow> st \<in> {BeginString, BeginStringOrEmpty} \<longrightarrow>
        (\<exists>sc. scanBytes m (st, ObjectKey # stack) = Some sc \<and> valueEnd (ObjectValue # stack) sc))"

lemma jsonTextD:
  "jsonText d v \<Longrightarrow> length stack + d \<le> maxNestingDepth \<Longrightarrow> st \<in> {BeginValue, BeginValueOrEmpty} \<Longrightarrow>
     \<exists>sc. scanBytes v (st, stack) = Some sc \<and> valueEnd stack sc"
  unfolding jsonText_def by blast

lemma memberTextD:
  "memberText d m \<Longrightarrow> Suc (length stack) + d \<le> maxNestingDepth \<Longrightarrow>
     st \<in> {BeginString, BeginStringOrEmpty} \<Longrightarrow>
     \<exists>sc. scanBytes m (st, ObjectKey # stack) = Some sc \<and> valueEnd (ObjectValue # stack) sc"
  unfolding memberText_def by blast

lemma valueEnd_scan:
  "valueEnd stack sc \<Longrightarrow> c \<in> {CHR '','', CHR ''}'', CHR '']''} \<Longrightarrow> scanByte c sc = endValue c stack"
  by (cases sc) (auto simp: valueEnd_def isDigit_def inRange_def)

lemma jsonText_string: "jsonText d (jsonString s)"
  unfolding jsonText_def
proof (intro allI impI)
  fix stack st assume "st \<in> {BeginValue, BeginValueOrEmpty}"
  then have "scanByte (CHR 34) (st, stack) = Some (InString, stack)"
    by (auto simp: beginValue_def isJsonSpace_def)
  then have "scanBytes (jsonString s) (st, stack) = Some (EndValue, stack)"
    by (simp add: jsonString_def scanBytes_append scan_jsonRunes)
  then show "\<exists>sc. scanBytes (jsonString s) (st, stack) = Some sc \<and> valueEnd stack sc"
    by (auto simp: valueEnd_def)
qed

lemma isDigit_digitChar: "d < 10 \<Longrightarrow> isDigit (digitChar d)"
proof -
  assume d: "d < 10"
  then have "byte (digitChar d) = int (48 + d)" using of_char_digitChar [OF d] by (metis of_nat_of_char)
  with d show ?thesis by (simp add: isDigit_def inRange_def)
qed

lemma digitChar_0: "digitChar 0 = CHR ''0''"
  by code_simp

lemma digitChar_inject: "d < 10 \<Longrightarrow> e < 10 \<Longrightarrow> digitChar d = digitChar e \<longleftrightarrow> d = e"
  by (metis add_left_cancel of_char_digitChar)

lemma digit_begins:
  assumes "isDigit c" and "c \<noteq> CHR ''0''" and "st \<in> {BeginValue, BeginValueOrEmpty, InNeg}"
  shows "scanByte c (st, stack) = Some (InDigits, stack)"
proof -
  have b: "48 \<le> byte c" "byte c \<le> 57" using assms(1) by (simp_all add: isDigit_def inRange_def)
  have "c \<noteq> CHR ''{''" "c \<noteq> CHR ''[''" "c \<noteq> CHR ''-''" "c \<noteq> CHR ''t''" "c \<noteq> CHR ''f''"
    "c \<noteq> CHR ''n''" "c \<noteq> CHR '']''" "\<not> isJsonSpace c" "byte c \<noteq> 34"
    using b by (auto simp: isJsonSpace_def)
  with assms show ?thesis by (elim insertE) (simp_all add: beginValue_def)
qed

lemma scan_showNat:
  assumes "st \<in> {BeginValue, BeginValueOrEmpty, InNeg}" and "0 < n"
  shows "scanBytes (showNat n) (st, stack) = Some (InDigits, stack)"
  using assms(2)
proof (induction n rule: showNat.induct)
  case (1 n)
  show ?case
  proof (cases "n < 10")
    case True
    have "digitChar n \<noteq> digitChar 0" using 1(2) True by (simp add: digitChar_inject)
    then have "digitChar n \<noteq> CHR ''0''" by (simp add: digitChar_0)
    with True assms(1) show ?thesis
      by (simp add: showNat.simps [of n] digit_begins isDigit_digitChar)
  next
    case False
    with 1 show ?thesis by (simp add: showNat.simps [of n] scanBytes_append isDigit_digitChar)
  qed
qed

lemma jsonText_int: "jsonText d (showInt i)"
  unfolding jsonText_def
proof (intro allI impI)
  fix stack st assume st: "st \<in> {BeginValue, BeginValueOrEmpty}"
  consider "i = 0" | "0 < i" | "i < 0" by linarith
  then show "\<exists>sc. scanBytes (showInt i) (st, stack) = Some sc \<and> valueEnd stack sc"
  proof cases
    case 1
    from st have "scanByte (CHR ''0'') (st, stack) = Some (InZero, stack)"
      by (auto simp: beginValue_def isJsonSpace_def)
    with 1 show ?thesis by (simp add: showInt_def showNat.simps [of 0] digitChar_0 valueEnd_def)
  next
    case 2
    with st scan_showNat [of st "nat i" stack] show ?thesis by (auto simp: showInt_def valueEnd_def)
  next
    case 3
    have "scanByte (CHR ''-'') (st, stack) = Some (InNeg, stack)"
      using st by (auto simp: beginValue_def isJsonSpace_def)
    with 3 scan_showNat [of InNeg "nat (- i)" stack] show ?thesis by (auto simp: showInt_def valueEnd_def)
  qed
qed

lemma memberText_member:
  assumes "jsonText d v"
  shows "memberText d (jsonMember name v)"
  unfolding memberText_def
proof (intro allI impI)
  fix stack :: "jsonOpen list" and st
  assume len: "Suc (length stack) + d \<le> maxNestingDepth" and st: "st \<in> {BeginString, BeginStringOrEmpty}"
  from st have "scanByte (CHR 34) (st, ObjectKey # stack) = Some (InString, ObjectKey # stack)"
    by (auto simp: isJsonSpace_def)
  then have "scanBytes (jsonString name) (st, ObjectKey # stack) = Some (EndValue, ObjectKey # stack)"
    by (simp add: jsonString_def scanBytes_append scan_jsonRunes)
  then have "scanBytes (jsonMember name v) (st, ObjectKey # stack) = scanBytes v (BeginValue, ObjectValue # stack)"
    by (simp add: jsonMember_def scanBytes_append endValue_def isJsonSpace_def)
  with assms len show "\<exists>sc. scanBytes (jsonMember name v) (st, ObjectKey # stack) = Some sc \<and>
      valueEnd (ObjectValue # stack) sc"
    by (simp add: jsonText_def)
qed

lemma scan_members:
  assumes "ms \<noteq> []" and "\<forall>m \<in> set ms. memberText d m"
    and "Suc (length stack) + d \<le> maxNestingDepth" and "st \<in> {BeginString, BeginStringOrEmpty}"
  shows "\<exists>sc. scanBytes (joinStrings ms '','') (st, ObjectKey # stack) = Some sc \<and> valueEnd (ObjectValue # stack) sc"
  using assms
proof (induction ms arbitrary: st)
  case (Cons x xs)
  then have "memberText d x" by simp
  with Cons.prems obtain sc where
    sc: "scanBytes x (st, ObjectKey # stack) = Some sc" "valueEnd (ObjectValue # stack) sc"
    using memberTextD [of d x stack st] by blast
  show ?case
  proof (cases xs)
    case Nil
    with sc show ?thesis by simp
  next
    case tail: (Cons y ys)
    have "scanByte (CHR '','') sc = Some (BeginString, ObjectKey # stack)"
      by (simp add: valueEnd_scan [OF sc(2)] endValue_def isJsonSpace_def)
    with tail sc(1) Cons.IH [of BeginString] Cons.prems show ?thesis by (simp add: scanBytes_append)
  qed
qed simp

lemma jsonText_braces:
  assumes "ms \<noteq> []" and "\<forall>m \<in> set ms. memberText d m"
  shows "jsonText (Suc d) (jsonBraces ms)"
  unfolding jsonText_def
proof (intro allI impI)
  fix stack :: "jsonOpen list" and st
  assume len: "length stack + Suc d \<le> maxNestingDepth" and st: "st \<in> {BeginValue, BeginValueOrEmpty}"
  have "scanByte (CHR ''{'') (st, stack) = Some (BeginStringOrEmpty, ObjectKey # stack)"
    using st len by (auto simp: beginValue_def isJsonSpace_def pushOpen_def)
  moreover obtain sc where "scanBytes (joinStrings ms '','') (BeginStringOrEmpty, ObjectKey # stack) = Some sc"
    and sc: "valueEnd (ObjectValue # stack) sc"
    using scan_members [OF assms, of stack BeginStringOrEmpty] len by auto
  moreover have "scanByte (CHR ''}'') sc = Some (EndValue, stack)"
    by (simp add: valueEnd_scan [OF sc] endValue_def isJsonSpace_def)
  ultimately show "\<exists>sc. scanBytes (jsonBraces ms) (st, stack) = Some sc \<and> valueEnd stack sc"
    by (simp add: jsonBraces_def scanBytes_append valueEnd_def)
qed

lemma scan_items:
  assumes "vs \<noteq> []" and "\<forall>v \<in> set vs. jsonText d v"
    and "Suc (length stack) + d \<le> maxNestingDepth" and "st \<in> {BeginValue, BeginValueOrEmpty}"
  shows "\<exists>sc. scanBytes (joinStrings vs '','') (st, ArrayValue # stack) = Some sc \<and> valueEnd (ArrayValue # stack) sc"
  using assms
proof (induction vs arbitrary: st)
  case (Cons x xs)
  then have "jsonText d x" by simp
  with Cons.prems obtain sc where
    sc: "scanBytes x (st, ArrayValue # stack) = Some sc" "valueEnd (ArrayValue # stack) sc"
    using jsonTextD [of d x "ArrayValue # stack" st] by auto
  show ?case
  proof (cases xs)
    case Nil
    with sc show ?thesis by simp
  next
    case tail: (Cons y ys)
    have "scanByte (CHR '','') sc = Some (BeginValue, ArrayValue # stack)"
      by (simp add: valueEnd_scan [OF sc(2)] endValue_def isJsonSpace_def)
    with tail sc(1) Cons.IH [of BeginValue] Cons.prems show ?thesis by (simp add: scanBytes_append)
  qed
qed simp

lemma jsonText_brackets:
  assumes "\<forall>v \<in> set vs. jsonText d v"
  shows "jsonText (Suc d) (jsonBrackets vs)"
  unfolding jsonText_def
proof (intro allI impI)
  fix stack :: "jsonOpen list" and st
  assume len: "length stack + Suc d \<le> maxNestingDepth" and st: "st \<in> {BeginValue, BeginValueOrEmpty}"
  have opened: "scanByte (CHR ''['') (st, stack) = Some (BeginValueOrEmpty, ArrayValue # stack)"
    using st len by (auto simp: beginValue_def isJsonSpace_def pushOpen_def)
  show "\<exists>sc. scanBytes (jsonBrackets vs) (st, stack) = Some sc \<and> valueEnd stack sc"
  proof (cases "vs = []")
    case True
    with opened show ?thesis
      by (simp add: jsonBrackets_def endValue_def isJsonSpace_def valueEnd_def)
  next
    case False
    with assms len obtain sc where
      "scanBytes (joinStrings vs '','') (BeginValueOrEmpty, ArrayValue # stack) = Some sc"
      and sc: "valueEnd (ArrayValue # stack) sc"
      using scan_items [of vs d stack BeginValueOrEmpty] by auto
    moreover have "scanByte (CHR '']'') sc = Some (EndValue, stack)"
      by (simp add: valueEnd_scan [OF sc] endValue_def isJsonSpace_def)
    ultimately show ?thesis using opened by (simp add: jsonBrackets_def scanBytes_append valueEnd_def)
  qed
qed

lemma jsonText_valid: "jsonText d v \<Longrightarrow> d \<le> maxNestingDepth \<Longrightarrow> jsonValid v"
  using jsonTextD [of d v "[]" BeginValue]
  by (auto simp: jsonValid_def scanEnd_def valueEnd_def)

end
