(* ===== verification/Types.thy ===== *)
theory Types
  imports Float64 Json
begin

text \<open>
  The data of \<^verbatim>\<open>internal/agent/types.go\<close>: the enumerations with their wire texts, the
  configuration, messages, durable state, plans, requests and events as records, and the
  validations of requests and configurations. The locale \<open>wire_enum\<close> is the contract of an
  enumeration that crosses a process boundary as a text; it is interpreted for each of them.
  A record field carries the prefix of its type (\<open>msg\<close>, \<open>tc\<close>, \<open>st\<close>, \<open>cfg\<close> ...); a nil slice
  is the empty list and a nil pointer is \<open>None\<close>.
\<close>

section \<open>Enumerations\<close>

text \<open>
  \<^verbatim>\<open>decodeEnum\<close> after \<^verbatim>\<open>json.Unmarshal\<close> into a string: the \<^verbatim>\<open>Validate\<close> method of the type
  is the switch over its constants.
\<close>

definition decodeEnum :: "string \<Rightarrow> ('a \<Rightarrow> string) \<Rightarrow> 'a list \<Rightarrow> string \<Rightarrow> 'a result" where
  "decodeEnum typeName toText members v =
     (case filter (\<lambda>x. toText x = v) members of
        [] \<Rightarrow> Inl (EnumValidationError typeName v)
      | x # _ \<Rightarrow> Inr x)"

locale wire_enum =
  fixes typeName :: string and toText :: "'a \<Rightarrow> string" and members :: "'a list"
  assumes distinct_texts: "distinct (map toText members)"
    and all_members: "x \<in> set members"
begin

lemma text_inject: "toText x = toText y \<longleftrightarrow> x = y"
  using distinct_texts all_members by (auto simp: distinct_map dest: inj_onD)

lemma decode_text: "decodeEnum typeName toText members (toText x) = Inr x"
proof -
  have "filter (\<lambda>y. y = x) members = [x]"
    using distinct_texts all_members [of x]
    by (induction members) (auto simp: filter_empty_conv)
  then show ?thesis by (simp add: decodeEnum_def text_inject)
qed

lemma decode_Inr_iff: "decodeEnum typeName toText members v = Inr x \<longleftrightarrow> v = toText x"
proof
  assume "decodeEnum typeName toText members v = Inr x"
  then obtain ys where "filter (\<lambda>x. toText x = v) members = x # ys"
    by (auto simp: decodeEnum_def split: list.splits)
  then have "x \<in> set (filter (\<lambda>x. toText x = v) members)" by simp
  then show "v = toText x" by simp
qed (simp add: decode_text)

lemma decode_unknown:
  "v \<notin> range toText \<Longrightarrow> decodeEnum typeName toText members v = Inl (EnumValidationError typeName v)"
  by (cases "decodeEnum typeName toText members v")
    (auto simp: decode_Inr_iff, auto simp: decodeEnum_def split: list.splits)

end

datatype eventStream =
    StreamReasoning | StreamAssistant | StreamActivity

fun eventStreamText :: "eventStream \<Rightarrow> string" where
  "eventStreamText StreamReasoning = ''reasoning''"
| "eventStreamText StreamAssistant = ''assistant''"
| "eventStreamText StreamActivity = ''activity''"

definition eventStreamValues :: "eventStream list" where
  "eventStreamValues =
    [StreamReasoning, StreamAssistant, StreamActivity]"

definition decodeEventStream :: "string \<Rightarrow> eventStream result" where
  "decodeEventStream = decodeEnum ''EventStream'' eventStreamText eventStreamValues"

interpretation wEventStream: wire_enum "''EventStream''" eventStreamText eventStreamValues
  by unfold_locales (auto simp: eventStreamValues_def intro: eventStream.exhaust)

datatype streamEventKind =
    KindReasoning | KindAssistant | KindActivity

fun streamEventKindText :: "streamEventKind \<Rightarrow> string" where
  "streamEventKindText KindReasoning = ''reasoning_summary''"
| "streamEventKindText KindAssistant = ''assistant_text''"
| "streamEventKindText KindActivity = ''activity''"

definition streamEventKindValues :: "streamEventKind list" where
  "streamEventKindValues =
    [KindReasoning, KindAssistant, KindActivity]"

definition decodeStreamEventKind :: "string \<Rightarrow> streamEventKind result" where
  "decodeStreamEventKind = decodeEnum ''StreamEventKind'' streamEventKindText streamEventKindValues"

interpretation wStreamEventKind: wire_enum "''StreamEventKind''" streamEventKindText streamEventKindValues
  by unfold_locales (auto simp: streamEventKindValues_def intro: streamEventKind.exhaust)

datatype agentStatus =
    Initializing | WaitingForMessage | CompactingContext | CallingModel | RoutingTool
  | WaitingForToolApproval | WaitingForToolRecovery | ExecutingTool | WaitingForTimer
  | ApplyingSteering | Expiring

fun agentStatusText :: "agentStatus \<Rightarrow> string" where
  "agentStatusText Initializing = ''initializing''"
| "agentStatusText WaitingForMessage = ''waiting_for_message''"
| "agentStatusText CompactingContext = ''compacting_context''"
| "agentStatusText CallingModel = ''calling_model''"
| "agentStatusText RoutingTool = ''routing_tool''"
| "agentStatusText WaitingForToolApproval = ''waiting_for_tool_approval''"
| "agentStatusText WaitingForToolRecovery = ''waiting_for_tool_recovery''"
| "agentStatusText ExecutingTool = ''executing_tool''"
| "agentStatusText WaitingForTimer = ''waiting_for_timer''"
| "agentStatusText ApplyingSteering = ''applying_steering''"
| "agentStatusText Expiring = ''expiring''"

definition agentStatusValues :: "agentStatus list" where
  "agentStatusValues =
    [Initializing, WaitingForMessage, CompactingContext, CallingModel, RoutingTool,
     WaitingForToolApproval, WaitingForToolRecovery, ExecutingTool, WaitingForTimer,
     ApplyingSteering, Expiring]"

definition decodeAgentStatus :: "string \<Rightarrow> agentStatus result" where
  "decodeAgentStatus = decodeEnum ''AgentStatus'' agentStatusText agentStatusValues"

interpretation wAgentStatus: wire_enum "''AgentStatus''" agentStatusText agentStatusValues
  by unfold_locales (auto simp: agentStatusValues_def intro: agentStatus.exhaust)

datatype interactionMode =
    ModeChat | ModePlanning | ModeExecuting

fun interactionModeText :: "interactionMode \<Rightarrow> string" where
  "interactionModeText ModeChat = ''chat''"
| "interactionModeText ModePlanning = ''planning''"
| "interactionModeText ModeExecuting = ''executing''"

definition interactionModeValues :: "interactionMode list" where
  "interactionModeValues =
    [ModeChat, ModePlanning, ModeExecuting]"

definition decodeInteractionMode :: "string \<Rightarrow> interactionMode result" where
  "decodeInteractionMode = decodeEnum ''InteractionMode'' interactionModeText interactionModeValues"

interpretation wInteractionMode: wire_enum "''InteractionMode''" interactionModeText interactionModeValues
  by unfold_locales (auto simp: interactionModeValues_def intro: interactionMode.exhaust)

datatype planStatus =
    PlanDraft | PlanActive | PlanCompleted

fun planStatusText :: "planStatus \<Rightarrow> string" where
  "planStatusText PlanDraft = ''draft''"
| "planStatusText PlanActive = ''active''"
| "planStatusText PlanCompleted = ''completed''"

definition planStatusValues :: "planStatus list" where
  "planStatusValues =
    [PlanDraft, PlanActive, PlanCompleted]"

definition decodePlanStatus :: "string \<Rightarrow> planStatus result" where
  "decodePlanStatus = decodeEnum ''PlanStatus'' planStatusText planStatusValues"

interpretation wPlanStatus: wire_enum "''PlanStatus''" planStatusText planStatusValues
  by unfold_locales (auto simp: planStatusValues_def intro: planStatus.exhaust)

datatype taskStatus =
    TaskPending | TaskInProgress | TaskCompleted

fun taskStatusText :: "taskStatus \<Rightarrow> string" where
  "taskStatusText TaskPending = ''pending''"
| "taskStatusText TaskInProgress = ''in_progress''"
| "taskStatusText TaskCompleted = ''completed''"

definition taskStatusValues :: "taskStatus list" where
  "taskStatusValues =
    [TaskPending, TaskInProgress, TaskCompleted]"

definition decodeTaskStatus :: "string \<Rightarrow> taskStatus result" where
  "decodeTaskStatus = decodeEnum ''TaskStatus'' taskStatusText taskStatusValues"

interpretation wTaskStatus: wire_enum "''TaskStatus''" taskStatusText taskStatusValues
  by unfold_locales (auto simp: taskStatusValues_def intro: taskStatus.exhaust)

datatype messageRole =
    RoleSystem | RoleUser | RoleAssistant | RoleTool

fun messageRoleText :: "messageRole \<Rightarrow> string" where
  "messageRoleText RoleSystem = ''system''"
| "messageRoleText RoleUser = ''user''"
| "messageRoleText RoleAssistant = ''assistant''"
| "messageRoleText RoleTool = ''tool''"

definition messageRoleValues :: "messageRole list" where
  "messageRoleValues =
    [RoleSystem, RoleUser, RoleAssistant, RoleTool]"

definition decodeMessageRole :: "string \<Rightarrow> messageRole result" where
  "decodeMessageRole = decodeEnum ''MessageRole'' messageRoleText messageRoleValues"

interpretation wMessageRole: wire_enum "''MessageRole''" messageRoleText messageRoleValues
  by unfold_locales (auto simp: messageRoleValues_def intro: messageRole.exhaust)

datatype eventKind =
    PlanStarted | PlanUpdated | PlanTaskUpdated | InputConsumed | UserInputAnswered
  | UserInputCancelled | SnapshotRequired | SteeringApplied | CompactionFailed | Compacted
  | ModelStarted | ModelFailed | ModelCompleted | ModelToolCall | UserInputRequested
  | ToolApprovalRequested | ToolApprovalResolved | TimerStarted | TimerResolved | ToolProgress
  | ToolFailed | ToolCompleted | ToolRecoveryRequired | ToolRecoveryResolved
  | InactivityExpired

fun eventKindText :: "eventKind \<Rightarrow> string" where
  "eventKindText PlanStarted = ''plan_started''"
| "eventKindText PlanUpdated = ''plan_updated''"
| "eventKindText PlanTaskUpdated = ''plan_task_updated''"
| "eventKindText InputConsumed = ''input_consumed''"
| "eventKindText UserInputAnswered = ''user_input_answered''"
| "eventKindText UserInputCancelled = ''user_input_cancelled''"
| "eventKindText SnapshotRequired = ''snapshot_required''"
| "eventKindText SteeringApplied = ''steering_applied''"
| "eventKindText CompactionFailed = ''compaction_failed''"
| "eventKindText Compacted = ''compacted''"
| "eventKindText ModelStarted = ''model_started''"
| "eventKindText ModelFailed = ''model_failed''"
| "eventKindText ModelCompleted = ''model_completed''"
| "eventKindText ModelToolCall = ''model_tool_call''"
| "eventKindText UserInputRequested = ''user_input_requested''"
| "eventKindText ToolApprovalRequested = ''tool_approval_requested''"
| "eventKindText ToolApprovalResolved = ''tool_approval_resolved''"
| "eventKindText TimerStarted = ''timer_started''"
| "eventKindText TimerResolved = ''timer_resolved''"
| "eventKindText ToolProgress = ''tool_progress''"
| "eventKindText ToolFailed = ''tool_failed''"
| "eventKindText ToolCompleted = ''tool_completed''"
| "eventKindText ToolRecoveryRequired = ''tool_recovery_required''"
| "eventKindText ToolRecoveryResolved = ''tool_recovery_resolved''"
| "eventKindText InactivityExpired = ''inactivity_expired''"

definition eventKindValues :: "eventKind list" where
  "eventKindValues =
    [PlanStarted, PlanUpdated, PlanTaskUpdated, InputConsumed, UserInputAnswered,
     UserInputCancelled, SnapshotRequired, SteeringApplied, CompactionFailed, Compacted,
     ModelStarted, ModelFailed, ModelCompleted, ModelToolCall, UserInputRequested,
     ToolApprovalRequested, ToolApprovalResolved, TimerStarted, TimerResolved, ToolProgress,
     ToolFailed, ToolCompleted, ToolRecoveryRequired, ToolRecoveryResolved, InactivityExpired]"

definition decodeEventKind :: "string \<Rightarrow> eventKind result" where
  "decodeEventKind = decodeEnum ''EventKind'' eventKindText eventKindValues"

interpretation wEventKind: wire_enum "''EventKind''" eventKindText eventKindValues
  by unfold_locales (auto simp: eventKindValues_def intro: eventKind.exhaust)

datatype provider =
    ProviderMock | ProviderOpenAI | ProviderAnthropic | ProviderGemini | ProviderGroq

fun providerText :: "provider \<Rightarrow> string" where
  "providerText ProviderMock = ''mock''"
| "providerText ProviderOpenAI = ''openai''"
| "providerText ProviderAnthropic = ''anthropic''"
| "providerText ProviderGemini = ''gemini''"
| "providerText ProviderGroq = ''groq''"

definition providerValues :: "provider list" where
  "providerValues =
    [ProviderMock, ProviderOpenAI, ProviderAnthropic, ProviderGemini, ProviderGroq]"

definition decodeProvider :: "string \<Rightarrow> provider result" where
  "decodeProvider = decodeEnum ''Provider'' providerText providerValues"

interpretation wProvider: wire_enum "''Provider''" providerText providerValues
  by unfold_locales (auto simp: providerValues_def intro: provider.exhaust)

section \<open>Enumerations that may hold an unvalidated text\<close>

text \<open>
  Values of these types also arrive without a check (a tool registry is an interface whose
  implementations are free to answer any text, the public client forwards a request as it
  is), so an unknown text is a value, and \<^verbatim>\<open>Validate\<close> is an operation. The last constructor
  holds a text that is none of the constants.
\<close>

datatype toolOutcome = OutcomeSucceeded | OutcomeKnownFailure | OutcomeUnknown | OtherOutcome string

fun toolOutcomeText :: "toolOutcome \<Rightarrow> string" where
  "toolOutcomeText OutcomeSucceeded = ''succeeded''"
| "toolOutcomeText OutcomeKnownFailure = ''known_failure''"
| "toolOutcomeText OutcomeUnknown = ''unknown''"
| "toolOutcomeText (OtherOutcome t) = t"

definition validateToolOutcome :: "toolOutcome \<Rightarrow> unit result" where
  "validateToolOutcome v =
     (case v of OtherOutcome t \<Rightarrow> Inl (EnumValidationError ''ToolOutcome'' t) | _ \<Rightarrow> Inr ())"

datatype toolRunningType = ShortRunning | LongRunning | OtherRunningType string

fun toolRunningTypeText :: "toolRunningType \<Rightarrow> string" where
  "toolRunningTypeText ShortRunning = ''short_running''"
| "toolRunningTypeText LongRunning = ''long_running''"
| "toolRunningTypeText (OtherRunningType t) = t"

definition validateToolRunningType :: "toolRunningType \<Rightarrow> unit result" where
  "validateToolRunningType v =
     (case v of OtherRunningType t \<Rightarrow> Inl (EnumValidationError ''ToolRunningType'' t) | _ \<Rightarrow> Inr ())"

datatype retryExhaustionPolicy = PolicyManualRecovery | PolicyContinueWithUnknown | OtherPolicy string

fun retryExhaustionPolicyText :: "retryExhaustionPolicy \<Rightarrow> string" where
  "retryExhaustionPolicyText PolicyManualRecovery = ''manual_recovery''"
| "retryExhaustionPolicyText PolicyContinueWithUnknown = ''continue_with_unknown''"
| "retryExhaustionPolicyText (OtherPolicy t) = t"

definition validateToolRetryExhaustionPolicy :: "retryExhaustionPolicy \<Rightarrow> unit result" where
  "validateToolRetryExhaustionPolicy v =
     (case v of OtherPolicy t \<Rightarrow> Inl (EnumValidationError ''ToolRetryExhaustionPolicy'' t) | _ \<Rightarrow> Inr ())"

datatype recoveryResolution = ResolutionResume | ResolutionStop | OtherResolution string

fun recoveryResolutionText :: "recoveryResolution \<Rightarrow> string" where
  "recoveryResolutionText ResolutionResume = ''resume''"
| "recoveryResolutionText ResolutionStop = ''stop''"
| "recoveryResolutionText (OtherResolution t) = t"

definition validateToolRecoveryResolution :: "recoveryResolution \<Rightarrow> unit result" where
  "validateToolRecoveryResolution v =
     (case v of OtherResolution t \<Rightarrow> Inl (EnumValidationError ''ToolRecoveryResolution'' t) | _ \<Rightarrow> Inr ())"

datatype recoveryAction = ActionRetry | ActionContinueWithUnknown | OtherAction string

fun recoveryActionText :: "recoveryAction \<Rightarrow> string" where
  "recoveryActionText ActionRetry = ''retry''"
| "recoveryActionText ActionContinueWithUnknown = ''continue_with_unknown''"
| "recoveryActionText (OtherAction t) = t"

definition validateToolRecoveryAction :: "recoveryAction \<Rightarrow> unit result" where
  "validateToolRecoveryAction v =
     (case v of OtherAction t \<Rightarrow> Inl (EnumValidationError ''ToolRecoveryAction'' t) | _ \<Rightarrow> Inr ())"


text \<open>The safe defaults of an omitted policy.\<close>

definition effectiveRunningType :: "toolRunningType \<Rightarrow> toolRunningType" where
  "effectiveRunningType t = (if t = OtherRunningType [] then ShortRunning else t)"

definition effectivePolicy :: "retryExhaustionPolicy \<Rightarrow> retryExhaustionPolicy" where
  "effectivePolicy p = (if p = OtherPolicy [] then PolicyManualRecovery else p)"

section \<open>Validated JSON\<close>

text \<open>\<^verbatim>\<open>JSONObject\<close> and \<^verbatim>\<open>JSONValue\<close> are strings; the parsers trim and validate.\<close>

type_synonym jsonObject = string
type_synonym jsonValue = string

definition parseJSONObject :: "string \<Rightarrow> jsonObject result" where
  "parseJSONObject encoded =
     (let trimmed = trimSpace encoded in
      if trimmed = [] \<or> hd trimmed \<noteq> CHR ''{'' \<or> last trimmed \<noteq> CHR ''}'' \<or> \<not> jsonValid trimmed
      then Inl (New ''value must be one valid JSON object'')
      else Inr trimmed)"

definition parseJSONValue :: "string \<Rightarrow> jsonValue result" where
  "parseJSONValue encoded =
     (let trimmed = trimSpace encoded in
      if trimmed = [] \<or> \<not> jsonValid trimmed then Inl (New ''value must be valid JSON'')
      else Inr trimmed)"

lemma parseJSONObject_Inr:
  assumes "parseJSONObject encoded = Inr v"
  shows "jsonValid v" and "trimSpace v = v" and "v = trimSpace encoded"
    and "\<exists>s. v = CHR ''{'' # s @ [CHR ''}'']"
proof -
  from assms have v: "v = trimSpace encoded" "v \<noteq> []" "hd v = CHR ''{''" "last v = CHR ''}''" "jsonValid v"
    by (auto simp: parseJSONObject_def Let_def split: if_splits)
  then show "jsonValid v" "v = trimSpace encoded" by simp_all
  from v(2,3) obtain r where r: "v = CHR ''{'' # r" by (cases v) auto
  with v(4) have "r \<noteq> []" "last r = CHR ''}''" by (auto split: if_splits)
  then have "r = butlast r @ [CHR ''}'']" by (metis append_butlast_last_id)
  with r show ex: "\<exists>s. v = CHR ''{'' # s @ [CHR ''}'']" by blast
  then obtain s where s: "v = CHR ''{'' # s @ [CHR ''}'']" by blast
  show "trimSpace v = v"
    unfolding s by (rule trimSpace_keeps) (simp_all add: isSpaceRune_def inRange_def)
qed

text \<open>Parsing is idempotent: a stored object is read back unchanged.\<close>

lemma parseJSONObject_again: "parseJSONObject encoded = Inr v \<Longrightarrow> parseJSONObject v = Inr v"
proof -
  assume parsed: "parseJSONObject encoded = Inr v"
  note facts = parseJSONObject_Inr [OF parsed]
  from facts(4) have "v \<noteq> []" "hd v = CHR ''{''" "last v = CHR ''}''" by auto
  then show ?thesis by (simp add: parseJSONObject_def facts(1,2))
qed

section \<open>Constants\<close>

definition archiveMessageChunkSize :: int where "archiveMessageChunkSize = 10"
definition currentMessageLimit :: int where "currentMessageLimit = 2 * archiveMessageChunkSize"
definition maximumMessageIDBytes :: int where "maximumMessageIDBytes = 256"
definition maximumRuntimeMetadataBytes :: int where "maximumRuntimeMetadataBytes = 16384"
definition maximumWaitingInputRound :: int where "maximumWaitingInputRound = 9007199254740991"
definition maximumUserMessageContentBytes :: int where "maximumUserMessageContentBytes = 262144"
definition defaultModel :: string where "defaultModel = ''mock/dex''"
definition defaultContextTokens :: int where "defaultContextTokens = 32000"
definition defaultMessageRetention :: int where "defaultMessageRetention = 1000"
definition defaultMaxParallelToolCalls :: int where "defaultMaxParallelToolCalls = 4"
definition maximumParallelToolCalls :: int where "maximumParallelToolCalls = 32"
definition defaultSystemPrompt :: string where
  "defaultSystemPrompt = ''You are a helpful durable AI agent. Use tools when they help, explain important actions, and never claim a tool succeeded unless its result says so.''"

section \<open>Configuration\<close>

record agentConfig =
  cfgModel :: string
  cfgSystemPrompt :: string
  cfgCompactionModel :: "string option"
  cfgMaxContextTokens :: int
  cfgTriggerFraction :: float64
  cfgKeepFraction :: float64
  cfgMessageRetentionLimit :: int
  cfgMaxParallelToolCalls :: int
  cfgMCPEnabled :: bool
  cfgEnabledMCPServers :: "string list"
  cfgEnabledTools :: "string list"
  cfgInactivityTimeoutSeconds :: int

record startRequest =
  srConfig :: agentConfig
  srRuntimeMetadata :: jsonObject

definition newAgentConfig :: agentConfig where
  "newAgentConfig = \<lparr>
     cfgModel = defaultModel, cfgSystemPrompt = defaultSystemPrompt, cfgCompactionModel = None,
     cfgMaxContextTokens = defaultContextTokens,
     cfgTriggerFraction = float085, cfgKeepFraction = float010,
     cfgMessageRetentionLimit = defaultMessageRetention,
     cfgMaxParallelToolCalls = defaultMaxParallelToolCalls,
     cfgMCPEnabled = True, cfgEnabledMCPServers = [], cfgEnabledTools = [],
     cfgInactivityTimeoutSeconds = 0\<rparr>"

definition modelProvider :: "string \<Rightarrow> provider result" where
  "modelProvider m =
     (case cut m (CHR ''/'') of (prefix, name, found) \<Rightarrow>
        if \<not> found \<or> trimSpace name = []
        then Inl (Errorf ''model %q must be provider-qualified'' [ArgStr m])
        else decodeProvider prefix)"

definition providerModel :: "string \<Rightarrow> string result" where
  "providerModel m =
     (case cut m (CHR ''/'') of (_, name, found) \<Rightarrow>
        if \<not> found \<or> trimSpace name = []
        then Inl (Errorf ''model %q must be provider-qualified'' [ArgStr m])
        else (case modelProvider m of Inl e \<Rightarrow> Inl e | Inr _ \<Rightarrow> Inr name))"

definition validateAgentConfig :: "agentConfig \<Rightarrow> int \<Rightarrow> unit result" where
  "validateAgentConfig config minimumInactivityTimeoutSeconds =
     (case modelProvider (cfgModel config) of Inl e \<Rightarrow> Inl (Errorf ''model: %w'' [ArgErr e]) | Inr _ \<Rightarrow>
      case (case cfgCompactionModel config of None \<Rightarrow> Inr () | Some m \<Rightarrow>
              (case modelProvider m of Inl e \<Rightarrow> Inl (Errorf ''compaction_model: %w'' [ArgErr e]) | Inr _ \<Rightarrow> Inr ()))
      of Inl e \<Rightarrow> Inl e | Inr _ \<Rightarrow>
      if trimSpace (cfgSystemPrompt config) = [] then Inl (New ''system_prompt must not be empty'')
      else if cfgMaxContextTokens config \<le> 0 then Inl (New ''max_context_tokens must be positive'')
      else if \<not> isFinite (cfgKeepFraction config) \<or> \<not> isFinite (cfgTriggerFraction config)
      then Inl (New ''compaction fractions must be finite'')
      else if floatLessEq (cfgKeepFraction config) floatZero \<or>
              floatLessEq (cfgTriggerFraction config) (cfgKeepFraction config) \<or>
              floatLessEq floatOne (cfgTriggerFraction config)
      then Inl (New ''compaction fractions must satisfy 0 < keep < trigger < 1'')
      else if cfgMessageRetentionLimit config < currentMessageLimit \<or>
              rem64 (cfgMessageRetentionLimit config) archiveMessageChunkSize \<noteq> 0
      then Inl (Errorf ''message_retention_limit must be at least %d and a multiple of %d''
                  [ArgInt currentMessageLimit, ArgInt archiveMessageChunkSize])
      else if cfgMaxParallelToolCalls config < 0 \<or> cfgMaxParallelToolCalls config > maximumParallelToolCalls
      then Inl (Errorf ''max_parallel_tool_calls must be between 1 and %d when set'' [ArgInt maximumParallelToolCalls])
      else if cfgInactivityTimeoutSeconds config < 0
      then Inl (New ''inactivity_timeout_seconds must not be negative'')
      else if cfgInactivityTimeoutSeconds config > 0 \<and>
              cfgInactivityTimeoutSeconds config < minimumInactivityTimeoutSeconds
      then Inl (Errorf ''inactivity_timeout_seconds must be zero or at least %d''
                  [ArgInt minimumInactivityTimeoutSeconds])
      else if cfgInactivityTimeoutSeconds config > Prelude.quot (365 * 24 * hour) second
      then Inl (New ''inactivity_timeout_seconds must not exceed one year'')
      else Inr ())"

definition agentConfigValidate :: "agentConfig \<Rightarrow> unit result" where
  "agentConfigValidate config = validateAgentConfig config (Prelude.quot (2 * minute) second)"

definition effectiveMaxParallelToolCalls :: "agentConfig \<Rightarrow> int" where
  "effectiveMaxParallelToolCalls config =
     (if cfgMaxParallelToolCalls config = 0 then defaultMaxParallelToolCalls
      else cfgMaxParallelToolCalls config)"

text \<open>What a validated configuration guarantees to the Flow.\<close>

lemma validateAgentConfig_Inr:
  assumes "validateAgentConfig config m = Inr u"
  shows "\<exists>p. modelProvider (cfgModel config) = Inr p"
    and "0 < cfgMaxContextTokens config"
    and "20 \<le> cfgMessageRetentionLimit config" "cfgMessageRetentionLimit config mod 10 = 0"
    and "0 \<le> cfgMaxParallelToolCalls config" "cfgMaxParallelToolCalls config \<le> 32"
    and "0 \<le> cfgInactivityTimeoutSeconds config"
    and "cfgInactivityTimeoutSeconds config \<le> 31536000"
    and "cfgInactivityTimeoutSeconds config \<noteq> 0 \<Longrightarrow> m \<le> cfgInactivityTimeoutSeconds config"
  using assms
  by (auto simp: validateAgentConfig_def currentMessageLimit_def archiveMessageChunkSize_def rem64_nonneg
      maximumParallelToolCalls_def hour_def minute_def second_def quot_nonneg
      split: sum.splits if_splits)

section \<open>Messages and durable state\<close>

record toolCall =
  tcID :: string
  tcName :: string
  tcArguments :: jsonObject

record providerContextItem =
  pciProvider :: provider
  pciItem :: jsonValue

record agentMessage =
  msgRole :: messageRole
  msgContent :: string
  msgToolCalls :: "toolCall list"
  msgToolCallID :: "string option"
  msgToolName :: "string option"
  msgAnsweredInputCallID :: "string option"
  msgProviderContextItems :: "providerContextItem list"
  msgStartedAt :: "goTime option"
  msgCreatedAt :: goTime

record agentState =
  stNextSequence :: int
  stFirstRetained :: int
  stCurrentFirst :: int
  stLastSequence :: int
  stSummarizedThrough :: int
  stCompactionGeneration :: int
  stStatus :: agentStatus
  stPendingToolCalls :: "toolCall list"
  stPendingToolIndex :: int
  stPlanRevision :: int
  stInteractionMode :: interactionMode
  stPlanningRequiresWrite :: bool
  stPlanningAllowsWrite :: bool
  stPendingPlanExecution :: "int option"
  stPlanNoProgressAttempts :: int

record sequencedMessage =
  smSequence :: int
  smMessage :: agentMessage

record historyPage =
  hpMessages :: "sequencedMessage list"
  hpNextBefore :: "int option"

record archivedMessagesOutput =
  amoPage :: historyPage
  amoFound :: bool

text \<open>An \<^verbatim>\<open>ArchivedMessageChunk\<close> has one field, its messages.\<close>

type_synonym archivedChunk = "sequencedMessage list"

record userMessage =
  umContent :: string
  umPlanMode :: bool
  umAnsweredInputCallID :: "string option"

record pendingUserMessage =
  pumMessageID :: string
  pumValue :: userMessage

definition newAgentState :: agentState where
  "newAgentState = \<lparr>
     stNextSequence = 1, stFirstRetained = 1, stCurrentFirst = 1, stLastSequence = 0,
     stSummarizedThrough = 0, stCompactionGeneration = 0, stStatus = WaitingForMessage,
     stPendingToolCalls = [], stPendingToolIndex = 0, stPlanRevision = 0,
     stInteractionMode = ModeChat, stPlanningRequiresWrite = False, stPlanningAllowsWrite = False,
     stPendingPlanExecution = None, stPlanNoProgressAttempts = 0\<rparr>"

record contextSummary =
  csGeneration :: int
  csSummarizedThrough :: int
  csContent :: string

section \<open>Plans, approvals, recovery, timers and questions\<close>

record planTask =
  ptContent :: string
  ptStatus :: taskStatus

record agentPlan =
  planRevision :: int
  planStatusOf :: planStatus
  planTasks :: "planTask list"

record planExecutionRequest =
  perRevision :: int

record toolApprovalRequest =
  tarCallID :: string
  tarApproved :: bool

record pendingApproval =
  paCallID :: string
  paToolName :: string
  paArguments :: jsonObject
  paStartedAt :: "goTime option"

record toolRecoveryDecision =
  trdCallID :: string
  trdAction :: recoveryAction

record resolveToolRecoveryRequest =
  rtrRecoveryID :: string
  rtrResolution :: recoveryResolution
  rtrDecisions :: "toolRecoveryDecision list"

record pendingToolRecoveryCall =
  ptrcCallID :: string
  ptrcToolName :: string
  ptrcArguments :: jsonObject
  ptrcErrorType :: string

record pendingToolRecovery =
  ptrRecoveryID :: string
  ptrCalls :: "pendingToolRecoveryCall list"
  ptrStartedAt :: "goTime option"

record pendingTimer =
  ptmCallID :: string
  ptmDurationSeconds :: int
  ptmReason :: string
  ptmStartedAt :: "goTime option"

record userInputOption =
  uioLabel :: string
  uioDescription :: string

record userInputQuestion =
  uiqID :: string
  uiqHeader :: string
  uiqQuestion :: string
  uiqOptions :: "userInputOption list"

record pendingUserInput =
  puiCallID :: string
  puiQuestions :: "userInputQuestion list"
  puiStartedAt :: "goTime option"

record userInputAnswer =
  uiaQuestionID :: string
  uiaAnswer :: string

record answerQuestionsRequest =
  aqrCallID :: string
  aqrAnswers :: "userInputAnswer list"

record answeredUserInput =
  auiCallID :: string
  auiMessage :: userMessage
  auiQuestionCount :: int

section \<open>Events, descriptions and snapshots\<close>

record inputConsumption =
  icQueued :: "string list"
  icSteered :: "string list"
  icPlanExecution :: "int option"

record agentEvent =
  evKind :: eventKind
  evMessage :: string
  evCallID :: "string option"
  evToolName :: "string option"
  evMessageSequence :: "int option"
  evPlanBaseRevision :: "int option"
  evPlanRevision :: "int option"
  evPlanTaskIndex :: "int option"
  evPlanTaskStatus :: "taskStatus option"
  evInputConsumption :: "inputConsumption option"
  evAttempt :: "int option"

definition event :: "eventKind \<Rightarrow> string \<Rightarrow> agentEvent" where
  "event kind message = \<lparr>
     evKind = kind, evMessage = message, evCallID = None, evToolName = None,
     evMessageSequence = None, evPlanBaseRevision = None, evPlanRevision = None,
     evPlanTaskIndex = None, evPlanTaskStatus = None, evInputConsumption = None, evAttempt = None\<rparr>"

record agentDescription =
  dStatus :: agentStatus
  dWaitingInputRound :: int
  dModel :: string
  dSystemPrompt :: string
  dFirstRetained :: int
  dLastSequence :: int
  dSummarizedThrough :: int
  dPendingApproval :: "pendingApproval option"
  dPendingToolRecovery :: "pendingToolRecovery option"
  dPendingTimer :: "pendingTimer option"
  dPendingUserInput :: "pendingUserInput option"
  dPlan :: "agentPlan option"
  dIsPlanExecutionRequested :: bool
  dPendingQueuedCount :: int
  dPendingSteeredCount :: int
  dAvailableMCPServers :: "string list"
  dAvailableTools :: "string list"
  dInactivityDeadline :: "goTime option"

record agentSnapshot =
  snapRunID :: string
  snapHistory :: historyPage
  snapDescription :: agentDescription
  snapQueued :: "pendingUserMessage list"
  snapSteered :: "pendingUserMessage list"

record inactivityExpiration =
  ieFlowID :: string
  ieRunID :: string
  ieDeadline :: goTime
  ieRuntimeMetadata :: jsonObject

text \<open>\<open>seActivity\<close> is \<open>None\<close> where the Go field holds the zero event.\<close>

record streamEvent =
  seKind :: streamEventKind
  seText :: string
  seActivity :: "agentEvent option"
  seResumeToken :: string
  seCreatedAt :: goTime
  seSource :: string

section \<open>Models and tools\<close>

record modelReply =
  replyContent :: string
  replyToolCalls :: "toolCall list"
  replyContextItems :: "providerContextItem list"

record modelUsage =
  useInputTokens :: int
  useCachedInputTokens :: int
  useOutputTokens :: int
  useReasoningTokens :: int
  useTotalTokens :: int

definition noUsage :: modelUsage where
  "noUsage = \<lparr>useInputTokens = 0, useCachedInputTokens = 0, useOutputTokens = 0,
     useReasoningTokens = 0, useTotalTokens = 0\<rparr>"

record toolDefinition =
  tdName :: string
  tdDescription :: string
  tdInputSchema :: jsonObject
  tdRequiresApproval :: bool
  tdRunningType :: toolRunningType
  tdAttemptTimeout :: duration
  tdMaximumAttempts :: int
  tdRetryTotalDuration :: duration
  tdSupportsParallel :: bool
  tdRetryExhaustionPolicy :: retryExhaustionPolicy

record toolExecutionResult =
  terContent :: string
  terOutcome :: toolOutcome
  terIsError :: bool

record modelRequest =
  mrConfig :: agentConfig
  mrMessages :: "agentMessage list"
  mrTools :: "toolDefinition list"
  mrForcedTool :: string
  mrFlowID :: string
  mrCallID :: string

record summarizeRequest =
  szConfig :: agentConfig
  szPreviousSummary :: string
  szMessages :: "agentMessage list"
  szFlowID :: string
  szCallID :: string

record toolInvocation =
  tiFlowID :: string
  tiRuntimeMetadata :: jsonObject
  tiName :: string
  tiArguments :: jsonObject
  tiEnabledServers :: "string list"
  tiCallID :: string
  tiAttempt :: int
  tiFirstAttemptAt :: goTime

record registeredTool =
  rtServerName :: string
  rtRemoteName :: string
  rtDefinition :: toolDefinition

section \<open>Validation of requests\<close>

definition archivedMessageChunkFirst :: "int \<Rightarrow> int \<times> bool" where
  "archivedMessageChunkFirst before =
     (if before \<le> archiveMessageChunkSize \<or> rem64 (before - 1) archiveMessageChunkSize \<noteq> 0
      then (0, False)
      else (before - archiveMessageChunkSize, True))"

definition validateNewUserMessage :: "userMessage \<Rightarrow> unit result" where
  "validateNewUserMessage message =
     (if \<not> validUTF8 (umContent message) then Inl (New ''content must be valid UTF-8'')
      else if CHR 0x00 \<in> set (umContent message) then Inl (New ''content must not contain NUL'')
      else if trimSpace (umContent message) = [] then Inl (New ''content must not be empty'')
      else if int (length (umContent message)) > maximumUserMessageContentBytes
      then Inl (Errorf ''content exceeds %d bytes'' [ArgInt maximumUserMessageContentBytes])
      else Inr ())"

definition maximumUserInputQuestions :: int where "maximumUserInputQuestions = 3"

fun validateAnswers :: "userInputAnswer list \<Rightarrow> string list \<Rightarrow> unit result" where
  "validateAnswers [] seen = Inr ()"
| "validateAnswers (answer # rest) seen =
     (if trimSpace (uiaQuestionID answer) = [] \<or> trimSpace (uiaAnswer answer) = []
      then Inl (New ''answers require question ID and answer'')
      else if uiaQuestionID answer \<in> set seen
      then Inl (Errorf ''question %q was answered more than once'' [ArgStr (uiaQuestionID answer)])
      else validateAnswers rest (uiaQuestionID answer # seen))"

definition validateAnswerQuestionsRequest :: "answerQuestionsRequest \<Rightarrow> unit result" where
  "validateAnswerQuestionsRequest request =
     (if trimSpace (aqrCallID request) = [] then Inl (New ''call ID must not be empty'')
      else if aqrAnswers request = [] \<or> int (length (aqrAnswers request)) > maximumUserInputQuestions
      then Inl (Errorf ''answers must contain 1-%d values'' [ArgInt maximumUserInputQuestions])
      else validateAnswers (aqrAnswers request) [])"

definition validateMessageID :: "string \<Rightarrow> unit result" where
  "validateMessageID messageID =
     (if messageID = [] \<or> int (length messageID) > maximumMessageIDBytes \<or> \<not> validUTF8 messageID
      then Inl (Errorf ''message ID must be 1-%d valid UTF-8 bytes'' [ArgInt maximumMessageIDBytes])
      else Inr ())"

definition validateRuntimeMetadata :: "jsonObject \<Rightarrow> unit result" where
  "validateRuntimeMetadata value =
     (if value = [] then Inr ()
      else if int (length value) > maximumRuntimeMetadataBytes
      then Inl (Errorf ''runtime metadata exceeds %d bytes'' [ArgInt maximumRuntimeMetadataBytes])
      else (case parseJSONObject value of Inl e \<Rightarrow> Inl e | Inr _ \<Rightarrow> Inr ()))"

definition validateTask :: "planTask \<Rightarrow> int \<Rightarrow> unit result" where
  "validateTask task index =
     (if trimSpace (ptContent task) = []
      then Inl (Errorf ''todos[%d].content must be a non-empty string'' [ArgInt index])
      else (case decodeTaskStatus (taskStatusText (ptStatus task)) of
              Inl e \<Rightarrow> Inl (Errorf ''todos[%d].status: %w'' [ArgInt index, ArgErr e])
            | Inr _ \<Rightarrow> Inr ()))"

lemma validateTask_Inr: "validateTask task index = Inr () \<longleftrightarrow> trimSpace (ptContent task) \<noteq> []"
  using wTaskStatus.decode_text [of "ptStatus task"]
  by (auto simp: validateTask_def decodeTaskStatus_def)

lemma archivedMessageChunkFirst_iff:
  "archivedMessageChunkFirst before = (first, True) \<longleftrightarrow>
     10 < before \<and> before mod 10 = 1 \<and> first = before - 10"
proof (cases "10 < before")
  case True
  then have "rem64 (before - 1) 10 = (before - 1) mod 10" by (simp add: rem64_nonneg)
  moreover have "(before - 1) mod 10 = 0 \<longleftrightarrow> before mod 10 = 1" by presburger
  ultimately show ?thesis using True
    by (auto simp: archivedMessageChunkFirst_def archiveMessageChunkSize_def)
qed (auto simp: archivedMessageChunkFirst_def archiveMessageChunkSize_def)

lemma validateNewUserMessage_Inr:
  "validateNewUserMessage m = Inr () \<longleftrightarrow>
     validUTF8 (umContent m) \<and> CHR 0x00 \<notin> set (umContent m) \<and> trimSpace (umContent m) \<noteq> [] \<and>
     length (umContent m) \<le> 262144"
  by (auto simp: validateNewUserMessage_def maximumUserMessageContentBytes_def)

lemma validateAnswers_Inr:
  "validateAnswers as seen = Inr () \<longleftrightarrow>
     (\<forall>a \<in> set as. trimSpace (uiaQuestionID a) \<noteq> [] \<and> trimSpace (uiaAnswer a) \<noteq> []) \<and>
     distinct (map uiaQuestionID as) \<and> set (map uiaQuestionID as) \<inter> set seen = {}"
  by (induction as arbitrary: seen) auto

end
