(* ===== verification/DexStore.thy ===== *)
theory DexStore
  imports Types
begin

text \<open>
  The durable state of one Flow run, and the operations the Go code performs on it through
  the Dex SDK: attributes, attribute maps, channels, channel maps and the activity stream,
  one record field for each of the declarations at the head of \<^verbatim>\<open>internal/agent/flow.go\<close>.
  The SDK is not part of the repository: what is modelled is what the code relies on and the
  documents of the repository state. \<^verbatim>\<open>Get\<close> and \<^verbatim>\<open>Delete\<close> of an absent attribute answer
  \<^verbatim>\<open>AttributeNotFoundError\<close>, \<^verbatim>\<open>Publish\<close> appends, \<^verbatim>\<open>PendingMessages\<close> lists what is pending in
  publication order, \<^verbatim>\<open>Delete\<close> removes one pending message by the envelope identity it was
  listed with. That identity is opaque to the code; here it is the number of the publication.

  The locale \<open>attribute\<close> is the contract of one stored value; its lemmas give the optional
  getters and the idempotent deleters of the Flow, and it is interpreted for every attribute.
\<close>

section \<open>Values that only the Steps exchange\<close>

datatype continuation =
    ContinueAwaitUser | ContinueCallModel | ContinueCompactContext | ContinueRouteTool
  | ContinueAwaitToolApproval | ContinueExecuteTool | ContinueDurableWait

datatype modelCallKind = KindResponse | KindCompaction

fun modelCallKindText :: "modelCallKind \<Rightarrow> string" where
  "modelCallKindText KindResponse = ''response''"
| "modelCallKindText KindCompaction = ''compaction''"

record modelCallPreparation =
  mcpKind :: modelCallKind
  mcpThrough :: int

record modelCallInput =
  mciCallID :: string
  mciKind :: modelCallKind
  mciThrough :: int

record modelResponseResult =
  mrrReply :: modelReply
  mrrStartedAt :: goTime
  mrrExpectedSequence :: int

record modelCompactionResult =
  mcrSummary :: string
  mcrThrough :: int

record modelCallResult =
  mresCallID :: string
  mresKind :: modelCallKind
  mresResponse :: "modelResponseResult option"
  mresCompaction :: "modelCompactionResult option"

record toolMessageTiming =
  tmtStartedAt :: goTime
  tmtCompletedAt :: goTime

definition noTiming :: toolMessageTiming where
  "noTiming = \<lparr>tmtStartedAt = 0, tmtCompletedAt = 0\<rparr>"

record parallelToolInput =
  ptiResultInstance :: string
  ptiIndex :: int
  ptiCall :: toolCall
  ptiPolicy :: retryExhaustionPolicy

record parallelToolResult =
  presIndex :: int
  presCall :: toolCall
  presResult :: toolExecutionResult
  presErrorType :: string
  presPolicy :: retryExhaustionPolicy
  presTiming :: toolMessageTiming

record toolBatchRecord =
  tbrIndex :: int
  tbrCall :: toolCall
  tbrResult :: "toolExecutionResult option"
  tbrHasResult :: bool
  tbrErrorType :: string
  tbrPolicy :: retryExhaustionPolicy
  tbrTiming :: toolMessageTiming

record toolBatchState =
  tbBatchID :: string
  tbFirstIndex :: int
  tbRecords :: "toolBatchRecord list"
  tbRecoveryRevision :: int

record awaitParallelInput =
  apiBatch :: toolBatchState
  apiResultInstance :: string
  apiExpectedCount :: int

section \<open>The store\<close>

type_synonym 'v envelope = "nat \<times> 'v"

record store =
  sConfig :: "agentConfig option"
  sRuntimeMetadata :: "jsonObject option"
  sState :: "agentState option"
  sModelUsage :: "modelUsage option"
  sWaitingInputRound :: "int option"
  sSummary :: "contextSummary option"
  sCurrent :: "string \<Rightarrow> agentMessage option"
  sArchived :: "string \<Rightarrow> archivedChunk option"
  sPlan :: "agentPlan option"
  sApproval :: "pendingApproval option"
  sRecovery :: "pendingToolRecovery option"
  sTimer :: "pendingTimer option"
  sUserInput :: "pendingUserInput option"
  sDeadline :: "goTime option"
  chReset :: "goTime envelope list"
  chAnswered :: "answeredUserInput envelope list"
  chQueued :: "pendingUserMessage envelope list"
  chSteered :: "pendingUserMessage envelope list"
  chApprovals :: "string \<Rightarrow> bool envelope list"
  chRecovery :: "string \<Rightarrow> resolveToolRecoveryRequest envelope list"
  chParallel :: "string \<Rightarrow> parallelToolResult envelope list"
  chPlanExecutions :: "string \<Rightarrow> planExecutionRequest envelope list"
  sPublished :: nat
  sActivity :: "agentEvent list"

type_synonym 'a action = "(store, 'a) tx"

definition emptyStore :: store where
  "emptyStore = \<lparr>
     sConfig = None, sRuntimeMetadata = None, sState = None, sModelUsage = None,
     sWaitingInputRound = None, sSummary = None, sCurrent = (\<lambda>_. None), sArchived = (\<lambda>_. None),
     sPlan = None, sApproval = None, sRecovery = None, sTimer = None, sUserInput = None,
     sDeadline = None, chReset = [], chAnswered = [], chQueued = [], chSteered = [],
     chApprovals = (\<lambda>_. []), chRecovery = (\<lambda>_. []), chParallel = (\<lambda>_. []),
     chPlanExecutions = (\<lambda>_. []), sPublished = 0, sActivity = []\<rparr>"

section \<open>Attributes\<close>

record 'v attr =
  attrName :: string
  attrField :: "store \<Rightarrow> 'v option"
  attrUpdate :: "('v option \<Rightarrow> 'v option) \<Rightarrow> store \<Rightarrow> store"

definition attrGet :: "'v attr \<Rightarrow> 'v action" where
  "attrGet a = (\<lambda>s. case attrField a s of
     None \<Rightarrow> Inl (AttributeNotFoundError (attrName a))
   | Some v \<Rightarrow> Inr (v, s))"

definition attrSet :: "'v attr \<Rightarrow> 'v \<Rightarrow> unit action" where
  "attrSet a v = (\<lambda>s. Inr ((), attrUpdate a (\<lambda>_. Some v) s))"

definition attrDelete :: "'v attr \<Rightarrow> unit action" where
  "attrDelete a = (\<lambda>s. case attrField a s of
     None \<Rightarrow> Inl (AttributeNotFoundError (attrName a))
   | Some _ \<Rightarrow> Inr ((), attrUpdate a (\<lambda>_. None) s))"

text \<open>\<^verbatim>\<open>isAttributeNotFound\<close> looks through wrapped errors, as \<^verbatim>\<open>errors.As\<close> does.\<close>

fun isAttributeNotFound :: "goError \<Rightarrow> bool" where
  "isAttributeNotFound (AttributeNotFoundError _) = True"
| "isAttributeNotFound (Errorf f as) = list_ex (\<lambda>a. case a of ArgErr e \<Rightarrow> isAttributeNotFound e | _ \<Rightarrow> False) as"
| "isAttributeNotFound _ = False"

text \<open>
  The optional getters of the Flow: an absent attribute is a nil pointer, any other error
  is passed on.
\<close>

definition getOptional :: "'v action \<Rightarrow> 'v option action" where
  "getOptional get = (\<lambda>s. case get s of
     Inl e \<Rightarrow> if isAttributeNotFound e then Inr (None, s) else Inl e
   | Inr (v, s') \<Rightarrow> Inr (Some v, s'))"

definition deletePresent :: "'v attr \<Rightarrow> unit action" where
  "deletePresent a =
     bindTx (getOptional (attrGet a)) (\<lambda>v.
     case v of None \<Rightarrow> returnTx () | Some _ \<Rightarrow> attrDelete a)"

locale attribute =
  fixes a :: "'v attr"
  assumes field_update: "attrField a (attrUpdate a f s) = f (attrField a s)"
    and update_same: "attrUpdate a (\<lambda>_. attrField a s) s = s"
    and update_const: "attrUpdate a (\<lambda>_. x) (attrUpdate a f s) = attrUpdate a (\<lambda>_. x) s"
begin

lemma get_Inr_iff: "attrGet a s = Inr (v, s') \<longleftrightarrow> attrField a s = Some v \<and> s' = s"
  by (auto simp: attrGet_def split: option.splits)

lemma get_Inl_iff: "attrGet a s = Inl e \<longleftrightarrow> attrField a s = None \<and> e = AttributeNotFoundError (attrName a)"
  by (auto simp: attrGet_def split: option.splits)

lemma get_after_set: "bindTx (attrSet a v) (\<lambda>_. attrGet a) = bindTx (attrSet a v) (\<lambda>_. returnTx v)"
  by (rule ext) (simp add: bindTx_apply attrSet_def attrGet_def field_update)

lemma get_after_delete:
  "bindTx (attrDelete a) (\<lambda>_. attrGet a) s = Inl (AttributeNotFoundError (attrName a))"
  by (simp add: bindTx_apply attrDelete_def attrGet_def field_update split: option.split)

lemma set_set: "bindTx (attrSet a v) (\<lambda>_. attrSet a w) = attrSet a w"
  by (rule ext) (simp add: bindTx_apply attrSet_def update_const)

lemma getOptional_get: "getOptional (attrGet a) = readTx (attrField a)"
  by (rule ext) (simp add: getOptional_def attrGet_def split: option.split)

lemma deletePresent_write: "deletePresent a = writeTx (attrUpdate a (\<lambda>_. None))"
proof
  fix s
  show "deletePresent a s = writeTx (attrUpdate a (\<lambda>_. None)) s"
  proof (cases "attrField a s")
    case None
    then have "attrUpdate a (\<lambda>_. None) s = s" using update_same [of s] by simp
    with None show ?thesis by (simp add: deletePresent_def getOptional_get)
  next
    case (Some v)
    then show ?thesis by (simp add: deletePresent_def getOptional_get attrDelete_def)
  qed
qed

end

text \<open>The attributes of the Flow.\<close>

named_theorems attr_defs \<open>the record of each attribute, and its get and set as state operations\<close>

definition agentConfigAttribute :: "agentConfig attr" where [attr_defs]:
  "agentConfigAttribute = \<lparr>attrName = ''AgentConfig'', attrField = sConfig, attrUpdate = sConfig_update\<rparr>"

definition runtimeMetadataAttribute :: "jsonObject attr" where [attr_defs]:
  "runtimeMetadataAttribute = \<lparr>attrName = ''AgentRuntimeMetadata'', attrField = sRuntimeMetadata, attrUpdate = sRuntimeMetadata_update\<rparr>"

definition agentStateAttribute :: "agentState attr" where [attr_defs]:
  "agentStateAttribute = \<lparr>attrName = ''AgentState'', attrField = sState, attrUpdate = sState_update\<rparr>"

definition modelUsageAttribute :: "modelUsage attr" where [attr_defs]:
  "modelUsageAttribute = \<lparr>attrName = ''ModelUsage'', attrField = sModelUsage, attrUpdate = sModelUsage_update\<rparr>"

definition waitingInputRoundAttribute :: "int attr" where [attr_defs]:
  "waitingInputRoundAttribute = \<lparr>attrName = ''WaitingInputRound'', attrField = sWaitingInputRound, attrUpdate = sWaitingInputRound_update\<rparr>"

definition contextSummaryAttribute :: "contextSummary attr" where [attr_defs]:
  "contextSummaryAttribute = \<lparr>attrName = ''ContextSummary'', attrField = sSummary, attrUpdate = sSummary_update\<rparr>"

definition agentPlanAttribute :: "agentPlan attr" where [attr_defs]:
  "agentPlanAttribute = \<lparr>attrName = ''AgentPlan'', attrField = sPlan, attrUpdate = sPlan_update\<rparr>"

definition pendingApprovalAttribute :: "pendingApproval attr" where [attr_defs]:
  "pendingApprovalAttribute = \<lparr>attrName = ''PendingApproval'', attrField = sApproval, attrUpdate = sApproval_update\<rparr>"

definition pendingToolRecoveryAttribute :: "pendingToolRecovery attr" where [attr_defs]:
  "pendingToolRecoveryAttribute = \<lparr>attrName = ''PendingToolRecovery'', attrField = sRecovery, attrUpdate = sRecovery_update\<rparr>"

definition pendingTimerAttribute :: "pendingTimer attr" where [attr_defs]:
  "pendingTimerAttribute = \<lparr>attrName = ''PendingTimer'', attrField = sTimer, attrUpdate = sTimer_update\<rparr>"

definition pendingUserInputAttribute :: "pendingUserInput attr" where [attr_defs]:
  "pendingUserInputAttribute = \<lparr>attrName = ''PendingUserInput'', attrField = sUserInput, attrUpdate = sUserInput_update\<rparr>"

definition inactivityDeadlineAttribute :: "goTime attr" where [attr_defs]:
  "inactivityDeadlineAttribute = \<lparr>attrName = ''InactivityDeadline'', attrField = sDeadline, attrUpdate = sDeadline_update\<rparr>"

interpretation agentConfigA: attribute agentConfigAttribute
  by unfold_locales (simp_all add: agentConfigAttribute_def)

interpretation runtimeMetadataA: attribute runtimeMetadataAttribute
  by unfold_locales (simp_all add: runtimeMetadataAttribute_def)

interpretation agentStateA: attribute agentStateAttribute
  by unfold_locales (simp_all add: agentStateAttribute_def)

interpretation modelUsageA: attribute modelUsageAttribute
  by unfold_locales (simp_all add: modelUsageAttribute_def)

interpretation waitingInputRoundA: attribute waitingInputRoundAttribute
  by unfold_locales (simp_all add: waitingInputRoundAttribute_def)

interpretation contextSummaryA: attribute contextSummaryAttribute
  by unfold_locales (simp_all add: contextSummaryAttribute_def)

interpretation agentPlanA: attribute agentPlanAttribute
  by unfold_locales (simp_all add: agentPlanAttribute_def)

interpretation pendingApprovalA: attribute pendingApprovalAttribute
  by unfold_locales (simp_all add: pendingApprovalAttribute_def)

interpretation pendingToolRecoveryA: attribute pendingToolRecoveryAttribute
  by unfold_locales (simp_all add: pendingToolRecoveryAttribute_def)

interpretation pendingTimerA: attribute pendingTimerAttribute
  by unfold_locales (simp_all add: pendingTimerAttribute_def)

interpretation pendingUserInputA: attribute pendingUserInputAttribute
  by unfold_locales (simp_all add: pendingUserInputAttribute_def)

interpretation inactivityDeadlineA: attribute inactivityDeadlineAttribute
  by unfold_locales (simp_all add: inactivityDeadlineAttribute_def)

lemmas optional_attributes =
  pendingApprovalA.getOptional_get pendingToolRecoveryA.getOptional_get pendingTimerA.getOptional_get
  pendingUserInputA.getOptional_get agentPlanA.getOptional_get contextSummaryA.getOptional_get
  inactivityDeadlineA.getOptional_get runtimeMetadataA.getOptional_get modelUsageA.getOptional_get

lemmas delete_attributes =
  pendingApprovalA.deletePresent_write pendingToolRecoveryA.deletePresent_write
  pendingTimerA.deletePresent_write pendingUserInputA.deletePresent_write
  agentPlanA.deletePresent_write inactivityDeadlineA.deletePresent_write

section \<open>Attribute maps\<close>

record 'v attrMap =
  mapName :: string
  mapField :: "store \<Rightarrow> string \<Rightarrow> 'v option"
  mapUpdate :: "((string \<Rightarrow> 'v option) \<Rightarrow> string \<Rightarrow> 'v option) \<Rightarrow> store \<Rightarrow> store"

definition mapGet :: "'v attrMap \<Rightarrow> string \<Rightarrow> 'v action" where
  "mapGet m key = (\<lambda>s. case mapField m s key of
     None \<Rightarrow> Inl (AttributeNotFoundError (mapName m))
   | Some v \<Rightarrow> Inr (v, s))"

definition mapSet :: "'v attrMap \<Rightarrow> string \<Rightarrow> 'v \<Rightarrow> unit action" where
  "mapSet m key v = (\<lambda>s. Inr ((), mapUpdate m (\<lambda>_. (mapField m s)(key := Some v)) s))"

definition mapDelete :: "'v attrMap \<Rightarrow> string \<Rightarrow> unit action" where
  "mapDelete m key = (\<lambda>s. case mapField m s key of
     None \<Rightarrow> Inl (AttributeNotFoundError (mapName m))
   | Some _ \<Rightarrow> Inr ((), mapUpdate m (\<lambda>_. (mapField m s)(key := None)) s))"

definition currentMessagesAttribute :: "agentMessage attrMap" where [attr_defs]:
  "currentMessagesAttribute =
     \<lparr>mapName = ''CurrentMessages'', mapField = sCurrent, mapUpdate = sCurrent_update\<rparr>"

definition archivedMessagesAttribute :: "archivedChunk attrMap" where [attr_defs]:
  "archivedMessagesAttribute =
     \<lparr>mapName = ''ArchivedMessages'', mapField = sArchived, mapUpdate = sArchived_update\<rparr>"

section \<open>Channels\<close>

record 'v channel =
  chanName :: string
  chanField :: "store \<Rightarrow> 'v envelope list"
  chanUpdate :: "('v envelope list \<Rightarrow> 'v envelope list) \<Rightarrow> store \<Rightarrow> store"

definition publish :: "'v channel \<Rightarrow> 'v \<Rightarrow> unit action" where
  "publish c v = (\<lambda>s. Inr ((),
     (chanUpdate c (\<lambda>_. chanField c s @ [(sPublished s, v)]) s) \<lparr>sPublished := Suc (sPublished s)\<rparr>))"

definition pendingMessages :: "'v channel \<Rightarrow> 'v envelope list action" where
  "pendingMessages c = readTx (chanField c)"

definition channelSize :: "'v channel \<Rightarrow> int action" where
  "channelSize c = readTx (\<lambda>s. int (length (chanField c s)))"

definition channelDelete :: "'v channel \<Rightarrow> nat \<Rightarrow> unit action" where
  "channelDelete c i = (\<lambda>s.
     if i \<in> fst ` set (chanField c s)
     then Inr ((), chanUpdate c (\<lambda>_. filter (\<lambda>m. fst m \<noteq> i) (chanField c s)) s)
     else Inl (ChannelMessageNotFoundError (chanName c)))"

definition resetInactivityTimerChannel :: "goTime channel" where [attr_defs]:
  "resetInactivityTimerChannel =
     \<lparr>chanName = ''ResetInactivityTimer'', chanField = chReset, chanUpdate = chReset_update\<rparr>"

definition answeredUserInputsChannel :: "answeredUserInput channel" where [attr_defs]:
  "answeredUserInputsChannel =
     \<lparr>chanName = ''AnsweredUserInputs'', chanField = chAnswered, chanUpdate = chAnswered_update\<rparr>"

definition queuedUserMessagesChannel :: "pendingUserMessage channel" where [attr_defs]:
  "queuedUserMessagesChannel =
     \<lparr>chanName = ''QueuedUserMessages'', chanField = chQueued, chanUpdate = chQueued_update\<rparr>"

definition steeredUserMessagesChannel :: "pendingUserMessage channel" where [attr_defs]:
  "steeredUserMessagesChannel =
     \<lparr>chanName = ''SteeredUserMessages'', chanField = chSteered, chanUpdate = chSteered_update\<rparr>"

text \<open>A channel map is one channel for each instance name.\<close>

record 'v channelMap =
  cmapName :: string
  cmapField :: "store \<Rightarrow> string \<Rightarrow> 'v envelope list"
  cmapUpdate :: "((string \<Rightarrow> 'v envelope list) \<Rightarrow> string \<Rightarrow> 'v envelope list) \<Rightarrow> store \<Rightarrow> store"

definition publishTo :: "'v channelMap \<Rightarrow> string \<Rightarrow> 'v \<Rightarrow> unit action" where
  "publishTo c name v = (\<lambda>s. Inr ((),
     (cmapUpdate c (\<lambda>_. (cmapField c s)(name := cmapField c s name @ [(sPublished s, v)])) s)
       \<lparr>sPublished := Suc (sPublished s)\<rparr>))"

definition toolApprovalsChannel :: "bool channelMap" where [attr_defs]:
  "toolApprovalsChannel =
     \<lparr>cmapName = ''ToolApprovals'', cmapField = chApprovals, cmapUpdate = chApprovals_update\<rparr>"

definition toolRecoveryDecisionsChannel :: "resolveToolRecoveryRequest channelMap" where [attr_defs]:
  "toolRecoveryDecisionsChannel =
     \<lparr>cmapName = ''ToolRecoveryDecisions'', cmapField = chRecovery, cmapUpdate = chRecovery_update\<rparr>"

definition parallelToolResultsChannel :: "parallelToolResult channelMap" where [attr_defs]:
  "parallelToolResultsChannel =
     \<lparr>cmapName = ''ParallelToolResults'', cmapField = chParallel, cmapUpdate = chParallel_update\<rparr>"

definition planExecutionsChannel :: "planExecutionRequest channelMap" where [attr_defs]:
  "planExecutionsChannel =
     \<lparr>cmapName = ''PlanExecutions'', cmapField = chPlanExecutions, cmapUpdate = chPlanExecutions_update\<rparr>"

text \<open>Every envelope number in use is below the publication counter, and a channel never repeats one.\<close>

definition freshEnvelopes :: "nat \<Rightarrow> 'v envelope list \<Rightarrow> bool" where
  "freshEnvelopes n q \<longleftrightarrow> distinct (map fst q) \<and> (\<forall>m \<in> set q. fst m < n)"

lemma freshEnvelopes_publish: "freshEnvelopes n q \<Longrightarrow> freshEnvelopes (Suc n) (q @ [(n, v)])"
  by (auto simp: freshEnvelopes_def less_Suc_eq)

lemma freshEnvelopes_filter: "freshEnvelopes n q \<Longrightarrow> freshEnvelopes n (filter P q)"
  by (auto simp: freshEnvelopes_def distinct_map_filter)

lemma freshEnvelopes_Suc: "freshEnvelopes n q \<Longrightarrow> freshEnvelopes (Suc n) q"
  by (auto simp: freshEnvelopes_def less_Suc_eq)

end
