(* ===== verification/Tools.thy ===== *)
theory Tools
  imports DexStore
begin

text \<open>
  The environment of the Flow and \<^verbatim>\<open>internal/agent/tools.go\<close>: the built-in tools, the
  validation of their decoded arguments, answers to questions, the encoding of tool results
  as JSON, the compaction cutoff that never separates a tool call from its result, and the
  projection of a message into the model context.
\<close>

section \<open>The environment\<close>

text \<open>
  \<^verbatim>\<open>Flow\<close> holds the boundaries the code calls but does not contain. The argument decoders
  and schemas of the built-in tools are generated code; the token counter belongs to the
  configured model client; the catalog to the tool registry. \<open>fErrorText\<close> is the method
  \<^verbatim>\<open>Error\<close> of an error value, \<open>fErrorType\<close> the verb \<^verbatim>\<open>%T\<close>.
\<close>

record flow =
  fHasModelHooks :: bool
  fHasExpirationHandler :: bool
  fMinimumTimeoutForTest :: int
  fMinimumExtensionForTest :: duration
  fServerNames :: "string list"
  fDefinitions :: "string list \<Rightarrow> string list \<Rightarrow> toolDefinition list"
  fCountTokens :: "string \<Rightarrow> agentMessage list \<Rightarrow> int"
  fDecodeWriteTodos :: "string \<Rightarrow> (string \<times> string) list result"
  fDecodeDurableWait :: "string \<Rightarrow> (int \<times> string) result"
  fDecodeUserInput :: "string \<Rightarrow> userInputQuestion list result"
  fWriteTodosSchema :: jsonObject
  fDurableWaitSchema :: jsonObject
  fRequestUserInputSchema :: jsonObject
  fErrorText :: "goError \<Rightarrow> string"
  fErrorType :: "goError \<Rightarrow> string"

section \<open>Built-in tools\<close>

definition toolNameWriteTodos :: string where "toolNameWriteTodos = ''write_todos''"
definition toolNameDurableWait :: string where "toolNameDurableWait = ''durable_wait''"
definition toolNameRequestUserInput :: string where "toolNameRequestUserInput = ''request_user_input''"
definition toolNameSimulateFailure :: string where "toolNameSimulateFailure = ''simulate_tool_failure''"

lemmas tool_names = toolNameWriteTodos_def toolNameDurableWait_def toolNameRequestUserInput_def
  toolNameSimulateFailure_def

definition maximumUserInputOptions :: int where "maximumUserInputOptions = 3"
definition maximumUserInputHeaderCharacters :: int where "maximumUserInputHeaderCharacters = 32"
definition maximumUserMessageLength :: int where "maximumUserMessageLength = 1000000"

definition builtInTool :: "string \<Rightarrow> string \<Rightarrow> jsonObject \<Rightarrow> toolDefinition" where
  "builtInTool name description schema = \<lparr>
     tdName = name, tdDescription = description, tdInputSchema = schema,
     tdRequiresApproval = False, tdRunningType = OtherRunningType [], tdAttemptTimeout = 0,
     tdMaximumAttempts = 1, tdRetryTotalDuration = 0, tdSupportsParallel = False,
     tdRetryExhaustionPolicy = OtherPolicy []\<rparr>"

definition writeTodosDefinition :: "flow \<Rightarrow> toolDefinition" where
  "writeTodosDefinition flow = builtInTool toolNameWriteTodos
     ''Replace the durable plan with a complete ordered todo list. Use an empty list to clear the plan. Keep statuses accurate as work proceeds.''
     (fWriteTodosSchema flow)"

definition durableWaitDefinition :: "flow \<Rightarrow> toolDefinition" where
  "durableWaitDefinition flow = builtInTool toolNameDurableWait
     ''Wait durably before continuing. A steered user message interrupts the wait.''
     (fDurableWaitSchema flow)"

definition requestUserInputDefinition :: "flow \<Rightarrow> toolDefinition" where
  "requestUserInputDefinition flow = builtInTool toolNameRequestUserInput
     ''Pause durably and ask for information required to continue. Keep dependent plan tasks pending until the user answers.''
     (fRequestUserInputSchema flow)"

definition simulateFailureSchema :: jsonObject where
  "simulateFailureSchema =
     ''{'' @ jsonString ''type'' @ '':'' @ jsonString ''object'' @ '','' @
     jsonString ''additionalProperties'' @ '':false}''"

definition simulateFailureDefinition :: toolDefinition where
  "simulateFailureDefinition = \<lparr>
     tdName = toolNameSimulateFailure,
     tdDescription = ''Fail deterministically to exercise manual tool recovery in the local mock.'',
     tdInputSchema = simulateFailureSchema,
     tdRequiresApproval = False, tdRunningType = OtherRunningType [], tdAttemptTimeout = seconds 5,
     tdMaximumAttempts = 2, tdRetryTotalDuration = seconds 5, tdSupportsParallel = False,
     tdRetryExhaustionPolicy = PolicyManualRecovery\<rparr>"

section \<open>Arguments of the built-in tools\<close>

definition invalidToolArguments :: "toolCall \<Rightarrow> goError \<Rightarrow> goError" where
  "invalidToolArguments call err =
     Errorf ''tool %q has invalid arguments: %w'' [ArgStr (tcName call), ArgErr err]"

definition taskStatusFromContract :: "string \<Rightarrow> taskStatus result" where
  "taskStatusFromContract status =
     (if status = ''pending'' then Inr TaskPending
      else if status = ''in_progress'' then Inr TaskInProgress
      else if status = ''completed'' then Inr TaskCompleted
      else Inl (Errorf ''unsupported generated task status %q'' [ArgStr status]))"

fun planTasksFrom :: "(string \<times> string) list \<Rightarrow> int \<Rightarrow> planTask list result" where
  "planTasksFrom [] index = Inr []"
| "planTasksFrom ((content, status) # rest) index =
     (case taskStatusFromContract status of Inl e \<Rightarrow> Inl e | Inr st \<Rightarrow>
        let task = \<lparr>ptContent = trimSpace content, ptStatus = st\<rparr> in
        (case validateTask task index of Inl e \<Rightarrow> Inl e | Inr _ \<Rightarrow>
         (case planTasksFrom rest (index + 1) of Inl e \<Rightarrow> Inl e | Inr tasks \<Rightarrow> Inr (task # tasks))))"

definition planTasksOf :: "flow \<Rightarrow> toolCall \<Rightarrow> planTask list result" where
  "planTasksOf flow call =
     (case fDecodeWriteTodos flow (tcArguments call) of
        Inl e \<Rightarrow> Inl (invalidToolArguments call e)
      | Inr todos \<Rightarrow> planTasksFrom todos 0)"

definition durableWaitArgumentsFor :: "flow \<Rightarrow> toolCall \<Rightarrow> (int \<times> string) result" where
  "durableWaitArgumentsFor flow call =
     (case fDecodeDurableWait flow (tcArguments call) of
        Inl e \<Rightarrow> Inl (invalidToolArguments call e)
      | Inr (durationSeconds, reason) \<Rightarrow> Inr (durationSeconds, trimSpace reason))"

fun validateOptions :: "userInputOption list \<Rightarrow> string list \<Rightarrow> int \<Rightarrow> userInputOption list result" where
  "validateOptions [] seen index = Inr []"
| "validateOptions (v # rest) seen index =
     (let label = trimSpace (uioLabel v); description = trimSpace (uioDescription v) in
      if label = [] \<or> description = []
      then Inl (Errorf ''question %d options require label and description'' [ArgInt (index + 1)])
      else if label \<in> set seen
      then Inl (Errorf ''question %d option labels must be unique'' [ArgInt (index + 1)])
      else (case validateOptions rest (label # seen) index of
              Inl e \<Rightarrow> Inl e
            | Inr options \<Rightarrow> Inr (\<lparr>uioLabel = label, uioDescription = description\<rparr> # options)))"

definition validateUserInputOptions :: "userInputOption list \<Rightarrow> int \<Rightarrow> userInputOption list result" where
  "validateUserInputOptions vs index =
     (if length vs < 2 \<or> int (length vs) > maximumUserInputOptions
      then Inl (Errorf ''question %d options must contain 2-%d values''
                  [ArgInt (index + 1), ArgInt maximumUserInputOptions])
      else validateOptions vs [] index)"

fun validateQuestions :: "userInputQuestion list \<Rightarrow> string list \<Rightarrow> int \<Rightarrow> userInputQuestion list result" where
  "validateQuestions [] seen index = Inr []"
| "validateQuestions (v # rest) seen index =
     (let qid = trimSpace (uiqID v); header = trimSpace (uiqHeader v); question = trimSpace (uiqQuestion v) in
      if qid = [] \<or> header = [] \<or> question = []
      then Inl (Errorf ''question %d requires id, header, and question'' [ArgInt (index + 1)])
      else if int (runeCount header) > maximumUserInputHeaderCharacters
      then Inl (Errorf ''question %d header must contain at most %d Unicode characters''
                  [ArgInt (index + 1), ArgInt maximumUserInputHeaderCharacters])
      else if qid \<in> set seen
      then Inl (Errorf ''question IDs must be unique: %q'' [ArgStr qid])
      else (case validateUserInputOptions (uiqOptions v) index of Inl e \<Rightarrow> Inl e | Inr options \<Rightarrow>
            (case validateQuestions rest (qid # seen) (index + 1) of Inl e \<Rightarrow> Inl e | Inr questions \<Rightarrow>
               Inr (\<lparr>uiqID = qid, uiqHeader = header, uiqQuestion = question, uiqOptions = options\<rparr>
                    # questions))))"

definition validateUserInputQuestions :: "userInputQuestion list \<Rightarrow> userInputQuestion list result" where
  "validateUserInputQuestions vs =
     (if vs = [] \<or> int (length vs) > maximumUserInputQuestions
      then Inl (Errorf ''questions must contain 1-%d values'' [ArgInt maximumUserInputQuestions])
      else validateQuestions vs [] 0)"

definition userInputArgumentsFor :: "flow \<Rightarrow> toolCall \<Rightarrow> userInputQuestion list result" where
  "userInputArgumentsFor flow call =
     (case fDecodeUserInput flow (tcArguments call) of
        Inl e \<Rightarrow> Inl (invalidToolArguments call e)
      | Inr questions \<Rightarrow> validateUserInputQuestions questions)"

section \<open>Answers\<close>

text \<open>\<^verbatim>\<open>byQuestion\<close> is an association list without repeated keys.\<close>

fun collectAnswers :: "userInputAnswer list \<Rightarrow> (string \<times> string) list \<Rightarrow> (string \<times> string) list result" where
  "collectAnswers [] byQuestion = Inr byQuestion"
| "collectAnswers (a # rest) byQuestion =
     (let qid = trimSpace (uiaQuestionID a); answer = trimSpace (uiaAnswer a) in
      if qid = [] \<or> answer = [] then Inl (New ''answers require question_id and answer'')
      else if map_of byQuestion qid \<noteq> None
      then Inl (Errorf ''question %q was answered more than once'' [ArgStr qid])
      else collectAnswers rest ((qid, answer) # byQuestion))"

definition answerLine :: "string \<Rightarrow> string \<Rightarrow> string" where
  "answerLine header answer = ''**'' @ header @ ''**: '' @ answer"

definition blankLine :: string where
  "blankLine = [CHR 10, CHR 10]"

text \<open>The loop over the pending questions: the content so far and the answers left over.\<close>

fun composeAnswers :: "userInputQuestion list \<Rightarrow> int \<Rightarrow> string \<Rightarrow> (string \<times> string) list \<Rightarrow>
    (string \<times> (string \<times> string) list) result" where
  "composeAnswers [] index content byQuestion = Inr (content, byQuestion)"
| "composeAnswers (q # rest) index content byQuestion =
     (case map_of byQuestion (uiqID q) of
        None \<Rightarrow> Inl (Errorf ''question %q is missing an answer'' [ArgStr (uiqID q)])
      | Some answer \<Rightarrow>
          composeAnswers rest (index + 1)
            (content @ (if index > 0 then blankLine else []) @ answerLine (uiqHeader q) answer)
            (filter (\<lambda>p. fst p \<noteq> uiqID q) byQuestion))"

definition answeredUserMessage :: "pendingUserInput \<Rightarrow> userInputAnswer list \<Rightarrow> userMessage result" where
  "answeredUserMessage pending answers =
     (if length answers \<noteq> length (puiQuestions pending)
      then Inl (New ''answers must contain exactly one value for every question'')
      else (case collectAnswers answers [] of Inl e \<Rightarrow> Inl e | Inr byQuestion \<Rightarrow>
      (case composeAnswers (puiQuestions pending) 0 [] byQuestion of Inl e \<Rightarrow> Inl e | Inr (content, left) \<Rightarrow>
      if left \<noteq> [] then Inl (New ''answers contain an unknown question ID'')
      else if int (length content) > maximumUserMessageLength
      then Inl (Errorf ''combined answer exceeds %d characters'' [ArgInt maximumUserMessageLength])
      else Inr \<lparr>umContent = content, umPlanMode = False, umAnsweredInputCallID = Some (puiCallID pending)\<rparr>)))"

definition acceptedAnsweredUserMessage :: "pendingUserInput \<Rightarrow> userInputAnswer list \<Rightarrow> userMessage option" where
  "acceptedAnsweredUserMessage pending answers =
     (case answeredUserMessage pending answers of Inl _ \<Rightarrow> None | Inr m \<Rightarrow> Some m)"

section \<open>Tool results\<close>

datatype toolErrorCode =
    ErrUnknownOrDisabled | ErrMultiplePlanWrites | ErrInvalidPlan | ErrInvalidDuration
  | ErrInvalidUserInput | ErrUserInputPending | ErrRejectedByUser | ErrSupersededBySteering
  | ErrSupersededByUserInput | ErrStoppedByRecovery

fun toolErrorText :: "toolErrorCode \<Rightarrow> string" where
  "toolErrorText ErrUnknownOrDisabled = ''unknown_or_disabled_tool''"
| "toolErrorText ErrMultiplePlanWrites = ''multiple_write_todos_calls''"
| "toolErrorText ErrInvalidPlan = ''invalid_todos''"
| "toolErrorText ErrInvalidDuration = ''invalid_duration_seconds''"
| "toolErrorText ErrInvalidUserInput = ''invalid_user_input''"
| "toolErrorText ErrUserInputPending = ''user_input_already_pending''"
| "toolErrorText ErrRejectedByUser = ''rejected_by_user''"
| "toolErrorText ErrSupersededBySteering = ''superseded_by_steered_user_message''"
| "toolErrorText ErrSupersededByUserInput = ''superseded_by_user_input''"
| "toolErrorText ErrStoppedByRecovery = ''stopped_by_manual_recovery''"

datatype toolResultStatus =
  StatusFailed | StatusUpdated | StatusCleared | StatusWaitingForUser | StatusInterrupted | StatusCompleted

fun toolResultStatusText :: "toolResultStatus \<Rightarrow> string" where
  "toolResultStatusText StatusFailed = ''failed''"
| "toolResultStatusText StatusUpdated = ''updated''"
| "toolResultStatusText StatusCleared = ''cleared''"
| "toolResultStatusText StatusWaitingForUser = ''waiting_for_user''"
| "toolResultStatusText StatusInterrupted = ''interrupted''"
| "toolResultStatusText StatusCompleted = ''completed''"

text \<open>\<open>None\<close> is the empty string of an omitted error code or outcome.\<close>

record toolResultPayload =
  plStatus :: toolResultStatus
  plError :: "toolErrorCode option"
  plMessage :: string
  plTool :: string
  plOutcome :: "toolOutcome option"
  plErrorType :: string
  plReason :: string
  plRevision :: int
  plTaskCount :: int
  plQuestions :: "userInputQuestion list"
  plDurationSeconds :: int
  plAttempts :: int

definition payload :: "toolResultStatus \<Rightarrow> toolResultPayload" where
  "payload status = \<lparr>
     plStatus = status, plError = None, plMessage = [], plTool = [], plOutcome = None,
     plErrorType = [], plReason = [], plRevision = 0, plTaskCount = 0, plQuestions = [],
     plDurationSeconds = 0, plAttempts = 0\<rparr>"

text \<open>What \<^verbatim>\<open>json.Marshal\<close> writes for these structs: the members in field order, those marked
  \<^verbatim>\<open>omitempty\<close> left out when they hold the zero value.\<close>

definition optionJSON :: "userInputOption \<Rightarrow> string" where
  "optionJSON opt = jsonBraces
     [jsonMember ''label'' (jsonString (uioLabel opt)),
      jsonMember ''description'' (jsonString (uioDescription opt))]"

definition questionJSON :: "userInputQuestion \<Rightarrow> string" where
  "questionJSON q = jsonBraces
     [jsonMember ''id'' (jsonString (uiqID q)), jsonMember ''header'' (jsonString (uiqHeader q)),
      jsonMember ''question'' (jsonString (uiqQuestion q)),
      jsonMember ''options'' (jsonBrackets (map optionJSON (uiqOptions q)))]"

definition textMember :: "string \<Rightarrow> string \<Rightarrow> string list" where
  "textMember name value = (if value = [] then [] else [jsonMember name (jsonString value)])"

definition intMember :: "string \<Rightarrow> int \<Rightarrow> string list" where
  "intMember name value = (if value = 0 then [] else [jsonMember name (showInt value)])"

definition payloadMembers :: "toolResultPayload \<Rightarrow> string list" where
  "payloadMembers p =
     [jsonMember ''status'' (jsonString (toolResultStatusText (plStatus p)))] @
     textMember ''error'' (case plError p of None \<Rightarrow> [] | Some e \<Rightarrow> toolErrorText e) @
     textMember ''message'' (plMessage p) @
     textMember ''tool'' (plTool p) @
     textMember ''outcome'' (case plOutcome p of None \<Rightarrow> [] | Some out \<Rightarrow> toolOutcomeText out) @
     textMember ''error_type'' (plErrorType p) @
     textMember ''reason'' (plReason p) @
     intMember ''revision'' (plRevision p) @
     intMember ''task_count'' (plTaskCount p) @
     (if plQuestions p = [] then []
      else [jsonMember ''questions'' (jsonBrackets (map questionJSON (plQuestions p)))]) @
     intMember ''duration_seconds'' (plDurationSeconds p) @
     intMember ''attempts'' (plAttempts p)"

text \<open>Marshalling these types cannot fail, so the error branch of the code is not taken.\<close>

definition encodeToolResult :: "toolResultPayload \<Rightarrow> toolOutcome \<Rightarrow> bool \<Rightarrow> toolExecutionResult" where
  "encodeToolResult p outcome isError =
     \<lparr>terContent = jsonBraces (payloadMembers p), terOutcome = outcome, terIsError = isError\<rparr>"

definition interruptedResult :: "toolErrorCode \<Rightarrow> toolExecutionResult" where
  "interruptedResult reason =
     encodeToolResult ((payload StatusInterrupted) \<lparr>plError := Some reason\<rparr>) OutcomeKnownFailure True"

section \<open>Compaction cutoff and projection\<close>

text \<open>
  The calls of the window whose result has not been seen, each with the sequence of the
  message that made it: an association list without repeated keys.
\<close>

definition putCall :: "int \<Rightarrow> string \<Rightarrow> (string \<times> int) list \<Rightarrow> (string \<times> int) list" where
  "putCall seq callID pending = (callID, seq) # filter (\<lambda>p. fst p \<noteq> callID) pending"

definition noteMessage :: "int \<Rightarrow> agentMessage \<Rightarrow> (string \<times> int) list \<Rightarrow> (string \<times> int) list" where
  "noteMessage seq message pending =
     (let added = fold (\<lambda>call. putCall seq (tcID call)) (msgToolCalls message) pending in
      case msgToolCallID message of
        Some callID \<Rightarrow> if msgRole message = RoleTool then filter (\<lambda>p. fst p \<noteq> callID) added else added
      | None \<Rightarrow> added)"

fun openCalls :: "agentMessage list \<Rightarrow> int \<Rightarrow> (string \<times> int) list \<Rightarrow> (string \<times> int) list" where
  "openCalls [] seq pending = pending"
| "openCalls (m # ms) seq pending = openCalls ms (seq + 1) (noteMessage seq m pending)"

definition toolSafeCompactionCutoff :: "agentMessage list \<Rightarrow> int \<Rightarrow> int \<Rightarrow> int" where
  "toolSafeCompactionCutoff messages firstSequence cutoff =
     (let sequences = map snd (openCalls messages firstSequence []) in
      if sequences = [] then cutoff
      else let candidate = Min (set sequences) - 1 in
           if candidate < cutoff then candidate else cutoff)"

definition sequenceKey :: "int \<Rightarrow> string" where
  "sequenceKey sequence = showInt sequence"

definition planRevisionKey :: "int \<Rightarrow> string" where
  "planRevisionKey revision = showInt revision"

lemma sequenceKey_inject [simp]: "sequenceKey a = sequenceKey b \<longleftrightarrow> a = b"
  by (simp add: sequenceKey_def)

lemma inj_sequenceKey [simp]: "inj_on sequenceKey A"
  by (simp add: inj_on_def)

definition truncationNotice :: string where
  "truncationNotice =
     CHR 10 # ''[Content truncated in the model context; the durable message is complete.]''"

definition projectMessage :: "agentMessage \<Rightarrow> int \<Rightarrow> agentMessage" where
  "projectMessage message maxContextTokens =
     (let q = Prelude.quot (wrap64 (maxContextTokens * 4)) 5;
          maximumCharacters = (if q < 1000 then 1000 else q)
      in if int (length (msgContent message)) \<le> maximumCharacters then message
         else message \<lparr>msgContent := take (nat maximumCharacters) (msgContent message) @ truncationNotice\<rparr>)"

section \<open>Questions and answers\<close>

definition wellFormedOption :: "userInputOption \<Rightarrow> bool" where
  "wellFormedOption opt \<longleftrightarrow> uioLabel opt \<noteq> [] \<and> uioDescription opt \<noteq> []"

definition wellFormedQuestion :: "userInputQuestion \<Rightarrow> bool" where
  "wellFormedQuestion q \<longleftrightarrow>
     uiqID q \<noteq> [] \<and> uiqHeader q \<noteq> [] \<and> uiqQuestion q \<noteq> [] \<and> runeCount (uiqHeader q) \<le> 32 \<and>
     2 \<le> length (uiqOptions q) \<and> length (uiqOptions q) \<le> 3 \<and>
     distinct (map uioLabel (uiqOptions q)) \<and> (\<forall>opt \<in> set (uiqOptions q). wellFormedOption opt)"

lemma validateOptions_Inr:
  "validateOptions vs seen index = Inr options \<Longrightarrow>
     length options = length vs \<and> distinct (map uioLabel options) \<and>
     set (map uioLabel options) \<inter> set seen = {} \<and> (\<forall>opt \<in> set options. wellFormedOption opt)"
proof (induction vs arbitrary: seen options)
  case (Cons v vs)
  from Cons.prems obtain rest where
    rest: "validateOptions vs (trimSpace (uioLabel v) # seen) index = Inr rest" and
    options: "options = \<lparr>uioLabel = trimSpace (uioLabel v), uioDescription = trimSpace (uioDescription v)\<rparr> # rest" and
    ok: "trimSpace (uioLabel v) \<noteq> []" "trimSpace (uioDescription v) \<noteq> []" "trimSpace (uioLabel v) \<notin> set seen"
    by (auto simp: Let_def split: if_splits sum.splits)
  from Cons.IH [OF rest] ok options show ?case by (auto simp: wellFormedOption_def)
qed simp

lemma validateUserInputOptions_Inr:
  "validateUserInputOptions vs index = Inr options \<Longrightarrow>
     2 \<le> length options \<and> length options \<le> 3 \<and> distinct (map uioLabel options) \<and>
     (\<forall>opt \<in> set options. wellFormedOption opt)"
  by (auto simp: validateUserInputOptions_def maximumUserInputOptions_def
      dest!: validateOptions_Inr split: if_splits)

lemma validateQuestions_Inr:
  "validateQuestions vs seen index = Inr questions \<Longrightarrow>
     length questions = length vs \<and> distinct (map uiqID questions) \<and>
     set (map uiqID questions) \<inter> set seen = {} \<and> (\<forall>q \<in> set questions. wellFormedQuestion q)"
proof (induction vs arbitrary: seen index questions)
  case (Cons v vs)
  from Cons.prems obtain options rest where
    opts: "validateUserInputOptions (uiqOptions v) index = Inr options" and
    rest: "validateQuestions vs (trimSpace (uiqID v) # seen) (index + 1) = Inr rest" and
    qs: "questions = \<lparr>uiqID = trimSpace (uiqID v), uiqHeader = trimSpace (uiqHeader v),
           uiqQuestion = trimSpace (uiqQuestion v), uiqOptions = options\<rparr> # rest" and
    ok: "trimSpace (uiqID v) \<noteq> []" "trimSpace (uiqHeader v) \<noteq> []" "trimSpace (uiqQuestion v) \<noteq> []"
      "runeCount (trimSpace (uiqHeader v)) \<le> 32" "trimSpace (uiqID v) \<notin> set seen"
    by (auto simp: Let_def maximumUserInputHeaderCharacters_def split: if_splits sum.splits)
  from Cons.IH [OF rest] ok validateUserInputOptions_Inr [OF opts] qs
  show ?case by (auto simp: wellFormedQuestion_def)
qed simp

lemma validateUserInputQuestions_Inr:
  "validateUserInputQuestions vs = Inr questions \<Longrightarrow>
     1 \<le> length questions \<and> length questions \<le> 3 \<and> distinct (map uiqID questions) \<and>
     (\<forall>q \<in> set questions. wellFormedQuestion q)"
proof -
  assume "validateUserInputQuestions vs = Inr questions"
  then have "vs \<noteq> []" "length vs \<le> 3" and res: "validateQuestions vs [] 0 = Inr questions"
    by (auto simp: validateUserInputQuestions_def maximumUserInputQuestions_def split: if_splits)
  with validateQuestions_Inr [OF res] show ?thesis by (auto simp: Suc_le_eq)
qed

text \<open>The trimmed identity and text of an answer.\<close>

definition trimmedAnswer :: "userInputAnswer \<Rightarrow> string \<times> string" where
  "trimmedAnswer a = (trimSpace (uiaQuestionID a), trimSpace (uiaAnswer a))"

lemma collectAnswers_Inr:
  "collectAnswers as acc = Inr res \<longleftrightarrow>
     res = rev (map trimmedAnswer as) @ acc \<and>
     (\<forall>a \<in> set as. trimSpace (uiaQuestionID a) \<noteq> [] \<and> trimSpace (uiaAnswer a) \<noteq> []) \<and>
     distinct (map (fst \<circ> trimmedAnswer) as) \<and> set (map (fst \<circ> trimmedAnswer) as) \<inter> fst ` set acc = {}"
  by (induction as arbitrary: acc)
    (auto simp: Let_def trimmedAnswer_def map_of_eq_None_iff)

text \<open>The content the pending questions and the collected answers compose to.\<close>

fun answerContent :: "userInputQuestion list \<Rightarrow> (string \<Rightarrow> string option) \<Rightarrow> bool \<Rightarrow> string" where
  "answerContent [] answers later = []"
| "answerContent (q # qs) answers later =
     (if later then blankLine else []) @ answerLine (uiqHeader q) (the (answers (uiqID q)))
       @ answerContent qs answers True"

lemma composeAnswers_Inr:
  assumes "distinct (map uiqID qs)" and "0 \<le> index"
  shows "composeAnswers qs index content answers = Inr (out, rest) \<longleftrightarrow>
     (\<forall>q \<in> set qs. map_of answers (uiqID q) \<noteq> None) \<and>
     out = content @ answerContent qs (map_of answers) (index > 0) \<and>
     rest = filter (\<lambda>p. fst p \<notin> uiqID ` set qs) answers"
  using assms
proof (induction qs arbitrary: index content answers)
  case (Cons q qs)
  have other: "map_of (filter (\<lambda>p. fst p \<noteq> uiqID q) answers) (uiqID q') = map_of answers (uiqID q')"
    if "q' \<in> set qs" for q'
  proof -
    from that have "uiqID q' \<in> uiqID ` set qs" by simp
    with Cons.prems have "uiqID q' \<noteq> uiqID q" by auto
    then show ?thesis by (induction answers) auto
  qed
  have content: "answerContent qs (map_of (filter (\<lambda>p. fst p \<noteq> uiqID q) answers)) b =
      answerContent qs (map_of answers) b" for b
    using other by (induction qs arbitrary: b) auto
  show ?case
  proof (cases "map_of answers (uiqID q)")
    case (Some answer)
    have IH: "composeAnswers qs (index + 1) c (filter (\<lambda>p. fst p \<noteq> uiqID q) answers) = Inr (out, rest) \<longleftrightarrow>
       (\<forall>q' \<in> set qs. map_of (filter (\<lambda>p. fst p \<noteq> uiqID q) answers) (uiqID q') \<noteq> None) \<and>
       out = c @ answerContent qs (map_of (filter (\<lambda>p. fst p \<noteq> uiqID q) answers)) True \<and>
       rest = filter (\<lambda>p. fst p \<notin> uiqID ` set qs) (filter (\<lambda>p. fst p \<noteq> uiqID q) answers)" for c
      using Cons.IH [of "index + 1" c] Cons.prems by simp
    have flt: "filter (\<lambda>p. fst p \<notin> uiqID ` set qs) (filter (\<lambda>p. fst p \<noteq> uiqID q) answers) =
       filter (\<lambda>p. fst p \<notin> uiqID ` set (q # qs)) answers"
      by (simp add: conj_commute)
    have "composeAnswers (q # qs) index content answers =
        composeAnswers qs (index + 1) (content @ (if index > 0 then blankLine else []) @
          answerLine (uiqHeader q) answer) (filter (\<lambda>p. fst p \<noteq> uiqID q) answers)"
      using Some by simp
    then show ?thesis using Some by (simp only: IH flt content) (auto simp: other)
  qed simp
qed auto


lemma map_of_rev_distinct: "distinct (map fst xs) \<Longrightarrow> map_of (rev xs) = map_of xs"
proof
  fix k assume d: "distinct (map fst xs)"
  then have d': "distinct (map fst (rev xs))" by (simp add: rev_map [symmetric])
  have "map_of (rev xs) k = Some v \<longleftrightarrow> map_of xs k = Some v" for v
    using map_of_eq_Some_iff [OF d] map_of_eq_Some_iff [OF d'] by simp
  then show "map_of (rev xs) k = map_of xs k" by (metis not_Some_eq)
qed

lemma accepted_iff:
  "acceptedAnsweredUserMessage pending answers = Some m \<longleftrightarrow>
     length answers = length (puiQuestions pending) \<and>
     (\<exists>byQuestion. collectAnswers answers [] = Inr byQuestion \<and>
       (\<exists>content. composeAnswers (puiQuestions pending) 0 [] byQuestion = Inr (content, []) \<and>
          length content \<le> 1000000 \<and>
          m = \<lparr>umContent = content, umPlanMode = False, umAnsweredInputCallID = Some (puiCallID pending)\<rparr>))"
  by (auto simp: acceptedAnsweredUserMessage_def answeredUserMessage_def maximumUserMessageLength_def
      split: sum.splits if_splits)

text \<open>
  C38. A batch of answers is accepted for a pending question batch exactly when, after
  trimming, the answers name every pending question once and no other, none is blank, and
  the combined text is at most a million bytes; the message then holds one line for each
  question, in question order, and is tied to the pending call.
\<close>

theorem answeredUserMessage_accepts:
  assumes "distinct (map uiqID (puiQuestions pending))"
  shows "acceptedAnsweredUserMessage pending answers = Some m \<longleftrightarrow>
     distinct (map (fst \<circ> trimmedAnswer) answers) \<and>
     set (map (fst \<circ> trimmedAnswer) answers) = set (map uiqID (puiQuestions pending)) \<and>
     (\<forall>a \<in> set answers. trimSpace (uiaQuestionID a) \<noteq> [] \<and> trimSpace (uiaAnswer a) \<noteq> []) \<and>
     m = \<lparr>umContent = answerContent (puiQuestions pending) (map_of (map trimmedAnswer answers)) False,
          umPlanMode = False, umAnsweredInputCallID = Some (puiCallID pending)\<rparr> \<and>
     length (umContent m) \<le> 1000000"
    (is "?L \<longleftrightarrow> ?R")
proof -
  let ?qs = "puiQuestions pending" and ?as = "map trimmedAnswer answers"
  let ?nonblank = "\<forall>a \<in> set answers. trimSpace (uiaQuestionID a) \<noteq> [] \<and> trimSpace (uiaAnswer a) \<noteq> []"
  have fsts: "map fst ?as = map (fst \<circ> trimmedAnswer) answers" by simp
  have step: "?L \<longleftrightarrow> length answers = length ?qs \<and> ?nonblank \<and> distinct (map fst ?as) \<and>
      (\<forall>q \<in> set ?qs. map_of (rev ?as) (uiqID q) \<noteq> None) \<and>
      filter (\<lambda>p. fst p \<notin> uiqID ` set ?qs) (rev ?as) = [] \<and>
      m = \<lparr>umContent = answerContent ?qs (map_of (rev ?as)) False, umPlanMode = False,
           umAnsweredInputCallID = Some (puiCallID pending)\<rparr> \<and> length (umContent m) \<le> 1000000"
    unfolding accepted_iff by (simp add: collectAnswers_Inr composeAnswers_Inr [OF assms]) auto
  have keys: "(\<forall>q \<in> set ?qs. map_of (rev ?as) (uiqID q) \<noteq> None) \<longleftrightarrow> uiqID ` set ?qs \<subseteq> fst ` set ?as"
    by (auto simp: map_of_eq_None_iff)
  have extra: "filter (\<lambda>p. fst p \<notin> uiqID ` set ?qs) (rev ?as) = [] \<longleftrightarrow> fst ` set ?as \<subseteq> uiqID ` set ?qs"
    by (auto simp: filter_empty_conv)
  have len: "length answers = length ?qs"
    if "distinct (map fst ?as)" "fst ` set ?as = uiqID ` set ?qs"
    using that assms distinct_card [of "map fst ?as"] distinct_card [of "map uiqID ?qs"]
    by (simp add: image_image)
  have content: "map_of (rev ?as) = map_of ?as" if "distinct (map fst ?as)"
    using that by (rule map_of_rev_distinct)
  show ?thesis
    unfolding step keys extra fsts [symmetric] set_map using len content by auto
qed

definition exampleQuestions :: pendingUserInput where
  "exampleQuestions = \<lparr>puiCallID = ''call-1'',
     puiQuestions = [\<lparr>uiqID = ''a'', uiqHeader = ''Colour'', uiqQuestion = ''Which?'', uiqOptions = []\<rparr>,
                     \<lparr>uiqID = ''b'', uiqHeader = ''Size'', uiqQuestion = ''How big?'', uiqOptions = []\<rparr>],
     puiStartedAt = None\<rparr>"

definition exampleAnswers :: "userInputAnswer list" where
  "exampleAnswers = [\<lparr>uiaQuestionID = ''b '', uiaAnswer = ''large''\<rparr>, \<lparr>uiaQuestionID = ''a'', uiaAnswer = '' red''\<rparr>]"

theorem answeredUserMessage_accepts_witness:
  "acceptedAnsweredUserMessage exampleQuestions exampleAnswers =
     Some \<lparr>umContent = ''**Colour**: red'' @ blankLine @ ''**Size**: large'', umPlanMode = False,
           umAnsweredInputCallID = Some ''call-1''\<rparr>"
proof -
  have "distinct (map uiqID (puiQuestions exampleQuestions))" by (simp add: exampleQuestions_def)
  from answeredUserMessage_accepts [OF this] show ?thesis
    by (rule iffD2) (intro conjI, code_simp, code_simp, code_simp, code_simp, simp add: blankLine_def)
qed

section \<open>Tool results are JSON objects\<close>

lemma memberText_text: "v \<in> set (textMember name value) \<Longrightarrow> memberText d v"
  by (auto simp: textMember_def memberText_member jsonText_string split: if_splits)

lemma memberText_int: "v \<in> set (intMember name value) \<Longrightarrow> memberText d v"
  by (auto simp: intMember_def memberText_member jsonText_int split: if_splits)

lemma jsonText_option: "jsonText (Suc 0) (optionJSON opt)"
  unfolding optionJSON_def
  by (rule jsonText_braces) (auto simp: memberText_member jsonText_string)

lemma jsonText_question: "jsonText 3 (questionJSON q)"
proof -
  have "jsonText 2 (jsonBrackets (map optionJSON (uiqOptions q)))"
    using jsonText_brackets [of "map optionJSON (uiqOptions q)" "Suc 0"] by (auto simp: jsonText_option numeral_2_eq_2)
  then have "jsonText (Suc 2) (questionJSON q)" unfolding questionJSON_def
    by (intro jsonText_braces) (auto simp: memberText_member jsonText_string)
  then show ?thesis by simp
qed

lemma jsonText_payload: "jsonText 5 (jsonBraces (payloadMembers p))"
proof -
  have "jsonText 4 (jsonBrackets (map questionJSON (plQuestions p)))"
    using jsonText_brackets [of "map questionJSON (plQuestions p)" 3] by (auto simp: jsonText_question)
  then have "jsonText (Suc 4) (jsonBraces (payloadMembers p))"
    by (intro jsonText_braces)
      (auto simp: payloadMembers_def memberText_member jsonText_string
        intro: memberText_text memberText_int split: if_splits)
  then show ?thesis by simp
qed

text \<open>
  C40. Whatever texts a tool result carries (a model's arguments, a server's error message,
  invalid UTF-8, quotes, control bytes), its encoding is one valid JSON object that parsing
  returns unchanged.
\<close>

theorem encodeToolResult_valid:
  "parseJSONObject (terContent (encodeToolResult p outcome isError)) =
     Inr (terContent (encodeToolResult p outcome isError))"
proof -
  let ?v = "jsonBraces (payloadMembers p)"
  have "jsonValid ?v" by (rule jsonText_valid [OF jsonText_payload]) (simp add: maxNestingDepth_def)
  moreover have "trimSpace ?v = ?v"
    using trimSpace_keeps [of "CHR ''{''" "CHR ''}''" "joinStrings (payloadMembers p) '',''"]
    by (simp add: jsonBraces_def isSpaceRune_def inRange_def)
  moreover have "hd ?v = CHR ''{''" "last ?v = CHR ''}''" "?v \<noteq> []" by (simp_all add: jsonBraces_def)
  ultimately show ?thesis by (simp add: encodeToolResult_def parseJSONObject_def)
qed

end
