(* ===== verification/FlowBase.thy ===== *)
theory FlowBase
  imports Tools
begin

text \<open>
  What every Step and RPC of \<^verbatim>\<open>internal/agent/flow.go\<close> uses: the invocation context, the
  activity stream, the waiting-input round, the tool catalog of a turn, the validation of a
  configuration and of a tool's execution policy, and the Step options derived from it.
\<close>

section \<open>The invocation context\<close>

text \<open>
  What one attempt of a Step (or one RPC) reads from its \<^verbatim>\<open>dex.Context\<close> and the clock.
  \<open>cxNow\<close> is \<^verbatim>\<open>time.Now()\<close> (one reading per attempt).
\<close>

record ctx =
  cxFlowID :: string
  cxRunID :: string
  cxStepExecutionID :: string
  cxNow :: goTime
  cxAttempt :: int
  cxFirstAttemptAt :: goTime

text \<open>A concrete context, for the instances of the properties.\<close>

definition exampleCtx :: ctx where
  "exampleCtx = \<lparr>cxFlowID = ''flow'', cxRunID = ''run'', cxStepExecutionID = ''step'',
     cxNow = 63000000000 * second, cxAttempt = 1, cxFirstAttemptAt = 63000000000 * second\<rparr>"

section \<open>Activity\<close>

definition ellipsis :: string where
  "ellipsis = [CHR 0xE2, CHR 0x80, CHR 0xA6]"

definition condenseActivityMessage :: "string \<Rightarrow> string" where
  "condenseActivityMessage message =
     (let condensed = joinStrings (stringFields message) '' ''; rs = runes condensed in
      if length rs \<le> 200 then condensed
      else ofRunes (take 199 rs) @ ellipsis)"

definition writeActivity :: "agentEvent \<Rightarrow> unit action" where
  "writeActivity ev = writeTx (\<lambda>s. s \<lparr>sActivity := sActivity s @
     [ev \<lparr>evMessage := condenseActivityMessage (evMessage ev)\<rparr>]\<rparr>)"

definition writeSnapshotRequired :: "unit action" where
  "writeSnapshotRequired = writeActivity (event SnapshotRequired ''Durable interaction state changed.'')"

definition pendingMessageIDs :: "pendingUserMessage list \<Rightarrow> string list" where
  "pendingMessageIDs messages = map pumMessageID messages"

definition consumedMessagesDescription :: "nat \<Rightarrow> string \<Rightarrow> string" where
  "consumedMessagesDescription count queue =
     ''Consumed '' @ showNat count @ '' '' @ queue @ '' user '' @
     (if count = 1 then ''message'' else ''messages'') @ ''.''"

definition writeInputConsumption ::
    "pendingUserMessage list \<Rightarrow> pendingUserMessage list \<Rightarrow> int option \<Rightarrow> int option \<Rightarrow> unit action" where
  "writeInputConsumption queued steered planExecutionRevision messageSequence =
     (if queued = [] \<and> steered = [] \<and> planExecutionRevision = None then returnTx ()
      else writeActivity ((event InputConsumed
             (joinStrings
               ((if queued = [] then [] else [consumedMessagesDescription (length queued) ''queued'']) @
                (if steered = [] then [] else [consumedMessagesDescription (length steered) ''steered'']) @
                (case planExecutionRevision of None \<Rightarrow> []
                 | Some r \<Rightarrow> [''Consumed plan execution request for revision '' @ showInt r @ ''.'']))
               '' ''))
             \<lparr>evMessageSequence := messageSequence,
              evInputConsumption := Some \<lparr>icQueued = pendingMessageIDs queued,
                icSteered = pendingMessageIDs steered, icPlanExecution = planExecutionRevision\<rparr>\<rparr>))"

text \<open>A write to the activity stream changes nothing else.\<close>

definition onlyActivity :: "store \<Rightarrow> store \<Rightarrow> bool" where
  "onlyActivity s s' \<longleftrightarrow> (\<exists>es. s' = s \<lparr>sActivity := sActivity s @ es\<rparr>)"

lemma onlyActivity_refl [intro]: "onlyActivity s s"
  by (auto simp: onlyActivity_def intro: exI [of _ "[]"])

lemma onlyActivity_trans [trans]: "onlyActivity a b \<Longrightarrow> onlyActivity b c \<Longrightarrow> onlyActivity a c"
  by (auto simp: onlyActivity_def)

lemma writeActivity_Inr: "writeActivity ev s = Inr (u, s') \<Longrightarrow> onlyActivity s s'"
  by (auto simp: writeActivity_def onlyActivity_def)

lemma writeActivity_total: "\<exists>es. writeActivity ev s = Inr ((), s \<lparr>sActivity := sActivity s @ es\<rparr>)"
  by (auto simp: writeActivity_def intro: exI)

lemma writeInputConsumption_Inr: "writeInputConsumption q st p n s = Inr (u, s') \<Longrightarrow> onlyActivity s s'"
  by (auto simp: writeInputConsumption_def dest: writeActivity_Inr split: if_splits)

section \<open>The waiting-input round\<close>

definition nextWaitingInputRound :: "int \<Rightarrow> int result" where
  "nextWaitingInputRound round =
     (if round < 0 then Inl (New ''waiting input round must not be negative'')
      else if round \<ge> maximumWaitingInputRound
      then Inl (Errorf ''waiting input round reached the JavaScript safe integer limit %d''
                  [ArgInt maximumWaitingInputRound])
      else Inr (round + 1))"

definition incrementWaitingInputRound :: "unit action" where
  "incrementWaitingInputRound =
     bindTx (attrGet waitingInputRoundAttribute) (\<lambda>round.
     bindTx (liftTx (nextWaitingInputRound round)) (\<lambda>next.
     attrSet waitingInputRoundAttribute next))"

lemma incrementWaitingInputRound_Inr:
  "incrementWaitingInputRound s = Inr (u, s') \<longleftrightarrow>
     (\<exists>r. sWaitingInputRound s = Some r \<and> 0 \<le> r \<and> r < 9007199254740991 \<and>
          s' = s \<lparr>sWaitingInputRound := Some (r + 1)\<rparr>)"
  by (auto simp: incrementWaitingInputRound_def bindTx_apply attrGet_def attrSet_def attr_defs
      nextWaitingInputRound_def maximumWaitingInputRound_def throwTx_def split: option.splits)

section \<open>Step options\<close>

text \<open>The Steps of the Flow, by their registered types.\<close>

datatype stepTag =
    TInit | TAwaitUser | TAnsweredInput | TCompactContext | TCallModel | TBeforeModelCall
  | TCallModelWithHooks | TAfterModelCall | TApplyModelResult | TCheckSteered | TRouteTool
  | TAwaitToolApproval | TExecuteTool | TRecoverToolExecution | TExecuteParallelTool
  | TRecoverParallelToolExecution | TAwaitParallelToolResults | TPrepareManualToolRecovery
  | TAwaitManualToolRecovery | TDurableWait | TInactivityTimeout

datatype attributeTag =
    ACurrentMessages | AArchivedMessages | APendingUserInput | APendingApproval
  | APendingToolRecovery | AInactivityDeadline

datatype stepDurability = DurabilityDefault | DurabilitySync

record retryPolicy =
  rpInitialInterval :: duration
  rpBackoffCoefficient :: int
  rpMaximumInterval :: duration
  rpMaximumAttempts :: int
  rpTotalDuration :: duration

record stepOptions =
  soWaitForTimeout :: duration
  soExecuteTimeout :: duration
  soHeartbeatTimeout :: duration
  soExecuteDurability :: stepDurability
  soLoadMaps :: "attributeTag list"
  soWaitForLocks :: "attributeTag list"
  soExecuteLocks :: "attributeTag list"
  soRetry :: "retryPolicy option"

text \<open>The options of one movement may name the Step an exhausted attempt proceeds to.\<close>

record movementOptions = stepOptions +
  moOnFailure :: "(stepTag \<times> stepOptions) option"

definition noOptions :: stepOptions where
  "noOptions = \<lparr>soWaitForTimeout = 0, soExecuteTimeout = 0, soHeartbeatTimeout = 0,
     soExecuteDurability = DurabilityDefault, soLoadMaps = [], soWaitForLocks = [],
     soExecuteLocks = [], soRetry = None\<rparr>"

definition defaultStepOptions :: stepOptions where
  "defaultStepOptions = noOptions \<lparr>soWaitForTimeout := minute, soExecuteTimeout := minute\<rparr>"

definition messageMutationStepOptions :: stepOptions where
  "messageMutationStepOptions = noOptions \<lparr>
     soWaitForTimeout := minute, soExecuteTimeout := minute, soLoadMaps := [ACurrentMessages],
     soExecuteLocks := [APendingUserInput, APendingApproval, APendingToolRecovery]\<rparr>"

definition awaitUserStepOptions :: stepOptions where
  "awaitUserStepOptions = noOptions \<lparr>
     soWaitForTimeout := minute, soExecuteTimeout := minute, soLoadMaps := [ACurrentMessages],
     soExecuteLocks := [APendingUserInput, APendingApproval, APendingToolRecovery]\<rparr>"

definition messageContextStepOptions :: stepOptions where
  "messageContextStepOptions = noOptions \<lparr>
     soWaitForTimeout := minute, soExecuteTimeout := minute,
     soLoadMaps := [ACurrentMessages, AArchivedMessages],
     soExecuteLocks := [APendingUserInput, APendingToolRecovery]\<rparr>"

definition attempts :: "int \<Rightarrow> duration \<Rightarrow> retryPolicy" where
  "attempts n limit = \<lparr>rpInitialInterval = 0, rpBackoffCoefficient = 0, rpMaximumInterval = 0, rpMaximumAttempts = n,
     rpTotalDuration = limit\<rparr>"

definition modelStepOptions :: stepOptions where
  "modelStepOptions = noOptions \<lparr>
     soExecuteTimeout := 10 * minute, soHeartbeatTimeout := minute,
     soExecuteDurability := DurabilitySync, soLoadMaps := soLoadMaps messageContextStepOptions,
     soRetry := Some (attempts 3 (30 * minute))\<rparr>"

definition toolStepOptions :: stepOptions where
  "toolStepOptions = noOptions \<lparr>
     soExecuteTimeout := 2 * hour, soHeartbeatTimeout := minute,
     soLoadMaps := soLoadMaps messageMutationStepOptions, soRetry := Some (attempts 1 0)\<rparr>"

definition manualToolRecoveryStepOptions :: stepOptions where
  "manualToolRecoveryStepOptions = noOptions \<lparr>
     soWaitForTimeout := minute, soExecuteTimeout := minute,
     soLoadMaps := soLoadMaps messageMutationStepOptions, soExecuteLocks := [APendingToolRecovery]\<rparr>"

definition durableWaitStepOptions :: stepOptions where
  "durableWaitStepOptions = noOptions \<lparr>soWaitForLocks := [AInactivityDeadline]\<rparr>"

definition inactivityTimeoutStepOptions :: stepOptions where
  "inactivityTimeoutStepOptions = noOptions \<lparr>
     soWaitForTimeout := minute, soExecuteTimeout := minute, soExecuteDurability := DurabilitySync,
     soWaitForLocks := [AInactivityDeadline], soExecuteLocks := [AInactivityDeadline],
     soRetry := Some \<lparr>rpInitialInterval = second, rpBackoffCoefficient = 2, rpMaximumInterval = minute,
       rpMaximumAttempts = 10000, rpTotalDuration = 7 * 24 * hour\<rparr>\<rparr>"

section \<open>Tool policies\<close>

definition validateToolExecutionPolicy :: "toolDefinition \<Rightarrow> unit result" where
  "validateToolExecutionPolicy definition' =
     (case validateToolRunningType (effectiveRunningType (tdRunningType definition')) of
        Inl e \<Rightarrow> Inl e
      | Inr _ \<Rightarrow>
        if tdMaximumAttempts definition' \<le> 0 then Inl (New ''maximum attempts must be positive'')
        else if tdMaximumAttempts definition' > 2147483647
        then Inl (New ''maximum attempts exceeds the Dex limit'')
        else if tdAttemptTimeout definition' < 0 then Inl (New ''attempt timeout must not be negative'')
        else if tdRetryTotalDuration definition' < 0
        then Inl (New ''retry total duration must not be negative'')
        else validateToolRetryExhaustionPolicy (effectivePolicy (tdRetryExhaustionPolicy definition')))"

definition toolExecuteDurability :: "toolDefinition \<Rightarrow> stepDurability" where
  "toolExecuteDurability definition' =
     (if effectiveRunningType (tdRunningType definition') = LongRunning then DurabilitySync
      else DurabilityDefault)"

text \<open>The conversion of the attempt count to \<^verbatim>\<open>int32\<close> wraps.\<close>

definition toInt32 :: "int \<Rightarrow> int" where
  "toInt32 i = (i + 2 ^ 31) mod 2 ^ 32 - 2 ^ 31"

definition serialToolStepOptions :: "toolDefinition \<Rightarrow> movementOptions" where
  "serialToolStepOptions definition' =
     stepOptions.extend
       (noOptions \<lparr>
          soExecuteTimeout := tdAttemptTimeout definition', soHeartbeatTimeout := minute,
          soExecuteDurability := toolExecuteDurability definition',
          soLoadMaps := soLoadMaps toolStepOptions,
          soRetry := Some (attempts (toInt32 (tdMaximumAttempts definition')) (tdRetryTotalDuration definition'))\<rparr>)
       \<lparr>moOnFailure =
          (if effectivePolicy (tdRetryExhaustionPolicy definition') = PolicyManualRecovery
           then Some (TPrepareManualToolRecovery, manualToolRecoveryStepOptions)
           else Some (TRecoverToolExecution, messageMutationStepOptions))\<rparr>"

definition parallelToolStepOptions :: "toolDefinition \<Rightarrow> movementOptions" where
  "parallelToolStepOptions definition' =
     stepOptions.extend
       (noOptions \<lparr>
          soExecuteTimeout := tdAttemptTimeout definition', soHeartbeatTimeout := minute,
          soExecuteDurability := toolExecuteDurability definition',
          soRetry := Some (attempts (toInt32 (tdMaximumAttempts definition')) (tdRetryTotalDuration definition'))\<rparr>)
       \<lparr>moOnFailure = Some (TRecoverParallelToolExecution, defaultStepOptions)\<rparr>"

lemma validateToolExecutionPolicy_Inr:
  "validateToolExecutionPolicy d = Inr () \<longleftrightarrow>
     effectiveRunningType (tdRunningType d) \<in> {ShortRunning, LongRunning} \<and>
     0 < tdMaximumAttempts d \<and> tdMaximumAttempts d \<le> 2147483647 \<and>
     0 \<le> tdAttemptTimeout d \<and> 0 \<le> tdRetryTotalDuration d \<and>
     effectivePolicy (tdRetryExhaustionPolicy d) \<in> {PolicyManualRecovery, PolicyContinueWithUnknown}"
  by (auto simp: validateToolExecutionPolicy_def validateToolRunningType_def
      validateToolRetryExhaustionPolicy_def split: sum.splits toolRunningType.splits
      retryExhaustionPolicy.splits if_splits)

section \<open>The tools of a turn\<close>

definition toolDefinitions :: "flow \<Rightarrow> agentConfig \<Rightarrow> toolDefinition list" where
  "toolDefinitions flow config =
     (if cfgMCPEnabled config then fDefinitions flow (cfgEnabledMCPServers config) (cfgEnabledTools config) else [])
     @ [durableWaitDefinition flow, requestUserInputDefinition flow]
     @ (if cfgModel config = defaultModel then [simulateFailureDefinition] else [])"

definition invocationToolDefinitions :: "flow \<Rightarrow> agentConfig \<Rightarrow> agentState \<Rightarrow> toolDefinition list" where
  "invocationToolDefinitions flow config state =
     (case stInteractionMode state of
        ModePlanning \<Rightarrow>
          if stPlanningRequiresWrite state \<or> stPlanningAllowsWrite state
          then [writeTodosDefinition flow] else []
      | ModeExecuting \<Rightarrow> writeTodosDefinition flow # toolDefinitions flow config
      | ModeChat \<Rightarrow> toolDefinitions flow config)"

definition invocationToolDefinition ::
    "flow \<Rightarrow> agentConfig \<Rightarrow> agentState \<Rightarrow> string \<Rightarrow> toolDefinition result" where
  "invocationToolDefinition flow config state name =
     (case List.find (\<lambda>d. tdName d = name) (invocationToolDefinitions flow config state) of
        Some d \<Rightarrow> Inr d
      | None \<Rightarrow> Inl (Errorf ''unknown or disabled tool %q'' [ArgStr name]))"

lemma invocationToolDefinition_Inr:
  "invocationToolDefinition flow config state name = Inr d \<Longrightarrow>
     d \<in> set (invocationToolDefinitions flow config state) \<and> tdName d = name"
  by (auto simp: invocationToolDefinition_def find_Some_iff split: option.splits)

section \<open>Validation of a configuration\<close>

text \<open>\<^verbatim>\<open>difference\<close>: the values that are not allowed, each once, sorted.\<close>

fun textLess :: "string \<Rightarrow> string \<Rightarrow> bool" where
  "textLess [] [] = False"
| "textLess [] (y # ys) = True"
| "textLess (x # xs) [] = False"
| "textLess (x # xs) (y # ys) = (byte x < byte y \<or> (x = y \<and> textLess xs ys))"

fun insertText :: "string \<Rightarrow> string list \<Rightarrow> string list" where
  "insertText x [] = [x]"
| "insertText x (y # ys) = (if textLess y x then y # insertText x ys else x # y # ys)"

definition sortTexts :: "string list \<Rightarrow> string list" where
  "sortTexts xs = foldr insertText xs []"

definition difference :: "string list \<Rightarrow> string list \<Rightarrow> string list" where
  "difference vs allowed =
     sortTexts (foldl (\<lambda>res v. if v \<notin> set allowed \<and> v \<notin> set res then res @ [v] else res) [] vs)"

lemma set_insertText [simp]: "set (insertText x xs) = insert x (set xs)"
  by (induction xs) auto

lemma set_sortTexts [simp]: "set (sortTexts xs) = set xs"
  by (induction xs) (auto simp: sortTexts_def)

lemma set_difference_fold:
  "set (foldl (\<lambda>res v. if v \<notin> set allowed \<and> v \<notin> set res then res @ [v] else res) acc vs) =
     set acc \<union> (set vs - set allowed)"
  by (induction vs arbitrary: acc) auto

lemma difference_empty: "difference vs allowed = [] \<longleftrightarrow> set vs \<subseteq> set allowed"
proof -
  have "difference vs allowed = [] \<longleftrightarrow> set (difference vs allowed) = {}" by simp
  then show ?thesis by (auto simp: difference_def set_difference_fold simp del: set_empty)
qed

definition minimumInactivityTimeoutSeconds :: "flow \<Rightarrow> int" where
  "minimumInactivityTimeoutSeconds flow =
     (if fMinimumTimeoutForTest flow > 0 then fMinimumTimeoutForTest flow
      else Prelude.quot (2 * minute) second)"

text \<open>The loop over the tool catalog: the first definition with an unusable policy.\<close>

fun validateToolPolicies :: "toolDefinition list \<Rightarrow> unit result" where
  "validateToolPolicies [] = Inr ()"
| "validateToolPolicies (d # ds) =
     (case validateToolExecutionPolicy d of
        Inl e \<Rightarrow> Inl (Errorf ''tool %q: %w'' [ArgStr (tdName d), ArgErr e])
      | Inr _ \<Rightarrow> validateToolPolicies ds)"

definition validateConfig :: "flow \<Rightarrow> agentConfig \<Rightarrow> unit result" where
  "validateConfig flow config =
     (case validateAgentConfig config (minimumInactivityTimeoutSeconds flow) of Inl e \<Rightarrow> Inl e | Inr _ \<Rightarrow>
      if cfgInactivityTimeoutSeconds config > 0 \<and> \<not> fHasExpirationHandler flow
      then Inl (New ''inactivity expiration handler is required when inactivity timeout is enabled'')
      else if \<not> cfgMCPEnabled config \<and> (cfgEnabledMCPServers config \<noteq> [] \<or> cfgEnabledTools config \<noteq> [])
      then Inl (New ''disabled MCP cannot select servers or tools'')
      else
        let unknownServers = difference (cfgEnabledMCPServers config) (fServerNames flow) in
        if unknownServers \<noteq> [] then Inl (Errorf ''unknown MCP servers: %v'' [ArgStrs unknownServers])
        else (case validateToolPolicies (toolDefinitions flow config) of Inl e \<Rightarrow> Inl e | Inr _ \<Rightarrow>
          let unknownTools = difference (cfgEnabledTools config) (map tdName (toolDefinitions flow config)) in
          if unknownTools \<noteq> [] then Inl (Errorf ''unknown tools: %v'' [ArgStrs unknownTools])
          else Inr ()))"

lemma validateToolPolicies_Inr:
  "validateToolPolicies ds = Inr () \<longleftrightarrow> (\<forall>d \<in> set ds. validateToolExecutionPolicy d = Inr ())"
  by (induction ds) (auto split: sum.splits)

text \<open>
  C39. What an accepted configuration promises: a known provider, a positive context, a
  retention limit that is a multiple of the archive chunk and holds two of them, an
  inactivity timeout only with a handler, only known servers and tools, and every tool of
  the catalog has a positive number of attempts that fits the engine's 32 bits (so the
  conversion in the Step options keeps it) and a recovery policy the Flow knows.
\<close>

theorem validateConfig_accepts:
  assumes "validateConfig flow config = Inr ()"
  shows "(\<exists>p. modelProvider (cfgModel config) = Inr p) \<and> 0 < cfgMaxContextTokens config \<and>
     20 \<le> cfgMessageRetentionLimit config \<and> cfgMessageRetentionLimit config mod 10 = 0 \<and>
     (cfgInactivityTimeoutSeconds config > 0 \<longrightarrow> fHasExpirationHandler flow) \<and>
     cfgInactivityTimeoutSeconds config \<in> {0..31536000} \<and>
     set (cfgEnabledMCPServers config) \<subseteq> set (fServerNames flow) \<and>
     set (cfgEnabledTools config) \<subseteq> tdName ` set (toolDefinitions flow config) \<and>
     (\<forall>d \<in> set (toolDefinitions flow config).
        0 < tdMaximumAttempts d \<and> toInt32 (tdMaximumAttempts d) = tdMaximumAttempts d \<and>
        effectivePolicy (tdRetryExhaustionPolicy d) \<in> {PolicyManualRecovery, PolicyContinueWithUnknown})"
proof -
  from assms have
    base: "validateAgentConfig config (minimumInactivityTimeoutSeconds flow) = Inr ()" and
    handler: "cfgInactivityTimeoutSeconds config > 0 \<Longrightarrow> fHasExpirationHandler flow" and
    servers: "difference (cfgEnabledMCPServers config) (fServerNames flow) = []" and
    policies: "validateToolPolicies (toolDefinitions flow config) = Inr ()" and
    tools: "difference (cfgEnabledTools config) (map tdName (toolDefinitions flow config)) = []"
    by (auto simp: validateConfig_def Let_def split: sum.splits if_splits)
  from policies have "0 < tdMaximumAttempts d \<and> toInt32 (tdMaximumAttempts d) = tdMaximumAttempts d \<and>
      effectivePolicy (tdRetryExhaustionPolicy d) \<in> {PolicyManualRecovery, PolicyContinueWithUnknown}"
    if "d \<in> set (toolDefinitions flow config)" for d
    using that by (auto simp: validateToolPolicies_Inr validateToolExecutionPolicy_Inr toInt32_def)
  with validateAgentConfig_Inr [OF base] handler servers tools show ?thesis
    by (simp add: difference_empty)
qed

text \<open>A concrete environment: a registry with one read-only tool and one that needs approval.\<close>

definition exampleTool :: "string \<Rightarrow> bool \<Rightarrow> toolDefinition" where
  "exampleTool name readOnly = \<lparr>
     tdName = name, tdDescription = ''example'', tdInputSchema = ''{}'',
     tdRequiresApproval = (\<not> readOnly), tdRunningType = ShortRunning, tdAttemptTimeout = 0,
     tdMaximumAttempts = 3, tdRetryTotalDuration = 0, tdSupportsParallel = readOnly,
     tdRetryExhaustionPolicy = PolicyManualRecovery\<rparr>"

definition exampleFlow :: flow where
  "exampleFlow = \<lparr>
     fHasModelHooks = False, fHasExpirationHandler = True, fMinimumTimeoutForTest = 0,
     fMinimumExtensionForTest = 0, fServerNames = [''files''],
     fDefinitions = (\<lambda>servers tools. [exampleTool ''read_file'' True, exampleTool ''write_file'' False]),
     fCountTokens = (\<lambda>model messages. int (length messages)),
     fDecodeWriteTodos = (\<lambda>args. Inr [(''write the report'', ''pending'')]),
     fDecodeDurableWait = (\<lambda>args. Inr (60, ''rate limit'')),
     fDecodeUserInput = (\<lambda>args. Inl (External ''ValidationError'')),
     fWriteTodosSchema = ''{}'', fDurableWaitSchema = ''{}'', fRequestUserInputSchema = ''{}'',
     fErrorText = (\<lambda>e. ''error''), fErrorType = (\<lambda>e. ''*errors.errorString'')\<rparr>"

lemma exampleConfig_valid: "validateConfig exampleFlow newAgentConfig = Inr ()"
  by code_simp

theorem validateConfig_accepts_witness:
  "validateConfig exampleFlow newAgentConfig = Inr () \<and>
     (\<exists>p. modelProvider (cfgModel newAgentConfig) = Inr p) \<and>
     map (\<lambda>d. toInt32 (tdMaximumAttempts d)) (toolDefinitions exampleFlow newAgentConfig) =
       map tdMaximumAttempts (toolDefinitions exampleFlow newAgentConfig)"
  using validateConfig_accepts [OF exampleConfig_valid] exampleConfig_valid by simp

end
