(* ===== verification/History.thy ===== *)
theory History
  imports FlowBase
begin

text \<open>
  The conversation history of \<^verbatim>\<open>internal/agent/flow.go\<close>: appending a message, archiving ten
  messages at a time, reading a message back from the current map or an archived chunk,
  loading a window for the model, and dropping summarized chunks beyond the retention limit.
  The abstract view is \<open>history\<close>, the list of the retained messages; \<open>histInv\<close> is the
  representation invariant of the two attribute maps and the sequence counters. The locale
  \<open>message_log\<close> is the contract of appending, interpreted on \<open>appendMessage\<close>.
\<close>

section \<open>Operations\<close>

fun collectCurrent :: "int list \<Rightarrow> sequencedMessage list action" where
  "collectCurrent [] = returnTx []"
| "collectCurrent (q # qs) =
     bindTx (mapGet currentMessagesAttribute (sequenceKey q)) (\<lambda>m.
     bindTx (collectCurrent qs) (\<lambda>rest.
     returnTx (\<lparr>smSequence = q, smMessage = m\<rparr> # rest)))"

definition archiveCurrentMessages :: "agentState \<Rightarrow> agentState action" where
  "archiveCurrentMessages state =
     (if stLastSequence state - stCurrentFirst state + 1 < currentMessageLimit then returnTx state
      else
        let first = stCurrentFirst state;
            sequences = range64 first (first + archiveMessageChunkSize - 1) in
        bindTx (collectCurrent sequences) (\<lambda>messages.
        bindTx (mapSet archivedMessagesAttribute (sequenceKey first) messages) (\<lambda>_.
        bindTx (forTx sequences (\<lambda>q. mapDelete currentMessagesAttribute (sequenceKey q))) (\<lambda>_.
        returnTx (state \<lparr>stCurrentFirst := stCurrentFirst state + archiveMessageChunkSize\<rparr>)))))"

definition stamped :: "ctx \<Rightarrow> agentMessage \<Rightarrow> agentMessage" where
  "stamped ctx message =
     (if timeIsZero (msgCreatedAt message) then message \<lparr>msgCreatedAt := cxNow ctx\<rparr> else message)"

definition appendMessage :: "ctx \<Rightarrow> agentMessage \<Rightarrow> int action" where
  "appendMessage ctx message =
     bindTx (attrGet agentStateAttribute) (\<lambda>state.
     let sequence = stNextSequence state in
     bindTx (mapSet currentMessagesAttribute (sequenceKey sequence) (stamped ctx message)) (\<lambda>_.
     let state = state \<lparr>stNextSequence := sequence + 1, stLastSequence := sequence\<rparr> in
     bindTx (archiveCurrentMessages state) (\<lambda>state.
     bindTx (attrSet agentStateAttribute state) (\<lambda>_.
     returnTx sequence))))"

definition toolMessage :: "toolCall \<Rightarrow> toolExecutionResult \<Rightarrow> toolMessageTiming option \<Rightarrow> agentMessage" where
  "toolMessage call result timing = \<lparr>
     msgRole = RoleTool, msgContent = terContent result, msgToolCalls = [],
     msgToolCallID = Some (tcID call), msgToolName = Some (tcName call), msgAnsweredInputCallID = None,
     msgProviderContextItems = [],
     msgStartedAt = (case timing of None \<Rightarrow> None
                     | Some t \<Rightarrow> if timeIsZero (tmtStartedAt t) then None else Some (tmtStartedAt t)),
     msgCreatedAt = (case timing of None \<Rightarrow> 0 | Some t \<Rightarrow> tmtCompletedAt t)\<rparr>"

definition appendToolResult ::
    "ctx \<Rightarrow> toolCall \<Rightarrow> toolExecutionResult \<Rightarrow> toolMessageTiming option \<Rightarrow> unit action" where
  "appendToolResult ctx call result timing =
     bindTx (appendMessage ctx (toolMessage call result timing)) (\<lambda>_. returnTx ())"

definition messageAt :: "int \<Rightarrow> agentMessage action" where
  "messageAt sequence =
     bindTx (attrGet agentStateAttribute) (\<lambda>state.
     if sequence \<ge> stCurrentFirst state then mapGet currentMessagesAttribute (sequenceKey sequence)
     else
       let first = Prelude.quot (sequence - 1) archiveMessageChunkSize * archiveMessageChunkSize + 1 in
       bindTx (mapGet archivedMessagesAttribute (sequenceKey first)) (\<lambda>chunk.
       let index = sequence - first in
       if index < 0 \<or> index \<ge> int (length chunk) \<or> smSequence (chunk ! nat index) \<noteq> sequence
       then throwTx (Errorf ''archived message %d is missing from chunk %d'' [ArgInt sequence, ArgInt first])
       else returnTx (smMessage (chunk ! nat index))))"

fun loadSequences :: "int list \<Rightarrow> agentConfig \<Rightarrow> agentMessage list action" where
  "loadSequences [] config = returnTx []"
| "loadSequences (q # qs) config =
     bindTx (messageAt q) (\<lambda>message.
     bindTx (loadSequences qs config) (\<lambda>rest.
     returnTx (projectMessage message (cfgMaxContextTokens config) # rest)))"

definition loadMessages :: "int \<Rightarrow> int \<Rightarrow> agentConfig \<Rightarrow> agentMessage list action" where
  "loadMessages start end' config =
     (if end' < start then returnTx [] else loadSequences (range64 start end') config)"

text \<open>The loop of \<^verbatim>\<open>trimSummarizedMessages\<close>; each round drops ten messages.\<close>

function trimLoop :: "int \<Rightarrow> int \<Rightarrow> agentState \<Rightarrow> int \<Rightarrow> int action" where
  "trimLoop retained first state limit =
     (if retained > limit \<and> first < stCurrentFirst state \<and>
         first + archiveMessageChunkSize - 1 \<le> stSummarizedThrough state
      then bindTx (mapDelete archivedMessagesAttribute (sequenceKey first)) (\<lambda>_.
           trimLoop (retained - archiveMessageChunkSize) (first + archiveMessageChunkSize) state limit)
      else returnTx first)"
  by pat_completeness auto
termination
  by (relation "measure (\<lambda>(_, first, state, _). nat (stCurrentFirst state - first))")
    (auto simp: archiveMessageChunkSize_def)

declare trimLoop.simps [simp del]

definition trimSummarizedMessages :: "agentConfig \<Rightarrow> agentState \<Rightarrow> agentState action" where
  "trimSummarizedMessages config state =
     bindTx (trimLoop (max 0 (stLastSequence state - stFirstRetained state + 1)) (stFirstRetained state)
               state (cfgMessageRetentionLimit config)) (\<lambda>first.
     if first \<noteq> stFirstRetained state
     then let state = state \<lparr>stFirstRetained := first\<rparr> in
          bindTx (attrSet agentStateAttribute state) (\<lambda>_. returnTx state)
     else returnTx state)"

section \<open>The representation invariant and the abstract history\<close>

text \<open>The first sequences of the chunks that are retained: one in ten.\<close>

definition chunkFirsts :: "int \<Rightarrow> int \<Rightarrow> int set" where
  "chunkFirsts lo hi = {f. lo \<le> f \<and> f < hi \<and> f mod 10 = 1}"

definition countersOk :: "agentState \<Rightarrow> bool" where
  "countersOk st \<longleftrightarrow>
     stNextSequence st = stLastSequence st + 1 \<and>
     1 \<le> stFirstRetained st \<and> stFirstRetained st mod 10 = 1 \<and> stCurrentFirst st mod 10 = 1 \<and>
     stFirstRetained st \<le> stCurrentFirst st \<and> stCurrentFirst st \<le> stLastSequence st + 1 \<and>
     stLastSequence st - stCurrentFirst st + 1 < 20 \<and>
     stFirstRetained st \<le> stSummarizedThrough st + 1 \<and> stSummarizedThrough st \<le> stLastSequence st"

definition chunksOk :: "(string \<Rightarrow> archivedChunk option) \<Rightarrow> int \<Rightarrow> int \<Rightarrow> bool" where
  "chunksOk arch lo hi \<longleftrightarrow>
     dom arch = sequenceKey ` chunkFirsts lo hi \<and>
     (\<forall>f \<in> chunkFirsts lo hi. \<exists>chunk. arch (sequenceKey f) = Some chunk \<and>
        map smSequence chunk = range64 f (f + 9))"

definition histOf :: "store \<Rightarrow> agentState \<Rightarrow> bool" where
  "histOf s st \<longleftrightarrow>
     countersOk st \<and> dom (sCurrent s) = sequenceKey ` {stCurrentFirst st..stLastSequence st} \<and>
     chunksOk (sArchived s) (stFirstRetained st) (stCurrentFirst st)"

definition histInv :: "store \<Rightarrow> bool" where
  "histInv s \<longleftrightarrow> (\<exists>st. sState s = Some st \<and> histOf s st)"

definition chunkFirst :: "int \<Rightarrow> int" where
  "chunkFirst q = (q - 1) div 10 * 10 + 1"

definition archivedMessage :: "(string \<Rightarrow> archivedChunk option) \<Rightarrow> int \<Rightarrow> agentMessage" where
  "archivedMessage arch q =
     smMessage (the (arch (sequenceKey (chunkFirst q))) ! nat (q - chunkFirst q))"

definition storedMessage :: "store \<Rightarrow> int \<Rightarrow> int \<Rightarrow> agentMessage" where
  "storedMessage s currentFirst q =
     (if q \<ge> currentFirst then the (sCurrent s (sequenceKey q)) else archivedMessage (sArchived s) q)"

definition window :: "store \<Rightarrow> agentState \<Rightarrow> int \<Rightarrow> int \<Rightarrow> agentMessage list" where
  "window s st a b = map (storedMessage s (stCurrentFirst st)) (range64 a b)"

definition history :: "store \<Rightarrow> agentMessage list" where
  "history s = (case sState s of None \<Rightarrow> [] | Some st \<Rightarrow> window s st (stFirstRetained st) (stLastSequence st))"

lemma chunkFirst_props:
  "chunkFirst q mod 10 = 1" "chunkFirst q \<le> q" "q < chunkFirst q + 10"
  unfolding chunkFirst_def by presburger+

lemma chunkFirst_unique: "f mod 10 = 1 \<Longrightarrow> f \<le> q \<Longrightarrow> q < f + 10 \<Longrightarrow> chunkFirst q = f"
  unfolding chunkFirst_def by presburger

lemma chunkFirst_between:
  assumes "lo mod 10 = 1" "hi mod 10 = 1" "lo \<le> q" "q < hi"
  shows "chunkFirst q \<in> chunkFirsts lo hi" "chunkFirst q + 10 \<le> hi"
proof -
  from assms chunkFirst_props [of q] have "lo \<le> chunkFirst q" "chunkFirst q + 10 \<le> hi"
    unfolding chunkFirst_def by presburger+
  then show "chunkFirst q \<in> chunkFirsts lo hi" "chunkFirst q + 10 \<le> hi"
    using chunkFirst_props [of q] by (auto simp: chunkFirsts_def)
qed

lemma chunkFirsts_grow:
  "lo mod 10 = 1 \<Longrightarrow> hi mod 10 = 1 \<Longrightarrow> lo \<le> hi \<Longrightarrow>
     chunkFirsts lo (hi + 10) = insert hi (chunkFirsts lo hi)"
  unfolding chunkFirsts_def by (auto; presburger)

lemma chunkFirsts_shrink:
  "lo mod 10 = 1 \<Longrightarrow> hi mod 10 = 1 \<Longrightarrow> lo < hi \<Longrightarrow>
     chunkFirsts lo hi = insert lo (chunkFirsts (lo + 10) hi)"
  unfolding chunkFirsts_def by (auto; presburger)

lemma collectCurrent_ok:
  "sequenceKey ` set qs \<subseteq> dom (sCurrent s) \<Longrightarrow>
     collectCurrent qs s =
       Inr (map (\<lambda>q. \<lparr>smSequence = q, smMessage = the (sCurrent s (sequenceKey q))\<rparr>) qs, s)"
  by (induction qs) (auto simp: bindTx_apply mapGet_def currentMessagesAttribute_def split: option.splits)

lemma deleteCurrent_ok:
  "distinct qs \<Longrightarrow> sequenceKey ` set qs \<subseteq> dom (sCurrent s) \<Longrightarrow>
     forTx qs (\<lambda>q. mapDelete currentMessagesAttribute (sequenceKey q)) s =
       Inr ((), s \<lparr>sCurrent := sCurrent s |` (- (sequenceKey ` set qs))\<rparr>)"
proof (induction qs arbitrary: s)
  case Nil
  then show ?case by (simp add: restrict_map_def)
next
  case (Cons q qs)
  let ?s = "s \<lparr>sCurrent := (sCurrent s)(sequenceKey q := None)\<rparr>"
  from Cons.prems obtain m where "sCurrent s (sequenceKey q) = Some m" by auto
  then have "mapDelete currentMessagesAttribute (sequenceKey q) s = Inr ((), ?s)"
    by (simp add: mapDelete_def currentMessagesAttribute_def)
  moreover have "forTx qs (\<lambda>q. mapDelete currentMessagesAttribute (sequenceKey q)) ?s =
      Inr ((), ?s \<lparr>sCurrent := sCurrent ?s |` (- (sequenceKey ` set qs))\<rparr>)"
    using Cons.prems by (intro Cons.IH) auto
  moreover have "sCurrent ?s |` (- (sequenceKey ` set qs)) = sCurrent s |` (- (sequenceKey ` set (q # qs)))"
    by (auto simp: restrict_map_def)
  ultimately show ?case by simp
qed

section \<open>Appending\<close>


text \<open>The two shapes of an append: within the current map, or archiving its first ten messages.\<close>

definition archivedChunkOf :: "(string \<Rightarrow> agentMessage option) \<Rightarrow> int \<Rightarrow> archivedChunk" where
  "archivedChunkOf cur f =
     map (\<lambda>q. \<lparr>smSequence = q, smMessage = the (cur (sequenceKey q))\<rparr>) (range64 f (f + 9))"

definition plainAppend :: "agentMessage \<Rightarrow> agentState \<Rightarrow> store \<Rightarrow> store" where
  "plainAppend m st s = s \<lparr>
     sState := Some (st \<lparr>stNextSequence := stNextSequence st + 1, stLastSequence := stNextSequence st\<rparr>),
     sCurrent := (sCurrent s)(sequenceKey (stNextSequence st) := Some m)\<rparr>"

definition archivingAppend :: "agentMessage \<Rightarrow> agentState \<Rightarrow> store \<Rightarrow> store" where
  "archivingAppend m st s =
     (let cur = (sCurrent s)(sequenceKey (stNextSequence st) := Some m); f = stCurrentFirst st in
      s \<lparr>sState := Some (st \<lparr>stNextSequence := stNextSequence st + 1,
                            stLastSequence := stNextSequence st, stCurrentFirst := f + 10\<rparr>),
         sCurrent := cur |` (- (sequenceKey ` {f..f + 9})),
         sArchived := (sArchived s)(sequenceKey f := Some (archivedChunkOf cur f))\<rparr>)"

lemma appendMessage_run:
  assumes "sState s = Some st" and h: "histOf s st"
  shows "appendMessage ctx message s = Inr (stNextSequence st,
     (if stLastSequence st - stCurrentFirst st + 2 < 20 then plainAppend else archivingAppend)
       (stamped ctx message) st s)"
proof -
  let ?m = "stamped ctx message" and ?n = "stNextSequence st" and ?f = "stCurrentFirst st"
  let ?cur = "(sCurrent s)(sequenceKey ?n := Some ?m)"
  let ?st = "st \<lparr>stNextSequence := ?n + 1, stLastSequence := ?n\<rparr>"
  let ?s = "s \<lparr>sCurrent := ?cur\<rparr>"
  have n: "?n = stLastSequence st + 1" using h by (simp add: histOf_def countersOk_def)
  have put: "mapSet currentMessagesAttribute (sequenceKey ?n) ?m s = Inr ((), ?s)"
    by (simp add: mapSet_def currentMessagesAttribute_def)
  show ?thesis
  proof (cases "stLastSequence st - stCurrentFirst st + 2 < 20")
    case True
    then have "archiveCurrentMessages ?st = returnTx ?st"
      by (simp add: archiveCurrentMessages_def n currentMessageLimit_def archiveMessageChunkSize_def)
    with assms(1) put True show ?thesis
      by (simp add: appendMessage_def attrGet_def attrSet_def attr_defs bindTx_apply plainAppend_def Let_def)
  next
    case False
    have cnt: "?n - ?f = 19"
      using False h by (simp add: n histOf_def countersOk_def)
    have sub: "sequenceKey ` set (range64 ?f (?f + 9)) \<subseteq> dom ?cur"
      using h cnt by (auto simp: histOf_def n)
    let ?qs = "range64 ?f (?f + 9)"
    let ?arch = "(sArchived s)(sequenceKey ?f := Some (archivedChunkOf ?cur ?f))"
    have arch: "archiveCurrentMessages ?st =
       bindTx (collectCurrent ?qs) (\<lambda>messages.
       bindTx (mapSet archivedMessagesAttribute (sequenceKey ?f) messages) (\<lambda>_.
       bindTx (forTx ?qs (\<lambda>q. mapDelete currentMessagesAttribute (sequenceKey q))) (\<lambda>_.
       returnTx (?st \<lparr>stCurrentFirst := ?f + 10\<rparr>))))"
      using cnt by (simp add: archiveCurrentMessages_def currentMessageLimit_def archiveMessageChunkSize_def
          Let_def algebra_simps)
    have coll: "collectCurrent ?qs ?s = Inr (archivedChunkOf ?cur ?f, ?s)"
      using collectCurrent_ok [of ?qs ?s] sub unfolding archivedChunkOf_def by simp
    have put2: "mapSet archivedMessagesAttribute (sequenceKey ?f) (archivedChunkOf ?cur ?f) ?s =
        Inr ((), ?s \<lparr>sArchived := ?arch\<rparr>)"
      by (simp add: mapSet_def archivedMessagesAttribute_def)
    have del: "forTx ?qs (\<lambda>q. mapDelete currentMessagesAttribute (sequenceKey q)) (?s \<lparr>sArchived := ?arch\<rparr>) =
        Inr ((), ?s \<lparr>sArchived := ?arch\<rparr> \<lparr>sCurrent := ?cur |` (- (sequenceKey ` {?f..?f + 9}))\<rparr>)"
      using deleteCurrent_ok [of ?qs "?s \<lparr>sArchived := ?arch\<rparr>"] sub by simp
    have "archiveCurrentMessages ?st ?s = Inr (?st \<lparr>stCurrentFirst := ?f + 10\<rparr>,
        ?s \<lparr>sCurrent := ?cur |` (- (sequenceKey ` {?f..?f + 9})), sArchived := ?arch\<rparr>)"
      unfolding arch by (simp only: bindTx_apply coll put2 del sum.case prod.case returnTx_apply) simp
    with assms(1) put False show ?thesis
      by (simp add: appendMessage_def attrGet_def attrSet_def attr_defs bindTx_apply archivingAppend_def Let_def)
  qed
qed

lemma window_plainAppend:
  assumes h: "histOf s st" and "a \<le> stNextSequence st"
  shows "window (plainAppend m st s) (the (sState (plainAppend m st s))) a (stNextSequence st) =
     window s st a (stLastSequence st) @ [m]"
proof -
  have n: "stNextSequence st = stLastSequence st + 1" "stCurrentFirst st \<le> stNextSequence st"
    using h by (simp_all add: histOf_def countersOk_def)
  have "storedMessage (plainAppend m st s) (stCurrentFirst st) q = storedMessage s (stCurrentFirst st) q"
    if "q \<le> stLastSequence st" for q
    using that n by (simp add: storedMessage_def plainAppend_def)
  then have "map (storedMessage (plainAppend m st s) (stCurrentFirst st)) (range64 a (stLastSequence st)) =
      map (storedMessage s (stCurrentFirst st)) (range64 a (stLastSequence st))" by simp
  moreover have "storedMessage (plainAppend m st s) (stCurrentFirst st) (stNextSequence st) = m"
    using n by (simp add: storedMessage_def plainAppend_def)
  ultimately show ?thesis using assms(2) n(1)
    by (simp add: window_def plainAppend_def range64_snoc [of a "stLastSequence st + 1"])
qed

lemma storedMessage_archiving:
  assumes h: "histOf s st" and "stFirstRetained st \<le> q" "q \<le> stLastSequence st"
    and full: "stNextSequence st - stCurrentFirst st = 19"
  shows "storedMessage (archivingAppend m st s) (stCurrentFirst st + 10) q = storedMessage s (stCurrentFirst st) q"
proof -
  let ?f = "stCurrentFirst st" and ?s = "archivingAppend m st s"
  have n: "stNextSequence st = stLastSequence st + 1" and f: "?f mod 10 = 1" "stFirstRetained st mod 10 = 1"
    using h by (simp_all add: histOf_def countersOk_def)
  have chunks: "chunksOk (sArchived s) (stFirstRetained st) ?f" using h by (simp add: histOf_def)
  consider "q < ?f" | "?f \<le> q" "q < ?f + 10" | "?f + 10 \<le> q" by linarith
  then show ?thesis
  proof cases
    case 1
    then have "chunkFirst q \<noteq> ?f" using chunkFirst_props [of q] by linarith
    with 1 show ?thesis
      by (simp add: storedMessage_def archivedMessage_def archivingAppend_def Let_def)
  next
    case 2
    then have "chunkFirst q = ?f" using f by (intro chunkFirst_unique) auto
    moreover have "q \<noteq> stNextSequence st" using assms(3) n by simp
    ultimately show ?thesis using 2
      by (simp add: storedMessage_def archivedMessage_def archivingAppend_def archivedChunkOf_def Let_def)
  next
    case 3
    then show ?thesis using assms(3) n
      by (auto simp: storedMessage_def archivingAppend_def Let_def restrict_map_def)
  qed
qed

lemma window_archivingAppend:
  assumes h: "histOf s st" and "stFirstRetained st \<le> a" "a \<le> stNextSequence st"
    and full: "stNextSequence st - stCurrentFirst st = 19"
  shows "window (archivingAppend m st s) (the (sState (archivingAppend m st s))) a (stNextSequence st) =
     window s st a (stLastSequence st) @ [m]"
proof -
  have n: "stNextSequence st = stLastSequence st + 1" using h by (simp add: histOf_def countersOk_def)
  have "map (storedMessage (archivingAppend m st s) (stCurrentFirst st + 10)) (range64 a (stLastSequence st)) =
      map (storedMessage s (stCurrentFirst st)) (range64 a (stLastSequence st))"
    using storedMessage_archiving [OF h _ _ full] assms(2) by auto
  moreover have "storedMessage (archivingAppend m st s) (stCurrentFirst st + 10) (stNextSequence st) = m"
    using full by (auto simp: storedMessage_def archivingAppend_def Let_def restrict_map_def)
  ultimately show ?thesis using assms(3) n
    by (simp add: window_def archivingAppend_def Let_def range64_snoc [of a "stLastSequence st + 1"])
qed

lemma histOf_plainAppend:
  assumes h: "histOf s st" and "stLastSequence st - stCurrentFirst st + 2 < 20"
  shows "histOf (plainAppend m st s) (the (sState (plainAppend m st s)))"
proof -
  have n: "stNextSequence st = stLastSequence st + 1" "stCurrentFirst st \<le> stLastSequence st + 1"
    using h by (simp_all add: histOf_def countersOk_def)
  have "insert (stLastSequence st + 1) {stCurrentFirst st..stLastSequence st} =
      {stCurrentFirst st..stLastSequence st + 1}"
    using n(2) by auto
  then have "dom ((sCurrent s)(sequenceKey (stNextSequence st) := Some m)) =
      sequenceKey ` {stCurrentFirst st..stNextSequence st}"
    using h n by (simp add: histOf_def image_insert [symmetric] del: image_insert)
  then show ?thesis using h assms(2)
    by (simp add: histOf_def plainAppend_def countersOk_def)
qed

lemma histOf_archivingAppend:
  assumes h: "histOf s st" and full: "stNextSequence st - stCurrentFirst st = 19"
  shows "histOf (archivingAppend m st s) (the (sState (archivingAppend m st s)))"
proof -
  let ?f = "stCurrentFirst st" and ?n = "stNextSequence st" and ?first = "stFirstRetained st"
  let ?cur = "(sCurrent s)(sequenceKey ?n := Some m)"
  have n: "?n = stLastSequence st + 1" and f: "?f mod 10 = 1" "?first mod 10 = 1" "?first \<le> ?f"
    using h by (simp_all add: histOf_def countersOk_def)
  let ?s = "archivingAppend m st s"
  have s': "sCurrent ?s = ?cur |` (- (sequenceKey ` {?f..?f + 9}))"
      "sArchived ?s = (sArchived s)(sequenceKey ?f := Some (archivedChunkOf ?cur ?f))"
      "sState ?s = Some (st \<lparr>stNextSequence := ?n + 1, stLastSequence := ?n, stCurrentFirst := ?f + 10\<rparr>)"
    by (simp_all add: archivingAppend_def Let_def)
  have "dom ?cur = insert (sequenceKey ?n) (sequenceKey ` {?f..stLastSequence st})"
    using h by (simp add: histOf_def)
  then have "dom (?cur |` (- (sequenceKey ` {?f..?f + 9}))) = sequenceKey ` {?f + 10..?n}"
    using full n by (auto simp: image_iff)
  then have doms: "dom (sCurrent ?s) = sequenceKey ` {?f + 10..?n}" unfolding s' .
  have chunks: "chunksOk (sArchived ?s) ?first (?f + 10)"
    unfolding s'
  proof -
    have old: "chunksOk (sArchived s) ?first ?f" using h by (simp add: histOf_def)
    have new: "map smSequence (archivedChunkOf ?cur ?f) = range64 ?f (?f + 9)"
      by (simp add: archivedChunkOf_def comp_def)
    have "dom ((sArchived s)(sequenceKey ?f := Some (archivedChunkOf ?cur ?f))) =
        sequenceKey ` chunkFirsts ?first (?f + 10)"
      using old f by (simp add: chunksOk_def chunkFirsts_grow)
    moreover have "\<exists>chunk. ((sArchived s)(sequenceKey ?f := Some (archivedChunkOf ?cur ?f))) (sequenceKey g) = Some chunk \<and>
        map smSequence chunk = range64 g (g + 9)" if "g \<in> chunkFirsts ?first (?f + 10)" for g
      using that old new f by (auto simp: chunksOk_def chunkFirsts_grow)
    ultimately show "chunksOk ((sArchived s)(sequenceKey ?f := Some (archivedChunkOf ?cur ?f))) ?first (?f + 10)"
      by (simp add: chunksOk_def)
  qed
  from h have "countersOk st" by (simp add: histOf_def)
  then have "countersOk (the (sState ?s))" using full unfolding s' by (auto simp: countersOk_def)
  with doms chunks show ?thesis by (simp add: histOf_def s'(3))
qed

text \<open>What appending \<open>m\<close> does to the store, in one relation.\<close>

definition eraseHistory :: "store \<Rightarrow> store" where
  "eraseHistory s = s \<lparr>
     sState := map_option (\<lambda>st. st \<lparr>stNextSequence := 0, stLastSequence := 0, stCurrentFirst := 0\<rparr>) (sState s),
     sCurrent := (\<lambda>_. None), sArchived := (\<lambda>_. None)\<rparr>"

text \<open>Only the history and its counters differ.\<close>

definition sameButHistory :: "store \<Rightarrow> store \<Rightarrow> bool" where
  "sameButHistory s s' \<longleftrightarrow> eraseHistory s' = eraseHistory s"

definition appended :: "agentMessage \<Rightarrow> store \<Rightarrow> store \<Rightarrow> bool" where
  "appended m s s' \<longleftrightarrow>
     histInv s' \<and> history s' = history s @ [m] \<and> sameButHistory s s' \<and>
     stLastSequence (the (sState s')) = stNextSequence (the (sState s))"

lemma sameButHistory_plain: "sState s = Some st \<Longrightarrow> sameButHistory s (plainAppend m st s)"
  by (simp add: sameButHistory_def eraseHistory_def plainAppend_def)

lemma sameButHistory_archiving: "sState s = Some st \<Longrightarrow> sameButHistory s (archivingAppend m st s)"
  by (simp add: sameButHistory_def eraseHistory_def archivingAppend_def Let_def)

lemma appendMessage_ok:
  assumes "histInv s"
  shows "\<exists>s'. appendMessage ctx message s = Inr (stNextSequence (the (sState s)), s') \<and>
     appended (stamped ctx message) s s'"
proof -
  let ?m = "stamped ctx message"
  from assms obtain st where st: "sState s = Some st" and h: "histOf s st" by (auto simp: histInv_def)
  let ?plain = "stLastSequence st - stCurrentFirst st + 2 < 20"
  let ?s = "(if ?plain then plainAppend else archivingAppend) ?m st s"
  have run: "appendMessage ctx message s = Inr (stNextSequence st, ?s)"
    by (rule appendMessage_run [OF st h])
  have c: "stNextSequence st = stLastSequence st + 1" "stFirstRetained st \<le> stNextSequence st"
    "stLastSequence st - stCurrentFirst st + 1 < 20"
    using h by (simp_all add: histOf_def countersOk_def)
  have "appended ?m s ?s"
  proof (cases ?plain)
    case True
    obtain st' where "sState (plainAppend ?m st s) = Some st'" "stFirstRetained st' = stFirstRetained st"
      "stLastSequence st' = stNextSequence st"
      by (simp add: plainAppend_def Let_def)
    with histOf_plainAppend [OF h True, of ?m] window_plainAppend [OF h c(2), of ?m]
      sameButHistory_plain [OF st, of ?m] st True
    show ?thesis by (auto simp: appended_def histInv_def history_def)
  next
    case False
    with c have full: "stNextSequence st - stCurrentFirst st = 19" by linarith
    obtain st' where "sState (archivingAppend ?m st s) = Some st'" "stFirstRetained st' = stFirstRetained st"
      "stLastSequence st' = stNextSequence st"
      by (simp add: archivingAppend_def Let_def)
    with histOf_archivingAppend [OF h full, of ?m]
      window_archivingAppend [OF h order.refl c(2) full, of ?m]
      sameButHistory_archiving [OF st, of ?m] st False
    show ?thesis by (auto simp: appended_def histInv_def history_def)
  qed
  with run st show ?thesis by auto
qed

section \<open>Reading\<close>

lemma chunk_nth:
  assumes "map smSequence chunk = range64 f (f + 9)" "f \<le> q" "q < f + 10"
  shows "nat (q - f) < length chunk" "smSequence (chunk ! nat (q - f)) = q"
proof -
  have len: "length chunk = 10" using arg_cong [OF assms(1), of length] by simp
  then show lt: "nat (q - f) < length chunk" using assms by simp
  have "map smSequence chunk ! nat (q - f) = f + int (nat (q - f))"
    unfolding assms(1) using assms(2,3) by (intro nth_range64) simp
  then show "smSequence (chunk ! nat (q - f)) = q" using lt assms(2) by simp
qed

lemma messageAt_ok:
  assumes st: "sState s = Some st" and h: "histOf s st"
    and q: "stFirstRetained st \<le> q" "q \<le> stLastSequence st"
  shows "messageAt q s = Inr (storedMessage s (stCurrentFirst st) q, s)"
proof (cases "stCurrentFirst st \<le> q")
  case True
  with h q have "sequenceKey q \<in> dom (sCurrent s)" by (simp add: histOf_def)
  then obtain m where "sCurrent s (sequenceKey q) = Some m" by auto
  with True st show ?thesis
    by (simp add: messageAt_def bindTx_apply attrGet_def attr_defs mapGet_def storedMessage_def)
next
  case False
  have c: "stFirstRetained st mod 10 = 1" "stCurrentFirst st mod 10 = 1" "1 \<le> q"
    using h q by (auto simp: histOf_def countersOk_def)
  have key: "Prelude.quot (q - 1) archiveMessageChunkSize * archiveMessageChunkSize + 1 = chunkFirst q"
    using c(3) by (simp add: quot_nonneg archiveMessageChunkSize_def chunkFirst_def)
  from chunkFirst_between [OF c(1,2) q(1)] False h obtain chunk where
    chunk: "sArchived s (sequenceKey (chunkFirst q)) = Some chunk"
      "map smSequence chunk = range64 (chunkFirst q) (chunkFirst q + 9)"
    by (auto simp: histOf_def chunksOk_def)
  note nth = chunk_nth [OF chunk(2) chunkFirst_props(2,3)]
  have "mapGet archivedMessagesAttribute (sequenceKey (chunkFirst q)) s = Inr (chunk, s)"
    using chunk(1) by (simp add: mapGet_def archivedMessagesAttribute_def)
  with False st nth chunk(1) chunkFirst_props(2) [of q] show ?thesis
    by (simp add: messageAt_def bindTx_apply attrGet_def agentStateAttribute_def key Let_def
        storedMessage_def archivedMessage_def)
qed

lemma loadSequences_ok:
  assumes "sState s = Some st" and "histOf s st"
    and "\<forall>q \<in> set qs. stFirstRetained st \<le> q \<and> q \<le> stLastSequence st"
  shows "loadSequences qs config s =
     Inr (map (\<lambda>q. projectMessage (storedMessage s (stCurrentFirst st) q) (cfgMaxContextTokens config)) qs, s)"
  using assms(3) by (induction qs) (simp_all add: bindTx_apply messageAt_ok [OF assms(1,2)])

lemma loadMessages_ok:
  assumes "sState s = Some st" and "histOf s st" and "stFirstRetained st \<le> a" and "b \<le> stLastSequence st"
  shows "loadMessages a b config s =
     Inr (map (\<lambda>m. projectMessage m (cfgMaxContextTokens config)) (window s st a b), s)"
  using assms by (auto simp: loadMessages_def window_def loadSequences_ok [OF assms(1,2)])

text \<open>A window inside the retained messages is a slice of the history.\<close>

lemma window_slice:
  assumes "sState s = Some st" and "stFirstRetained st \<le> a" and "b \<le> stLastSequence st"
  shows "window s st a b =
     take (nat (b - a + 1)) (drop (nat (a - stFirstRetained st)) (history s))"
  using assms by (intro nth_equalityI) (auto simp: window_def history_def algebra_simps)

section \<open>Dropping summarized chunks\<close>

lemma chunksOk_drop:
  assumes "chunksOk arch lo hi" "lo mod 10 = 1" "hi mod 10 = 1" "lo < hi"
  shows "chunksOk (arch(sequenceKey lo := None)) (lo + 10) hi"
proof -
  note split = chunkFirsts_shrink [OF assms(2,3,4)]
  have "lo \<notin> chunkFirsts (lo + 10) hi" by (simp add: chunkFirsts_def)
  with assms(1) show ?thesis unfolding chunksOk_def split by auto
qed

text \<open>What the loop leaves: the new first sequence and the chunks that remain.\<close>

definition trimResult :: "int \<Rightarrow> int \<Rightarrow> agentState \<Rightarrow> int \<Rightarrow> (string \<Rightarrow> archivedChunk option) \<Rightarrow>
    int \<Rightarrow> (string \<Rightarrow> archivedChunk option) \<Rightarrow> bool" where
  "trimResult retained first st limit arch first' arch' \<longleftrightarrow>
     first \<le> first' \<and> first' \<le> stCurrentFirst st \<and> first' mod 10 = 1 \<and>
     first' \<le> stSummarizedThrough st + 1 \<and> chunksOk arch' first' (stCurrentFirst st) \<and>
     (\<forall>f \<ge> first'. arch' (sequenceKey f) = arch (sequenceKey f)) \<and>
     (first' = first \<or> limit - 10 < retained - (first' - first)) \<and>
     (retained - (first' - first) \<le> limit \<or> first' = stCurrentFirst st \<or>
      stSummarizedThrough st < first' + 9)"

lemma trimResult_step:
  "trimResult (retained - 10) (first + 10) st limit (arch(sequenceKey first := None)) first' arch' \<Longrightarrow>
     limit < retained \<Longrightarrow> trimResult retained first st limit arch first' arch'"
  by (auto simp: trimResult_def)

lemma trimLoop_ok:
  assumes "chunksOk (sArchived s) first (stCurrentFirst st)" "first mod 10 = 1"
    "stCurrentFirst st mod 10 = 1" "first \<le> stCurrentFirst st" "first \<le> stSummarizedThrough st + 1"
  shows "\<exists>first' arch. trimLoop retained first st limit s = Inr (first', s \<lparr>sArchived := arch\<rparr>) \<and>
     trimResult retained first st limit (sArchived s) first' arch"
  using assms
proof (induction retained first st limit arbitrary: s rule: trimLoop.induct)
  case (1 retained first st limit)
  show ?case
  proof (cases "retained > limit \<and> first < stCurrentFirst st \<and> first + 9 \<le> stSummarizedThrough st")
    case False
    then have "trimLoop retained first st limit s = Inr (first, s \<lparr>sArchived := sArchived s\<rparr>)"
      by (subst trimLoop.simps) (auto simp: archiveMessageChunkSize_def)
    moreover have "trimResult retained first st limit (sArchived s) first (sArchived s)"
      using False "1.prems" by (auto simp: trimResult_def)
    ultimately show ?thesis by blast
  next
    case True
    let ?arch = "(sArchived s)(sequenceKey first := None)" and ?s = "s \<lparr>sArchived := (sArchived s)(sequenceKey first := None)\<rparr>"
    have next10: "first + 10 \<le> stCurrentFirst st" using "1.prems" True by presburger
    have "first \<in> chunkFirsts first (stCurrentFirst st)" using True "1.prems" by (simp add: chunkFirsts_def)
    then obtain chunk where "sArchived s (sequenceKey first) = Some chunk"
      using "1.prems"(1) unfolding chunksOk_def by blast
    then have step: "trimLoop retained first st limit s = trimLoop (retained - 10) (first + 10) st limit ?s"
      using True by (subst trimLoop.simps)
        (simp add: archiveMessageChunkSize_def bindTx_apply mapDelete_def archivedMessagesAttribute_def)
    have chunks: "chunksOk ?arch (first + 10) (stCurrentFirst st)"
      using "1.prems" True by (intro chunksOk_drop) auto
    have "\<exists>first' arch. trimLoop (retained - 10) (first + 10) st limit ?s = Inr (first', ?s \<lparr>sArchived := arch\<rparr>) \<and>
        trimResult (retained - 10) (first + 10) st limit (sArchived ?s) first' arch"
      using True "1.prems" chunks next10 "1.IH" [unfolded archiveMessageChunkSize_def, of ?s]
      by (simp del: fun_upd_apply)
    then obtain first' arch where
      run: "trimLoop (retained - 10) (first + 10) st limit ?s = Inr (first', s \<lparr>sArchived := arch\<rparr>)" and
      res: "trimResult (retained - 10) (first + 10) st limit ?arch first' arch"
      by (simp del: fun_upd_apply) blast
    from trimResult_step [OF res] True have "trimResult retained first st limit (sArchived s) first' arch" by simp
    with step run show ?thesis by metis
  qed
qed

definition trimmed :: "int \<Rightarrow> store \<Rightarrow> store \<Rightarrow> bool" where
  "trimmed limit s s' \<longleftrightarrow>
     (\<exists>st first arch. sState s = Some st \<and>
        s' = s \<lparr>sState := Some (st \<lparr>stFirstRetained := first\<rparr>), sArchived := arch\<rparr> \<and>
        histInv s' \<and> history s' = drop (nat (first - stFirstRetained st)) (history s) \<and>
        stFirstRetained st \<le> first \<and> first \<le> stSummarizedThrough st + 1 \<and>
        (first = stFirstRetained st \<or> limit - 10 < stLastSequence st - first + 1) \<and>
        (stLastSequence st - first + 1 \<le> limit \<or> first = stCurrentFirst st \<or>
         stSummarizedThrough st < first + 9))"

lemma history_trim:
  assumes h: "histOf s st" and st: "sState s = Some st"
    and first: "stFirstRetained st \<le> first" "first \<le> stCurrentFirst st" "first mod 10 = 1"
    and same: "\<forall>f \<ge> first. arch (sequenceKey f) = sArchived s (sequenceKey f)"
  shows "history (s \<lparr>sState := Some (st \<lparr>stFirstRetained := first\<rparr>), sArchived := arch\<rparr>) =
     drop (nat (first - stFirstRetained st)) (history s)"
proof -
  let ?s = "s \<lparr>sState := Some (st \<lparr>stFirstRetained := first\<rparr>), sArchived := arch\<rparr>"
  have le: "first \<le> stLastSequence st + 1" using h first by (simp add: histOf_def countersOk_def)
  have "storedMessage ?s (stCurrentFirst st) q = storedMessage s (stCurrentFirst st) q" if "first \<le> q" for q
  proof -
    from that first(3) chunkFirst_props [of q] have "first \<le> chunkFirst q"
      unfolding chunkFirst_def by presburger
    then show ?thesis using same by (simp add: storedMessage_def archivedMessage_def)
  qed
  then have "window ?s st first (stLastSequence st) = window s st first (stLastSequence st)"
    by (simp add: window_def)
  also have "\<dots> = drop (nat (first - stFirstRetained st)) (history s)"
    using window_slice [OF st first(1) order.refl] le first(1)
    by (simp add: history_def st window_def algebra_simps)
  finally show ?thesis by (simp add: history_def window_def)
qed

lemma trimSummarizedMessages_ok:
  assumes st: "sState s = Some st" and h: "histOf s st"
  shows "\<exists>st' s'. trimSummarizedMessages config st s = Inr (st', s') \<and> sState s' = Some st' \<and>
     trimmed (cfgMessageRetentionLimit config) s s'"
proof -
  let ?limit = "cfgMessageRetentionLimit config" and ?count = "stLastSequence st - stFirstRetained st + 1"
  have c: "stFirstRetained st mod 10 = 1" "stCurrentFirst st mod 10 = 1"
    "stFirstRetained st \<le> stCurrentFirst st" "stFirstRetained st \<le> stSummarizedThrough st + 1"
    "stCurrentFirst st \<le> stLastSequence st + 1"
    using h by (simp_all add: histOf_def countersOk_def)
  then have count: "max 0 ?count = ?count" by simp
  from h have "chunksOk (sArchived s) (stFirstRetained st) (stCurrentFirst st)" by (simp add: histOf_def)
  from trimLoop_ok [OF this c(1,2,3,4), of ?count ?limit] obtain first arch where
    run: "trimLoop ?count (stFirstRetained st) st ?limit s = Inr (first, s \<lparr>sArchived := arch\<rparr>)" and
    res: "trimResult ?count (stFirstRetained st) st ?limit (sArchived s) first arch"
    by blast
  from res have first: "stFirstRetained st \<le> first" "first \<le> stCurrentFirst st" "first mod 10 = 1"
      "first \<le> stSummarizedThrough st + 1" "chunksOk arch first (stCurrentFirst st)"
      "\<forall>f \<ge> first. arch (sequenceKey f) = sArchived s (sequenceKey f)" and
    keep: "first = stFirstRetained st \<or> ?limit - 10 < ?count - (first - stFirstRetained st)"
      "?count - (first - stFirstRetained st) \<le> ?limit \<or> first = stCurrentFirst st \<or>
       stSummarizedThrough st < first + 9"
    by (simp_all add: trimResult_def)
  let ?st = "st \<lparr>stFirstRetained := first\<rparr>"
  let ?s = "s \<lparr>sState := Some ?st, sArchived := arch\<rparr>"
  have same: "st \<lparr>stFirstRetained := first\<rparr> = st" if "first = stFirstRetained st"
    using that by (simp add: agentState.equality)
  then have "s \<lparr>sArchived := arch\<rparr> = ?s" if "first = stFirstRetained st"
    using that st by (simp add: store.equality)
  with run same have "trimSummarizedMessages config st s = Inr (?st, ?s)"
    unfolding trimSummarizedMessages_def count
    by (cases "first = stFirstRetained st")
      (simp_all add: bindTx_apply attrSet_def agentStateAttribute_def Let_def)
  moreover have "histOf ?s ?st" using h first(1,2,3,4,5) by (simp add: histOf_def countersOk_def)
  then have "trimmed ?limit s ?s"
    unfolding trimmed_def using st first keep history_trim [OF h st first(1,2,3,6)]
    by (intro exI [of _ st] exI [of _ first] exI [of _ arch]) (auto simp: histInv_def)
  ultimately show ?thesis by auto
qed

section \<open>The contract of an append-only log\<close>

locale message_log =
  fixes inv :: "'s \<Rightarrow> bool" and log :: "'s \<Rightarrow> 'm list" and append :: "'m \<Rightarrow> ('s, 'n) tx"
    and stamp :: "'m \<Rightarrow> 'm" and frame :: "'s \<Rightarrow> 's \<Rightarrow> bool"
  assumes append_ok: "inv s \<Longrightarrow> \<exists>n s'. append m s = Inr (n, s') \<and> inv s' \<and> log s' = log s @ [stamp m] \<and> frame s s'"
    and frame_refl: "frame s s"
    and frame_trans: "frame a b \<Longrightarrow> frame b c \<Longrightarrow> frame a c"
begin

lemma append_result:
  assumes "append m s = Inr (n, s')" and "inv s"
  shows "inv s'" "log s' = log s @ [stamp m]" "frame s s'"
  using append_ok [OF assms(2), of m] assms(1) by auto

lemma append_no_error: "inv s \<Longrightarrow> append m s \<noteq> Inl e"
  using append_ok [of s m] by auto

text \<open>A loop that appends: the log grows by the stamped messages, in order.\<close>

lemma appends_ok:
  assumes "inv s"
  shows "\<exists>s'. forTx ms (\<lambda>m. bindTx (append m) (\<lambda>_. returnTx ())) s = Inr ((), s') \<and>
     inv s' \<and> log s' = log s @ map stamp ms \<and> frame s s'"
  using assms
proof (induction ms arbitrary: s)
  case Nil
  then show ?case by (simp add: frame_refl)
next
  case (Cons m ms)
  from append_ok [OF Cons.prems, of m] obtain n t where
    t: "append m s = Inr (n, t)" "inv t" "log t = log s @ [stamp m]" "frame s t" by auto
  from Cons.IH [OF t(2)] t frame_trans [OF t(4)] show ?case by (auto simp: bindTx_apply)
qed

end

lemma sameButHistory_refl [simp]: "sameButHistory s s"
  by (simp add: sameButHistory_def)

lemma sameButHistory_trans: "sameButHistory a b \<Longrightarrow> sameButHistory b c \<Longrightarrow> sameButHistory a c"
  by (simp add: sameButHistory_def)

interpretation messages: message_log histInv history "appendMessage ctx" "stamped ctx" sameButHistory
  for ctx
proof
  fix s m assume "histInv s"
  from appendMessage_ok [OF this, of ctx m]
  show "\<exists>n s'. appendMessage ctx m s = Inr (n, s') \<and> histInv s' \<and>
      history s' = history s @ [stamped ctx m] \<and> sameButHistory s s'"
    by (auto simp: appended_def)
qed (auto intro: sameButHistory_trans)

text \<open>The fields an append leaves alone.\<close>

lemma sameButHistory_store:
  assumes "sameButHistory s s'"
  shows "sConfig s' = sConfig s" "sRuntimeMetadata s' = sRuntimeMetadata s" "sModelUsage s' = sModelUsage s"
    "sWaitingInputRound s' = sWaitingInputRound s" "sSummary s' = sSummary s" "sPlan s' = sPlan s"
    "sApproval s' = sApproval s" "sRecovery s' = sRecovery s" "sTimer s' = sTimer s"
    "sUserInput s' = sUserInput s" "sDeadline s' = sDeadline s" "sActivity s' = sActivity s"
    "chReset s' = chReset s" "chAnswered s' = chAnswered s" "chQueued s' = chQueued s"
    "chSteered s' = chSteered s" "chApprovals s' = chApprovals s" "chRecovery s' = chRecovery s"
    "chParallel s' = chParallel s" "chPlanExecutions s' = chPlanExecutions s"
    "sPublished s' = sPublished s"
proof -
  have e: "eraseHistory s' = eraseHistory s" using assms by (simp add: sameButHistory_def)
  show "sConfig s' = sConfig s" "sRuntimeMetadata s' = sRuntimeMetadata s" "sModelUsage s' = sModelUsage s" "sWaitingInputRound s' = sWaitingInputRound s" "sSummary s' = sSummary s" "sPlan s' = sPlan s"
    "sApproval s' = sApproval s" "sRecovery s' = sRecovery s" "sTimer s' = sTimer s" "sUserInput s' = sUserInput s" "sDeadline s' = sDeadline s" "sActivity s' = sActivity s"
    "chReset s' = chReset s" "chAnswered s' = chAnswered s" "chQueued s' = chQueued s" "chSteered s' = chSteered s" "chApprovals s' = chApprovals s" "chRecovery s' = chRecovery s" "chParallel s' = chParallel s" "chPlanExecutions s' = chPlanExecutions s" "sPublished s' = sPublished s"
    using arg_cong [OF e, of sConfig]
    arg_cong [OF e, of sRuntimeMetadata]
    arg_cong [OF e, of sModelUsage]
    arg_cong [OF e, of sWaitingInputRound]
    arg_cong [OF e, of sSummary]
    arg_cong [OF e, of sPlan]
    arg_cong [OF e, of sApproval]
    arg_cong [OF e, of sRecovery]
    arg_cong [OF e, of sTimer]
    arg_cong [OF e, of sUserInput]
    arg_cong [OF e, of sDeadline]
    arg_cong [OF e, of sActivity]
    arg_cong [OF e, of chReset]
    arg_cong [OF e, of chAnswered]
    arg_cong [OF e, of chQueued]
    arg_cong [OF e, of chSteered]
    arg_cong [OF e, of chApprovals]
    arg_cong [OF e, of chRecovery]
    arg_cong [OF e, of chParallel]
    arg_cong [OF e, of chPlanExecutions]
    arg_cong [OF e, of sPublished]
    by (simp_all add: eraseHistory_def)
qed

lemma sameButHistory_state:
  assumes "sameButHistory s s'" and "sState s = Some st"
  shows "\<exists>n l f. sState s' = Some (st \<lparr>stNextSequence := n, stLastSequence := l, stCurrentFirst := f\<rparr>)"
proof -
  have "sState (eraseHistory s') = sState (eraseHistory s)" using assms(1) by (simp add: sameButHistory_def)
  with assms(2) obtain st' where "sState s' = Some st'" and
    "st' \<lparr>stNextSequence := 0, stLastSequence := 0, stCurrentFirst := 0\<rparr> =
     st \<lparr>stNextSequence := 0, stLastSequence := 0, stCurrentFirst := 0\<rparr>"
    by (auto simp: eraseHistory_def)
  note st' = this
  have eq: "st' = st \<lparr>stNextSequence := stNextSequence st', stLastSequence := stLastSequence st',
      stCurrentFirst := stCurrentFirst st'\<rparr>"
    using st'(2) by (cases st; cases st'; simp)
  from st'(1) have "sState s' = Some (st \<lparr>stNextSequence := stNextSequence st',
      stLastSequence := stLastSequence st', stCurrentFirst := stCurrentFirst st'\<rparr>)"
    by (subst eq [symmetric])
  then show ?thesis by (intro exI)
qed

section \<open>Properties\<close>

definition exampleMessage :: agentMessage where
  "exampleMessage = \<lparr>msgRole = RoleUser, msgContent = ''hello'', msgToolCalls = [], msgToolCallID = None,
     msgToolName = None, msgAnsweredInputCallID = None, msgProviderContextItems = [],
     msgStartedAt = None, msgCreatedAt = 0\<rparr>"

definition initialStore :: store where
  "initialStore = emptyStore \<lparr>sState := Some newAgentState\<rparr>"

lemma histInv_initial: "histInv initialStore" "history initialStore = []"
  by (simp_all add: initialStore_def histInv_def histOf_def countersOk_def chunksOk_def chunkFirsts_def
      newAgentState_def emptyStore_def history_def window_def)

lemma initial_run: "\<exists>s'. appendMessage ctx m initialStore = Inr (1, s') \<and> appended (stamped ctx m) initialStore s'"
  using appendMessage_ok [OF histInv_initial(1), of ctx m]
  by (simp add: initialStore_def newAgentState_def)

text \<open>
  C14. Appending a message never fails on a well-formed store: it takes the next sequence, the
  retained history grows by exactly that message (archiving ten older ones when twenty are
  current loses nothing), the invariant is kept and nothing but the history changes.
\<close>

theorem appendMessage_appends:
  assumes "histInv s"
  shows "\<exists>s'. appendMessage ctx message s = Inr (stNextSequence (the (sState s)), s') \<and>
     histInv s' \<and> history s' = history s @ [stamped ctx message] \<and> sameButHistory s s'"
  using appendMessage_ok [OF assms, of ctx message] by (auto simp: appended_def)

theorem appendMessage_appends_witness:
  "\<exists>s'. appendMessage exampleCtx exampleMessage initialStore = Inr (1, s') \<and> history s' = [stamped exampleCtx exampleMessage]"
  using appendMessage_appends [OF histInv_initial(1), of exampleCtx exampleMessage]
  by (auto simp: histInv_initial(2)) (simp add: initialStore_def newAgentState_def)

text \<open>
  C15. Reading back any range of retained sequences returns, in order, the projection of
  exactly the messages of the history at those sequences, whether they are current or were
  archived, and changes nothing.
\<close>

theorem loadMessages_reads_history:
  assumes "histInv s" and "sState s = Some st" and "stFirstRetained st \<le> a" and "b \<le> stLastSequence st"
  shows "loadMessages a b config s =
     Inr (map (\<lambda>m. projectMessage m (cfgMaxContextTokens config))
            (take (nat (b - a + 1)) (drop (nat (a - stFirstRetained st)) (history s))), s)"
proof -
  from assms(1,2) have "histOf s st" by (simp add: histInv_def)
  from loadMessages_ok [OF assms(2) this assms(3,4)] window_slice [OF assms(2,3,4)]
  show ?thesis by simp
qed

theorem loadMessages_reads_history_witness:
  "\<exists>s. appendMessage exampleCtx exampleMessage initialStore = Inr (1, s) \<and>
     loadMessages 1 1 newAgentConfig s =
       Inr ([projectMessage (stamped exampleCtx exampleMessage) 32000], s)"
proof -
  from initial_run obtain s where run: "appendMessage exampleCtx exampleMessage initialStore = Inr (1, s)"
    and app: "appended (stamped exampleCtx exampleMessage) initialStore s" by blast
  from app obtain st where st: "sState s = Some st" "histInv s" "history s = [stamped exampleCtx exampleMessage]"
    by (auto simp: appended_def histInv_def histInv_initial(2))
  from sameButHistory_state [of initialStore s newAgentState] app st(1)
  have "stFirstRetained st = 1" by (auto simp: appended_def initialStore_def newAgentState_def)
  moreover have "stLastSequence st = 1"
    using app st(1) by (simp add: appended_def initialStore_def newAgentState_def)
  ultimately have "loadMessages 1 1 newAgentConfig s =
       Inr ([projectMessage (stamped exampleCtx exampleMessage) (cfgMaxContextTokens newAgentConfig)], s)"
    using loadMessages_reads_history [OF st(2,1), of 1 1 newAgentConfig] st(3) by simp
  then show ?thesis using run by (auto simp: newAgentConfig_def defaultContextTokens_def)
qed

text \<open>
  C16. Trimming never fails and never drops an unsummarized message: it removes whole chunks
  from the front of the history, all of them summarized, only while more than the retention
  limit is kept (at least the limit less nine stay), and stops early only when no further
  archived chunk is summarized.
\<close>

theorem trimSummarizedMessages_safe:
  assumes "sState s = Some st" and "histInv s"
  shows "\<exists>st' s'. trimSummarizedMessages config st s = Inr (st', s') \<and>
     trimmed (cfgMessageRetentionLimit config) s s' \<and> sState s' = Some st'"
proof -
  from assms have "histOf s st" by (simp add: histInv_def)
  from trimSummarizedMessages_ok [OF assms(1) this, of config] show ?thesis by blast
qed

theorem trimSummarizedMessages_safe_witness:
  "\<exists>st' s'. trimSummarizedMessages newAgentConfig newAgentState initialStore = Inr (st', s') \<and>
     trimmed 1000 initialStore s'"
  using trimSummarizedMessages_safe [OF _ histInv_initial(1), of newAgentState newAgentConfig]
  by (auto simp: initialStore_def newAgentConfig_def defaultMessageRetention_def)

end
