(* ===== verification/Commands.thy ===== *)
theory Commands
  imports History
begin

text \<open>
  The synchronous operations of the Flow (\<^verbatim>\<open>SendMessage\<close>, \<^verbatim>\<open>AnswerQuestions\<close>,
  \<^verbatim>\<open>SteerMessage\<close>, \<^verbatim>\<open>GetSnapshot\<close>, \<^verbatim>\<open>GetArchivedMessages\<close>, \<^verbatim>\<open>DeleteQueuedMessage\<close>,
  \<^verbatim>\<open>ApproveTool\<close>, \<^verbatim>\<open>ResolveToolRecovery\<close>, \<^verbatim>\<open>ExecutePlan\<close> in
  \<^verbatim>\<open>internal/agent/flow.go\<close>) and the inactivity deadline every user operation pushes out.
  Each is one action on the store: its value is the RPC's output.
\<close>

section \<open>The inactivity deadline\<close>

definition getInactivityDeadline :: "goTime option action" where
  "getInactivityDeadline = getOptional (attrGet inactivityDeadlineAttribute)"

definition clearInactivityDeadline :: "unit action" where
  "clearInactivityDeadline = (\<lambda>s. case attrDelete inactivityDeadlineAttribute s of
     Inl e \<Rightarrow> if isAttributeNotFound e then Inr ((), s) else Inl e
   | Inr r \<Rightarrow> Inr r)"

definition inactivityResetMinimumExtension :: "flow \<Rightarrow> duration" where
  "inactivityResetMinimumExtension flow =
     (if fMinimumExtensionForTest flow > 0 then fMinimumExtensionForTest flow else minute)"

definition resetInactivityTimer :: "flow \<Rightarrow> goTime \<Rightarrow> unit action" where
  "resetInactivityTimer flow resetTarget =
     bindTx (attrGet inactivityDeadlineAttribute) (\<lambda>deadline.
     if timeSub resetTarget deadline \<le> inactivityResetMinimumExtension flow then returnTx ()
     else bindTx (attrSet inactivityDeadlineAttribute resetTarget) (\<lambda>_.
          publish resetInactivityTimerChannel resetTarget))"

definition resetInactivityTimerForUserOperation :: "flow \<Rightarrow> ctx \<Rightarrow> unit action" where
  "resetInactivityTimerForUserOperation flow ctx =
     bindTx (attrGet agentConfigAttribute) (\<lambda>config.
     if cfgInactivityTimeoutSeconds config = 0 then returnTx ()
     else resetInactivityTimer flow (timeAdd (cxNow ctx) (seconds (cfgInactivityTimeoutSeconds config))))"

section \<open>Optional attributes\<close>

definition getPendingUserInput :: "pendingUserInput option action" where
  "getPendingUserInput = getOptional (attrGet pendingUserInputAttribute)"

definition getPendingApproval :: "pendingApproval option action" where
  "getPendingApproval = getOptional (attrGet pendingApprovalAttribute)"

definition getPendingToolRecovery :: "pendingToolRecovery option action" where
  "getPendingToolRecovery = getOptional (attrGet pendingToolRecoveryAttribute)"

definition getPendingTimer :: "pendingTimer option action" where
  "getPendingTimer = getOptional (attrGet pendingTimerAttribute)"

definition getAgentPlan :: "agentPlan option action" where
  "getAgentPlan = getOptional (attrGet agentPlanAttribute)"

definition getContextSummary :: "contextSummary option action" where
  "getContextSummary = getOptional (attrGet contextSummaryAttribute)"

named_theorems optional_defs \<open>optional getters as reads of the store, deleters as writes\<close>

lemma optional_reads [optional_defs]:
  "getPendingUserInput = readTx sUserInput" "getPendingApproval = readTx sApproval"
  "getPendingToolRecovery = readTx sRecovery" "getPendingTimer = readTx sTimer"
  "getAgentPlan = readTx sPlan" "getContextSummary = readTx sSummary"
  "getInactivityDeadline = readTx sDeadline"
  by (simp_all add: getPendingUserInput_def getPendingApproval_def getPendingToolRecovery_def
      getPendingTimer_def getAgentPlan_def getContextSummary_def getInactivityDeadline_def
      optional_attributes) (simp_all add: attr_defs)

lemma optional_deletes [optional_defs]:
  "deletePresent pendingUserInputAttribute = writeTx (\<lambda>s. s \<lparr>sUserInput := None\<rparr>)"
  "deletePresent pendingApprovalAttribute = writeTx (\<lambda>s. s \<lparr>sApproval := None\<rparr>)"
  "deletePresent pendingToolRecoveryAttribute = writeTx (\<lambda>s. s \<lparr>sRecovery := None\<rparr>)"
  "deletePresent pendingTimerAttribute = writeTx (\<lambda>s. s \<lparr>sTimer := None\<rparr>)"
  "deletePresent agentPlanAttribute = writeTx (\<lambda>s. s \<lparr>sPlan := None\<rparr>)"
  by (simp_all add: delete_attributes) (simp_all add: attr_defs)

lemma clearInactivityDeadline_write: "clearInactivityDeadline s = Inr ((), s \<lparr>sDeadline := None\<rparr>)"
  by (cases "sDeadline s")
    (simp_all add: clearInactivityDeadline_def attrDelete_def attr_defs store.equality)

section \<open>Queued messages\<close>

definition findPendingUserMessage ::
    "pendingUserMessage envelope list \<Rightarrow> string \<Rightarrow> pendingUserMessage envelope option" where
  "findPendingUserMessage messages messageID = List.find (\<lambda>m. pumMessageID (snd m) = messageID) messages"

definition sendMessage :: "flow \<Rightarrow> ctx \<Rightarrow> pendingUserMessage \<Rightarrow> bool action" where
  "sendMessage flow ctx input =
     (if trimSpace (umContent (pumValue input)) = [] then returnTx False
      else bindTx (liftTx (validateMessageID (pumMessageID input))) (\<lambda>_.
      bindTx getPendingUserInput (\<lambda>pending.
      if pending \<noteq> None then returnTx False
      else bindTx (resetInactivityTimerForUserOperation flow ctx) (\<lambda>_.
      bindTx (publish queuedUserMessagesChannel input) (\<lambda>_.
      returnTx True)))))"

definition answerQuestions :: "flow \<Rightarrow> ctx \<Rightarrow> answerQuestionsRequest \<Rightarrow> bool action" where
  "answerQuestions flow ctx input =
     (if trimSpace (aqrCallID input) = [] then returnTx False
      else bindTx getPendingUserInput (\<lambda>pending.
      case pending of None \<Rightarrow> returnTx False | Some p \<Rightarrow>
      if puiCallID p \<noteq> aqrCallID input then returnTx False
      else (case acceptedAnsweredUserMessage p (aqrAnswers input) of None \<Rightarrow> returnTx False | Some message \<Rightarrow>
        bindTx (resetInactivityTimerForUserOperation flow ctx) (\<lambda>_.
        bindTx (attrDelete pendingUserInputAttribute) (\<lambda>_.
        bindTx (publish answeredUserInputsChannel
                 \<lparr>auiCallID = puiCallID p, auiMessage = message,
                  auiQuestionCount = int (length (puiQuestions p))\<rparr>) (\<lambda>_.
        returnTx True))))))"

definition steerMessage :: "flow \<Rightarrow> ctx \<Rightarrow> string \<Rightarrow> bool action" where
  "steerMessage flow ctx messageID =
     (if trimSpace messageID = [] then returnTx False
      else bindTx (pendingMessages queuedUserMessagesChannel) (\<lambda>messages.
      case findPendingUserMessage messages messageID of None \<Rightarrow> returnTx False | Some message \<Rightarrow>
      bindTx (attrGet agentStateAttribute) (\<lambda>state.
      bindTx (if stStatus state = WaitingForToolRecovery then getPendingToolRecovery else returnTx None) (\<lambda>pending.
      if stStatus state = WaitingForToolRecovery \<and> pending = None then returnTx False
      else bindTx (resetInactivityTimerForUserOperation flow ctx) (\<lambda>_.
      bindTx (if stStatus state = WaitingForToolRecovery then attrDelete pendingToolRecoveryAttribute
              else returnTx ()) (\<lambda>_.
      bindTx (channelDelete queuedUserMessagesChannel (fst message)) (\<lambda>_.
      bindTx (publish steeredUserMessagesChannel (snd message)) (\<lambda>_.
      returnTx True))))))))"

definition deleteQueuedMessage :: "flow \<Rightarrow> ctx \<Rightarrow> string \<Rightarrow> bool action" where
  "deleteQueuedMessage flow ctx messageID =
     (if trimSpace messageID = [] then returnTx False
      else bindTx (pendingMessages queuedUserMessagesChannel) (\<lambda>messages.
      case findPendingUserMessage messages messageID of None \<Rightarrow> returnTx False | Some message \<Rightarrow>
      bindTx (resetInactivityTimerForUserOperation flow ctx) (\<lambda>_.
      bindTx (channelDelete queuedUserMessagesChannel (fst message)) (\<lambda>_.
      returnTx True))))"

section \<open>Approvals, recovery and plan execution\<close>

definition approveTool :: "flow \<Rightarrow> ctx \<Rightarrow> toolApprovalRequest \<Rightarrow> bool action" where
  "approveTool flow ctx input =
     bindTx getPendingApproval (\<lambda>pending.
     case pending of None \<Rightarrow> returnTx False | Some p \<Rightarrow>
     if paCallID p \<noteq> tarCallID input then returnTx False
     else bindTx (resetInactivityTimerForUserOperation flow ctx) (\<lambda>_.
     bindTx (attrDelete pendingApprovalAttribute) (\<lambda>_.
     bindTx (publishTo toolApprovalsChannel (tarCallID input) (tarApproved input)) (\<lambda>_.
     returnTx True))))"

fun validateDecisions :: "string list \<Rightarrow> toolRecoveryDecision list \<Rightarrow> string list \<Rightarrow> unit result" where
  "validateDecisions pendingIDs [] seen = Inr ()"
| "validateDecisions pendingIDs (d # rest) seen =
     (case validateToolRecoveryAction (trdAction d) of Inl e \<Rightarrow> Inl e | Inr _ \<Rightarrow>
      if trdCallID d \<notin> set pendingIDs
      then Inl (Errorf ''tool call %q is not pending recovery'' [ArgStr (trdCallID d)])
      else if trdCallID d \<in> set seen
      then Inl (Errorf ''tool call %q has duplicate recovery decisions'' [ArgStr (trdCallID d)])
      else validateDecisions pendingIDs rest (trdCallID d # seen))"

definition validateRecoveryResolution :: "pendingToolRecovery \<Rightarrow> resolveToolRecoveryRequest \<Rightarrow> unit result" where
  "validateRecoveryResolution pending request =
     (case validateToolRecoveryResolution (rtrResolution request) of Inl e \<Rightarrow> Inl e | Inr _ \<Rightarrow>
      if rtrResolution request = ResolutionStop
      then (if rtrDecisions request \<noteq> [] then Inl (New ''stop recovery must not include decisions'') else Inr ())
      else if length (rtrDecisions request) \<noteq> length (ptrCalls pending)
      then Inl (New ''resume recovery must decide every pending call'')
      else validateDecisions (map ptrcCallID (ptrCalls pending)) (rtrDecisions request) [])"

definition resolveToolRecovery :: "flow \<Rightarrow> ctx \<Rightarrow> resolveToolRecoveryRequest \<Rightarrow> bool action" where
  "resolveToolRecovery flow ctx input =
     bindTx getPendingToolRecovery (\<lambda>pending.
     case pending of None \<Rightarrow> returnTx False | Some p \<Rightarrow>
     if ptrRecoveryID p \<noteq> rtrRecoveryID input then returnTx False
     else if validateRecoveryResolution p input \<noteq> Inr () then returnTx False
     else bindTx (resetInactivityTimerForUserOperation flow ctx) (\<lambda>_.
     bindTx (attrDelete pendingToolRecoveryAttribute) (\<lambda>_.
     bindTx (publishTo toolRecoveryDecisionsChannel (rtrRecoveryID input) input) (\<lambda>_.
     returnTx True))))"

definition executePlan :: "flow \<Rightarrow> ctx \<Rightarrow> planExecutionRequest \<Rightarrow> bool action" where
  "executePlan flow ctx input =
     bindTx (attrGet agentStateAttribute) (\<lambda>state.
     bindTx getAgentPlan (\<lambda>plan.
     bindTx getPendingUserInput (\<lambda>pendingInput.
     bindTx getPendingApproval (\<lambda>pendingApproval.
     bindTx getPendingToolRecovery (\<lambda>pendingRecovery.
     bindTx getPendingTimer (\<lambda>pendingTimer.
     bindTx (channelSize queuedUserMessagesChannel) (\<lambda>queued.
     bindTx (channelSize steeredUserMessagesChannel) (\<lambda>steered.
     case plan of None \<Rightarrow> returnTx False | Some p \<Rightarrow>
     if \<not> (stStatus state = WaitingForMessage \<and> stPendingPlanExecution state = None \<and>
            pendingInput = None \<and> pendingApproval = None \<and> pendingRecovery = None \<and> pendingTimer = None \<and>
            queued = 0 \<and> steered = 0 \<and> planRevision p = perRevision input \<and>
            (planStatusOf p = PlanDraft \<or> planStatusOf p = PlanActive))
     then returnTx False
     else bindTx (resetInactivityTimerForUserOperation flow ctx) (\<lambda>_.
     bindTx (attrSet agentStateAttribute
              (state \<lparr>stPendingPlanExecution := Some (planRevision p), stPlanNoProgressAttempts := 0\<rparr>)) (\<lambda>_.
     bindTx (publishTo planExecutionsChannel (showInt (planRevision p)) input) (\<lambda>_.
     returnTx True)))))))))))"

section \<open>Snapshots and archived pages\<close>

definition pendingUserMessages :: "pendingUserMessage envelope list \<Rightarrow> pendingUserMessage list" where
  "pendingUserMessages messages = map snd messages"

definition describe :: "flow \<Rightarrow> agentConfig \<Rightarrow> agentState \<Rightarrow> int \<Rightarrow> int \<Rightarrow> agentDescription action" where
  "describe flow config state queuedCount steeredCount =
     bindTx getPendingApproval (\<lambda>pendingApproval.
     bindTx getPendingToolRecovery (\<lambda>pendingRecovery.
     bindTx getPendingTimer (\<lambda>pendingTimer.
     bindTx getPendingUserInput (\<lambda>pendingInput.
     bindTx getAgentPlan (\<lambda>plan.
     bindTx (attrGet waitingInputRoundAttribute) (\<lambda>round.
     bindTx getInactivityDeadline (\<lambda>deadline.
     returnTx \<lparr>
       dStatus = stStatus state, dWaitingInputRound = round, dModel = cfgModel config,
       dSystemPrompt = cfgSystemPrompt config, dFirstRetained = stFirstRetained state,
       dLastSequence = stLastSequence state, dSummarizedThrough = stSummarizedThrough state,
       dPendingApproval = pendingApproval, dPendingToolRecovery = pendingRecovery,
       dPendingTimer = pendingTimer, dPendingUserInput = pendingInput, dPlan = plan,
       dIsPlanExecutionRequested = (stPendingPlanExecution state \<noteq> None),
       dPendingQueuedCount = queuedCount, dPendingSteeredCount = steeredCount,
       dAvailableMCPServers = fServerNames flow,
       dAvailableTools = toolNameWriteTodos # map tdName (toolDefinitions flow config),
       dInactivityDeadline = deadline\<rparr>)))))))"

definition initializingSnapshot ::
    "flow \<Rightarrow> ctx \<Rightarrow> pendingUserMessage envelope list \<Rightarrow> pendingUserMessage envelope list \<Rightarrow> agentSnapshot" where
  "initializingSnapshot flow ctx queued steered = \<lparr>
     snapRunID = cxRunID ctx,
     snapHistory = \<lparr>hpMessages = [], hpNextBefore = None\<rparr>,
     snapDescription = \<lparr>
       dStatus = Initializing, dWaitingInputRound = 0, dModel = [], dSystemPrompt = [],
       dFirstRetained = 1, dLastSequence = 0, dSummarizedThrough = 0, dPendingApproval = None,
       dPendingToolRecovery = None, dPendingTimer = None, dPendingUserInput = None, dPlan = None,
       dIsPlanExecutionRequested = False, dPendingQueuedCount = int (length queued),
       dPendingSteeredCount = int (length steered), dAvailableMCPServers = fServerNames flow,
       dAvailableTools = [toolNameWriteTodos, toolNameDurableWait, toolNameRequestUserInput],
       dInactivityDeadline = None\<rparr>,
     snapQueued = pendingUserMessages queued, snapSteered = pendingUserMessages steered\<rparr>"

text \<open>\<^verbatim>\<open>make\<close> with a negative capacity panics.\<close>

definition getSnapshot :: "flow \<Rightarrow> ctx \<Rightarrow> agentSnapshot action" where
  "getSnapshot flow ctx =
     bindTx (pendingMessages queuedUserMessagesChannel) (\<lambda>queued.
     bindTx (pendingMessages steeredUserMessagesChannel) (\<lambda>steered.
     bindTx (getOptional (attrGet agentStateAttribute)) (\<lambda>found.
     case found of None \<Rightarrow> returnTx (initializingSnapshot flow ctx queued steered) | Some state \<Rightarrow>
     bindTx (attrGet agentConfigAttribute) (\<lambda>config.
     let start = max (stFirstRetained state) (stCurrentFirst state) in
     if stLastSequence state - start + 1 < 0 then throwTx (RuntimePanic ''makeslice: cap out of range'')
     else bindTx (collectCurrent (range64 start (stLastSequence state))) (\<lambda>messages.
     bindTx (describe flow config state (int (length queued)) (int (length steered))) (\<lambda>description.
     returnTx \<lparr>
       snapRunID = cxRunID ctx,
       snapHistory = \<lparr>hpMessages = messages,
         hpNextBefore = (if start > stFirstRetained state then Some start else None)\<rparr>,
       snapDescription = description,
       snapQueued = pendingUserMessages queued, snapSteered = pendingUserMessages steered\<rparr>))))))"

definition noArchivedMessages :: archivedMessagesOutput where
  "noArchivedMessages = \<lparr>amoPage = \<lparr>hpMessages = [], hpNextBefore = None\<rparr>, amoFound = False\<rparr>"

definition getArchivedMessages :: "int \<Rightarrow> archivedMessagesOutput action" where
  "getArchivedMessages before =
     (case archivedMessageChunkFirst before of (first, isValid) \<Rightarrow>
      if \<not> isValid then returnTx noArchivedMessages
      else bindTx (getOptional (attrGet agentStateAttribute)) (\<lambda>found.
      case found of None \<Rightarrow> returnTx noArchivedMessages | Some state \<Rightarrow>
      if first < stFirstRetained state then returnTx noArchivedMessages
      else bindTx (getOptional (mapGet archivedMessagesAttribute (sequenceKey first))) (\<lambda>chunk.
      case chunk of None \<Rightarrow> returnTx noArchivedMessages | Some messages \<Rightarrow>
      returnTx \<lparr>amoPage = \<lparr>hpMessages = messages,
                 hpNextBefore = (if first > stFirstRetained state then Some first else None)\<rparr>,
               amoFound = True\<rparr>)))"

section \<open>What the operations do\<close>

named_theorems cmd_simps \<open>evaluation of the store operations on an explicit store\<close>

lemmas [cmd_simps] = bindTx_apply attrGet_def attrSet_def attrDelete_def mapGet_def mapSet_def mapDelete_def
  publish_def publishTo_def pendingMessages_def channelSize_def channelDelete_def attr_defs optional_defs

text \<open>The deadline is left alone, or moved later by more than the minimum extension and announced.\<close>

definition deadlineMoved :: "flow \<Rightarrow> store \<Rightarrow> store \<Rightarrow> bool" where
  "deadlineMoved flow s s' \<longleftrightarrow>
     s' = s \<or>
     (\<exists>d t. sDeadline s = Some d \<and> inactivityResetMinimumExtension flow < t - d \<and>
        s' = s \<lparr>sDeadline := Some t, chReset := chReset s @ [(sPublished s, t)],
                sPublished := Suc (sPublished s)\<rparr>)"

lemma deadlineMoved_refl [simp]: "deadlineMoved flow s s"
  by (simp add: deadlineMoved_def)

lemma minimumExtension_pos: "0 < inactivityResetMinimumExtension flow"
  by (simp add: inactivityResetMinimumExtension_def minute_def second_def)

lemma timeSub_gt: "0 < e \<Longrightarrow> \<not> timeSub t d \<le> e \<Longrightarrow> e < t - d"
  by (auto simp: timeSub_def)

lemma resetInactivityTimer_moved:
  "resetInactivityTimer flow t s = Inr (u, s') \<Longrightarrow> deadlineMoved flow s s'"
  using timeSub_gt [OF minimumExtension_pos, of t _ flow]
  by (auto simp: resetInactivityTimer_def cmd_simps deadlineMoved_def split: option.splits if_splits)

lemma resetUser_moved:
  "resetInactivityTimerForUserOperation flow ctx s = Inr (u, s') \<Longrightarrow> deadlineMoved flow s s'"
proof -
  assume run: "resetInactivityTimerForUserOperation flow ctx s = Inr (u, s')"
  then obtain config where "sConfig s = Some config"
    by (auto simp: resetInactivityTimerForUserOperation_def bindTx_eq_Inr attrGet_def attr_defs split: option.splits)
  with run show ?thesis
    by (cases "cfgInactivityTimeoutSeconds config = 0")
      (auto simp: resetInactivityTimerForUserOperation_def bindTx_apply attrGet_def attr_defs deadlineMoved_refl
        intro: resetInactivityTimer_moved)
qed

lemma deadlineMoved_fields:
  assumes "deadlineMoved flow s s'"
  shows "sConfig s' = sConfig s" "sState s' = sState s" "sCurrent s' = sCurrent s" "sArchived s' = sArchived s"
    "sPlan s' = sPlan s" "sApproval s' = sApproval s" "sRecovery s' = sRecovery s" "sTimer s' = sTimer s"
    "sUserInput s' = sUserInput s" "chQueued s' = chQueued s" "chSteered s' = chSteered s"
    "chAnswered s' = chAnswered s" "chApprovals s' = chApprovals s" "chRecovery s' = chRecovery s"
    "chPlanExecutions s' = chPlanExecutions s" "chParallel s' = chParallel s"
    "sWaitingInputRound s' = sWaitingInputRound s" "sActivity s' = sActivity s" "sSummary s' = sSummary s"
    "sPublished s \<le> sPublished s'" "sRuntimeMetadata s' = sRuntimeMetadata s" "sModelUsage s' = sModelUsage s"
  using assms by (auto simp: deadlineMoved_def)

text \<open>The commands of a user, in one type.\<close>

datatype command =
    SendMessage pendingUserMessage
  | AnswerQuestions answerQuestionsRequest
  | SteerMessage string
  | DeleteQueuedMessage string
  | ApproveTool toolApprovalRequest
  | ResolveToolRecovery resolveToolRecoveryRequest
  | ExecutePlan planExecutionRequest

fun runCommand :: "flow \<Rightarrow> ctx \<Rightarrow> command \<Rightarrow> bool action" where
  "runCommand flow ctx (SendMessage m) = sendMessage flow ctx m"
| "runCommand flow ctx (AnswerQuestions r) = answerQuestions flow ctx r"
| "runCommand flow ctx (SteerMessage i) = steerMessage flow ctx i"
| "runCommand flow ctx (DeleteQueuedMessage i) = deleteQueuedMessage flow ctx i"
| "runCommand flow ctx (ApproveTool r) = approveTool flow ctx r"
| "runCommand flow ctx (ResolveToolRecovery r) = resolveToolRecovery flow ctx r"
| "runCommand flow ctx (ExecutePlan r) = executePlan flow ctx r"

definition recovering :: "store \<Rightarrow> bool" where
  "recovering s \<longleftrightarrow> (case sState s of None \<Rightarrow> False | Some st \<Rightarrow> stStatus st = WaitingForToolRecovery)"

text \<open>What an accepted command does, as a relation on stores; \<open>s1\<close> is the store after the deadline.\<close>

fun accepted :: "flow \<Rightarrow> command \<Rightarrow> store \<Rightarrow> store \<Rightarrow> store \<Rightarrow> bool" where
  "accepted flow (SendMessage m) s s1 s' \<longleftrightarrow>
     sUserInput s = None \<and> trimSpace (umContent (pumValue m)) \<noteq> [] \<and>
     s' = s1 \<lparr>chQueued := chQueued s1 @ [(sPublished s1, m)], sPublished := Suc (sPublished s1)\<rparr>"
| "accepted flow (AnswerQuestions r) s s1 s' \<longleftrightarrow>
     (\<exists>p m. sUserInput s = Some p \<and> puiCallID p = aqrCallID r \<and>
        acceptedAnsweredUserMessage p (aqrAnswers r) = Some m \<and>
        s' = s1 \<lparr>sUserInput := None, chAnswered := chAnswered s1 @ [(sPublished s1,
               \<lparr>auiCallID = puiCallID p, auiMessage = m, auiQuestionCount = int (length (puiQuestions p))\<rparr>)],
             sPublished := Suc (sPublished s1)\<rparr>)"
| "accepted flow (SteerMessage i) s s1 s' \<longleftrightarrow>
     (\<exists>e m. findPendingUserMessage (chQueued s) i = Some (e, m) \<and> sState s \<noteq> None \<and>
        (recovering s \<longrightarrow> sRecovery s \<noteq> None) \<and>
        s' = (if recovering s then s1 \<lparr>sRecovery := None\<rparr> else s1)
             \<lparr>chQueued := filter (\<lambda>q. fst q \<noteq> e) (chQueued s1),
               chSteered := chSteered s1 @ [(sPublished s1, m)], sPublished := Suc (sPublished s1)\<rparr>)"
| "accepted flow (DeleteQueuedMessage i) s s1 s' \<longleftrightarrow>
     (\<exists>e m. findPendingUserMessage (chQueued s) i = Some (e, m) \<and>
        s' = s1 \<lparr>chQueued := filter (\<lambda>q. fst q \<noteq> e) (chQueued s1)\<rparr>)"
| "accepted flow (ApproveTool r) s s1 s' \<longleftrightarrow>
     (\<exists>p. sApproval s = Some p \<and> paCallID p = tarCallID r \<and>
        s' = s1 \<lparr>sApproval := None, chApprovals := (chApprovals s1)(tarCallID r :=
               chApprovals s1 (tarCallID r) @ [(sPublished s1, tarApproved r)]), sPublished := Suc (sPublished s1)\<rparr>)"
| "accepted flow (ResolveToolRecovery r) s s1 s' \<longleftrightarrow>
     (\<exists>p. sRecovery s = Some p \<and> ptrRecoveryID p = rtrRecoveryID r \<and> validateRecoveryResolution p r = Inr () \<and>
        s' = s1 \<lparr>sRecovery := None, chRecovery := (chRecovery s1)(rtrRecoveryID r :=
               chRecovery s1 (rtrRecoveryID r) @ [(sPublished s1, r)]), sPublished := Suc (sPublished s1)\<rparr>)"
| "accepted flow (ExecutePlan r) s s1 s' \<longleftrightarrow>
     (\<exists>p st. sPlan s = Some p \<and> sState s = Some st \<and> stStatus st = WaitingForMessage \<and>
        stPendingPlanExecution st = None \<and> sUserInput s = None \<and> sApproval s = None \<and> sRecovery s = None \<and>
        sTimer s = None \<and> chQueued s = [] \<and> chSteered s = [] \<and> planRevision p = perRevision r \<and>
        planStatusOf p \<in> {PlanDraft, PlanActive} \<and>
        s' = s1 \<lparr>sState := Some (st \<lparr>stPendingPlanExecution := Some (planRevision p), stPlanNoProgressAttempts := 0\<rparr>),
             chPlanExecutions := (chPlanExecutions s1)(planRevisionKey (planRevision p) :=
               chPlanExecutions s1 (planRevisionKey (planRevision p)) @ [(sPublished s1, r)]),
             sPublished := Suc (sPublished s1)\<rparr>)"

lemma runCommand_Inr:
  assumes "runCommand flow ctx cmd s = Inr (b, s')"
  shows "(\<not> b \<and> s' = s) \<or> (b \<and> (\<exists>s1. deadlineMoved flow s s1 \<and> accepted flow cmd s s1 s'))"
proof (cases cmd)
  case (SendMessage m)
  with assms show ?thesis
    by (auto simp: sendMessage_def bindTx_eq_Inr optional_defs liftTx_Inr_iff publish_def attr_defs
        split: if_splits dest!: resetUser_moved)
next
  case (AnswerQuestions r)
  with assms show ?thesis
    by (auto simp: answerQuestions_def bindTx_eq_Inr optional_defs publish_def attrDelete_def attr_defs
        split: if_splits option.splits dest!: resetUser_moved)
next
  case (SteerMessage i)
  with assms show ?thesis
    by (auto simp: steerMessage_def bindTx_eq_Inr optional_defs publish_def attrDelete_def attrGet_def
        pendingMessages_def channelDelete_def attr_defs recovering_def
        split: if_splits option.splits dest!: resetUser_moved)
next
  case (DeleteQueuedMessage i)
  with assms show ?thesis
    by (auto simp: deleteQueuedMessage_def bindTx_eq_Inr pendingMessages_def channelDelete_def attr_defs
        split: if_splits option.splits dest!: resetUser_moved)
next
  case (ApproveTool r)
  with assms show ?thesis
    by (auto simp: approveTool_def bindTx_eq_Inr optional_defs publishTo_def attrDelete_def attr_defs
        split: if_splits option.splits dest!: resetUser_moved)
next
  case (ResolveToolRecovery r)
  with assms show ?thesis
    by (auto simp: resolveToolRecovery_def bindTx_eq_Inr optional_defs publishTo_def attrDelete_def attr_defs
        split: if_splits option.splits dest!: resetUser_moved)
next
  case (ExecutePlan r)
  with assms show ?thesis
    by (auto simp: executePlan_def bindTx_eq_Inr optional_defs publishTo_def attrGet_def attrSet_def channelSize_def
        planRevisionKey_def attr_defs split: if_splits option.splits dest!: resetUser_moved)
qed

section \<open>Properties\<close>

text \<open>
  C17. A command that is rejected, that is whose output is \<open>false\<close> because it does not match the
  current durable state, leaves the whole durable state as it was.
\<close>

theorem rejected_command_changes_nothing:
  assumes "runCommand flow ctx cmd s = Inr (False, s')"
  shows "s' = s"
  using runCommand_Inr [OF assms] by simp

theorem rejected_command_changes_nothing_witness:
  "runCommand exampleFlow exampleCtx (ApproveTool \<lparr>tarCallID = ''call-1'', tarApproved = True\<rparr>) initialStore =
     Inr (False, initialStore)"
proof -
  let ?cmd = "ApproveTool \<lparr>tarCallID = ''call-1'', tarApproved = True\<rparr>"
  obtain s' where run: "runCommand exampleFlow exampleCtx ?cmd initialStore = Inr (False, s')"
    by (simp add: approveTool_def optional_defs initialStore_def emptyStore_def)
  from rejected_command_changes_nothing [OF run] run show ?thesis by simp
qed

text \<open>
  One command after another, each in a transaction of its own: one that fails is rolled back and
  the next one finds the store as it was.
\<close>

fun runCommands :: "flow \<Rightarrow> (ctx \<times> command) list \<Rightarrow> store \<Rightarrow> store" where
  "runCommands flow [] s = s"
| "runCommands flow ((ctx, cmd) # rest) s =
     (case runCommand flow ctx cmd s of Inl e \<Rightarrow> runCommands flow rest s | Inr (b, s') \<Rightarrow> runCommands flow rest s')"

text \<open>Two decisions on the same subject: the questions, the approval, the recovery, the plan.\<close>

fun sameSubject :: "command \<Rightarrow> command \<Rightarrow> bool" where
  "sameSubject (AnswerQuestions r) (AnswerQuestions r') = True"
| "sameSubject (ApproveTool r) (ApproveTool r') = True"
| "sameSubject (ResolveToolRecovery r) (ResolveToolRecovery r') = True"
| "sameSubject (ExecutePlan r) (ExecutePlan r') = True"
| "sameSubject _ _ = False"

text \<open>Nothing on the subject of a decision is pending (a plan is already being executed).\<close>

fun settledFor :: "command \<Rightarrow> store \<Rightarrow> bool" where
  "settledFor (AnswerQuestions r) s \<longleftrightarrow> sUserInput s = None"
| "settledFor (ApproveTool r) s \<longleftrightarrow> sApproval s = None"
| "settledFor (ResolveToolRecovery r) s \<longleftrightarrow> sRecovery s = None"
| "settledFor (ExecutePlan r) s \<longleftrightarrow> (\<exists>st. sState s = Some st \<and> stPendingPlanExecution st \<noteq> None)"
| "settledFor _ s \<longleftrightarrow> False"

lemma accepted_settles:
  "deadlineMoved flow s s1 \<Longrightarrow> accepted flow cmd s s1 s' \<Longrightarrow> sameSubject cmd cmd' \<Longrightarrow> settledFor cmd' s'"
  by (cases "(cmd, cmd')" rule: sameSubject.cases) auto

lemma accepted_keeps_settled:
  assumes "deadlineMoved flow s s1" and "accepted flow other s s1 s'" and "settledFor cmd s"
  shows "settledFor cmd s'"
  using assms(2,3) deadlineMoved_fields [OF assms(1)]
  by (cases cmd; cases other) (auto split: if_splits)

lemma runCommand_keeps_settled:
  "runCommand flow ctx other s = Inr (b, s') \<Longrightarrow> settledFor cmd s \<Longrightarrow> settledFor cmd s'"
  by (auto dest!: runCommand_Inr intro: accepted_keeps_settled)

lemma runCommands_keep_settled: "settledFor cmd s \<Longrightarrow> settledFor cmd (runCommands flow later s)"
proof (induction later arbitrary: s)
  case (Cons x later)
  obtain ctx other where x: "x = (ctx, other)" by fastforce
  show ?case
  proof (cases "runCommand flow ctx other s")
    case (Inr r)
    then obtain b s' where "runCommand flow ctx other s = Inr (b, s')" by (cases r) auto
    with Cons.IH [OF runCommand_keeps_settled [OF this Cons.prems]] show ?thesis by (simp add: x)
  qed (simp add: x Cons.IH [OF Cons.prems])
qed simp

lemma settled_rejects: "settledFor cmd s \<Longrightarrow> runCommand flow ctx cmd s = Inr (False, s)"
  by (cases cmd)
    (auto simp: answerQuestions_def approveTool_def resolveToolRecovery_def executePlan_def optional_defs
      bindTx_apply attrGet_def channelSize_def attr_defs split: option.split)

text \<open>
  C18. Decisions are one-shot: once an answer, an approval, a recovery resolution or a plan execution
  has been accepted, every later decision on the same subject is rejected and changes nothing: the
  same command again (a retry of the client, a second browser), the opposite approval, other
  answers, another resolution, another revision; and whatever commands of users ran in between,
  accepted, rejected or failed. No command can open the question again; only a Step of the Flow can.
\<close>

theorem accepted_decision_is_one_shot:
  assumes "runCommand flow ctx cmd s = Inr (True, s')" and "sameSubject cmd cmd'"
  shows "runCommand flow ctx' cmd' (runCommands flow between s') = Inr (False, runCommands flow between s')"
proof -
  from runCommand_Inr [OF assms(1)] assms(2) have "settledFor cmd' s'" by (auto intro: accepted_settles)
  then show ?thesis by (intro settled_rejects runCommands_keep_settled)
qed

definition exampleUserMessage :: pendingUserMessage where
  "exampleUserMessage = \<lparr>pumMessageID = ''m-1'', pumValue =
     \<lparr>umContent = ''continue'', umPlanMode = False, umAnsweredInputCallID = None\<rparr>\<rparr>"

definition approvalStore :: store where
  "approvalStore = initialStore \<lparr>sConfig := Some newAgentConfig,
     sApproval := Some \<lparr>paCallID = ''call-1'', paToolName = ''write_file'', paArguments = ''{}'', paStartedAt = None\<rparr>\<rparr>"

text \<open>Approved, then a message is sent and steered, then denied: the denial comes too late.\<close>

theorem accepted_decision_is_one_shot_witness:
  "\<exists>s' s''. runCommand exampleFlow exampleCtx (ApproveTool \<lparr>tarCallID = ''call-1'', tarApproved = True\<rparr>) approvalStore
       = Inr (True, s') \<and>
     s'' = runCommands exampleFlow [(exampleCtx, SendMessage exampleUserMessage),
       (exampleCtx, SteerMessage (pumMessageID exampleUserMessage))] s' \<and>
     runCommand exampleFlow exampleCtx (ApproveTool \<lparr>tarCallID = ''call-1'', tarApproved = False\<rparr>) s'' = Inr (False, s'')"
proof -
  obtain s' where run: "runCommand exampleFlow exampleCtx
      (ApproveTool \<lparr>tarCallID = ''call-1'', tarApproved = True\<rparr>) approvalStore = Inr (True, s')"
    by (simp add: approveTool_def resetInactivityTimerForUserOperation_def cmd_simps approvalStore_def
        newAgentConfig_def)
  have "sameSubject (ApproveTool \<lparr>tarCallID = ''call-1'', tarApproved = True\<rparr>)
      (ApproveTool \<lparr>tarCallID = ''call-1'', tarApproved = False\<rparr>)" by simp
  note late = accepted_decision_is_one_shot [OF run this]
  show ?thesis by (intro exI conjI, rule run, rule refl, rule late)
qed

text \<open>
  C19. No command moves the inactivity deadline earlier: it stays, or moves later by more than
  the minimum extension, and then exactly the new deadline is announced to the timeout Step.
\<close>

theorem command_extends_deadline:
  assumes "runCommand flow ctx cmd s = Inr (b, s')"
  shows "(sDeadline s' = sDeadline s \<and> chReset s' = chReset s) \<or>
     (\<exists>d t n. sDeadline s = Some d \<and> sDeadline s' = Some t \<and>
        d + inactivityResetMinimumExtension flow < t \<and> chReset s' = chReset s @ [(n, t)])"
proof -
  from runCommand_Inr [OF assms] consider "s' = s" |
    s1 where "deadlineMoved flow s s1" "accepted flow cmd s s1 s'" by auto
  then show ?thesis
  proof cases
    case 2
    have "sDeadline s' = sDeadline s1 \<and> chReset s' = chReset s1"
      using 2(2) by (cases cmd) (auto split: if_splits)
    with 2(1) show ?thesis by (auto simp: deadlineMoved_def)
  qed simp
qed

text \<open>A Flow with an hour of inactivity, whose deadline has come close.\<close>

definition dueStore :: store where
  "dueStore = approvalStore \<lparr>sConfig := Some (newAgentConfig \<lparr>cfgInactivityTimeoutSeconds := 3600\<rparr>),
     sDeadline := Some (cxNow exampleCtx + second)\<rparr>"

lemma dueStore_extended:
  "map_sum (\<lambda>e. ()) (\<lambda>(b, s'). (b, sDeadline s' = sDeadline dueStore))
     (runCommand exampleFlow exampleCtx (ApproveTool \<lparr>tarCallID = ''call-1'', tarApproved = True\<rparr>) dueStore) = Inr (True, False)"
  by code_simp

theorem command_extends_deadline_witness:
  "\<exists>s' d t n. runCommand exampleFlow exampleCtx (ApproveTool \<lparr>tarCallID = ''call-1'', tarApproved = True\<rparr>) dueStore
       = Inr (True, s') \<and> sDeadline dueStore = Some d \<and> sDeadline s' = Some t \<and> d + minute < t \<and>
     chReset s' = chReset dueStore @ [(n, t)]"
proof -
  from dueStore_extended obtain s' where run: "runCommand exampleFlow exampleCtx
      (ApproveTool \<lparr>tarCallID = ''call-1'', tarApproved = True\<rparr>) dueStore = Inr (True, s')"
    and moved: "sDeadline s' \<noteq> sDeadline dueStore"
    by (cases "runCommand exampleFlow exampleCtx (ApproveTool \<lparr>tarCallID = ''call-1'', tarApproved = True\<rparr>) dueStore") auto
  have "inactivityResetMinimumExtension exampleFlow = minute" by code_simp
  with command_extends_deadline [OF run] moved run show ?thesis by fastforce
qed

lemma find_split: "List.find P xs = Some x \<Longrightarrow> \<exists>pre post. xs = pre @ x # post \<and> P x \<and> (\<forall>y \<in> set pre. \<not> P y)"
proof (induction xs)
  case (Cons y ys)
  show ?case
  proof (cases "P y")
    case True
    with Cons.prems show ?thesis by (intro exI [of _ "[]"] exI [of _ ys]) simp
  next
    case False
    with Cons obtain pre post where "ys = pre @ x # post" "P x" "\<forall>z \<in> set pre. \<not> P z" by auto
    with False show ?thesis by (intro exI [of _ "y # pre"] exI [of _ post]) simp
  qed
qed simp

lemma filter_other: "e \<notin> fst ` set xs \<Longrightarrow> filter (\<lambda>q. fst q \<noteq> e) xs = xs"
  by (induction xs) auto

text \<open>
  Steering moves exactly one queued message: the first queued message with the requested
  identity leaves the queue and becomes the last steered one; every other queued and steered
  message keeps its place.
\<close>

theorem steerMessage_moves_one:
  assumes "steerMessage flow ctx i s = Inr (True, s')" and "freshEnvelopes (sPublished s) (chQueued s)"
  shows "\<exists>pre e m post n. chQueued s = pre @ (e, m) # post \<and> pumMessageID m = i \<and>
     (\<forall>q \<in> set pre. pumMessageID (snd q) \<noteq> i) \<and>
     chQueued s' = pre @ post \<and> chSteered s' = chSteered s @ [(n, m)]"
proof -
  have "runCommand flow ctx (SteerMessage i) s = Inr (True, s')" using assms(1) by simp
  from runCommand_Inr [OF this] obtain s1 where moved: "deadlineMoved flow s s1"
    and acc: "accepted flow (SteerMessage i) s s1 s'" by auto
  from acc obtain e m where find: "findPendingUserMessage (chQueued s) i = Some (e, m)" and
    s': "chQueued s' = filter (\<lambda>q. fst q \<noteq> e) (chQueued s1)" "chSteered s' = chSteered s1 @ [(sPublished s1, m)]"
    by (auto split: if_splits)
  from find_split [OF find [unfolded findPendingUserMessage_def]] obtain pre post where
    split: "chQueued s = pre @ (e, m) # post" "pumMessageID m = i" "\<forall>q \<in> set pre. pumMessageID (snd q) \<noteq> i"
    by auto
  have "e \<notin> fst ` set pre" "e \<notin> fst ` set post"
    using assms(2) split(1) by (auto simp: freshEnvelopes_def)
  then have "chQueued s' = pre @ post"
    by (simp add: s'(1) deadlineMoved_fields(10) [OF moved] split(1) filter_other)
  moreover have "chSteered s' = chSteered s @ [(sPublished s1, m)]"
    by (simp add: s'(2) deadlineMoved_fields(11) [OF moved])
  ultimately show ?thesis using split by blast
qed

definition queueStore :: store where
  "queueStore = initialStore \<lparr>sConfig := Some newAgentConfig, chQueued := [(0, exampleUserMessage)], sPublished := 1\<rparr>"

theorem steerMessage_moves_one_witness:
  "\<exists>s' n. steerMessage exampleFlow exampleCtx ''m-1'' queueStore = Inr (True, s') \<and>
     chQueued s' = [] \<and> chSteered s' = [(n, exampleUserMessage)]"
proof -
  have "trimSpace ''m-1'' \<noteq> []" by code_simp
  then obtain s' where run: "steerMessage exampleFlow exampleCtx ''m-1'' queueStore = Inr (True, s')"
    by (simp add: steerMessage_def resetInactivityTimerForUserOperation_def cmd_simps queueStore_def
        newAgentConfig_def initialStore_def newAgentState_def exampleUserMessage_def findPendingUserMessage_def)
  have fresh: "freshEnvelopes (sPublished queueStore) (chQueued queueStore)"
    by (simp add: queueStore_def freshEnvelopes_def)
  from steerMessage_moves_one [OF run fresh] run show ?thesis
    by (auto simp: queueStore_def initialStore_def emptyStore_def Cons_eq_append_conv)
qed

text \<open>A conversation whose first ten messages are archived; one message is current.\<close>

definition archivedState :: agentState where
  "archivedState = newAgentState \<lparr>stNextSequence := 12, stLastSequence := 11, stCurrentFirst := 11\<rparr>"

definition archivedStore :: store where
  "archivedStore = initialStore \<lparr>sConfig := Some newAgentConfig, sWaitingInputRound := Some 1, sState := Some archivedState,
     sCurrent := [sequenceKey 11 \<mapsto> exampleMessage], sArchived :=
     [sequenceKey 1 \<mapsto> map (\<lambda>q. \<lparr>smSequence = q, smMessage = exampleMessage\<rparr>) (range64 1 10)]\<rparr>"

lemma archivedStore_parts:
  "sState archivedStore = Some archivedState" "sConfig archivedStore = Some newAgentConfig"
  "sWaitingInputRound archivedStore = Some 1" "stFirstRetained archivedState = 1" "stCurrentFirst archivedState = 11"
  "stLastSequence archivedState = 11"
  by (simp_all add: archivedStore_def archivedState_def newAgentState_def)

lemma histInv_archivedStore: "histInv archivedStore"
proof -
  have "{f. f mod 10 = 1 \<and> 1 \<le> f \<and> f < 11} = {1 :: int}" by (auto; presburger)
  then have "chunkFirsts 1 11 = {1}" by (auto simp: chunkFirsts_def)
  then show ?thesis
    by (simp add: histInv_def histOf_def countersOk_def chunksOk_def archivedStore_def archivedState_def
        newAgentState_def initialStore_def emptyStore_def comp_def)
qed

lemma history_archivedStore: "history archivedStore = replicate 11 exampleMessage"
  by code_simp

text \<open>
  C30. The durable view: on a well-formed store with a configuration a snapshot never fails
  and never panics; its history page is exactly the current messages with their sequences (the
  end of the retained history), it points at older pages exactly when there are any, and it
  lists every queued and steered message in order. Nothing changes.
\<close>

theorem getSnapshot_shows_current:
  assumes "histInv s" and "sState s = Some st" and "sConfig s = Some config" and "sWaitingInputRound s = Some r"
  shows "\<exists>snap. getSnapshot flow ctx s = Inr (snap, s) \<and>
     map smMessage (hpMessages (snapHistory snap)) =
       drop (nat (stCurrentFirst st - stFirstRetained st)) (history s) \<and>
     map smSequence (hpMessages (snapHistory snap)) = range64 (stCurrentFirst st) (stLastSequence st) \<and>
     hpNextBefore (snapHistory snap) =
       (if stCurrentFirst st > stFirstRetained st then Some (stCurrentFirst st) else None) \<and>
     snapQueued snap = map snd (chQueued s) \<and> snapSteered snap = map snd (chSteered s)"
proof -
  from assms(1,2) have h: "histOf s st" by (simp add: histInv_def)
  then have c: "stFirstRetained st \<le> stCurrentFirst st" "stCurrentFirst st \<le> stLastSequence st + 1"
    by (simp_all add: histOf_def countersOk_def)
  let ?f = "stCurrentFirst st" and ?l = "stLastSequence st"
  have start: "max (stFirstRetained st) ?f = ?f" using c by simp
  have coll: "collectCurrent (range64 ?f ?l) s =
      Inr (map (\<lambda>q. \<lparr>smSequence = q, smMessage = the (sCurrent s (sequenceKey q))\<rparr>) (range64 ?f ?l), s)"
    using h by (intro collectCurrent_ok) (simp add: histOf_def)
  have "window s st ?f ?l = map (\<lambda>q. the (sCurrent s (sequenceKey q))) (range64 ?f ?l)"
    by (simp add: window_def storedMessage_def)
  moreover have "window s st ?f ?l = drop (nat (?f - stFirstRetained st)) (history s)"
  proof -
    have "length (history s) = nat (?l - stFirstRetained st + 1)" by (simp add: history_def assms(2) window_def)
    then show ?thesis using window_slice [OF assms(2) c(1) order.refl] c by simp
  qed
  ultimately have msgs: "map (\<lambda>q. the (sCurrent s (sequenceKey q))) (range64 ?f ?l) =
      drop (nat (?f - stFirstRetained st)) (history s)" by simp
  from assms(2,3,4) c coll msgs show ?thesis
    by (simp add: getSnapshot_def describe_def bindTx_apply attrGet_def getOptional_def pendingMessages_def
        attr_defs optional_reads start Let_def comp_def pendingUserMessages_def)
qed

theorem getSnapshot_shows_current_witness:
  "\<exists>snap. getSnapshot exampleFlow exampleCtx archivedStore = Inr (snap, archivedStore) \<and>
     map smMessage (hpMessages (snapHistory snap)) = [exampleMessage] \<and> hpNextBefore (snapHistory snap) = Some 11"
  using getSnapshot_shows_current [OF histInv_archivedStore archivedStore_parts(1-3), of exampleFlow exampleCtx]
  by (auto simp: archivedStore_parts history_archivedStore)

text \<open>A retained archive chunk holds its ten messages of the history.\<close>

lemma archivedChunk_window:
  assumes "histInv s" and "sState s = Some st" and "before mod 10 = 1"
    and "stFirstRetained st + 10 \<le> before" and "before \<le> stCurrentFirst st"
  obtains chunk where "sArchived s (sequenceKey (before - 10)) = Some chunk"
    and "map smSequence chunk = range64 (before - 10) (before - 1)"
    and "map smMessage chunk = take 10 (drop (nat (before - 10 - stFirstRetained st)) (history s))"
proof -
  from assms have h: "histOf s st" by (simp add: histInv_def)
  then have c: "1 \<le> stFirstRetained st" "stFirstRetained st mod 10 = 1" "stCurrentFirst st mod 10 = 1"
    "stFirstRetained st \<le> stCurrentFirst st" "stCurrentFirst st \<le> stLastSequence st + 1"
    by (simp_all add: histOf_def countersOk_def)
  let ?f = "before - 10"
  have "?f \<in> chunkFirsts (stFirstRetained st) (stCurrentFirst st)"
    using assms(3-) c(1-3) unfolding chunkFirsts_def by (simp; presburger)
  with h obtain chunk where chunk: "sArchived s (sequenceKey ?f) = Some chunk"
    "map smSequence chunk = range64 ?f (?f + 9)" by (auto simp: histOf_def chunksOk_def)
  have mod: "?f mod 10 = 1" using assms(3) by presburger
  have "map smMessage chunk = map (storedMessage s (stCurrentFirst st)) (range64 ?f (?f + 9))"
  proof (rule nth_equalityI)
    show len: "length (map smMessage chunk) = length (map (storedMessage s (stCurrentFirst st)) (range64 ?f (?f + 9)))"
      using arg_cong [OF chunk(2), of length] by simp
    fix i assume i: "i < length (map smMessage chunk)"
    then have i10: "i < 10" using len by simp
    have "chunkFirst (?f + int i) = ?f" using i10 by (intro chunkFirst_unique mod) auto
    moreover have "?f + int i < stCurrentFirst st" using assms(5) i10 by simp
    ultimately show "map smMessage chunk ! i = map (storedMessage s (stCurrentFirst st)) (range64 ?f (?f + 9)) ! i"
      using i i10 chunk(1) by (simp add: storedMessage_def archivedMessage_def)
  qed
  also have "\<dots> = window s st ?f (?f + 9)" by (simp add: window_def)
  also have "\<dots> = take 10 (drop (nat (?f - stFirstRetained st)) (history s))"
    using window_slice [OF assms(2), of ?f "?f + 9"] assms(4,5) c by simp
  finally show thesis using chunk by (intro that) simp_all
qed

text \<open>Below the retained chunks, and from the current messages on, there is no chunk to read.\<close>

lemma archivedChunk_absent:
  assumes "histInv s" and "sState s = Some st" and "stCurrentFirst st \<le> before"
  shows "sArchived s (sequenceKey before) = None"
proof -
  from assms have h: "histOf s st" by (simp add: histInv_def)
  have "before \<notin> chunkFirsts (stFirstRetained st) (stCurrentFirst st)"
    using assms(3) by (simp add: chunkFirsts_def)
  then have "sequenceKey before \<notin> dom (sArchived s)" using h by (auto simp: histOf_def chunksOk_def)
  then show ?thesis by (simp add: domIff)
qed

lemmas read_archive = getArchivedMessages_def bindTx_apply getOptional_def attrGet_def mapGet_def attr_defs
  noArchivedMessages_def

lemma archive_page:
  assumes "histInv s" and "sState s = Some st"
  shows "\<exists>out. getArchivedMessages before s = Inr (out, s) \<and>
     (amoFound out \<longleftrightarrow> before mod 10 = 1 \<and> stFirstRetained st + 10 \<le> before \<and> before \<le> stCurrentFirst st) \<and>
     (amoFound out \<longrightarrow>
        map smMessage (hpMessages (amoPage out)) =
          take 10 (drop (nat (before - 10 - stFirstRetained st)) (history s)) \<and>
        map smSequence (hpMessages (amoPage out)) = range64 (before - 10) (before - 1) \<and>
        hpNextBefore (amoPage out) = (if before - 10 > stFirstRetained st then Some (before - 10) else None))"
proof -
  from assms have c: "1 \<le> stFirstRetained st" "stFirstRetained st mod 10 = 1" "stCurrentFirst st mod 10 = 1"
    by (simp_all add: histInv_def histOf_def countersOk_def)
  have gap: "(stFirstRetained st + 10 \<le> before \<and> before \<le> stCurrentFirst st) \<or>
      before - 10 < stFirstRetained st \<or> stCurrentFirst st \<le> before - 10" if "before mod 10 = 1"
    using c(3) that by presburger
  consider (found) "before mod 10 = 1" "stFirstRetained st + 10 \<le> before" "before \<le> stCurrentFirst st"
    | (invalid) "\<not> (10 < before \<and> before mod 10 = 1)"
    | (outside) "10 < before" "before mod 10 = 1" "before - 10 < stFirstRetained st \<or> stCurrentFirst st \<le> before - 10"
    using gap by blast
  then show ?thesis
  proof cases
    case found
    from archivedChunk_window [OF assms found] obtain chunk where
      "sArchived s (sequenceKey (before - 10)) = Some chunk"
      "map smSequence chunk = range64 (before - 10) (before - 1)"
      "map smMessage chunk = take 10 (drop (nat (before - 10 - stFirstRetained st)) (history s))" .
    moreover have "archivedMessageChunkFirst before = (before - 10, True)"
      using found c(1) by (simp add: archivedMessageChunkFirst_iff)
    ultimately show ?thesis using found assms(2) by (simp add: read_archive)
  next
    case invalid
    obtain first valid where v: "archivedMessageChunkFirst before = (first, valid)" by fastforce
    with invalid have "\<not> valid" using archivedMessageChunkFirst_iff [of before first] by auto
    moreover have "\<not> (before mod 10 = 1 \<and> stFirstRetained st + 10 \<le> before)" using invalid c(1) by auto
    ultimately show ?thesis using v by (auto simp: getArchivedMessages_def noArchivedMessages_def)
  next
    case outside
    then have "archivedMessageChunkFirst before = (before - 10, True)"
      by (simp add: archivedMessageChunkFirst_iff)
    moreover have "stCurrentFirst st \<le> before - 10 \<Longrightarrow> sArchived s (sequenceKey (before - 10)) = None"
      by (rule archivedChunk_absent [OF assms])
    moreover have "\<not> (stFirstRetained st + 10 \<le> before \<and> before \<le> stCurrentFirst st)" using outside(3) by auto
    ultimately show ?thesis using assms(2) outside(3) by (auto simp: read_archive)
  qed
qed

text \<open>
  C31. An archived page is found exactly for a boundary that lies one past a retained chunk;
  it then holds exactly the ten history messages before the boundary, in order and under their
  sequences, and points to the next older page exactly when one is retained.
\<close>

theorem getArchivedMessages_pages:
  assumes "histInv s" and "sState s = Some st"
  shows "\<exists>out. getArchivedMessages before s = Inr (out, s) \<and>
     (amoFound out \<longleftrightarrow> before mod 10 = 1 \<and> stFirstRetained st + 10 \<le> before \<and> before \<le> stCurrentFirst st) \<and>
     (amoFound out \<longrightarrow>
        map smMessage (hpMessages (amoPage out)) =
          take 10 (drop (nat (before - 10 - stFirstRetained st)) (history s)) \<and>
        map smSequence (hpMessages (amoPage out)) = range64 (before - 10) (before - 1) \<and>
        hpNextBefore (amoPage out) = (if before - 10 > stFirstRetained st then Some (before - 10) else None))"
  using assms by (rule archive_page)

theorem getArchivedMessages_pages_witness:
  "\<exists>out. getArchivedMessages 11 archivedStore = Inr (out, archivedStore) \<and> amoFound out \<and>
     map smMessage (hpMessages (amoPage out)) = replicate 10 exampleMessage \<and> hpNextBefore (amoPage out) = None"
  using getArchivedMessages_pages [OF histInv_archivedStore archivedStore_parts(1), of 11]
  by (auto simp: archivedStore_parts history_archivedStore)

end
