(* ===== verification/Conversation.thy ===== *)
theory Conversation
  imports Commands
begin

text \<open>
  What a well-formed conversation is: an automaton over messages whose state is the list of
  tool calls that still wait for their result. An assistant message opens its calls, a tool
  message answers the first open one, and a user or assistant message is only accepted when
  none is open. Providers reject a request that is not of this form. The theory shows that
  the compaction cutoff of \<^verbatim>\<open>internal/agent/tools.go\<close> never separates a call from its result,
  and which conversations the appends of the Flow build.
\<close>

section \<open>The automaton\<close>

definition answers :: "agentMessage \<Rightarrow> toolCall \<Rightarrow> bool" where
  "answers m c \<longleftrightarrow>
     msgRole m = RoleTool \<and> msgToolCallID m = Some (tcID c) \<and> msgToolName m = Some (tcName c) \<and>
     msgToolCalls m = []"

fun step :: "toolCall list \<Rightarrow> agentMessage \<Rightarrow> toolCall list option" where
  "step [] m =
     (case msgRole m of
        RoleUser \<Rightarrow> if msgToolCalls m = [] then Some [] else None
      | RoleAssistant \<Rightarrow> if distinct (map tcID (msgToolCalls m)) then Some (msgToolCalls m) else None
      | _ \<Rightarrow> None)"
| "step (c # cs) m = (if answers m c then Some cs else None)"

fun convo :: "toolCall list \<Rightarrow> agentMessage list \<Rightarrow> toolCall list option" where
  "convo pend [] = Some pend"
| "convo pend (m # ms) = (case step pend m of None \<Rightarrow> None | Some pend' \<Rightarrow> convo pend' ms)"

lemma convo_append:
  "convo pend (xs @ ys) = (case convo pend xs of None \<Rightarrow> None | Some p \<Rightarrow> convo p ys)"
  by (induction xs arbitrary: pend) (auto split: option.split)

lemma convo_snoc: "convo pend ms = Some p \<Longrightarrow> convo pend (ms @ [m]) = step p m"
  by (simp add: convo_append split: option.split)

lemma convo_drop: "convo pend ms = Some p \<Longrightarrow> \<exists>q. convo q (drop n ms) = Some p"
proof -
  assume "convo pend ms = Some p"
  then obtain q where "convo q (drop n ms) = Some p"
    using convo_append [of pend "take n ms" "drop n ms"] by (auto split: option.splits)
  then show ?thesis by blast
qed

text \<open>The automaton looks at roles and calls only, so projecting contents does not matter.\<close>

lemma step_project [simp]: "step pend (projectMessage m n) = step pend m"
  by (cases pend) (simp_all add: projectMessage_def answers_def Let_def split: messageRole.split)

lemma convo_project [simp]: "convo pend (map (\<lambda>m. projectMessage m n) ms) = convo pend ms"
  by (induction ms arbitrary: pend) (auto split: option.split)

lemma stamped_simps [simp]:
  "msgRole (stamped ctx m) = msgRole m" "msgToolCalls (stamped ctx m) = msgToolCalls m"
  "msgToolCallID (stamped ctx m) = msgToolCallID m" "msgToolName (stamped ctx m) = msgToolName m"
  "msgContent (stamped ctx m) = msgContent m"
  "msgAnsweredInputCallID (stamped ctx m) = msgAnsweredInputCallID m"
  by (simp_all add: stamped_def)

lemma step_stamped [simp]: "step pend (stamped ctx m) = step pend m"
  by (cases pend) (simp_all add: answers_def split: messageRole.split)

lemma answers_toolMessage [simp]: "answers (toolMessage call result timing) call"
  by (simp add: answers_def toolMessage_def)

lemma step_toolMessage [simp]: "step (call # cs) (toolMessage call result timing) = Some cs"
  by simp

section \<open>The compaction cutoff is safe\<close>

text \<open>
  While a conversation is read, \<open>openCalls\<close> holds exactly the identities of the automaton's
  open calls, all under the sequence of the assistant message that made them.
\<close>

definition tracks :: "(string \<times> int) list \<Rightarrow> toolCall list \<Rightarrow> int \<Rightarrow> bool" where
  "tracks pending pend opened \<longleftrightarrow>
     set pending = (\<lambda>c. (tcID c, opened)) ` set pend \<and> distinct (map tcID pend)"

lemma fold_putCall:
  "distinct (map tcID calls) \<Longrightarrow> fst ` set acc \<inter> tcID ` set calls = {} \<Longrightarrow>
     set (fold (\<lambda>call. putCall seq (tcID call)) calls acc) = (\<lambda>c. (tcID c, seq)) ` set calls \<union> set acc"
proof (induction calls arbitrary: acc)
  case (Cons c cs)
  have "tcID c \<notin> fst ` set acc" using Cons.prems(2) by auto
  then have "putCall seq (tcID c) acc = (tcID c, seq) # acc"
    unfolding putCall_def by (simp add: filter_other)
  moreover have "fst ` set ((tcID c, seq) # acc) \<inter> tcID ` set cs = {}"
    using Cons.prems by auto
  ultimately show ?case using Cons.IH [of "(tcID c, seq) # acc"] Cons.prems(1) by auto
qed simp

lemma noteMessage_tracks:
  assumes "tracks pending pend opened" and "step pend m = Some pend'"
  shows "tracks (noteMessage seq m pending) pend' (if pend = [] then seq else opened)"
proof (cases pend)
  case Nil
  then have "pending = []" using assms(1) by (simp add: tracks_def)
  have role: "msgRole m \<noteq> RoleTool" and calls: "msgToolCalls m = pend'" "distinct (map tcID pend')"
    using Nil assms(2) by (simp_all split: messageRole.splits if_splits)
  have "noteMessage seq m pending = fold (\<lambda>call. putCall seq (tcID call)) (msgToolCalls m) []"
    using role \<open>pending = []\<close> by (simp add: noteMessage_def Let_def split: option.split)
  with fold_putCall [of "msgToolCalls m" "[]" seq] calls Nil show ?thesis
    by (simp add: tracks_def)
next
  case (Cons c cs)
  with assms(2) have a: "answers m c" "pend' = cs" by (auto split: if_splits)
  have "distinct (map tcID pend)" using assms(1) by (simp add: tracks_def)
  with Cons have "tcID c \<notin> tcID ` set cs" by simp
  then have d: "\<And>x. x \<in> set cs \<Longrightarrow> tcID x \<noteq> tcID c" by (metis imageI)
  have "noteMessage seq m pending = filter (\<lambda>p. fst p \<noteq> tcID c) pending"
    using a(1) by (simp add: noteMessage_def answers_def)
  with assms(1) Cons a(2) show ?thesis by (auto simp: tracks_def dest: d)
qed

text \<open>
  At every point of a closed prefix either nothing is open, or the open calls were made at a
  message before which nothing was open.
\<close>

lemma openCalls_safe:
  assumes "convo pend ms = Some p" and "tracks pending pend opened"
  shows "(pend = [] \<or> opened < seq) \<Longrightarrow>
     \<exists>o'. tracks (openCalls ms seq pending) p o' \<and>
       (p = [] \<or> (o' = opened \<and> pend \<noteq> []) \<or>
        (seq \<le> o' \<and> o' < seq + int (length ms) \<and> convo pend (take (nat (o' - seq)) ms) = Some []))"
  using assms
proof (induction ms arbitrary: pend pending opened seq)
  case Nil
  then show ?case by auto
next
  case (Cons m ms)
  from Cons.prems(2) obtain pend' where st: "step pend m = Some pend'" and rest: "convo pend' ms = Some p"
    by (auto split: option.splits)
  let ?opened = "if pend = [] then seq else opened"
  have tr: "tracks (noteMessage seq m pending) pend' ?opened"
    by (rule noteMessage_tracks [OF Cons.prems(3) st])
  have "pend' = [] \<or> ?opened < seq + 1" using Cons.prems(1) by auto
  from Cons.IH [OF this rest tr] obtain o' where o': "tracks (openCalls ms (seq + 1) (noteMessage seq m pending)) p o'"
    and cases: "p = [] \<or> (o' = ?opened \<and> pend' \<noteq> []) \<or>
      (seq + 1 \<le> o' \<and> o' < seq + 1 + int (length ms) \<and> convo pend' (take (nat (o' - (seq + 1))) ms) = Some [])"
    by blast
  from cases show ?case
  proof (elim disjE conjE)
    assume "p = []"
    with o' show ?thesis by auto
  next
    assume "o' = ?opened" "pend' \<noteq> []"
    with o' show ?thesis by (cases "pend = []") auto
  next
    assume le: "seq + 1 \<le> o'" "o' < seq + 1 + int (length ms)"
      and cl: "convo pend' (take (nat (o' - (seq + 1))) ms) = Some []"
    have "nat (o' - seq) = Suc (nat (o' - (seq + 1)))" using le by simp
    with cl st have "convo pend (take (nat (o' - seq)) (m # ms)) = Some []" by simp
    with o' le show ?thesis by (intro exI [of _ o']) simp
  qed
qed

lemma toolSafeCompactionCutoff_closed:
  assumes "convo [] ms = Some p" and "int (length ms) = cutoff - start + 1"
  shows "toolSafeCompactionCutoff ms start cutoff \<le> cutoff"
    and "start - 1 \<le> toolSafeCompactionCutoff ms start cutoff"
    and "convo [] (take (nat (toolSafeCompactionCutoff ms start cutoff - start + 1)) ms) = Some []"
proof -
  have "tracks [] [] 0" by (simp add: tracks_def)
  from openCalls_safe [OF assms(1) this, of start] obtain o' where
    tr: "tracks (openCalls ms start []) p o'" and
    cases: "p = [] \<or> (start \<le> o' \<and> o' < start + int (length ms) \<and> convo [] (take (nat (o' - start)) ms) = Some [])"
    by auto
  have "toolSafeCompactionCutoff ms start cutoff \<le> cutoff \<and> start - 1 \<le> toolSafeCompactionCutoff ms start cutoff \<and>
     convo [] (take (nat (toolSafeCompactionCutoff ms start cutoff - start + 1)) ms) = Some []"
  proof (cases "p = []")
    case True
    then have "openCalls ms start [] = []" using tr by (simp add: tracks_def)
    with True assms show ?thesis by (simp add: toolSafeCompactionCutoff_def)
  next
    case False
    then have ne: "openCalls ms start [] \<noteq> []" using tr by (auto simp: tracks_def)
    have "snd ` set (openCalls ms start []) = {o'}" using tr False by (simp add: tracks_def image_image image_constant_conv)
    then have "toolSafeCompactionCutoff ms start cutoff = o' - 1"
      using ne cases False assms(2) by (simp add: toolSafeCompactionCutoff_def Let_def)
    with cases False assms(2) show ?thesis by simp
  qed
  then show "toolSafeCompactionCutoff ms start cutoff \<le> cutoff"
    "start - 1 \<le> toolSafeCompactionCutoff ms start cutoff"
    "convo [] (take (nat (toolSafeCompactionCutoff ms start cutoff - start + 1)) ms) = Some []"
    by simp_all
qed

end
