(* ===== verification/Turns.thy ===== *)
theory Turns
  imports Conversation
begin

text \<open>
  Turns of \<^verbatim>\<open>internal/agent/flow.go\<close>: how a user message starts a turn, how steering interrupts
  one, how a plan is replaced, and how the calls of an assistant message are answered or
  cancelled. The invariant \<open>consistent\<close> says that the unsummarized messages form a
  well-formed conversation whose open calls are exactly the pending calls of the state.
\<close>

section \<open>The pending calls\<close>

definition hasNextToolCall :: "bool action" where
  "hasNextToolCall =
     bindTx (attrGet agentStateAttribute) (\<lambda>state.
     returnTx (stPendingToolIndex state + 1 < int (length (stPendingToolCalls state))))"

definition advanceTool :: "unit action" where
  "advanceTool =
     bindTx (attrGet agentStateAttribute) (\<lambda>state.
     attrSet agentStateAttribute (state \<lparr>stPendingToolIndex := stPendingToolIndex state + 1\<rparr>))"

definition clearPendingToolCalls :: "unit action" where
  "clearPendingToolCalls =
     bindTx (attrGet agentStateAttribute) (\<lambda>state.
     attrSet agentStateAttribute (state \<lparr>stPendingToolCalls := [], stPendingToolIndex := 0\<rparr>))"

definition currentToolCall :: "toolCall action" where
  "currentToolCall =
     bindTx (attrGet agentStateAttribute) (\<lambda>state.
     if stPendingToolIndex state < 0 \<or> stPendingToolIndex state \<ge> int (length (stPendingToolCalls state))
     then throwTx (New ''the Agent has no pending tool call'')
     else returnTx (stPendingToolCalls state ! nat (stPendingToolIndex state)))"

definition updateStatus :: "agentStatus \<Rightarrow> unit action" where
  "updateStatus status =
     bindTx (attrGet agentStateAttribute) (\<lambda>state.
     if stStatus state = status then returnTx ()
     else attrSet agentStateAttribute (state \<lparr>stStatus := status\<rparr>))"

text \<open>The Go slice \<^verbatim>\<open>xs[i:]\<close>, which panics outside the bounds of \<open>xs\<close>.\<close>

definition sliceFrom :: "'a list \<Rightarrow> int \<Rightarrow> 'a list result" where
  "sliceFrom xs i =
     (if i < 0 \<or> int (length xs) < i then Inl (RuntimePanic ''slice bounds out of range'')
      else Inr (drop (nat i) xs))"

definition cancelCalls :: "ctx \<Rightarrow> toolErrorCode \<Rightarrow> toolCall list \<Rightarrow> unit action" where
  "cancelCalls ctx reason calls =
     forTx calls (\<lambda>call. appendToolResult ctx call (interruptedResult reason) None)"

definition appendToolResultAndCancelRemaining ::
    "ctx \<Rightarrow> toolCall \<Rightarrow> toolExecutionResult \<Rightarrow> toolErrorCode \<Rightarrow> unit action" where
  "appendToolResultAndCancelRemaining ctx call result reason =
     bindTx (attrGet agentStateAttribute) (\<lambda>state.
     bindTx (liftTx (sliceFrom (stPendingToolCalls state) (stPendingToolIndex state + 1))) (\<lambda>remaining.
     bindTx (attrSet agentStateAttribute (state \<lparr>stPendingToolCalls := [], stPendingToolIndex := 0\<rparr>)) (\<lambda>_.
     bindTx (appendToolResult ctx call result None) (\<lambda>_.
     cancelCalls ctx reason remaining))))"

section \<open>User turns\<close>

definition userMessageOf :: "userMessage \<Rightarrow> agentMessage" where
  "userMessageOf message = \<lparr>
     msgRole = RoleUser, msgContent = umContent message, msgToolCalls = [], msgToolCallID = None,
     msgToolName = None, msgAnsweredInputCallID = umAnsweredInputCallID message,
     msgProviderContextItems = [], msgStartedAt = None, msgCreatedAt = 0\<rparr>"

text \<open>The interaction mode of a turn: mode, must write a plan, may write a plan.\<close>

definition turnMode :: "userMessage \<Rightarrow> agentPlan option \<Rightarrow> interactionMode \<times> bool \<times> bool" where
  "turnMode message plan =
     (if umPlanMode message then (ModePlanning, True, True)
      else if umAnsweredInputCallID message \<noteq> None \<and> (case plan of None \<Rightarrow> False | Some p \<Rightarrow> planStatusOf p = PlanActive)
      then (ModeExecuting, False, False)
      else if (case plan of None \<Rightarrow> False | Some p \<Rightarrow> planStatusOf p = PlanDraft \<or> planStatusOf p = PlanActive)
      then (ModePlanning, False, True)
      else (ModeChat, False, False))"

definition turnState :: "userMessage \<Rightarrow> agentPlan option \<Rightarrow> agentState \<Rightarrow> agentState" where
  "turnState message plan state =
     (case turnMode message plan of (mode, requires, allows) \<Rightarrow> state \<lparr>
        stInteractionMode := mode, stPlanningRequiresWrite := requires, stPlanningAllowsWrite := allows,
        stStatus := CallingModel, stPendingToolCalls := [], stPendingToolIndex := 0,
        stPendingPlanExecution := None, stPlanNoProgressAttempts := 0\<rparr>)"

definition beginUserTurn :: "ctx \<Rightarrow> userMessage \<Rightarrow> int action" where
  "beginUserTurn ctx message =
     bindTx (attrGet agentStateAttribute) (\<lambda>state.
     bindTx getAgentPlan (\<lambda>plan.
     bindTx (attrSet agentStateAttribute (turnState message plan state)) (\<lambda>_.
     appendMessage ctx (userMessageOf message))))"

text \<open>The loop over the messages of a turn; the last sequence is reported.\<close>

fun beginUserTurns :: "ctx \<Rightarrow> pendingUserMessage list \<Rightarrow> int option \<Rightarrow> int option action" where
  "beginUserTurns ctx [] latest = returnTx latest"
| "beginUserTurns ctx (m # ms) latest =
     bindTx (beginUserTurn ctx (pumValue m)) (\<lambda>sequence. beginUserTurns ctx ms (Some sequence))"

definition steeringEvents :: "pendingUserInput option \<Rightarrow> pendingApproval option \<Rightarrow> pendingToolRecovery option \<Rightarrow>
    agentEvent list" where
  "steeringEvents input approval recovery =
     (case input of None \<Rightarrow> [] | Some i \<Rightarrow>
        [(event UserInputCancelled ''Pending user input was cancelled by steering.'')
           \<lparr>evCallID := Some (puiCallID i)\<rparr>]) @
     (case approval of None \<Rightarrow> [] | Some a \<Rightarrow>
        [(event ToolApprovalResolved ''Tool approval was interrupted by steering.'')
           \<lparr>evCallID := Some (paCallID a), evToolName := Some (paToolName a)\<rparr>]) @
     (case recovery of None \<Rightarrow> [] | Some r \<Rightarrow>
        [(event ToolRecoveryResolved ''Manual tool recovery was interrupted by steering.'')
           \<lparr>evCallID := (case ptrCalls r of [] \<Rightarrow> None | c # _ \<Rightarrow> Some (ptrcCallID c)),
            evToolName := (case ptrCalls r of [] \<Rightarrow> None | c # _ \<Rightarrow> Some (ptrcToolName c))\<rparr>])"

definition beginSteeredTurn :: "ctx \<Rightarrow> pendingUserMessage list \<Rightarrow> unit action" where
  "beginSteeredTurn ctx messages =
     bindTx (attrGet agentStateAttribute) (\<lambda>state.
     bindTx (liftTx (sliceFrom (stPendingToolCalls state) (stPendingToolIndex state))) (\<lambda>pendingCalls.
     bindTx getPendingApproval (\<lambda>approval.
     bindTx getPendingUserInput (\<lambda>input.
     bindTx getPendingToolRecovery (\<lambda>recovery.
     bindTx (attrSet agentStateAttribute (state \<lparr>stStatus := ApplyingSteering, stPendingToolCalls := [],
        stPendingToolIndex := 0, stPendingPlanExecution := None, stPlanNoProgressAttempts := 0\<rparr>)) (\<lambda>_.
     bindTx (deletePresent pendingApprovalAttribute) (\<lambda>_.
     bindTx (deletePresent pendingToolRecoveryAttribute) (\<lambda>_.
     bindTx (deletePresent pendingTimerAttribute) (\<lambda>_.
     bindTx (deletePresent pendingUserInputAttribute) (\<lambda>_.
     bindTx (forTx (steeringEvents input approval recovery) writeActivity) (\<lambda>_.
     bindTx (cancelCalls ctx ErrSupersededBySteering pendingCalls) (\<lambda>_.
     bindTx (beginUserTurns ctx messages None) (\<lambda>latest.
     bindTx (writeInputConsumption [] messages None latest) (\<lambda>_.
     writeActivity (event SteeringApplied
       (''Applied '' @ showNat (length messages) @ '' steered user message(s).''))))))))))))))))"

section \<open>Plans\<close>

definition getPlan :: "agentPlan option action" where
  "getPlan = getAgentPlan"

definition allTasksCompleted :: "planTask list \<Rightarrow> bool" where
  "allTasksCompleted tasks \<longleftrightarrow> list_all (\<lambda>t. ptStatus t = TaskCompleted) tasks"

fun planTaskActivityMessage :: "int \<Rightarrow> taskStatus \<Rightarrow> string" where
  "planTaskActivityMessage i TaskInProgress = ''Started plan task '' @ showInt (i + 1) @ ''.''"
| "planTaskActivityMessage i TaskCompleted = ''Completed plan task '' @ showInt (i + 1) @ ''.''"
| "planTaskActivityMessage i TaskPending = ''Reset plan task '' @ showInt (i + 1) @ '' to pending.''"

definition planTaskEvent :: "int \<Rightarrow> int \<Rightarrow> int \<Rightarrow> taskStatus \<Rightarrow> agentEvent" where
  "planTaskEvent base revision i status =
     (event PlanTaskUpdated (planTaskActivityMessage i status))
       \<lparr>evPlanBaseRevision := Some base, evPlanRevision := Some revision, evPlanTaskIndex := Some i,
        evPlanTaskStatus := Some status\<rparr>"

fun taskChanges :: "int \<Rightarrow> int \<Rightarrow> int \<Rightarrow> planTask list \<Rightarrow> planTask list \<Rightarrow> agentEvent list" where
  "taskChanges base revision i (old # olds) (task # tasks) =
     (if ptContent old \<noteq> ptContent task \<or> ptStatus old = ptStatus task then []
      else [planTaskEvent base revision i (ptStatus task)]) @
     taskChanges base revision (i + 1) olds tasks"
| "taskChanges base revision i _ _ = []"

definition planTaskActivities :: "agentPlan option \<Rightarrow> int \<Rightarrow> planTask list \<Rightarrow> agentEvent list" where
  "planTaskActivities previous revision tasks =
     (case previous of None \<Rightarrow> []
      | Some p \<Rightarrow> taskChanges (planRevision p) revision 0 (planTasks p) tasks)"

definition writePlanTaskActivities :: "agentPlan option \<Rightarrow> int \<Rightarrow> planTask list \<Rightarrow> unit action" where
  "writePlanTaskActivities previous revision tasks =
     forTx (planTaskActivities previous revision tasks) writeActivity"

definition replacedPlanStatus :: "interactionMode \<Rightarrow> planTask list \<Rightarrow> planStatus" where
  "replacedPlanStatus mode tasks =
     (if mode = ModePlanning then PlanDraft
      else if allTasksCompleted tasks then PlanCompleted else PlanActive)"

definition replacePlan :: "planTask list \<Rightarrow> int action" where
  "replacePlan tasks =
     bindTx getPlan (\<lambda>previous.
     bindTx (attrGet agentStateAttribute) (\<lambda>state.
     let revision = stPlanRevision state + 1; status = replacedPlanStatus (stInteractionMode state) tasks in
     bindTx (if tasks = [] then deletePresent agentPlanAttribute
             else attrSet agentPlanAttribute
               \<lparr>planRevision = revision, planStatusOf = status, planTasks = tasks\<rparr>) (\<lambda>_.
     bindTx (attrSet agentStateAttribute (state \<lparr>stPlanRevision := revision, stPlanningRequiresWrite := False,
        stPlanningAllowsWrite := False, stPendingPlanExecution := None, stPlanNoProgressAttempts := 0\<rparr>)) (\<lambda>_.
     bindTx (writeActivity (event PlanUpdated
        (if tasks = [] then ''Cleared plan at revision '' @ showInt revision @ ''.''
         else ''Updated '' @ planStatusText status @ '' plan revision '' @ showInt revision @ ''.''))) (\<lambda>_.
     bindTx (writePlanTaskActivities previous revision tasks) (\<lambda>_.
     returnTx revision))))))"

section \<open>Evaluation of the store operations\<close>

named_theorems store_simps \<open>the attribute operations of the Flow on an explicit store\<close>

lemma attribute_gets [store_simps]:
  "sConfig s = Some v0 \<Longrightarrow> attrGet agentConfigAttribute s = Inr (v0, s)"
  "sState s = Some v1 \<Longrightarrow> attrGet agentStateAttribute s = Inr (v1, s)"
  "sWaitingInputRound s = Some v2 \<Longrightarrow> attrGet waitingInputRoundAttribute s = Inr (v2, s)"
  "sDeadline s = Some v3 \<Longrightarrow> attrGet inactivityDeadlineAttribute s = Inr (v3, s)"
  "sRuntimeMetadata s = Some v4 \<Longrightarrow> attrGet runtimeMetadataAttribute s = Inr (v4, s)"
  by (simp_all add: attrGet_def attr_defs)

lemma attribute_sets [store_simps]:
  "attrSet agentConfigAttribute w1 s = Inr ((), s \<lparr>sConfig := Some w1\<rparr>)"
  "attrSet runtimeMetadataAttribute w2 s = Inr ((), s \<lparr>sRuntimeMetadata := Some w2\<rparr>)"
  "attrSet agentStateAttribute w3 s = Inr ((), s \<lparr>sState := Some w3\<rparr>)"
  "attrSet modelUsageAttribute w4 s = Inr ((), s \<lparr>sModelUsage := Some w4\<rparr>)"
  "attrSet waitingInputRoundAttribute w5 s = Inr ((), s \<lparr>sWaitingInputRound := Some w5\<rparr>)"
  "attrSet contextSummaryAttribute w6 s = Inr ((), s \<lparr>sSummary := Some w6\<rparr>)"
  "attrSet agentPlanAttribute w7 s = Inr ((), s \<lparr>sPlan := Some w7\<rparr>)"
  "attrSet pendingApprovalAttribute w8 s = Inr ((), s \<lparr>sApproval := Some w8\<rparr>)"
  "attrSet pendingToolRecoveryAttribute w9 s = Inr ((), s \<lparr>sRecovery := Some w9\<rparr>)"
  "attrSet pendingTimerAttribute w10 s = Inr ((), s \<lparr>sTimer := Some w10\<rparr>)"
  "attrSet pendingUserInputAttribute w11 s = Inr ((), s \<lparr>sUserInput := Some w11\<rparr>)"
  "attrSet inactivityDeadlineAttribute w12 s = Inr ((), s \<lparr>sDeadline := Some w12\<rparr>)"
  by (simp_all add: attrSet_def attr_defs)

lemmas [store_simps] = bindTx_apply optional_reads optional_deletes

section \<open>Well-formed conversations\<close>

text \<open>The pending calls of a state, and the messages that no summary covers yet.\<close>

definition pendingOf :: "agentState \<Rightarrow> toolCall list" where
  "pendingOf st = drop (nat (stPendingToolIndex st)) (stPendingToolCalls st)"

definition unsummarized :: "store \<Rightarrow> agentMessage list" where
  "unsummarized s = (case sState s of None \<Rightarrow> []
     | Some st \<Rightarrow> window s st (stSummarizedThrough st + 1) (stLastSequence st))"

definition talk :: "toolCall list \<Rightarrow> store \<Rightarrow> bool" where
  "talk pend s \<longleftrightarrow> histInv s \<and> convo [] (unsummarized s) = Some pend"

definition consistent :: "store \<Rightarrow> bool" where
  "consistent s \<longleftrightarrow> (\<exists>st. sState s = Some st \<and> talk (pendingOf st) s \<and>
     0 \<le> stPendingToolIndex st \<and> stPendingToolIndex st \<le> int (length (stPendingToolCalls st)))"

lemma unsummarized_history:
  assumes "histInv s" and "sState s = Some st"
  shows "unsummarized s = drop (nat (stSummarizedThrough st + 1 - stFirstRetained st)) (history s)"
    and "nat (stSummarizedThrough st + 1 - stFirstRetained st) \<le> length (history s)"
proof -
  from assms have c: "stFirstRetained st \<le> stSummarizedThrough st + 1" "stSummarizedThrough st \<le> stLastSequence st"
    by (auto simp: histInv_def histOf_def countersOk_def)
  have len: "length (history s) = nat (stLastSequence st - stFirstRetained st + 1)"
    using assms(2) by (simp add: history_def window_def)
  from window_slice [OF assms(2) c(1) order.refl] c len
  show "unsummarized s = drop (nat (stSummarizedThrough st + 1 - stFirstRetained st)) (history s)"
    by (simp add: unsummarized_def assms(2))
  from len c show "nat (stSummarizedThrough st + 1 - stFirstRetained st) \<le> length (history s)" by simp
qed

text \<open>Stores that agree on the messages and their counters.\<close>

definition counters :: "agentState \<Rightarrow> int \<times> int \<times> int \<times> int \<times> int" where
  "counters st = (stNextSequence st, stFirstRetained st, stCurrentFirst st, stLastSequence st, stSummarizedThrough st)"

definition sameHistory :: "store \<Rightarrow> store \<Rightarrow> bool" where
  "sameHistory s s' \<longleftrightarrow> sCurrent s' = sCurrent s \<and> sArchived s' = sArchived s \<and>
     map_option counters (sState s') = map_option counters (sState s)"

lemma sameHistory_facts:
  assumes "sameHistory s s'"
  shows "histInv s' = histInv s" "history s' = history s" "unsummarized s' = unsummarized s"
    "talk pend s' = talk pend s"
proof -
  have maps: "sCurrent s' = sCurrent s" "sArchived s' = sArchived s"
    using assms by (simp_all add: sameHistory_def)
  have "histInv s' = histInv s \<and> history s' = history s \<and> unsummarized s' = unsummarized s"
  proof (cases "sState s")
    case None
    with assms show ?thesis by (simp add: sameHistory_def histInv_def history_def unsummarized_def)
  next
    case (Some st)
    with assms obtain st' where st': "sState s' = Some st'" "counters st' = counters st"
      by (auto simp: sameHistory_def)
    then have c: "stNextSequence st' = stNextSequence st" "stFirstRetained st' = stFirstRetained st"
      "stCurrentFirst st' = stCurrentFirst st" "stLastSequence st' = stLastSequence st"
      "stSummarizedThrough st' = stSummarizedThrough st"
      by (simp_all add: counters_def)
    have stored: "storedMessage s' f q = storedMessage s f q" for f q
      using maps by (simp add: storedMessage_def)
    show ?thesis using Some st'(1) c maps stored
      by (simp add: histInv_def histOf_def countersOk_def history_def unsummarized_def window_def)
  qed
  then show "histInv s' = histInv s" "history s' = history s" "unsummarized s' = unsummarized s"
    "talk pend s' = talk pend s"
    by (simp_all add: talk_def)
qed

lemma talk_extend:
  assumes "talk pend s" and "histInv s'" and "history s' = history s @ ms" and "convo pend ms = Some p"
    and "sState s = Some st" and "sState s' = Some st'"
    and "stSummarizedThrough st' = stSummarizedThrough st" and "stFirstRetained st' = stFirstRetained st"
  shows "talk p s'"
proof -
  from assms(1) have inv: "histInv s" and conv: "convo [] (unsummarized s) = Some pend"
    by (simp_all add: talk_def)
  have "unsummarized s' = unsummarized s @ ms"
    using unsummarized_history [OF assms(2,6)] unsummarized_history [OF inv assms(5)] assms(3,7,8) by simp
  with assms(2,4) conv show ?thesis by (simp add: talk_def convo_append)
qed

lemma talk_extend_same:
  assumes "talk pend s" and "histInv s'" and "history s' = history s @ ms" and "sameButHistory s s'"
    and "convo pend ms = Some p"
  shows "talk p s'"
proof -
  from assms(1) obtain st where st: "sState s = Some st" by (auto simp: talk_def histInv_def)
  from sameButHistory_state [OF assms(4) st] talk_extend [OF assms(1,2,3,5) st] show ?thesis by auto
qed

lemma talk_appended:
  assumes "talk pend s" and "appended m s s'" and "step pend m = Some p"
  shows "talk p s'"
  using assms by (intro talk_extend_same [of pend s s' "[m]"]) (simp_all add: appended_def)

lemma forTx_map: "forTx (map f xs) body = forTx xs (\<lambda>x. body (f x))"
  by (induction xs) simp_all

text \<open>A closed list of results answers the calls it was made for.\<close>

definition resultMessages :: "ctx \<Rightarrow> (toolCall \<times> toolExecutionResult) list \<Rightarrow> agentMessage list" where
  "resultMessages ctx answered = map (\<lambda>(c, r). stamped ctx (toolMessage c r None)) answered"

lemma convo_results: "convo (map fst answered @ rest) (resultMessages ctx answered) = Some rest"
  by (induction answered) (auto simp: resultMessages_def answers_def toolMessage_def)

lemma appendToolResults_ok:
  assumes "histInv s"
  shows "\<exists>s'. forTx answered (\<lambda>(c, r). appendToolResult ctx c r None) s = Inr ((), s') \<and>
     histInv s' \<and> history s' = history s @ resultMessages ctx answered \<and> sameButHistory s s'"
proof -
  have "forTx answered (\<lambda>(c, r). appendToolResult ctx c r None) =
      forTx (map (\<lambda>(c, r). toolMessage c r None) answered)
        (\<lambda>m. bindTx (appendMessage ctx m) (\<lambda>_. returnTx ()))"
    unfolding forTx_map by (simp only: appendToolResult_def case_prod_unfold)
  with messages.appends_ok [OF assms, of "map (\<lambda>(c, r). toolMessage c r None) answered" ctx]
  show ?thesis by (simp add: resultMessages_def comp_def case_prod_unfold)
qed

lemma cancelCalls_ok:
  assumes "histInv s"
  shows "\<exists>s'. cancelCalls ctx reason calls s = Inr ((), s') \<and> histInv s' \<and>
     history s' = history s @ resultMessages ctx (map (\<lambda>c. (c, interruptedResult reason)) calls) \<and>
     sameButHistory s s'"
proof -
  have "cancelCalls ctx reason calls =
      forTx (map (\<lambda>c. (c, interruptedResult reason)) calls) (\<lambda>(c, r). appendToolResult ctx c r None)"
    unfolding cancelCalls_def by (induction calls) auto
  with appendToolResults_ok [OF assms] show ?thesis by simp
qed

section \<open>What the turns do\<close>

lemma writeInputConsumption_total:
  "\<exists>es. writeInputConsumption q st p n s = Inr ((), s \<lparr>sActivity := es\<rparr>)"
proof (cases "q = [] \<and> st = [] \<and> p = None")
  case True
  then show ?thesis by (intro exI [of _ "sActivity s"]) (simp add: writeInputConsumption_def)
next
  case False
  then show ?thesis
    unfolding writeInputConsumption_def writeActivity_def by (simp only: if_False writeTx_apply) blast
qed

definition condensed :: "agentEvent \<Rightarrow> agentEvent" where
  "condensed ev = ev \<lparr>evMessage := condenseActivityMessage (evMessage ev)\<rparr>"

lemma writeActivity_run: "writeActivity ev s = Inr ((), s \<lparr>sActivity := sActivity s @ [condensed ev]\<rparr>)"
  by (simp add: writeActivity_def condensed_def)

lemma writeActivities_run:
  "forTx es writeActivity s = Inr ((), s \<lparr>sActivity := sActivity s @ map condensed es\<rparr>)"
  by (induction es arbitrary: s) (simp_all add: writeActivity_run)

lemma pendingOf_turnState [simp]: "pendingOf (turnState message plan st) = []"
  by (simp add: pendingOf_def turnState_def split: prod.split)

lemma counters_turnState [simp]: "counters (turnState message plan st) = counters st"
  by (simp add: counters_def turnState_def split: prod.split)

lemma turnState_fields [simp]:
  "stPendingToolCalls (turnState message plan st) = []" "stPendingToolIndex (turnState message plan st) = 0"
  "stStatus (turnState message plan st) = CallingModel"
  "stInteractionMode (turnState message plan st) = fst (turnMode message plan)"
  "stPlanningRequiresWrite (turnState message plan st) = fst (snd (turnMode message plan))"
  "stPlanningAllowsWrite (turnState message plan st) = snd (snd (turnMode message plan))"
  "stPendingPlanExecution (turnState message plan st) = None"
  "stPlanRevision (turnState message plan st) = stPlanRevision st"
  by (simp_all add: turnState_def split: prod.split)

lemma turnMode_table:
  "fst (turnMode message plan) =
     (if umPlanMode message then ModePlanning
      else case plan of None \<Rightarrow> ModeChat
        | Some p \<Rightarrow> if planStatusOf p = PlanCompleted then ModeChat
                    else if planStatusOf p = PlanActive \<and> umAnsweredInputCallID message \<noteq> None
                    then ModeExecuting else ModePlanning)"
proof (cases plan)
  case (Some p)
  then show ?thesis by (cases "planStatusOf p") (simp_all add: turnMode_def)
qed (simp add: turnMode_def)

lemma turnMode_flags:
  "fst (snd (turnMode message plan)) \<longleftrightarrow> umPlanMode message"
  "snd (snd (turnMode message plan)) \<longleftrightarrow> fst (turnMode message plan) = ModePlanning"
  by (simp_all add: turnMode_def)

lemma beginUserTurn_ok:
  assumes "histInv s" and st: "sState s = Some st"
  shows "\<exists>s'. beginUserTurn ctx message s = Inr (stNextSequence st, s') \<and> histInv s' \<and>
     history s' = history s @ [stamped ctx (userMessageOf message)] \<and>
     sameButHistory (s \<lparr>sState := Some (turnState message (sPlan s) st)\<rparr>) s'"
proof -
  define t where "t = s \<lparr>sState := Some (turnState message (sPlan s) st)\<rparr>"
  have same: "sameHistory s t" by (simp add: t_def sameHistory_def st)
  have "stNextSequence (turnState message (sPlan s) st) = stNextSequence st"
    by (simp add: turnState_def split: prod.split)
  moreover have "histInv t" using assms(1) sameHistory_facts(1) [OF same] by simp
  moreover have "beginUserTurn ctx message s = appendMessage ctx (userMessageOf message) t"
    by (simp add: beginUserTurn_def attrGet_def attrSet_def bindTx_apply attr_defs optional_reads st t_def)
  ultimately show ?thesis
    using appendMessage_ok [of t ctx "userMessageOf message"] sameHistory_facts(2) [OF same]
    unfolding t_def [symmetric] by (auto simp: appended_def t_def)
qed

text \<open>Only the messages and the state attribute differ.\<close>

definition sameButTalk :: "store \<Rightarrow> store \<Rightarrow> bool" where
  "sameButTalk s s' \<longleftrightarrow> sameButHistory (s \<lparr>sState := None\<rparr>) (s' \<lparr>sState := None\<rparr>)"

lemma sameButTalk_refl [simp]: "sameButTalk s s"
  by (simp add: sameButTalk_def)

lemma sameButTalk_trans: "sameButTalk a b \<Longrightarrow> sameButTalk b c \<Longrightarrow> sameButTalk a c"
  by (simp add: sameButTalk_def sameButHistory_def)

lemma sameButTalk_state: "sameButTalk s (s \<lparr>sState := x\<rparr>)"
  by (simp add: sameButTalk_def)

lemma sameButTalk_history: "sameButHistory s s' \<Longrightarrow> sameButTalk s s'"
proof -
  have "eraseHistory (r \<lparr>sState := None\<rparr>) = (eraseHistory r) \<lparr>sState := None\<rparr>" for r
    by (cases r) (simp add: eraseHistory_def)
  then show "sameButHistory s s' \<Longrightarrow> sameButTalk s s'"
    by (simp add: sameButTalk_def sameButHistory_def)
qed

lemma sameButTalk_store:
  assumes "sameButTalk s s'"
  shows "sConfig s' = sConfig s" "sSummary s' = sSummary s" "sPlan s' = sPlan s" "sApproval s' = sApproval s"
    "sRecovery s' = sRecovery s" "sTimer s' = sTimer s" "sUserInput s' = sUserInput s" "sDeadline s' = sDeadline s"
    "sActivity s' = sActivity s" "chQueued s' = chQueued s" "chSteered s' = chSteered s" "chReset s' = chReset s"
    "chAnswered s' = chAnswered s" "chApprovals s' = chApprovals s" "chRecovery s' = chRecovery s"
    "chParallel s' = chParallel s" "chPlanExecutions s' = chPlanExecutions s"
    "sWaitingInputRound s' = sWaitingInputRound s" "sModelUsage s' = sModelUsage s"
    "sRuntimeMetadata s' = sRuntimeMetadata s" "sPublished s' = sPublished s"
  using sameButHistory_store [OF assms [unfolded sameButTalk_def]] by simp_all

text \<open>A sequence of user messages: every one begins a turn; the mode of the last one holds.\<close>

lemma beginUserTurns_ok:
  assumes "histInv s" and "sState s = Some st" and "pendingOf st = []"
    and "stPendingToolCalls st = []" and "stPendingToolIndex st = 0"
  shows "\<exists>latest' s' st'. beginUserTurns ctx ms latest s = Inr (latest', s') \<and> histInv s' \<and>
     history s' = history s @ map (\<lambda>m. stamped ctx (userMessageOf (pumValue m))) ms \<and>
     sState s' = Some st' \<and> stPendingToolCalls st' = [] \<and> stPendingToolIndex st' = 0 \<and>
     stSummarizedThrough st' = stSummarizedThrough st \<and> stFirstRetained st' = stFirstRetained st \<and>
     sameButTalk s s'"
  using assms
proof (induction ms arbitrary: s st latest)
  case Nil
  then show ?case by simp
next
  case (Cons m ms)
  let ?t = "s \<lparr>sState := Some (turnState (pumValue m) (sPlan s) st)\<rparr>"
  from beginUserTurn_ok [OF Cons.prems(1,2), of ctx "pumValue m"] obtain s1 where
    run: "beginUserTurn ctx (pumValue m) s = Inr (stNextSequence st, s1)" and inv: "histInv s1" and
    h: "history s1 = history s @ [stamped ctx (userMessageOf (pumValue m))]" and
    fr: "sameButHistory ?t s1"
    by blast
  from sameButHistory_state [OF fr] obtain st1 where st1: "sState s1 = Some st1"
    "stPendingToolCalls st1 = []" "stPendingToolIndex st1 = 0" "pendingOf st1 = []"
    "stSummarizedThrough st1 = stSummarizedThrough st" "stFirstRetained st1 = stFirstRetained st"
    by (auto simp: pendingOf_def turnState_def split: prod.splits)
  have fr1: "sameButTalk s s1"
    using sameButTalk_trans [OF sameButTalk_state sameButTalk_history [OF fr]] .
  from Cons.IH [OF inv st1(1,4,2,3), of "Some (stNextSequence st)"] obtain latest' s' st' where
    rest: "beginUserTurns ctx ms (Some (stNextSequence st)) s1 = Inr (latest', s')" "histInv s'"
      "history s' = history s1 @ map (\<lambda>m. stamped ctx (userMessageOf (pumValue m))) ms"
      "sState s' = Some st'" "stPendingToolCalls st' = []" "stPendingToolIndex st' = 0"
      "stSummarizedThrough st' = stSummarizedThrough st1" "stFirstRetained st' = stFirstRetained st1"
    and fr2: "sameButTalk s1 s'" by blast
  have "beginUserTurns ctx (m # ms) latest s = Inr (latest', s')" using run rest(1) by simp
  with rest h st1 sameButTalk_trans [OF fr1 fr2] show ?case by auto
qed

section \<open>Properties\<close>

lemma consistent_pending:
  assumes "consistent s" and "sState s = Some st"
  shows "histInv s" "talk (pendingOf st) s" "0 \<le> stPendingToolIndex st"
    "stPendingToolIndex st \<le> int (length (stPendingToolCalls st))"
    "sliceFrom (stPendingToolCalls st) (stPendingToolIndex st) = Inr (pendingOf st)"
  using assms by (auto simp: consistent_def talk_def sliceFrom_def pendingOf_def)

lemma consistent_none:
  assumes "talk [] s" and "sState s = Some st" and "stPendingToolCalls st = []" and "stPendingToolIndex st = 0"
  shows "consistent s"
  using assms by (simp add: consistent_def pendingOf_def)

lemma consistent_initial: "talk [] initialStore" "consistent initialStore"
proof -
  show "talk [] initialStore"
    using histInv_initial by (simp add: talk_def unsummarized_def initialStore_def window_def newAgentState_def)
  then show "consistent initialStore"
    by (rule consistent_none [where st = newAgentState]) (simp_all add: initialStore_def newAgentState_def)
qed

text \<open>
  C36. A user message starts a turn when no tool call is open: it is appended, the turn is a
  planning turn exactly when the message asks for it or a draft or active plan exists that is
  not being resumed by an answer, an answer to a question resumes an active plan in
  execution mode, every other turn is a chat turn; no tool call is pending, and the
  conversation stays well formed.
\<close>

theorem beginUserTurn_starts_turn:
  assumes "talk [] s" and "sState s = Some st"
  shows "\<exists>s' st'. beginUserTurn ctx message s = Inr (stNextSequence st, s') \<and>
     history s' = history s @ [stamped ctx (userMessageOf message)] \<and> consistent s' \<and>
     sState s' = Some st' \<and> stPendingToolCalls st' = [] \<and> stStatus st' = CallingModel \<and>
     stInteractionMode st' =
       (if umPlanMode message then ModePlanning
        else case sPlan s of None \<Rightarrow> ModeChat
          | Some p \<Rightarrow> if planStatusOf p = PlanCompleted then ModeChat
                      else if planStatusOf p = PlanActive \<and> umAnsweredInputCallID message \<noteq> None
                      then ModeExecuting else ModePlanning) \<and>
     (stPlanningRequiresWrite st' \<longleftrightarrow> umPlanMode message) \<and>
     (stPlanningAllowsWrite st' \<longleftrightarrow> stInteractionMode st' = ModePlanning)"
proof -
  from assms(1) have inv: "histInv s" by (simp add: talk_def)
  from beginUserTurn_ok [OF this assms(2), of ctx message] obtain s' where
    run: "beginUserTurn ctx message s = Inr (stNextSequence st, s')" and inv': "histInv s'" and
    h: "history s' = history s @ [stamped ctx (userMessageOf message)]" and
    fr: "sameButHistory (s \<lparr>sState := Some (turnState message (sPlan s) st)\<rparr>) s'" by blast
  let ?t = "s \<lparr>sState := Some (turnState message (sPlan s) st)\<rparr>"
  have same: "sameHistory s ?t" by (simp add: sameHistory_def assms(2))
  from sameButHistory_state [OF fr] obtain n l f where
    st': "sState s' = Some (turnState message (sPlan s) st \<lparr>stNextSequence := n, stLastSequence := l, stCurrentFirst := f\<rparr>)"
    by auto
  have "talk [] s'"
    using talk_extend_same [OF _ inv' _ fr, of "[]" "[stamped ctx (userMessageOf message)]" "[]"] assms(1) h
      sameHistory_facts [OF same] by (simp add: userMessageOf_def)
  from consistent_none [OF this st'] have con: "consistent s'" by simp
  show ?thesis
    using run h st' con
    by (intro exI [of _ s'] exI [of _ "(turnState message (sPlan s) st) \<lparr>stNextSequence := n,
      stLastSequence := l, stCurrentFirst := f\<rparr>"] conjI) (simp_all add: turnMode_table turnMode_flags)
qed

theorem beginUserTurn_starts_turn_witness:
  "\<exists>s' st'. beginUserTurn exampleCtx \<lparr>umContent = ''hello'', umPlanMode = True, umAnsweredInputCallID = None\<rparr>
      initialStore = Inr (1, s') \<and> sState s' = Some st' \<and> stInteractionMode st' = ModePlanning \<and> consistent s'"
  using beginUserTurn_starts_turn [OF consistent_initial(1), of newAgentState exampleCtx
      "\<lparr>umContent = ''hello'', umPlanMode = True, umAnsweredInputCallID = None\<rparr>"]
  by (auto simp: newAgentState_def initialStore_def)

lemma beginSteeredTurn_ok:
  assumes "consistent s" and "sState s = Some st"
  shows "\<exists>s' st'. beginSteeredTurn ctx messages s = Inr ((), s') \<and>
     history s' = history s @
       map (\<lambda>c. stamped ctx (toolMessage c (interruptedResult ErrSupersededBySteering) None)) (pendingOf st) @
       map (\<lambda>m. stamped ctx (userMessageOf (pumValue m))) messages \<and>
     consistent s' \<and> sState s' = Some st' \<and> stPendingToolCalls st' = [] \<and>
     sApproval s' = None \<and> sRecovery s' = None \<and> sTimer s' = None \<and> sUserInput s' = None \<and>
     chQueued s' = chQueued s \<and> chSteered s' = chSteered s \<and> sPlan s' = sPlan s"
proof -
  note c = consistent_pending [OF assms]
  define st1 where "st1 = st \<lparr>stStatus := ApplyingSteering, stPendingToolCalls := [],
        stPendingToolIndex := 0, stPendingPlanExecution := None, stPlanNoProgressAttempts := 0\<rparr>"
  define s1 where "s1 = s \<lparr>sState := Some st1, sApproval := None, sRecovery := None, sTimer := None, sUserInput := None\<rparr>"
  define es where "es = map condensed (steeringEvents (sUserInput s) (sApproval s) (sRecovery s))"
  have es: "forTx (steeringEvents (sUserInput s) (sApproval s) (sRecovery s)) writeActivity s1 =
      Inr ((), s1 \<lparr>sActivity := sActivity s1 @ es\<rparr>)" unfolding es_def by (rule writeActivities_run)
  define s2 where "s2 = s1 \<lparr>sActivity := sActivity s1 @ es\<rparr>"
  have same: "sameHistory s s2" by (simp add: s2_def s1_def st1_def sameHistory_def assms(2) counters_def)
  have inv2: "histInv s2" "talk (pendingOf st) s2" using c(1,2) sameHistory_facts [OF same] by simp_all
  let ?answered = "map (\<lambda>c. (c, interruptedResult ErrSupersededBySteering)) (pendingOf st)"
  from cancelCalls_ok [OF inv2(1)] obtain s3 where
    s3: "cancelCalls ctx ErrSupersededBySteering (pendingOf st) s2 = Inr ((), s3)" "histInv s3"
      "history s3 = history s2 @ resultMessages ctx ?answered" "sameButHistory s2 s3" by blast
  have s2_state: "sState s2 = Some st1" by (simp add: s2_def s1_def)
  have "talk [] s3" using talk_extend_same [OF inv2(2) s3(2,3,4)] convo_results [of ?answered "[]" ctx]
    by (simp add: comp_def)
  note talk3 = this
  from sameButHistory_state [OF s3(4) s2_state] obtain st3 where
    st3: "sState s3 = Some st3" "pendingOf st3 = []" "stPendingToolCalls st3 = []" "stPendingToolIndex st3 = 0"
    by (auto simp: st1_def pendingOf_def)
  from beginUserTurns_ok [OF s3(2) st3, of ctx messages None] obtain latest s4 st4 where
    s4: "beginUserTurns ctx messages None s3 = Inr (latest, s4)" "histInv s4"
      "history s4 = history s3 @ map (\<lambda>m. stamped ctx (userMessageOf (pumValue m))) messages"
      "sState s4 = Some st4" "stPendingToolCalls st4 = []" "stPendingToolIndex st4 = 0"
      "stSummarizedThrough st4 = stSummarizedThrough st3" "stFirstRetained st4 = stFirstRetained st3"
      "sameButTalk s3 s4" by blast
  have "convo [] (map (\<lambda>m. stamped ctx (userMessageOf (pumValue m))) messages) = Some []"
    by (induction messages) (simp_all add: userMessageOf_def)
  from talk_extend [OF talk3 s4(2,3) this st3(1) s4(4,7,8)] have con: "consistent s4"
    by (rule consistent_none [OF _ s4(4,5,6)])
  obtain es' where ic: "writeInputConsumption [] messages None latest s4 = Inr ((), s4 \<lparr>sActivity := es'\<rparr>)"
    using writeInputConsumption_total by blast
  obtain es'' where fin: "\<And>ev. writeActivity ev (s4 \<lparr>sActivity := es'\<rparr>) = Inr ((), s4 \<lparr>sActivity := es'' ev\<rparr>)"
    by (simp add: writeActivity_def)
  have "\<exists>es. beginSteeredTurn ctx messages s = Inr ((), s4 \<lparr>sActivity := es\<rparr>)"
    using es s3(1) s4(1) ic fin c(5)
    by (simp add: beginSteeredTurn_def store_simps assms(2) st1_def s1_def s2_def) (rule exI, rule refl)
  then obtain es where run: "beginSteeredTurn ctx messages s = Inr ((), s4 \<lparr>sActivity := es\<rparr>)" ..
  let ?s = "s4 \<lparr>sActivity := es\<rparr>"
  have same': "sameHistory s4 ?s" by (simp add: sameHistory_def)
  have "consistent ?s" using con sameHistory_facts(4) [OF same'] by (simp add: consistent_def)
  moreover have "history ?s = history s @ resultMessages ctx ?answered @
      map (\<lambda>m. stamped ctx (userMessageOf (pumValue m))) messages"
    using s4(3) s3(3) sameHistory_facts(2) [OF same'] sameHistory_facts(2) [OF same] by simp
  ultimately show ?thesis
    using run s4(4,5) sameButTalk_store [OF s4(9)] sameButHistory_store [OF s3(4)]
    by (simp add: resultMessages_def comp_def s2_def s1_def)
qed

text \<open>
  C34. Steering interrupts a turn without leaving anything dangling: every open tool call of a
  well-formed conversation gets an interrupted result, in order, before the steering messages
  are appended; afterwards no call is pending, no approval, recovery, timer or question is
  pending, the conversation is well formed and the channels are untouched.
\<close>

theorem beginSteeredTurn_closes_calls:
  assumes "consistent s" and "sState s = Some st"
  shows "\<exists>s' st'. beginSteeredTurn ctx messages s = Inr ((), s') \<and>
     history s' = history s @
       map (\<lambda>c. stamped ctx (toolMessage c (interruptedResult ErrSupersededBySteering) None)) (pendingOf st) @
       map (\<lambda>m. stamped ctx (userMessageOf (pumValue m))) messages \<and>
     consistent s' \<and> sState s' = Some st' \<and> stPendingToolCalls st' = [] \<and>
     sApproval s' = None \<and> sRecovery s' = None \<and> sTimer s' = None \<and> sUserInput s' = None \<and>
     chQueued s' = chQueued s \<and> chSteered s' = chSteered s \<and> sPlan s' = sPlan s"
  using assms by (rule beginSteeredTurn_ok)

theorem beginSteeredTurn_closes_calls_witness:
  "\<exists>s'. beginSteeredTurn exampleCtx [\<lparr>pumMessageID = ''m1'', pumValue =
        \<lparr>umContent = ''stop'', umPlanMode = False, umAnsweredInputCallID = None\<rparr>\<rparr>] initialStore = Inr ((), s') \<and>
     length (history s') = 1 \<and> consistent s'"
proof -
  from beginSteeredTurn_closes_calls [OF consistent_initial(2), of newAgentState exampleCtx "[\<lparr>pumMessageID = ''m1'', pumValue =
        \<lparr>umContent = ''stop'', umPlanMode = False, umAnsweredInputCallID = None\<rparr>\<rparr>]"]
  show ?thesis using histInv_initial(2) by (auto simp: initialStore_def newAgentState_def pendingOf_def)
qed

lemma cancelRemaining_ok:
  assumes "consistent s" and "sState s = Some st" and "pendingOf st = call # rest"
  shows "\<exists>s' st'. appendToolResultAndCancelRemaining ctx call result reason s = Inr ((), s') \<and>
     history s' = history s @ stamped ctx (toolMessage call result None) #
       map (\<lambda>c. stamped ctx (toolMessage c (interruptedResult reason) None)) rest \<and>
     consistent s' \<and> sState s' = Some st' \<and> stPendingToolCalls st' = [] \<and> sameButTalk s s'"
proof -
  note c = consistent_pending [OF assms(1,2)]
  have len: "nat (stPendingToolIndex st) < length (stPendingToolCalls st)"
    using assms(3) by (metis drop_all list.discI not_less pendingOf_def)
  have "drop (nat (stPendingToolIndex st + 1)) (stPendingToolCalls st) = rest"
    using assms(3) c(3) unfolding pendingOf_def
    by (metis drop_Suc list.sel(3) tl_drop nat_add_distrib nat_one_as_int zero_le_one Suc_eq_plus1 nat_1)
  with len c(3) have slice: "sliceFrom (stPendingToolCalls st) (stPendingToolIndex st + 1) = Inr rest"
    by (simp add: sliceFrom_def)
  define st1 where "st1 = st \<lparr>stPendingToolCalls := [], stPendingToolIndex := 0\<rparr>"
  define s1 where "s1 = s \<lparr>sState := Some st1\<rparr>"
  have same: "sameHistory s s1" by (simp add: s1_def st1_def sameHistory_def assms(2) counters_def)
  have inv1: "histInv s1" "talk (call # rest) s1" using c(1,2) sameHistory_facts [OF same] assms(3) by simp_all
  let ?answered = "(call, result) # map (\<lambda>c. (c, interruptedResult reason)) rest"
  have loop: "bindTx (appendToolResult ctx call result None) (\<lambda>_. cancelCalls ctx reason rest) =
      forTx ?answered (\<lambda>(c, r). appendToolResult ctx c r None)"
    unfolding cancelCalls_def by (simp add: forTx_map)
  from appendToolResults_ok [OF inv1(1), of ?answered ctx] obtain s' where
    s': "forTx ?answered (\<lambda>(c, r). appendToolResult ctx c r None) s1 = Inr ((), s')" "histInv s'"
      "history s' = history s1 @ resultMessages ctx ?answered" "sameButHistory s1 s'" by blast
  have "appendToolResultAndCancelRemaining ctx call result reason s =
      bindTx (appendToolResult ctx call result None) (\<lambda>_. cancelCalls ctx reason rest) s1"
    by (simp add: appendToolResultAndCancelRemaining_def store_simps assms(2) slice st1_def s1_def)
  with loop s'(1) have run: "appendToolResultAndCancelRemaining ctx call result reason s = Inr ((), s')" by simp
  have s1_state: "sState s1 = Some st1" by (simp add: s1_def)
  from sameButHistory_state [OF s'(4) s1_state] obtain st' where
    st': "sState s' = Some st'" "stPendingToolCalls st' = []" "stPendingToolIndex st' = 0"
    by (auto simp: st1_def)
  have "talk [] s'" using talk_extend_same [OF inv1(2) s'(2,3,4)] convo_results [of ?answered "[]" ctx]
    by (simp add: comp_def)
  then have "consistent s'" by (rule consistent_none [OF _ st'])
  moreover have "sameButTalk s s'"
    using sameButTalk_trans [OF sameButTalk_state sameButTalk_history [OF s'(4) [unfolded s1_def]]] .
  ultimately show ?thesis using run s'(3) st' sameHistory_facts(2) [OF same]
    by (simp add: resultMessages_def comp_def)
qed

text \<open>
  C35. When a call ends its turn (a question to the user, a stop during recovery), its result is
  appended and every later call of the same message is cancelled with an interrupted result,
  so that the conversation stays well formed and no call is pending.
\<close>

theorem cancelRemaining_closes_calls:
  assumes "consistent s" and "sState s = Some st" and "pendingOf st = call # rest"
  shows "\<exists>s' st'. appendToolResultAndCancelRemaining ctx call result reason s = Inr ((), s') \<and>
     history s' = history s @ stamped ctx (toolMessage call result None) #
       map (\<lambda>c. stamped ctx (toolMessage c (interruptedResult reason) None)) rest \<and>
     consistent s' \<and> sState s' = Some st' \<and> stPendingToolCalls st' = [] \<and> sameButTalk s s'"
  using assms by (rule cancelRemaining_ok)

text \<open>A conversation with two open calls, for the instances of the properties.\<close>

definition exampleCall :: "string \<Rightarrow> string \<Rightarrow> toolCall" where
  "exampleCall i name = \<lparr>tcID = i, tcName = name, tcArguments = ''{}''\<rparr>"

definition callingMessage :: "toolCall list \<Rightarrow> agentMessage" where
  "callingMessage calls = \<lparr>msgRole = RoleAssistant, msgContent = [], msgToolCalls = calls, msgToolCallID = None,
     msgToolName = None, msgAnsweredInputCallID = None, msgProviderContextItems = [], msgStartedAt = None,
     msgCreatedAt = 0\<rparr>"

definition openCallsState :: "agentState \<Rightarrow> agentState" where
  "openCallsState st = st \<lparr>stPendingToolCalls := [exampleCall ''a'' ''read_file'', exampleCall ''b'' ''write_file'']\<rparr>"

lemma two_open_calls:
  "\<exists>s st. sState s = Some st \<and> consistent s \<and> sConfig s = Some newAgentConfig \<and> sRuntimeMetadata s = Some ''{}'' \<and>
     pendingOf st = [exampleCall ''a'' ''read_file'', exampleCall ''b'' ''write_file''] \<and> stInteractionMode st = ModeChat \<and>
     length (history s) = 1"
proof -
  let ?calls = "[exampleCall ''a'' ''read_file'', exampleCall ''b'' ''write_file'']"
  define s0 where "s0 = initialStore \<lparr>sConfig := Some newAgentConfig, sRuntimeMetadata := Some ''{}'',
     sState := Some (openCallsState newAgentState)\<rparr>"
  have same: "sameHistory initialStore s0"
    by (simp add: s0_def sameHistory_def initialStore_def counters_def openCallsState_def)
  have t0: "talk [] s0" "histInv s0" "history s0 = []"
    using sameHistory_facts [OF same] consistent_initial(1) histInv_initial by simp_all
  from appendMessage_ok [OF t0(2), of exampleCtx "callingMessage ?calls"] obtain s where
    s: "appended (stamped exampleCtx (callingMessage ?calls)) s0 s" by blast
  have st0: "sState s0 = Some (openCallsState newAgentState)" by (simp add: s0_def)
  from s have fr: "sameButHistory s0 s" and h: "history s = history s0 @ [stamped exampleCtx (callingMessage ?calls)]"
    by (simp_all add: appended_def)
  from sameButHistory_state [OF fr st0] obtain st where
    st: "sState s = Some st" "stPendingToolCalls st = ?calls" "stPendingToolIndex st = 0" "stInteractionMode st = ModeChat"
    by (auto simp: openCallsState_def newAgentState_def)
  have "talk ?calls s"
    by (rule talk_appended [OF t0(1) s]) (simp add: callingMessage_def exampleCall_def)
  with st have "consistent s" by (simp add: consistent_def pendingOf_def)
  with st h t0(3) sameButHistory_store [OF fr] show ?thesis
    by (intro exI [of _ s] exI [of _ st]) (simp add: pendingOf_def s0_def)
qed

theorem cancelRemaining_closes_calls_witness:
  "\<exists>s s'. appendToolResultAndCancelRemaining exampleCtx (exampleCall ''a'' ''read_file'')
      (interruptedResult ErrStoppedByRecovery) ErrStoppedByRecovery s = Inr ((), s') \<and>
     length (history s') = 3 \<and> consistent s'"
proof -
  obtain s st where s: "sState s = Some st" "consistent s" "length (history s) = 1"
    "pendingOf st = [exampleCall ''a'' ''read_file'', exampleCall ''b'' ''write_file'']"
    using two_open_calls by blast
  from cancelRemaining_closes_calls [OF s(2,1,4), of exampleCtx "interruptedResult ErrStoppedByRecovery" ErrStoppedByRecovery]
  obtain s' where "appendToolResultAndCancelRemaining exampleCtx (exampleCall ''a'' ''read_file'')
      (interruptedResult ErrStoppedByRecovery) ErrStoppedByRecovery s = Inr ((), s')"
    "length (history s') = 3" "consistent s'" using s(3) by auto
  then show ?thesis by blast
qed

text \<open>The state and the store after a plan was replaced.\<close>

definition replacedPlanState :: "agentState \<Rightarrow> agentState" where
  "replacedPlanState st = st \<lparr>stPlanRevision := stPlanRevision st + 1, stPlanningRequiresWrite := False,
     stPlanningAllowsWrite := False, stPendingPlanExecution := None, stPlanNoProgressAttempts := 0\<rparr>"

definition replacedPlan :: "agentState \<Rightarrow> planTask list \<Rightarrow> agentPlan option" where
  "replacedPlan st tasks = (if tasks = [] then None else Some \<lparr>planRevision = stPlanRevision st + 1,
     planStatusOf = replacedPlanStatus (stInteractionMode st) tasks, planTasks = tasks\<rparr>)"

definition planUpdatedEvent :: "agentState \<Rightarrow> planTask list \<Rightarrow> agentEvent" where
  "planUpdatedEvent st tasks = event PlanUpdated
     (if tasks = [] then ''Cleared plan at revision '' @ showInt (stPlanRevision st + 1) @ ''.''
      else ''Updated '' @ planStatusText (replacedPlanStatus (stInteractionMode st) tasks) @ '' plan revision '' @
        showInt (stPlanRevision st + 1) @ ''.'')"

lemma replacePlan_run:
  assumes "sState s = Some st"
  shows "replacePlan tasks s = Inr (stPlanRevision st + 1,
     s \<lparr>sPlan := replacedPlan st tasks, sState := Some (replacedPlanState st),
        sActivity := sActivity s @ condensed (planUpdatedEvent st tasks) #
          map condensed (planTaskActivities (sPlan s) (stPlanRevision st + 1) tasks)\<rparr>)"
  by (cases "tasks = []")
    (simp_all add: replacePlan_def getPlan_def Let_def store_simps assms writeActivity_run replacedPlan_def
      replacedPlanState_def planUpdatedEvent_def writePlanTaskActivities_def writeActivities_run)

lemma taskChanges_map:
  "taskChanges base revision i olds tasks =
     map (\<lambda>k. planTaskEvent base revision (i + int k) (ptStatus (tasks ! k)))
       (filter (\<lambda>k. ptContent (olds ! k) = ptContent (tasks ! k) \<and> ptStatus (olds ! k) \<noteq> ptStatus (tasks ! k))
         [0..<min (length olds) (length tasks)])"
proof (induction base revision i olds tasks rule: taskChanges.induct)
  case (1 base revision i old olds task tasks)
  have split: "[0..<min (length (old # olds)) (length (task # tasks))] = 0 # map Suc [0..<min (length olds) (length tasks)]"
    by (simp add: map_Suc_upt upt_conv_Cons del: upt_Suc)
  show ?case unfolding taskChanges.simps 1 split
    by (simp add: filter_map comp_def algebra_simps)
qed simp_all

text \<open>
  C37. Writing a plan takes the next revision and replaces the plan whole: an empty list clears
  it, a plan written while planning is a draft, one whose tasks are all completed is completed,
  any other is active. The permission to write and a pending execution request end with it, the
  conversation is not touched, and the activity reports the update and then exactly the tasks
  that kept their position and content and changed their status, in order.
\<close>

theorem replacePlan_replaces:
  assumes "sState s = Some st"
  shows "\<exists>s' updated. replacePlan tasks s = Inr (stPlanRevision st + 1, s') \<and>
     sPlan s' = (if tasks = [] then None else Some \<lparr>planRevision = stPlanRevision st + 1,
        planStatusOf = (if stInteractionMode st = ModePlanning then PlanDraft
                        else if set (map ptStatus tasks) \<subseteq> {TaskCompleted} then PlanCompleted else PlanActive),
        planTasks = tasks\<rparr>) \<and>
     sState s' = Some (st \<lparr>stPlanRevision := stPlanRevision st + 1, stPlanningRequiresWrite := False,
        stPlanningAllowsWrite := False, stPendingPlanExecution := None, stPlanNoProgressAttempts := 0\<rparr>) \<and>
     history s' = history s \<and> talk pend s' = talk pend s \<and> evKind updated = PlanUpdated \<and>
     sActivity s' = sActivity s @ updated #
       (case sPlan s of None \<Rightarrow> [] | Some p \<Rightarrow>
          map (\<lambda>k. condensed (planTaskEvent (planRevision p) (stPlanRevision st + 1) (int k) (ptStatus (tasks ! k))))
            (filter (\<lambda>k. ptContent (planTasks p ! k) = ptContent (tasks ! k) \<and>
                         ptStatus (planTasks p ! k) \<noteq> ptStatus (tasks ! k))
              [0..<min (length (planTasks p)) (length tasks)]))"
proof -
  let ?s = "s \<lparr>sPlan := replacedPlan st tasks, sState := Some (replacedPlanState st),
      sActivity := sActivity s @ condensed (planUpdatedEvent st tasks) #
        map condensed (planTaskActivities (sPlan s) (stPlanRevision st + 1) tasks)\<rparr>"
  have same: "sameHistory s ?s" by (simp add: sameHistory_def assms counters_def replacedPlanState_def)
  have status: "replacedPlanStatus (stInteractionMode st) tasks = (if stInteractionMode st = ModePlanning then PlanDraft
      else if set (map ptStatus tasks) \<subseteq> {TaskCompleted} then PlanCompleted else PlanActive)"
    by (auto simp: replacedPlanStatus_def allTasksCompleted_def list_all_iff)
  have changes: "map condensed (planTaskActivities (sPlan s) (stPlanRevision st + 1) tasks) =
      (case sPlan s of None \<Rightarrow> [] | Some p \<Rightarrow>
         map (\<lambda>k. condensed (planTaskEvent (planRevision p) (stPlanRevision st + 1) (int k) (ptStatus (tasks ! k))))
           (filter (\<lambda>k. ptContent (planTasks p ! k) = ptContent (tasks ! k) \<and>
                        ptStatus (planTasks p ! k) \<noteq> ptStatus (tasks ! k))
             [0..<min (length (planTasks p)) (length tasks)]))"
    by (simp add: planTaskActivities_def taskChanges_map comp_def split: option.split)
  have kind: "evKind (condensed (planUpdatedEvent st tasks)) = PlanUpdated"
    by (simp add: condensed_def event_def planUpdatedEvent_def)
  from sameHistory_facts(2,4) [OF same] show ?thesis
    unfolding changes [symmetric] status [symmetric] replacePlan_run [OF assms]
    by (intro exI [of _ ?s] exI [of _ "condensed (planUpdatedEvent st tasks)"])
      (simp add: kind replacedPlan_def replacedPlanState_def)
qed

theorem replacePlan_replaces_witness:
  "\<exists>s'. map_option stPlanRevision (sState s') = Some 1 \<and>
     replacePlan [\<lparr>ptContent = ''write'', ptStatus = TaskCompleted\<rparr>] initialStore = Inr (1, s') \<and>
     sPlan s' = Some \<lparr>planRevision = 1, planStatusOf = PlanCompleted,
       planTasks = [\<lparr>ptContent = ''write'', ptStatus = TaskCompleted\<rparr>]\<rparr>"
proof -
  let ?tasks = "[\<lparr>ptContent = ''write'', ptStatus = TaskCompleted\<rparr>]"
  have st: "sState initialStore = Some newAgentState" by (simp add: initialStore_def)
  from replacePlan_replaces [OF st, of ?tasks "[]"] obtain s' where
    "replacePlan ?tasks initialStore = Inr (stPlanRevision newAgentState + 1, s')"
    "sPlan s' = (if ?tasks = [] then None else Some \<lparr>planRevision = stPlanRevision newAgentState + 1,
        planStatusOf = (if stInteractionMode newAgentState = ModePlanning then PlanDraft
                        else if set (map ptStatus ?tasks) \<subseteq> {TaskCompleted} then PlanCompleted else PlanActive),
        planTasks = ?tasks\<rparr>)"
    "sState s' = Some (newAgentState \<lparr>stPlanRevision := stPlanRevision newAgentState + 1,
        stPlanningRequiresWrite := False, stPlanningAllowsWrite := False, stPendingPlanExecution := None,
        stPlanNoProgressAttempts := 0\<rparr>)"
    by blast
  then show ?thesis by (intro exI [of _ s']) (simp add: newAgentState_def)
qed

end
