(* ===== verification/ModelContext.thy ===== *)
theory ModelContext
  imports Turns
begin

text \<open>
  What a model request contains, and which prefix of the conversation is summarized next:
  \<^verbatim>\<open>contextMessages\<close>, \<^verbatim>\<open>planContextMessage\<close>, \<^verbatim>\<open>compactionCutoff\<close> and
  \<^verbatim>\<open>pendingCompactionCutoff\<close> of \<^verbatim>\<open>internal/agent/flow.go\<close>. The theorems show that the request
  is always a well-formed conversation and that a compaction never separates a tool call
  from its result.
\<close>

section \<open>The context of a request\<close>

definition systemMessage :: "string \<Rightarrow> agentMessage" where
  "systemMessage content = \<lparr>
     msgRole = RoleSystem, msgContent = content, msgToolCalls = [], msgToolCallID = None,
     msgToolName = None, msgAnsweredInputCallID = None, msgProviderContextItems = [],
     msgStartedAt = None, msgCreatedAt = 0\<rparr>"

definition userInputInstruction :: string where
  "userInputInstruction = ''When you need user input, call request_user_input instead of asking only in assistant text. Ask 1-3 related questions in one batch. Give each question a short navigation header of at most 32 Unicode characters. If no reply is required, finish without a follow-up question.''"

definition newline :: string where
  "newline = [CHR 0x0A]"

definition getSummary :: "contextSummary action" where
  "getSummary =
     bindTx getContextSummary (\<lambda>summary.
     returnTx (case summary of None \<Rightarrow> \<lparr>csGeneration = 0, csSummarizedThrough = 0, csContent = []\<rparr>
               | Some c \<Rightarrow> c))"

definition taskJSON :: "planTask \<Rightarrow> string" where
  "taskJSON task = jsonBraces
     [jsonMember ''content'' (jsonString (ptContent task)),
      jsonMember ''status'' (jsonString (taskStatusText (ptStatus task)))]"

definition planJSON :: "agentPlan \<Rightarrow> string" where
  "planJSON plan = jsonBraces
     [jsonMember ''revision'' (showInt (planRevision plan)),
      jsonMember ''status'' (jsonString (planStatusText (planStatusOf plan))),
      jsonMember ''tasks'' (jsonBrackets (map taskJSON (planTasks plan)))]"

definition planInstruction :: "agentState \<Rightarrow> agentPlan option \<Rightarrow> string" where
  "planInstruction state plan =
     (if stInteractionMode state = ModePlanning
      then ''This is a planning-only turn. Do not execute business tools or claim that planned work was performed.''
      else if (case plan of None \<Rightarrow> False | Some p \<Rightarrow> planStatusOf p = PlanActive)
      then ''The user approved this plan. Execute it and use write_todos to keep task statuses accurate. If required information is missing, keep dependent tasks pending, call request_user_input with 1-3 related questions, and stop until the user answers.'' @
        (if stPlanNoProgressAttempts state > 0
         then '' The previous response left this active plan unfinished without requesting a tool. Continue the work now, call request_user_input for missing information, or use write_todos to record the accurate final state. Do not ask for required input only in assistant text.''
         else [])
      else ''This completed plan is durable reference state.'')"

definition planContextMessage :: "agentState \<Rightarrow> agentMessage option action" where
  "planContextMessage state =
     bindTx getPlan (\<lambda>plan.
     returnTx (if plan = None \<and> stInteractionMode state \<noteq> ModePlanning then None
       else Some (systemMessage (''Current durable plan: '' @
              (case plan of None \<Rightarrow> ''null'' | Some p \<Rightarrow> planJSON p) @ newline @ planInstruction state plan))))"

definition contextMessages :: "agentConfig \<Rightarrow> agentState \<Rightarrow> agentMessage list action" where
  "contextMessages config state =
     bindTx getSummary (\<lambda>summary.
     bindTx (loadMessages (max (stFirstRetained state) (stSummarizedThrough state + 1)) (stLastSequence state) config)
       (\<lambda>messages.
     bindTx (planContextMessage state) (\<lambda>planMessage.
     returnTx (
       (if stInteractionMode state \<noteq> ModePlanning then [systemMessage userInputInstruction] else []) @
       (if csContent summary \<noteq> []
        then [systemMessage (''Conversation summary through message '' @ showInt (csSummarizedThrough summary) @
                '':'' @ newline @ csContent summary)]
        else []) @
       messages @ (case planMessage of None \<Rightarrow> [] | Some m \<Rightarrow> [m])))))"

section \<open>The compaction cutoff\<close>

text \<open>
  The loop walks back from the last message until the tokens it keeps exceed the budget; the
  machine sum of the token counts is kept at 64 bits.
\<close>

fun cutoffLoop :: "flow \<Rightarrow> agentConfig \<Rightarrow> int \<Rightarrow> int list \<Rightarrow> int \<Rightarrow> int \<Rightarrow> int action" where
  "cutoffLoop flow config keepTokens [] retained cutoff = returnTx cutoff"
| "cutoffLoop flow config keepTokens (q # qs) retained cutoff =
     bindTx (messageAt q) (\<lambda>message.
     let retained = wrap64 (retained + fCountTokens flow (cfgModel config)
                      [projectMessage message (cfgMaxContextTokens config)]) in
     if retained > keepTokens then returnTx q
     else cutoffLoop flow config keepTokens qs retained (q - 1))"

definition keepTokensOf :: "agentConfig \<Rightarrow> int" where
  "keepTokensOf config = max 1 (intOfFloat (floatMult (floatOfInt (cfgMaxContextTokens config)) (cfgKeepFraction config)))"

definition triggerTokensOf :: "agentConfig \<Rightarrow> int" where
  "triggerTokensOf config = intOfFloat (floatMult (floatOfInt (cfgMaxContextTokens config)) (cfgTriggerFraction config))"

definition compactionCutoff :: "flow \<Rightarrow> agentConfig \<Rightarrow> agentState \<Rightarrow> int action" where
  "compactionCutoff flow config state =
     (let start = max (stFirstRetained state) (stSummarizedThrough state + 1) in
      if start \<ge> stLastSequence state then returnTx (stSummarizedThrough state)
      else
        bindTx (cutoffLoop flow config (keepTokensOf config) (rev (range64 start (stLastSequence state))) 0
                  (stLastSequence state - 1)) (\<lambda>cutoff.
        let cutoff = max (stSummarizedThrough state) cutoff in
        bindTx (loadMessages start cutoff config) (\<lambda>messages.
        returnTx (toolSafeCompactionCutoff messages start cutoff))))"

definition pendingCompactionCutoff :: "flow \<Rightarrow> int option action" where
  "pendingCompactionCutoff flow =
     bindTx (attrGet agentConfigAttribute) (\<lambda>config.
     bindTx (attrGet agentStateAttribute) (\<lambda>state.
     bindTx (trimSummarizedMessages config state) (\<lambda>state.
     bindTx (contextMessages config state) (\<lambda>messages.
     let tokenCount = fCountTokens flow (cfgModel config) (systemMessage (cfgSystemPrompt config) # messages);
         hasRetentionPressure = stLastSequence state - stFirstRetained state + 1 > cfgMessageRetentionLimit config
     in if tokenCount < triggerTokensOf config \<and> \<not> hasRetentionPressure then returnTx None
        else bindTx (compactionCutoff flow config state) (\<lambda>cutoff.
          returnTx (if cutoff \<le> stSummarizedThrough state then None else Some cutoff))))))"

section \<open>Lemmas\<close>

lemma systemMessage_role [simp]: "msgRole (systemMessage c) = RoleSystem"
  by (simp add: systemMessage_def)

lemma step_not_system: "step pend m = Some p \<Longrightarrow> msgRole m \<noteq> RoleSystem"
  by (cases pend) (auto simp: answers_def split: messageRole.splits if_splits)

lemma convo_not_system: "convo pend ms = Some p \<Longrightarrow> m \<in> set ms \<Longrightarrow> msgRole m \<noteq> RoleSystem"
  by (induction ms arbitrary: pend) (auto dest: step_not_system split: option.splits)

lemma projectMessage_role [simp]: "msgRole (projectMessage m n) = msgRole m"
  by (simp add: projectMessage_def Let_def)

lemma window_split:
  assumes "a \<le> c + 1" and "c \<le> b"
  shows "window s st a b = window s st a c @ window s st (c + 1) b"
proof -
  have "range64 a b = range64 a c @ range64 (c + 1) b"
    using assms by (intro nth_equalityI) (auto simp: nth_append)
  then show ?thesis by (simp add: window_def)
qed

lemma window_take: "a \<le> c + 1 \<Longrightarrow> c \<le> b \<Longrightarrow> take (nat (c - a + 1)) (window s st a b) = window s st a c"
  by (subst window_split [of a c b]) (simp_all add: window_def)

lemma talk_state:
  assumes "talk pend s" and "sState s = Some st"
  shows "histOf s st" "stFirstRetained st \<le> stSummarizedThrough st + 1" "stSummarizedThrough st \<le> stLastSequence st"
    "unsummarized s = window s st (stSummarizedThrough st + 1) (stLastSequence st)"
    "convo [] (window s st (stSummarizedThrough st + 1) (stLastSequence st)) = Some pend"
  using assms by (auto simp: talk_def histInv_def histOf_def countersOk_def unsummarized_def)

lemma talk_trimmed:
  assumes "talk pend s" and "trimmed limit s s'"
  shows "talk pend s'" "unsummarized s' = unsummarized s"
proof -
  from assms(2) obtain st first arch where st: "sState s = Some st" and
    s': "s' = s \<lparr>sState := Some (st \<lparr>stFirstRetained := first\<rparr>), sArchived := arch\<rparr>" and
    inv: "histInv s'" and h: "history s' = drop (nat (first - stFirstRetained st)) (history s)" and
    first: "stFirstRetained st \<le> first" "first \<le> stSummarizedThrough st + 1"
    unfolding trimmed_def by blast
  from assms(1) have inv0: "histInv s" by (simp add: talk_def)
  have st': "sState s' = Some (st \<lparr>stFirstRetained := first\<rparr>)" by (simp add: s')
  have "nat (stSummarizedThrough st + 1 - first) + nat (first - stFirstRetained st) =
      nat (stSummarizedThrough st + 1 - stFirstRetained st)" using first by simp
  then show "unsummarized s' = unsummarized s"
    using unsummarized_history(1) [OF inv st'] unsummarized_history(1) [OF inv0 st] h by simp
  then show "talk pend s'" using assms(1) inv by (simp add: talk_def)
qed

text \<open>The system messages around the conversation.\<close>

lemma contextMessages_ok:
  assumes "talk pend s" and "sState s = Some st"
  shows "\<exists>pre post. contextMessages config st s =
       Inr (pre @ map (\<lambda>m. projectMessage m (cfgMaxContextTokens config)) (unsummarized s) @ post, s) \<and>
     (\<forall>m \<in> set (pre @ post). msgRole m = RoleSystem)"
proof -
  note t = talk_state [OF assms]
  have start: "max (stFirstRetained st) (stSummarizedThrough st + 1) = stSummarizedThrough st + 1" using t(2) by simp
  have load: "loadMessages (stSummarizedThrough st + 1) (stLastSequence st) config s =
      Inr (map (\<lambda>m. projectMessage m (cfgMaxContextTokens config)) (unsummarized s), s)"
    using loadMessages_ok [OF assms(2) t(1,2) order.refl, of config] t(4) by simp
  obtain summary where summary: "getSummary s = Inr (summary, s)"
    by (simp add: getSummary_def store_simps)
  obtain plan where plan: "planContextMessage st s = Inr (plan, s)" "\<forall>m. plan = Some m \<longrightarrow> msgRole m = RoleSystem"
    by (simp add: planContextMessage_def getPlan_def store_simps)
  define pre where "pre = (if stInteractionMode st \<noteq> ModePlanning then [systemMessage userInputInstruction] else []) @
        (if csContent summary \<noteq> []
        then [systemMessage (''Conversation summary through message '' @ showInt (csSummarizedThrough summary) @
                '':'' @ newline @ csContent summary)]
        else [])"
  define post where "post = (case plan of None \<Rightarrow> [] | Some m \<Rightarrow> [m])"
  have "contextMessages config st s =
       Inr (pre @ map (\<lambda>m. projectMessage m (cfgMaxContextTokens config)) (unsummarized s) @ post, s)"
    unfolding contextMessages_def start by (simp add: load summary plan(1) pre_def post_def)
  moreover have "\<forall>m \<in> set (pre @ post). msgRole m = RoleSystem"
    using plan(2) by (auto simp: pre_def post_def split: option.splits)
  ultimately show ?thesis by blast
qed

text \<open>The token cost of a range of messages, as the loop counts it.\<close>

definition messageCost :: "flow \<Rightarrow> agentConfig \<Rightarrow> store \<Rightarrow> agentState \<Rightarrow> int \<Rightarrow> int" where
  "messageCost flow config s st q = fCountTokens flow (cfgModel config)
     [projectMessage (storedMessage s (stCurrentFirst st) q) (cfgMaxContextTokens config)]"

definition rangeCost :: "flow \<Rightarrow> agentConfig \<Rightarrow> store \<Rightarrow> agentState \<Rightarrow> int \<Rightarrow> int \<Rightarrow> int" where
  "rangeCost flow config s st a b = sum_list (map (messageCost flow config s st) (range64 a b))"

lemma rangeCost_Cons: "q \<le> b \<Longrightarrow>
   rangeCost flow config s st q b = messageCost flow config s st q + rangeCost flow config s st (q + 1) b"
  by (simp add: rangeCost_def range64_Cons)

lemma rangeCost_mono:
  assumes "\<And>q. 0 \<le> messageCost flow config s st q" and "a \<le> q" and "q \<le> b + 1"
  shows "rangeCost flow config s st q b \<le> rangeCost flow config s st a b"
proof -
  have "range64 a b = range64 a (q - 1) @ range64 q b"
    using assms(2,3) by (intro nth_equalityI) (auto simp: nth_append)
  moreover have "0 \<le> sum_list (map (messageCost flow config s st) (range64 a (q - 1)))"
    using assms(1) by (intro sum_list_nonneg) auto
  ultimately show ?thesis by (simp add: rangeCost_def)
qed

lemma cutoffLoop_ok:
  assumes "sState s = Some st" and "histOf s st"
    and "stFirstRetained st \<le> start" and "q \<le> stLastSequence st" and "start \<le> q + 1"
    and "q < start \<Longrightarrow> c = q"
  shows "\<exists>cut. cutoffLoop flow config keep (rev (range64 start q)) r c s = Inr (cut, s) \<and>
     start - 1 \<le> cut \<and> cut \<le> q \<and>
     ((\<forall>x. 0 \<le> messageCost flow config s st x) \<longrightarrow>
      rangeCost flow config s st start (stLastSequence st) < 2 ^ 63 \<longrightarrow>
      r = rangeCost flow config s st (q + 1) (stLastSequence st) \<longrightarrow> r \<le> keep \<longrightarrow>
        rangeCost flow config s st (cut + 1) (stLastSequence st) \<le> keep \<and>
        (start \<le> cut \<longrightarrow> keep < rangeCost flow config s st cut (stLastSequence st)))"
  using assms(4-6)
proof (induction "nat (q - start + 1)" arbitrary: q r c)
  case 0
  then have "q = start - 1" "c = q" by auto
  then show ?case by simp
next
  case (Suc n)
  then have le: "start \<le> q" by simp
  let ?cost = "messageCost flow config s st"
  let ?r = "wrap64 (r + ?cost q)"
  have rev: "rev (range64 start q) = q # rev (range64 start (q - 1))" using range64_snoc [OF le] by simp
  have at: "messageAt q s = Inr (storedMessage s (stCurrentFirst st) q, s)"
    using messageAt_ok [OF assms(1,2)] le assms(3) Suc.prems(1) by simp
  have next': "n = nat (q - 1 - start + 1)" "q - 1 \<le> stLastSequence st" "start \<le> q - 1 + 1" "q - 1 < start \<Longrightarrow> q - 1 = q - 1"
    using Suc.hyps(2) Suc.prems(1) le by auto
  have fits: "?r = rangeCost flow config s st q (stLastSequence st)"
    if "\<forall>x. 0 \<le> ?cost x" "rangeCost flow config s st start (stLastSequence st) < 2 ^ 63"
       "r = rangeCost flow config s st (q + 1) (stLastSequence st)"
  proof -
    have eq: "r + ?cost q = rangeCost flow config s st q (stLastSequence st)"
      using that(3) rangeCost_Cons [OF Suc.prems(1)] by simp
    have "0 \<le> rangeCost flow config s st q (stLastSequence st)"
      unfolding rangeCost_def using that(1) by (intro sum_list_nonneg) auto
    moreover have "rangeCost flow config s st q (stLastSequence st) < 2 ^ 63"
      using rangeCost_mono [of flow config s st start q "stLastSequence st"] that(1,2) le Suc.prems(1) by simp
    ultimately show ?thesis unfolding eq by (intro wrap64_id) auto
  qed
  have run: "cutoffLoop flow config keep (rev (range64 start q)) r c s =
      (if ?r > keep then Inr (q, s) else cutoffLoop flow config keep (rev (range64 start (q - 1))) ?r (q - 1) s)"
    by (simp add: rev at messageCost_def)
  show ?case
  proof (cases "?r > keep")
    case True
    then show ?thesis using run le fits by (intro exI [of _ q]) auto
  next
    case False
    from Suc.hyps(1) [OF next', of ?r] obtain cut where
      IH: "cutoffLoop flow config keep (rev (range64 start (q - 1))) ?r (q - 1) s = Inr (cut, s)"
        "start - 1 \<le> cut" "cut \<le> q - 1"
        "(\<forall>x. 0 \<le> ?cost x) \<longrightarrow> rangeCost flow config s st start (stLastSequence st) < 2 ^ 63 \<longrightarrow>
          ?r = rangeCost flow config s st (q - 1 + 1) (stLastSequence st) \<longrightarrow> ?r \<le> keep \<longrightarrow>
          rangeCost flow config s st (cut + 1) (stLastSequence st) \<le> keep \<and>
          (start \<le> cut \<longrightarrow> keep < rangeCost flow config s st cut (stLastSequence st))"
      by blast
    show ?thesis
    proof (intro exI [of _ cut] conjI impI)
      show "cutoffLoop flow config keep (rev (range64 start q)) r c s = Inr (cut, s)" using run IH(1) False by simp
    qed (use IH(2,3,4) fits False in auto)
  qed
qed

section \<open>Properties\<close>

text \<open>
  C32. The context of a model request is always a well-formed conversation: apart from system
  messages before and after it, it consists of exactly the unsummarized messages, each
  projected to the context limit, every tool result in it answers the call that is open, in
  order, and the calls left open are exactly the pending ones (none when a response is asked
  for). Building it never fails and changes nothing.
\<close>

theorem modelContext_well_formed:
  assumes "talk pend s" and "sState s = Some st"
  shows "\<exists>pre conv post. contextMessages config st s = Inr (pre @ conv @ post, s) \<and>
     set (map msgRole (pre @ post)) \<subseteq> {RoleSystem} \<and>
     conv = map (\<lambda>m. projectMessage m (cfgMaxContextTokens config)) (unsummarized s) \<and>
     RoleSystem \<notin> msgRole ` set conv \<and> convo [] conv = Some pend"
proof -
  from contextMessages_ok [OF assms] obtain pre post where
    "contextMessages config st s =
       Inr (pre @ map (\<lambda>m. projectMessage m (cfgMaxContextTokens config)) (unsummarized s) @ post, s)"
    "\<forall>m \<in> set (pre @ post). msgRole m = RoleSystem" by blast
  moreover have "convo [] (unsummarized s) = Some pend" using assms(1) by (simp add: talk_def)
  moreover from convo_not_system [OF this]
  have "RoleSystem \<notin> msgRole ` set (map (\<lambda>m. projectMessage m (cfgMaxContextTokens config)) (unsummarized s))"
    by fastforce
  ultimately show ?thesis by (intro exI conjI) (assumption, auto)
qed

theorem modelContext_well_formed_witness:
  "\<exists>s st pre conv post. contextMessages newAgentConfig st s = Inr (pre @ conv @ post, s) \<and> length conv = 1 \<and>
     convo [] conv = Some [exampleCall ''a'' ''read_file'', exampleCall ''b'' ''write_file'']"
proof -
  obtain s st where s: "sState s = Some st" "consistent s" "length (history s) = 1"
    "pendingOf st = [exampleCall ''a'' ''read_file'', exampleCall ''b'' ''write_file'']"
    using two_open_calls by blast
  note c = consistent_pending [OF s(2,1)]
  have "unsummarized s \<noteq> []" using c(2) s(4) by (auto simp: talk_def)
  moreover have "length (unsummarized s) \<le> 1" using unsummarized_history(1) [OF c(1) s(1)] s(3) by simp
  ultimately have "length (unsummarized s) = 1" by (cases "unsummarized s") auto
  with modelContext_well_formed [OF c(2) s(1), of newAgentConfig] s(4) show ?thesis by fastforce
qed

lemma compactionCutoff_ok:
  assumes "talk pend s" and "sState s = Some st"
  shows "\<exists>cutoff. compactionCutoff flow config st s = Inr (cutoff, s) \<and>
     stSummarizedThrough st \<le> cutoff \<and> cutoff \<le> stLastSequence st \<and>
     convo [] (window s st (stSummarizedThrough st + 1) cutoff) = Some [] \<and>
     convo [] (window s st (cutoff + 1) (stLastSequence st)) = Some pend"
proof -
  note t = talk_state [OF assms]
  let ?start = "stSummarizedThrough st + 1" and ?last = "stLastSequence st"
  have start: "max (stFirstRetained st) ?start = ?start" using t(2) by simp
  have rest: "convo [] (window s st (c + 1) ?last) = Some pend"
    if "convo [] (window s st ?start c) = Some []" "?start - 1 \<le> c" "c \<le> ?last" for c
    using t(5) that window_split [of ?start c ?last s st] by (simp add: convo_append)
  show ?thesis
  proof (cases "?start \<ge> ?last")
    case True
    then have "compactionCutoff flow config st s = Inr (stSummarizedThrough st, s)"
      by (simp add: compactionCutoff_def Let_def start)
    moreover have "window s st ?start (stSummarizedThrough st) = []" by (simp add: window_def)
    ultimately show ?thesis using t(3,5) by auto
  next
    case False
    then have order: "?start \<le> ?last + 1" "?last < ?start \<Longrightarrow> ?last - 1 = ?last" by auto
    from cutoffLoop_ok [OF assms(2) t(1,2) order.refl order, of flow config "keepTokensOf config" 0] obtain cut where
      loop: "cutoffLoop flow config (keepTokensOf config) (rev (range64 ?start ?last)) 0 (?last - 1) s = Inr (cut, s)"
      and cut: "?start - 1 \<le> cut" "cut \<le> ?last" by blast
    let ?ms = "map (\<lambda>m. projectMessage m (cfgMaxContextTokens config)) (window s st ?start cut)"
    let ?c = "toolSafeCompactionCutoff ?ms ?start cut"
    have max: "max (stSummarizedThrough st) cut = cut" using cut(1) by simp
    have run: "compactionCutoff flow config st s = Inr (?c, s)"
      using False loop loadMessages_ok [OF assms(2) t(1,2) cut(2), of config]
      by (simp add: compactionCutoff_def Let_def start max)
    obtain p where "convo [] ?ms = Some p"
      using t(5) window_split [of ?start cut ?last s st] cut by (auto simp: convo_append split: option.splits)
    moreover have "int (length ?ms) = cut - ?start + 1" using cut by (simp add: window_def)
    ultimately have closed: "?c \<le> cut" "?start - 1 \<le> ?c" "convo [] (take (nat (?c - ?start + 1)) ?ms) = Some []"
      by (rule toolSafeCompactionCutoff_closed)+
    have "take (nat (?c - ?start + 1)) (window s st ?start cut) = window s st ?start ?c"
      using closed(1,2) by (intro window_take) simp_all
    then have "convo [] (window s st ?start ?c) = Some []" using closed(3) by (simp add: take_map)
    with run closed cut rest [of ?c] show ?thesis by auto
  qed
qed

text \<open>
  C33. A compaction is safe: the cutoff lies between the summarized prefix and the last message,
  every call up to it has its result up to it, so what is summarized and what is kept are
  both well-formed conversations and the kept one has exactly the pending calls open.
\<close>

theorem compactionCutoff_safe:
  assumes "talk pend s" and "sState s = Some st"
  shows "\<exists>cutoff. compactionCutoff flow config st s = Inr (cutoff, s) \<and>
     stSummarizedThrough st \<le> cutoff \<and> cutoff \<le> stLastSequence st \<and>
     convo [] (window s st (stSummarizedThrough st + 1) cutoff) = Some [] \<and>
     convo [] (window s st (cutoff + 1) (stLastSequence st)) = Some pend"
  using assms by (rule compactionCutoff_ok)

theorem compactionCutoff_safe_witness:
  "\<exists>s st cutoff. compactionCutoff exampleFlow newAgentConfig st s = Inr (cutoff, s) \<and>
     convo [] (window s st (cutoff + 1) (stLastSequence st)) =
       Some [exampleCall ''a'' ''read_file'', exampleCall ''b'' ''write_file'']"
proof -
  obtain s st where s: "sState s = Some st" "consistent s"
    "pendingOf st = [exampleCall ''a'' ''read_file'', exampleCall ''b'' ''write_file'']"
    using two_open_calls by blast
  note c = consistent_pending [OF s(2,1)]
  from compactionCutoff_safe [OF c(2) s(1), of exampleFlow newAgentConfig] s(3) show ?thesis by auto
qed

text \<open>
  The budget of a compaction: before it is moved back to a safe point, the cutoff keeps the
  longest suffix of the conversation whose token counts stay within the kept fraction of the
  context; one more message would exceed it.
\<close>

theorem cutoffLoop_keeps_budget:
  assumes "talk pend s" and "sState s = Some st" and "stSummarizedThrough st + 1 \<le> stLastSequence st"
    and "\<And>q. 0 \<le> messageCost flow config s st q"
    and "rangeCost flow config s st (stSummarizedThrough st + 1) (stLastSequence st) < 2 ^ 63"
    and "0 \<le> keepTokens"
  shows "\<exists>cutoff. cutoffLoop flow config keepTokens
        (rev (range64 (stSummarizedThrough st + 1) (stLastSequence st))) 0 (stLastSequence st - 1) s = Inr (cutoff, s) \<and>
     stSummarizedThrough st \<le> cutoff \<and> cutoff \<le> stLastSequence st \<and>
     rangeCost flow config s st (cutoff + 1) (stLastSequence st) \<le> keepTokens \<and>
     (stSummarizedThrough st < cutoff \<longrightarrow> keepTokens < rangeCost flow config s st cutoff (stLastSequence st))"
proof -
  note t = talk_state [OF assms(1,2)]
  have order: "stSummarizedThrough st + 1 \<le> stLastSequence st + 1"
    "stLastSequence st < stSummarizedThrough st + 1 \<Longrightarrow> stLastSequence st - 1 = stLastSequence st"
    using assms(3) by auto
  have zero: "rangeCost flow config s st (stLastSequence st + 1) (stLastSequence st) = 0" by (simp add: rangeCost_def)
  from cutoffLoop_ok [OF assms(2) t(1,2) order.refl order, of flow config keepTokens 0]
  show ?thesis using assms(4,5,6) zero by fastforce
qed

theorem cutoffLoop_keeps_budget_witness:
  "\<exists>s st cutoff. sState s = Some st \<and> stLastSequence st = 1 \<and>
     cutoffLoop exampleFlow newAgentConfig 1 (rev (range64 1 1)) 0 0 s = Inr (cutoff, s) \<and>
     rangeCost exampleFlow newAgentConfig s st (cutoff + 1) 1 \<le> 1"
proof -
  obtain s where s: "appended (stamped exampleCtx exampleMessage) initialStore s"
    using initial_run by blast
  then have fr: "sameButHistory initialStore s" and inv: "histInv s" by (simp_all add: appended_def)
  have st0: "sState initialStore = Some newAgentState" by (simp add: initialStore_def)
  from sameButHistory_state [OF fr st0] obtain st where st: "sState s = Some st" "stSummarizedThrough st = 0"
    by (auto simp: newAgentState_def)
  from s st st0 have last: "stLastSequence st = 1" by (simp add: appended_def newAgentState_def)
  have "talk [] s" by (rule talk_appended [OF consistent_initial(1) s]) (simp add: exampleMessage_def)
  moreover have "rangeCost exampleFlow newAgentConfig s st (stSummarizedThrough st + 1) (stLastSequence st) < 2 ^ 63"
    by (simp add: st last rangeCost_def messageCost_def exampleFlow_def range64_def)
  ultimately obtain cutoff where "cutoffLoop exampleFlow newAgentConfig 1 (rev (range64 1 1)) 0 0 s = Inr (cutoff, s)"
      "rangeCost exampleFlow newAgentConfig s st (cutoff + 1) 1 \<le> 1"
    using cutoffLoop_keeps_budget [of "[]" s st exampleFlow newAgentConfig 1] st last
    by (auto simp: messageCost_def exampleFlow_def)
  with st last show ?thesis by blast
qed

lemma pendingCompactionCutoff_ok:
  assumes "talk pend s" and "sState s = Some st0" and "sConfig s = Some config"
  shows "\<exists>result s' st messages. pendingCompactionCutoff flow s = Inr (result, s') \<and>
     trimmed (cfgMessageRetentionLimit config) s s' \<and> talk pend s' \<and> sState s' = Some st \<and>
     contextMessages config st s' = Inr (messages, s') \<and>
     (case result of
        Some cutoff \<Rightarrow>
          (triggerTokensOf config \<le> fCountTokens flow (cfgModel config) (systemMessage (cfgSystemPrompt config) # messages) \<or>
           cfgMessageRetentionLimit config < stLastSequence st - stFirstRetained st + 1) \<and>
          stSummarizedThrough st < cutoff \<and> cutoff \<le> stLastSequence st \<and>
          convo [] (window s' st (stSummarizedThrough st + 1) cutoff) = Some []
      | None \<Rightarrow>
          (fCountTokens flow (cfgModel config) (systemMessage (cfgSystemPrompt config) # messages) < triggerTokensOf config \<and>
           stLastSequence st - stFirstRetained st + 1 \<le> cfgMessageRetentionLimit config) \<or>
          compactionCutoff flow config st s' = Inr (stSummarizedThrough st, s'))"
proof -
  from talk_state(1) [OF assms(1,2)] trimSummarizedMessages_ok [OF assms(2)] obtain st s' where
    trim: "trimSummarizedMessages config st0 s = Inr (st, s')" and st: "sState s' = Some st" and
    tr: "trimmed (cfgMessageRetentionLimit config) s s'" by blast
  note t = talk_trimmed(1) [OF assms(1) tr]
  from contextMessages_ok [OF t st, of config] obtain messages where
    ctx: "contextMessages config st s' = Inr (messages, s')" by blast
  from compactionCutoff_ok [OF t st, of flow config] obtain cutoff where
    cut: "compactionCutoff flow config st s' = Inr (cutoff, s')" "stSummarizedThrough st \<le> cutoff"
      "cutoff \<le> stLastSequence st" "convo [] (window s' st (stSummarizedThrough st + 1) cutoff) = Some []"
    by blast
  let ?low = "fCountTokens flow (cfgModel config) (systemMessage (cfgSystemPrompt config) # messages) < triggerTokensOf config \<and>
      stLastSequence st - stFirstRetained st + 1 \<le> cfgMessageRetentionLimit config"
  have "pendingCompactionCutoff flow s =
      Inr (if ?low then None else if cutoff \<le> stSummarizedThrough st then None else Some cutoff, s')"
    by (simp add: pendingCompactionCutoff_def store_simps assms(2,3) trim ctx cut(1) Let_def not_less)
  with trim st tr t ctx cut show ?thesis
    by (intro exI [of _ "if ?low then None else if cutoff \<le> stSummarizedThrough st then None else Some cutoff"]
        exI [of _ s'] exI [of _ st] exI [of _ messages]) (auto simp: not_less)
qed

text \<open>
  The compaction check of a response never fails on a well-formed store. It asks for a
  compaction exactly when the request would reach the trigger or the retention limit is
  exceeded and the safe cutoff moves past what is summarized; that cutoff is safe. Apart from
  trimming summarized chunks it changes nothing, and the conversation is as before.
\<close>

theorem pendingCompactionCutoff_decides:
  assumes "talk pend s" and "sState s = Some st0" and "sConfig s = Some config"
  shows "\<exists>result s' st messages. pendingCompactionCutoff flow s = Inr (result, s') \<and>
     trimmed (cfgMessageRetentionLimit config) s s' \<and> talk pend s' \<and> sState s' = Some st \<and>
     contextMessages config st s' = Inr (messages, s') \<and>
     (case result of
        Some cutoff \<Rightarrow>
          (triggerTokensOf config \<le> fCountTokens flow (cfgModel config) (systemMessage (cfgSystemPrompt config) # messages) \<or>
           cfgMessageRetentionLimit config < stLastSequence st - stFirstRetained st + 1) \<and>
          stSummarizedThrough st < cutoff \<and> cutoff \<le> stLastSequence st \<and>
          convo [] (window s' st (stSummarizedThrough st + 1) cutoff) = Some []
      | None \<Rightarrow>
          (fCountTokens flow (cfgModel config) (systemMessage (cfgSystemPrompt config) # messages) < triggerTokensOf config \<and>
           stLastSequence st - stFirstRetained st + 1 \<le> cfgMessageRetentionLimit config) \<or>
          compactionCutoff flow config st s' = Inr (stSummarizedThrough st, s'))"
  using assms by (rule pendingCompactionCutoff_ok)

theorem pendingCompactionCutoff_decides_witness:
  "\<exists>s result s'. pendingCompactionCutoff exampleFlow s = Inr (result, s') \<and> length (history s) = 1 \<and>
     talk [exampleCall ''a'' ''read_file'', exampleCall ''b'' ''write_file''] s'"
proof -
  obtain s st where s: "sState s = Some st" "consistent s" "sConfig s = Some newAgentConfig" "length (history s) = 1"
    "pendingOf st = [exampleCall ''a'' ''read_file'', exampleCall ''b'' ''write_file'']"
    using two_open_calls by blast
  note c = consistent_pending [OF s(2,1)]
  from pendingCompactionCutoff_decides [OF c(2) s(1,3), of exampleFlow] s(4,5) show ?thesis by auto
qed

end
