(* ===== verification/UserSteps.thy ===== *)
theory UserSteps
  imports ModelContext
begin

text \<open>
  The Steps of \<^verbatim>\<open>internal/agent/flow.go\<close>, first part: what a Step waits for and decides, the
  external effects of an attempt, and the Steps that consume user input (\<^verbatim>\<open>initStep\<close>,
  \<^verbatim>\<open>awaitUserStep\<close>, \<^verbatim>\<open>answeredInputStep\<close>) or route at a safe boundary (\<^verbatim>\<open>checkSteeredStep\<close>).
\<close>

section \<open>Movements, waits and decisions\<close>

text \<open>One constructor for each registered Step, with the input of the movement.\<close>

datatype stepInput =
    Init agentConfig
  | AwaitUser
  | AnsweredInput
  | CompactContext int
  | CallModel
  | BeforeModelCall modelCallPreparation
  | CallModelWithHooks modelCallInput
  | AfterModelCall modelCallResult
  | ApplyModelResult modelCallResult
  | CheckSteered continuation
  | RouteTool
  | AwaitToolApproval
  | ExecuteTool
  | RecoverToolExecution
  | ExecuteParallelTool parallelToolInput
  | RecoverParallelToolExecution parallelToolInput
  | AwaitParallelToolResults awaitParallelInput
  | PrepareManualToolRecovery
  | AwaitManualToolRecovery toolBatchState
  | DurableWait
  | InactivityTimeout goTime

text \<open>A movement, and the options it carries beside those registered for its Step.\<close>

type_synonym stepMovement = "stepInput \<times> movementOptions option"

datatype decision = GoTo "stepMovement list" | DeadEnd | ForceComplete string

definition goTo :: "stepInput \<Rightarrow> decision" where
  "goTo next = GoTo [(next, None)]"

datatype condition =
    AnsweredForOne
  | SteeredAtLeastAtMost int int
  | SteeredAtMost int
  | QueuedForOne
  | PlanExecutionsForOne string
  | ApprovalsForOne string
  | RecoveryDecisionsForOne string
  | ParallelResultsForN string int
  | ResetAtLeastAtMost int int
  | ResetAtMost int
  | Timer duration

datatype wait = Until condition | AnyOf "condition list"

definition maximumSteeringMessageCount :: int where
  "maximumSteeringMessageCount = 2147483647"

definition maximumAutomaticPlanRecoveryCount :: int where
  "maximumAutomaticPlanRecoveryCount = 1"

text \<open>
  What \<^verbatim>\<open>GetConditionResults\<close> returns to an Execute method: the values its wait consumed, for
  each channel (and instance of a channel map), and whether its timer fired.
\<close>

record conditions =
  cnAnswered :: "answeredUserInput list"
  cnSteered :: "pendingUserMessage list"
  cnQueued :: "pendingUserMessage list"
  cnPlanExecutions :: "string \<Rightarrow> planExecutionRequest list"
  cnApprovals :: "string \<Rightarrow> bool list"
  cnRecovery :: "string \<Rightarrow> resolveToolRecoveryRequest list"
  cnParallel :: "string \<Rightarrow> parallelToolResult list"
  cnReset :: "goTime list"
  cnTimerFired :: bool

definition noConditions :: conditions where
  "noConditions = \<lparr>cnAnswered = [], cnSteered = [], cnQueued = [], cnPlanExecutions = (\<lambda>_. []),
     cnApprovals = (\<lambda>_. []), cnRecovery = (\<lambda>_. []), cnParallel = (\<lambda>_. []), cnReset = [], cnTimerFired = False\<rparr>"

text \<open>
  What the code outside the repository answers during one attempt: the engine's heartbeat and
  stream writers (an error, if any), the model client, the model hooks, the tool registry, the
  expiration handler, the name-based UUID, the error type of the failure that led to a recovery
  Step, and the events and progress messages those calls report while they run.
\<close>

record effects =
  efHeartbeat :: "goError option"
  efTextStream :: "goError option"
  efUUID :: "string \<Rightarrow> string"
  efComplete :: "modelRequest \<Rightarrow> (modelReply \<times> modelUsage) result"
  efProviderEvents :: "agentEvent list"
  efSummarize :: "summarizeRequest \<Rightarrow> (string \<times> modelUsage) result"
  efBeforeModelCall :: "string \<Rightarrow> string \<Rightarrow> string \<Rightarrow> bool \<Rightarrow> bool result"
  efAfterModelCall :: "string \<Rightarrow> string \<Rightarrow> modelUsage \<Rightarrow> unit result"
  efExecuteTool :: "toolInvocation \<Rightarrow> toolExecutionResult result"
  efToolProgress :: "string list"
  efExpiration :: "inactivityExpiration \<Rightarrow> unit result"
  efRecoveryErrorType :: "string option"

definition failWith :: "goError option \<Rightarrow> unit action" where
  "failWith e = (case e of None \<Rightarrow> returnTx () | Some x \<Rightarrow> throwTx x)"

definition recordHeartbeat :: "effects \<Rightarrow> unit action" where
  "recordHeartbeat ef = failWith (efHeartbeat ef)"

section \<open>Init\<close>

definition initExecute :: "flow \<Rightarrow> ctx \<Rightarrow> agentConfig \<Rightarrow> decision action" where
  "initExecute flow ctx input =
     bindTx (liftTx (validateConfig flow input)) (\<lambda>_.
     bindTx (attrSet agentConfigAttribute input) (\<lambda>_.
     bindTx (attrSet agentStateAttribute newAgentState) (\<lambda>_.
     bindTx (attrSet waitingInputRoundAttribute 0) (\<lambda>_.
     if cfgInactivityTimeoutSeconds input = 0 then returnTx (goTo AwaitUser)
     else let deadline = timeAdd (cxFirstAttemptAt ctx) (seconds (cfgInactivityTimeoutSeconds input)) in
          bindTx (attrSet inactivityDeadlineAttribute deadline) (\<lambda>_.
          returnTx (GoTo [(AwaitUser, None), (InactivityTimeout deadline, None)]))))))"

section \<open>AwaitUser\<close>

definition inputConditions :: "condition list" where
  "inputConditions = [SteeredAtLeastAtMost 1 maximumSteeringMessageCount, QueuedForOne]"

definition awaitUserWaitFor :: "wait action" where
  "awaitUserWaitFor =
     bindTx (updateStatus WaitingForMessage) (\<lambda>_.
     bindTx getPlan (\<lambda>plan.
     bindTx getPendingUserInput (\<lambda>pendingInput.
     bindTx (channelSize answeredUserInputsChannel) (\<lambda>answered.
     bindTx (channelSize steeredUserMessagesChannel) (\<lambda>steered.
     bindTx (channelSize queuedUserMessagesChannel) (\<lambda>queued.
     if answered > 0 then returnTx (Until AnsweredForOne)
     else if pendingInput \<noteq> None
     then bindTx incrementWaitingInputRound (\<lambda>_. returnTx (Until AnsweredForOne))
     else case plan of
       Some p \<Rightarrow>
         if planStatusOf p \<noteq> PlanCompleted
         then let planKey = planRevisionKey (planRevision p);
                  choices = AnyOf (inputConditions @ [PlanExecutionsForOne planKey]) in
              bindTx (readTx (\<lambda>s. int (length (chPlanExecutions s planKey)))) (\<lambda>executions.
              if steered = 0 \<and> queued = 0 \<and> executions = 0
              then bindTx incrementWaitingInputRound (\<lambda>_. returnTx choices)
              else returnTx choices)
         else if steered = 0 \<and> queued = 0
         then bindTx incrementWaitingInputRound (\<lambda>_. returnTx (AnyOf inputConditions))
         else returnTx (AnyOf inputConditions)
     | None \<Rightarrow>
         if steered = 0 \<and> queued = 0
         then bindTx incrementWaitingInputRound (\<lambda>_. returnTx (AnyOf inputConditions))
         else returnTx (AnyOf inputConditions)))))))"

definition answeredQuestionsDescription :: "int \<Rightarrow> string" where
  "answeredQuestionsDescription questionCount =
     ''Answered '' @ showInt questionCount @ '' '' @
     (if questionCount = 1 then ''question'' else ''questions'') @ ''.''"

text \<open>The part of \<^verbatim>\<open>Execute\<close> that consumes a plan execution request.\<close>

definition executePlanRequest :: "agentPlan \<Rightarrow> planExecutionRequest list \<Rightarrow> decision action" where
  "executePlanRequest plan executions =
     bindTx ((case executions of [] \<Rightarrow> returnTx ()
      | e # _ \<Rightarrow> writeInputConsumption [] [] (Some (perRevision e)) None)) (\<lambda>_.
     bindTx (attrGet agentStateAttribute) (\<lambda>state.
     if (case executions of [] \<Rightarrow> True | e # _ \<Rightarrow> perRevision e \<noteq> planRevision plan) \<or>
        stPendingPlanExecution state \<noteq> Some (planRevision plan)
     then bindTx (attrSet agentStateAttribute (state \<lparr>stPendingPlanExecution := None\<rparr>)) (\<lambda>_.
          returnTx (goTo AwaitUser))
     else
     bindTx ((if planStatusOf plan = PlanDraft
      then attrSet agentPlanAttribute (plan \<lparr>planStatusOf := PlanActive\<rparr>) else returnTx ())) (\<lambda>_.
     bindTx (attrSet agentStateAttribute (state \<lparr>stStatus := CallingModel, stInteractionMode := ModeExecuting,
        stPlanningRequiresWrite := False, stPlanningAllowsWrite := False, stPendingPlanExecution := None\<rparr>)) (\<lambda>_.
     bindTx (writeActivity (event PlanStarted (''Executing plan revision '' @ showInt (planRevision plan) @ ''.''))) (\<lambda>_.
     returnTx (goTo (CheckSteered ContinueCompactContext)))))))"

definition awaitUserExecute :: "ctx \<Rightarrow> conditions \<Rightarrow> decision action" where
  "awaitUserExecute ctx cn =
     (case cnAnswered cn of
        answered # _ \<Rightarrow>
     bindTx (beginUserTurn ctx (auiMessage answered)) (\<lambda>sequence.
     bindTx (writeActivity ((event UserInputAnswered (answeredQuestionsDescription (auiQuestionCount answered)))
       \<lparr>evCallID := Some (auiCallID answered), evMessageSequence := Some sequence\<rparr>)) (\<lambda>_.
     returnTx (goTo AnsweredInput)))
      | [] \<Rightarrow>
     if cnSteered cn \<noteq> []
     then bindTx (beginSteeredTurn ctx (cnSteered cn)) (\<lambda>_. returnTx (goTo (CheckSteered ContinueCompactContext)))
     else (case cnQueued cn of
        queued # _ \<Rightarrow>
     bindTx (beginUserTurn ctx (pumValue queued)) (\<lambda>sequence.
     bindTx (writeInputConsumption [queued] [] None (Some sequence)) (\<lambda>_.
     returnTx (goTo (CheckSteered ContinueCompactContext))))
      | [] \<Rightarrow>
     bindTx getPlan (\<lambda>plan.
     case plan of None \<Rightarrow> throwTx (New ''the Agent wait completed without an input'')
      | Some p \<Rightarrow> executePlanRequest p (cnPlanExecutions cn (planRevisionKey (planRevision p))))))"

section \<open>Towards the model\<close>

definition responsePreparation :: modelCallPreparation where
  "responsePreparation = \<lparr>mcpKind = KindResponse, mcpThrough = 0\<rparr>"

definition goToModel :: "flow \<Rightarrow> decision" where
  "goToModel flow = goTo (if fHasModelHooks flow then BeforeModelCall responsePreparation else CallModel)"

text \<open>Compaction first when it is due, with or without model hooks.\<close>

definition goToCompactionOrModel :: "flow \<Rightarrow> decision action" where
  "goToCompactionOrModel flow =
     bindTx (pendingCompactionCutoff flow) (\<lambda>cutoff.
     returnTx (case cutoff of
       Some c \<Rightarrow> goTo (if fHasModelHooks flow
                       then BeforeModelCall \<lparr>mcpKind = KindCompaction, mcpThrough = c\<rparr>
                       else CompactContext c)
     | None \<Rightarrow> goToModel flow))"

definition answeredInputExecute :: "flow \<Rightarrow> decision action" where
  "answeredInputExecute flow = goToCompactionOrModel flow"

definition currentSerialToolStepOptions :: "flow \<Rightarrow> movementOptions action" where
  "currentSerialToolStepOptions flow =
     bindTx currentToolCall (\<lambda>call.
     bindTx (attrGet agentConfigAttribute) (\<lambda>config.
     bindTx (attrGet agentStateAttribute) (\<lambda>state.
     bindTx (liftTx (invocationToolDefinition flow config state (tcName call))) (\<lambda>definition'.
     case validateToolExecutionPolicy definition' of
       Inl e \<Rightarrow> throwTx (Errorf ''tool %q: %w'' [ArgStr (tdName definition'), ArgErr e])
     | Inr _ \<Rightarrow> returnTx (serialToolStepOptions definition')))))"

definition checkSteeredWaitFor :: "wait action" where
  "checkSteeredWaitFor = returnTx (Until (SteeredAtMost maximumSteeringMessageCount))"

fun continueWith :: "flow \<Rightarrow> continuation \<Rightarrow> decision action" where
  "continueWith flow ContinueCompactContext = goToCompactionOrModel flow"
| "continueWith flow ContinueAwaitUser = returnTx (goTo AwaitUser)"
| "continueWith flow ContinueCallModel = returnTx (goToModel flow)"
| "continueWith flow ContinueRouteTool = returnTx (goTo RouteTool)"
| "continueWith flow ContinueAwaitToolApproval = returnTx (goTo AwaitToolApproval)"
| "continueWith flow ContinueExecuteTool =
     bindTx (currentSerialToolStepOptions flow) (\<lambda>options. returnTx (GoTo [(ExecuteTool, Some options)]))"
| "continueWith flow ContinueDurableWait = returnTx (goTo DurableWait)"

definition checkSteeredExecute :: "flow \<Rightarrow> ctx \<Rightarrow> conditions \<Rightarrow> continuation \<Rightarrow> decision action" where
  "checkSteeredExecute flow ctx cn input =
     (if cnSteered cn \<noteq> []
      then bindTx (beginSteeredTurn ctx (cnSteered cn)) (\<lambda>_. continueWith flow ContinueCompactContext)
      else continueWith flow input)"

end
