(* ===== verification/ModelSteps.thy ===== *)
theory ModelSteps
  imports UserSteps
begin

text \<open>
  The Steps of \<^verbatim>\<open>internal/agent/flow.go\<close> that call the model: compaction and response, each in
  one Step (\<^verbatim>\<open>compactContextStep\<close>, \<^verbatim>\<open>callModelStep\<close>) or, with model hooks, in four
  (\<^verbatim>\<open>beforeModelCallStep\<close>, \<^verbatim>\<open>callModelWithHooksStep\<close>, \<^verbatim>\<open>afterModelCallStep\<close>,
  \<^verbatim>\<open>applyModelResultStep\<close>). The streamed text is best-effort output and is not modelled; the
  activity events are. Events written by an attempt that fails are not kept.
\<close>

section \<open>Calling the model client\<close>

definition modelCallID :: "effects \<Rightarrow> ctx \<Rightarrow> modelCallKind \<Rightarrow> string" where
  "modelCallID ef ctx kind = efUUID ef (jsonBraces
     [jsonMember ''flow_id'' (jsonString (cxFlowID ctx)),
      jsonMember ''step_execution_id'' (jsonString (cxStepExecutionID ctx)),
      jsonMember ''kind'' (jsonString (modelCallKindText kind))])"

definition progressWriteActivity :: "effects \<Rightarrow> int \<Rightarrow> agentEvent \<Rightarrow> unit action" where
  "progressWriteActivity ef messageSequence ev =
     bindTx (recordHeartbeat ef) (\<lambda>_.
     writeActivity (ev \<lparr>evMessageSequence := Some messageSequence\<rparr>))"

text \<open>A failed call reports its event first; when that fails too both errors are joined.\<close>

definition failAfter :: "unit action \<Rightarrow> goError \<Rightarrow> 'a action" where
  "failAfter report err = (\<lambda>s. case report s of
     Inl e \<Rightarrow> Inl (Errorf ''%w, %w'' [ArgErr err, ArgErr e]) | Inr _ \<Rightarrow> Inl err)"

definition summarizeInput :: "agentConfig \<Rightarrow> agentState \<Rightarrow> int \<Rightarrow> string \<Rightarrow> ctx \<Rightarrow> summarizeRequest action" where
  "summarizeInput config state through callID ctx =
     bindTx (loadMessages (stSummarizedThrough state + 1) through config) (\<lambda>messages.
     bindTx getSummary (\<lambda>previous.
     returnTx \<lparr>szConfig = config, szPreviousSummary = csContent previous, szMessages = messages,
       szFlowID = cxFlowID ctx, szCallID = callID\<rparr>))"

text \<open>The summary request of an attempt, and its usage, which is stored.\<close>

definition requestSummary :: "effects \<Rightarrow> ctx \<Rightarrow> string \<Rightarrow> int \<Rightarrow> string action" where
  "requestSummary ef ctx callID through =
     bindTx (updateStatus CompactingContext) (\<lambda>_.
     bindTx (attrGet agentConfigAttribute) (\<lambda>config.
     bindTx (attrGet agentStateAttribute) (\<lambda>state.
     bindTx (summarizeInput config state through callID ctx) (\<lambda>request.
     bindTx (recordHeartbeat ef) (\<lambda>_.
     case efSummarize ef request of
       Inl e \<Rightarrow> failAfter (writeActivity ((event CompactionFailed ''Context compaction failed.'')
                  \<lparr>evMessageSequence := Some through\<rparr>)) e
     | Inr (summary, usage) \<Rightarrow>
         bindTx (attrSet modelUsageAttribute usage) (\<lambda>_. returnTx summary))))))"

text \<open>Committing a summary: the covered range first, then the summarized chunks are trimmed.\<close>

definition applyCompactionModelResult :: "modelCompactionResult \<Rightarrow> continuation action" where
  "applyCompactionModelResult result =
     bindTx (attrGet agentConfigAttribute) (\<lambda>config.
     bindTx (attrGet agentStateAttribute) (\<lambda>state.
     (let generation = stCompactionGeneration state + 1 in
     bindTx (attrSet contextSummaryAttribute \<lparr>csGeneration = generation, csSummarizedThrough = mcrThrough result,
       csContent = mcrSummary result\<rparr>) (\<lambda>_.
     (let state = state \<lparr>stSummarizedThrough := mcrThrough result, stCompactionGeneration := generation\<rparr> in
     bindTx (attrSet agentStateAttribute state) (\<lambda>_.
     bindTx (trimSummarizedMessages config state) (\<lambda>_.
     bindTx (writeActivity ((event Compacted (''Compacted conversation through message '' @ showInt (mcrThrough result) @ ''.''))
       \<lparr>evMessageSequence := Some (mcrThrough result)\<rparr>)) (\<lambda>_.
     returnTx ContinueCallModel))))))))"

definition compactContextExecute :: "effects \<Rightarrow> ctx \<Rightarrow> int \<Rightarrow> decision action" where
  "compactContextExecute ef ctx input =
     bindTx (requestSummary ef ctx (modelCallID ef ctx KindCompaction) input) (\<lambda>summary.
     bindTx (applyCompactionModelResult \<lparr>mcrSummary = summary, mcrThrough = input\<rparr>) (\<lambda>next.
     returnTx (goTo (CheckSteered next))))"

section \<open>A response\<close>

definition forcedTool :: "agentState \<Rightarrow> string" where
  "forcedTool state =
     (if stInteractionMode state = ModePlanning \<and> stPlanningRequiresWrite state then toolNameWriteTodos else [])"

definition modelEventMessage :: "modelReply \<Rightarrow> string" where
  "modelEventMessage reply =
     (if replyToolCalls reply = [] then ''Model response completed.''
      else ''Model requested: '' @ joinStrings (map tcName (replyToolCalls reply)) '', '')"

definition emptyReply :: "modelReply \<Rightarrow> bool" where
  "emptyReply reply \<longleftrightarrow> trimSpace (replyContent reply) = [] \<and> replyToolCalls reply = []"

text \<open>
  The request of a response and the events it reports; the reply is returned with the sequence
  it expects to take.
\<close>

definition requestResponse :: "flow \<Rightarrow> effects \<Rightarrow> ctx \<Rightarrow> string \<Rightarrow> (modelReply \<times> modelUsage \<times> int) action" where
  "requestResponse flow ef ctx callID =
     bindTx (updateStatus CallingModel) (\<lambda>_.
     bindTx (attrGet agentConfigAttribute) (\<lambda>config.
     bindTx (attrGet agentStateAttribute) (\<lambda>state.
     bindTx (failWith (efTextStream ef)) (\<lambda>_.
     bindTx (progressWriteActivity ef (stNextSequence state)
       ((event ModelStarted (''Calling '' @ cfgModel config @ ''.'')) \<lparr>evAttempt := Some (cxAttempt ctx)\<rparr>)) (\<lambda>_.
     bindTx (contextMessages config state) (\<lambda>messages.
     bindTx (forTx (efProviderEvents ef) (progressWriteActivity ef (stNextSequence state))) (\<lambda>_.
     case efComplete ef \<lparr>mrConfig = config, mrMessages = messages,
       mrTools = invocationToolDefinitions flow config state, mrForcedTool = forcedTool state,
       mrFlowID = cxFlowID ctx, mrCallID = callID\<rparr> of
       Inl e \<Rightarrow> failAfter (progressWriteActivity ef (stNextSequence state)
                  ((event ModelFailed ''Model request failed.'') \<lparr>evAttempt := Some (cxAttempt ctx)\<rparr>)) e
     | Inr (reply, usage) \<Rightarrow> returnTx (reply, usage, stNextSequence state))))))))"

definition modelCompleted :: "effects \<Rightarrow> ctx \<Rightarrow> modelReply \<Rightarrow> int \<Rightarrow> unit action" where
  "modelCompleted ef ctx reply messageSequence = progressWriteActivity ef messageSequence
     ((event ModelCompleted (modelEventMessage reply)) \<lparr>evAttempt := Some (cxAttempt ctx)\<rparr>)"

definition assistantMessage :: "modelReply \<Rightarrow> goTime \<Rightarrow> agentMessage" where
  "assistantMessage reply startedAt = \<lparr>
     msgRole = RoleAssistant, msgContent = replyContent reply, msgToolCalls = replyToolCalls reply,
     msgToolCallID = None, msgToolName = None, msgAnsweredInputCallID = None,
     msgProviderContextItems = replyContextItems reply, msgStartedAt = Some startedAt, msgCreatedAt = 0\<rparr>"

definition appendReply :: "ctx \<Rightarrow> modelReply \<Rightarrow> goTime \<Rightarrow> int \<Rightarrow> unit action" where
  "appendReply ctx reply startedAt expected =
     bindTx (appendMessage ctx (assistantMessage reply startedAt)) (\<lambda>sequence.
     if sequence \<noteq> expected
     then throwTx (Errorf ''assistant message sequence changed from %d to %d'' [ArgInt expected, ArgInt sequence])
     else returnTx ())"

text \<open>
  After the reply is in the history: pending calls are opened, or the turn ends; an active plan
  that made no progress is given one more response.
\<close>

definition replyContinuation :: "modelReply \<Rightarrow> agentState \<Rightarrow> continuation action" where
  "replyContinuation reply state =
     (if replyToolCalls reply = []
     then
     bindTx getPlan (\<lambda>plan.
     if (case plan of None \<Rightarrow> True | Some p \<Rightarrow> planStatusOf p = PlanCompleted)
       then bindTx (attrSet agentStateAttribute (state \<lparr>stInteractionMode := ModeChat,
                      stPlanningRequiresWrite := False, stPlanNoProgressAttempts := 0\<rparr>)) (\<lambda>_.
            returnTx ContinueAwaitUser)
       else if (case plan of None \<Rightarrow> False | Some p \<Rightarrow> planStatusOf p = PlanActive \<and> \<not> allTasksCompleted (planTasks p)) \<and>
               stInteractionMode state = ModeExecuting
       then let attempts' = stPlanNoProgressAttempts state + 1 in
            bindTx (attrSet agentStateAttribute (state \<lparr>stPlanNoProgressAttempts := attempts'\<rparr>)) (\<lambda>_.
            returnTx (if attempts' \<le> maximumAutomaticPlanRecoveryCount then ContinueCallModel else ContinueAwaitUser))
       else returnTx ContinueAwaitUser)
     else bindTx (attrSet agentStateAttribute (state \<lparr>stStatus := RoutingTool,
                    stPendingToolCalls := replyToolCalls reply, stPendingToolIndex := 0,
                    stPlanNoProgressAttempts := 0\<rparr>)) (\<lambda>_.
          returnTx ContinueRouteTool))"

definition afterReply :: "modelReply \<Rightarrow> continuation action" where
  "afterReply reply =
     bindTx (attrGet agentConfigAttribute) (\<lambda>config.
     bindTx (attrGet agentStateAttribute) (\<lambda>state.
     bindTx (trimSummarizedMessages config state) (replyContinuation reply)))"

definition callModelExecute :: "flow \<Rightarrow> effects \<Rightarrow> ctx \<Rightarrow> decision action" where
  "callModelExecute flow ef ctx =
     bindTx (requestResponse flow ef ctx (modelCallID ef ctx KindResponse)) (\<lambda>(reply, usage, sequence).
     bindTx (attrSet modelUsageAttribute usage) (\<lambda>_.
     if emptyReply reply then throwTx (New ''the model returned no content or tool calls'')
     else
     bindTx (appendReply ctx reply (cxFirstAttemptAt ctx) sequence) (\<lambda>_.
     bindTx (modelCompleted ef ctx reply sequence) (\<lambda>_.
     bindTx (afterReply reply) (\<lambda>next.
     returnTx (goTo (CheckSteered next)))))))"

section \<open>The path with model hooks\<close>

fun modelForCall :: "agentConfig \<Rightarrow> modelCallKind \<Rightarrow> string" where
  "modelForCall config KindResponse = cfgModel config"
| "modelForCall config KindCompaction =
     (case cfgCompactionModel config of Some m \<Rightarrow> m | None \<Rightarrow> cfgModel config)"

definition beforeModelCallExecute :: "flow \<Rightarrow> effects \<Rightarrow> ctx \<Rightarrow> modelCallPreparation \<Rightarrow> decision action" where
  "beforeModelCallExecute flow ef ctx input =
     (if \<not> fHasModelHooks flow then throwTx (New ''model hooks are not configured'') else
     bindTx (attrGet agentConfigAttribute) (\<lambda>config.
     (let model = modelForCall config (mcpKind input) in
     bindTx (liftTx (modelProvider model)) (\<lambda>provider'.
     if provider' \<noteq> ProviderOpenAI \<and> provider' \<noteq> ProviderMock
     then throwTx (Errorf ''model hooks require an exact-usage provider, got %q'' [ArgStr (providerText provider')])
     else let callID = modelCallID ef ctx (mcpKind input) in
     bindTx (liftTx (efBeforeModelCall ef (cxFlowID ctx) callID model (mcpKind input = KindCompaction))) (\<lambda>admitted.
     if \<not> admitted
     then bindTx (writeActivity (event ModelFailed ''Model call was not admitted.'')) (\<lambda>_. returnTx (goTo AwaitUser))
     else returnTx (goTo (CallModelWithHooks
            \<lparr>mciCallID = callID, mciKind = mcpKind input, mciThrough = mcpThrough input\<rparr>)))))))"

definition callCompactionModel :: "effects \<Rightarrow> ctx \<Rightarrow> string \<Rightarrow> int \<Rightarrow> modelCallResult action" where
  "callCompactionModel ef ctx callID through =
     bindTx (requestSummary ef ctx callID through) (\<lambda>summary.
     returnTx \<lparr>mresCallID = callID, mresKind = KindCompaction, mresResponse = None,
       mresCompaction = Some \<lparr>mcrSummary = summary, mcrThrough = through\<rparr>\<rparr>)"

definition callResponseModel :: "flow \<Rightarrow> effects \<Rightarrow> ctx \<Rightarrow> string \<Rightarrow> modelCallResult action" where
  "callResponseModel flow ef ctx callID =
     bindTx (requestResponse flow ef ctx callID) (\<lambda>(reply, usage, sequence).
     if emptyReply reply then throwTx (New ''the model returned no content or tool calls'')
     else
     bindTx (attrSet modelUsageAttribute usage) (\<lambda>_.
     bindTx (modelCompleted ef ctx reply sequence) (\<lambda>_.
     returnTx \<lparr>mresCallID = callID, mresKind = KindResponse,
       mresResponse = Some \<lparr>mrrReply = reply, mrrStartedAt = cxFirstAttemptAt ctx, mrrExpectedSequence = sequence\<rparr>,
       mresCompaction = None\<rparr>)))"

definition callModelWithHooksExecute :: "flow \<Rightarrow> effects \<Rightarrow> ctx \<Rightarrow> modelCallInput \<Rightarrow> decision action" where
  "callModelWithHooksExecute flow ef ctx input =
     bindTx (case mciKind input of
         KindResponse \<Rightarrow> callResponseModel flow ef ctx (mciCallID input)
       | KindCompaction \<Rightarrow> callCompactionModel ef ctx (mciCallID input) (mciThrough input)) (\<lambda>result.
     returnTx (goTo (AfterModelCall result)))"

definition afterModelCallExecute :: "flow \<Rightarrow> effects \<Rightarrow> ctx \<Rightarrow> modelCallResult \<Rightarrow> decision action" where
  "afterModelCallExecute flow ef ctx input =
     (if \<not> fHasModelHooks flow then throwTx (New ''model hooks are not configured'') else
     bindTx (attrGet modelUsageAttribute) (\<lambda>usage.
     bindTx (liftTx (efAfterModelCall ef (cxFlowID ctx) (mresCallID input) usage)) (\<lambda>_.
     returnTx (goTo (ApplyModelResult input)))))"

definition applyResponseModelResult :: "ctx \<Rightarrow> modelResponseResult \<Rightarrow> continuation action" where
  "applyResponseModelResult ctx result =
     bindTx (appendReply ctx (mrrReply result) (mrrStartedAt result) (mrrExpectedSequence result)) (\<lambda>_.
     afterReply (mrrReply result))"

definition applyModelResultExecute :: "ctx \<Rightarrow> modelCallResult \<Rightarrow> decision action" where
  "applyModelResultExecute ctx input =
     (case mresKind input of
        KindResponse \<Rightarrow>
          (case (mresResponse input, mresCompaction input) of
             (Some response, None) \<Rightarrow>
               bindTx (applyResponseModelResult ctx response) (\<lambda>next. returnTx (goTo (CheckSteered next)))
           | _ \<Rightarrow> throwTx (New ''response model result is invalid''))
      | KindCompaction \<Rightarrow>
          (case (mresCompaction input, mresResponse input) of
             (Some compaction, None) \<Rightarrow>
               bindTx (applyCompactionModelResult compaction) (\<lambda>next. returnTx (goTo (CheckSteered next)))
           | _ \<Rightarrow> throwTx (New ''compaction model result is invalid'')))"

end
