(* ===== verification/ToolSteps.thy ===== *)
theory ToolSteps
  imports ModelSteps
begin

text \<open>
  The Steps of \<^verbatim>\<open>internal/agent/flow.go\<close> that route and execute tool calls: the built-in tools,
  approval, serial execution, parallel batches and their join, and manual recovery.
\<close>

section \<open>After a tool call\<close>

definition continueAfterTool :: "decision action" where
  "continueAfterTool =
     bindTx hasNextToolCall (\<lambda>hasNext.
     if hasNext
     then bindTx advanceTool (\<lambda>_. returnTx (goTo (CheckSteered ContinueRouteTool)))
     else bindTx clearPendingToolCalls (\<lambda>_. returnTx (goTo (CheckSteered ContinueCompactContext))))"

definition failedResult :: "toolErrorCode \<Rightarrow> toolExecutionResult" where
  "failedResult code = encodeToolResult ((payload StatusFailed) \<lparr>plError := Some code\<rparr>) OutcomeKnownFailure True"

text \<open>A built-in call that failed: its result is appended and the sequence goes on.\<close>

definition answerCall :: "ctx \<Rightarrow> toolCall \<Rightarrow> toolExecutionResult \<Rightarrow> decision action" where
  "answerCall ctx call result = bindTx (appendToolResult ctx call result None) (\<lambda>_. continueAfterTool)"

definition callEvent :: "eventKind \<Rightarrow> string \<Rightarrow> toolCall \<Rightarrow> agentEvent" where
  "callEvent kind message call =
     (event kind message) \<lparr>evCallID := Some (tcID call), evToolName := Some (tcName call)\<rparr>"

section \<open>Parallel batches\<close>

fun parallelRecords :: "flow \<Rightarrow> agentConfig \<Rightarrow> agentState \<Rightarrow> int \<Rightarrow> toolCall list \<Rightarrow> int \<Rightarrow>
    (toolBatchRecord \<times> toolDefinition) list result" where
  "parallelRecords flow config state i [] limit = Inr []"
| "parallelRecords flow config state i (call # calls) limit =
     (if limit \<le> 0 then Inr [] else
      case invocationToolDefinition flow config state (tcName call) of
        Inl e \<Rightarrow> Inr []
      | Inr definition' \<Rightarrow>
        if tdRequiresApproval definition' \<or> \<not> tdSupportsParallel definition' then Inr []
        else (case validateToolExecutionPolicy definition' of
            Inl e \<Rightarrow> Inl (Errorf ''tool %q: %w'' [ArgStr (tdName definition'), ArgErr e])
          | Inr _ \<Rightarrow>
            (case parallelRecords flow config state (i + 1) calls (limit - 1) of
               Inl e \<Rightarrow> Inl e
             | Inr rest \<Rightarrow> Inr ((\<lparr>tbrIndex = i, tbrCall = call, tbrResult = None, tbrHasResult = False,
                 tbrErrorType = [], tbrPolicy = effectivePolicy (tdRetryExhaustionPolicy definition'),
                 tbrTiming = noTiming\<rparr>, definition') # rest))))"

definition batchIDFor :: "agentState \<Rightarrow> int \<Rightarrow> string" where
  "batchIDFor state start = ''tool-batch-'' @ showInt (stLastSequence state) @ ''-'' @ showInt start"

definition branchMovement :: "string \<Rightarrow> toolBatchRecord \<Rightarrow> retryExhaustionPolicy \<Rightarrow> toolDefinition \<Rightarrow> stepMovement" where
  "branchMovement instance' record' policy definition' =
     (ExecuteParallelTool \<lparr>ptiResultInstance = instance', ptiIndex = tbrIndex record', ptiCall = tbrCall record',
        ptiPolicy = policy\<rparr>, Some (parallelToolStepOptions definition'))"

definition parallelToolMovements :: "flow \<Rightarrow> agentConfig \<Rightarrow> agentState \<Rightarrow> stepMovement list option result" where
  "parallelToolMovements flow config state =
     (let limit = effectiveMaxParallelToolCalls config; start = stPendingToolIndex state in
      if limit \<le> 1 then Inr None
      else if start < 0 then Inl (RuntimePanic ''index out of range'')
      else case parallelRecords flow config state start (drop (nat start) (stPendingToolCalls state)) limit of
        Inl e \<Rightarrow> Inl e
      | Inr pairs \<Rightarrow>
        if length pairs < 2 then Inr None
        else let batchID = batchIDFor state start;
                 batch = \<lparr>tbBatchID = batchID, tbFirstIndex = start, tbRecords = map fst pairs, tbRecoveryRevision = 0\<rparr>
          in Inr (Some ((AwaitParallelToolResults \<lparr>apiBatch = batch, apiResultInstance = batchID,
                  apiExpectedCount = int (length pairs)\<rparr>, None) #
               map (\<lambda>(r, d). branchMovement batchID r (tbrPolicy r) d) pairs)))"

section \<open>Routing a call\<close>

definition routeWriteTodos :: "flow \<Rightarrow> ctx \<Rightarrow> agentState \<Rightarrow> toolCall \<Rightarrow> decision action" where
  "routeWriteTodos flow ctx state call =
     (if length (filter (\<lambda>c. tcName c = toolNameWriteTodos) (stPendingToolCalls state)) > 1
      then answerCall ctx call (failedResult ErrMultiplePlanWrites)
      else case planTasksOf flow call of
        Inl e \<Rightarrow>
     bindTx (attrSet agentStateAttribute (state \<lparr>stPlanningRequiresWrite := False, stPlanningAllowsWrite := True\<rparr>)) (\<lambda>_.
     answerCall ctx call (encodeToolResult ((payload StatusFailed) \<lparr>plError := Some ErrInvalidPlan,
       plMessage := fErrorText flow e\<rparr>) OutcomeKnownFailure True))
      | Inr tasks \<Rightarrow>
     bindTx (replacePlan tasks) (\<lambda>revision.
     answerCall ctx call (encodeToolResult ((payload (if tasks = [] then StatusCleared else StatusUpdated))
       \<lparr>plRevision := revision, plTaskCount := int (length tasks)\<rparr>) OutcomeSucceeded False)))"

definition routeDurableWait :: "flow \<Rightarrow> ctx \<Rightarrow> toolCall \<Rightarrow> decision action" where
  "routeDurableWait flow ctx call =
     (case durableWaitArgumentsFor flow call of
        Inl e \<Rightarrow> answerCall ctx call (encodeToolResult ((payload StatusFailed) \<lparr>plError := Some ErrInvalidDuration,
                   plMessage := fErrorText flow e\<rparr>) OutcomeKnownFailure True)
      | Inr (durationSeconds, reason) \<Rightarrow>
     bindTx (attrSet pendingTimerAttribute \<lparr>ptmCallID = tcID call, ptmDurationSeconds = durationSeconds,
       ptmReason = reason, ptmStartedAt = Some (cxFirstAttemptAt ctx)\<rparr>) (\<lambda>_.
     bindTx (writeActivity (callEvent TimerStarted ''Durable timer started.'' call)) (\<lambda>_.
     returnTx (goTo (CheckSteered ContinueDurableWait)))))"

definition routeRequestUserInput :: "flow \<Rightarrow> ctx \<Rightarrow> toolCall \<Rightarrow> decision action" where
  "routeRequestUserInput flow ctx call =
     bindTx getPendingUserInput (\<lambda>pendingInput.
     if pendingInput \<noteq> None then answerCall ctx call (failedResult ErrUserInputPending)
     else case userInputArgumentsFor flow call of
       Inl e \<Rightarrow> answerCall ctx call (encodeToolResult ((payload StatusFailed) \<lparr>plError := Some ErrInvalidUserInput,
                  plMessage := fErrorText flow e\<rparr>) OutcomeKnownFailure True)
     | Inr questions \<Rightarrow>
     bindTx (attrSet pendingUserInputAttribute \<lparr>puiCallID = tcID call, puiQuestions = questions,
       puiStartedAt = Some (cxFirstAttemptAt ctx)\<rparr>) (\<lambda>_.
     bindTx (appendToolResultAndCancelRemaining ctx call
       (encodeToolResult ((payload StatusWaitingForUser) \<lparr>plQuestions := questions\<rparr>) OutcomeSucceeded False)
       ErrSupersededByUserInput) (\<lambda>_.
     bindTx (writeActivity (callEvent UserInputRequested
       (''Requested answers to '' @ showNat (length questions) @ '' question(s).'') call)) (\<lambda>_.
     returnTx (goTo AwaitUser)))))"

definition routeExternal :: "flow \<Rightarrow> ctx \<Rightarrow> agentConfig \<Rightarrow> agentState \<Rightarrow> toolCall \<Rightarrow> toolDefinition \<Rightarrow> decision action" where
  "routeExternal flow ctx config state call definition' =
     bindTx (liftTx (parallelToolMovements flow config state)) (\<lambda>movements.
     case movements of
       Some ms \<Rightarrow> bindTx (updateStatus ExecutingTool) (\<lambda>_. returnTx (GoTo ms))
     | None \<Rightarrow>
       if tdRequiresApproval definition'
       then
     bindTx (attrSet pendingApprovalAttribute \<lparr>paCallID = tcID call, paToolName = tcName call,
       paArguments = tcArguments call, paStartedAt = Some (cxFirstAttemptAt ctx)\<rparr>) (\<lambda>_.
     bindTx (writeActivity (callEvent ToolApprovalRequested ''Tool approval requested.'' call)) (\<lambda>_.
     returnTx (goTo (CheckSteered ContinueAwaitToolApproval))))
       else returnTx (goTo (CheckSteered ContinueExecuteTool)))"

definition routeToolExecute :: "flow \<Rightarrow> ctx \<Rightarrow> decision action" where
  "routeToolExecute flow ctx =
     bindTx (updateStatus RoutingTool) (\<lambda>_.
     bindTx currentToolCall (\<lambda>call.
     bindTx (attrGet agentConfigAttribute) (\<lambda>config.
     bindTx (attrGet agentStateAttribute) (\<lambda>state.
     case invocationToolDefinition flow config state (tcName call) of
       Inl e \<Rightarrow> answerCall ctx call (encodeToolResult ((payload StatusFailed) \<lparr>plError := Some ErrUnknownOrDisabled,
                  plTool := tcName call\<rparr>) OutcomeKnownFailure True)
     | Inr definition' \<Rightarrow>
       if tcName call = toolNameWriteTodos then routeWriteTodos flow ctx state call
       else if tcName call = toolNameDurableWait then routeDurableWait flow ctx call
       else if tcName call = toolNameRequestUserInput then routeRequestUserInput flow ctx call
       else routeExternal flow ctx config state call definition'))))"

section \<open>Approval\<close>

definition awaitToolApprovalWaitFor :: "wait action" where
  "awaitToolApprovalWaitFor =
     bindTx currentToolCall (\<lambda>call.
     bindTx (updateStatus WaitingForToolApproval) (\<lambda>_.
     bindTx writeSnapshotRequired (\<lambda>_.
     returnTx (AnyOf [SteeredAtLeastAtMost 1 maximumSteeringMessageCount, ApprovalsForOne (tcID call)]))))"

definition awaitToolApprovalExecute :: "ctx \<Rightarrow> conditions \<Rightarrow> decision action" where
  "awaitToolApprovalExecute ctx cn =
     (if cnSteered cn \<noteq> []
      then bindTx (beginSteeredTurn ctx (cnSteered cn)) (\<lambda>_. returnTx (goTo (CheckSteered ContinueCompactContext)))
      else
     bindTx currentToolCall (\<lambda>call.
     case cnApprovals cn (tcID call) of
       [] \<Rightarrow> throwTx (New ''the approval wait completed without a decision'')
     | approved # _ \<Rightarrow>
     bindTx (writeActivity (callEvent ToolApprovalResolved
       (if approved then ''Tool approval granted.'' else ''Tool approval rejected.'') call)) (\<lambda>_.
     bindTx (deletePresent pendingApprovalAttribute) (\<lambda>_.
     if approved then returnTx (goTo (CheckSteered ContinueExecuteTool))
     else answerCall ctx call (failedResult ErrRejectedByUser)))))"

section \<open>Finishing a batch\<close>

definition toolTerminalEvent :: "toolCall \<Rightarrow> toolExecutionResult \<Rightarrow> agentEvent" where
  "toolTerminalEvent call result =
     (if terOutcome result = OutcomeSucceeded
      then callEvent ToolCompleted (''Completed '' @ tcName call @ ''.'') call
      else if terOutcome result = OutcomeUnknown
      then callEvent ToolFailed (tcName call @ '' completed with an unknown outcome.'') call
      else callEvent ToolFailed (tcName call @ '' returned a known failure.'') call)"

definition writeToolTerminalActivity :: "toolCall \<Rightarrow> toolExecutionResult \<Rightarrow> unit action" where
  "writeToolTerminalActivity call result = writeActivity (toolTerminalEvent call result)"

fun appendRecords :: "ctx \<Rightarrow> int \<Rightarrow> toolBatchRecord list \<Rightarrow> unit action" where
  "appendRecords ctx expected [] = returnTx ()"
| "appendRecords ctx expected (r # rs) =
     (case (if tbrHasResult r \<and> tbrIndex r = expected then tbrResult r else None) of
        None \<Rightarrow> throwTx (New ''tool batch results are incomplete or out of order'')
      | Some result \<Rightarrow>
        (case validateToolOutcome (terOutcome result) of
           Inl e \<Rightarrow> throwTx (Errorf ''tool %q outcome: %w'' [ArgStr (tcName (tbrCall r)), ArgErr e])
         | Inr _ \<Rightarrow>
     bindTx (appendToolResult ctx (tbrCall r) result (Some (tbrTiming r))) (\<lambda>_.
     bindTx (writeToolTerminalActivity (tbrCall r) result) (\<lambda>_.
     appendRecords ctx (expected + 1) rs))))"

definition appendToolBatchResults :: "ctx \<Rightarrow> toolBatchState \<Rightarrow> unit action" where
  "appendToolBatchResults ctx batch = appendRecords ctx (tbFirstIndex batch) (sort_key tbrIndex (tbRecords batch))"

text \<open>The cursor moves past \<open>n\<close> answered calls; the sequence ends when none is left.\<close>

definition advanceCursor :: "int \<Rightarrow> agentState \<Rightarrow> continuation action" where
  "advanceCursor n state =
     (let next = stPendingToolIndex state + n in
      if next < int (length (stPendingToolCalls state))
      then bindTx (attrSet agentStateAttribute (state \<lparr>stPendingToolIndex := next\<rparr>)) (\<lambda>_.
           returnTx ContinueRouteTool)
      else bindTx (attrSet agentStateAttribute (state \<lparr>stPendingToolCalls := [], stPendingToolIndex := 0\<rparr>)) (\<lambda>_.
           returnTx ContinueCompactContext))"

definition finishToolBatch :: "ctx \<Rightarrow> toolBatchState \<Rightarrow> continuation action" where
  "finishToolBatch ctx batch =
     bindTx (appendToolBatchResults ctx batch) (\<lambda>_.
     bindTx (attrGet agentStateAttribute) (\<lambda>state.
     if stPendingToolIndex state \<noteq> tbFirstIndex batch
     then throwTx (New ''tool batch no longer matches the pending cursor'')
     else advanceCursor (int (length (tbRecords batch))) state))"

definition finishToolExecution :: "ctx \<Rightarrow> toolCall \<Rightarrow> toolExecutionResult \<Rightarrow> toolMessageTiming option \<Rightarrow>
    continuation action" where
  "finishToolExecution ctx call result timing =
     bindTx (attrGet agentStateAttribute) (\<lambda>state.
     finishToolBatch ctx \<lparr>tbBatchID = [], tbFirstIndex = stPendingToolIndex state,
       tbRecords = [\<lparr>tbrIndex = stPendingToolIndex state, tbrCall = call, tbrResult = Some result,
         tbrHasResult = True, tbrErrorType = [], tbrPolicy = OtherPolicy [],
         tbrTiming = (case timing of None \<Rightarrow> noTiming | Some t \<Rightarrow> t)\<rparr>],
       tbRecoveryRevision = 0\<rparr>)"

section \<open>Serial execution\<close>

definition simulatedToolFailure :: goError where
  "simulatedToolFailure = External ''simulatedToolFailureError''"

definition executeTool :: "effects \<Rightarrow> toolInvocation \<Rightarrow> toolExecutionResult result" where
  "executeTool ef invocation =
     (if tiName invocation = toolNameSimulateFailure then Inl simulatedToolFailure else efExecuteTool ef invocation)"

definition toolProgressMessage :: "string \<Rightarrow> string \<Rightarrow> string" where
  "toolProgressMessage tool message =
     (if trimSpace message = [] then ''Running '' @ tool @ ''.'' else condenseActivityMessage message)"

definition writeProgress :: "effects \<Rightarrow> ctx \<Rightarrow> toolCall \<Rightarrow> string \<Rightarrow> unit action" where
  "writeProgress ef ctx call message =
     bindTx (recordHeartbeat ef) (\<lambda>_.
     writeActivity ((callEvent ToolProgress (toolProgressMessage (tcName call) message) call)
       \<lparr>evAttempt := Some (cxAttempt ctx)\<rparr>))"

text \<open>One attempt of a call: its definition, the progress it reports and its valid result.\<close>

definition invokeTool :: "flow \<Rightarrow> effects \<Rightarrow> ctx \<Rightarrow> toolCall \<Rightarrow> (toolDefinition \<times> toolExecutionResult) action" where
  "invokeTool flow ef ctx call =
     bindTx (attrGet agentConfigAttribute) (\<lambda>config.
     bindTx (attrGet agentStateAttribute) (\<lambda>state.
     bindTx (liftTx (invocationToolDefinition flow config state (tcName call))) (\<lambda>definition'.
     bindTx (getOptional (attrGet runtimeMetadataAttribute)) (\<lambda>metadata.
     bindTx (writeProgress ef ctx call
       (''Calling '' @ tcName call @ '' (attempt '' @ showInt (cxAttempt ctx) @ '').'')) (\<lambda>_.
     bindTx (forTx (efToolProgress ef) (writeProgress ef ctx call)) (\<lambda>_.
     case executeTool ef \<lparr>tiFlowID = cxFlowID ctx,
       tiRuntimeMetadata = (case metadata of None \<Rightarrow> ''{}'' | Some m \<Rightarrow> m), tiName = tcName call,
       tiArguments = tcArguments call, tiEnabledServers = cfgEnabledMCPServers config, tiCallID = tcID call,
       tiAttempt = cxAttempt ctx, tiFirstAttemptAt = cxFirstAttemptAt ctx\<rparr> of
       Inl e \<Rightarrow> throwTx (Errorf ''execute tool %q: %w'' [ArgStr (tcName call), ArgErr e])
     | Inr result \<Rightarrow>
       (case validateToolOutcome (terOutcome result) of
          Inl e \<Rightarrow> throwTx (Errorf ''tool %q outcome: %w'' [ArgStr (tcName call), ArgErr e])
        | Inr _ \<Rightarrow> returnTx (definition', result))))))))"

definition executeToolExecute :: "flow \<Rightarrow> effects \<Rightarrow> ctx \<Rightarrow> decision action" where
  "executeToolExecute flow ef ctx =
     bindTx (updateStatus ExecutingTool) (\<lambda>_.
     bindTx currentToolCall (\<lambda>call.
     bindTx (invokeTool flow ef ctx call) (\<lambda>(definition', result).
     if terOutcome result = OutcomeUnknown \<and>
        effectivePolicy (tdRetryExhaustionPolicy definition') = PolicyManualRecovery
     then returnTx (goTo PrepareManualToolRecovery)
     else if terOutcome result = OutcomeUnknown then returnTx (goTo RecoverToolExecution)
     else bindTx (finishToolExecution ctx call result
            (Some \<lparr>tmtStartedAt = cxFirstAttemptAt ctx, tmtCompletedAt = cxNow ctx\<rparr>)) (\<lambda>next.
          returnTx (goTo (CheckSteered next))))))"

definition unknownToolResult :: "string \<Rightarrow> toolExecutionResult" where
  "unknownToolResult errorType = encodeToolResult ((payload StatusFailed) \<lparr>plOutcome := Some OutcomeUnknown,
     plErrorType := errorType\<rparr>) OutcomeUnknown True"

definition recoveryErrorType :: "effects \<Rightarrow> string" where
  "recoveryErrorType ef = (case efRecoveryErrorType ef of None \<Rightarrow> ''tool_reported_unknown'' | Some t \<Rightarrow> t)"

definition recoverToolExecutionExecute :: "effects \<Rightarrow> ctx \<Rightarrow> decision action" where
  "recoverToolExecutionExecute ef ctx =
     bindTx currentToolCall (\<lambda>call.
     bindTx (finishToolExecution ctx call (unknownToolResult (recoveryErrorType ef)) None) (\<lambda>next.
     returnTx (goTo (CheckSteered next))))"

section \<open>Parallel execution\<close>

definition executeParallelToolExecute :: "flow \<Rightarrow> effects \<Rightarrow> ctx \<Rightarrow> parallelToolInput \<Rightarrow> decision action" where
  "executeParallelToolExecute flow ef ctx input =
     bindTx (invokeTool flow ef ctx (ptiCall input)) (\<lambda>(definition', result).
     if terOutcome result = OutcomeUnknown then returnTx (goTo (RecoverParallelToolExecution input))
     else
     bindTx (publishTo parallelToolResultsChannel (ptiResultInstance input) \<lparr>presIndex = ptiIndex input,
       presCall = ptiCall input, presResult = result, presErrorType = [],
       presPolicy = effectivePolicy (ptiPolicy input),
       presTiming = \<lparr>tmtStartedAt = cxFirstAttemptAt ctx, tmtCompletedAt = cxNow ctx\<rparr>\<rparr>) (\<lambda>_.
     returnTx DeadEnd))"

definition recoverParallelToolExecutionExecute :: "effects \<Rightarrow> parallelToolInput \<Rightarrow> decision action" where
  "recoverParallelToolExecutionExecute ef input =
     bindTx (publishTo parallelToolResultsChannel (ptiResultInstance input) \<lparr>presIndex = ptiIndex input,
       presCall = ptiCall input, presResult = unknownToolResult (recoveryErrorType ef),
       presErrorType = recoveryErrorType ef, presPolicy = effectivePolicy (ptiPolicy input),
       presTiming = noTiming\<rparr>) (\<lambda>_.
     returnTx DeadEnd)"

definition recordNeedsManualRecovery :: "toolBatchRecord \<Rightarrow> bool" where
  "recordNeedsManualRecovery r \<longleftrightarrow>
     tbrHasResult r \<and> (case tbrResult r of None \<Rightarrow> False | Some x \<Rightarrow> terOutcome x = OutcomeUnknown) \<and>
     effectivePolicy (tbrPolicy r) = PolicyManualRecovery"

definition batchNeedsManualRecovery :: "toolBatchState \<Rightarrow> bool" where
  "batchNeedsManualRecovery batch \<longleftrightarrow> list_ex recordNeedsManualRecovery (tbRecords batch)"

definition awaitParallelWaitFor :: "awaitParallelInput \<Rightarrow> wait action" where
  "awaitParallelWaitFor input =
     returnTx (Until (ParallelResultsForN (apiResultInstance input) (apiExpectedCount input)))"

text \<open>The record a result belongs to is the first one with its index and its call.\<close>

fun placeResult :: "parallelToolResult \<Rightarrow> toolBatchRecord list \<Rightarrow> toolBatchRecord list option" where
  "placeResult p [] = None"
| "placeResult p (r # rs) =
     (if tbrIndex r = presIndex p \<and> tcID (tbrCall r) = tcID (presCall p)
      then Some (r \<lparr>tbrResult := Some (presResult p), tbrHasResult := True, tbrErrorType := presErrorType p,
                   tbrPolicy := effectivePolicy (presPolicy p), tbrTiming := presTiming p\<rparr> # rs)
      else map_option ((#) r) (placeResult p rs))"

fun joinResults :: "parallelToolResult list \<Rightarrow> int list \<Rightarrow> toolBatchRecord list \<Rightarrow> toolBatchRecord list result" where
  "joinResults [] seen records = Inr records"
| "joinResults (p # ps) seen records =
     (if presIndex p \<in> set seen
      then Inl (Errorf ''parallel tool result index %d is duplicated'' [ArgInt (presIndex p)])
      else case placeResult p records of
        None \<Rightarrow> Inl (Errorf ''unexpected parallel tool result for call %q'' [ArgStr (tcID (presCall p))])
      | Some records' \<Rightarrow> joinResults ps (presIndex p # seen) records')"

definition awaitParallelExecute :: "ctx \<Rightarrow> conditions \<Rightarrow> awaitParallelInput \<Rightarrow> decision action" where
  "awaitParallelExecute ctx cn input =
     (let results = cnParallel cn (apiResultInstance input) in
      if int (length results) \<noteq> apiExpectedCount input
      then throwTx (New ''parallel tool wait completed without every result'')
      else
     bindTx (liftTx (joinResults results [] (tbRecords (apiBatch input)))) (\<lambda>records.
     (let batch = (apiBatch input) \<lparr>tbRecords := records\<rparr> in
     if batchNeedsManualRecovery batch
     then returnTx (goTo (AwaitManualToolRecovery
            (batch \<lparr>tbRecoveryRevision := (if tbRecoveryRevision batch = 0 then 1 else tbRecoveryRevision batch)\<rparr>)))
     else bindTx (finishToolBatch ctx batch) (\<lambda>next. returnTx (goTo (CheckSteered next))))))"

section \<open>Manual recovery\<close>

definition recoveryIDFor :: "toolBatchState \<Rightarrow> string" where
  "recoveryIDFor batch = tbBatchID batch @ ''-recovery-'' @ showInt (tbRecoveryRevision batch)"

definition pendingRecoveryOf :: "toolBatchState \<Rightarrow> pendingToolRecovery" where
  "pendingRecoveryOf batch = \<lparr>ptrRecoveryID = recoveryIDFor batch,
     ptrCalls = map (\<lambda>r. \<lparr>ptrcCallID = tcID (tbrCall r), ptrcToolName = tcName (tbrCall r),
         ptrcArguments = tcArguments (tbrCall r), ptrcErrorType = tbrErrorType r\<rparr>)
       (filter recordNeedsManualRecovery (tbRecords batch)),
     ptrStartedAt = None\<rparr>"

definition prepareManualToolRecoveryExecute :: "effects \<Rightarrow> decision action" where
  "prepareManualToolRecoveryExecute ef =
     bindTx currentToolCall (\<lambda>call.
     bindTx (attrGet agentStateAttribute) (\<lambda>state.
     (let errorType = recoveryErrorType ef; start = stPendingToolIndex state in
     returnTx (goTo (AwaitManualToolRecovery \<lparr>tbBatchID = batchIDFor state start, tbFirstIndex = start,
       tbRecords = [\<lparr>tbrIndex = start, tbrCall = call, tbrResult = Some (unknownToolResult errorType),
         tbrHasResult = True, tbrErrorType = errorType, tbrPolicy = PolicyManualRecovery, tbrTiming = noTiming\<rparr>],
       tbRecoveryRevision = 1\<rparr>)))))"

definition recoveryEvent :: "eventKind \<Rightarrow> string \<Rightarrow> pendingToolRecoveryCall \<Rightarrow> agentEvent" where
  "recoveryEvent kind message call =
     (event kind message) \<lparr>evCallID := Some (ptrcCallID call), evToolName := Some (ptrcToolName call)\<rparr>"

definition awaitManualWaitFor :: "ctx \<Rightarrow> toolBatchState \<Rightarrow> wait action" where
  "awaitManualWaitFor ctx batch =
     (let pending = (pendingRecoveryOf batch) \<lparr>ptrStartedAt := Some (cxFirstAttemptAt ctx)\<rparr> in
      case ptrCalls pending of
        [] \<Rightarrow> throwTx (New ''manual tool recovery has no unresolved calls'')
      | first # _ \<Rightarrow>
     bindTx (attrSet pendingToolRecoveryAttribute pending) (\<lambda>_.
     bindTx (updateStatus WaitingForToolRecovery) (\<lambda>_.
     bindTx (writeActivity (recoveryEvent ToolRecoveryRequired
       (''Manual recovery is required for '' @ showNat (length (ptrCalls pending)) @ '' tool call(s).'') first)) (\<lambda>_.
     bindTx writeSnapshotRequired (\<lambda>_.
     returnTx (AnyOf [SteeredAtLeastAtMost 1 maximumSteeringMessageCount,
       RecoveryDecisionsForOne (ptrRecoveryID pending)]))))))"

definition stopToolSequenceAfterBatch :: "ctx \<Rightarrow> toolBatchState \<Rightarrow> unit action" where
  "stopToolSequenceAfterBatch ctx batch =
     bindTx (appendToolBatchResults ctx batch) (\<lambda>_.
     bindTx (attrGet agentStateAttribute) (\<lambda>state.
     (let start = tbFirstIndex batch + int (length (tbRecords batch)) in
     if start < 0 \<or> start > int (length (stPendingToolCalls state))
     then throwTx (New ''manual recovery batch exceeds pending tool calls'')
     else
     bindTx (attrSet agentStateAttribute (state \<lparr>stPendingToolCalls := [], stPendingToolIndex := 0\<rparr>)) (\<lambda>_.
     forTx (drop (nat start) (stPendingToolCalls state)) (\<lambda>call.
       bindTx (appendToolResult ctx call (interruptedResult ErrStoppedByRecovery) None) (\<lambda>_.
       writeToolTerminalActivity call (interruptedResult ErrStoppedByRecovery)))))))"

text \<open>The decision of each unresolved record: retried, or kept as an unknown outcome.\<close>

definition decideRecord :: "(string \<Rightarrow> recoveryAction option) \<Rightarrow> toolBatchRecord \<Rightarrow> toolBatchRecord" where
  "decideRecord decisions r =
     (if \<not> recordNeedsManualRecovery r then r
      else if decisions (tcID (tbrCall r)) = Some ActionRetry
      then r \<lparr>tbrResult := None, tbrHasResult := False, tbrErrorType := []\<rparr>
      else r \<lparr>tbrPolicy := PolicyContinueWithUnknown\<rparr>)"

definition retriedRecords :: "(string \<Rightarrow> recoveryAction option) \<Rightarrow> toolBatchRecord list \<Rightarrow> toolBatchRecord list" where
  "retriedRecords decisions records = map (decideRecord decisions)
     (filter (\<lambda>r. recordNeedsManualRecovery r \<and> decisions (tcID (tbrCall r)) = Some ActionRetry) records)"

fun retryMovements :: "flow \<Rightarrow> agentConfig \<Rightarrow> agentState \<Rightarrow> string \<Rightarrow> toolBatchRecord list \<Rightarrow> stepMovement list result" where
  "retryMovements flow config state instance' [] = Inr []"
| "retryMovements flow config state instance' (r # rs) =
     (case invocationToolDefinition flow config state (tcName (tbrCall r)) of
        Inl e \<Rightarrow> Inl e
      | Inr definition' \<Rightarrow>
        (case retryMovements flow config state instance' rs of
           Inl e \<Rightarrow> Inl e
         | Inr ms \<Rightarrow> Inr (branchMovement instance' r PolicyManualRecovery definition' # ms)))"

definition resumeBatch :: "flow \<Rightarrow> ctx \<Rightarrow> toolBatchState \<Rightarrow> toolRecoveryDecision list \<Rightarrow> decision action" where
  "resumeBatch flow ctx batch requested =
     (let decisions = map_of (rev (map (\<lambda>d. (trdCallID d, trdAction d)) requested));
          retries = retriedRecords decisions (tbRecords batch);
          batch = batch \<lparr>tbRecords := map (decideRecord decisions) (tbRecords batch)\<rparr> in
      if retries = []
      then bindTx (finishToolBatch ctx batch) (\<lambda>next. returnTx (goTo (CheckSteered next)))
      else let batch = batch \<lparr>tbRecoveryRevision := tbRecoveryRevision batch + 1\<rparr>;
               instance' = tbBatchID batch @ ''-retry-'' @ showInt (tbRecoveryRevision batch) in
     bindTx (attrGet agentConfigAttribute) (\<lambda>config.
     bindTx (attrGet agentStateAttribute) (\<lambda>state.
     bindTx (liftTx (retryMovements flow config state instance' retries)) (\<lambda>branches.
     bindTx (updateStatus ExecutingTool) (\<lambda>_.
     returnTx (GoTo ((AwaitParallelToolResults \<lparr>apiBatch = batch, apiResultInstance = instance',
       apiExpectedCount = int (length retries)\<rparr>, None) # branches)))))))"

definition awaitManualExecute :: "flow \<Rightarrow> ctx \<Rightarrow> conditions \<Rightarrow> toolBatchState \<Rightarrow> decision action" where
  "awaitManualExecute flow ctx cn batch =
     (case ptrCalls (pendingRecoveryOf batch) of
        [] \<Rightarrow> throwTx (New ''manual tool recovery has no unresolved calls'')
      | first # _ \<Rightarrow>
        if cnSteered cn \<noteq> []
        then
     bindTx (writeActivity (recoveryEvent ToolRecoveryResolved ''Manual tool recovery was interrupted by steering.'' first)) (\<lambda>_.
     bindTx (deletePresent pendingToolRecoveryAttribute) (\<lambda>_.
     bindTx (appendToolBatchResults ctx batch) (\<lambda>_.
     bindTx (attrGet agentStateAttribute) (\<lambda>state.
     bindTx (attrSet agentStateAttribute
       (state \<lparr>stPendingToolIndex := tbFirstIndex batch + int (length (tbRecords batch))\<rparr>)) (\<lambda>_.
     bindTx (beginSteeredTurn ctx (cnSteered cn)) (\<lambda>_.
     returnTx (goTo (CheckSteered ContinueCompactContext))))))))
        else case cnRecovery cn (recoveryIDFor batch) of
          [request] \<Rightarrow>
     bindTx (liftTx (validateRecoveryResolution (pendingRecoveryOf batch) request)) (\<lambda>_.
     bindTx (writeActivity (recoveryEvent ToolRecoveryResolved
       (''Resolved manual tool recovery '' @ recoveryResolutionText (rtrResolution request) @ ''.'') first)) (\<lambda>_.
     if rtrResolution request = ResolutionStop
     then bindTx (stopToolSequenceAfterBatch ctx batch) (\<lambda>_. returnTx (goTo AwaitUser))
     else resumeBatch flow ctx batch (rtrDecisions request)))
        | _ \<Rightarrow> throwTx (New ''manual recovery wait completed without one decision''))"

end
