(* ===== verification/TimerSteps.thy ===== *)
theory TimerSteps
  imports ToolSteps
begin

text \<open>
  The Steps of \<^verbatim>\<open>internal/agent/flow.go\<close> that wait for time (\<^verbatim>\<open>durableWaitStep\<close>,
  \<^verbatim>\<open>inactivityTimeoutStep\<close>), and the dispatch of a movement to the methods of its Step.
\<close>

section \<open>Durable wait\<close>

definition durableWaitWaitFor :: "flow \<Rightarrow> wait action" where
  "durableWaitWaitFor flow =
     bindTx (attrGet pendingTimerAttribute) (\<lambda>timer.
     bindTx (updateStatus WaitingForTimer) (\<lambda>_.
     bindTx writeSnapshotRequired (\<lambda>_.
     bindTx (attrGet agentConfigAttribute) (\<lambda>config.
     bindTx ((if cfgInactivityTimeoutSeconds config > 0
      then (case ptmStartedAt timer of
          None \<Rightarrow> throwTx (New ''durable timer start is missing'')
        | Some startedAt \<Rightarrow>
          let waitTarget = timeAdd startedAt (seconds (ptmDurationSeconds timer));
              resetTarget = timeAdd waitTarget (seconds (cfgInactivityTimeoutSeconds config)) in
          resetInactivityTimer flow resetTarget)
      else returnTx ())) (\<lambda>_.
     returnTx (AnyOf [Timer (seconds (ptmDurationSeconds timer)),
       SteeredAtLeastAtMost 1 maximumSteeringMessageCount]))))))"

definition durableWaitExecute :: "ctx \<Rightarrow> conditions \<Rightarrow> decision action" where
  "durableWaitExecute ctx cn =
     bindTx currentToolCall (\<lambda>call.
     bindTx (attrGet pendingTimerAttribute) (\<lambda>timer.
     bindTx (attrDelete pendingTimerAttribute) (\<lambda>_.
     if cnSteered cn \<noteq> []
     then
     bindTx (writeActivity (callEvent TimerResolved ''Durable timer interrupted.'' call)) (\<lambda>_.
     bindTx (appendToolResultAndCancelRemaining ctx call
       (encodeToolResult ((payload StatusInterrupted) \<lparr>plError := Some ErrSupersededBySteering,
          plReason := ptmReason timer\<rparr>) OutcomeKnownFailure True) ErrSupersededBySteering) (\<lambda>_.
     bindTx (beginSteeredTurn ctx (cnSteered cn)) (\<lambda>_.
     returnTx (goTo (CheckSteered ContinueCompactContext)))))
     else
     bindTx (writeActivity (callEvent TimerResolved ''Durable timer completed.'' call)) (\<lambda>_.
     answerCall ctx call (encodeToolResult ((payload StatusCompleted)
       \<lparr>plDurationSeconds := ptmDurationSeconds timer, plReason := ptmReason timer\<rparr>) OutcomeSucceeded False)))))"

section \<open>Inactivity timeout\<close>

definition inactivityWaitFor :: "ctx \<Rightarrow> goTime \<Rightarrow> wait action" where
  "inactivityWaitFor ctx deadline =
     bindTx (attrGet inactivityDeadlineAttribute) (\<lambda>currentDeadline.
     bindTx (channelSize resetInactivityTimerChannel) (\<lambda>resets.
     if timeAfter currentDeadline deadline \<or> resets > 0
     then returnTx (Until (ResetAtMost maximumSteeringMessageCount))
     else let remaining = timeSub deadline (cxFirstAttemptAt ctx) in
          returnTx (AnyOf [Timer (if remaining \<le> 0 then nanosecond else remaining),
            ResetAtLeastAtMost 1 maximumSteeringMessageCount])))"

definition inactivityExecute :: "flow \<Rightarrow> effects \<Rightarrow> ctx \<Rightarrow> conditions \<Rightarrow> goTime \<Rightarrow> decision action" where
  "inactivityExecute flow ef ctx cn deadline =
     bindTx (attrGet inactivityDeadlineAttribute) (\<lambda>currentDeadline.
     if timeAfter currentDeadline deadline then returnTx (goTo (InactivityTimeout currentDeadline))
     else if cnReset cn \<noteq> [] \<or> \<not> cnTimerFired cn
     then throwTx (New ''inactivity wait completed without a reset or deadline'')
     else if \<not> fHasExpirationHandler flow
     then throwTx (New ''inactivity expiration handler is not configured'')
     else
     bindTx (attrGet runtimeMetadataAttribute) (\<lambda>metadata.
     bindTx (liftTx (efExpiration ef \<lparr>ieFlowID = cxFlowID ctx, ieRunID = cxRunID ctx, ieDeadline = currentDeadline,
       ieRuntimeMetadata = metadata\<rparr>)) (\<lambda>_.
     bindTx clearInactivityDeadline (\<lambda>_.
     bindTx (updateStatus Expiring) (\<lambda>_.
     bindTx (writeActivity (event InactivityExpired ''Agent inactivity timeout expired.'')) (\<lambda>_.
     returnTx (ForceComplete ''inactivity_expired'')))))))"

section \<open>The methods of a movement\<close>

text \<open>A Step with \<^verbatim>\<open>StepDefaultsNoWaitFor\<close> executes at once (\<open>None\<close>).\<close>

fun waitForOf :: "flow \<Rightarrow> ctx \<Rightarrow> stepInput \<Rightarrow> wait action option" where
  "waitForOf flow ctx AwaitUser = Some awaitUserWaitFor"
| "waitForOf flow ctx (CheckSteered k) = Some checkSteeredWaitFor"
| "waitForOf flow ctx AwaitToolApproval = Some awaitToolApprovalWaitFor"
| "waitForOf flow ctx (AwaitParallelToolResults input) = Some (awaitParallelWaitFor input)"
| "waitForOf flow ctx (AwaitManualToolRecovery batch) = Some (awaitManualWaitFor ctx batch)"
| "waitForOf flow ctx DurableWait = Some (durableWaitWaitFor flow)"
| "waitForOf flow ctx (InactivityTimeout deadline) = Some (inactivityWaitFor ctx deadline)"
| "waitForOf flow ctx _ = None"

fun executeOf :: "flow \<Rightarrow> effects \<Rightarrow> ctx \<Rightarrow> conditions \<Rightarrow> stepInput \<Rightarrow> decision action" where
  "executeOf flow ef ctx cn (Init config) = initExecute flow ctx config"
| "executeOf flow ef ctx cn AwaitUser = awaitUserExecute ctx cn"
| "executeOf flow ef ctx cn AnsweredInput = answeredInputExecute flow"
| "executeOf flow ef ctx cn (CompactContext through) = compactContextExecute ef ctx through"
| "executeOf flow ef ctx cn CallModel = callModelExecute flow ef ctx"
| "executeOf flow ef ctx cn (BeforeModelCall input) = beforeModelCallExecute flow ef ctx input"
| "executeOf flow ef ctx cn (CallModelWithHooks input) = callModelWithHooksExecute flow ef ctx input"
| "executeOf flow ef ctx cn (AfterModelCall input) = afterModelCallExecute flow ef ctx input"
| "executeOf flow ef ctx cn (ApplyModelResult input) = applyModelResultExecute ctx input"
| "executeOf flow ef ctx cn (CheckSteered k) = checkSteeredExecute flow ctx cn k"
| "executeOf flow ef ctx cn RouteTool = routeToolExecute flow ctx"
| "executeOf flow ef ctx cn AwaitToolApproval = awaitToolApprovalExecute ctx cn"
| "executeOf flow ef ctx cn ExecuteTool = executeToolExecute flow ef ctx"
| "executeOf flow ef ctx cn RecoverToolExecution = recoverToolExecutionExecute ef ctx"
| "executeOf flow ef ctx cn (ExecuteParallelTool input) = executeParallelToolExecute flow ef ctx input"
| "executeOf flow ef ctx cn (RecoverParallelToolExecution input) = recoverParallelToolExecutionExecute ef input"
| "executeOf flow ef ctx cn (AwaitParallelToolResults input) = awaitParallelExecute ctx cn input"
| "executeOf flow ef ctx cn PrepareManualToolRecovery = prepareManualToolRecoveryExecute ef"
| "executeOf flow ef ctx cn (AwaitManualToolRecovery batch) = awaitManualExecute flow ctx cn batch"
| "executeOf flow ef ctx cn DurableWait = durableWaitExecute ctx cn"
| "executeOf flow ef ctx cn (InactivityTimeout deadline) = inactivityExecute flow ef ctx cn deadline"

end
