(* ===== verification/Readiness.thy ===== *)
theory Readiness
  imports TimerSteps
begin

text \<open>
  What every movement of the Flow needs from the durable state (\<open>ready\<close>), and that every method
  of every Step hands the next movement what it needs: the conversation stays well formed, and
  the Step that runs next finds exactly the open calls it works on. Methods that do not touch the
  conversation are dealt with once, by the frame relation \<open>quiet\<close>.
\<close>

section \<open>Frames\<close>

text \<open>A transaction keeps a relation when every successful run relates its two states.\<close>

definition keeps :: "('s \<Rightarrow> 's \<Rightarrow> bool) \<Rightarrow> ('s, 'a) tx \<Rightarrow> bool" where
  "keeps R m \<longleftrightarrow> (\<forall>s x s'. m s = Inr (x, s') \<longrightarrow> R s s')"

lemma keepsD: "keeps R m \<Longrightarrow> m s = Inr (x, s') \<Longrightarrow> R s s'"
  by (auto simp: keeps_def)

locale frame =
  fixes R :: "'s \<Rightarrow> 's \<Rightarrow> bool"
  assumes refl: "R s s" and trans: "R a b \<Longrightarrow> R b c \<Longrightarrow> R a c"
begin

lemma keeps_return [intro!]: "keeps R (returnTx x)"
  by (simp add: keeps_def refl)

lemma keeps_throw [intro!]: "keeps R (throwTx e)"
  by (simp add: keeps_def)

lemma keeps_read [intro!]: "keeps R (readTx f)"
  by (simp add: keeps_def refl)

lemma keeps_lift [intro!]: "keeps R (liftTx r)"
  by (cases r) (auto simp: keeps_def refl)

lemma keeps_bind [intro!]: "keeps R m \<Longrightarrow> (\<And>x. keeps R (f x)) \<Longrightarrow> keeps R (bindTx m f)"
  unfolding keeps_def bindTx_eq_Inr by (blast intro: trans)

lemma keeps_if [intro!]: "(b \<Longrightarrow> keeps R m) \<Longrightarrow> (\<not> b \<Longrightarrow> keeps R n) \<Longrightarrow> keeps R (if b then m else n)"
  by simp

lemma keeps_option [intro!]:
  "keeps R m \<Longrightarrow> (\<And>x. keeps R (f x)) \<Longrightarrow> keeps R (case v of None \<Rightarrow> m | Some x \<Rightarrow> f x)"
  by (cases v) auto

lemma keeps_sum [intro!]:
  "(\<And>e. keeps R (f e)) \<Longrightarrow> (\<And>x. keeps R (g x)) \<Longrightarrow> keeps R (case v of Inl e \<Rightarrow> f e | Inr x \<Rightarrow> g x)"
  by (cases v) auto

lemma keeps_prod [intro!]: "(\<And>x y. keeps R (f x y)) \<Longrightarrow> keeps R (case p of (x, y) \<Rightarrow> f x y)"
  by (cases p) auto

lemma keeps_list [intro!]:
  "keeps R m \<Longrightarrow> (\<And>x xs. keeps R (f x xs)) \<Longrightarrow> keeps R (case l of [] \<Rightarrow> m | x # xs \<Rightarrow> f x xs)"
  by (cases l) auto

lemma keeps_let [intro!]: "(\<And>x. keeps R (f x)) \<Longrightarrow> keeps R (let x = v in f x)"
  by simp

lemma keeps_forTx [intro!]: "(\<And>x. keeps R (body x)) \<Longrightarrow> keeps R (forTx xs body)"
  by (induction xs) auto

end

text \<open>The conversation, its counters and the pending calls are what they were.\<close>

definition core :: "agentState \<Rightarrow> (int \<times> int \<times> int \<times> int \<times> int) \<times> toolCall list \<times> int" where
  "core st = (counters st, stPendingToolCalls st, stPendingToolIndex st)"

definition quiet :: "store \<Rightarrow> store \<Rightarrow> bool" where
  "quiet s s' \<longleftrightarrow> sCurrent s' = sCurrent s \<and> sArchived s' = sArchived s \<and>
     map_option core (sState s') = map_option core (sState s)"

lemma quiet_refl [simp]: "quiet s s"
  by (simp add: quiet_def)

lemma quiet_trans: "quiet a b \<Longrightarrow> quiet b c \<Longrightarrow> quiet a c"
  by (simp add: quiet_def)

interpretation quiet: frame quiet
  by unfold_locales (auto intro: quiet_trans)

lemma keeps_quietI: "(\<And>s x s'. m s = Inr (x, s') \<Longrightarrow> quiet s s') \<Longrightarrow> keeps quiet m"
  by (auto simp: keeps_def)

lemma core_fields:
  "core st' = core st \<longleftrightarrow> counters st' = counters st \<and> stPendingToolCalls st' = stPendingToolCalls st \<and>
     stPendingToolIndex st' = stPendingToolIndex st"
  by (simp add: core_def)

lemma quiet_sameHistory: "quiet s s' \<Longrightarrow> sameHistory s s'"
  by (cases "sState s"; cases "sState s'") (simp_all add: quiet_def sameHistory_def core_def)

lemma quiet_state:
  assumes "quiet s s'" and "sState s = Some st"
  obtains st' where "sState s' = Some st'" "counters st' = counters st"
    "stPendingToolCalls st' = stPendingToolCalls st" "stPendingToolIndex st' = stPendingToolIndex st"
    "pendingOf st' = pendingOf st"
  using assms by (auto simp: quiet_def core_fields pendingOf_def)

lemma quiet_consistent: "quiet s s' \<Longrightarrow> consistent s \<Longrightarrow> consistent s'"
proof -
  assume q: "quiet s s'" and "consistent s"
  then obtain st where st: "sState s = Some st" "talk (pendingOf st) s" "0 \<le> stPendingToolIndex st"
    "stPendingToolIndex st \<le> int (length (stPendingToolCalls st))"
    by (auto simp: consistent_def)
  from quiet_state [OF q st(1)] obtain st' where "sState s' = Some st'"
    "stPendingToolCalls st' = stPendingToolCalls st" "stPendingToolIndex st' = stPendingToolIndex st"
    "pendingOf st' = pendingOf st" by blast
  with st sameHistory_facts(4) [OF quiet_sameHistory [OF q]] show "consistent s'"
    by (simp add: consistent_def)
qed

lemma quiet_window:
  assumes "quiet s s'" and "sState s = Some st" and "sState s' = Some st'"
  shows "window s' st' a b = window s st a b"
proof -
  have maps: "sCurrent s' = sCurrent s" "sArchived s' = sArchived s" and "core st' = core st"
    using assms by (simp_all add: quiet_def)
  then have "stCurrentFirst st' = stCurrentFirst st" by (simp add: core_def counters_def)
  with maps show ?thesis by (simp add: window_def storedMessage_def)
qed

section \<open>Quiet methods\<close>

lemma quiet_gets [intro!]:
  "keeps quiet (attrGet a)" "keeps quiet (mapGet m key)" "keeps quiet (getOptional (attrGet a))"
  by (auto simp: keeps_def attrGet_def mapGet_def getOptional_def split: option.splits sum.splits if_splits)

lemma quiet_optional [intro!]:
  "keeps quiet getPlan" "keeps quiet getPendingUserInput" "keeps quiet getPendingApproval"
  "keeps quiet getPendingToolRecovery" "keeps quiet getPendingTimer" "keeps quiet getSummary"
  "keeps quiet hasNextToolCall" "keeps quiet currentToolCall"
  by (auto simp: getPlan_def optional_reads getSummary_def hasNextToolCall_def currentToolCall_def)

lemma quiet_sets [intro!]:
  "keeps quiet (attrSet agentConfigAttribute v1)" "keeps quiet (attrSet modelUsageAttribute v2)"
  "keeps quiet (attrSet waitingInputRoundAttribute v3)" "keeps quiet (attrSet contextSummaryAttribute v4)"
  "keeps quiet (attrSet agentPlanAttribute v5)" "keeps quiet (attrSet pendingApprovalAttribute v6)"
  "keeps quiet (attrSet pendingToolRecoveryAttribute v7)" "keeps quiet (attrSet pendingTimerAttribute v8)"
  "keeps quiet (attrSet pendingUserInputAttribute v9)" "keeps quiet (attrSet inactivityDeadlineAttribute v10)"
  by (auto simp: keeps_def attribute_sets quiet_def)

lemma quiet_deletes [intro!]:
  "keeps quiet (deletePresent pendingUserInputAttribute)" "keeps quiet (deletePresent pendingApprovalAttribute)"
  "keeps quiet (deletePresent pendingToolRecoveryAttribute)" "keeps quiet (deletePresent pendingTimerAttribute)"
  "keeps quiet (deletePresent agentPlanAttribute)" "keeps quiet clearInactivityDeadline"
  by (auto simp: keeps_def optional_deletes quiet_def clearInactivityDeadline_write)

lemma quiet_deleteTimer [intro!]: "keeps quiet (attrDelete pendingTimerAttribute)"
  by (auto simp: keeps_def attrDelete_def pendingTimerAttribute_def quiet_def split: option.splits)

lemma quiet_channels [intro!]:
  "keeps quiet (channelSize c)" "keeps quiet (publish resetInactivityTimerChannel w1)"
  "keeps quiet (publishTo parallelToolResultsChannel key w2)"
  by (auto simp: keeps_def channelSize_def publish_def publishTo_def quiet_def attr_defs)

lemma quiet_activity [intro!]:
  "keeps quiet (writeActivity ev)" "keeps quiet writeSnapshotRequired"
  "keeps quiet (writeInputConsumption q st p n)" "keeps quiet incrementWaitingInputRound"
  by (auto simp: keeps_def writeActivity_run quiet_def writeSnapshotRequired_def incrementWaitingInputRound_Inr
      dest!: writeInputConsumption_Inr simp: onlyActivity_def)

lemma quiet_updateStatus [intro!]: "keeps quiet (updateStatus status)"
  by (auto simp: keeps_def updateStatus_def bindTx_apply attrGet_def attrSet_def agentStateAttribute_def quiet_def
      core_def counters_def split: option.splits if_splits)

lemma quiet_effects [intro!]:
  "keeps quiet (failWith e)" "keeps quiet (recordHeartbeat ef)" "keeps quiet (progressWriteActivity ef q ev)"
  "keeps quiet (writeProgress ef ctx call message)" "keeps quiet (failAfter report err)"
  by (auto simp: failWith_def recordHeartbeat_def progressWriteActivity_def writeProgress_def)
    (auto simp: failAfter_def keeps_def split: sum.splits)

lemma messageAt_same: "messageAt q s = Inr (m, s') \<Longrightarrow> s' = s"
  by (auto simp: messageAt_def bindTx_eq_Inr attrGet_def mapGet_def Let_def split: option.splits if_splits)

lemma loadSequences_same: "loadSequences qs config s = Inr (ms, s') \<Longrightarrow> s' = s"
  by (induction qs arbitrary: ms s) (auto simp: bindTx_eq_Inr dest!: messageAt_same)

lemma quiet_load [intro!]: "keeps quiet (loadMessages a b config)"
  by (auto simp: keeps_def loadMessages_def split: if_splits dest!: loadSequences_same)

lemma quiet_context [intro!]: "keeps quiet (contextMessages config st)"
  by (auto simp: contextMessages_def planContextMessage_def)

text \<open>A write of the state attribute is quiet when it leaves the core alone.\<close>

lemma quiet_setState:
  assumes "sState s = Some st" and "core st' = core st"
  shows "attrSet agentStateAttribute st' s = Inr ((), s \<lparr>sState := Some st'\<rparr>)" "quiet s (s \<lparr>sState := Some st'\<rparr>)"
  using assms by (simp_all add: attribute_sets quiet_def)

lemma quiet_deadline: "deadlineMoved flow s s' \<Longrightarrow> quiet s s'"
  by (auto simp: deadlineMoved_def quiet_def)

lemma quiet_resetTimer [intro!]:
  "keeps quiet (resetInactivityTimer flow t)" "keeps quiet (resetInactivityTimerForUserOperation flow ctx)"
  by (auto simp: keeps_def dest!: resetInactivityTimer_moved resetUser_moved intro: quiet_deadline)

text \<open>No command touches the conversation or the pending calls.\<close>

lemma accepted_quiet:
  assumes "deadlineMoved flow s s1" and "accepted flow cmd s s1 s'"
  shows "quiet s s'"
  using assms(2) deadlineMoved_fields(2,3,4) [OF assms(1)]
  by (cases cmd) (auto simp: quiet_def core_def counters_def)

lemma quiet_command: "runCommand flow ctx cmd s = Inr (b, s') \<Longrightarrow> quiet s s'"
  by (auto dest!: runCommand_Inr intro: accepted_quiet)

lemma quiet_replacePlan: "replacePlan tasks s = Inr (r, s') \<Longrightarrow> quiet s s'"
proof -
  assume run: "replacePlan tasks s = Inr (r, s')"
  then obtain st where "sState s = Some st"
    by (auto simp: replacePlan_def getPlan_def optional_reads bindTx_eq_Inr attrGet_def attr_defs split: option.splits)
  with run replacePlan_run [OF this, of tasks] show "quiet s s'"
    by (auto simp: quiet_def replacedPlanState_def core_def counters_def)
qed

text \<open>No WaitFor method touches the conversation.\<close>

lemma quiet_waitFor: "waitForOf flow ctx input = Some w \<Longrightarrow> keeps quiet w"
  by (cases input)
    (auto simp: awaitUserWaitFor_def checkSteeredWaitFor_def awaitToolApprovalWaitFor_def awaitParallelWaitFor_def
      awaitManualWaitFor_def durableWaitWaitFor_def inactivityWaitFor_def)

text \<open>The calls outside the repository: a request to the model, an attempt of a tool.\<close>

lemma quiet_requestSummary [intro!]: "keeps quiet (requestSummary ef ctx callID through)"
  by (auto simp: requestSummary_def summarizeInput_def)

lemma quiet_requestResponse [intro!]: "keeps quiet (requestResponse flow ef ctx callID)"
  by (auto simp: requestResponse_def)

lemma quiet_invokeTool [intro!]: "keeps quiet (invokeTool flow ef ctx call)"
  by (auto simp: invokeTool_def)

end
