(* ===== verification/Handover.thy ===== *)
theory Handover
  imports Readiness
begin

text \<open>
  What every Step hands over to the Step that runs next. \<open>ready\<close> says what a movement needs from
  the durable state: which calls of the last assistant message are open, and how its input
  relates to them. Every successful Execute method of a main movement leads to exactly one main
  movement, which is ready; the methods of side movements leave everything ready.
\<close>

section \<open>Partial correctness of a method\<close>

definition ensures :: "('s, 'a) tx \<Rightarrow> 's \<Rightarrow> ('a \<Rightarrow> 's \<Rightarrow> bool) \<Rightarrow> bool" where
  "ensures m s Q \<longleftrightarrow> (\<forall>x s'. m s = Inr (x, s') \<longrightarrow> Q x s')"

lemma ensuresD: "ensures m s Q \<Longrightarrow> m s = Inr (x, s') \<Longrightarrow> Q x s'"
  by (simp add: ensures_def)

lemma ensures_mono: "ensures m s P \<Longrightarrow> (\<And>x s'. P x s' \<Longrightarrow> Q x s') \<Longrightarrow> ensures m s Q"
  by (simp add: ensures_def)

lemma ensures_result: "m s = Inr (x, s') \<Longrightarrow> ensures m s Q \<longleftrightarrow> Q x s'"
  by (simp add: ensures_def)

lemma ensures_bind_run: "k s = Inr (y, s') \<Longrightarrow> ensures (bindTx k f) s Q \<longleftrightarrow> ensures (f y) s' Q"
  by (simp add: ensures_def)

named_theorems ensures_simps \<open>how the programming constructs pass an assertion on\<close>

lemma ensures_constructs [ensures_simps]:
  "ensures (returnTx x) s Q = Q x s"
  "ensures (throwTx e) s Q = True"
  "ensures (readTx g) s Q = Q (g s) s"
  "ensures (bindTx k f) s Q = ensures k s (\<lambda>y s'. ensures (f y) s' Q)"
  "ensures (if b then m else n) s Q = ((b \<longrightarrow> ensures m s Q) \<and> (\<not> b \<longrightarrow> ensures n s Q))"
  by (auto simp: ensures_def bindTx_eq_Inr)

lemma ensures_lift [ensures_simps]: "ensures (liftTx r) s Q = (\<forall>x. r = Inr x \<longrightarrow> Q x s)"
  by (auto simp: ensures_def liftTx_Inr_iff)

lemma ensures_cases [ensures_simps]:
  "ensures (case v of None \<Rightarrow> m | Some x \<Rightarrow> f x) s Q =
     ((v = None \<longrightarrow> ensures m s Q) \<and> (\<forall>x. v = Some x \<longrightarrow> ensures (f x) s Q))"
  "ensures (case r of Inl e \<Rightarrow> g e | Inr y \<Rightarrow> h y) s Q =
     ((\<forall>e. r = Inl e \<longrightarrow> ensures (g e) s Q) \<and> (\<forall>y. r = Inr y \<longrightarrow> ensures (h y) s Q))"
  "ensures (case l of [] \<Rightarrow> m | z # zs \<Rightarrow> k z zs) s Q =
     ((l = [] \<longrightarrow> ensures m s Q) \<and> (\<forall>z zs. l = z # zs \<longrightarrow> ensures (k z zs) s Q))"
  by (auto split: option.split sum.split list.split)

lemma ensures_pair [ensures_simps]: "ensures (case p of (a, b) \<Rightarrow> f a b) s Q = ensures (f (fst p) (snd p)) s Q"
  by (cases p) simp

lemma ensures_quiet: "keeps quiet m \<Longrightarrow> (\<And>x s'. quiet s s' \<Longrightarrow> Q x s') \<Longrightarrow> ensures m s Q"
  by (auto simp: ensures_def keeps_def)

section \<open>Where a method stands\<close>

text \<open>
  While a method runs, the calls that are open in the conversation (\<open>pend\<close>) and the cursor of
  the state attribute may differ for a moment: \<open>st\<close> stands for the state up to fields that do
  not matter here.
\<close>

definition tracked :: "agentState \<Rightarrow> toolCall list \<Rightarrow> store \<Rightarrow> bool" where
  "tracked st pend s \<longleftrightarrow> (\<exists>st'. sState s = Some st' \<and> core st' = core st) \<and> talk pend s"

definition cursorOk :: "agentState \<Rightarrow> bool" where
  "cursorOk st \<longleftrightarrow> 0 \<le> stPendingToolIndex st \<and> stPendingToolIndex st \<le> int (length (stPendingToolCalls st))"

definition facing :: "toolCall list \<Rightarrow> store \<Rightarrow> bool" where
  "facing pend s \<longleftrightarrow> (\<exists>st. tracked st pend s \<and> pendingOf st = pend \<and> cursorOk st)"

lemma core_cursor: "core a = core b \<Longrightarrow> pendingOf a = pendingOf b \<and> cursorOk a = cursorOk b"
  by (auto simp: core_def pendingOf_def cursorOk_def)

lemma consistent_facing: "consistent s \<longleftrightarrow> (\<exists>pend. facing pend s)"
proof
  assume "consistent s"
  then show "\<exists>pend. facing pend s"
    unfolding consistent_def facing_def tracked_def cursorOk_def by blast
next
  assume "\<exists>pend. facing pend s"
  then obtain pend st st' where "sState s = Some st'" "core st' = core st" "talk pend s" "pendingOf st = pend" "cursorOk st"
    by (auto simp: facing_def tracked_def)
  with core_cursor [of st' st] show "consistent s" by (auto simp: consistent_def cursorOk_def)
qed

lemma facing_unique:
  assumes "facing p s" and "sState s = Some st"
  shows "p = pendingOf st" "consistent s" "cursorOk st" "tracked st p s"
proof -
  from assms obtain st0 where st0: "core st = core st0" "talk p s" "pendingOf st0 = p" "cursorOk st0"
    by (auto simp: facing_def tracked_def)
  with core_cursor [OF st0(1)] assms(2) show "p = pendingOf st" "cursorOk st" "tracked st p s"
    by (auto simp: tracked_def)
  from assms(1) show "consistent s" by (auto simp: consistent_facing)
qed

lemma facing_state:
  assumes "facing p s"
  obtains st where "sState s = Some st" "p = pendingOf st" "consistent s" "cursorOk st" "tracked st p s"
proof -
  from assms obtain st where "sState s = Some st" by (auto simp: facing_def tracked_def)
  with facing_unique [OF assms this] that show ?thesis by blast
qed

lemma facingI: "consistent s \<Longrightarrow> sState s = Some st \<Longrightarrow> facing (pendingOf st) s"
  by (auto simp: consistent_def facing_def tracked_def cursorOk_def)

lemma facing_noneI: "consistent s \<Longrightarrow> sState s = Some st \<Longrightarrow> stPendingToolCalls st = [] \<Longrightarrow> facing [] s"
  using facingI [of s st] by (simp add: pendingOf_def)

lemma tracked_quiet: "tracked st p s \<Longrightarrow> quiet s s' \<Longrightarrow> tracked st p s'"
proof -
  assume t: "tracked st p s" and q: "quiet s s'"
  then obtain st1 where "sState s = Some st1" "core st1 = core st" "talk p s" by (auto simp: tracked_def)
  with q sameHistory_facts(4) [OF quiet_sameHistory [OF q]] show ?thesis
    by (auto simp: tracked_def quiet_def)
qed

lemma facing_quiet: "facing p s \<Longrightarrow> quiet s s' \<Longrightarrow> facing p s'"
  by (auto simp: facing_def intro: tracked_quiet)

text \<open>The three ways a method changes what it tracks: it writes the cursor, it appends, it trims.\<close>

lemma tracked_set:
  assumes "tracked st p s" and "counters st' = counters st"
  shows "ensures (attrSet agentStateAttribute st') s (\<lambda>_ s'. tracked st' p s')"
proof -
  from assms(1) obtain st1 where st1: "sState s = Some st1" "core st1 = core st" "talk p s" by (auto simp: tracked_def)
  with assms(2) have "sameHistory s (s \<lparr>sState := Some st'\<rparr>)" by (simp add: sameHistory_def core_def)
  with st1(3) show ?thesis by (simp add: ensures_def attribute_sets tracked_def sameHistory_facts)
qed

lemma tracked_get:
  assumes "tracked st p s"
  obtains st' where "sState s = Some st'" "core st' = core st" "tracked st' p s"
  using assms by (auto simp: tracked_def)

definition sameCursor :: "agentState \<Rightarrow> agentState \<Rightarrow> bool" where
  "sameCursor a b \<longleftrightarrow> stPendingToolCalls a = stPendingToolCalls b \<and> stPendingToolIndex a = stPendingToolIndex b"

lemma sameCursor_facts:
  assumes "sameCursor a b"
  shows "stPendingToolCalls a = stPendingToolCalls b" "stPendingToolIndex a = stPendingToolIndex b"
    "pendingOf a = pendingOf b" "cursorOk a = cursorOk b"
  using assms by (simp_all add: sameCursor_def pendingOf_def cursorOk_def)

lemma sameCursor_refl [simp]: "sameCursor a a"
  by (simp add: sameCursor_def)

lemma sameCursor_trans: "sameCursor a b \<Longrightarrow> sameCursor b c \<Longrightarrow> sameCursor a c"
  by (simp add: sameCursor_def)

lemma core_sameCursor: "core a = core b \<Longrightarrow> sameCursor a b"
  by (simp add: core_def sameCursor_def)

lemma tracked_append:
  assumes "tracked st p s" and "step p m = Some p'"
  shows "ensures (appendMessage ctx m) s (\<lambda>n s'. \<exists>st'. tracked st' p' s' \<and> sameCursor st' st)"
proof -
  from assms(1) obtain st1 where st1: "sState s = Some st1" "core st1 = core st" "talk p s" by (auto simp: tracked_def)
  then have inv: "histInv s" by (simp add: talk_def)
  from appendMessage_ok [OF inv, of ctx m] obtain s' where
    run: "appendMessage ctx m s = Inr (stNextSequence (the (sState s)), s')" and app: "appended (stamped ctx m) s s'"
    by blast
  from talk_appended [OF st1(3) app] assms(2) have "talk p' s'" by simp
  moreover from app have "sameButHistory s s'" by (simp add: appended_def)
  from sameButHistory_state [OF this st1(1)] obtain st' where "sState s' = Some st'" "sameCursor st' st1"
    by (auto simp: sameCursor_def)
  ultimately have "tracked st' p' s' \<and> sameCursor st' st"
    using st1(2) by (auto simp: tracked_def core_def sameCursor_def)
  then show ?thesis by (auto simp: ensures_def run)
qed

lemma tracked_result:
  assumes "tracked st (call # p) s"
  shows "ensures (appendToolResult ctx call result timing) s (\<lambda>_ s'. \<exists>st'. tracked st' p s' \<and> sameCursor st' st)"
  unfolding appendToolResult_def ensures_simps by (rule tracked_append [OF assms]) simp

lemma tracked_trim:
  assumes "tracked st p s"
  shows "ensures (bindTx (attrGet agentStateAttribute) (trimSummarizedMessages config)) s
    (\<lambda>st' s'. sState s' = Some st' \<and> tracked st' p s' \<and> sameCursor st' st)"
proof -
  from assms obtain st1 where st1: "sState s = Some st1" "core st1 = core st" "talk p s" by (auto simp: tracked_def)
  from trimSummarizedMessages_ok [OF st1(1) talk_state(1) [OF st1(3,1)], of config] obtain st' s' where
    run: "trimSummarizedMessages config st1 s = Inr (st', s')" and st': "sState s' = Some st'" and
    tr: "trimmed (cfgMessageRetentionLimit config) s s'" by blast
  from tr st1(1,2) st' have "sameCursor st' st" by (auto simp: trimmed_def sameCursor_def core_def)
  with talk_trimmed(1) [OF st1(3) tr] st' show ?thesis
    by (auto simp: ensures_def bindTx_apply attribute_gets st1(1) run tracked_def)
qed

section \<open>What a movement needs\<close>

text \<open>The messages up to \<open>c\<close> that no summary covers yet leave no call open.\<close>

definition closedThrough :: "int \<Rightarrow> store \<Rightarrow> bool" where
  "closedThrough c s \<longleftrightarrow> (\<exists>st. sState s = Some st \<and> stSummarizedThrough st \<le> c \<and> c \<le> stLastSequence st \<and>
     convo [] (window s st (stSummarizedThrough st + 1) c) = Some [])"

text \<open>A call is open. A batch stands for the first open calls, in order, under their positions.\<close>

definition busy :: "store \<Rightarrow> bool" where
  "busy s \<longleftrightarrow> (\<exists>call rest. facing (call # rest) s)"

definition batchReady :: "toolBatchState \<Rightarrow> store \<Rightarrow> bool" where
  "batchReady batch s \<longleftrightarrow> (\<exists>st rest. facing (map tbrCall (tbRecords batch) @ rest) s \<and> sState s = Some st \<and>
     tbFirstIndex batch = stPendingToolIndex st \<and> tbRecords batch \<noteq> [] \<and>
     map tbrIndex (tbRecords batch) = map (\<lambda>k. tbFirstIndex batch + int k) [0..<length (tbRecords batch)])"

definition distinctCalls :: "modelReply \<Rightarrow> bool" where
  "distinctCalls reply \<longleftrightarrow> distinct (map tcID (replyToolCalls reply))"

definition resultReady :: "modelCallResult \<Rightarrow> store \<Rightarrow> bool" where
  "resultReady r s \<longleftrightarrow> facing [] s \<and> (\<forall>x. mresResponse r = Some x \<longrightarrow> distinctCalls (mrrReply x)) \<and>
     (\<forall>c. mresCompaction r = Some c \<longrightarrow> closedThrough (mcrThrough c) s)"

fun ready :: "stepInput \<Rightarrow> store \<Rightarrow> bool" where
  "ready (Init config) s \<longleftrightarrow> sCurrent s = Map.empty \<and> sArchived s = Map.empty"
| "ready (CompactContext c) s \<longleftrightarrow> facing [] s \<and> closedThrough c s"
| "ready (BeforeModelCall p) s \<longleftrightarrow> facing [] s \<and> (mcpKind p = KindCompaction \<longrightarrow> closedThrough (mcpThrough p) s)"
| "ready (CallModelWithHooks i) s \<longleftrightarrow> facing [] s \<and> (mciKind i = KindCompaction \<longrightarrow> closedThrough (mciThrough i) s)"
| "ready (AfterModelCall r) s \<longleftrightarrow> resultReady r s"
| "ready (ApplyModelResult r) s \<longleftrightarrow> resultReady r s"
| "ready (CheckSteered k) s \<longleftrightarrow>
     (if k \<in> {ContinueCompactContext, ContinueAwaitUser, ContinueCallModel} then facing [] s
      else busy s)"
| "ready AwaitUser s \<longleftrightarrow> facing [] s"
| "ready AnsweredInput s \<longleftrightarrow> facing [] s"
| "ready CallModel s \<longleftrightarrow> facing [] s"
| "ready (AwaitParallelToolResults i) s \<longleftrightarrow> batchReady (apiBatch i) s"
| "ready (AwaitManualToolRecovery batch) s \<longleftrightarrow> batchReady batch s"
| "ready (ExecuteParallelTool i) s \<longleftrightarrow> True"
| "ready (RecoverParallelToolExecution i) s \<longleftrightarrow> True"
| "ready (InactivityTimeout d) s \<longleftrightarrow> True"
| "ready _ s \<longleftrightarrow> busy s"

text \<open>Side movements run beside the main one and do not touch the conversation.\<close>

fun isSide :: "stepInput \<Rightarrow> bool" where
  "isSide (ExecuteParallelTool i) = True"
| "isSide (RecoverParallelToolExecution i) = True"
| "isSide (InactivityTimeout d) = True"
| "isSide _ = False"

text \<open>A decision of a main movement: one main movement, ready, and any side movements.\<close>

definition handsOver :: "decision \<Rightarrow> store \<Rightarrow> bool" where
  "handsOver d s \<longleftrightarrow> (\<exists>m ms. d = GoTo (m # ms) \<and> \<not> isSide (fst m) \<and> ready (fst m) s \<and>
     list_all (\<lambda>x. isSide (fst x)) ms)"

lemma handsOver_goTo [simp]: "handsOver (goTo next) s \<longleftrightarrow> \<not> isSide next \<and> ready next s"
  by (auto simp: handsOver_def goTo_def)

lemma closedThrough_quiet:
  assumes "closedThrough c s" and q: "quiet s s'"
  shows "closedThrough c s'"
proof -
  from assms(1) obtain st where st: "sState s = Some st" "stSummarizedThrough st \<le> c" "c \<le> stLastSequence st"
    "convo [] (window s st (stSummarizedThrough st + 1) c) = Some []" by (auto simp: closedThrough_def)
  from quiet_state [OF q st(1)] obtain st' where st': "sState s' = Some st'" "counters st' = counters st" by blast
  with st quiet_window [OF q st(1) st'(1)] show ?thesis by (auto simp: closedThrough_def counters_def)
qed

lemma batchReady_quiet:
  assumes "batchReady batch s" and q: "quiet s s'"
  shows "batchReady batch s'"
proof -
  from assms(1) obtain st rest where b: "facing (map tbrCall (tbRecords batch) @ rest) s" "sState s = Some st"
    "tbFirstIndex batch = stPendingToolIndex st" "tbRecords batch \<noteq> []"
    "map tbrIndex (tbRecords batch) = map (\<lambda>k. tbFirstIndex batch + int k) [0..<length (tbRecords batch)]"
    unfolding batchReady_def by blast
  from quiet_state [OF q b(2)] obtain st' where "sState s' = Some st'" "stPendingToolIndex st' = stPendingToolIndex st"
    by blast
  with b facing_quiet [OF b(1) q] show ?thesis unfolding batchReady_def by metis
qed

lemma busyI: "facing p s \<Longrightarrow> p \<noteq> [] \<Longrightarrow> busy s"
  by (cases p) (auto simp: busy_def)

lemma busyE:
  assumes "busy s"
  obtains call rest where "facing (call # rest) s"
  using assms by (auto simp: busy_def)

lemma busy_quiet: "busy s \<Longrightarrow> quiet s s' \<Longrightarrow> busy s'"
  by (auto simp: busy_def intro: facing_quiet)

lemma quiet_maps: "quiet s s' \<Longrightarrow> sCurrent s' = sCurrent s \<and> sArchived s' = sArchived s"
  by (simp add: quiet_def)

lemma ready_quiet: "ready next s \<Longrightarrow> quiet s s' \<Longrightarrow> ready next s'"
  by (cases "(next, s)" rule: ready.cases)
    (auto simp: resultReady_def dest: quiet_maps intro: closedThrough_quiet batchReady_quiet facing_quiet busy_quiet
      split: if_splits)

section \<open>The parts of the Execute methods\<close>

lemma tracked_via: "tracked st p s \<Longrightarrow> keeps quiet m \<Longrightarrow> (\<And>x s'. tracked st p s' \<Longrightarrow> Q x s') \<Longrightarrow> ensures m s Q"
  by (rule ensures_quiet) (auto intro: tracked_quiet)

lemma facing_via: "facing p s \<Longrightarrow> keeps quiet m \<Longrightarrow> (\<And>x s'. facing p s' \<Longrightarrow> Q x s') \<Longrightarrow> ensures m s Q"
  by (rule ensures_quiet) (auto intro: facing_quiet)

lemma tracked_read:
  "tracked st p s \<Longrightarrow> (\<And>st'. sState s = Some st' \<Longrightarrow> core st' = core st \<Longrightarrow> tracked st' p s \<Longrightarrow> Q st' s) \<Longrightarrow>
     ensures (attrGet agentStateAttribute) s Q"
  by (auto simp: ensures_def attrGet_def agentStateAttribute_def tracked_def)

lemma facing_current:
  assumes "facing p s"
  shows "ensures currentToolCall s (\<lambda>call s'. s' = s \<and> (\<exists>rest. p = call # rest))"
proof -
  from assms obtain st where st: "sState s = Some st" "p = pendingOf st" by (rule facing_state)
  then have "0 \<le> stPendingToolIndex st \<Longrightarrow> stPendingToolIndex st < int (length (stPendingToolCalls st)) \<Longrightarrow>
      p = stPendingToolCalls st ! nat (stPendingToolIndex st) # drop (Suc (nat (stPendingToolIndex st))) (stPendingToolCalls st)"
    by (simp add: pendingOf_def Cons_nth_drop_Suc)
  then show ?thesis
    by (auto simp: currentToolCall_def ensures_simps) (simp add: ensures_def attribute_gets st)
qed

lemma continueAfterTool_ok:
  assumes "tracked st (drop (nat (stPendingToolIndex st + 1)) (stPendingToolCalls st)) s" and "cursorOk st"
    and "stPendingToolIndex st < int (length (stPendingToolCalls st))"
  shows "ensures continueAfterTool s handsOver"
proof -
  from assms(1) obtain st1 where st1: "sState s = Some st1" "core st1 = core st"
    "talk (drop (nat (stPendingToolIndex st + 1)) (stPendingToolCalls st)) s" by (auto simp: tracked_def)
  then have cur: "stPendingToolCalls st1 = stPendingToolCalls st" "stPendingToolIndex st1 = stPendingToolIndex st"
    by (simp_all add: core_def)
  have moved: "facing (pendingOf st2) (s \<lparr>sState := Some st2\<rparr>)"
    if "counters st2 = counters st1" "cursorOk st2"
      "pendingOf st2 = drop (nat (stPendingToolIndex st + 1)) (stPendingToolCalls st)" for st2
  proof -
    have "sameHistory s (s \<lparr>sState := Some st2\<rparr>)" using st1(1) that(1) by (simp add: sameHistory_def)
    with st1(3) that show ?thesis by (auto simp: facing_def tracked_def sameHistory_facts)
  qed
  show ?thesis
  proof (cases "stPendingToolIndex st + 1 < int (length (stPendingToolCalls st))")
    case True
    let ?st = "st1 \<lparr>stPendingToolIndex := stPendingToolIndex st + 1\<rparr>"
    have "facing (pendingOf ?st) (s \<lparr>sState := Some ?st\<rparr>)"
      using assms(2,3) cur by (intro moved) (simp_all add: counters_def cursorOk_def pendingOf_def)
    moreover have "pendingOf ?st \<noteq> []" using True assms(2) cur by (simp add: pendingOf_def cursorOk_def)
    ultimately have "busy (s \<lparr>sState := Some ?st\<rparr>)" by (rule busyI)
    with True show ?thesis
      by (simp add: ensures_def continueAfterTool_def hasNextToolCall_def advanceTool_def store_simps st1(1) cur)
  next
    case False
    let ?st = "st1 \<lparr>stPendingToolCalls := [], stPendingToolIndex := 0\<rparr>"
    have "facing (pendingOf ?st) (s \<lparr>sState := Some ?st\<rparr>)"
      using False assms(2,3) cur by (intro moved) (simp_all add: counters_def cursorOk_def pendingOf_def)
    then have "facing [] (s \<lparr>sState := Some ?st\<rparr>)" by (simp add: pendingOf_def)
    with False show ?thesis
      by (simp add: ensures_def continueAfterTool_def hasNextToolCall_def clearPendingToolCalls_def store_simps st1(1) cur)
  qed
qed

lemma cursor_Cons:
  assumes "pendingOf st = call # rest" and "cursorOk st"
  shows "drop (nat (stPendingToolIndex st + 1)) (stPendingToolCalls st) = rest"
    "stPendingToolIndex st < int (length (stPendingToolCalls st))"
    "length (stPendingToolCalls st) = nat (stPendingToolIndex st) + Suc (length rest)"
proof -
  have len: "length (pendingOf st) = Suc (length rest)" using assms(1) by simp
  then show "length (stPendingToolCalls st) = nat (stPendingToolIndex st) + Suc (length rest)"
    "stPendingToolIndex st < int (length (stPendingToolCalls st))"
    using assms(2) by (auto simp: pendingOf_def cursorOk_def)
  have "drop (Suc (nat (stPendingToolIndex st))) (stPendingToolCalls st) = rest"
    using assms(1) by (metis drop_Suc list.sel(3) pendingOf_def tl_drop)
  then show "drop (nat (stPendingToolIndex st + 1)) (stPendingToolCalls st) = rest"
    using assms(2) by (simp add: cursorOk_def nat_add_distrib)
qed

lemma answerCall_ok:
  assumes "facing (call # rest) s"
  shows "ensures (answerCall ctx call result) s handsOver"
proof -
  from assms obtain st where st: "call # rest = pendingOf st" "cursorOk st" "tracked st (call # rest) s"
    by (rule facing_state)
  note c = cursor_Cons [OF st(1) [symmetric] st(2)]
  show ?thesis unfolding answerCall_def ensures_simps
  proof (rule ensures_mono [OF tracked_result [OF st(3)]])
    fix x s'
    assume "\<exists>st'. tracked st' rest s' \<and> sameCursor st' st"
    then obtain st' where st': "tracked st' rest s'" "sameCursor st' st" by blast
    with c st(2) sameCursor_facts [OF st'(2)] show "ensures continueAfterTool s' handsOver"
      by (intro continueAfterTool_ok [of st']) simp_all
  qed
qed

text \<open>Turns: a user message, steering, a call that ends the turn.\<close>

lemma beginUserTurn_facing:
  assumes "facing [] s"
  shows "ensures (beginUserTurn ctx message) s (\<lambda>_. facing [])"
proof -
  from assms obtain st where st: "sState s = Some st" "tracked st [] s" by (rule facing_state)
  then have t: "talk [] s" by (simp add: tracked_def)
  then have inv: "histInv s" by (simp add: talk_def)
  let ?t = "s \<lparr>sState := Some (turnState message (sPlan s) st)\<rparr>"
  from beginUserTurn_ok [OF inv st(1), of ctx message] obtain s' where
    run: "beginUserTurn ctx message s = Inr (stNextSequence st, s')" and inv': "histInv s'" and
    h: "history s' = history s @ [stamped ctx (userMessageOf message)]" and fr: "sameButHistory ?t s'" by blast
  have same: "sameHistory s ?t" by (simp add: sameHistory_def st(1))
  have t': "talk [] s'"
    using talk_extend_same [OF _ inv' _ fr, of "[]" "[stamped ctx (userMessageOf message)]" "[]"] t h
      sameHistory_facts [OF same] by (simp add: userMessageOf_def)
  from sameButHistory_state [OF fr] obtain st' where
    "sState s' = Some st'" "stPendingToolCalls st' = []" "stPendingToolIndex st' = 0" by auto
  with consistent_none [OF t'] have "facing [] s'" by (intro facing_noneI)
  then show ?thesis by (simp add: ensures_def run)
qed

lemma beginSteeredTurn_facing:
  assumes "facing p s"
  shows "ensures (beginSteeredTurn ctx messages) s (\<lambda>_. facing [])"
proof -
  from assms obtain st where "consistent s" "sState s = Some st" by (rule facing_state)
  from beginSteeredTurn_ok [OF this, of ctx messages] show ?thesis
    by (auto simp: ensures_def intro: facing_noneI)
qed

lemma cancelRemaining_facing:
  assumes "facing (call # rest) s"
  shows "ensures (appendToolResultAndCancelRemaining ctx call result reason) s (\<lambda>_. facing [])"
proof -
  from assms obtain st where "sState s = Some st" "call # rest = pendingOf st" "consistent s" by (rule facing_state)
  with cancelRemaining_ok [OF this(3,1) this(2) [symmetric], of ctx result reason] show ?thesis
    by (auto simp: ensures_def intro: facing_noneI)
qed

text \<open>Towards the model: compaction when it is due.\<close>

lemma pendingCompactionCutoff_facing:
  assumes "facing [] s"
  shows "ensures (pendingCompactionCutoff flow) s
    (\<lambda>cutoff s'. facing [] s' \<and> (\<forall>c. cutoff = Some c \<longrightarrow> closedThrough c s'))"
proof (cases "sConfig s")
  case None
  then show ?thesis
    by (simp add: ensures_def pendingCompactionCutoff_def bindTx_eq_Inr attrGet_def agentConfigAttribute_def)
next
  case (Some config)
  from assms obtain st where st: "sState s = Some st" "[] = pendingOf st" "cursorOk st" "tracked st [] s"
    by (rule facing_state)
  then have "talk [] s" by (simp add: tracked_def)
  from pendingCompactionCutoff_ok [OF this st(1) Some, of flow] obtain result s' st' where
    run: "pendingCompactionCutoff flow s = Inr (result, s')" and
    tr: "trimmed (cfgMessageRetentionLimit config) s s'" and t: "talk [] s'" and st': "sState s' = Some st'" and
    cut: "\<And>cutoff. result = Some cutoff \<Longrightarrow> stSummarizedThrough st' < cutoff \<and> cutoff \<le> stLastSequence st' \<and>
       convo [] (window s' st' (stSummarizedThrough st' + 1) cutoff) = Some []"
    by (auto split: option.splits)
  from tr st(1) st' have "sameCursor st' st" by (auto simp: trimmed_def sameCursor_def)
  from sameCursor_facts [OF this] st st' t have "facing [] s'" by (auto simp: facing_def tracked_def)
  moreover have "closedThrough c s'" if "result = Some c" for c
    using cut [OF that] st' by (auto simp: closedThrough_def)
  ultimately show ?thesis by (simp add: ensures_def run)
qed

lemma goToModel_ready: "facing [] s \<Longrightarrow> handsOver (goToModel flow) s"
  by (simp add: goToModel_def responsePreparation_def)

lemma goToCompactionOrModel_ready:
  assumes "facing [] s"
  shows "ensures (goToCompactionOrModel flow) s handsOver"
  unfolding goToCompactionOrModel_def ensures_simps
  by (rule ensures_mono [OF pendingCompactionCutoff_facing [OF assms]])
    (auto simp: goToModel_ready split: option.split)

text \<open>Committing a summary and a reply.\<close>

lemma trim_continues:
  assumes "tracked st p s" and "\<And>st' s'. sState s' = Some st' \<Longrightarrow> tracked st' p s' \<Longrightarrow> sameCursor st' st \<Longrightarrow> Q st' s'"
    and "sState s = Some st"
  shows "ensures (trimSummarizedMessages config st) s Q"
proof -
  have "ensures (trimSummarizedMessages config st) s (\<lambda>st' s'. sState s' = Some st' \<and> tracked st' p s' \<and> sameCursor st' st)"
    using tracked_trim [OF assms(1), of config] assms(3) by (simp add: ensures_simps) (simp add: ensures_def attribute_gets)
  then show ?thesis by (rule ensures_mono) (blast intro: assms(2))
qed

lemma summarized_talk:
  assumes "talk [] s" and st: "sState s = Some st" and "closedThrough c s"
  shows "talk [] (s \<lparr>sSummary := summary, sState := Some (st \<lparr>stSummarizedThrough := c, stCompactionGeneration := g\<rparr>)\<rparr>)"
    (is "talk [] ?s")
proof -
  let ?st = "st \<lparr>stSummarizedThrough := c, stCompactionGeneration := g\<rparr>"
  note t = talk_state [OF assms(1,2)]
  from assms(3) st have c: "stSummarizedThrough st \<le> c" "c \<le> stLastSequence st"
    "convo [] (window s st (stSummarizedThrough st + 1) c) = Some []" by (auto simp: closedThrough_def)
  have "convo [] (window s st (c + 1) (stLastSequence st)) = Some []"
    using t(5) c(3) window_split [of "stSummarizedThrough st + 1" c "stLastSequence st" s st] c(1,2)
    by (simp add: convo_append)
  moreover have "window ?s ?st a b = window s st a b" for a b by (simp add: window_def storedMessage_def)
  ultimately have "convo [] (unsummarized ?s) = Some []" by (simp add: unsummarized_def)
  moreover have "histInv ?s"
    using t(1,2) c(1,2) by (simp add: histInv_def histOf_def countersOk_def storedMessage_def)
  ultimately show ?thesis by (simp add: talk_def)
qed

lemma facing_noneD:
  assumes "facing [] s" and "sState s = Some st"
  shows "tracked st [] s" "pendingOf st = []" "cursorOk st" "talk [] s"
  using facing_unique [OF assms] by (simp_all add: tracked_def)

lemma tracked_facing: "tracked st p s \<Longrightarrow> pendingOf st = p \<Longrightarrow> cursorOk st \<Longrightarrow> facing p s"
  by (auto simp: facing_def)

lemma applyCompaction_ready:
  assumes "facing [] s" and "closedThrough (mcrThrough result) s"
  shows "ensures (applyCompactionModelResult result) s (\<lambda>next. ready (CheckSteered next))"
proof -
  from assms(1) obtain st where st: "sState s = Some st" by (rule facing_state)
  note f = facing_noneD [OF assms(1) st]
  define g where "g = stCompactionGeneration st + 1"
  define sum where "sum = \<lparr>csGeneration = g, csSummarizedThrough = mcrThrough result, csContent = mcrSummary result\<rparr>"
  define st1 where "st1 = st \<lparr>stSummarizedThrough := mcrThrough result, stCompactionGeneration := g\<rparr>"
  define s1 where "s1 = s \<lparr>sSummary := Some sum, sState := Some st1\<rparr>"
  have s1: "sState s1 = Some st1" "tracked st1 [] s1"
    using summarized_talk [OF f(4) st assms(2), of g "Some sum"] by (simp_all add: s1_def st1_def tracked_def)
  have cursor: "sameCursor st1 st" by (simp add: st1_def sameCursor_def)
  have trim: "ensures (trimSummarizedMessages config st1) s1 (\<lambda>_. facing [])" for config
    by (rule trim_continues [OF s1(2) _ s1(1)])
      (use f cursor in \<open>metis sameCursor_facts(3,4) tracked_facing\<close>)
  show ?thesis
  proof (cases "sConfig s")
    case None
    then show ?thesis
      by (simp add: ensures_def applyCompactionModelResult_def bindTx_eq_Inr attrGet_def agentConfigAttribute_def)
  next
    case (Some config)
    have "ensures (bindTx (trimSummarizedMessages config st1) (\<lambda>_. bindTx (writeActivity ev)
        (\<lambda>_. returnTx ContinueCallModel))) s1 (\<lambda>next. ready (CheckSteered next))" for ev
      unfolding ensures_simps by (rule ensures_mono [OF trim]) (rule facing_via, auto)
    moreover have "attrSet agentStateAttribute st1 (s \<lparr>sSummary := Some sum\<rparr>) = Inr ((), s1)"
      by (simp add: attribute_sets s1_def)
    ultimately show ?thesis
      by (simp add: applyCompactionModelResult_def ensures_bind_run attribute_gets attribute_sets st Some Let_def
          st1_def [symmetric] g_def [symmetric] sum_def [symmetric])
  qed
qed

lemma appendReply_tracked:
  assumes "facing [] s" and "distinctCalls reply"
  shows "ensures (appendReply ctx reply t expected) s
    (\<lambda>_ s'. \<exists>st. tracked st (replyToolCalls reply) s' \<and> pendingOf st = [] \<and> cursorOk st)"
proof -
  from assms(1) obtain st where st: "sState s = Some st" by (rule facing_state)
  note f = facing_noneD [OF assms(1) st]
  have "step [] (assistantMessage reply t) = Some (replyToolCalls reply)"
    using assms(2) by (simp add: assistantMessage_def distinctCalls_def)
  from tracked_append [OF f(1) this, of ctx] show ?thesis
    unfolding appendReply_def ensures_simps
    by (rule ensures_mono) (use f in \<open>auto simp: ensures_simps sameCursor_facts(3,4) intro!: exI\<close>)
qed

lemma setState_facing:
  assumes "tracked st p s" and "counters st' = counters st" and "pendingOf st' = p" and "cursorOk st'"
  shows "ensures (attrSet agentStateAttribute st') s (\<lambda>_. facing p)"
  by (rule ensures_mono [OF tracked_set [OF assms(1,2)]]) (rule tracked_facing [OF _ assms(3,4)])

lemma ready_continue:
  "facing [] s \<Longrightarrow> k \<in> {ContinueCompactContext, ContinueAwaitUser, ContinueCallModel} \<Longrightarrow> ready (CheckSteered k) s"
  by simp

lemma replyContinuation_ready:
  assumes t: "tracked st (replyToolCalls reply) s" and p: "pendingOf st = []" "cursorOk st"
  shows "ensures (replyContinuation reply st) s (\<lambda>next. ready (CheckSteered next))"
proof (cases "replyToolCalls reply = []")
  case True
  with t have t': "tracked st [] s" by simp
  have set: "ensures (attrSet agentStateAttribute st') s1 (\<lambda>_. facing [])"
    if "tracked st [] s1" "core st' = core st" for s1 st'
    using p core_cursor [OF that(2)] that by (intro setState_facing [OF that(1)]) (auto simp: core_def)
  have "ensures (replyContinuation reply st) s
      (\<lambda>next s'. facing [] s' \<and> next \<in> {ContinueCompactContext, ContinueAwaitUser, ContinueCallModel})"
    unfolding replyContinuation_def if_P [OF True] ensures_simps Let_def
    by (rule tracked_via [OF t'], blast)
      (auto simp: core_def counters_def p intro!: ensures_mono [OF set] intro: tracked_facing)
  then show ?thesis by (rule ensures_mono) (blast intro: ready_continue)
next
  case False
  let ?st = "st \<lparr>stStatus := RoutingTool, stPendingToolCalls := replyToolCalls reply, stPendingToolIndex := 0,
      stPlanNoProgressAttempts := 0\<rparr>"
  have "ensures (attrSet agentStateAttribute ?st) s (\<lambda>_. facing (replyToolCalls reply))"
    by (rule setState_facing [OF t]) (simp_all add: counters_def pendingOf_def cursorOk_def)
  then have "ensures (attrSet agentStateAttribute ?st) s (\<lambda>_. busy)"
    by (rule ensures_mono) (rule busyI [OF _ False])
  with False show ?thesis by (simp add: replyContinuation_def ensures_simps)
qed

lemma afterReply_ready:
  assumes "tracked st (replyToolCalls reply) s" and "pendingOf st = []" and "cursorOk st"
  shows "ensures (afterReply reply) s (\<lambda>next. ready (CheckSteered next))"
  unfolding afterReply_def ensures_simps
proof (rule tracked_via [OF assms(1)], blast, rule tracked_read, assumption, rule trim_continues, assumption)
  fix config s1 st1 st2 s2
  assume "core st1 = core st" and t: "tracked st2 (replyToolCalls reply) s2" and "sameCursor st2 st1"
  then have "pendingOf st2 = []" "cursorOk st2"
    using assms(2,3) by (metis core_sameCursor sameCursor_facts(3,4))+
  with t show "ensures (replyContinuation reply st2) s2 (\<lambda>next. ready (CheckSteered next))"
    by (rule replyContinuation_ready)
qed

text \<open>Batches: their results answer the calls they stand for.\<close>

lemma appendRecords_tracked:
  "tracked st (map tbrCall rs @ p) s \<Longrightarrow>
     ensures (appendRecords ctx expected rs) s (\<lambda>_ s'. \<exists>st'. tracked st' p s' \<and> sameCursor st' st)"
proof (induction rs arbitrary: expected s st)
  case Nil
  then show ?case by (auto simp: ensures_def)
next
  case (Cons r rs)
  from Cons.prems have t: "tracked st (tbrCall r # (map tbrCall rs @ p)) s" by simp
  have "ensures (bindTx (appendToolResult ctx (tbrCall r) result timing) (\<lambda>_.
      bindTx (writeToolTerminalActivity (tbrCall r) result) (\<lambda>_. appendRecords ctx (expected + 1) rs))) s
      (\<lambda>_ s'. \<exists>st'. tracked st' p s' \<and> sameCursor st' st)" for result timing
    unfolding ensures_simps writeToolTerminalActivity_def
  proof (rule ensures_mono [OF tracked_result [OF t]])
    fix x s1
    assume "\<exists>st'. tracked st' (map tbrCall rs @ p) s1 \<and> sameCursor st' st"
    then obtain st1 where st1: "tracked st1 (map tbrCall rs @ p) s1" "sameCursor st1 st" by blast
    show "ensures (writeActivity (toolTerminalEvent (tbrCall r) result)) s1
        (\<lambda>_ s'. ensures (appendRecords ctx (expected + 1) rs) s' (\<lambda>_ s'. \<exists>st'. tracked st' p s' \<and> sameCursor st' st))"
      by (rule tracked_via [OF st1(1)], blast, rule ensures_mono, erule Cons.IH)
        (use st1(2) in \<open>blast intro: sameCursor_trans\<close>)
  qed
  then show ?case by (auto simp: ensures_simps split: option.split sum.split)
qed

lemma batchReady_tracked:
  assumes "batchReady batch s"
  obtains st rest where "sState s = Some st" "tracked st (map tbrCall (tbRecords batch) @ rest) s" "cursorOk st"
    "pendingOf st = map tbrCall (tbRecords batch) @ rest" "tbFirstIndex batch = stPendingToolIndex st"
    "length (stPendingToolCalls st) = nat (stPendingToolIndex st) + length (tbRecords batch) + length rest"
    "drop (nat (stPendingToolIndex st) + length (tbRecords batch)) (stPendingToolCalls st) = rest"
    "sort_key tbrIndex (tbRecords batch) = tbRecords batch" "tbRecords batch \<noteq> []"
proof -
  from assms obtain st rest where b: "facing (map tbrCall (tbRecords batch) @ rest) s" "sState s = Some st"
    "tbFirstIndex batch = stPendingToolIndex st" "tbRecords batch \<noteq> []"
    "map tbrIndex (tbRecords batch) = map (\<lambda>k. tbFirstIndex batch + int k) [0..<length (tbRecords batch)]"
    unfolding batchReady_def by blast
  note f = facing_unique [OF b(1,2)]
  let ?n = "length (tbRecords batch)" and ?i = "nat (stPendingToolIndex st)"
  from f(1) have p: "drop ?i (stPendingToolCalls st) = map tbrCall (tbRecords batch) @ rest" by (simp add: pendingOf_def)
  then have "drop ?n (drop ?i (stPendingToolCalls st)) = rest" by simp
  then have rest: "drop (?i + ?n) (stPendingToolCalls st) = rest" by (simp add: add.commute)
  from p have "length (drop ?i (stPendingToolCalls st)) = ?n + length rest" by simp
  then have len: "length (stPendingToolCalls st) = ?i + ?n + length rest" using b(4) f(3)
    by (auto simp: cursorOk_def)
  have "sorted (map tbrIndex (tbRecords batch))" unfolding b(5) by (simp add: sorted_iff_nth_mono)
  then have sorted: "sort_key tbrIndex (tbRecords batch) = tbRecords batch" by (simp add: sort_key_id_if_sorted)
  show ?thesis by (rule that [OF b(2) f(4,3) f(1) [symmetric] b(3) len rest sorted b(4)])
qed

lemma advanceCursor_ready:
  assumes t: "tracked st rest s" and i: "cursorOk st"
    and len: "length (stPendingToolCalls st) = nat (stPendingToolIndex st) + n + length rest"
    and rest: "drop (nat (stPendingToolIndex st) + n) (stPendingToolCalls st) = rest"
  shows "ensures (advanceCursor (int n) st) s (\<lambda>next. ready (CheckSteered next))"
proof -
  let ?n = "stPendingToolIndex st + int n"
  have n: "nat ?n = nat (stPendingToolIndex st) + n" "0 \<le> ?n" "0 \<le> stPendingToolIndex st"
    using i by (simp_all add: cursorOk_def nat_add_distrib)
  show ?thesis
  proof (cases "?n < int (length (stPendingToolCalls st))")
    case True
    then have "rest \<noteq> []" using len n by auto
    have "ensures (attrSet agentStateAttribute (st \<lparr>stPendingToolIndex := ?n\<rparr>)) s (\<lambda>_. facing rest)"
      using True rest n by (intro setState_facing [OF t]) (simp_all add: counters_def pendingOf_def cursorOk_def)
    then have "ensures (attrSet agentStateAttribute (st \<lparr>stPendingToolIndex := ?n\<rparr>)) s (\<lambda>_. busy)"
      by (rule ensures_mono) (rule busyI [OF _ \<open>rest \<noteq> []\<close>])
    with True show ?thesis by (simp add: advanceCursor_def Let_def ensures_simps)
  next
    case False
    then have "rest = []" using len n by simp
    with t have "ensures (attrSet agentStateAttribute (st \<lparr>stPendingToolCalls := [], stPendingToolIndex := 0\<rparr>)) s
        (\<lambda>_. facing [])"
      by (intro setState_facing) (simp_all add: counters_def pendingOf_def cursorOk_def)
    with False show ?thesis by (simp add: advanceCursor_def Let_def ensures_simps)
  qed
qed

lemma finishToolBatch_ready:
  assumes "batchReady batch s"
  shows "ensures (finishToolBatch ctx batch) s (\<lambda>next. ready (CheckSteered next))"
proof -
  from assms obtain st rest where b: "sState s = Some st" "tracked st (map tbrCall (tbRecords batch) @ rest) s" "cursorOk st"
    "length (stPendingToolCalls st) = nat (stPendingToolIndex st) + length (tbRecords batch) + length rest"
    "drop (nat (stPendingToolIndex st) + length (tbRecords batch)) (stPendingToolCalls st) = rest"
    "sort_key tbrIndex (tbRecords batch) = tbRecords batch"
    by (rule batchReady_tracked)
  show ?thesis
    unfolding finishToolBatch_def appendToolBatchResults_def ensures_simps b(6)
  proof (rule ensures_mono [OF appendRecords_tracked [OF b(2)]], elim exE conjE, rule tracked_read, assumption)
    fix x s1 st1 st2
    assume "sameCursor st1 st" and "core st2 = core st1" and t: "tracked st2 rest s1"
    then have "sameCursor st2 st" by (blast intro: core_sameCursor sameCursor_trans)
    note cur = sameCursor_facts [OF this]
    have "ensures (advanceCursor (int (length (tbRecords batch))) st2) s1 (\<lambda>next. ready (CheckSteered next))"
      using cur b(3,4,5) by (intro advanceCursor_ready [OF t]) simp_all
    then show "(stPendingToolIndex st2 \<noteq> tbFirstIndex batch \<longrightarrow> True) \<and>
        (\<not> stPendingToolIndex st2 \<noteq> tbFirstIndex batch \<longrightarrow>
           ensures (advanceCursor (int (length (tbRecords batch))) st2) s1 (\<lambda>next. ready (CheckSteered next)))"
      by simp
  qed
qed

lemma finishToolExecution_ready:
  assumes "facing (call # rest) s"
  shows "ensures (finishToolExecution ctx call result timing) s (\<lambda>next. ready (CheckSteered next))"
proof -
  from assms obtain st where st: "sState s = Some st" by (rule facing_state)
  have "batchReady \<lparr>tbBatchID = [], tbFirstIndex = stPendingToolIndex st, tbRecords = [\<lparr>tbrIndex = stPendingToolIndex st,
      tbrCall = call, tbrResult = Some result, tbrHasResult = True, tbrErrorType = [], tbrPolicy = OtherPolicy [],
      tbrTiming = (case timing of None \<Rightarrow> noTiming | Some t \<Rightarrow> t)\<rparr>], tbRecoveryRevision = 0\<rparr> s"
    using assms st by (auto simp: batchReady_def)
  from finishToolBatch_ready [OF this, of ctx] show ?thesis
    by (simp add: finishToolExecution_def ensures_bind_run attribute_gets st)
qed

lemma cancelEach_tracked:
  "tracked st calls s \<Longrightarrow>
     ensures (forTx calls (\<lambda>call. bindTx (appendToolResult ctx call result None) (\<lambda>_. writeToolTerminalActivity call result))) s
       (\<lambda>_ s'. \<exists>st'. tracked st' [] s' \<and> sameCursor st' st)"
proof (induction calls arbitrary: s st)
  case Nil
  then show ?case by (auto simp: ensures_def)
next
  case (Cons call calls)
  show ?case unfolding forTx.simps ensures_simps writeToolTerminalActivity_def
  proof (rule ensures_mono [OF tracked_result [OF Cons.prems]], elim exE conjE, rule tracked_via, assumption, blast)
    fix x s1 st1 y s2
    assume "sameCursor st1 st" and "tracked st1 calls s2"
    with Cons.IH [OF this(2)] show "ensures (forTx calls (\<lambda>call. bindTx (appendToolResult ctx call result None)
        (\<lambda>_. writeActivity (toolTerminalEvent call result)))) s2 (\<lambda>_ s'. \<exists>st'. tracked st' [] s' \<and> sameCursor st' st)"
      unfolding writeToolTerminalActivity_def by (auto elim!: ensures_mono intro: sameCursor_trans)
  qed
qed

lemma stopToolSequence_facing:
  assumes "batchReady batch s"
  shows "ensures (stopToolSequenceAfterBatch ctx batch) s (\<lambda>_. facing [])"
proof -
  from assms obtain st rest where b: "tracked st (map tbrCall (tbRecords batch) @ rest) s" "cursorOk st"
    "tbFirstIndex batch = stPendingToolIndex st"
    "drop (nat (stPendingToolIndex st) + length (tbRecords batch)) (stPendingToolCalls st) = rest"
    "sort_key tbrIndex (tbRecords batch) = tbRecords batch"
    by (rule batchReady_tracked)
  let ?start = "tbFirstIndex batch + int (length (tbRecords batch))"
  show ?thesis
    unfolding stopToolSequenceAfterBatch_def appendToolBatchResults_def ensures_simps Let_def b(5)
  proof (rule ensures_mono [OF appendRecords_tracked [OF b(1)]], elim exE conjE, rule tracked_read, assumption)
    fix x s1 st1 st2
    assume "sameCursor st1 st" and "core st2 = core st1" and t: "tracked st2 rest s1"
    then have "stPendingToolCalls st2 = stPendingToolCalls st" by (simp add: core_def sameCursor_def)
    then have rest: "drop (nat ?start) (stPendingToolCalls st2) = rest"
      using b(2,3,4) by (simp add: cursorOk_def nat_add_distrib)
    let ?none = "st2 \<lparr>stPendingToolCalls := [], stPendingToolIndex := 0\<rparr>"
    have "tracked ?none rest s2 \<Longrightarrow> ensures (forTx rest (\<lambda>call. bindTx (appendToolResult ctx call result None)
        (\<lambda>_. writeToolTerminalActivity call result))) s2 (\<lambda>_. facing [])" for s2 result
      by (rule ensures_mono [OF cancelEach_tracked])
        (auto simp: sameCursor_def pendingOf_def cursorOk_def intro!: tracked_facing)
    then have "ensures (attrSet agentStateAttribute ?none) s1 (\<lambda>_ s'. ensures (forTx rest (\<lambda>call.
        bindTx (appendToolResult ctx call (interruptedResult ErrStoppedByRecovery) None)
        (\<lambda>_. writeToolTerminalActivity call (interruptedResult ErrStoppedByRecovery)))) s' (\<lambda>_. facing []))"
      by (intro ensures_mono [OF tracked_set [OF t]]) (simp_all add: counters_def)
    then show "(?start < 0 \<or> int (length (stPendingToolCalls st2)) < ?start \<longrightarrow> True) \<and>
        (\<not> (?start < 0 \<or> int (length (stPendingToolCalls st2)) < ?start) \<longrightarrow>
           ensures (attrSet agentStateAttribute ?none) s1 (\<lambda>_ s'. ensures (forTx (drop (nat ?start) (stPendingToolCalls st2))
             (\<lambda>call. bindTx (appendToolResult ctx call (interruptedResult ErrStoppedByRecovery) None)
               (\<lambda>_. writeToolTerminalActivity call (interruptedResult ErrStoppedByRecovery)))) s' (\<lambda>_. facing [])))"
      unfolding rest by simp
  qed
qed

text \<open>Batches keep standing for their calls while results are joined and decisions are taken.\<close>

lemma batchReady_cong:
  assumes "batchReady batch s" and "tbFirstIndex batch' = tbFirstIndex batch"
    and "map tbrCall (tbRecords batch') = map tbrCall (tbRecords batch)"
    and "map tbrIndex (tbRecords batch') = map tbrIndex (tbRecords batch)"
  shows "batchReady batch' s"
proof -
  from arg_cong [OF assms(3), of length] have "length (tbRecords batch') = length (tbRecords batch)" by simp
  with assms show ?thesis unfolding batchReady_def by (metis length_0_conv)
qed

lemma placeResult_shape:
  "placeResult p rs = Some rs' \<Longrightarrow> map tbrCall rs' = map tbrCall rs \<and> map tbrIndex rs' = map tbrIndex rs"
  by (induction rs arbitrary: rs') (auto split: if_splits)

lemma joinResults_shape:
  "joinResults ps seen rs = Inr rs' \<Longrightarrow> map tbrCall rs' = map tbrCall rs \<and> map tbrIndex rs' = map tbrIndex rs"
  by (induction ps seen rs rule: joinResults.induct)
    (auto split: if_splits option.splits dest!: placeResult_shape)

lemma decideRecord_shape [simp]: "tbrCall (decideRecord ds r) = tbrCall r" "tbrIndex (decideRecord ds r) = tbrIndex r"
  by (simp_all add: decideRecord_def)

lemma parallelRecords_shape:
  "parallelRecords flow config state i calls limit = Inr pairs \<Longrightarrow>
     (\<exists>rest. calls = map (tbrCall \<circ> fst) pairs @ rest) \<and>
     map (tbrIndex \<circ> fst) pairs = map (\<lambda>k. i + int k) [0..<length pairs]"
proof (induction flow config state i calls limit arbitrary: pairs rule: parallelRecords.induct)
  case (2 flow config state i call calls limit)
  show ?case
  proof (cases "pairs = []")
    case False
    with 2(2) obtain d rest where d: "\<not> limit \<le> 0" "invocationToolDefinition flow config state (tcName call) = Inr d"
      "\<not> (tdRequiresApproval d \<or> \<not> tdSupportsParallel d)" "validateToolExecutionPolicy d = Inr ()"
      "parallelRecords flow config state (i + 1) calls (limit - 1) = Inr rest"
      and pairs: "tbrCall (fst (hd pairs)) = call" "tbrIndex (fst (hd pairs)) = i" "tl pairs = rest"
      by (auto split: if_splits sum.splits)
    from 2(1) [OF d] obtain calls' where "calls = map (tbrCall \<circ> fst) rest @ calls'"
      "map (tbrIndex \<circ> fst) rest = map (\<lambda>k. i + 1 + int k) [0..<length rest]" by blast
    moreover have "pairs = hd pairs # rest" using False pairs(3) by (metis list.collapse)
    moreover have "map (\<lambda>k. i + int k) [0..<Suc n] = i # map (\<lambda>k. i + 1 + int k) [0..<n]" for n
      by (simp add: upt_conv_Cons map_Suc_upt [symmetric] comp_def del: upt_Suc)
    ultimately show ?thesis using pairs(1,2)
      by (metis (no_types, lifting) append_Cons comp_apply length_Cons list.simps(9))
  qed simp
qed simp

lemma branches_side: "list_all (\<lambda>x. isSide (fst x)) (map (\<lambda>(r, d). branchMovement instance' r (policy r) d) pairs)"
  by (induction pairs) (auto simp: branchMovement_def)

lemma parallelToolMovements_ready:
  assumes "parallelToolMovements flow config st = Inr (Some ms)" and "facing p s" and "sState s = Some st1"
    and "sameCursor st st1"
  shows "handsOver (GoTo ms) s"
proof -
  note cur = sameCursor_facts [OF assms(4)]
  note f = facing_unique [OF assms(2,3)]
  let ?start = "stPendingToolIndex st"
  from assms(1) obtain pairs where start: "\<not> ?start < 0" and
    pairs: "parallelRecords flow config st ?start (drop (nat ?start) (stPendingToolCalls st))
      (effectiveMaxParallelToolCalls config) = Inr pairs" "\<not> length pairs < 2" and
    ms: "ms = (AwaitParallelToolResults \<lparr>apiBatch = \<lparr>tbBatchID = batchIDFor st ?start, tbFirstIndex = ?start,
        tbRecords = map fst pairs, tbRecoveryRevision = 0\<rparr>, apiResultInstance = batchIDFor st ?start,
        apiExpectedCount = int (length pairs)\<rparr>, None) #
      map (\<lambda>(r, d). branchMovement (batchIDFor st ?start) r (tbrPolicy r) d) pairs"
    by (auto simp: parallelToolMovements_def Let_def split: if_splits sum.splits)
  from parallelRecords_shape [OF pairs(1)] obtain rest where
    rest: "drop (nat ?start) (stPendingToolCalls st) = map (tbrCall \<circ> fst) pairs @ rest" and
    idx: "map (tbrIndex \<circ> fst) pairs = map (\<lambda>k. ?start + int k) [0..<length pairs]" by blast
  have "p = map tbrCall (map fst pairs) @ rest" using f(1) rest cur(1,2) by (simp add: pendingOf_def)
  with assms(2) have "facing (map tbrCall (map fst pairs) @ rest) s" by simp
  with assms(3) pairs(2) idx cur(2) have "batchReady \<lparr>tbBatchID = batchIDFor st ?start, tbFirstIndex = ?start,
        tbRecords = map fst pairs, tbRecoveryRevision = 0\<rparr> s"
    unfolding batchReady_def by (intro exI [of _ st1] exI [of _ rest]) auto
  then show ?thesis using branches_side [of "batchIDFor st ?start" tbrPolicy pairs]
    by (simp add: handsOver_def ms)
qed

lemma retryMovements_side:
  "retryMovements flow config st instance' rs = Inr ms \<Longrightarrow> list_all (\<lambda>x. isSide (fst x)) ms"
  by (induction rs arbitrary: ms) (auto simp: branchMovement_def split: sum.splits)

end
