(* ===== verification/Movements.thy ===== *)
theory Movements
  imports Handover
begin

text \<open>
  The Execute and WaitFor methods of every Step against \<open>ready\<close>: a main movement that succeeds
  hands over to one ready main movement; a side movement keeps every other movement ready.
\<close>

section \<open>Steps that consume user input\<close>

lemma facing_read:
  "facing p s \<Longrightarrow> (\<And>st. sState s = Some st \<Longrightarrow> Q st s) \<Longrightarrow> ensures (attrGet agentStateAttribute) s Q"
  by (auto simp: ensures_def attrGet_def agentStateAttribute_def split: option.splits)

lemma keeps_replacePlan [intro!]: "keeps quiet (replacePlan tasks)"
  by (rule keeps_quietI) (rule quiet_replacePlan)

lemma setState_quiet:
  assumes "facing p s" and "sState s = Some st" and "core st' = core st"
  shows "ensures (attrSet agentStateAttribute st') s (\<lambda>_. facing p)"
  using quiet_setState [OF assms(2,3)] facing_quiet [OF assms(1)] by (simp add: ensures_def)

lemma initExecute_ready:
  assumes "ready (Init config) s"
  shows "ensures (initExecute flow ctx config) s handsOver"
proof -
  have new: "facing [] s'" if "sCurrent s' = Map.empty" "sArchived s' = Map.empty" "sState s' = Some newAgentState" for s'
  proof (rule facing_noneI [OF _ that(3)])
    have "sameHistory initialStore s'" using that by (simp add: sameHistory_def initialStore_def emptyStore_def)
    from sameHistory_facts(4) [OF this, of "[]"] consistent_initial(1) that(3) show "consistent s'"
      by (intro consistent_none [where st = newAgentState]) (simp_all add: newAgentState_def)
  qed (simp add: newAgentState_def)
  from assms show ?thesis
    unfolding initExecute_def ensures_simps Let_def
    by (auto simp: ensures_def attribute_sets handsOver_def goTo_def intro!: new)
qed

lemma executePlanRequest_ready:
  assumes "facing [] s"
  shows "ensures (executePlanRequest p es) s handsOver"
  unfolding executePlanRequest_def ensures_simps(4)
proof (rule facing_via [OF assms], blast, rule facing_read, assumption, unfold ensures_simps, intro conjI impI)
  fix x s1 st
  assume f: "facing [] s1" and st: "sState s1 = Some st"
  show "ensures (attrSet agentStateAttribute (st \<lparr>stPendingPlanExecution := None\<rparr>)) s1 (\<lambda>y. handsOver (goTo AwaitUser))"
    by (rule ensures_mono [OF setState_quiet [OF f st]]) (simp_all add: core_def counters_def)
  let ?st = "st \<lparr>stStatus := CallingModel, stInteractionMode := ModeExecuting,
      stPlanningRequiresWrite := False, stPlanningAllowsWrite := False, stPendingPlanExecution := None\<rparr>"
  have set: "ensures (attrSet agentStateAttribute ?st) s2 (\<lambda>_ s3. ensures (writeActivity ev) s3
      (\<lambda>y. handsOver (goTo (CheckSteered ContinueCompactContext))))" if "tracked st [] s2" for s2 ev
    by (rule ensures_mono [OF setState_facing [OF that]])
      (use facing_noneD [OF f st] in \<open>auto simp: counters_def pendingOf_def cursorOk_def intro!: facing_via\<close>)
  show "planStatusOf p = PlanDraft \<Longrightarrow> ensures (attrSet agentPlanAttribute (p \<lparr>planStatusOf := PlanActive\<rparr>)) s1
      (\<lambda>_ s2. ensures (attrSet agentStateAttribute ?st) s2 (\<lambda>_ s3. ensures (writeActivity ev) s3
      (\<lambda>y. handsOver (goTo (CheckSteered ContinueCompactContext)))))" for ev
    by (rule tracked_via [OF facing_noneD(1) [OF f st]]) (blast, rule set)
  show "ensures (attrSet agentStateAttribute ?st) s1 (\<lambda>_ s3. ensures (writeActivity ev) s3
      (\<lambda>y. handsOver (goTo (CheckSteered ContinueCompactContext))))" for ev
    by (rule set) (rule facing_noneD(1) [OF f st])
qed

lemma awaitUserExecute_ready:
  assumes "facing [] s"
  shows "ensures (awaitUserExecute ctx cn) s handsOver"
proof -
  have user: "ensures (beginUserTurn ctx message) s (\<lambda>n s'. ensures (k n) s' (\<lambda>y. handsOver (goTo next)))"
    if "\<And>n. keeps quiet (k n)" "next \<in> {AnsweredInput, CheckSteered ContinueCompactContext}" for message k "next"
    by (rule ensures_mono [OF beginUserTurn_facing [OF assms]], rule facing_via) (use that in auto)
  show ?thesis unfolding awaitUserExecute_def ensures_simps
    by (intro conjI impI allI user facing_via [OF assms] ensures_mono [OF beginSteeredTurn_facing [OF assms]])
      (auto intro: executePlanRequest_ready)
qed

lemma continueWith_ready:
  assumes "ready (CheckSteered k) s"
  shows "ensures (continueWith flow k) s handsOver"
proof (cases k)
  case ContinueExecuteTool
  with assms have "busy s" by simp
  then obtain call rest where f: "facing (call # rest) s" by (rule busyE)
  have "keeps quiet (currentSerialToolStepOptions flow)" unfolding currentSerialToolStepOptions_def by blast
  then have "ensures (currentSerialToolStepOptions flow) s (\<lambda>options. handsOver (GoTo [(ExecuteTool, Some options)]))"
    by (rule facing_via [OF f]) (auto simp: handsOver_def intro: busyI)
  then show ?thesis by (simp add: ContinueExecuteTool ensures_simps)
qed (use assms in \<open>auto simp: ensures_simps goToModel_ready intro: goToCompactionOrModel_ready\<close>)

lemma checkSteeredExecute_ready:
  assumes "ready (CheckSteered k) s"
  shows "ensures (checkSteeredExecute flow ctx cn k) s handsOver"
proof -
  from assms obtain p where f: "facing p s" by (auto simp: busy_def split: if_splits)
  show ?thesis unfolding checkSteeredExecute_def ensures_simps
    by (intro conjI impI ensures_mono [OF beginSteeredTurn_facing [OF f]] continueWith_ready assms) simp_all
qed

section \<open>Steps that call the model\<close>

lemma quiet_via: "ready next s \<Longrightarrow> keeps quiet m \<Longrightarrow> (\<And>x s'. ready next s' \<Longrightarrow> Q x s') \<Longrightarrow> ensures m s Q"
  by (rule ensures_quiet) (auto intro: ready_quiet)

lemma compactContextExecute_ready:
  assumes "ready (CompactContext c) s"
  shows "ensures (compactContextExecute ef ctx c) s handsOver"
  unfolding compactContextExecute_def ensures_simps
proof (rule quiet_via [OF assms], blast)
  fix summary s'
  assume "ready (CompactContext c) s'"
  then show "ensures (applyCompactionModelResult \<lparr>mcrSummary = summary, mcrThrough = c\<rparr>) s'
      (\<lambda>next. handsOver (goTo (CheckSteered next)))"
    by (intro ensures_mono [OF applyCompaction_ready]) auto
qed

text \<open>The model answers with calls that have distinct identities.\<close>

definition distinctReplies :: "effects \<Rightarrow> bool" where
  "distinctReplies ef \<longleftrightarrow> (\<forall>request reply usage. efComplete ef request = Inr (reply, usage) \<longrightarrow> distinctCalls reply)"

lemma requestResponse_distinct:
  assumes "distinctReplies ef" and "requestResponse flow ef ctx callID s = Inr ((reply, usage, n), s')"
  shows "distinctCalls reply \<and> quiet s s'"
proof
  show "quiet s s'" using quiet_requestResponse assms(2) by (rule keepsD)
  have "ensures (requestResponse flow ef ctx callID) s (\<lambda>(reply, usage, n) _. distinctCalls reply)"
    unfolding requestResponse_def ensures_simps failAfter_def
    using assms(1) by (auto simp: ensures_def distinctReplies_def split: sum.splits)
  with assms(2) show "distinctCalls reply" by (auto simp: ensures_def)
qed

lemma requestResponse_via:
  assumes "distinctReplies ef" and "facing [] s"
    and "\<And>reply usage n s'. distinctCalls reply \<Longrightarrow> facing [] s' \<Longrightarrow> Q (reply, usage, n) s'"
  shows "ensures (requestResponse flow ef ctx callID) s Q"
  unfolding ensures_def
  by (auto dest!: requestResponse_distinct [OF assms(1)] intro: assms(3) facing_quiet [OF assms(2)])

lemma appendReply_continues:
  assumes "facing [] s" and "distinctCalls reply"
    and "\<And>s'. \<exists>st. tracked st (replyToolCalls reply) s' \<and> pendingOf st = [] \<and> cursorOk st \<Longrightarrow> Q s'"
  shows "ensures (appendReply ctx reply t expected) s (\<lambda>_. Q)"
  by (rule ensures_mono [OF appendReply_tracked [OF assms(1,2)]]) (rule assms(3))

lemma callModelExecute_ready:
  assumes "ready CallModel s" and "distinctReplies ef"
  shows "ensures (callModelExecute flow ef ctx) s handsOver"
proof -
  from assms(1) have f: "facing [] s" by simp
  show ?thesis unfolding callModelExecute_def ensures_simps
  proof (rule requestResponse_via [OF assms(2) f], unfold fst_conv snd_conv, rule facing_via, assumption, blast, intro conjI impI TrueI)
    fix reply usage n s1 x s2
    assume d: "distinctCalls reply" and f2: "facing [] s2"
    show "ensures (appendReply ctx reply (cxFirstAttemptAt ctx) n) s2 (\<lambda>_ s3. ensures (modelCompleted ef ctx reply n) s3
        (\<lambda>_ s4. ensures (afterReply reply) s4 (\<lambda>next. handsOver (goTo (CheckSteered next)))))"
    proof (rule appendReply_continues [OF f2 d], elim exE conjE)
      fix s3 st
      assume "tracked st (replyToolCalls reply) s3" "pendingOf st = []" "cursorOk st"
      then show "ensures (modelCompleted ef ctx reply n) s3
        (\<lambda>_ s4. ensures (afterReply reply) s4 (\<lambda>next. handsOver (goTo (CheckSteered next))))"
        by (intro tracked_via [of st _ s3] ensures_mono [OF afterReply_ready]) (auto simp: modelCompleted_def)
    qed
  qed
qed

lemma beforeModelCall_ready:
  assumes "ready (BeforeModelCall p) s"
  shows "ensures (beforeModelCallExecute flow ef ctx p) s handsOver"
  unfolding beforeModelCallExecute_def ensures_simps Let_def
proof (intro conjI impI TrueI, rule quiet_via [OF assms], blast, intro allI conjI impI TrueI)
  fix config s1
  assume r: "ready (BeforeModelCall p) s1"
  then have f: "facing [] s1" by simp
  show "ensures (writeActivity ev) s1 (\<lambda>y. handsOver (goTo AwaitUser))" for ev
    by (rule facing_via [OF f]) auto
  show "handsOver (goTo (CallModelWithHooks \<lparr>mciCallID = i, mciKind = mcpKind p, mciThrough = mcpThrough p\<rparr>)) s1" for i
    using r by simp
qed

lemma callModelWithHooks_ready:
  assumes "ready (CallModelWithHooks i) s" and "distinctReplies ef"
  shows "ensures (callModelWithHooksExecute flow ef ctx i) s handsOver"
proof -
  from assms(1) have f: "facing [] s" by simp
  have "ensures (callResponseModel flow ef ctx (mciCallID i)) s (\<lambda>r s'. resultReady r s')"
    unfolding callResponseModel_def ensures_simps
    by (rule requestResponse_via [OF assms(2) f], unfold fst_conv snd_conv, intro conjI impI TrueI,
        rule facing_via, assumption, blast, rule facing_via, assumption)
      (auto simp: modelCompleted_def resultReady_def)
  moreover have "ensures (callCompactionModel ef ctx (mciCallID i) (mciThrough i)) s (\<lambda>r s'. resultReady r s')"
    if "mciKind i = KindCompaction"
    unfolding callCompactionModel_def ensures_simps
    by (rule quiet_via [OF assms(1)]) (use that in \<open>auto simp: resultReady_def\<close>)
  ultimately show ?thesis
    by (cases "mciKind i") (auto simp: callModelWithHooksExecute_def ensures_simps)
qed

lemma afterModelCall_ready:
  assumes "ready (AfterModelCall r) s"
  shows "ensures (afterModelCallExecute flow ef ctx r) s handsOver"
  unfolding afterModelCallExecute_def ensures_simps
  by (intro conjI impI TrueI, rule quiet_via [OF assms]) auto

lemma applyModelResult_ready:
  assumes "ready (ApplyModelResult r) s"
  shows "ensures (applyModelResultExecute ctx r) s handsOver"
proof -
  from assms have r: "facing [] s" "\<And>x. mresResponse r = Some x \<Longrightarrow> distinctCalls (mrrReply x)"
    "\<And>c. mresCompaction r = Some c \<Longrightarrow> closedThrough (mcrThrough c) s" by (auto simp: resultReady_def)
  have "ensures (bindTx (applyResponseModelResult ctx x) (\<lambda>next. returnTx (goTo (CheckSteered next)))) s handsOver"
    if "mresResponse r = Some x" for x
    unfolding applyResponseModelResult_def ensures_simps
    by (rule appendReply_continues [OF r(1) r(2) [OF that]], elim exE conjE,
        rule ensures_mono [OF afterReply_ready], assumption+) simp
  moreover have "ensures (bindTx (applyCompactionModelResult c) (\<lambda>next. returnTx (goTo (CheckSteered next)))) s handsOver"
    if "mresCompaction r = Some c" for c
    unfolding ensures_simps by (rule ensures_mono [OF applyCompaction_ready [OF r(1) r(3) [OF that]]]) simp
  ultimately show ?thesis
    by (cases "mresKind r"; cases "mresResponse r"; cases "mresCompaction r")
      (simp_all add: applyModelResultExecute_def ensures_simps(2))
qed

section \<open>Steps that route and execute tools\<close>

lemma routeWriteTodos_ready:
  assumes "facing (call # rest) s" and "sState s = Some st"
  shows "ensures (routeWriteTodos flow ctx st call) s handsOver"
proof -
  have "ensures (attrSet agentStateAttribute (st \<lparr>stPlanningRequiresWrite := False, stPlanningAllowsWrite := True\<rparr>)) s
      (\<lambda>_. facing (call # rest))"
    by (rule setState_quiet [OF assms]) (simp add: core_def counters_def)
  then have "ensures (attrSet agentStateAttribute (st \<lparr>stPlanningRequiresWrite := False, stPlanningAllowsWrite := True\<rparr>)) s
      (\<lambda>_ s'. ensures (answerCall ctx call r) s' handsOver)" for r
    by (rule ensures_mono) (rule answerCall_ok)
  moreover have "ensures (replacePlan tasks) s (\<lambda>n s'. ensures (answerCall ctx call (r n)) s' handsOver)" for tasks r
    by (rule facing_via [OF assms(1)]) (auto intro: answerCall_ok)
  ultimately show ?thesis
    unfolding routeWriteTodos_def ensures_simps using answerCall_ok [OF assms(1)] by simp
qed

lemma routeDurableWait_ready:
  assumes "facing (call # rest) s"
  shows "ensures (routeDurableWait flow ctx call) s handsOver"
proof -
  have "ensures (attrSet pendingTimerAttribute t) s (\<lambda>_ s1. ensures (writeActivity ev) s1
      (\<lambda>_. busy))" for t ev
    by (rule facing_via [OF assms], blast, rule facing_via, assumption) (auto intro: busyI)
  with answerCall_ok [OF assms] show ?thesis
    unfolding routeDurableWait_def by (auto simp: ensures_simps split: sum.split)
qed

lemma routeRequestUserInput_ready:
  assumes "facing (call # rest) s"
  shows "ensures (routeRequestUserInput flow ctx call) s handsOver"
proof -
  have ask: "ensures (attrSet pendingUserInputAttribute q) s1 (\<lambda>_ s2.
      ensures (appendToolResultAndCancelRemaining ctx call r ErrSupersededByUserInput) s2 (\<lambda>_ s3.
      ensures (writeActivity ev) s3 (\<lambda>_. facing [])))" if "facing (call # rest) s1" for q r ev s1
    by (rule facing_via [OF that], blast, rule ensures_mono [OF cancelRemaining_facing], assumption,
        rule facing_via, assumption) auto
  show ?thesis
    unfolding routeRequestUserInput_def ensures_simps
    by (rule facing_via [OF assms]) (auto intro: answerCall_ok ask)
qed

lemma routeExternal_ready:
  assumes f: "facing (call # rest) s" and st: "sState s = Some st"
  shows "ensures (routeExternal flow ctx config st call d) s handsOver"
proof -
  have movements: "ensures (updateStatus status) s (\<lambda>_. handsOver (GoTo ms))"
    if ms: "parallelToolMovements flow config st = Inr (Some ms)" for ms status
  proof (rule ensures_quiet)
    fix x s'
    assume q: "quiet s s'"
    from quiet_state [OF q st] obtain st' where st': "sState s' = Some st'"
      "stPendingToolCalls st' = stPendingToolCalls st" "stPendingToolIndex st' = stPendingToolIndex st" by blast
    then have "sameCursor st st'" by (simp add: sameCursor_def)
    with ms facing_quiet [OF f q] st'(1) show "handsOver (GoTo ms) s'" by (rule parallelToolMovements_ready)
  qed blast
  have "ensures (attrSet pendingApprovalAttribute a) s (\<lambda>_ s1. ensures (writeActivity ev) s1
      (\<lambda>_. handsOver (goTo (CheckSteered ContinueAwaitToolApproval))))" for a ev
    by (rule facing_via [OF f], blast, rule facing_via, assumption) (auto intro: busyI)
  then show ?thesis
    unfolding routeExternal_def ensures_simps using movements busyI [OF f] by auto
qed

lemma routeToolExecute_ready:
  assumes "ready RouteTool s"
  shows "ensures (routeToolExecute flow ctx) s handsOver"
proof -
  from assms obtain call rest where f: "facing (call # rest) s" by (auto elim: busyE)
  show ?thesis
    unfolding routeToolExecute_def ensures_simps(4)
  proof (rule facing_via [OF f], blast, rule ensures_mono, erule facing_current, elim conjE exE, hypsubst,
      rule facing_via, assumption, blast, rule facing_read, assumption)
    fix x s1 call' s2 rest' y s3 st
    assume "call # rest = call' # rest'" and f: "facing (call # rest) s3" and st: "sState s3 = Some st"
    then have "facing (call' # rest') s3" by simp
    note here = this st
    show "ensures (case invocationToolDefinition flow y st (tcName call') of
       Inl e \<Rightarrow> answerCall ctx call' (encodeToolResult ((payload StatusFailed) \<lparr>plError := Some ErrUnknownOrDisabled,
                  plTool := tcName call'\<rparr>) OutcomeKnownFailure True)
     | Inr definition' \<Rightarrow>
       if tcName call' = toolNameWriteTodos then routeWriteTodos flow ctx st call'
       else if tcName call' = toolNameDurableWait then routeDurableWait flow ctx call'
       else if tcName call' = toolNameRequestUserInput then routeRequestUserInput flow ctx call'
       else routeExternal flow ctx y st call' definition') s3 handsOver"
      unfolding ensures_simps
      using answerCall_ok [OF here(1)] routeWriteTodos_ready [OF here] routeDurableWait_ready [OF here(1)]
        routeRequestUserInput_ready [OF here(1)] routeExternal_ready [OF here]
      by blast
  qed
qed

lemma awaitToolApproval_ready:
  assumes "ready AwaitToolApproval s"
  shows "ensures (awaitToolApprovalExecute ctx cn) s handsOver"
proof -
  from assms obtain call rest where f: "facing (call # rest) s" by (auto elim: busyE)
  have decided: "ensures (writeActivity ev) s (\<lambda>_ s1. ensures (deletePresent pendingApprovalAttribute) s1 Q)"
    if "\<And>x s'. facing (call # rest) s' \<Longrightarrow> Q x s'" for ev Q
    by (rule facing_via [OF f], blast, rule facing_via, assumption) (auto intro: that)
  show ?thesis
    unfolding awaitToolApprovalExecute_def ensures_simps
    by (intro conjI impI ensures_mono [OF beginSteeredTurn_facing [OF f]] ensures_mono [OF facing_current [OF f]])
      (auto intro!: decided intro: answerCall_ok busyI)
qed

lemma invokeTool_via:
  "facing p s \<Longrightarrow> (\<And>x s'. facing p s' \<Longrightarrow> Q x s') \<Longrightarrow> ensures (invokeTool flow ef ctx call) s Q"
  by (rule facing_via) auto

lemma executeTool_ready:
  assumes "ready ExecuteTool s"
  shows "ensures (executeToolExecute flow ef ctx) s handsOver"
proof -
  from assms obtain call rest where f: "facing (call # rest) s" by (auto elim: busyE)
  show ?thesis
    unfolding executeToolExecute_def ensures_simps
    by (rule facing_via [OF f], blast, rule ensures_mono, erule facing_current, elim conjE exE, hypsubst,
        rule invokeTool_via, assumption, intro conjI impI) (auto intro: busyI finishToolExecution_ready simp del: ready.simps(7))
qed

lemma recoverToolExecution_ready:
  assumes "ready RecoverToolExecution s"
  shows "ensures (recoverToolExecutionExecute ef ctx) s handsOver"
proof -
  from assms obtain call rest where f: "facing (call # rest) s" by (auto elim: busyE)
  show ?thesis
    unfolding recoverToolExecutionExecute_def ensures_simps
    by (intro ensures_mono [OF facing_current [OF f]]) (auto intro: finishToolExecution_ready [OF f] simp del: ready.simps(7))
qed

lemma finishToolBatch_handsOver:
  "batchReady batch s \<Longrightarrow> ensures (finishToolBatch ctx batch) s (\<lambda>next. handsOver (goTo (CheckSteered next)))"
  by (erule ensures_mono [OF finishToolBatch_ready]) simp

lemma awaitParallel_ready:
  assumes "ready (AwaitParallelToolResults input) s"
  shows "ensures (awaitParallelExecute ctx cn input) s handsOver"
proof -
  from assms have b: "batchReady (apiBatch input) s" by simp
  have "batchReady (apiBatch input \<lparr>tbRecords := records, tbRecoveryRevision := r\<rparr>) s \<and>
      batchReady (apiBatch input \<lparr>tbRecords := records\<rparr>) s"
    if "joinResults results [] (tbRecords (apiBatch input)) = Inr records" for results records r
    using joinResults_shape [OF that] by (auto intro!: batchReady_cong [OF b])
  then show ?thesis
    unfolding awaitParallelExecute_def ensures_simps Let_def
    by (auto intro: finishToolBatch_handsOver)
qed

lemma prepareManual_ready:
  assumes "ready PrepareManualToolRecovery s"
  shows "ensures (prepareManualToolRecoveryExecute ef) s handsOver"
proof -
  from assms obtain call rest where f: "facing (call # rest) s" by (auto elim: busyE)
  have "batchReady \<lparr>tbBatchID = batchIDFor st (stPendingToolIndex st), tbFirstIndex = stPendingToolIndex st,
      tbRecords = [\<lparr>tbrIndex = stPendingToolIndex st, tbrCall = call, tbrResult = Some (unknownToolResult t),
        tbrHasResult = True, tbrErrorType = t, tbrPolicy = PolicyManualRecovery, tbrTiming = noTiming\<rparr>],
      tbRecoveryRevision = 1\<rparr> s" if "sState s = Some st" for st t
    using f that by (auto simp: batchReady_def)
  then show ?thesis
    unfolding prepareManualToolRecoveryExecute_def ensures_simps Let_def
    by (intro ensures_mono [OF facing_current [OF f]]) (auto intro!: facing_read [OF f])
qed

lemma resumeBatch_ready:
  assumes b: "batchReady batch s"
  shows "ensures (resumeBatch flow ctx batch requested) s handsOver"
proof -
  have keep: "batchReady (batch \<lparr>tbRecords := map (decideRecord ds) (tbRecords batch), tbRecoveryRevision := r\<rparr>) s'"
      "batchReady (batch \<lparr>tbRecords := map (decideRecord ds) (tbRecords batch)\<rparr>) s'"
    if "quiet s s'" for ds r s'
    by (rule batchReady_cong [OF batchReady_quiet [OF b that]]; simp)+
  have branches: "ensures (updateStatus ExecutingTool) s' (\<lambda>_. handsOver (GoTo ((AwaitParallelToolResults
      \<lparr>apiBatch = batch \<lparr>tbRecords := map (decideRecord ds) (tbRecords batch), tbRecoveryRevision := r\<rparr>,
       apiResultInstance = i, apiExpectedCount = n\<rparr>, None) # ms)))"
    if "quiet s s'" "list_all (\<lambda>x. isSide (fst x)) ms" for s' ds r i n ms
    by (rule ensures_quiet) (auto simp: handsOver_def that(2) intro!: keep quiet_trans [OF that(1)])
  show ?thesis
    unfolding resumeBatch_def Let_def ensures_simps
  proof (intro conjI impI)
    show "ensures (finishToolBatch ctx (batch \<lparr>tbRecords := map (decideRecord ds) (tbRecords batch)\<rparr>)) s
        (\<lambda>next. handsOver (goTo (CheckSteered next)))" for ds
      by (rule finishToolBatch_handsOver [OF keep(2)]) simp
  next
    show "ensures (attrGet agentConfigAttribute) s (\<lambda>c s1. ensures (attrGet agentStateAttribute) s1 (\<lambda>st s2. \<forall>x.
        retryMovements flow c st i rs = Inr x \<longrightarrow> ensures (updateStatus ExecutingTool) s2 (\<lambda>_. handsOver
          (GoTo ((AwaitParallelToolResults \<lparr>apiBatch = batch \<lparr>tbRecords := map (decideRecord ds) (tbRecords batch),
            tbRecoveryRevision := r\<rparr>, apiResultInstance = i, apiExpectedCount = n\<rparr>, None) # x)))))" for ds r i n rs
      by (rule ensures_quiet, blast, rule ensures_quiet, blast, intro allI impI, rule branches,
          erule (1) quiet_trans, erule retryMovements_side)
  qed
qed

lemma batch_steered:
  assumes "batchReady batch s"
  shows "ensures (appendToolBatchResults ctx batch) s (\<lambda>_ s1. ensures (attrGet agentStateAttribute) s1 (\<lambda>st s2.
      ensures (attrSet agentStateAttribute (st \<lparr>stPendingToolIndex := tbFirstIndex batch + int (length (tbRecords batch))\<rparr>)) s2
        (\<lambda>_ s3. ensures (beginSteeredTurn ctx ms) s3 (\<lambda>_. facing []))))"
proof -
  from assms obtain st rest where b: "tracked st (map tbrCall (tbRecords batch) @ rest) s" "cursorOk st"
    "tbFirstIndex batch = stPendingToolIndex st"
    "length (stPendingToolCalls st) = nat (stPendingToolIndex st) + length (tbRecords batch) + length rest"
    "drop (nat (stPendingToolIndex st) + length (tbRecords batch)) (stPendingToolCalls st) = rest"
    "sort_key tbrIndex (tbRecords batch) = tbRecords batch"
    by (rule batchReady_tracked)
  let ?n = "tbFirstIndex batch + int (length (tbRecords batch))"
  have n: "nat ?n = nat (stPendingToolIndex st) + length (tbRecords batch)" "0 \<le> ?n"
    using b(2,3) by (simp_all add: cursorOk_def nat_add_distrib)
  show ?thesis unfolding appendToolBatchResults_def b(6)
  proof (rule ensures_mono [OF appendRecords_tracked [OF b(1)]], elim exE conjE, rule tracked_read, assumption)
    fix x s1 st1 st2
    assume "sameCursor st1 st" and "core st2 = core st1" and t: "tracked st2 rest s1"
    then have cur: "stPendingToolCalls st2 = stPendingToolCalls st" by (simp add: core_def sameCursor_def)
    have "ensures (attrSet agentStateAttribute (st2 \<lparr>stPendingToolIndex := ?n\<rparr>)) s1 (\<lambda>_. facing rest)"
      using cur n b(2-5) by (intro setState_facing [OF t]) (simp_all add: counters_def pendingOf_def cursorOk_def)
    then show "ensures (attrSet agentStateAttribute (st2 \<lparr>stPendingToolIndex := ?n\<rparr>)) s1
        (\<lambda>_ s3. ensures (beginSteeredTurn ctx ms) s3 (\<lambda>_. facing []))"
      by (rule ensures_mono) (rule beginSteeredTurn_facing)
  qed
qed

lemma awaitManual_ready:
  assumes "ready (AwaitManualToolRecovery batch) s"
  shows "ensures (awaitManualExecute flow ctx cn batch) s handsOver"
proof -
  from assms have b: "batchReady batch s" by simp
  have via: "ensures m s' Q" if "batchReady batch s'" "keeps quiet m" "\<And>x s'. batchReady batch s' \<Longrightarrow> Q x s'" for m s' Q
    by (rule ensures_quiet [OF that(2)]) (auto intro: that(3) batchReady_quiet [OF that(1)])
  have stop: "ensures (stopToolSequenceAfterBatch ctx batch) s' (\<lambda>_. handsOver (goTo AwaitUser))" if "batchReady batch s'" for s'
    by (rule ensures_mono [OF stopToolSequence_facing [OF that]]) simp
  show ?thesis
    unfolding awaitManualExecute_def ensures_simps
    by (intro conjI impI allI TrueI via [OF b])
      (auto intro: via batch_steered resumeBatch_ready stop)
qed

section \<open>Steps that wait for time\<close>

lemma durableWait_ready:
  assumes "ready DurableWait s"
  shows "ensures (durableWaitExecute ctx cn) s handsOver"
proof -
  from assms obtain call rest where f: "facing (call # rest) s" by (auto elim: busyE)
  have interrupted: "ensures (appendToolResultAndCancelRemaining ctx call r reason) s1 (\<lambda>_ s2.
      ensures (beginSteeredTurn ctx ms) s2 (\<lambda>_. facing []))"
    if "facing (call # rest) s1" for r reason ms s1
    by (rule ensures_mono [OF cancelRemaining_facing [OF that]], rule ensures_mono, erule beginSteeredTurn_facing) simp
  have "ensures (attrGet pendingTimerAttribute) s (\<lambda>t s1. ensures (attrDelete pendingTimerAttribute) s1 (Q t))"
    if "\<And>t x s'. facing (call # rest) s' \<Longrightarrow> Q t x s'" for Q
    by (rule facing_via [OF f], blast, rule facing_via, assumption) (auto intro: that)
  note timer = this
  have "ensures (writeActivity ev) s1 Q" if "facing (call # rest) s1" "\<And>x s'. facing (call # rest) s' \<Longrightarrow> Q x s'" for ev Q s1
    by (rule facing_via [OF that(1)]) (auto intro: that(2))
  note event = this
  show ?thesis
    unfolding durableWaitExecute_def ensures_simps
    by (rule ensures_mono [OF facing_current [OF f]], elim conjE exE)
      (auto intro!: timer event interrupted answerCall_ok)
qed

section \<open>Side movements\<close>

lemma quiet_executeParallel [intro!]: "keeps quiet (executeParallelToolExecute flow ef ctx input)"
  by (auto simp: executeParallelToolExecute_def)

lemma quiet_recoverParallel [intro!]: "keeps quiet (recoverParallelToolExecutionExecute ef input)"
  by (auto simp: recoverParallelToolExecutionExecute_def)

lemma quiet_inactivity [intro!]: "keeps quiet (inactivityExecute flow ef ctx cn deadline)"
  by (auto simp: inactivityExecute_def)

section \<open>Every movement\<close>

lemma ready_idle: "ready AwaitUser s \<Longrightarrow> facing [] s" "ready AnsweredInput s \<Longrightarrow> facing [] s"
  by simp_all

lemma execute_ready:
  assumes "ready input s" and "\<not> isSide input" and "distinctReplies ef"
  shows "ensures (executeOf flow ef ctx cn input) s handsOver"
  using assms
  by (cases input)
    (simp_all add: ready_idle initExecute_ready awaitUserExecute_ready answeredInputExecute_def goToCompactionOrModel_ready
      compactContextExecute_ready callModelExecute_ready beforeModelCall_ready callModelWithHooks_ready
      afterModelCall_ready applyModelResult_ready checkSteeredExecute_ready routeToolExecute_ready
      awaitToolApproval_ready executeTool_ready recoverToolExecution_ready awaitParallel_ready
      prepareManual_ready awaitManual_ready durableWait_ready
      del: ready.simps)

lemma execute_side: "isSide input \<Longrightarrow> keeps quiet (executeOf flow ef ctx cn input)"
  by (cases input) auto

text \<open>What a side movement decides: to run once more, to end, or to complete the Flow.\<close>

fun sideDecision :: "decision \<Rightarrow> bool" where
  "sideDecision (GoTo ms) = list_all (\<lambda>x. isSide (fst x)) ms"
| "sideDecision DeadEnd = True"
| "sideDecision (ForceComplete r) = True"

lemma ensures_True [simp]: "ensures m s (\<lambda>x s'. True)"
  by (simp add: ensures_def)

lemma execute_sideDecision:
  "isSide input \<Longrightarrow> ensures (executeOf flow ef ctx cn input) s (\<lambda>d _. sideDecision d)"
  by (cases input)
    (simp_all add: executeParallelToolExecute_def recoverParallelToolExecutionExecute_def inactivityExecute_def
      ensures_simps goTo_def)

end
