(* ===== verification/Machine.thy ===== *)
theory Machine
  imports Movements
begin

text \<open>
  A running Flow as a state machine: the durable store, the active movements with the phase
  each one is in, the clock of the engine and the outcome. One transition is one atomic commit
  (a command, a WaitFor, an Execute), the consumption of a completed wait, the routing of an
  exhausted attempt, or the passing of time. An attempt that fails commits nothing.

  What the engine is relied on for is what \<^verbatim>\<open>docs/flow-model.md\<close> states: every method is an
  atomic commit, a wait completes when one of its alternatives does (any non-empty choice of
  completed alternatives may be consumed), and a timer fires at its duration or later.
\<close>

section \<open>Configurations\<close>

datatype phase = Entering | Waiting wait goTime | Executing conditions

record activeStep =
  asInput :: stepInput
  asOptions :: "movementOptions option"
  asPhase :: phase

datatype outcome = Running | Completed string | Failed

record configuration =
  cfStore :: store
  cfActive :: "activeStep list"
  cfClock :: goTime
  cfOutcome :: outcome

definition entering :: "stepMovement \<Rightarrow> activeStep" where
  "entering m = \<lparr>asInput = fst m, asOptions = snd m, asPhase = Entering\<rparr>"

text \<open>The store a Flow starts with holds its runtime metadata only.\<close>

definition startConfiguration :: "agentConfig \<Rightarrow> jsonObject \<Rightarrow> goTime \<Rightarrow> configuration" where
  "startConfiguration config metadata now = \<lparr>
     cfStore = emptyStore \<lparr>sRuntimeMetadata := Some metadata\<rparr>,
     cfActive = [entering (Init config, None)], cfClock = now, cfOutcome = Running\<rparr>"

section \<open>Completed waits\<close>

text \<open>\<open>takeMessages a b q\<close>: at least \<open>a\<close> pending messages complete the condition, at most \<open>b\<close> are consumed.\<close>

definition takeMessages :: "int \<Rightarrow> int \<Rightarrow> 'v envelope list \<Rightarrow> ('v list \<times> 'v envelope list) option" where
  "takeMessages a b q =
     (if int (length q) < a then None
      else if int (length q) \<le> b then Some (map snd q, [])
      else Some (map snd (take (nat b) q), drop (nat b) q))"

text \<open>What one completed condition consumes; \<open>elapsed\<close> is the time since the wait began.\<close>

fun takeCondition :: "duration \<Rightarrow> condition \<Rightarrow> conditions \<times> store \<Rightarrow> (conditions \<times> store) option" where
  "takeCondition elapsed AnsweredForOne (cn, s) =
     map_option (\<lambda>(vs, q). (cn \<lparr>cnAnswered := vs\<rparr>, s \<lparr>chAnswered := q\<rparr>)) (takeMessages 1 1 (chAnswered s))"
| "takeCondition elapsed (SteeredAtLeastAtMost a b) (cn, s) =
     map_option (\<lambda>(vs, q). (cn \<lparr>cnSteered := vs\<rparr>, s \<lparr>chSteered := q\<rparr>)) (takeMessages a b (chSteered s))"
| "takeCondition elapsed (SteeredAtMost b) (cn, s) =
     map_option (\<lambda>(vs, q). (cn \<lparr>cnSteered := vs\<rparr>, s \<lparr>chSteered := q\<rparr>)) (takeMessages 0 b (chSteered s))"
| "takeCondition elapsed QueuedForOne (cn, s) =
     map_option (\<lambda>(vs, q). (cn \<lparr>cnQueued := vs\<rparr>, s \<lparr>chQueued := q\<rparr>)) (takeMessages 1 1 (chQueued s))"
| "takeCondition elapsed (PlanExecutionsForOne key) (cn, s) =
     map_option (\<lambda>(vs, q). (cn \<lparr>cnPlanExecutions := (cnPlanExecutions cn)(key := vs)\<rparr>,
         s \<lparr>chPlanExecutions := (chPlanExecutions s)(key := q)\<rparr>)) (takeMessages 1 1 (chPlanExecutions s key))"
| "takeCondition elapsed (ApprovalsForOne key) (cn, s) =
     map_option (\<lambda>(vs, q). (cn \<lparr>cnApprovals := (cnApprovals cn)(key := vs)\<rparr>,
         s \<lparr>chApprovals := (chApprovals s)(key := q)\<rparr>)) (takeMessages 1 1 (chApprovals s key))"
| "takeCondition elapsed (RecoveryDecisionsForOne key) (cn, s) =
     map_option (\<lambda>(vs, q). (cn \<lparr>cnRecovery := (cnRecovery cn)(key := vs)\<rparr>,
         s \<lparr>chRecovery := (chRecovery s)(key := q)\<rparr>)) (takeMessages 1 1 (chRecovery s key))"
| "takeCondition elapsed (ParallelResultsForN key n) (cn, s) =
     map_option (\<lambda>(vs, q). (cn \<lparr>cnParallel := (cnParallel cn)(key := vs)\<rparr>,
         s \<lparr>chParallel := (chParallel s)(key := q)\<rparr>)) (takeMessages n n (chParallel s key))"
| "takeCondition elapsed (ResetAtLeastAtMost a b) (cn, s) =
     map_option (\<lambda>(vs, q). (cn \<lparr>cnReset := vs\<rparr>, s \<lparr>chReset := q\<rparr>)) (takeMessages a b (chReset s))"
| "takeCondition elapsed (ResetAtMost b) (cn, s) =
     map_option (\<lambda>(vs, q). (cn \<lparr>cnReset := vs\<rparr>, s \<lparr>chReset := q\<rparr>)) (takeMessages 0 b (chReset s))"
| "takeCondition elapsed (Timer d) (cn, s) = (if d \<le> elapsed then Some (cn \<lparr>cnTimerFired := True\<rparr>, s) else None)"

text \<open>Some of the alternatives are consumed, in order.\<close>

inductive takeSome :: "duration \<Rightarrow> condition list \<Rightarrow> conditions \<times> store \<Rightarrow> conditions \<times> store \<Rightarrow> bool" where
  takeNone: "takeSome elapsed [] x x"
| takeSkip: "takeSome elapsed cs x y \<Longrightarrow> takeSome elapsed (c # cs) x y"
| takeThis: "takeCondition elapsed c x = Some y \<Longrightarrow> takeSome elapsed cs y z \<Longrightarrow> takeSome elapsed (c # cs) x z"

text \<open>A wait is over when its condition, or at least one of its alternatives, is complete.\<close>

inductive wakes :: "duration \<Rightarrow> wait \<Rightarrow> conditions \<times> store \<Rightarrow> conditions \<times> store \<Rightarrow> bool" where
  wakeUntil: "takeCondition elapsed c x = Some y \<Longrightarrow> wakes elapsed (Until c) x y"
| wakeAny: "pre @ c # post = cs \<Longrightarrow> takeSome elapsed pre x y \<Longrightarrow> takeCondition elapsed c y = Some z \<Longrightarrow>
     takeSome elapsed post z z' \<Longrightarrow> wakes elapsed (AnyOf cs) x z'"

section \<open>Transitions\<close>

text \<open>The movement a decision or an exhausted attempt leads to.\<close>

fun recoveryInput :: "stepInput \<Rightarrow> stepTag \<Rightarrow> stepInput option" where
  "recoveryInput ExecuteTool TRecoverToolExecution = Some RecoverToolExecution"
| "recoveryInput ExecuteTool TPrepareManualToolRecovery = Some PrepareManualToolRecovery"
| "recoveryInput (ExecuteParallelTool input) TRecoverParallelToolExecution = Some (RecoverParallelToolExecution input)"
| "recoveryInput _ _ = None"

definition onFailure :: "activeStep \<Rightarrow> stepInput option" where
  "onFailure a = Option.bind (asOptions a) (\<lambda>opts. Option.bind (moOnFailure opts) (\<lambda>(tag, _). recoveryInput (asInput a) tag))"

fun decided :: "decision \<Rightarrow> activeStep list \<Rightarrow> activeStep list \<times> outcome" where
  "decided (GoTo ms) others = (others @ map entering ms, Running)"
| "decided DeadEnd others = (others, Running)"
| "decided (ForceComplete reason) others = ([], Completed reason)"

datatype label =
    Commanded command bool
  | Passed
  | Waited stepInput
  | Woke stepInput conditions
  | Executed stepInput decision
  | Exhausted stepInput

inductive flowStep :: "flow \<Rightarrow> configuration \<Rightarrow> label \<Rightarrow> configuration \<Rightarrow> bool" for flow where
  commandStep: "cfOutcome c = Running \<Longrightarrow> runCommand flow ctx cmd (cfStore c) = Inr (b, s') \<Longrightarrow>
     flowStep flow c (Commanded cmd b) (c \<lparr>cfStore := s'\<rparr>)"
| timeStep: "cfOutcome c = Running \<Longrightarrow> cfClock c \<le> now \<Longrightarrow>
     flowStep flow c Passed (c \<lparr>cfClock := now\<rparr>)"
| waitStep: "cfOutcome c = Running \<Longrightarrow> cfActive c = pre @ a # post \<Longrightarrow> asPhase a = Entering \<Longrightarrow>
     waitForOf flow ctx (asInput a) = Some w \<Longrightarrow> w (cfStore c) = Inr (wt, s') \<Longrightarrow>
     cxFirstAttemptAt ctx \<le> cfClock c \<Longrightarrow>
     flowStep flow c (Waited (asInput a))
       (c \<lparr>cfStore := s', cfActive := pre @ a \<lparr>asPhase := Waiting wt (cfClock c)\<rparr> # post\<rparr>)"
| startStep: "cfOutcome c = Running \<Longrightarrow> cfActive c = pre @ a # post \<Longrightarrow> asPhase a = Entering \<Longrightarrow>
     waitForOf flow ctx (asInput a) = None \<Longrightarrow>
     flowStep flow c (Woke (asInput a) noConditions)
       (c \<lparr>cfActive := pre @ a \<lparr>asPhase := Executing noConditions\<rparr> # post\<rparr>)"
| wakeStep: "cfOutcome c = Running \<Longrightarrow> cfActive c = pre @ a # post \<Longrightarrow> asPhase a = Waiting wt since \<Longrightarrow>
     wakes (cfClock c - since) wt (noConditions, cfStore c) (cn, s') \<Longrightarrow>
     flowStep flow c (Woke (asInput a) cn)
       (c \<lparr>cfStore := s', cfActive := pre @ a \<lparr>asPhase := Executing cn\<rparr> # post\<rparr>)"
| executeStep: "cfOutcome c = Running \<Longrightarrow> cfActive c = pre @ a # post \<Longrightarrow> asPhase a = Executing cn \<Longrightarrow>
     distinctReplies ef \<Longrightarrow> executeOf flow ef ctx cn (asInput a) (cfStore c) = Inr (d, s') \<Longrightarrow>
     flowStep flow c (Executed (asInput a) d)
       (c \<lparr>cfStore := s', cfActive := fst (decided d (pre @ post)), cfOutcome := snd (decided d (pre @ post))\<rparr>)"
| recoverStep: "cfOutcome c = Running \<Longrightarrow> cfActive c = pre @ a # post \<Longrightarrow> asPhase a = Executing cn \<Longrightarrow>
     onFailure a = Some next \<Longrightarrow>
     flowStep flow c (Exhausted (asInput a)) (c \<lparr>cfActive := pre @ post @ [entering (next, None)]\<rparr>)"
| failStep: "cfOutcome c = Running \<Longrightarrow> cfActive c = pre @ a # post \<Longrightarrow> onFailure a = None \<Longrightarrow>
     flowStep flow c (Exhausted (asInput a)) (c \<lparr>cfActive := [], cfOutcome := Failed\<rparr>)"

inductive_cases flowStepE: "flowStep flow c l c'"

text \<open>A run, with the labels of its transitions in order.\<close>

inductive run :: "flow \<Rightarrow> configuration \<Rightarrow> label list \<Rightarrow> configuration \<Rightarrow> bool" for flow c where
  runNil: "run flow c [] c"
| runSnoc: "run flow c ls c' \<Longrightarrow> flowStep flow c' l c'' \<Longrightarrow> run flow c (ls @ [l]) c''"

definition reachable :: "flow \<Rightarrow> configuration \<Rightarrow> bool" where
  "reachable flow c \<longleftrightarrow> (\<exists>config metadata now ls. run flow (startConfiguration config metadata now) ls c)"

lemma reachable_start: "reachable flow (startConfiguration config metadata now)"
  unfolding reachable_def by (blast intro: runNil)

lemma reachable_step: "reachable flow c \<Longrightarrow> flowStep flow c l c' \<Longrightarrow> reachable flow c'"
  unfolding reachable_def by (blast intro: runSnoc)

text \<open>An invariant holds in every configuration a run reaches.\<close>

lemma reachable_induct [consumes 1, case_names start step]:
  assumes "reachable flow c"
    and "\<And>config metadata now. P (startConfiguration config metadata now)"
    and "\<And>c l c'. reachable flow c \<Longrightarrow> P c \<Longrightarrow> flowStep flow c l c' \<Longrightarrow> P c'"
  shows "P c"
proof -
  from assms(1) obtain config metadata now ls where "run flow (startConfiguration config metadata now) ls c"
    by (auto simp: reachable_def)
  then have "reachable flow c \<and> P c"
    by induction (auto intro: assms(2,3) reachable_start reachable_step)
  then show ?thesis by simp
qed

end
