(* ===== verification/Safety.thy ===== *)
theory Safety
  imports Machine
begin

text \<open>
  Invariants of every run of the Flow: there is always exactly one main movement and it is
  ready, so that no Step meets a conversation it cannot continue, and every request that the
  model client receives is a well-formed conversation.
\<close>

section \<open>One main movement, always ready\<close>

definition mains :: "activeStep list \<Rightarrow> activeStep list" where
  "mains as = filter (\<lambda>a. \<not> isSide (asInput a)) as"

lemma mains_append [simp]: "mains (xs @ ys) = mains xs @ mains ys"
  by (simp add: mains_def)

lemma mains_Cons [simp]: "mains (a # as) = (if isSide (asInput a) then mains as else a # mains as)"
  by (simp add: mains_def)

lemma mains_Nil [simp]: "mains [] = []"
  by (simp add: mains_def)

definition governed :: "configuration \<Rightarrow> bool" where
  "governed c \<longleftrightarrow> (cfOutcome c = Running \<longrightarrow>
     (\<exists>m. mains (cfActive c) = [m] \<and> ready (asInput m) (cfStore c)))"

lemma takeCondition_quiet: "takeCondition elapsed c x = Some y \<Longrightarrow> quiet (snd x) (snd y)"
  by (cases x; cases y; cases c) (auto simp: quiet_def split: if_splits)

lemma takeSome_quiet: "takeSome elapsed cs x y \<Longrightarrow> quiet (snd x) (snd y)"
  by (induction rule: takeSome.induct) (auto intro: quiet_trans dest: takeCondition_quiet)

lemma wakes_quiet: "wakes elapsed wt x y \<Longrightarrow> quiet (snd x) (snd y)"
  by (induction rule: wakes.induct) (auto intro: quiet_trans dest!: takeCondition_quiet takeSome_quiet)

lemma governed_quiet:
  assumes "governed c" and "quiet (cfStore c) s'" and "cfOutcome c = Running"
    and "cfActive c = pre @ a # post" and "asInput a' = asInput a"
  shows "governed (c \<lparr>cfStore := s', cfActive := pre @ a' # post\<rparr>)"
  using assms ready_quiet [OF _ assms(2)]
  by (auto simp: governed_def append_eq_Cons_conv split: if_splits)

lemma mains_entering_side: "list_all (\<lambda>x. isSide (fst x)) ms \<Longrightarrow> mains (map entering ms) = []"
  by (induction ms) (auto simp: entering_def)

lemma handsOver_mains:
  "handsOver (GoTo ms) s \<Longrightarrow> \<exists>m. mains (map entering ms) = [m] \<and> ready (asInput m) s"
  by (auto simp: handsOver_def mains_entering_side) (auto simp: entering_def)

lemma onFailure_ready:
  assumes "onFailure a = Some next"
  shows "isSide next = isSide (asInput a)" "ready (asInput a) s \<Longrightarrow> ready next s"
  using assms by (auto simp: onFailure_def split: Option.bind_splits elim: recoveryInput.elims)

lemma governed_step:
  assumes "governed c" and "flowStep flow c l c'"
  shows "governed c'"
  using assms(2,1)
proof (cases rule: flowStep.cases)
  case (commandStep ctx cmd b s')
  from ready_quiet [OF _ quiet_command [OF commandStep(4)]] assms(1) show ?thesis
    by (auto simp: governed_def commandStep)
next
  case (timeStep now)
  with assms(1) show ?thesis by (simp add: governed_def)
next
  case (waitStep pre a post ctx w wt s')
  from keepsD [OF quiet_waitFor [OF waitStep(6)] waitStep(7)] waitStep assms(1) show ?thesis
    by (auto intro: governed_quiet)
next
  case (startStep pre a post ctx)
  from governed_quiet [OF assms(1) quiet_refl startStep(3,4), of "a \<lparr>asPhase := Executing noConditions\<rparr>"]
  show ?thesis by (simp add: startStep)
next
  case (wakeStep pre a post wt since cn s')
  from wakes_quiet [OF wakeStep(6)] wakeStep assms(1) show ?thesis
    by (auto intro: governed_quiet)
next
  case (executeStep pre a post cn ef ctx d s')
  show ?thesis
  proof (cases "isSide (asInput a)")
    case True
    from keepsD [OF execute_side [OF True] executeStep(7)] have q: "quiet (cfStore c) s'" .
    from ensuresD [OF execute_sideDecision [OF True] executeStep(7)] have "sideDecision d" .
    with assms(1) executeStep True ready_quiet [OF _ q] show ?thesis
      by (cases d) (auto simp: governed_def mains_entering_side)
  next
    case False
    with assms(1) executeStep have r: "ready (asInput a) (cfStore c)" and none: "mains (pre @ post) = []"
      by (auto simp: governed_def append_eq_Cons_conv)
    from ensuresD [OF execute_ready [OF r False executeStep(6)] executeStep(7)] have h: "handsOver d s'" .
    then obtain ms where d: "d = GoTo ms" by (auto simp: handsOver_def)
    from handsOver_mains [OF h [unfolded d]] none show ?thesis by (auto simp: governed_def executeStep d)
  qed
next
  case (recoverStep pre a post cn "next")
  with assms(1) onFailure_ready [OF recoverStep(6)] show ?thesis
    by (auto simp: governed_def append_eq_Cons_conv entering_def split: if_splits)
next
  case (failStep pre a post)
  then show ?thesis by (simp add: governed_def)
qed

lemma reachable_governed: "reachable flow c \<Longrightarrow> governed c"
proof (induction rule: reachable_induct)
  case (start config metadata now)
  then show ?case by (simp add: governed_def startConfiguration_def entering_def emptyStore_def)
next
  case (step c l c')
  then show ?case by (blast intro: governed_step)
qed

lemma governed_others:
  assumes "governed c" and "cfOutcome c = Running" and "cfActive c = pre @ a # post"
  shows "ready (asInput a) (cfStore c)" "isSide (asInput a) \<or> (\<forall>b \<in> set (pre @ post). isSide (asInput b))"
proof -
  from assms obtain m where m: "mains (pre @ a # post) = [m]" "ready (asInput m) (cfStore c)"
    by (auto simp: governed_def)
  have "isSide (asInput a) \<Longrightarrow> ready (asInput a) (cfStore c)" by (cases "asInput a") auto
  moreover have "\<not> isSide (asInput a) \<Longrightarrow> a = m \<and> mains (pre @ post) = []"
    using m(1) by (auto simp: append_eq_Cons_conv)
  moreover have "mains (pre @ post) = [] \<Longrightarrow> \<forall>b \<in> set (pre @ post). isSide (asInput b)"
    unfolding mains_def filter_empty_conv by blast
  ultimately show "ready (asInput a) (cfStore c)" "isSide (asInput a) \<or> (\<forall>b \<in> set (pre @ post). isSide (asInput b))"
    using m(2) by blast+
qed

lemma onFailure_cases:
  assumes "onFailure a = Some next"
  obtains "asInput a = ExecuteTool" "next = RecoverToolExecution"
  | "asInput a = ExecuteTool" "next = PrepareManualToolRecovery"
  | input where "asInput a = ExecuteParallelTool input" "next = RecoverParallelToolExecution input"
proof -
  from assms obtain tag where "recoveryInput (asInput a) tag = Some next"
    by (auto simp: onFailure_def split: Option.bind_splits)
  then show thesis by (cases "(asInput a, tag)" rule: recoveryInput.cases) (auto intro: that)
qed

section \<open>What the model client is asked\<close>

text \<open>
  A conversation request is well formed when its messages are a closed conversation between
  system messages; a summary request when it covers a closed part of one.
\<close>

definition wellFormedRequest :: "modelRequest \<Rightarrow> bool" where
  "wellFormedRequest request \<longleftrightarrow> (\<exists>pre conv post. mrMessages request = pre @ conv @ post \<and>
     set (map msgRole (pre @ post)) \<subseteq> {RoleSystem} \<and> convo [] conv = Some [])"

definition wellFormedSummary :: "summarizeRequest \<Rightarrow> bool" where
  "wellFormedSummary request \<longleftrightarrow> convo [] (szMessages request) = Some []"

text \<open>Two model clients that answer alike on well-formed requests.\<close>

definition sameClient :: "effects \<Rightarrow> effects \<Rightarrow> bool" where
  "sameClient ef ef' \<longleftrightarrow>
     (\<exists>complete summarize. ef' = ef \<lparr>efComplete := complete, efSummarize := summarize\<rparr> \<and>
       (\<forall>request. wellFormedRequest request \<longrightarrow> complete request = efComplete ef request) \<and>
       (\<forall>request. wellFormedSummary request \<longrightarrow> summarize request = efSummarize ef request))"

text \<open>The frame of the writes before a request: not even the state attribute changes.\<close>

definition still :: "store \<Rightarrow> store \<Rightarrow> bool" where
  "still s s' \<longleftrightarrow> sState s' = sState s \<and> sCurrent s' = sCurrent s \<and> sArchived s' = sArchived s"

interpretation still: frame still
  by unfold_locales (simp_all add: still_def)

lemma still_quiet: "still s s' \<Longrightarrow> quiet s s'"
  by (simp add: still_def quiet_def)

lemma still_writes [intro!]:
  "keeps still (writeActivity ev)" "keeps still (failWith e)" "keeps still (recordHeartbeat ef)"
  "keeps still (progressWriteActivity ef q ev)" "keeps still (attrGet a)"
  by (auto simp: keeps_def still_def writeActivity_run attrGet_def split: option.splits)
    (auto simp: progressWriteActivity_def recordHeartbeat_def failWith_def writeActivity_run bindTx_eq_Inr
      split: option.splits)

lemma progress_client [simp]:
  "progressWriteActivity (ef \<lparr>efComplete := c, efSummarize := z\<rparr>) = progressWriteActivity ef"
  "recordHeartbeat (ef \<lparr>efComplete := c, efSummarize := z\<rparr>) = recordHeartbeat ef"
  "modelCallID (ef \<lparr>efComplete := c, efSummarize := z\<rparr>) = modelCallID ef"
  by (intro ext, simp add: progressWriteActivity_def recordHeartbeat_def modelCallID_def)+

lemma client_fields:
  "efTextStream (ef \<lparr>efComplete := c, efSummarize := z\<rparr>) = efTextStream ef"
  "efProviderEvents (ef \<lparr>efComplete := c, efSummarize := z\<rparr>) = efProviderEvents ef"
  "efComplete (ef \<lparr>efComplete := c, efSummarize := z\<rparr>) = c"
  "efSummarize (ef \<lparr>efComplete := c, efSummarize := z\<rparr>) = z"
  by simp_all

lemma bindTx_after:
  assumes "\<And>x s'. m s = Inr (x, s') \<Longrightarrow> f x s' = g x s'"
  shows "bindTx m f s = bindTx m g s"
  by (rule bindTx_cong [OF refl assms])

lemma contextMessages_wellFormed:
  assumes "facing [] s0" and "still s0 s" and "sState s0 = Some st" and "contextMessages config st s = Inr (messages, s')"
  shows "\<exists>pre conv post. messages = pre @ conv @ post \<and> set (map msgRole (pre @ post)) \<subseteq> {RoleSystem} \<and>
     convo [] conv = Some []"
proof -
  have f: "facing [] s" using facing_quiet [OF assms(1) still_quiet [OF assms(2)]] .
  have st: "sState s = Some st" using assms(2,3) by (simp add: still_def)
  from contextMessages_ok [OF facing_noneD(4) [OF f st] st, of config] obtain pre post where
    "messages = pre @ map (\<lambda>m. projectMessage m (cfgMaxContextTokens config)) (unsummarized s) @ post"
    "\<forall>m \<in> set (pre @ post). msgRole m = RoleSystem" using assms(4) by auto
  moreover have "convo [] (unsummarized s) = Some []" using facing_noneD(4) [OF f st] by (simp add: talk_def)
  ultimately show ?thesis
    by (intro exI [of _ pre] exI [of _ "map (\<lambda>m. projectMessage m (cfgMaxContextTokens config)) (unsummarized s)"]
        exI [of _ post]) auto
qed

lemma requestResponse_client:
  assumes f: "facing [] s" and same: "\<And>request. wellFormedRequest request \<Longrightarrow> complete request = efComplete ef request"
  shows "requestResponse flow (ef \<lparr>efComplete := complete, efSummarize := summarize\<rparr>) ctx callID s =
     requestResponse flow ef ctx callID s"
  unfolding requestResponse_def progress_client client_fields
proof (rule bindTx_after, rule bindTx_after, rule bindTx_after, rule bindTx_after, rule bindTx_after, rule bindTx_after,
    rule bindTx_after)
  fix x1 s1 config s2 st s3 x4 s4 x5 s5 messages s6 x7 s7
  assume u: "updateStatus CallingModel s = Inr (x1, s1)" and "attrGet agentConfigAttribute s1 = Inr (config, s2)"
    and g: "attrGet agentStateAttribute s2 = Inr (st, s3)" and w4: "failWith (efTextStream ef) s3 = Inr (x4, s4)"
    and w5: "progressWriteActivity ef (stNextSequence st)
      ((event ModelStarted (''Calling '' @ cfgModel config @ ''.'')) \<lparr>evAttempt := Some (cxAttempt ctx)\<rparr>) s4 = Inr (x5, s5)"
    and msgs: "contextMessages config st s5 = Inr (messages, s6)"
  then have st: "sState s3 = Some st" "s3 = s1"
    by (auto simp: attrGet_def attr_defs split: option.splits)
  have "facing [] s3" using f keepsD [OF quiet_updateStatus u] st(2) by (auto intro: facing_quiet)
  moreover have "still s3 s5" using keepsD [OF still_writes(2) w4] keepsD [OF still_writes(4) w5] by (rule still.trans)
  ultimately have "wellFormedRequest \<lparr>mrConfig = config, mrMessages = messages,
       mrTools = invocationToolDefinitions flow config st, mrForcedTool = forcedTool st,
       mrFlowID = cxFlowID ctx, mrCallID = callID\<rparr>"
    using contextMessages_wellFormed [OF _ _ st(1) msgs] by (simp add: wellFormedRequest_def)
  note same [OF this]
  then show "(case complete \<lparr>mrConfig = config, mrMessages = messages,
       mrTools = invocationToolDefinitions flow config st, mrForcedTool = forcedTool st,
       mrFlowID = cxFlowID ctx, mrCallID = callID\<rparr> of Inl x \<Rightarrow> failAfter (progressWriteActivity ef (stNextSequence st)
           ((event ModelFailed ''Model request failed.'') \<lparr>evAttempt := Some (cxAttempt ctx)\<rparr>)) x
       | Inr (reply, usage) \<Rightarrow> returnTx (reply, usage, stNextSequence st)) s7 =
     (case efComplete ef \<lparr>mrConfig = config, mrMessages = messages,
       mrTools = invocationToolDefinitions flow config st, mrForcedTool = forcedTool st,
       mrFlowID = cxFlowID ctx, mrCallID = callID\<rparr> of Inl x \<Rightarrow> failAfter (progressWriteActivity ef (stNextSequence st)
           ((event ModelFailed ''Model request failed.'') \<lparr>evAttempt := Some (cxAttempt ctx)\<rparr>)) x
       | Inr (reply, usage) \<Rightarrow> returnTx (reply, usage, stNextSequence st)) s7"
    by simp
qed

lemma requestSummary_client:
  assumes f: "facing [] s" "closedThrough through s"
    and same: "\<And>request. wellFormedSummary request \<Longrightarrow> summarize request = efSummarize ef request"
  shows "requestSummary (ef \<lparr>efComplete := complete, efSummarize := summarize\<rparr>) ctx callID through s =
     requestSummary ef ctx callID through s"
  unfolding requestSummary_def progress_client client_fields
proof (rule bindTx_after, rule bindTx_after, rule bindTx_after, rule bindTx_after, rule bindTx_after)
  fix x1 s1 config s2 st s3 request s4 x5 s5
  assume u: "updateStatus CompactingContext s = Inr (x1, s1)" and "attrGet agentConfigAttribute s1 = Inr (config, s2)"
    and g: "attrGet agentStateAttribute s2 = Inr (st, s3)"
    and r: "summarizeInput config st through callID ctx s3 = Inr (request, s4)"
  then have st: "sState s3 = Some st" "s3 = s1"
    by (auto simp: attrGet_def attr_defs split: option.splits)
  have q: "quiet s s3" using keepsD [OF quiet_updateStatus u] st(2) by simp
  from closedThrough_quiet [OF f(2) q] st(1) have c: "stSummarizedThrough st \<le> through" "through \<le> stLastSequence st"
    "convo [] (window s3 st (stSummarizedThrough st + 1) through) = Some []" by (auto simp: closedThrough_def)
  note t = talk_state [OF facing_noneD(4) [OF facing_quiet [OF f(1) q] st(1)] st(1)]
  from loadMessages_ok [OF st(1) t(1) t(2) c(2), of config] r
  have "szMessages request = map (\<lambda>m. projectMessage m (cfgMaxContextTokens config))
      (window s3 st (stSummarizedThrough st + 1) through)"
    by (auto simp: summarizeInput_def bindTx_eq_Inr)
  with c(3) have "wellFormedSummary request" by (simp add: wellFormedSummary_def)
  from same [OF this] show "(case summarize request of Inl e \<Rightarrow> failAfter (writeActivity ((event CompactionFailed
       ''Context compaction failed.'') \<lparr>evMessageSequence := Some through\<rparr>)) e
     | Inr (summary, usage) \<Rightarrow> bindTx (attrSet modelUsageAttribute usage) (\<lambda>_. returnTx summary)) s5 =
     (case efSummarize ef request of Inl e \<Rightarrow> failAfter (writeActivity ((event CompactionFailed
       ''Context compaction failed.'') \<lparr>evMessageSequence := Some through\<rparr>)) e
     | Inr (summary, usage) \<Rightarrow> bindTx (attrSet modelUsageAttribute usage) (\<lambda>_. returnTx summary)) s5"
    by simp
qed

lemma tool_client [simp]:
  "writeProgress (ef \<lparr>efComplete := c, efSummarize := z\<rparr>) = writeProgress ef"
  "executeTool (ef \<lparr>efComplete := c, efSummarize := z\<rparr>) = executeTool ef"
  "modelCompleted (ef \<lparr>efComplete := c, efSummarize := z\<rparr>) = modelCompleted ef"
  "recoveryErrorType (ef \<lparr>efComplete := c, efSummarize := z\<rparr>) = recoveryErrorType ef"
  by ((intro ext)?, simp add: writeProgress_def executeTool_def modelCompleted_def recoveryErrorType_def)+

lemma invokeTool_client [simp]:
  "invokeTool flow (ef \<lparr>efComplete := c, efSummarize := z\<rparr>) = invokeTool flow ef"
  by (intro ext) (simp add: invokeTool_def)

lemma execute_client:
  assumes "ready input s" and "sameClient ef ef'"
  shows "executeOf flow ef' ctx cn input s = executeOf flow ef ctx cn input s"
proof -
  from assms(2) obtain complete summarize where ef': "ef' = ef \<lparr>efComplete := complete, efSummarize := summarize\<rparr>"
    and c: "\<And>request. wellFormedRequest request \<Longrightarrow> complete request = efComplete ef request"
    and z: "\<And>request. wellFormedSummary request \<Longrightarrow> summarize request = efSummarize ef request"
    by (auto simp: sameClient_def)
  show ?thesis
  proof (cases input)
    case (CompactContext through)
    with assms(1) have "facing [] s" "closedThrough through s" by simp_all
    from requestSummary_client [OF this z] show ?thesis
      by (simp add: CompactContext ef' compactContextExecute_def bindTx_apply)
  next
    case CallModel
    with assms(1) have f: "facing [] s" by simp
    show ?thesis
      unfolding CallModel ef' executeOf.simps callModelExecute_def tool_client progress_client
      by (rule bindTx_cong, rule requestResponse_client [OF f], erule c, rule refl)
  next
    case (CallModelWithHooks i)
    with assms(1) have f: "facing [] s" "mciKind i = KindCompaction \<Longrightarrow> closedThrough (mciThrough i) s" by simp_all
    have "callResponseModel flow ef' ctx (mciCallID i) s = callResponseModel flow ef ctx (mciCallID i) s"
      unfolding ef' callResponseModel_def tool_client progress_client
      by (rule bindTx_cong, rule requestResponse_client [OF f(1)], erule c, rule refl)
    moreover have "callCompactionModel ef' ctx (mciCallID i) (mciThrough i) s =
        callCompactionModel ef ctx (mciCallID i) (mciThrough i) s" if "mciKind i = KindCompaction"
      using requestSummary_client [OF f(1) f(2) [OF that] z] by (simp add: ef' callCompactionModel_def bindTx_apply)
    ultimately show ?thesis
      by (cases "mciKind i") (simp_all add: CallModelWithHooks callModelWithHooksExecute_def bindTx_apply)
  qed (simp_all add: ef' beforeModelCallExecute_def afterModelCallExecute_def executeToolExecute_def
      recoverToolExecutionExecute_def executeParallelToolExecute_def recoverParallelToolExecutionExecute_def
      prepareManualToolRecoveryExecute_def inactivityExecute_def Let_def cong: if_cong)
qed

end
