(* ===== verification/Frames.thy ===== *)
theory Frames
  imports Safety
begin

text \<open>
  What the Steps leave alone, once for every relation on stores that the primitive writes of the
  Flow keep (\<open>conservative\<close>): the composed operations, the WaitFor methods and the Execute methods
  keep it too. \<^verbatim>\<open>Init\<close> writes the configuration and the branches of a batch publish their
  results; those are left to each relation.
\<close>

locale conservative = frame R for R :: "store \<Rightarrow> store \<Rightarrow> bool" +
  assumes sets [intro!]:
      "keeps R (attrSet agentStateAttribute v0)" "keeps R (attrSet modelUsageAttribute v1)"
      "keeps R (attrSet contextSummaryAttribute v2)" "keeps R (attrSet agentPlanAttribute v3)"
      "keeps R (attrSet pendingApprovalAttribute v4)" "keeps R (attrSet pendingToolRecoveryAttribute v5)"
      "keeps R (attrSet pendingTimerAttribute v6)" "keeps R (attrSet pendingUserInputAttribute v7)"
      "keeps R (attrSet inactivityDeadlineAttribute v8)"
    and deletes [intro!]:
      "keeps R (deletePresent pendingUserInputAttribute)" "keeps R (deletePresent pendingApprovalAttribute)"
      "keeps R (deletePresent pendingToolRecoveryAttribute)" "keeps R (deletePresent pendingTimerAttribute)"
      "keeps R (deletePresent agentPlanAttribute)" "keeps R clearInactivityDeadline"
      "keeps R (attrDelete pendingTimerAttribute)"
    and maps [intro!]:
      "keeps R (mapSet currentMessagesAttribute key m)" "keeps R (mapDelete currentMessagesAttribute key)"
      "keeps R (mapSet archivedMessagesAttribute key ch)" "keeps R (mapDelete archivedMessagesAttribute key)"
    and publish [intro!]: "keeps R (publish resetInactivityTimerChannel t)"
    and activity [intro!]:
      "keeps R (writeActivity ev)" "keeps R writeSnapshotRequired" "keeps R (writeInputConsumption q st p n)"
      "keeps R incrementWaitingInputRound"
begin

lemma conserves_pure [intro!]: "keeps R (\<lambda>s. Inr (x, s))" "keeps R (\<lambda>s. Inl e)"
  by (simp_all add: keeps_def refl)

lemma conserves_reads [intro!]:
  "keeps R (attrGet a)" "keeps R (mapGet f key)" "keeps R (getOptional (attrGet a))"
  "keeps R (channelSize c)"
  by (auto simp: keeps_def attrGet_def mapGet_def getOptional_def channelSize_def refl
      split: option.splits sum.splits if_splits)

lemma conserves_optional [intro!]:
  "keeps R getPlan" "keeps R getPendingUserInput" "keeps R getPendingApproval"
  "keeps R getPendingToolRecovery" "keeps R getPendingTimer" "keeps R getSummary"
  "keeps R getAgentPlan"
  by (auto simp: getPlan_def optional_reads getSummary_def)

lemma conserves_effects [intro!]:
  "keeps R (failWith e)" "keeps R (recordHeartbeat ef)" "keeps R (progressWriteActivity ef q ev)"
  "keeps R (writeProgress ef ctx call message)" "keeps R (failAfter report err)"
  by (auto simp: failWith_def recordHeartbeat_def progressWriteActivity_def writeProgress_def)
    (auto simp: failAfter_def keeps_def split: sum.splits)

lemma conserves_state [intro!]:
  "keeps R (updateStatus status)" "keeps R hasNextToolCall" "keeps R advanceTool"
  "keeps R clearPendingToolCalls" "keeps R currentToolCall"
  by (auto simp: updateStatus_def hasNextToolCall_def advanceTool_def clearPendingToolCalls_def currentToolCall_def)

lemma conserves_collect [intro!]: "keeps R (collectCurrent qs)"
  by (induction qs) auto

lemma conserves_append [intro!]:
  "keeps R (appendMessage ctx m)" "keeps R (appendToolResult ctx call r t)"
  by (auto simp: appendMessage_def archiveCurrentMessages_def Let_def appendToolResult_def)

lemma conserves_messageAt [intro!]: "keeps R (messageAt q)"
  by (auto simp: messageAt_def Let_def)

lemma conserves_load [intro!]: "keeps R (loadMessages a b config)"
proof -
  have "keeps R (loadSequences qs config)" for qs by (induction qs) auto
  then show ?thesis by (auto simp: loadMessages_def)
qed

lemma conserves_trim [intro!]: "keeps R (trimSummarizedMessages config st)"
proof -
  have "keeps R (trimLoop retained first st limit)" for retained first limit
    by (induction retained first st limit rule: trimLoop.induct) (subst trimLoop.simps, auto)
  then show ?thesis by (auto simp: trimSummarizedMessages_def Let_def)
qed

lemma conserves_context [intro!]: "keeps R (contextMessages config st)"
  by (auto simp: contextMessages_def planContextMessage_def)

lemma conserves_cutoff [intro!]: "keeps R (pendingCompactionCutoff flow)"
proof -
  have "keeps R (cutoffLoop flow config keep qs r c)" for config keep qs r c
    by (induction flow config keep qs r c rule: cutoffLoop.induct) (auto simp: Let_def)
  then have "keeps R (compactionCutoff flow config st)" for config st
    by (auto simp: compactionCutoff_def Let_def)
  then show ?thesis by (auto simp: pendingCompactionCutoff_def Let_def)
qed

lemma conserves_turns [intro!]:
  "keeps R (beginUserTurn ctx m)" "keeps R (cancelCalls ctx reason calls)"
  "keeps R (appendToolResultAndCancelRemaining ctx call result reason)"
  by (auto simp: beginUserTurn_def cancelCalls_def appendToolResultAndCancelRemaining_def)

lemma conserves_steer [intro!]: "keeps R (beginSteeredTurn ctx ms)"
proof -
  have "keeps R (beginUserTurns ctx ms latest)" for latest
    by (induction ms arbitrary: latest) auto
  then show ?thesis by (auto simp: beginSteeredTurn_def)
qed

lemma conserves_plan [intro!]: "keeps R (replacePlan tasks)"
  by (auto simp: replacePlan_def writePlanTaskActivities_def Let_def)

lemma conserves_toModel [intro!]: "keeps R (goToCompactionOrModel flow)"
  by (auto simp: goToCompactionOrModel_def)

lemma conserves_continueWith [intro!]: "keeps R (continueWith flow k)"
  by (cases k) (auto simp: currentSerialToolStepOptions_def)

lemma conserves_request [intro!]:
  "keeps R (requestSummary ef ctx callID through)" "keeps R (requestResponse flow ef ctx callID)"
  "keeps R (invokeTool flow ef ctx call)"
  by (auto simp: requestSummary_def summarizeInput_def requestResponse_def invokeTool_def)

lemma conserves_reply [intro!]:
  "keeps R (applyCompactionModelResult r)" "keeps R (appendReply ctx reply t n)"
  "keeps R (afterReply reply)" "keeps R (modelCompleted ef ctx reply n)"
  by (auto simp: applyCompactionModelResult_def Let_def appendReply_def modelCompleted_def)
    (auto simp: afterReply_def replyContinuation_def Let_def)

lemma conserves_answer [intro!]: "keeps R (answerCall ctx call r)"
  by (auto simp: answerCall_def continueAfterTool_def)

lemma conserves_batch [intro!]:
  "keeps R (appendToolBatchResults ctx batch)" "keeps R (finishToolBatch ctx batch)"
  "keeps R (finishToolExecution ctx call result timing)" "keeps R (stopToolSequenceAfterBatch ctx batch)"
proof -
  have "keeps R (appendRecords ctx n rs)" for n rs
    by (induction rs arbitrary: n) (auto simp: writeToolTerminalActivity_def)
  then have a: "keeps R (appendToolBatchResults ctx batch)" for batch by (auto simp: appendToolBatchResults_def)
  then show "keeps R (appendToolBatchResults ctx batch)" .
  from a show f: "keeps R (finishToolBatch ctx batch)" for batch
    by (auto simp: finishToolBatch_def advanceCursor_def Let_def)
  from a show "keeps R (stopToolSequenceAfterBatch ctx batch)"
    by (auto simp: stopToolSequenceAfterBatch_def Let_def writeToolTerminalActivity_def)
  from f show "keeps R (finishToolExecution ctx call result timing)"
    by (auto simp: finishToolExecution_def)
qed

lemma conserves_route [intro!]: "keeps R (routeToolExecute flow ctx)"
  by (auto simp: routeToolExecute_def routeWriteTodos_def routeDurableWait_def routeRequestUserInput_def routeExternal_def)

lemma conserves_resume [intro!]: "keeps R (resumeBatch flow ctx batch requested)"
  by (auto simp: resumeBatch_def Let_def)

lemma execute_main:
  assumes "\<And>config. input \<noteq> Init config" and "\<And>i. input \<noteq> ExecuteParallelTool i"
    and "\<And>i. input \<noteq> RecoverParallelToolExecution i"
  shows "keeps R (executeOf flow ef ctx cn input)"
  using assms
  by (cases input)
    (auto simp: awaitUserExecute_def executePlanRequest_def answeredInputExecute_def compactContextExecute_def
      callModelExecute_def beforeModelCallExecute_def Let_def callModelWithHooksExecute_def callResponseModel_def
      callCompactionModel_def afterModelCallExecute_def applyModelResultExecute_def applyResponseModelResult_def
      checkSteeredExecute_def awaitToolApprovalExecute_def executeToolExecute_def recoverToolExecutionExecute_def
      awaitParallelExecute_def
      prepareManualToolRecoveryExecute_def awaitManualExecute_def durableWaitExecute_def inactivityExecute_def
      split: modelCallKind.split option.split)

lemma waitFor: "waitForOf flow ctx input = Some w \<Longrightarrow> keeps R w"
  by (cases input)
    (auto simp: awaitUserWaitFor_def checkSteeredWaitFor_def awaitToolApprovalWaitFor_def awaitParallelWaitFor_def
      awaitManualWaitFor_def durableWaitWaitFor_def inactivityWaitFor_def Let_def resetInactivityTimer_def)

end

end
