(* ===== verification/Batches.thy ===== *)
theory Batches
  imports Frames "HOL-Library.Multiset"
begin

text \<open>
  Parallel batches. The join of their results does not depend on the order in which they arrive;
  and along every run the branches that are still active and the results that have arrived are
  together exactly the open records of the batch, so that a batch that has been waited for is
  always committed.
\<close>

section \<open>Joining results\<close>

definition recordKey :: "toolBatchRecord \<Rightarrow> int \<times> string" where
  "recordKey r = (tbrIndex r, tcID (tbrCall r))"

definition resultKey :: "parallelToolResult \<Rightarrow> int \<times> string" where
  "resultKey p = (presIndex p, tcID (presCall p))"

lemma join_seen: "set seen = set seen' \<Longrightarrow> joinResults ps seen rs = joinResults ps seen' rs"
proof (induction ps arbitrary: seen seen' rs)
  case (Cons p ps)
  then have "joinResults ps (presIndex p # seen) r = joinResults ps (presIndex p # seen') r" for r
    by (intro Cons.IH) simp
  with Cons.prems show ?case by (auto split: option.splits)
qed simp

text \<open>Results under different indexes are placed independently.\<close>

lemma place_commute:
  "presIndex p \<noteq> presIndex q \<Longrightarrow> placeResult p rs = Some a \<Longrightarrow> placeResult q a = Some b \<Longrightarrow>
     \<exists>a'. placeResult q rs = Some a' \<and> placeResult p a' = Some b"
proof (induction rs arbitrary: a b)
  case (Cons r rs)
  show ?case
  proof (cases "tbrIndex r = presIndex p \<and> tcID (tbrCall r) = tcID (presCall p)")
    case True
    with Cons.prems show ?thesis by auto
  next
    case False
    with Cons.prems(2) obtain z where z: "placeResult p rs = Some z" "a = r # z" by (auto split: if_splits)
    show ?thesis
    proof (cases "tbrIndex r = presIndex q \<and> tcID (tbrCall r) = tcID (presCall q)")
      case True
      with False Cons.prems(3) z show ?thesis by auto
    next
      case other: False
      with Cons.prems(3) z obtain w where w: "placeResult q z = Some w" "b = r # w" by (auto split: if_splits)
      from Cons.IH [OF Cons.prems(1) z(1) w(1)] False other w(2) show ?thesis by auto
    qed
  qed
qed simp

lemma join_Cons:
  "joinResults (p # ps) seen rs = Inr out \<longleftrightarrow>
     presIndex p \<notin> set seen \<and> (\<exists>r. placeResult p rs = Some r \<and> joinResults ps (presIndex p # seen) r = Inr out)"
  by (auto split: option.splits)

lemma join_swap:
  "joinResults (p # q # ps) seen rs = Inr out \<Longrightarrow> joinResults (q # p # ps) seen rs = Inr out"
proof -
  assume "joinResults (p # q # ps) seen rs = Inr out"
  then obtain a b where *: "presIndex p \<noteq> presIndex q" "presIndex p \<notin> set seen" "presIndex q \<notin> set seen"
    "placeResult p rs = Some a" "placeResult q a = Some b" "joinResults ps (presIndex q # presIndex p # seen) b = Inr out"
    unfolding join_Cons by auto
  moreover from place_commute [OF *(1,4,5)] obtain a' where "placeResult q rs = Some a'" "placeResult p a' = Some b"
    by blast
  moreover have "joinResults ps (presIndex p # presIndex q # seen) b = Inr out"
    by (subst *(6) [symmetric], rule join_seen) auto
  ultimately show ?thesis unfolding join_Cons by auto
qed

lemma join_front:
  "joinResults (xs @ p # ys) seen rs = Inr out \<longleftrightarrow> joinResults (p # xs @ ys) seen rs = Inr out"
proof (induction xs arbitrary: seen rs)
  case (Cons x xs)
  have "joinResults (x # xs @ p # ys) seen rs = Inr out \<longleftrightarrow> joinResults (x # p # xs @ ys) seen rs = Inr out"
    unfolding join_Cons [of x] Cons.IH by (rule refl)
  also have "\<dots> \<longleftrightarrow> joinResults (p # x # xs @ ys) seen rs = Inr out"
    by (blast intro: join_swap)
  finally show ?case by simp
qed simp

lemma join_order:
  "mset ps = mset qs \<Longrightarrow> joinResults ps seen rs = Inr out \<longleftrightarrow> joinResults qs seen rs = Inr out"
proof (induction ps arbitrary: qs seen rs)
  case (Cons p ps)
  then have "p \<in> set qs" by (metis list.set_intros(1) mset_eq_setD)
  then obtain xs ys where qs: "qs = xs @ p # ys" by (auto simp: in_set_conv_decomp)
  with Cons.prems have "mset ps = mset (xs @ ys)" by simp
  from Cons.IH [OF this] show ?case unfolding qs join_front join_Cons by blast
qed simp

text \<open>The records that wait for a result, and the ones that can be committed.\<close>

definition openRecords :: "toolBatchRecord list \<Rightarrow> toolBatchRecord list" where
  "openRecords rs = filter (\<lambda>r. \<not> tbrHasResult r) rs"

definition recordDone :: "toolBatchRecord \<Rightarrow> bool" where
  "recordDone r \<longleftrightarrow> tbrHasResult r \<and>
     (case tbrResult r of None \<Rightarrow> False | Some x \<Rightarrow> validateToolOutcome (terOutcome x) = Inr ())"

definition recordsSound :: "toolBatchRecord list \<Rightarrow> bool" where
  "recordsSound rs \<longleftrightarrow> distinct (map tbrIndex rs) \<and> (\<forall>r \<in> set rs. tbrHasResult r \<longrightarrow> recordDone r)"

definition validResult :: "parallelToolResult \<Rightarrow> bool" where
  "validResult p \<longleftrightarrow> validateToolOutcome (terOutcome (presResult p)) = Inr ()"

text \<open>The results answer each open record exactly once.\<close>

definition delivers :: "parallelToolResult list \<Rightarrow> toolBatchRecord list \<Rightarrow> bool" where
  "delivers ps rs \<longleftrightarrow> mset (map resultKey ps) = mset (map recordKey (openRecords rs)) \<and> list_all validResult ps"

definition filled :: "parallelToolResult \<Rightarrow> toolBatchRecord \<Rightarrow> toolBatchRecord" where
  "filled p r = r \<lparr>tbrResult := Some (presResult p), tbrHasResult := True, tbrErrorType := presErrorType p,
     tbrPolicy := effectivePolicy (presPolicy p), tbrTiming := presTiming p\<rparr>"

lemma filled_simps [simp]:
  "tbrIndex (filled p r) = tbrIndex r" "tbrCall (filled p r) = tbrCall r" "tbrHasResult (filled p r)"
  "recordKey (filled p r) = recordKey r" "validResult p \<Longrightarrow> recordDone (filled p r)"
  by (simp_all add: filled_def recordKey_def recordDone_def validResult_def)

lemma place_at:
  "placeResult p (pre @ r # post) = Some (pre @ filled p r # post)"
  if "recordKey r = resultKey p" and "\<forall>x \<in> set pre. tbrIndex x \<noteq> presIndex p"
  using that by (induction pre) (auto simp: recordKey_def resultKey_def filled_def)

text \<open>A record of a joined batch: as it was, or filled by a result for its index and its call.\<close>

definition answeredBy :: "parallelToolResult list \<Rightarrow> toolBatchRecord \<Rightarrow> toolBatchRecord \<Rightarrow> bool" where
  "answeredBy ps r r' \<longleftrightarrow>
     (if tbrHasResult r then r' = r else \<exists>p \<in> set ps. resultKey p = recordKey r \<and> r' = filled p r)"

lemma answeredBy_later: "list_all2 (answeredBy ps) rs out \<Longrightarrow> list_all2 (answeredBy (p # ps)) rs out"
  by (erule list_all2_mono) (auto simp: answeredBy_def split: if_splits)

lemma answered_first:
  assumes "list_all2 (answeredBy ps) (pre @ filled p r # post) out" and "\<not> tbrHasResult r" and "recordKey r = resultKey p"
  shows "list_all2 (answeredBy (p # ps)) (pre @ r # post) out"
proof -
  from assms(1) obtain us v vs where out: "out = us @ v # vs" "list_all2 (answeredBy ps) pre us"
    "answeredBy ps (filled p r) v" "list_all2 (answeredBy ps) post vs"
    by (auto simp: list_all2_append1 list_all2_Cons1)
  with assms(2,3) have "answeredBy (p # ps) r v" by (simp add: answeredBy_def)
  with out answeredBy_later show ?thesis by (auto intro!: list_all2_appendI)
qed

lemma delivers_set: "delivers ps rs \<Longrightarrow> set (map resultKey ps) = set (map recordKey (openRecords rs))"
  unfolding delivers_def by (blast dest: mset_eq_setD)

lemma join_complete:
  assumes "recordsSound rs" and "delivers ps rs" and "presIndex ` set ps \<inter> set seen = {}"
  shows "\<exists>out. joinResults ps seen rs = Inr out \<and> map tbrIndex out = map tbrIndex rs \<and>
     map tbrCall out = map tbrCall rs \<and> list_all recordDone out \<and> list_all2 (answeredBy ps) rs out"
  using assms
proof (induction ps arbitrary: seen rs)
  case Nil
  then have "openRecords rs = []" by (simp add: delivers_def)
  with Nil(1) show ?case
    by (auto simp: openRecords_def recordsSound_def list_all_iff filter_empty_conv answeredBy_def intro!: list.rel_refl_strong)
next
  case (Cons p ps)
  then have ms: "add_mset (resultKey p) (mset (map resultKey ps)) = mset (map recordKey (openRecords rs))"
    and v: "validResult p" "list_all validResult ps" by (simp_all add: delivers_def)
  then have "resultKey p \<in> set (map recordKey (openRecords rs))" by (metis set_mset_mset union_single_eq_member set_mset_add_mset_insert insertI1)
  then obtain r where r: "r \<in> set rs" "\<not> tbrHasResult r" "recordKey r = resultKey p" by (auto simp: openRecords_def)
  from split_list [OF r(1)] obtain pre post where rs: "rs = pre @ r # post" by blast
  have d: "distinct (map tbrIndex rs)" using Cons.prems(1) by (simp add: recordsSound_def)
  have "tbrIndex r = presIndex p" using r(3) by (simp add: recordKey_def resultKey_def)
  with d rs have "\<forall>x \<in> set pre. tbrIndex x \<noteq> presIndex p" by force
  from place_at [OF r(3) this] have place: "placeResult p rs = Some (pre @ filled p r # post)" by (simp add: rs)
  let ?rs = "pre @ filled p r # post"
  have sound: "recordsSound ?rs" using Cons.prems(1) v(1) by (auto simp: recordsSound_def rs)
  have "mset (map resultKey ps) = mset (map recordKey (openRecords ?rs))"
    using ms r(2,3) by (simp add: openRecords_def rs)
  then have del: "delivers ps ?rs" using v(2) by (simp add: delivers_def)
  have fresh: "presIndex p \<notin> set (map tbrIndex (openRecords ?rs))"
    using d rs \<open>tbrIndex r = presIndex p\<close> by (auto simp: openRecords_def)
  have "presIndex ` set ps = set (map fst (map resultKey ps))" by (auto simp: resultKey_def)
  also have "\<dots> = set (map fst (map recordKey (openRecords ?rs)))"
    using delivers_set [OF del] by (simp only: set_map)
  also have "\<dots> = set (map tbrIndex (openRecords ?rs))" by (auto simp: recordKey_def)
  finally have "presIndex ` set ps \<inter> set (presIndex p # seen) = {}" using fresh Cons.prems(3) by auto
  from Cons.IH [OF sound del this] obtain out where
    "joinResults ps (presIndex p # seen) ?rs = Inr out" "map tbrIndex out = map tbrIndex ?rs"
    "map tbrCall out = map tbrCall ?rs" "list_all recordDone out" and by_rest: "list_all2 (answeredBy ps) ?rs out" by blast
  moreover from answered_first [OF by_rest r(2,3)] have "list_all2 (answeredBy (p # ps)) rs out" by (simp add: rs)
  ultimately show ?case using place Cons.prems(3) by (intro exI [of _ out]) (simp add: rs)
qed

section \<open>Which Steps open a batch\<close>

fun ofBatch :: "stepInput \<Rightarrow> bool" where
  "ofBatch (AwaitParallelToolResults input) = True"
| "ofBatch (AwaitManualToolRecovery batch) = True"
| "ofBatch (ExecuteParallelTool input) = True"
| "ofBatch (RecoverParallelToolExecution input) = True"
| "ofBatch _ = False"

definition plainDecision :: "decision \<Rightarrow> bool" where
  "plainDecision d \<longleftrightarrow> (\<forall>ms. d = GoTo ms \<longrightarrow> list_all (\<lambda>m. \<not> ofBatch (fst m)) ms)"

lemma plainDecision_simps [simp]:
  "plainDecision (goTo next) \<longleftrightarrow> \<not> ofBatch next" "plainDecision (GoTo ms) \<longleftrightarrow> list_all (\<lambda>m. \<not> ofBatch (fst m)) ms"
  "plainDecision DeadEnd" "plainDecision (ForceComplete r)"
  by (auto simp: plainDecision_def goTo_def)

lemma ensures_any: "(\<And>x s'. Q x s') \<Longrightarrow> ensures m s Q"
  by (simp add: ensures_def)

lemma answerCall_plain [simp]: "ensures (answerCall ctx call r) s (\<lambda>d _. plainDecision d)"
  by (simp add: answerCall_def continueAfterTool_def ensures_simps)

lemma toModel_plain [simp]: "ensures (goToCompactionOrModel flow) s (\<lambda>d _. plainDecision d)"
  by (auto simp: goToCompactionOrModel_def goToModel_def ensures_simps intro!: ensures_any split: option.split)

lemma continueWith_plain [simp]: "ensures (continueWith flow k) s (\<lambda>d _. plainDecision d)"
  by (cases k) (auto simp: ensures_simps goToModel_def intro!: ensures_any)

lemma applyModelResult_plain: "ensures (applyModelResultExecute ctx r) s (\<lambda>d _. plainDecision d)"
  by (cases "mresKind r"; cases "mresResponse r"; cases "mresCompaction r")
    (simp_all add: applyModelResultExecute_def ensures_constructs ensures_any)

lemma execute_plain:
  assumes "\<not> ofBatch input" and "\<not> isSide input" and "input \<noteq> RouteTool" and "input \<noteq> PrepareManualToolRecovery"
  shows "ensures (executeOf flow ef ctx cn input) s (\<lambda>d _. plainDecision d)"
  using assms
  by (cases input)
    (auto simp: initExecute_def awaitUserExecute_def executePlanRequest_def answeredInputExecute_def
      compactContextExecute_def callModelExecute_def beforeModelCallExecute_def callModelWithHooksExecute_def
      afterModelCallExecute_def checkSteeredExecute_def awaitToolApprovalExecute_def executeToolExecute_def
      recoverToolExecutionExecute_def durableWaitExecute_def Let_def ensures_simps
      intro!: ensures_any applyModelResult_plain)

end
