(* ===== verification/Accounting.thy ===== *)
theory Accounting
  imports Batches
begin

text \<open>
  The accounting of a parallel batch along a run: the branches that are still active and the
  results that have been published are together exactly the open records of the batch.
\<close>

section \<open>Branches and open records in balance\<close>

definition branchKey :: "parallelToolInput \<Rightarrow> int \<times> string" where
  "branchKey i = (ptiIndex i, tcID (ptiCall i))"

fun branchOf :: "stepInput \<Rightarrow> parallelToolInput list" where
  "branchOf (ExecuteParallelTool i) = [i]"
| "branchOf (RecoverParallelToolExecution i) = [i]"
| "branchOf _ = []"

definition branchesOf :: "stepInput list \<Rightarrow> parallelToolInput list" where
  "branchesOf inputs = concat (map branchOf inputs)"

lemma branchesOf_simps [simp]:
  "branchesOf [] = []" "branchesOf (i # is) = branchOf i @ branchesOf is" "branchesOf (as @ bs) = branchesOf as @ branchesOf bs"
  by (simp_all add: branchesOf_def)

definition balanced :: "awaitParallelInput \<Rightarrow> parallelToolInput list \<Rightarrow>
    (string \<Rightarrow> parallelToolResult envelope list) \<Rightarrow> bool" where
  "balanced input bs ch \<longleftrightarrow>
     (let records = tbRecords (apiBatch input); results = map snd (ch (apiResultInstance input)) in
      recordsSound records \<and> apiExpectedCount input = int (length (openRecords records)) \<and>
      list_all (\<lambda>i. ptiResultInstance i = apiResultInstance input) bs \<and>
      (\<forall>key. key \<noteq> apiResultInstance input \<longrightarrow> ch key = []) \<and> list_all validResult results \<and>
      mset (map branchKey bs) + mset (map resultKey results) = mset (map recordKey (openRecords records)))"

fun batchStart :: "stepInput \<Rightarrow> parallelToolInput list \<Rightarrow> bool" where
  "batchStart (AwaitParallelToolResults input) bs = balanced input bs (\<lambda>_. [])"
| "batchStart (AwaitManualToolRecovery batch) bs =
     (bs = [] \<and> recordsSound (tbRecords batch) \<and> list_all recordDone (tbRecords batch))"
| "batchStart _ bs = (bs = [])"

definition starts :: "decision \<Rightarrow> bool" where
  "starts d \<longleftrightarrow> (\<forall>m ms. d = GoTo (m # ms) \<longrightarrow> batchStart (fst m) (branchesOf (map fst ms)))"

lemma starts_goTo [simp]: "starts (goTo next) \<longleftrightarrow> batchStart next []"
  by (simp add: starts_def goTo_def)

lemma starts_GoTo [simp]: "starts (GoTo (m # ms)) \<longleftrightarrow> batchStart (fst m) (branchesOf (map fst ms))"
  by (simp add: starts_def)

lemma plain_branches: "list_all (\<lambda>m. \<not> ofBatch (fst m)) ms \<Longrightarrow> branchesOf (map fst ms) = []"
proof (induction ms)
  case (Cons m ms)
  then have "branchOf (fst m) = []" by (cases "fst m") auto
  with Cons show ?case by simp
qed simp

lemma plain_starts: "plainDecision d \<Longrightarrow> starts d"
proof -
  have "\<not> ofBatch i \<Longrightarrow> batchStart i bs = (bs = [])" for i bs by (cases i) simp_all
  then show "plainDecision d \<Longrightarrow> starts d" by (auto simp: plainDecision_def starts_def plain_branches)
qed

lemma starts_plain: "ensures m s (\<lambda>d _. plainDecision d) \<Longrightarrow> ensures m s (\<lambda>d _. starts d)"
  by (erule ensures_mono) (rule plain_starts)

section \<open>Every Step starts its batches in balance\<close>

lemma balancedI:
  assumes "recordsSound (tbRecords (apiBatch input))"
    and "apiExpectedCount input = int (length (openRecords (tbRecords (apiBatch input))))"
    and "list_all (\<lambda>i. ptiResultInstance i = apiResultInstance input) bs"
    and "map branchKey bs = map recordKey (openRecords (tbRecords (apiBatch input)))"
  shows "balanced input bs (\<lambda>_. [])"
  unfolding balanced_def assms(4) using assms by (simp add: Let_def)

lemma answerCall_starts [simp]: "ensures (answerCall ctx call r) s (\<lambda>d _. starts d)"
  by (rule starts_plain) simp

lemma parallelRecords_open:
  "parallelRecords flow config st i calls limit = Inr pairs \<Longrightarrow> list_all (\<lambda>(r, d). \<not> tbrHasResult r) pairs"
proof (induction flow config st i calls limit arbitrary: pairs rule: parallelRecords.induct)
  case (2 flow config state i call calls limit)
  then show ?case by (force split: if_splits sum.splits)
qed simp

lemma branches_of_pairs:
  "branchesOf (map fst (map (\<lambda>(r, d). branchMovement inst r (policy r) d) pairs)) =
     map (\<lambda>(r, d). \<lparr>ptiResultInstance = inst, ptiIndex = tbrIndex r, ptiCall = tbrCall r, ptiPolicy = policy r\<rparr>) pairs"
  by (induction pairs) (auto simp: branchMovement_def)

lemma distinct_positions: "map tbrIndex rs = map (\<lambda>k. i + int k) [0..<n] \<Longrightarrow> distinct (map tbrIndex rs)"
  by (simp add: distinct_map inj_on_def)

lemma parallelToolMovements_starts:
  assumes "parallelToolMovements flow config st = Inr (Some ms)"
  shows "starts (GoTo ms)"
proof -
  from assms obtain pairs where
    pairs: "parallelRecords flow config st (stPendingToolIndex st) (drop (nat (stPendingToolIndex st)) (stPendingToolCalls st))
      (effectiveMaxParallelToolCalls config) = Inr pairs" and
    ms: "ms = (AwaitParallelToolResults \<lparr>apiBatch = \<lparr>tbBatchID = batchIDFor st (stPendingToolIndex st),
          tbFirstIndex = stPendingToolIndex st, tbRecords = map fst pairs, tbRecoveryRevision = 0\<rparr>,
        apiResultInstance = batchIDFor st (stPendingToolIndex st), apiExpectedCount = int (length pairs)\<rparr>, None) #
      map (\<lambda>(r, d). branchMovement (batchIDFor st (stPendingToolIndex st)) r (tbrPolicy r) d) pairs"
    by (auto simp: parallelToolMovements_def Let_def split: if_splits sum.splits)
  from parallelRecords_shape [OF pairs] have d: "distinct (map tbrIndex (map fst pairs))"
    by (intro distinct_positions) (auto simp: comp_def)
  from parallelRecords_open [OF pairs] have op: "\<forall>r \<in> set (map fst pairs). \<not> tbrHasResult r" by (auto simp: list_all_iff)
  then have "openRecords (map fst pairs) = map fst pairs" by (auto simp: openRecords_def)
  moreover have "map branchKey (map (\<lambda>(r, d). \<lparr>ptiResultInstance = i, ptiIndex = tbrIndex r, ptiCall = tbrCall r,
      ptiPolicy = tbrPolicy r\<rparr>) pairs) = map recordKey (map fst pairs)" for i
    by (auto simp: branchKey_def recordKey_def)
  ultimately show ?thesis using d op unfolding ms starts_GoTo fst_conv batchStart.simps branches_of_pairs
    by (intro balancedI) (auto simp: recordsSound_def list_all_iff)
qed

lemma routeTool_starts: "ensures (routeToolExecute flow ctx) s (\<lambda>d _. starts d)"
  unfolding routeToolExecute_def routeWriteTodos_def routeDurableWait_def routeRequestUserInput_def routeExternal_def
  by (auto simp: ensures_simps simp del: starts_GoTo intro!: ensures_any parallelToolMovements_starts split: sum.split)

lemma unknown_done [simp]: "validateToolOutcome (terOutcome (unknownToolResult t)) = Inr ()"
  by (simp add: unknownToolResult_def encodeToolResult_def validateToolOutcome_def)

lemma prepareManual_starts: "ensures (prepareManualToolRecoveryExecute ef) s (\<lambda>d _. starts d)"
  by (auto simp: prepareManualToolRecoveryExecute_def ensures_simps Let_def recordsSound_def recordDone_def intro!: ensures_any)

lemma awaitParallel_starts:
  assumes "recordsSound (tbRecords (apiBatch input))"
    and "delivers (cnParallel cn (apiResultInstance input)) (tbRecords (apiBatch input))"
  shows "ensures (awaitParallelExecute ctx cn input) s (\<lambda>d _. starts d)"
proof -
  from join_complete [OF assms, of "[]"] obtain out where
    out: "joinResults (cnParallel cn (apiResultInstance input)) [] (tbRecords (apiBatch input)) = Inr out"
    "map tbrIndex out = map tbrIndex (tbRecords (apiBatch input))" "list_all recordDone out" by auto
  with assms(1) have "recordsSound out" by (simp add: recordsSound_def list_all_iff)
  with out show ?thesis
    by (auto simp: awaitParallelExecute_def ensures_simps Let_def intro!: ensures_any)
qed

text \<open>A resumed batch: the records that are retried are the open ones.\<close>

lemma retryMovements_branches:
  "retryMovements flow config st inst rs = Inr ms \<Longrightarrow> branchesOf (map fst ms) =
     map (\<lambda>r. \<lparr>ptiResultInstance = inst, ptiIndex = tbrIndex r, ptiCall = tbrCall r, ptiPolicy = PolicyManualRecovery\<rparr>) rs"
  by (induction rs arbitrary: ms) (auto simp: branchMovement_def split: sum.splits)

lemma decide_open:
  assumes "list_all recordDone rs"
  shows "openRecords (map (decideRecord ds) rs) = retriedRecords ds rs"
  using assms by (induction rs) (auto simp: openRecords_def retriedRecords_def decideRecord_def recordDone_def)

lemma decide_sound: "recordsSound rs \<Longrightarrow> recordsSound (map (decideRecord ds) rs)"
  by (auto simp: recordsSound_def comp_def) (auto simp: decideRecord_def recordDone_def split: if_splits)

lemma resumeBatch_starts [simp]:
  assumes "recordsSound (tbRecords batch)" and "list_all recordDone (tbRecords batch)"
  shows "ensures (resumeBatch flow ctx batch requested) s (\<lambda>d _. starts d)"
proof -
  have "balanced \<lparr>apiBatch = batch \<lparr>tbRecords := map (decideRecord ds) (tbRecords batch), tbRecoveryRevision := n\<rparr>,
      apiResultInstance = inst, apiExpectedCount = int (length (retriedRecords ds (tbRecords batch)))\<rparr> (branchesOf (map fst ms)) (\<lambda>_. [])"
    if "retryMovements flow config st inst (retriedRecords ds (tbRecords batch)) = Inr ms" for config st inst ms ds n
    unfolding retryMovements_branches [OF that] using assms
    by (intro balancedI) (auto simp: decide_sound decide_open list_all_iff branchKey_def recordKey_def)
  then show ?thesis
    unfolding resumeBatch_def Let_def ensures_simps by (auto intro!: ensures_any)
qed

lemma awaitManual_starts:
  assumes "batchStart (AwaitManualToolRecovery batch) []"
  shows "ensures (awaitManualExecute flow ctx cn batch) s (\<lambda>d _. starts d)"
  using assms unfolding awaitManualExecute_def ensures_simps by (auto intro!: ensures_any)

lemma inactivity_plain: "ensures (inactivityExecute flow ef ctx cn d) s (\<lambda>d _. plainDecision d)"
  by (auto simp: inactivityExecute_def ensures_simps intro!: ensures_any)

lemma execute_starts:
  assumes "\<not> isSide input"
    and "\<And>i. input = AwaitParallelToolResults i \<Longrightarrow> recordsSound (tbRecords (apiBatch i)) \<and>
      delivers (cnParallel cn (apiResultInstance i)) (tbRecords (apiBatch i))"
    and "\<And>batch. input = AwaitManualToolRecovery batch \<Longrightarrow> batchStart input []"
  shows "ensures (executeOf flow ef ctx cn input) s (\<lambda>d _. starts d)"
proof (cases "ofBatch input \<or> input = RouteTool \<or> input = PrepareManualToolRecovery")
  case True
  with assms show ?thesis
    by (cases input) (simp_all add: routeTool_starts prepareManual_starts awaitParallel_starts awaitManual_starts)
next
  case False
  with execute_plain assms(1) show ?thesis by (blast intro: starts_plain)
qed

section \<open>The results channel\<close>

definition settled :: "store \<Rightarrow> store \<Rightarrow> bool" where
  "settled s s' \<longleftrightarrow> chParallel s' = chParallel s"

lemma settled_sets:
  "keeps settled (attrSet agentConfigAttribute v)" "keeps settled (attrSet waitingInputRoundAttribute w)"
  "keeps settled (attrSet agentStateAttribute v0)" "keeps settled (attrSet modelUsageAttribute v2)"
  "keeps settled (attrSet contextSummaryAttribute v4)" "keeps settled (attrSet agentPlanAttribute v5)"
  "keeps settled (attrSet pendingApprovalAttribute v6)" "keeps settled (attrSet pendingToolRecoveryAttribute v7)"
  "keeps settled (attrSet pendingTimerAttribute v8)" "keeps settled (attrSet pendingUserInputAttribute v9)"
  "keeps settled (attrSet inactivityDeadlineAttribute v10)"
  by (auto simp: keeps_def attribute_sets settled_def)

lemma settled_deletes:
  "keeps settled (deletePresent pendingUserInputAttribute)" "keeps settled (deletePresent pendingApprovalAttribute)"
  "keeps settled (deletePresent pendingToolRecoveryAttribute)" "keeps settled (deletePresent pendingTimerAttribute)"
  "keeps settled (deletePresent agentPlanAttribute)" "keeps settled clearInactivityDeadline"
  "keeps settled (attrDelete pendingTimerAttribute)"
  by (auto simp: keeps_def optional_deletes settled_def clearInactivityDeadline_write)
    (auto simp: attrDelete_def pendingTimerAttribute_def split: option.splits)

lemma settled_maps:
  "keeps settled (mapSet currentMessagesAttribute key m)" "keeps settled (mapDelete currentMessagesAttribute key)"
  "keeps settled (mapSet archivedMessagesAttribute key c)" "keeps settled (mapDelete archivedMessagesAttribute key)"
  by (auto simp: keeps_def mapSet_def mapDelete_def attr_defs settled_def split: option.splits)

lemma settled_publish: "keeps settled (publish resetInactivityTimerChannel w1)"
  by (auto simp: keeps_def publish_def settled_def attr_defs)

lemma settled_activity:
  "keeps settled (writeActivity ev)" "keeps settled writeSnapshotRequired"
  "keeps settled (writeInputConsumption q st p n)" "keeps settled incrementWaitingInputRound"
  by (auto simp: keeps_def writeActivity_run settled_def writeSnapshotRequired_def incrementWaitingInputRound_Inr
      dest!: writeInputConsumption_Inr simp: onlyActivity_def)

interpretation settled: conservative settled
  by unfold_locales (auto simp: settled_def settled_sets settled_deletes settled_maps settled_publish settled_activity)

lemma execute_settled:
  assumes "branchOf input = []"
  shows "keeps settled (executeOf flow ef ctx cn input)"
proof (cases "\<exists>config. input = Init config")
  case True
  then show ?thesis by (auto simp: initExecute_def Let_def settled_sets)
next
  case False
  with assms show ?thesis by (intro settled.execute_main) auto
qed

text \<open>A branch publishes the result of its own call, or runs on as its recovery.\<close>

definition branchDecides :: "parallelToolInput \<Rightarrow> store \<Rightarrow> decision \<Rightarrow> store \<Rightarrow> bool" where
  "branchDecides i s d s' \<longleftrightarrow>
     (d = goTo (RecoverParallelToolExecution i) \<and> chParallel s' = chParallel s) \<or>
     (d = DeadEnd \<and> (\<exists>e p. resultKey p = branchKey i \<and> validResult p \<and>
        chParallel s' = (chParallel s)(ptiResultInstance i := chParallel s (ptiResultInstance i) @ [(e, p)])))"

lemma publishResult:
  "ensures (publishTo parallelToolResultsChannel inst p) s
     (\<lambda>_ s'. chParallel s' = (chParallel s)(inst := chParallel s inst @ [(sPublished s, p)]))"
  by (simp add: ensures_def publishTo_def attr_defs)

lemma invokeTool_valid:
  "ensures (invokeTool flow ef ctx call) s (\<lambda>x s'. validateToolOutcome (terOutcome (snd x)) = Inr () \<and> chParallel s' = chParallel s)"
proof -
  have "keeps settled (invokeTool flow ef ctx call)" by (rule settled.conserves_request)
  moreover have "ensures (invokeTool flow ef ctx call) s (\<lambda>x _. validateToolOutcome (terOutcome (snd x)) = Inr ())"
    by (auto simp: invokeTool_def ensures_simps intro!: ensures_any)
  ultimately show ?thesis by (auto simp: ensures_def keeps_def settled_def)
qed

lemma branch_decides:
  assumes "branchOf input = [i]"
  shows "ensures (executeOf flow ef ctx cn input) s (branchDecides i s)"
proof -
  have pub: "ensures (publishTo parallelToolResultsChannel (ptiResultInstance i) p) s' (\<lambda>_. branchDecides i s DeadEnd)"
    if "chParallel s' = chParallel s" "resultKey p = branchKey i" "validResult p" for s' p
    using that by (intro ensures_mono [OF publishResult]) (auto simp: branchDecides_def)
  have again: "branchDecides i s (goTo (RecoverParallelToolExecution i)) s'" if "chParallel s' = chParallel s" for s'
    using that by (simp add: branchDecides_def)
  from assms consider "input = ExecuteParallelTool i" | "input = RecoverParallelToolExecution i" by (cases input) auto
  then show ?thesis
  proof cases
    case 1
    show ?thesis unfolding 1 executeOf.simps executeParallelToolExecute_def ensures_simps
      by (rule ensures_mono [OF invokeTool_valid])
        (auto intro!: pub again simp: resultKey_def branchKey_def validResult_def)
  next
    case 2
    show ?thesis unfolding 2 executeOf.simps recoverParallelToolExecutionExecute_def ensures_simps
      by (rule pub) (simp_all add: resultKey_def branchKey_def validResult_def)
  qed
qed

end
