(* ===== verification/BatchRuns.thy ===== *)
theory BatchRuns
  imports Accounting
begin

text \<open>
  Parallel batches along a run: whenever the Flow joins a batch, every branch has ended and every
  open record has exactly one result; so the join succeeds, and a wait for a batch whose branches
  have ended is complete.
\<close>

section \<open>The invariant\<close>

fun accounts :: "stepInput \<Rightarrow> phase \<Rightarrow> parallelToolInput list \<Rightarrow> (string \<Rightarrow> parallelToolResult envelope list) \<Rightarrow> bool" where
  "accounts (AwaitParallelToolResults i) (Executing cn) bs ch \<longleftrightarrow>
     bs = [] \<and> ch = (\<lambda>_. []) \<and> recordsSound (tbRecords (apiBatch i)) \<and>
     apiExpectedCount i = int (length (openRecords (tbRecords (apiBatch i)))) \<and>
     delivers (cnParallel cn (apiResultInstance i)) (tbRecords (apiBatch i))"
| "accounts (AwaitParallelToolResults i) ph bs ch \<longleftrightarrow> balanced i bs ch"
| "accounts (AwaitManualToolRecovery batch) ph bs ch \<longleftrightarrow>
     ch = (\<lambda>_. []) \<and> batchStart (AwaitManualToolRecovery batch) bs"
| "accounts input ph bs ch \<longleftrightarrow> ch = (\<lambda>_. []) \<and> bs = []"

fun conditionsOf :: "wait \<Rightarrow> condition list" where
  "conditionsOf (Until c) = [c]"
| "conditionsOf (AnyOf cs) = cs"

fun onResults :: "condition \<Rightarrow> bool" where
  "onResults (ParallelResultsForN key n) = True"
| "onResults _ = False"

text \<open>Only the join of a batch waits for results, and it waits for all of them.\<close>

fun waitFits :: "stepInput \<Rightarrow> wait \<Rightarrow> bool" where
  "waitFits (AwaitParallelToolResults i) w \<longleftrightarrow> w = Until (ParallelResultsForN (apiResultInstance i) (apiExpectedCount i))"
| "waitFits _ w \<longleftrightarrow> list_all (\<lambda>c. \<not> onResults c) (conditionsOf w)"

definition waitsFitting :: "activeStep \<Rightarrow> bool" where
  "waitsFitting a \<longleftrightarrow> (\<forall>w since. asPhase a = Waiting w since \<longrightarrow> waitFits (asInput a) w)"

definition accounted :: "configuration \<Rightarrow> bool" where
  "accounted c \<longleftrightarrow> list_all waitsFitting (cfActive c) \<and> (cfOutcome c = Running \<longrightarrow>
     (\<exists>m. mains (cfActive c) = [m] \<and>
       accounts (asInput m) (asPhase m) (branchesOf (map asInput (cfActive c))) (chParallel (cfStore c))))"

lemma main_branch [simp]: "\<not> isSide input \<Longrightarrow> branchOf input = []"
  by (cases input) auto

lemma balanced_branches:
  assumes "mset bs = mset bs'"
  shows "balanced i bs ch \<longleftrightarrow> balanced i bs' ch"
  using mset_eq_setD [OF assms] assms by (simp add: balanced_def Let_def list_all_iff)

lemma accounts_branches:
  assumes "mset bs = mset bs'" and "accounts input ph bs ch"
  shows "accounts input ph bs' ch"
  using assms(2) balanced_branches [OF assms(1)] assms(1)
  by (cases "(input, ph, bs, ch)" rule: accounts.cases) simp_all

lemma accounts_phase:
  "(\<And>i. input \<noteq> AwaitParallelToolResults i) \<Longrightarrow> accounts input ph bs ch \<longleftrightarrow> accounts input ph' bs ch"
  by (cases input) auto

lemma accounts_waiting: "accounts input Entering bs ch \<Longrightarrow> accounts input (Waiting w t) bs ch"
  by (cases input) auto

lemma accounts_start: "batchStart input bs \<Longrightarrow> accounts input Entering bs (\<lambda>_. [])"
  by (cases input) auto

lemma accounts_branch:
  assumes "accounts input ph bs ch" and "bs \<noteq> []"
  obtains i where "input = AwaitParallelToolResults i" "\<forall>cn. ph \<noteq> Executing cn" "balanced i bs ch"
  using assms by (cases "(input, ph, bs, ch)" rule: accounts.cases) auto

lemma accounts_executing:
  assumes "accounts input (Executing cn) bs ch"
  shows "bs = []" "ch = (\<lambda>_. [])"
  using assms by (cases input; simp)+

text \<open>A branch that ends moves its key from the branches to the results.\<close>

lemma balanced_publish:
  assumes "balanced input (bs @ i # bs') ch" and "resultKey p = branchKey i" and "validResult p"
  shows "balanced input (bs @ bs') (ch (ptiResultInstance i := ch (ptiResultInstance i) @ [(e, p)]))"
  using assms by (auto simp: balanced_def Let_def)

text \<open>When the wait of the join completes, no branch is left and every result is consumed.\<close>

lemma balanced_complete:
  assumes "balanced i bs ch" and "takeMessages (apiExpectedCount i) (apiExpectedCount i) (ch (apiResultInstance i)) = Some (vs, q)"
  shows "bs = [] \<and> q = [] \<and> vs = map snd (ch (apiResultInstance i)) \<and> delivers vs (tbRecords (apiBatch i)) \<and>
    ch (apiResultInstance i := q) = (\<lambda>_. [])"
proof -
  let ?rs = "map snd (ch (apiResultInstance i))"
  from assms(1) have b: "apiExpectedCount i = int (length (openRecords (tbRecords (apiBatch i))))"
    "mset (map branchKey bs) + mset (map resultKey ?rs) = mset (map recordKey (openRecords (tbRecords (apiBatch i))))"
    "list_all validResult ?rs" "\<forall>key. key \<noteq> apiResultInstance i \<longrightarrow> ch key = []"
    by (simp_all add: balanced_def Let_def multiset.map_comp)
  from arg_cong [OF b(2), of size] have "length bs + length ?rs = length (openRecords (tbRecords (apiBatch i)))" by simp
  moreover have "length (openRecords (tbRecords (apiBatch i))) \<le> length ?rs"
    using assms(2) b(1) by (auto simp: takeMessages_def split: if_splits)
  ultimately have "length bs = 0" "int (length ?rs) = apiExpectedCount i" using b(1) by linarith+
  with assms(2) b show ?thesis by (auto simp: takeMessages_def delivers_def multiset.map_comp split: if_splits)
qed

lemma takeCondition_results: "takeCondition elapsed c x = Some y \<Longrightarrow> \<not> onResults c \<Longrightarrow> chParallel (snd y) = chParallel (snd x)"
  by (cases x; cases y; cases c) (auto split: if_splits)

lemma takeSome_results:
  "takeSome elapsed cs x y \<Longrightarrow> list_all (\<lambda>c. \<not> onResults c) cs \<Longrightarrow> chParallel (snd y) = chParallel (snd x)"
  by (induction rule: takeSome.induct) (auto dest: takeCondition_results)

lemma wakes_results:
  "wakes elapsed w x y \<Longrightarrow> list_all (\<lambda>c. \<not> onResults c) (conditionsOf w) \<Longrightarrow> chParallel (snd y) = chParallel (snd x)"
  by (induction rule: wakes.induct) (auto dest!: takeCondition_results takeSome_results)

lemma waitFor_fits:
  assumes "waitForOf flow ctx input = Some m"
  shows "ensures m s (\<lambda>w _. waitFits input w)"
proof -
  have "waitForOf flow ctx input \<noteq> None \<Longrightarrow> ensures (the (waitForOf flow ctx input)) s (\<lambda>w _. waitFits input w)"
    by (cases input)
      (auto simp: awaitUserWaitFor_def inputConditions_def checkSteeredWaitFor_def awaitToolApprovalWaitFor_def
        awaitParallelWaitFor_def awaitManualWaitFor_def durableWaitWaitFor_def inactivityWaitFor_def Let_def ensures_simps
        intro!: ensures_any)
  with assms show ?thesis by simp
qed

section \<open>Every transition keeps it\<close>

lemma main_or_side:
  assumes "mains (pre @ a # post) = [m]"
  obtains (branch) "isSide (asInput a)" "mains (pre @ post) = [m]"
  | (main) "m = a" "\<not> isSide (asInput a)" "mains (pre @ post) = []"
  using assms by (auto simp: append_eq_Cons_conv split: if_splits)

lemma branches_around:
  "mset (branchesOf (map asInput (pre @ a # post))) = mset (branchOf (asInput a)) + mset (branchesOf (map asInput (pre @ post)))"
  by simp

text \<open>A new phase of one movement.\<close>

lemma accounted_phase:
  assumes "accounted c" and "cfOutcome c = Running" and "cfActive c = pre @ a # post"
    and "chParallel s' = chParallel (cfStore c)" and "waitsFitting (a \<lparr>asPhase := ph\<rparr>)"
    and "\<And>bs ch. \<not> isSide (asInput a) \<Longrightarrow> accounts (asInput a) (asPhase a) bs ch \<Longrightarrow> accounts (asInput a) ph bs ch"
  shows "accounted (c \<lparr>cfStore := s', cfActive := pre @ a \<lparr>asPhase := ph\<rparr> # post\<rparr>)"
proof -
  from assms(1-3) obtain m where m: "mains (pre @ a # post) = [m]" and
    acc: "accounts (asInput m) (asPhase m) (branchesOf (map asInput (pre @ a # post))) (chParallel (cfStore c))"
    by (auto simp: accounted_def)
  have fits: "list_all waitsFitting (pre @ a \<lparr>asPhase := ph\<rparr> # post)" using assms(1,3,5) by (simp add: accounted_def)
  from m show ?thesis
  proof (cases rule: main_or_side)
    case branch
    with m acc fits assms(2,4) show ?thesis by (auto simp: accounted_def)
  next
    case main
    with assms(6) [of "branchesOf (map asInput (pre @ a # post))" "chParallel (cfStore c)"] acc fits assms(2,4) show ?thesis
      by (auto simp: accounted_def)
  qed
qed

text \<open>The wait of a movement completes.\<close>

lemma accounted_wake:
  assumes "accounted c" and "cfOutcome c = Running" and "cfActive c = pre @ a # post" and "asPhase a = Waiting w since"
    and "wakes elapsed w (noConditions, cfStore c) (cn, s')"
  shows "accounted (c \<lparr>cfStore := s', cfActive := pre @ a \<lparr>asPhase := Executing cn\<rparr> # post\<rparr>)"
proof (cases "\<exists>i. asInput a = AwaitParallelToolResults i")
  case False
  from assms(1,3,4) have "waitFits (asInput a) w" by (simp add: accounted_def waitsFitting_def)
  with False have "list_all (\<lambda>c. \<not> onResults c) (conditionsOf w)" by (cases "asInput a") auto
  with wakes_results [OF assms(5)] have "chParallel s' = chParallel (cfStore c)" by simp
  with False show ?thesis
    by (intro accounted_phase [OF assms(1-3)])
      (auto simp: waitsFitting_def accounts_phase [of _ "Executing cn" _ _ "asPhase a"])
next
  case True
  then obtain i where i: "asInput a = AwaitParallelToolResults i" by blast
  from assms(1,3,4) i have w: "w = Until (ParallelResultsForN (apiResultInstance i) (apiExpectedCount i))"
    by (simp add: accounted_def waitsFitting_def)
  let ?ch = "chParallel (cfStore c)"
  from assms(5) obtain vs q where t: "takeMessages (apiExpectedCount i) (apiExpectedCount i) (?ch (apiResultInstance i)) = Some (vs, q)"
    and cn: "cnParallel cn (apiResultInstance i) = vs" "chParallel s' = ?ch (apiResultInstance i := q)"
    unfolding w by (auto elim!: wakes.cases)
  from assms(1-3) obtain m where m: "mains (pre @ a # post) = [m]" and
    acc: "accounts (asInput m) (asPhase m) (branchesOf (map asInput (pre @ a # post))) ?ch"
    by (auto simp: accounted_def)
  from m show ?thesis
  proof (cases rule: main_or_side)
    case branch
    with i show ?thesis by simp
  next
    case main
    with acc i assms(4) have b: "balanced i (branchesOf (map asInput (pre @ a # post))) ?ch" by simp
    from balanced_complete [OF this t] cn have none: "branchesOf (map asInput (pre @ a # post)) = []"
      "chParallel s' = (\<lambda>_. [])" "delivers (cnParallel cn (apiResultInstance i)) (tbRecords (apiBatch i))" by auto
    have "accounts (asInput a) (Executing cn) (branchesOf (map asInput (pre @ a # post))) (chParallel s')"
      using none b by (simp add: i balanced_def Let_def)
    moreover have "list_all waitsFitting (pre @ a \<lparr>asPhase := Executing cn\<rparr> # post)"
      using assms(1,3) by (simp add: accounted_def waitsFitting_def)
    ultimately show ?thesis using main assms(2) by (auto simp: accounted_def)
  qed
qed

lemma entering_fits [simp]: "waitsFitting (entering m)" "list_all waitsFitting (map entering ms)"
  by (simp_all add: waitsFitting_def entering_def list_all_iff)

lemma entering_inputs [simp]: "asInput (entering m) = fst m" "asPhase (entering m) = Entering"
  "map (asInput \<circ> entering) ms = map fst ms"
  by (simp_all add: entering_def comp_def)

text \<open>A side movement executes.\<close>

lemma accounted_side:
  assumes "accounted c" and "cfOutcome c = Running" and "cfActive c = pre @ a # post" and "isSide (asInput a)"
    and "executeOf flow ef ctx cn (asInput a) (cfStore c) = Inr (d, s')"
  shows "accounted (c \<lparr>cfStore := s', cfActive := fst (decided d (pre @ post)), cfOutcome := snd (decided d (pre @ post))\<rparr>)"
proof -
  let ?bs = "branchesOf (map asInput (pre @ a # post))" and ?others = "branchesOf (map asInput (pre @ post))"
  let ?ch = "chParallel (cfStore c)"
  have fits: "list_all waitsFitting (pre @ post)" using assms(1,3) by (simp add: accounted_def)
  from assms(1-3) obtain m where m: "mains (pre @ a # post) = [m]" and acc: "accounts (asInput m) (asPhase m) ?bs ?ch"
    by (auto simp: accounted_def)
  from m assms(4) have m': "mains (pre @ post) = [m]" by (cases rule: main_or_side) auto
  from ensuresD [OF execute_sideDecision [OF assms(4)] assms(5)] have sd: "sideDecision d" .
  show ?thesis
  proof (cases "branchOf (asInput a)")
    case Nil
    from keepsD [OF execute_settled [OF this] assms(5)] have ch: "chParallel s' = ?ch" by (simp add: settled_def)
    from assms(4) Nil obtain t where t: "asInput a = InactivityTimeout t" by (cases "asInput a") auto
    from ensuresD [OF inactivity_plain assms(5) [unfolded t executeOf.simps]] have plain: "plainDecision d" .
    from Nil have "mset ?bs = mset ?others" by simp
    from accounts_branches [OF this acc] have "accounts (asInput m) (asPhase m) ?others ?ch" .
    with fits m' ch sd plain show ?thesis
      by (cases d) (auto simp: accounted_def mains_entering_side plain_branches)
  next
    case (Cons i more)
    then have i: "branchOf (asInput a) = [i]" by (cases "asInput a") auto
    from ensuresD [OF branch_decides [OF i] assms(5)] have bd: "branchDecides i (cfStore c) d s'" .
    have "?bs \<noteq> []" using i by simp
    with acc obtain input where input: "asInput m = AwaitParallelToolResults input" "\<forall>cn. asPhase m \<noteq> Executing cn" "balanced input ?bs ?ch"
      by (rule accounts_branch)
    have b: "accounts (asInput m) (asPhase m) bs ch = balanced input bs ch" for bs ch using input(1,2) by (cases "asPhase m") auto
    from bd show ?thesis unfolding branchDecides_def
    proof (elim disjE conjE exE)
      assume "d = goTo (RecoverParallelToolExecution i)" "chParallel s' = ?ch"
      moreover have "mset ?bs = mset (?others @ [i])" using i by simp
      from balanced_branches [OF this] input(3) have "balanced input (?others @ [i]) ?ch" by blast
      ultimately show ?thesis using fits m' b by (auto simp: accounted_def goTo_def)
    next
      fix e p
      assume d: "d = DeadEnd" and p: "resultKey p = branchKey i" "validResult p" and
        ch: "chParallel s' = ?ch (ptiResultInstance i := ?ch (ptiResultInstance i) @ [(e, p)])"
      have "balanced input (branchesOf (map asInput pre) @ i # branchesOf (map asInput post)) ?ch" using input(3) i by simp
      from balanced_publish [OF this p] show ?thesis using fits m' b by (auto simp: accounted_def d ch)
    qed
  qed
qed

text \<open>The main movement executes.\<close>

lemma accounted_main:
  assumes "accounted c" and "cfOutcome c = Running" and "cfActive c = pre @ a # post" and "\<not> isSide (asInput a)"
    and "asPhase a = Executing cn" and "executeOf flow ef ctx cn (asInput a) (cfStore c) = Inr (d, s')" and "handsOver d s'"
  shows "accounted (c \<lparr>cfStore := s', cfActive := fst (decided d (pre @ post)), cfOutcome := snd (decided d (pre @ post))\<rparr>)"
proof -
  let ?bs = "branchesOf (map asInput (pre @ a # post))"
  have fits: "list_all waitsFitting (pre @ post)" using assms(1,3) by (simp add: accounted_def)
  from assms(1-3) obtain m where m: "mains (pre @ a # post) = [m]" and acc: "accounts (asInput m) (asPhase m) ?bs (chParallel (cfStore c))"
    by (auto simp: accounted_def)
  from m assms(4) have m': "m = a" "mains (pre @ post) = []" by (cases rule: main_or_side; simp)+
  note acc = acc [unfolded m'(1) assms(5)]
  note none = accounts_executing [OF acc]
  have "branchOf (asInput a) = []" using assms(4) by (cases "asInput a") auto
  from keepsD [OF execute_settled [OF this] assms(6)] none(2) have ch: "chParallel s' = (\<lambda>_. [])" by (simp add: settled_def)
  have "ensures (executeOf flow ef ctx cn (asInput a)) (cfStore c) (\<lambda>d _. starts d)"
    using acc by (intro execute_starts [OF assms(4)]) auto
  from ensuresD [OF this assms(6)] have st: "starts d" .
  from assms(7) obtain n ms where d: "d = GoTo (n # ms)" "\<not> isSide (fst n)" "list_all (\<lambda>x. isSide (fst x)) ms"
    by (auto simp: handsOver_def)
  from none(1) have "branchesOf (map asInput pre) = []" "branchesOf (map asInput post) = []" by simp_all
  with fits m'(2) d st ch show ?thesis
    by (auto simp: accounted_def mains_entering_side intro!: accounts_start)
qed

lemma accounted_step:
  assumes "accounted c" and "governed c" and "flowStep flow c l c'"
  shows "accounted c'"
  using assms(3)
proof (cases rule: flowStep.cases)
  case (commandStep ctx cmd b s')
  have "chParallel s' = chParallel (cfStore c)"
  proof (cases b)
    case False
    with runCommand_Inr [OF commandStep(4)] show ?thesis by auto
  next
    case True
    with runCommand_Inr [OF commandStep(4)] obtain s1 where s1: "deadlineMoved flow (cfStore c) s1"
      "accepted flow cmd (cfStore c) s1 s'" by blast
    from s1(2) deadlineMoved_fields(16) [OF s1(1)] show ?thesis by (cases cmd) auto
  qed
  with assms(1) show ?thesis by (simp add: commandStep accounted_def)
next
  case (timeStep now)
  with assms(1) show ?thesis by (simp add: accounted_def)
next
  case (waitStep pre a post ctx w wt s')
  have "chParallel s' = chParallel (cfStore c)"
    using keepsD [OF settled.waitFor [OF waitStep(6)] waitStep(7)] by (simp add: settled_def)
  moreover have "waitsFitting (a \<lparr>asPhase := Waiting wt (cfClock c)\<rparr>)"
    using ensuresD [OF waitFor_fits [OF waitStep(6)] waitStep(7)] by (simp add: waitsFitting_def)
  ultimately show ?thesis unfolding waitStep(2)
    by (intro accounted_phase [OF assms(1) waitStep(3,4)]) (simp_all add: waitStep(5) accounts_waiting)
next
  case (startStep pre a post ctx)
  have "asInput a \<noteq> AwaitParallelToolResults i" for i using startStep(6) by auto
  note phase = accounts_phase [OF this, of "Executing noConditions" _ _ "asPhase a"]
  have "accounted (c \<lparr>cfStore := cfStore c, cfActive := pre @ a \<lparr>asPhase := Executing noConditions\<rparr> # post\<rparr>)"
    by (intro accounted_phase [OF assms(1) startStep(3,4)]) (simp_all add: waitsFitting_def phase)
  then show ?thesis by (simp add: startStep)
next
  case (wakeStep pre a post wt since cn s')
  from accounted_wake [OF assms(1) wakeStep(3-6)] show ?thesis by (simp add: wakeStep)
next
  case (executeStep pre a post cn ef ctx d s')
  show ?thesis
  proof (cases "isSide (asInput a)")
    case True
    from accounted_side [OF assms(1) executeStep(3,4) True executeStep(7)] show ?thesis by (simp add: executeStep)
  next
    case False
    from governed_others(1) [OF assms(2) executeStep(3,4)] have "ready (asInput a) (cfStore c)" .
    from ensuresD [OF execute_ready [OF this False executeStep(6)] executeStep(7)]
      accounted_main [OF assms(1) executeStep(3,4) False executeStep(5,7)] show ?thesis by (simp add: executeStep)
  qed
next
  case (recoverStep pre a post cn next')
  from assms(1) recoverStep(3,4) obtain m where m: "mains (pre @ a # post) = [m]" and
    acc: "accounts (asInput m) (asPhase m) (branchesOf (map asInput (pre @ a # post))) (chParallel (cfStore c))"
    by (auto simp: accounted_def)
  have fits: "list_all waitsFitting (pre @ post)" using assms(1) recoverStep(4) by (simp add: accounted_def)
  from recoverStep(6) show ?thesis
  proof (rule onFailure_cases)
    fix i
    assume i: "asInput a = ExecuteParallelTool i" "next' = RecoverParallelToolExecution i"
    have "mset (branchesOf (map asInput (pre @ a # post))) = mset (branchesOf (map asInput (pre @ post)) @ [i])" using i by simp
    from accounts_branches [OF this acc] m fits i show ?thesis by (auto simp: recoverStep accounted_def split: if_splits)
  qed (use m acc fits in \<open>auto simp: recoverStep accounted_def append_eq_Cons_conv split: if_splits elim!: main_or_side\<close>)
next
  case (failStep pre a post)
  then show ?thesis by (simp add: accounted_def)
qed

lemma reachable_accounted: "reachable flow c \<Longrightarrow> accounted c"
proof (induction rule: reachable_induct)
  case (start config metadata now)
  then show ?case by (simp add: accounted_def startConfiguration_def emptyStore_def)
next
  case (step c l c')
  then show ?case by (blast intro: accounted_step reachable_governed)
qed

end
