(* ===== verification/Approval.thy ===== *)
theory Approval
  imports Frames
begin

text \<open>
  The approval gate. A tool whose definition requires approval is only ever attempted for a call
  that a user command approved: along every run, through serial execution, parallel batches,
  recovery and retries. Also here: what no method ever changes (the configuration, the runtime
  metadata) and what only grows (the waiting-input round).
\<close>

section \<open>What the Steps leave alone\<close>

definition steady :: "store \<Rightarrow> store \<Rightarrow> bool" where
  "steady s s' \<longleftrightarrow> sConfig s' = sConfig s \<and> chApprovals s' = chApprovals s \<and>
     sRuntimeMetadata s' = sRuntimeMetadata s \<and>
     (\<forall>r. sWaitingInputRound s = Some r \<longrightarrow> (\<exists>r'\<ge>r. sWaitingInputRound s' = Some r'))"

lemma steady_refl [simp]: "steady s s"
  by (simp add: steady_def)

lemma steady_trans: "steady a b \<Longrightarrow> steady b c \<Longrightarrow> steady a c"
  unfolding steady_def by (metis order_trans)

lemma steady_sets:
  "keeps steady (attrSet agentStateAttribute v0)" "keeps steady (attrSet modelUsageAttribute v2)"
  "keeps steady (attrSet contextSummaryAttribute v4)" "keeps steady (attrSet agentPlanAttribute v5)"
  "keeps steady (attrSet pendingApprovalAttribute v6)" "keeps steady (attrSet pendingToolRecoveryAttribute v7)"
  "keeps steady (attrSet pendingTimerAttribute v8)" "keeps steady (attrSet pendingUserInputAttribute v9)"
  "keeps steady (attrSet inactivityDeadlineAttribute v10)"
  by (auto simp: keeps_def attribute_sets steady_def)

lemma steady_deletes:
  "keeps steady (deletePresent pendingUserInputAttribute)" "keeps steady (deletePresent pendingApprovalAttribute)"
  "keeps steady (deletePresent pendingToolRecoveryAttribute)" "keeps steady (deletePresent pendingTimerAttribute)"
  "keeps steady (deletePresent agentPlanAttribute)" "keeps steady clearInactivityDeadline"
  "keeps steady (attrDelete pendingTimerAttribute)"
  by (auto simp: keeps_def optional_deletes steady_def clearInactivityDeadline_write)
    (auto simp: attrDelete_def pendingTimerAttribute_def split: option.splits)

lemma steady_maps:
  "keeps steady (mapSet currentMessagesAttribute key m)" "keeps steady (mapDelete currentMessagesAttribute key)"
  "keeps steady (mapSet archivedMessagesAttribute key c)" "keeps steady (mapDelete archivedMessagesAttribute key)"
  by (auto simp: keeps_def mapSet_def mapDelete_def attr_defs steady_def split: option.splits)

lemma steady_publish: "keeps steady (publish resetInactivityTimerChannel w1)"
  by (auto simp: keeps_def publish_def steady_def attr_defs)

lemma steady_activity:
  "keeps steady (writeActivity ev)" "keeps steady writeSnapshotRequired"
  "keeps steady (writeInputConsumption q st p n)" "keeps steady incrementWaitingInputRound"
  by (auto simp: keeps_def writeActivity_run steady_def writeSnapshotRequired_def incrementWaitingInputRound_Inr
      dest!: writeInputConsumption_Inr simp: onlyActivity_def)

interpretation steady: conservative steady
  by unfold_locales (simp, (rule steady_trans steady_sets steady_deletes steady_maps steady_publish steady_activity; assumption?)+)

lemma steady_results [intro!]: "keeps steady (publishTo parallelToolResultsChannel key w)"
  by (auto simp: keeps_def publishTo_def steady_def attr_defs)

lemma execute_steady:
  assumes "\<And>config. input \<noteq> Init config"
  shows "keeps steady (executeOf flow ef ctx cn input)"
proof (cases "(\<exists>i. input = ExecuteParallelTool i) \<or> (\<exists>i. input = RecoverParallelToolExecution i)")
  case True
  then show ?thesis by (auto simp: executeParallelToolExecute_def recoverParallelToolExecutionExecute_def)
next
  case False
  with assms show ?thesis by (intro steady.execute_main) auto
qed

lemmas waitFor_steady = steady.waitFor

section \<open>Which movements carry a call that may be attempted\<close>

text \<open>
  A movement is cleared for a predicate on calls when every call it may attempt, or hand to a
  movement that may, satisfies it.
\<close>

definition facesOnly :: "(toolCall \<Rightarrow> bool) \<Rightarrow> store \<Rightarrow> bool" where
  "facesOnly P s \<longleftrightarrow> (\<forall>call rest. facing (call # rest) s \<longrightarrow> P call)"

fun cleared :: "(toolCall \<Rightarrow> bool) \<Rightarrow> stepInput \<Rightarrow> store \<Rightarrow> bool" where
  "cleared P (CheckSteered k) s \<longleftrightarrow> (k = ContinueExecuteTool \<longrightarrow> facesOnly P s)"
| "cleared P ExecuteTool s \<longleftrightarrow> facesOnly P s"
| "cleared P PrepareManualToolRecovery s \<longleftrightarrow> facesOnly P s"
| "cleared P (ExecuteParallelTool input) s \<longleftrightarrow> P (ptiCall input)"
| "cleared P (AwaitParallelToolResults input) s \<longleftrightarrow> list_all P (map tbrCall (tbRecords (apiBatch input)))"
| "cleared P (AwaitManualToolRecovery batch) s \<longleftrightarrow> list_all P (map tbrCall (tbRecords batch))"
| "cleared P (Init c) s \<longleftrightarrow> False"
| "cleared P _ s \<longleftrightarrow> True"

definition clears :: "(toolCall \<Rightarrow> bool) \<Rightarrow> decision \<Rightarrow> store \<Rightarrow> bool" where
  "clears P d s \<longleftrightarrow> (\<forall>ms. d = GoTo ms \<longrightarrow> list_all (\<lambda>m. cleared P (fst m) s) ms)"

lemma clears_simps [simp]:
  "clears P (goTo next) s = cleared P next s" "clears P (GoTo ms) s = list_all (\<lambda>m. cleared P (fst m) s) ms"
  "clears P DeadEnd s" "clears P (ForceComplete r) s"
  by (auto simp: clears_def goTo_def)

lemma quiet_sym: "quiet s s' \<Longrightarrow> quiet s' s"
  by (simp add: quiet_def)

lemma facesOnly_quiet: "facesOnly P s \<Longrightarrow> quiet s s' \<Longrightarrow> facesOnly P s'"
  unfolding facesOnly_def by (blast intro: facing_quiet quiet_sym)

lemma cleared_quiet: "cleared P input s \<Longrightarrow> quiet s s' \<Longrightarrow> cleared P input s'"
  by (cases "(P, input, s)" rule: cleared.cases) (auto intro: facesOnly_quiet)

lemma cleared_mono: "cleared P input s \<Longrightarrow> (\<And>call. P call \<Longrightarrow> Q call) \<Longrightarrow> cleared Q input s"
  by (cases "(P, input, s)" rule: cleared.cases) (auto simp: facesOnly_def elim: list.pred_mono_strong)

lemma facesOnlyI:
  assumes "facing (call # rest) s" and "P call"
  shows "facesOnly P s"
proof -
  obtain st where "sState s = Some st" using assms(1) by (rule facing_state)
  with facing_unique(1) [OF assms(1)] facing_unique(1) show ?thesis
    unfolding facesOnly_def using assms(2) by (metis list.inject)
qed

section \<open>Every Execute method clears what it hands over\<close>

lemma ensures_all: "(\<And>x s'. Q x s') \<Longrightarrow> ensures m s Q"
  by (simp add: ensures_def)

lemma answerCall_clears [simp]: "ensures (answerCall ctx call r) s (clears P)"
  by (simp add: answerCall_def continueAfterTool_def ensures_simps)

lemma goToCompactionOrModel_clears [simp]: "ensures (goToCompactionOrModel flow) s (clears P)"
  by (auto simp: goToCompactionOrModel_def goToModel_def ensures_simps intro!: ensures_all split: option.split)

lemma continueWith_clears:
  assumes "cleared P (CheckSteered k) s"
  shows "ensures (continueWith flow k) s (clears P)"
proof (cases "k = ContinueExecuteTool")
  case True
  have "keeps quiet (currentSerialToolStepOptions flow)" unfolding currentSerialToolStepOptions_def by blast
  then have "ensures (currentSerialToolStepOptions flow) s (\<lambda>_. facesOnly P)"
    by (rule ensures_quiet) (use assms True in \<open>auto intro: facesOnly_quiet\<close>)
  then show ?thesis by (simp add: True ensures_simps)
next
  case False
  then show ?thesis by (cases k) (simp_all add: ensures_simps goToModel_def)
qed

lemma afterReply_clears: "ensures (afterReply reply) s (\<lambda>next _. next \<noteq> ContinueExecuteTool)"
  by (auto simp: afterReply_def replyContinuation_def ensures_simps Let_def intro!: ensures_all split: if_splits)

lemma afterReply_checks: "ensures (afterReply reply) s (\<lambda>next. cleared P (CheckSteered next))"
  by (rule ensures_mono [OF afterReply_clears]) simp

lemma applyCompaction_clears: "ensures (applyCompactionModelResult r) s (\<lambda>next _. next = ContinueCallModel)"
  by (simp add: applyCompactionModelResult_def ensures_simps Let_def)

lemma applyCompaction_checks: "ensures (applyCompactionModelResult r) s (\<lambda>next. cleared P (CheckSteered next))"
  by (rule ensures_mono [OF applyCompaction_clears]) simp

lemma finishToolBatch_checks [simp]:
  "ensures (finishToolBatch ctx batch) s (\<lambda>next s'. cleared P (CheckSteered next) s')"
  "ensures (finishToolBatch ctx batch) s (\<lambda>next s'. next = ContinueExecuteTool \<longrightarrow> facesOnly P s')"
  by (simp_all add: finishToolBatch_def advanceCursor_def ensures_simps Let_def)

lemma finishToolExecution_checks [simp]:
  "ensures (finishToolExecution ctx call result t) s (\<lambda>next s'. next = ContinueExecuteTool \<longrightarrow> facesOnly P s')"
  unfolding finishToolExecution_def ensures_simps
  by (rule ensures_mono [of _ _ "\<lambda>_ _. True"]) (rule ensures_True, rule finishToolBatch_checks(2))

lemma finish_clears [intro]:
  "ensures (finishToolBatch ctx batch) s (\<lambda>next. clears P (goTo (CheckSteered next)))"
  "ensures (finishToolExecution ctx call result t) s (\<lambda>next. clears P (goTo (CheckSteered next)))"
  by (rule ensures_mono, rule finishToolBatch_checks(1), simp)
    (rule ensures_mono, rule finishToolExecution_checks, simp)

lemma parallelRecords_free:
  "parallelRecords flow config st i calls limit = Inr pairs \<Longrightarrow> (r, d) \<in> set pairs \<Longrightarrow>
     invocationToolDefinition flow config st (tcName (tbrCall r)) = Inr d \<and> \<not> tdRequiresApproval d"
  by (induction flow config st i calls limit arbitrary: pairs rule: parallelRecords.induct)
    (simp, force split: if_splits sum.splits)

lemma parallelToolMovements_clears:
  assumes "parallelToolMovements flow config st = Inr (Some ms)"
    and "\<And>call d. invocationToolDefinition flow config st (tcName call) = Inr d \<Longrightarrow> \<not> tdRequiresApproval d \<Longrightarrow> P call"
  shows "clears P (GoTo ms) s"
proof -
  from assms(1) obtain pairs batch i n where
    pairs: "parallelRecords flow config st (stPendingToolIndex st) (drop (nat (stPendingToolIndex st)) (stPendingToolCalls st))
      (effectiveMaxParallelToolCalls config) = Inr pairs" and
    ms: "ms = (AwaitParallelToolResults \<lparr>apiBatch = batch, apiResultInstance = i, apiExpectedCount = n\<rparr>, None) #
      map (\<lambda>(r, d). branchMovement i r (tbrPolicy r) d) pairs" "tbRecords batch = map fst pairs"
    by (auto simp: parallelToolMovements_def Let_def split: if_splits sum.splits)
  from parallelRecords_free [OF pairs] assms(2) have "\<forall>(r, d) \<in> set pairs. P (tbrCall r)" by blast
  then show ?thesis by (auto simp: ms list_all_iff branchMovement_def)
qed

lemma routeExternal_clears:
  assumes f: "facing (call # rest) s"
    and d: "invocationToolDefinition flow config st (tcName call) = Inr d"
    and free: "\<And>call d. invocationToolDefinition flow config st (tcName call) = Inr d \<Longrightarrow> \<not> tdRequiresApproval d \<Longrightarrow> P call"
  shows "ensures (routeExternal flow ctx config st call d) s (clears P)"
proof -
  have "clears P (GoTo ms) s'" if "parallelToolMovements flow config st = Inr (Some ms)" for ms s'
    using parallelToolMovements_clears [OF that free] .
  moreover have "facesOnly P s" if "\<not> tdRequiresApproval d" using facesOnlyI [OF f] free [OF d that] .
  ultimately show ?thesis
    by (auto simp: routeExternal_def ensures_simps simp del: clears_simps(2) intro!: ensures_all)
qed

lemma config_read: "sConfig s = Some config \<Longrightarrow> Q config s \<Longrightarrow> ensures (attrGet agentConfigAttribute) s Q"
  by (simp add: ensures_def attribute_gets)

lemma routeBuiltin_clears:
  "ensures (routeWriteTodos flow ctx st call) s (clears P)"
  "ensures (routeDurableWait flow ctx call) s (clears P)"
  "ensures (routeRequestUserInput flow ctx call) s (clears P)"
  by (auto simp: routeWriteTodos_def routeDurableWait_def routeRequestUserInput_def ensures_simps
      split: sum.split intro!: ensures_all)

lemma routeTool_clears:
  assumes "ready RouteTool s" and config: "sConfig s = Some config"
    and free: "\<And>st call d. invocationToolDefinition flow config st (tcName call) = Inr d \<Longrightarrow> \<not> tdRequiresApproval d \<Longrightarrow> P call"
  shows "ensures (routeToolExecute flow ctx) s (clears P)"
proof -
  from assms(1) obtain call rest where f: "facing (call # rest) s" by (auto elim: busyE)
  have up: "ensures (updateStatus RoutingTool) s (\<lambda>_ s'. facing (call # rest) s' \<and> sConfig s' = Some config)"
    using keepsD [OF quiet_updateStatus] keepsD [OF steady.conserves_state(1)] facing_quiet [OF f] config
    by (fastforce simp: ensures_def steady_def)
  show ?thesis
    unfolding routeToolExecute_def ensures_simps(4)
  proof (rule ensures_mono [OF up], elim conjE, rule ensures_mono, erule facing_current, elim conjE exE, hypsubst,
      erule config_read, rule facing_read, assumption)
    fix s1 call' rest' st
    assume "facing (call # rest) s1" and "call # rest = call' # rest'"
    then have "facing (call' # rest') s1" by simp
    note ext = routeExternal_clears [OF this _ free]
    show "ensures (case invocationToolDefinition flow config st (tcName call') of
           Inl e \<Rightarrow> answerCall ctx call' (encodeToolResult ((payload StatusFailed) \<lparr>plError := Some ErrUnknownOrDisabled,
                  plTool := tcName call'\<rparr>) OutcomeKnownFailure True)
         | Inr definition' \<Rightarrow>
           if tcName call' = toolNameWriteTodos then routeWriteTodos flow ctx st call'
           else if tcName call' = toolNameDurableWait then routeDurableWait flow ctx call'
           else if tcName call' = toolNameRequestUserInput then routeRequestUserInput flow ctx call'
           else routeExternal flow ctx config st call' definition') s1 (clears P)"
      unfolding ensures_simps using routeBuiltin_clears ext by simp
  qed
qed

text \<open>Approval itself, and the Steps that pass a call on.\<close>

lemma awaitToolApproval_clears:
  assumes "ready AwaitToolApproval s" and "\<And>call. True \<in> set (cnApprovals cn (tcID call)) \<Longrightarrow> P call"
  shows "ensures (awaitToolApprovalExecute ctx cn) s (clears P)"
proof -
  from assms(1) obtain call rest where f: "facing (call # rest) s" by (auto elim: busyE)
  have decided: "ensures (writeActivity ev) s (\<lambda>_ s1. ensures (deletePresent pendingApprovalAttribute) s1 Q)"
    if "\<And>x s'. facing (call # rest) s' \<Longrightarrow> Q x s'" for ev Q
    by (rule facing_via [OF f], blast, rule facing_via, assumption) (auto intro: that)
  have granted: "facesOnly P s'" if "facing (call # rest) s'" "True \<in> set (cnApprovals cn (tcID call))" for s'
    using facesOnlyI [OF that(1)] assms(2) [OF that(2)] .
  show ?thesis
    unfolding awaitToolApprovalExecute_def ensures_simps
    by (intro conjI impI ensures_all [where m = "beginSteeredTurn ctx (cnSteered cn)"] ensures_mono [OF facing_current [OF f]])
      (auto intro!: decided granted)
qed

lemma executeTool_clears:
  assumes "ready ExecuteTool s" and "facesOnly P s"
  shows "ensures (executeToolExecute flow ef ctx) s (clears P)"
proof -
  from assms(1) obtain call rest where f: "facing (call # rest) s" by (auto elim: busyE)
  then have P: "P call" using assms(2) by (auto simp: facesOnly_def)
  show ?thesis
    unfolding executeToolExecute_def ensures_simps
    by (rule facing_via [OF f], blast, rule ensures_mono, erule facing_current, elim conjE exE, hypsubst,
        rule invokeTool_via, assumption) (auto intro: facesOnlyI [where P = P, OF _ P])
qed

lemma awaitParallel_clears:
  assumes "cleared P (AwaitParallelToolResults input) s"
  shows "ensures (awaitParallelExecute ctx cn input) s (clears P)"
proof -
  have "list_all P (map tbrCall records)" if "joinResults rs [] (tbRecords (apiBatch input)) = Inr records" for rs records
    using joinResults_shape [OF that] assms by simp
  then show ?thesis
    unfolding awaitParallelExecute_def ensures_simps Let_def
    by (auto simp del: list.pred_map)
qed

lemma prepareManual_clears:
  assumes "ready PrepareManualToolRecovery s" and "facesOnly P s"
  shows "ensures (prepareManualToolRecoveryExecute ef) s (clears P)"
proof -
  from assms(1) obtain call rest where f: "facing (call # rest) s" by (auto elim: busyE)
  then have "P call" using assms(2) by (auto simp: facesOnly_def)
  then show ?thesis
    unfolding prepareManualToolRecoveryExecute_def ensures_simps Let_def
    by (intro ensures_mono [OF facing_current [OF f]]) (auto intro!: ensures_all)
qed

lemma retryMovements_clears:
  "retryMovements flow config st i rs = Inr ms \<Longrightarrow> list_all P (map tbrCall rs) \<Longrightarrow> list_all (\<lambda>m. cleared P (fst m) s) ms"
  by (induction rs arbitrary: ms) (auto simp: branchMovement_def split: sum.splits)

lemma awaitManual_clears:
  assumes "cleared P (AwaitManualToolRecovery batch) s"
  shows "ensures (awaitManualExecute flow ctx cn batch) s (clears P)"
proof -
  have calls: "list_all P (map tbrCall (tbRecords batch))" using assms by simp
  have "list_all P (map tbrCall (retriedRecords ds (tbRecords batch)))" for ds
    using calls by (auto simp: retriedRecords_def list_all_iff)
  note retried = retryMovements_clears [OF _ this]
  have "ensures (resumeBatch flow ctx batch requested) s' (clears P)" for requested s'
    unfolding resumeBatch_def Let_def ensures_simps using calls
    by (auto simp: comp_def intro!: ensures_all [where m = "attrGet agentConfigAttribute"]
        ensures_all [where m = "attrGet agentStateAttribute"] ensures_all [where m = "updateStatus ExecutingTool"] retried)
  then show ?thesis
    unfolding awaitManualExecute_def ensures_simps by (auto intro!: ensures_all)
qed

lemma compaction_clears [intro]:
  "ensures (applyCompactionModelResult r) s (\<lambda>next. clears P (goTo (CheckSteered next)))"
  by (rule ensures_mono [OF applyCompaction_clears]) simp

lemma plain_clears:
  "ensures (initExecute flow ctx config) s (clears P)"
  "ensures (awaitUserExecute ctx cn) s (clears P)"
  "ensures (beforeModelCallExecute flow ef ctx p) s (clears P)"
  "ensures (callModelWithHooksExecute flow ef ctx i) s (clears P)"
  "ensures (afterModelCallExecute flow ef ctx r) s (clears P)"
  "ensures (durableWaitExecute ctx cn) s (clears P)"
  by (auto simp: initExecute_def awaitUserExecute_def executePlanRequest_def beforeModelCallExecute_def Let_def
      callModelWithHooksExecute_def afterModelCallExecute_def durableWaitExecute_def ensures_simps
      intro!: ensures_all)

lemma passing_clears:
  "ensures (compactContextExecute ef ctx through) s (clears P)"
  "ensures (recoverToolExecutionExecute ef ctx) s (clears P)"
  unfolding compactContextExecute_def recoverToolExecutionExecute_def ensures_simps
  by (rule ensures_all, blast)+

lemma reply_clears:
  "ensures (callModelExecute flow ef ctx) s (clears P)"
  "ensures (applyModelResultExecute ctx r) s (clears P)"
proof -
  have reply: "ensures (afterReply x) s' (\<lambda>next. clears P (goTo (CheckSteered next)))" for x s'
    by (rule ensures_mono [OF afterReply_clears]) simp
  show "ensures (callModelExecute flow ef ctx) s (clears P)"
    unfolding callModelExecute_def ensures_simps
    by (intro ensures_all conjI impI TrueI reply)
  have "ensures (bindTx (applyResponseModelResult ctx x) (\<lambda>next. returnTx (goTo (CheckSteered next)))) s (clears P)" for x
    unfolding applyResponseModelResult_def ensures_simps by (intro ensures_all [where m = "appendReply ctx a b c" for a b c] reply)
  moreover have "ensures (bindTx (applyCompactionModelResult x) (\<lambda>next. returnTx (goTo (CheckSteered next)))) s (clears P)" for x
    unfolding ensures_simps by blast
  ultimately show "ensures (applyModelResultExecute ctx r) s (clears P)"
    by (cases "mresKind r"; cases "mresResponse r"; cases "mresCompaction r")
      (simp_all add: applyModelResultExecute_def ensures_simps(2))
qed

lemma side_clears:
  "ensures (executeParallelToolExecute flow ef ctx input) s (clears P)"
  "ensures (recoverParallelToolExecutionExecute ef input) s (clears P)"
  "ensures (inactivityExecute flow ef ctx cn deadline) s (clears P)"
  by (auto simp: executeParallelToolExecute_def recoverParallelToolExecutionExecute_def inactivityExecute_def
      ensures_simps intro!: ensures_all)

lemma checkSteered_clears:
  assumes "cleared P (CheckSteered k) s"
  shows "ensures (checkSteeredExecute flow ctx cn k) s (clears P)"
  unfolding checkSteeredExecute_def ensures_simps
  by (auto intro!: ensures_all [where m = "beginSteeredTurn ctx (cnSteered cn)"] continueWith_clears [OF assms])

lemma execute_clears:
  assumes "ready input s" and "cleared P input s" and "sConfig s = Some config"
    and "\<And>st call d. invocationToolDefinition flow config st (tcName call) = Inr d \<Longrightarrow> \<not> tdRequiresApproval d \<Longrightarrow> P call"
    and "\<And>call. True \<in> set (cnApprovals cn (tcID call)) \<Longrightarrow> P call"
  shows "ensures (executeOf flow ef ctx cn input) s (clears P)"
  using assms
  by (cases input)
    (auto simp: plain_clears passing_clears reply_clears side_clears answeredInputExecute_def
      simp del: ready.simps clears_simps(2)
      intro: routeTool_clears awaitToolApproval_clears executeTool_clears awaitParallel_clears
        prepareManual_clears awaitManual_clears checkSteered_clears)

section \<open>The gate along a run\<close>

definition needsApproval :: "flow \<Rightarrow> agentConfig \<Rightarrow> string \<Rightarrow> bool" where
  "needsApproval flow config name \<longleftrightarrow> (\<exists>d \<in> set (toolDefinitions flow config). tdName d = name \<and> tdRequiresApproval d)"

text \<open>The call identities that accepted commands of a run approved.\<close>

definition grantedIn :: "label list \<Rightarrow> string set" where
  "grantedIn ls = {tarCallID r | r. Commanded (ApproveTool r) True \<in> set ls \<and> tarApproved r}"

definition allowed :: "flow \<Rightarrow> agentConfig \<Rightarrow> label list \<Rightarrow> toolCall \<Rightarrow> bool" where
  "allowed flow config ls call \<longleftrightarrow> needsApproval flow config (tcName call) \<longrightarrow> tcID call \<in> grantedIn ls"

text \<open>Tools are told apart by name.\<close>

definition distinctTools :: "flow \<Rightarrow> agentConfig \<Rightarrow> bool" where
  "distinctTools flow config \<longleftrightarrow> distinct (map tdName (writeTodosDefinition flow # toolDefinitions flow config))"

definition grantsOnly :: "string set \<Rightarrow> store \<Rightarrow> bool" where
  "grantsOnly G s \<longleftrightarrow> (\<forall>i e. (e, True) \<in> set (chApprovals s i) \<longrightarrow> i \<in> G)"

definition holdsOnly :: "string set \<Rightarrow> phase \<Rightarrow> bool" where
  "holdsOnly G ph \<longleftrightarrow> (\<forall>cn i. ph = Executing cn \<and> True \<in> set (cnApprovals cn i) \<longrightarrow> i \<in> G)"

definition stepGated :: "flow \<Rightarrow> agentConfig \<Rightarrow> label list \<Rightarrow> store \<Rightarrow> activeStep \<Rightarrow> bool" where
  "stepGated flow config ls s a \<longleftrightarrow> holdsOnly (grantedIn ls) (asPhase a) \<and>
     (asInput a = Init config \<or> sConfig s = Some config \<and> cleared (allowed flow config ls) (asInput a) s)"

definition gated :: "flow \<Rightarrow> agentConfig \<Rightarrow> label list \<Rightarrow> configuration \<Rightarrow> bool" where
  "gated flow config ls c \<longleftrightarrow> grantsOnly (grantedIn ls) (cfStore c) \<and>
     list_all (stepGated flow config ls (cfStore c)) (cfActive c)"

lemma allowed_free:
  assumes "distinctTools flow config" and "invocationToolDefinition flow config st (tcName call) = Inr d"
    and "\<not> tdRequiresApproval d"
  shows "allowed flow config ls call"
proof -
  from invocationToolDefinition_Inr [OF assms(2)] have d: "d \<in> set (writeTodosDefinition flow # toolDefinitions flow config)"
    "tdName d = tcName call"
    by (auto simp: invocationToolDefinitions_def split: interactionMode.splits if_splits)
  have "e = d" if "e \<in> set (toolDefinitions flow config)" "tdName e = tcName call" for e
    using assms(1) d that unfolding distinctTools_def distinct_map
    by (metis inj_onD list.set_intros(2))
  with assms(3) show ?thesis by (auto simp: allowed_def needsApproval_def)
qed

lemma granted_mono: "grantedIn ls \<subseteq> grantedIn (ls @ [l])"
  by (auto simp: grantedIn_def)

lemma stepGated_mono: "stepGated flow config ls s a \<Longrightarrow> stepGated flow config (ls @ [l]) s a"
  using granted_mono [of ls l]
  by (auto simp: stepGated_def holdsOnly_def allowed_def elim!: cleared_mono)

lemma stepGated_quiet:
  "stepGated flow config ls s a \<Longrightarrow> quiet s s' \<Longrightarrow> sConfig s' = sConfig s \<Longrightarrow> stepGated flow config ls s' a"
  by (auto simp: stepGated_def intro: cleared_quiet)

lemma cleared_side: "isSide input \<Longrightarrow> cleared P input s = cleared P input s'"
  by (cases input) auto

lemma granted_new: "tarApproved r \<Longrightarrow> tarCallID r \<in> grantedIn (ls @ [Commanded (ApproveTool r) True])"
  by (auto simp: grantedIn_def)

lemma accepted_approvals:
  assumes "accepted flow cmd s s1 s'" and "(e, True) \<in> set (chApprovals s' i)"
  shows "(e, True) \<in> set (chApprovals s1 i) \<or> (\<exists>r. cmd = ApproveTool r \<and> tarApproved r \<and> i = tarCallID r)"
  using assms by (cases cmd) (auto split: if_splits)

lemma command_approvals:
  assumes "runCommand flow ctx cmd s = Inr (b, s')"
  shows "sConfig s' = sConfig s" "grantsOnly (grantedIn ls) s \<Longrightarrow> grantsOnly (grantedIn (ls @ [Commanded cmd b])) s'"
proof -
  have "sConfig s' = sConfig s \<and> (grantsOnly (grantedIn ls) s \<longrightarrow> grantsOnly (grantedIn (ls @ [Commanded cmd b])) s')"
  proof (cases b)
    case False
    with runCommand_Inr [OF assms] have "s' = s" by blast
    then show ?thesis using granted_mono [of ls "Commanded cmd b"] by (auto simp: grantsOnly_def)
  next
    case True
    with runCommand_Inr [OF assms] obtain s1 where s1: "deadlineMoved flow s s1" "accepted flow cmd s s1 s'" by blast
    note same = deadlineMoved_fields(1,13) [OF s1(1)]
    have "sConfig s' = sConfig s" using s1(2) same(1) by (cases cmd) auto
    moreover have "i \<in> grantedIn (ls @ [Commanded cmd b])"
      if "grantsOnly (grantedIn ls) s" "(e, True) \<in> set (chApprovals s' i)" for i e
    proof -
      from accepted_approvals [OF s1(2) that(2)] that(1) consider "i \<in> grantedIn ls"
        | r where "cmd = ApproveTool r" "tarApproved r" "i = tarCallID r"
        unfolding grantsOnly_def same(2) by blast
      then show ?thesis using True granted_mono [of ls "Commanded cmd b"] granted_new by cases auto
    qed
    ultimately show ?thesis unfolding grantsOnly_def [of "grantedIn (ls @ [Commanded cmd b])"] by blast
  qed
  then show "sConfig s' = sConfig s" "grantsOnly (grantedIn ls) s \<Longrightarrow> grantsOnly (grantedIn (ls @ [Commanded cmd b])) s'"
    by simp_all
qed

text \<open>What a wait hands over comes from the channels.\<close>

definition grantsFrom :: "string set \<Rightarrow> conditions \<times> store \<Rightarrow> bool" where
  "grantsFrom G x \<longleftrightarrow> grantsOnly G (snd x) \<and> holdsOnly G (Executing (fst x))"

lemma takeMessages_subset:
  assumes "takeMessages a b q = Some (vs, q')"
  shows "set vs \<subseteq> snd ` set q" "set q' \<subseteq> set q"
proof -
  have "vs = map snd (take (nat b) q)" "q' = drop (nat b) q" using assms by (auto simp: takeMessages_def split: if_splits)
  then show "set vs \<subseteq> snd ` set q" "set q' \<subseteq> set q"
    using set_take_subset [of "nat b" q] set_drop_subset [of "nat b" q] by auto
qed

lemma takeCondition_approvals:
  assumes "takeCondition elapsed c x = Some y"
  shows "sConfig (snd y) = sConfig (snd x)" "grantsFrom G x \<Longrightarrow> grantsFrom G y"
proof -
  obtain cn s where x: "x = (cn, s)" by fastforce
  have "sConfig (snd y) = sConfig s \<and> (grantsFrom G (cn, s) \<longrightarrow> grantsFrom G y)"
  proof (cases "\<exists>key. c = ApprovalsForOne key")
    case True
    then obtain key vs q where m: "takeMessages 1 1 (chApprovals s key) = Some (vs, q)"
      "y = (cn \<lparr>cnApprovals := (cnApprovals cn)(key := vs)\<rparr>, s \<lparr>chApprovals := (chApprovals s)(key := q)\<rparr>)"
      using assms x by auto
    from takeMessages_subset [OF m(1)] have "True \<in> set vs \<Longrightarrow> \<exists>e. (e, True) \<in> set (chApprovals s key)"
      "set q \<subseteq> set (chApprovals s key)" by (metis imageE prod.collapse subsetD, simp)
    then show ?thesis
      by (auto simp: m(2) grantsFrom_def grantsOnly_def holdsOnly_def split: if_splits)
  next
    case False
    with assms x have "sConfig (snd y) = sConfig s \<and> chApprovals (snd y) = chApprovals s \<and> cnApprovals (fst y) = cnApprovals cn"
      by (cases c) (auto split: if_splits)
    then show ?thesis by (simp add: grantsFrom_def grantsOnly_def holdsOnly_def)
  qed
  with x show "sConfig (snd y) = sConfig (snd x)" "grantsFrom G x \<Longrightarrow> grantsFrom G y" by auto
qed

lemma takeSome_approvals:
  "takeSome elapsed cs x y \<Longrightarrow> sConfig (snd y) = sConfig (snd x) \<and> (grantsFrom G x \<longrightarrow> grantsFrom G y)"
  by (induction rule: takeSome.induct) (auto dest: takeCondition_approvals)

lemma wakes_approvals:
  "wakes elapsed wt x y \<Longrightarrow> sConfig (snd y) = sConfig (snd x) \<and> (grantsFrom G x \<longrightarrow> grantsFrom G y)"
proof (induction rule: wakes.induct)
  case (wakeUntil elapsed c x y)
  then show ?case using takeCondition_approvals [OF wakeUntil] by blast
next
  case (wakeAny pre c post cs elapsed x y z z')
  then show ?case
    using takeSome_approvals [OF wakeAny(2)] takeCondition_approvals [OF wakeAny(3)]
      takeSome_approvals [OF wakeAny(4)] by metis
qed

text \<open>One transition keeps the gate.\<close>

lemma grantsFrom_none [simp]: "grantsFrom G (noConditions, s) \<longleftrightarrow> grantsOnly G s"
  by (simp add: grantsFrom_def holdsOnly_def noConditions_def)

lemma holdsOnly_other [simp]: "holdsOnly G Entering" "holdsOnly G (Waiting w t)" "holdsOnly G (Executing noConditions)"
  by (simp_all add: holdsOnly_def noConditions_def)

lemma grantsOnly_mono: "grantsOnly (grantedIn ls) s \<Longrightarrow> grantsOnly (grantedIn (ls @ [l])) s"
  using granted_mono [of ls l] by (auto simp: grantsOnly_def)

lemma holdsOnly_mono: "holdsOnly (grantedIn ls) ph \<Longrightarrow> holdsOnly (grantedIn (ls @ [l])) ph"
  using granted_mono [of ls l] by (auto simp: holdsOnly_def)

lemma gated_quiet:
  assumes "gated flow config ls c" and "quiet (cfStore c) s'" and "sConfig s' = sConfig (cfStore c)"
    and "grantsOnly (grantedIn (ls @ [l])) s'" and "cfActive c = pre @ a # post"
    and "holdsOnly (grantedIn (ls @ [l])) ph"
  shows "gated flow config (ls @ [l]) (c \<lparr>cfStore := s', cfActive := pre @ a \<lparr>asPhase := ph\<rparr> # post\<rparr>)"
proof -
  have "stepGated flow config (ls @ [l]) s' b" if "b \<in> set (cfActive c)" for b
    using assms(1-3) that by (auto simp: gated_def list_all_iff intro: stepGated_mono stepGated_quiet)
  then show ?thesis using assms(4-6) by (auto simp: gated_def list_all_iff stepGated_def)
qed

lemma decided_gated:
  assumes "clears (allowed flow config ls) d s" and "sConfig s = Some config" and "list_all (stepGated flow config ls s) others"
  shows "list_all (stepGated flow config ls s) (fst (decided d others))"
  using assms by (cases d) (auto simp: list_all_iff stepGated_def entering_def)

lemma init_config: "initExecute flow ctx config s = Inr (d, s') \<Longrightarrow> sConfig s' = Some config \<and> chApprovals s' = chApprovals s"
  by (auto simp: initExecute_def bindTx_eq_Inr liftTx_Inr_iff attribute_sets Let_def split: if_splits)

lemma stepGated_side:
  "stepGated flow config ls s a \<Longrightarrow> quiet s s' \<Longrightarrow> sConfig s' = Some config \<Longrightarrow> stepGated flow config ls s' a"
  by (auto simp: stepGated_def intro: cleared_quiet)

lemma onFailure_gated:
  assumes "onFailure a = Some next" and "stepGated flow config ls s a"
  shows "stepGated flow config ls s (entering (next, None))"
  using assms(1) by (rule onFailure_cases) (use assms(2) in \<open>simp_all add: stepGated_def entering_def\<close>)

lemma gated_step:
  assumes g: "gated flow config ls c" and "governed c" and "distinctTools flow config"
    and "flowStep flow c l c'"
  shows "gated flow config (ls @ [l]) c'"
  using assms(4)
proof (cases rule: flowStep.cases)
  case (commandStep ctx cmd b s')
  note same = command_approvals [OF commandStep(4)] and q = quiet_command [OF commandStep(4)]
  have "stepGated flow config (ls @ [l]) s' a" if "a \<in> set (cfActive c)" for a
    using g that q same(1) by (auto simp: gated_def list_all_iff intro: stepGated_mono stepGated_quiet)
  with g same(2) show ?thesis by (simp add: gated_def commandStep list_all_iff)
next
  case (timeStep now)
  with g show ?thesis by (auto simp: gated_def list_all_iff intro: stepGated_mono grantsOnly_mono)
next
  case (waitStep pre a post ctx w wt s')
  have q: "quiet (cfStore c) s'" and "steady (cfStore c) s'"
    using keepsD [OF quiet_waitFor] keepsD [OF waitFor_steady] waitStep(6,7) by blast+
  then have "sConfig s' = sConfig (cfStore c)" "grantsOnly (grantedIn (ls @ [l])) s'"
    using g grantsOnly_mono [of ls "cfStore c" l] by (simp_all add: steady_def gated_def grantsOnly_def)
  from gated_quiet [OF g q this waitStep(4)] show ?thesis by (simp add: waitStep)
next
  case (startStep pre a post ctx)
  have "grantsOnly (grantedIn (ls @ [l])) (cfStore c)" using g by (auto simp: gated_def intro: grantsOnly_mono)
  from gated_quiet [OF g quiet_refl refl this startStep(4), of "Executing noConditions"] show ?thesis by (simp add: startStep)
next
  case (wakeStep pre a post wt since cn s')
  from wakes_approvals [OF wakeStep(6)] g have "sConfig s' = sConfig (cfStore c)"
    "grantsOnly (grantedIn (ls @ [l])) s'" "holdsOnly (grantedIn (ls @ [l])) (Executing cn)"
    using grantsOnly_mono holdsOnly_mono by (auto simp: gated_def grantsFrom_def)
  from gated_quiet [OF g _ this(1,2) wakeStep(4) this(3)] wakes_quiet [OF wakeStep(6)] show ?thesis by (simp add: wakeStep)
next
  case (executeStep pre a post cn ef ctx d s')
  have a: "stepGated flow config ls (cfStore c) a" using g executeStep(4) by (simp add: gated_def)
  then have granted: "allowed flow config ls call" if "True \<in> set (cnApprovals cn (tcID call))" for call
    using that executeStep(5) by (auto simp: stepGated_def holdsOnly_def allowed_def)
  have r: "ready (asInput a) (cfStore c)" and alone: "isSide (asInput a) \<or> (\<forall>b \<in> set (pre @ post). isSide (asInput b))"
    using governed_others [OF assms(2) executeStep(3,4)] by blast+
  have done': "sConfig s' = Some config \<and> chApprovals s' = chApprovals (cfStore c) \<and> clears (allowed flow config ls) d s'"
  proof (cases "asInput a = Init config")
    case True
    with executeStep(7) ensuresD [OF plain_clears(1)] init_config show ?thesis by fastforce
  next
    case False
    with a have c: "sConfig (cfStore c) = Some config" "cleared (allowed flow config ls) (asInput a) (cfStore c)"
      by (auto simp: stepGated_def)
    then have "keeps steady (executeOf flow ef ctx cn (asInput a))" by (intro execute_steady) auto
    from keepsD [OF this executeStep(7)] c(1) have steady: "sConfig s' = Some config \<and> chApprovals s' = chApprovals (cfStore c)"
      by (simp add: steady_def)
    have "ensures (executeOf flow ef ctx cn (asInput a)) (cfStore c) (clears (allowed flow config ls))"
      by (rule execute_clears [OF r c(2,1)]) (auto intro: allowed_free [OF assms(3)] granted)
    with ensuresD [OF this executeStep(7)] steady show ?thesis by blast
  qed
  have others: "list_all (stepGated flow config ls s') (pre @ post)"
  proof (cases "isSide (asInput a)")
    case True
    with g executeStep(4) keepsD [OF execute_side executeStep(7)] done' show ?thesis
      by (auto simp: gated_def list_all_iff intro: stepGated_side)
  next
    case False
    with alone g executeStep(4) done' show ?thesis
      by (auto simp: gated_def list_all_iff stepGated_def intro: cleared_side [THEN iffD1])
  qed
  from decided_gated [of flow config ls d s', OF _ _ others] done' have "list_all (stepGated flow config ls s') (cfActive c')"
    by (simp add: executeStep)
  moreover have "grantsOnly (grantedIn ls) s'" using g done' by (simp add: gated_def grantsOnly_def)
  ultimately show ?thesis
    by (auto simp: gated_def executeStep list_all_iff intro: grantsOnly_mono stepGated_mono)
next
  case (recoverStep pre a post cn "next")
  have "list_all (stepGated flow config ls (cfStore c)) (pre @ post @ [entering (next, None)])"
    using g onFailure_gated [OF recoverStep(6)] recoverStep(4) by (simp add: gated_def)
  with g show ?thesis
    by (auto simp: gated_def recoverStep list_all_iff intro: stepGated_mono grantsOnly_mono)
next
  case (failStep pre a post)
  with g show ?thesis by (auto simp: gated_def intro: grantsOnly_mono)
qed

lemma run_reachable: "run flow (startConfiguration config metadata now) ls c \<Longrightarrow> reachable flow c"
  unfolding reachable_def by blast

lemma run_gated:
  assumes "run flow (startConfiguration config metadata now) ls c" and "distinctTools flow config"
  shows "gated flow config ls c"
  using assms(1)
proof induction
  case runNil
  show ?case
    by (simp add: gated_def startConfiguration_def stepGated_def entering_def grantsOnly_def emptyStore_def)
next
  case (runSnoc ls c l c')
  from gated_step [OF runSnoc.IH reachable_governed [OF run_reachable [OF runSnoc.hyps(1)]] assms(2) runSnoc.hyps(2)]
  show ?case .
qed

text \<open>The call a movement attempts when it executes.\<close>

fun attempted :: "stepInput \<Rightarrow> store \<Rightarrow> toolCall option" where
  "attempted ExecuteTool s = (case currentToolCall s of Inl e \<Rightarrow> None | Inr (call, _) \<Rightarrow> Some call)"
| "attempted (ExecuteParallelTool input) s = Some (ptiCall input)"
| "attempted _ s = None"

lemma attempted_allowed:
  assumes "run flow (startConfiguration config metadata now) ls c" and "distinctTools flow config"
    and "cfOutcome c = Running" and "a \<in> set (cfActive c)" and "attempted (asInput a) (cfStore c) = Some call"
  shows "allowed flow config ls call"
proof -
  from run_gated [OF assms(1,2)] assms(4) have g: "stepGated flow config ls (cfStore c) a"
    by (auto simp: gated_def list_all_iff)
  from split_list [OF assms(4)] obtain pre post where "cfActive c = pre @ a # post" by blast
  with governed_others(1) [OF reachable_governed [OF run_reachable [OF assms(1)]] assms(3)]
  have r: "ready (asInput a) (cfStore c)" by blast
  show ?thesis
  proof (cases "asInput a")
    case ExecuteTool
    with r obtain call' rest where f: "facing (call' # rest) (cfStore c)" by (auto elim: busyE)
    from ExecuteTool assms(5) obtain s' where "currentToolCall (cfStore c) = Inr (call, s')"
      by (auto split: sum.splits)
    with ensuresD [OF facing_current [OF f]] have "call' = call" by fastforce
    with f g ExecuteTool show ?thesis by (auto simp: stepGated_def facesOnly_def)
  next
    case (ExecuteParallelTool input)
    with g assms(5) show ?thesis by (auto simp: stepGated_def)
  qed (use assms(5) in simp_all)
qed

end
