(* ===== verification/Scenario.thy ===== *)
theory Scenario
  imports Approval
begin

text \<open>
  An executable schedule of the state machine: each move picks the movement and the answers of
  the outside world, and \<open>performAll\<close> replays a list of moves. Every schedule that succeeds is a
  run, so concrete runs are obtained by evaluation.
\<close>

section \<open>Schedules\<close>

datatype move =
    Command command
  | Await nat
  | Start nat
  | Wake nat "bool list"
  | Execute nat effects
  | Exhaust nat
  | Tick goTime

text \<open>The movement at a position, and the ones around it.\<close>

definition pick :: "nat \<Rightarrow> activeStep list \<Rightarrow> (activeStep list \<times> activeStep \<times> activeStep list) option" where
  "pick i as = (case drop i as of [] \<Rightarrow> None | a # post \<Rightarrow> Some (take i as, a, post))"

text \<open>The alternatives of a wait that are consumed are chosen by flags.\<close>

fun takeChosen :: "duration \<Rightarrow> condition list \<Rightarrow> bool list \<Rightarrow> conditions \<times> store \<Rightarrow> (conditions \<times> store) option" where
  "takeChosen elapsed [] bs x = Some x"
| "takeChosen elapsed (c # cs) [] x = Some x"
| "takeChosen elapsed (c # cs) (b # bs) x =
     Option.bind (if b then takeCondition elapsed c x else Some x) (takeChosen elapsed cs bs)"

fun wakeChosen :: "duration \<Rightarrow> wait \<Rightarrow> bool list \<Rightarrow> conditions \<times> store \<Rightarrow> (conditions \<times> store) option" where
  "wakeChosen elapsed (Until c) bs x = takeCondition elapsed c x"
| "wakeChosen elapsed (AnyOf cs) bs x =
     (if True \<in> set (take (length cs) bs) then takeChosen elapsed cs bs x else None)"

fun perform :: "flow \<Rightarrow> ctx \<Rightarrow> move \<Rightarrow> configuration \<Rightarrow> (label \<times> configuration) option" where
  "perform flow ctx (Command cmd) c =
     (case runCommand flow ctx cmd (cfStore c) of Inl e \<Rightarrow> None
      | Inr (b, s) \<Rightarrow> Some (Commanded cmd b, c \<lparr>cfStore := s\<rparr>))"
| "perform flow ctx (Tick now) c = (if cfClock c \<le> now then Some (Passed, c \<lparr>cfClock := now\<rparr>) else None)"
| "perform flow ctx (Await i) c =
     Option.bind (pick i (cfActive c)) (\<lambda>(pre, a, post).
     case (asPhase a, waitForOf flow ctx (asInput a)) of
       (Entering, Some w) \<Rightarrow>
         if cxFirstAttemptAt ctx > cfClock c then None else
         (case w (cfStore c) of Inl e \<Rightarrow> None | Inr (wt, s) \<Rightarrow>
            Some (Waited (asInput a),
              c \<lparr>cfStore := s, cfActive := pre @ a \<lparr>asPhase := Waiting wt (cfClock c)\<rparr> # post\<rparr>))
     | _ \<Rightarrow> None)"
| "perform flow ctx (Start i) c =
     Option.bind (pick i (cfActive c)) (\<lambda>(pre, a, post).
     case (asPhase a, waitForOf flow ctx (asInput a)) of
       (Entering, None) \<Rightarrow> Some (Woke (asInput a) noConditions,
         c \<lparr>cfActive := pre @ a \<lparr>asPhase := Executing noConditions\<rparr> # post\<rparr>)
     | _ \<Rightarrow> None)"
| "perform flow ctx (Wake i bs) c =
     Option.bind (pick i (cfActive c)) (\<lambda>(pre, a, post).
     case asPhase a of
       Waiting wt since \<Rightarrow>
         (case wakeChosen (cfClock c - since) wt bs (noConditions, cfStore c) of None \<Rightarrow> None | Some (cn, s) \<Rightarrow>
            Some (Woke (asInput a) cn, c \<lparr>cfStore := s, cfActive := pre @ a \<lparr>asPhase := Executing cn\<rparr> # post\<rparr>))
     | _ \<Rightarrow> None)"
| "perform flow ctx (Execute i ef) c =
     Option.bind (pick i (cfActive c)) (\<lambda>(pre, a, post).
     case asPhase a of
       Executing cn \<Rightarrow>
         (case executeOf flow ef ctx cn (asInput a) (cfStore c) of Inl e \<Rightarrow> None | Inr (d, s) \<Rightarrow>
            Some (Executed (asInput a) d, c \<lparr>cfStore := s, cfActive := fst (decided d (pre @ post)),
              cfOutcome := snd (decided d (pre @ post))\<rparr>))
     | _ \<Rightarrow> None)"
| "perform flow ctx (Exhaust i) c =
     Option.bind (pick i (cfActive c)) (\<lambda>(pre, a, post).
     case onFailure a of
       None \<Rightarrow> Some (Exhausted (asInput a), c \<lparr>cfActive := [], cfOutcome := Failed\<rparr>)
     | Some next \<Rightarrow> (case asPhase a of Executing cn \<Rightarrow>
           Some (Exhausted (asInput a), c \<lparr>cfActive := pre @ post @ [entering (next, None)]\<rparr>)
         | _ \<Rightarrow> None))"

fun performAll :: "flow \<Rightarrow> ctx \<Rightarrow> move list \<Rightarrow> label list \<Rightarrow> configuration \<Rightarrow> (label list \<times> configuration) option" where
  "performAll flow ctx [] ls c = Some (ls, c)"
| "performAll flow ctx (m # ms) ls c =
     (case cfOutcome c of Running \<Rightarrow>
        (case perform flow ctx m c of None \<Rightarrow> None | Some (l, c') \<Rightarrow> performAll flow ctx ms (ls @ [l]) c')
      | _ \<Rightarrow> None)"

text \<open>The model client answers with distinct call IDs in every executed move.\<close>

fun fair :: "move \<Rightarrow> bool" where
  "fair (Execute i ef) = distinctReplies ef"
| "fair _ = True"

lemma pick_Some: "pick i as = Some (pre, a, post) \<Longrightarrow> as = pre @ a # post"
  by (auto simp: pick_def split: list.splits) (metis append_take_drop_id)

lemma takeSome_none: "takeSome elapsed cs x x"
  by (induction cs) (auto intro: takeNone takeSkip)

lemma takeChosen_takeSome: "takeChosen elapsed cs bs x = Some y \<Longrightarrow> takeSome elapsed cs x y"
  by (induction elapsed cs bs x rule: takeChosen.induct)
    (auto simp: bind_eq_Some_conv takeSome_none intro: takeNone takeSkip takeThis split: if_splits)

lemma takeChosen_split:
  "takeChosen elapsed cs bs x = Some z \<Longrightarrow> True \<in> set (take (length cs) bs) \<Longrightarrow>
     \<exists>pre c post y y'. pre @ c # post = cs \<and> takeSome elapsed pre x y \<and> takeCondition elapsed c y = Some y' \<and>
       takeSome elapsed post y' z"
proof (induction elapsed cs bs x rule: takeChosen.induct)
  case (3 elapsed c cs b bs x)
  show ?case
  proof (cases b)
    case True
    with 3(2) obtain y' where "takeCondition elapsed c x = Some y'" "takeSome elapsed cs y' z"
      by (auto simp: bind_eq_Some_conv dest: takeChosen_takeSome)
    with takeNone show ?thesis by (intro exI [of _ "[]"] exI [of _ c] exI [of _ cs] exI [of _ x] exI [of _ y']) simp
  next
    case False
    with 3 obtain pre c' post y y' where "pre @ c' # post = cs" "takeSome elapsed pre x y"
      "takeCondition elapsed c' y = Some y'" "takeSome elapsed post y' z"
      by (auto simp: bind_eq_Some_conv)
    with takeSkip show ?thesis
      by (intro exI [of _ "c # pre"] exI [of _ c'] exI [of _ post] exI [of _ y] exI [of _ y']) simp
  qed
qed simp_all

lemma wakeChosen_wakes: "wakeChosen elapsed w bs x = Some y \<Longrightarrow> wakes elapsed w x y"
  by (cases w) (auto intro: wakes.intros dest!: takeChosen_split split: if_splits)

lemma picked:
  assumes "Option.bind (pick i as) f = Some y"
  obtains pre a post where "as = pre @ a # post" "f (pre, a, post) = Some y"
  using assms by (auto simp: bind_eq_Some_conv dest: pick_Some)

lemma perform_step:
  assumes "perform flow ctx m c = Some (l, c')" and "cfOutcome c = Running" and "fair m"
  shows "flowStep flow c l c'"
proof (cases m)
  case (Await i)
  show ?thesis
    using assms(1) [unfolded Await perform.simps] assms(2,3)
    by (elim picked, case_tac "asPhase a") (auto simp: Await intro!: waitStep split: option.splits sum.splits if_splits)
next
  case (Start i)
  show ?thesis
    using assms(1) [unfolded Start perform.simps] assms(2,3)
    by (elim picked, case_tac "asPhase a") (auto simp: Start intro!: startStep split: option.splits)
next
  case (Wake i bs)
  show ?thesis
    using assms(1) [unfolded Wake perform.simps] assms(2,3)
    by (elim picked, case_tac "asPhase a") (auto simp: Wake intro!: wakeStep dest: wakeChosen_wakes split: option.splits)
next
  case (Execute i ef)
  show ?thesis
    using assms(1) [unfolded Execute perform.simps] assms(2,3)
    by (elim picked, case_tac "asPhase a") (auto simp: Execute intro!: executeStep split: sum.splits)
next
  case (Exhaust i)
  show ?thesis
    using assms(1) [unfolded Exhaust perform.simps] assms(2,3)
    by (elim picked, case_tac "asPhase a") (auto simp: Exhaust intro!: recoverStep failStep split: option.splits)
qed (use assms in \<open>auto intro: commandStep timeStep split: sum.splits if_splits\<close>)

lemma performAll_extends:
  "performAll flow ctx ms ls c = Some (ls', c') \<Longrightarrow> list_all fair ms \<Longrightarrow> run flow c0 ls c \<Longrightarrow> run flow c0 ls' c'"
proof (induction ms arbitrary: ls c)
  case (Cons m ms)
  then obtain l c1 where "cfOutcome c = Running" "perform flow ctx m c = Some (l, c1)"
    "performAll flow ctx ms (ls @ [l]) c1 = Some (ls', c')"
    by (auto split: outcome.splits option.splits)
  with Cons.IH [OF this(3)] Cons.prems(2,3) show ?case by (auto intro: runSnoc perform_step)
qed simp

lemma performAll_run:
  "performAll flow ctx ms [] c = Some (ls, c') \<Longrightarrow> list_all fair ms \<Longrightarrow> run flow c ls c'"
  by (rule performAll_extends) (auto intro: runNil)

section \<open>A concrete world\<close>

definition replying :: "string \<Rightarrow> toolCall list \<Rightarrow> modelReply" where
  "replying content calls = \<lparr>replyContent = content, replyToolCalls = calls, replyContextItems = []\<rparr>"

definition exampleEffects :: "modelReply \<Rightarrow> effects" where
  "exampleEffects reply = \<lparr>
     efHeartbeat = None, efTextStream = None, efUUID = (\<lambda>name. ''uuid''),
     efComplete = (\<lambda>request. Inr (reply, noUsage)), efProviderEvents = [],
     efSummarize = (\<lambda>request. Inr (''summary'', noUsage)),
     efBeforeModelCall = (\<lambda>_ _ _ _. Inr True), efAfterModelCall = (\<lambda>_ _ _. Inr ()),
     efExecuteTool = (\<lambda>invocation. Inr \<lparr>terContent = ''{}'', terOutcome = OutcomeSucceeded, terIsError = False\<rparr>),
     efToolProgress = [], efExpiration = (\<lambda>_. Inr ()), efRecoveryErrorType = None\<rparr>"

lemma exampleEffects_fair [simp]: "distinct (map tcID calls) \<Longrightarrow> distinctReplies (exampleEffects (replying content calls))"
  by (simp add: distinctReplies_def exampleEffects_def replying_def distinctCalls_def)

definition startedAt :: goTime where
  "startedAt = 63000000000 * second"

definition beginning :: configuration where
  "beginning = startConfiguration newAgentConfig ''{}'' startedAt"

definition quietly :: effects where
  "quietly = exampleEffects (replying ''done'' [])"

text \<open>Init, a user message, and the first model call with the given reply.\<close>

definition firstTurn :: "toolCall list \<Rightarrow> move list" where
  "firstTurn calls =
     [Start 0, Execute 0 quietly,
      Await 0, Command (SendMessage exampleUserMessage), Wake 0 [False, True], Execute 0 quietly,
      Await 0, Wake 0 [], Execute 0 quietly,
      Start 0, Execute 0 (exampleEffects (replying ''working'' calls)),
      Await 0, Wake 0 [], Execute 0 quietly]"

definition approvedCall :: "move list" where
  "approvedCall = firstTurn [exampleCall ''a'' ''write_file''] @
     [Start 0, Execute 0 quietly,
      Await 0, Wake 0 [], Execute 0 quietly,
      Await 0, Command (ApproveTool \<lparr>tarCallID = ''a'', tarApproved = True\<rparr>), Wake 0 [False, True], Execute 0 quietly,
      Await 0, Wake 0 [], Execute 0 quietly, Start 0]"

end
