(* ===== verification/Guarantees.thy ===== *)
theory Guarantees
  imports Scenario Batches
begin

text \<open>
  The guarantees of a whole run, stated over the state machine: one main movement that always
  finds the conversation it needs, well-formed requests to the model, the approval gate, the
  independence of a parallel batch from the order of its results, and the attributes that only
  \<^verbatim>\<open>Init\<close> writes.
\<close>

section \<open>Concrete runs\<close>

lemma example_tools_distinct: "distinctTools exampleFlow newAgentConfig"
  by code_simp

lemma schedule_reaches:
  assumes "performAll exampleFlow exampleCtx ms [] beginning = Some (ls, c)" and "list_all fair ms"
  shows "run exampleFlow (startConfiguration newAgentConfig ''{}'' startedAt) ls c" "reachable exampleFlow c"
  using performAll_run [OF assms] by (auto simp: reachable_def beginning_def)

lemma quietly_fair [simp]: "distinctReplies quietly"
  by (simp add: quietly_def)

lemma firstTurn_fair: "distinct (map tcID calls) \<Longrightarrow> list_all fair (firstTurn calls)"
  by (simp add: firstTurn_def)

lemma approvedCall_fair: "list_all fair approvedCall"
  by (simp add: approvedCall_def firstTurn_fair exampleCall_def)

text \<open>After an approved call has been routed, its movement is about to execute.\<close>

definition glance :: "configuration \<Rightarrow> outcome \<times> stepInput list \<times> (string \<times> string) option" where
  "glance c = (cfOutcome c, map asInput (cfActive c),
     map_option (\<lambda>call. (tcID call, tcName call)) (attempted ExecuteTool (cfStore c)))"

lemma approvedCall_evaluates:
  "map_option (glance \<circ> snd) (performAll exampleFlow exampleCtx approvedCall [] beginning) =
     Some (Running, [ExecuteTool], Some (''a'', ''write_file''))"
  by code_simp

lemma approvedCall_run:
  obtains ls c a where "performAll exampleFlow exampleCtx approvedCall [] beginning = Some (ls, c)"
    "run exampleFlow (startConfiguration newAgentConfig ''{}'' startedAt) ls c" "reachable exampleFlow c"
    "cfOutcome c = Running" "cfActive c = [a]" "asInput a = ExecuteTool"
    "map_option (\<lambda>call. (tcID call, tcName call)) (attempted ExecuteTool (cfStore c)) = Some (''a'', ''write_file'')"
proof -
  from approvedCall_evaluates obtain ls c where r: "performAll exampleFlow exampleCtx approvedCall [] beginning = Some (ls, c)"
    and g: "glance c = (Running, [ExecuteTool], Some (''a'', ''write_file''))" by auto
  from g obtain a where "cfOutcome c = Running" "cfActive c = [a]" "asInput a = ExecuteTool"
    "map_option (\<lambda>call. (tcID call, tcName call)) (attempted ExecuteTool (cfStore c)) = Some (''a'', ''write_file'')"
    by (auto simp: glance_def)
  with that [OF r schedule_reaches [OF r approvedCall_fair]] show thesis by blast
qed

section \<open>One main movement\<close>

lemma ready_consistent: "ready input s \<Longrightarrow> \<not> isSide input \<Longrightarrow> (\<exists>config. input = Init config) \<or> consistent s"
  by (cases "(input, s)" rule: ready.cases)
    (auto simp: resultReady_def batchReady_def consistent_facing busy_def split: if_splits)

lemma one_main_ok:
  assumes "reachable flow c" and "cfOutcome c = Running"
  shows "\<exists>m. filter (\<lambda>a. \<not> isSide (asInput a)) (cfActive c) = [m] \<and> ready (asInput m) (cfStore c) \<and>
     ((\<exists>config. asInput m = Init config) \<or> consistent (cfStore c))"
proof -
  from reachable_governed [OF assms(1)] assms(2) obtain m where m: "mains (cfActive c) = [m]" "ready (asInput m) (cfStore c)"
    by (auto simp: governed_def)
  then have "m \<in> set (mains (cfActive c))" by simp
  then have "\<not> isSide (asInput m)" by (simp add: mains_def)
  with ready_consistent [OF m(2)] m show ?thesis by (auto simp: mains_def)
qed

text \<open>
  C1. At every moment of every run that has not ended there is exactly one main movement (the
  others are branches of a parallel batch and the inactivity timer); the store holds what that
  movement needs, and once \<^verbatim>\<open>Init\<close> has run the conversation, its counters and the pending calls
  are consistent.
\<close>

theorem one_main_movement:
  assumes "reachable flow c" and "cfOutcome c = Running"
  shows "\<exists>m. filter (\<lambda>a. \<not> isSide (asInput a)) (cfActive c) = [m] \<and> ready (asInput m) (cfStore c) \<and>
     ((\<exists>config. asInput m = Init config) \<or> consistent (cfStore c))"
  using assms by (rule one_main_ok)

theorem one_main_movement_witness:
  "\<exists>c. reachable exampleFlow c \<and> map asInput (cfActive c) = [ExecuteTool] \<and> consistent (cfStore c)"
proof -
  obtain ls c a where c: "reachable exampleFlow c" "cfOutcome c = Running" "cfActive c = [a]" "asInput a = ExecuteTool"
    by (rule approvedCall_run)
  from one_main_movement [OF c(1,2)] c(3,4) have "consistent (cfStore c)" by auto
  with c show ?thesis by auto
qed

section \<open>What the model is asked\<close>

lemma governed_ready: "reachable flow c \<Longrightarrow> cfOutcome c = Running \<Longrightarrow> a \<in> set (cfActive c) \<Longrightarrow> ready (asInput a) (cfStore c)"
  by (metis governed_others(1) reachable_governed split_list)

text \<open>
  C3. The model client is only ever asked well-formed questions: a Step of a reachable
  configuration cannot tell a client from another one that agrees with it on conversations in
  which every tool result answers the open call in order, whatever it does on other requests.
\<close>

theorem model_requests_well_formed:
  assumes "reachable flow c" and "cfOutcome c = Running" and "a \<in> set (cfActive c)" and "sameClient ef ef'"
  shows "executeOf flow ef' ctx cn (asInput a) (cfStore c) = executeOf flow ef ctx cn (asInput a) (cfStore c)"
  using governed_ready [OF assms(1-3)] assms(4) by (rule execute_client)

text \<open>A client that refuses every ill-formed request.\<close>

definition picky :: "effects \<Rightarrow> effects" where
  "picky ef = ef \<lparr>
     efComplete := (\<lambda>request. if wellFormedRequest request then efComplete ef request else Inl (New ''ill-formed'')),
     efSummarize := (\<lambda>request. if wellFormedSummary request then efSummarize ef request else Inl (New ''ill-formed''))\<rparr>"

lemma picky_same: "sameClient ef (picky ef)"
  unfolding sameClient_def picky_def by (intro exI conjI, rule refl) simp_all

lemma firstTurn_evaluates:
  "map_option (\<lambda>(ls, c). (cfOutcome c, map asInput (cfActive c))) (performAll exampleFlow exampleCtx (take 9 (firstTurn [])) [] beginning) =
     Some (Running, [CallModel])"
  by code_simp

lemma firstCall_run:
  obtains c a where "reachable exampleFlow c" "cfOutcome c = Running" "cfActive c = [a]" "asInput a = CallModel"
proof -
  from firstTurn_evaluates obtain ls c where r: "performAll exampleFlow exampleCtx (take 9 (firstTurn [])) [] beginning = Some (ls, c)"
    and g: "cfOutcome c = Running" "map asInput (cfActive c) = [CallModel]" by auto
  have "list_all fair (take 9 (firstTurn []))" by (simp add: firstTurn_def)
  with that schedule_reaches(2) [OF r] g show thesis by auto
qed

theorem model_requests_well_formed_witness:
  "\<exists>c a. reachable exampleFlow c \<and> cfActive c = [a] \<and> asInput a = CallModel \<and>
     callModelExecute exampleFlow (picky quietly) exampleCtx (cfStore c) = callModelExecute exampleFlow quietly exampleCtx (cfStore c)"
proof -
  obtain c a where c: "reachable exampleFlow c" "cfOutcome c = Running" "cfActive c = [a]" "asInput a = CallModel"
    by (rule firstCall_run)
  then have "a \<in> set (cfActive c)" by simp
  from model_requests_well_formed [OF c(1,2) this picky_same [of quietly], of exampleCtx noConditions] c show ?thesis by auto
qed

section \<open>The approval gate\<close>

lemma approval_ok:
  assumes "run flow (startConfiguration config metadata now) ls c" and "distinctTools flow config"
    and "cfOutcome c = Running" and "a \<in> set (cfActive c)" and "attempted (asInput a) (cfStore c) = Some call"
    and "needsApproval flow config (tcName call)"
  shows "\<exists>r. Commanded (ApproveTool r) True \<in> set ls \<and> tarApproved r \<and> tarCallID r = tcID call"
  using attempted_allowed [OF assms(1-5)] assms(6) by (auto simp: allowed_def grantedIn_def)

text \<open>
  C2. A tool that requires approval is never attempted, in series, in a parallel batch or in a
  retry, unless a user command that approved exactly that call was accepted earlier in the run.
\<close>

theorem approval_gate:
  assumes "run flow (startConfiguration config metadata now) ls c" and "distinctTools flow config"
    and "cfOutcome c = Running" and "a \<in> set (cfActive c)" and "attempted (asInput a) (cfStore c) = Some call"
    and "needsApproval flow config (tcName call)"
  shows "\<exists>r. Commanded (ApproveTool r) True \<in> set ls \<and> tarApproved r \<and> tarCallID r = tcID call"
  using assms by (rule approval_ok)

theorem approval_gate_witness:
  "\<exists>ls c r. run exampleFlow (startConfiguration newAgentConfig ''{}'' startedAt) ls c \<and>
     map asInput (cfActive c) = [ExecuteTool] \<and> Commanded (ApproveTool r) True \<in> set ls \<and> tarCallID r = ''a''"
proof -
  obtain ls c a where c: "run exampleFlow (startConfiguration newAgentConfig ''{}'' startedAt) ls c" "cfOutcome c = Running"
    "cfActive c = [a]" "asInput a = ExecuteTool"
    "map_option (\<lambda>call. (tcID call, tcName call)) (attempted ExecuteTool (cfStore c)) = Some (''a'', ''write_file'')"
    by (rule approvedCall_run)
  then obtain call where call: "attempted (asInput a) (cfStore c) = Some call" "tcID call = ''a''" "tcName call = ''write_file''"
    by auto
  have "needsApproval exampleFlow newAgentConfig ''write_file''" by code_simp
  with approval_gate [OF c(1) example_tools_distinct c(2) _ call(1)] call c(3) obtain r where
    "Commanded (ApproveTool r) True \<in> set ls" "tarCallID r = ''a''" by auto
  with c(1,3,4) show ?thesis by (intro exI [of _ ls] exI [of _ c] exI [of _ r]) simp
qed

section \<open>The current call\<close>

text \<open>
  The main movements that work on the current tool call. \<^verbatim>\<open>CheckSteered\<close> reads it too, for the
  options of \<^verbatim>\<open>ExecuteTool\<close>, and hands it over in its other continuations that work on a call.
\<close>

fun onCurrentCall :: "stepInput \<Rightarrow> bool" where
  "onCurrentCall RouteTool = True"
| "onCurrentCall AwaitToolApproval = True"
| "onCurrentCall ExecuteTool = True"
| "onCurrentCall RecoverToolExecution = True"
| "onCurrentCall PrepareManualToolRecovery = True"
| "onCurrentCall DurableWait = True"
| "onCurrentCall (CheckSteered k) = (k \<notin> {ContinueCompactContext, ContinueAwaitUser, ContinueCallModel})"
| "onCurrentCall _ = False"

lemma busy_current: "busy s \<Longrightarrow> \<exists>call. currentToolCall s = Inr (call, s)"
proof -
  assume "busy s"
  then obtain call rest where "facing (call # rest) s" by (auto elim: busyE)
  then obtain st where st: "sState s = Some st" "call # rest = pendingOf st" "cursorOk st" by (rule facing_state)
  from cursor_Cons(2) [OF st(2) [symmetric] st(3)] st(1,3) show ?thesis
    by (auto simp: currentToolCall_def bindTx_apply attribute_gets cursorOk_def)
qed

lemma current_call_ok:
  assumes "reachable flow c" and "cfOutcome c = Running" and "a \<in> set (cfActive c)" and "onCurrentCall (asInput a)"
  shows "\<exists>call. currentToolCall (cfStore c) = Inr (call, cfStore c)"
  using governed_ready [OF assms(1-3)] assms(4)
  by (intro busy_current) (cases "asInput a" rule: onCurrentCall.cases; simp split: if_splits)

text \<open>
  C12. The error of a Step that finds no current tool call is unreachable: whenever a Step that
  routes, waits for, executes or recovers the current call is active, or one that checks for
  steering messages before it returns to the call (and resolves its options to execute it), the
  pending calls of the state attribute hold one, whatever commands and steering messages arrived
  in between.
\<close>

theorem tool_steps_find_their_call:
  assumes "reachable flow c" and "cfOutcome c = Running" and "a \<in> set (cfActive c)" and "onCurrentCall (asInput a)"
  shows "\<exists>call. currentToolCall (cfStore c) = Inr (call, cfStore c)"
  using assms by (rule current_call_ok)

theorem tool_steps_find_their_call_witness:
  "\<exists>c call. reachable exampleFlow c \<and> map asInput (cfActive c) = [ExecuteTool] \<and>
     currentToolCall (cfStore c) = Inr (call, cfStore c)"
proof -
  obtain ls c a where c: "reachable exampleFlow c" "cfOutcome c = Running" "cfActive c = [a]" "asInput a = ExecuteTool"
    by (rule approvedCall_run)
  from tool_steps_find_their_call [OF c(1,2), of a] c show ?thesis by auto
qed

section \<open>Attributes that only Init writes\<close>

lemma command_attributes:
  assumes "runCommand flow ctx cmd s = Inr (b, s')"
  shows "sConfig s' = sConfig s \<and> sRuntimeMetadata s' = sRuntimeMetadata s \<and> sWaitingInputRound s' = sWaitingInputRound s"
proof (cases b)
  case False
  with runCommand_Inr [OF assms] show ?thesis by auto
next
  case True
  with runCommand_Inr [OF assms] obtain s1 where s1: "deadlineMoved flow s s1" "accepted flow cmd s s1 s'" by blast
  from s1(1) have "sConfig s1 = sConfig s \<and> sRuntimeMetadata s1 = sRuntimeMetadata s \<and> sWaitingInputRound s1 = sWaitingInputRound s"
    by (auto simp: deadlineMoved_def)
  with s1(2) show ?thesis by (cases cmd) auto
qed

definition sameSetting :: "store \<Rightarrow> store \<Rightarrow> bool" where
  "sameSetting s s' \<longleftrightarrow> sConfig s' = sConfig s \<and> sRuntimeMetadata s' = sRuntimeMetadata s \<and>
     (\<forall>r. sWaitingInputRound s = Some r \<longrightarrow> (\<exists>r'. sWaitingInputRound s' = Some r' \<and> r \<le> r'))"

lemma sameSetting_refl [simp]: "sameSetting s s"
  by (simp add: sameSetting_def)

lemma sameSetting_trans: "sameSetting a b \<Longrightarrow> sameSetting b c \<Longrightarrow> sameSetting a c"
  unfolding sameSetting_def by (metis order_trans)

lemma takeCondition_setting: "takeCondition elapsed c x = Some y \<Longrightarrow> sameSetting (snd x) (snd y)"
  by (cases x; cases y; cases c) (auto simp: sameSetting_def split: if_splits)

lemma takeSome_setting: "takeSome elapsed cs x y \<Longrightarrow> sameSetting (snd x) (snd y)"
  by (induction rule: takeSome.induct) (auto intro: sameSetting_trans dest: takeCondition_setting)

lemma wakes_setting: "wakes elapsed wt x y \<Longrightarrow> sameSetting (snd x) (snd y)"
  by (induction rule: wakes.induct) (auto intro: sameSetting_trans dest!: takeCondition_setting takeSome_setting)

lemma steady_setting: "steady s s' \<Longrightarrow> sameSetting s s'"
  by (auto simp: steady_def sameSetting_def)

lemma step_setting:
  assumes "flowStep flow c l c'" and "\<And>config d. l \<noteq> Executed (Init config) d"
  shows "sameSetting (cfStore c) (cfStore c')"
  using assms(1)
proof (cases rule: flowStep.cases)
  case (commandStep ctx cmd b s')
  with command_attributes [OF commandStep(4)] show ?thesis by (simp add: sameSetting_def)
next
  case (waitStep pre a post ctx w wt s')
  with keepsD [OF waitFor_steady] show ?thesis by (auto intro: steady_setting)
next
  case (wakeStep pre a post wt since cn s')
  with wakes_setting show ?thesis by fastforce
next
  case (executeStep pre a post cn ef ctx d s')
  have "asInput a \<noteq> Init config" for config using assms(2) executeStep(1) by blast
  from keepsD [OF execute_steady [OF this] executeStep(7)] show ?thesis by (simp add: executeStep steady_setting)
qed simp_all

text \<open>
  C13. The configuration and the runtime metadata of a run are write-once: no command, wait or
  Step but \<^verbatim>\<open>Init\<close> changes them; and the waiting-input round, by which clients tell one request
  for input from the next, never decreases.
\<close>

theorem settings_are_write_once:
  assumes "flowStep flow c l c'" and "\<And>config d. l \<noteq> Executed (Init config) d"
  shows "sConfig (cfStore c') = sConfig (cfStore c) \<and> sRuntimeMetadata (cfStore c') = sRuntimeMetadata (cfStore c) \<and>
     (\<forall>r. sWaitingInputRound (cfStore c) = Some r \<longrightarrow> (\<exists>r'. sWaitingInputRound (cfStore c') = Some r' \<and> r \<le> r'))"
  using step_setting [OF assms] by (simp add: sameSetting_def)

theorem settings_are_write_once_witness:
  "\<exists>c s'. reachable exampleFlow c \<and>
     runCommand exampleFlow exampleCtx (SendMessage exampleUserMessage) (cfStore c) = Inr (True, s') \<and>
     sConfig s' = Some newAgentConfig \<and> sRuntimeMetadata s' = Some ''{}'' \<and>
     (\<exists>r. sWaitingInputRound s' = Some r \<and> 1 \<le> r)"
proof -
  let ?view = "\<lambda>(ls, c). (cfOutcome c, sConfig (cfStore c), sRuntimeMetadata (cfStore c), sWaitingInputRound (cfStore c),
     map_sum (\<lambda>_. ()) fst (runCommand exampleFlow exampleCtx (SendMessage exampleUserMessage) (cfStore c)))"
  have "map_option ?view (performAll exampleFlow exampleCtx (take 3 (firstTurn [])) [] beginning) =
      Some (Running, Some newAgentConfig, Some ''{}'', Some 1, Inr True)" by code_simp
  then obtain ls c where r: "performAll exampleFlow exampleCtx (take 3 (firstTurn [])) [] beginning = Some (ls, c)"
    and g: "cfOutcome c = Running" "sConfig (cfStore c) = Some newAgentConfig" "sRuntimeMetadata (cfStore c) = Some ''{}''"
      "sWaitingInputRound (cfStore c) = Some 1"
    and send: "map_sum (\<lambda>_. ()) fst (runCommand exampleFlow exampleCtx (SendMessage exampleUserMessage) (cfStore c)) = Inr True"
    by auto
  from send obtain s' where s': "runCommand exampleFlow exampleCtx (SendMessage exampleUserMessage) (cfStore c) = Inr (True, s')"
    by (cases "runCommand exampleFlow exampleCtx (SendMessage exampleUserMessage) (cfStore c)") auto
  have "list_all fair (take 3 (firstTurn []))" by (simp add: firstTurn_def)
  from schedule_reaches(2) [OF r this] have c: "reachable exampleFlow c" .
  from settings_are_write_once [OF commandStep [OF g(1) s']] g(2-4) have
    "sConfig s' = Some newAgentConfig \<and> sRuntimeMetadata s' = Some ''{}'' \<and>
     (\<exists>r. sWaitingInputRound s' = Some r \<and> 1 \<le> r)" by simp
  with c s' show ?thesis by blast
qed

end
