(* ===== verification/Joins.thy ===== *)
theory Joins
  imports BatchRuns Guarantees
begin

text \<open>
  What the accounting of parallel batches gives: a batch that has been waited for is committed,
  its wait completes once the branches have ended, and its outcome does not depend on the order
  in which the branches finish.
\<close>

section \<open>Committing a batch succeeds\<close>

text \<open>The tool message of a finished record.\<close>

definition resultMessage :: "ctx \<Rightarrow> toolBatchRecord \<Rightarrow> agentMessage" where
  "resultMessage ctx r = stamped ctx (toolMessage (tbrCall r) (the (tbrResult r)) (Some (tbrTiming r)))"

lemma appendToolResult_succeeds:
  assumes "tracked st (call # p) s"
  shows "\<exists>s'. appendToolResult ctx call result timing s = Inr ((), s') \<and>
     history s' = history s @ [stamped ctx (toolMessage call result timing)]"
proof -
  from assms have "histInv s" by (auto simp: tracked_def talk_def)
  from appendMessage_ok [OF this, of ctx "toolMessage call result timing"] obtain s' n where "appendMessage ctx (toolMessage call result timing) s = Inr (n, s')"
    "history s' = history s @ [stamped ctx (toolMessage call result timing)]" by (auto simp: appended_def)
  then show ?thesis by (simp add: appendToolResult_def bindTx_apply)
qed

lemma appendRecords_succeeds:
  "tracked st (map tbrCall rs @ p) s \<Longrightarrow> list_all recordDone rs \<Longrightarrow>
     map tbrIndex rs = map (\<lambda>k. n + int k) [0..<length rs] \<Longrightarrow>
     \<exists>s'. appendRecords ctx n rs s = Inr ((), s') \<and> history s' = history s @ map (resultMessage ctx) rs"
proof (induction rs arbitrary: n s st)
  case (Cons r rs)
  from Cons.prems(2) have "recordDone r" and "list_all recordDone rs" by simp_all
  then obtain result where done': "tbrHasResult r" "tbrResult r = Some result"
    "validateToolOutcome (terOutcome result) = Inr ()" "list_all recordDone rs"
    by (cases "tbrResult r") (auto simp: recordDone_def)
  have idx: "tbrIndex r = n" "map tbrIndex rs = map (\<lambda>k. n + 1 + int k) [0..<length rs]"
    using Cons.prems(3) by (simp_all add: upt_conv_Cons map_Suc_upt [symmetric] comp_def del: upt_Suc)
  have t: "tracked st (tbrCall r # (map tbrCall rs @ p)) s" using Cons.prems(1) by simp
  from appendToolResult_succeeds [OF t, of ctx result "Some (tbrTiming r)"] obtain s1 where
    run: "appendToolResult ctx (tbrCall r) result (Some (tbrTiming r)) s = Inr ((), s1)" and
    h: "history s1 = history s @ [resultMessage ctx r]" by (auto simp: resultMessage_def done'(2))
  let ?s = "s1 \<lparr>sActivity := sActivity s1 @ [condensed (toolTerminalEvent (tbrCall r) result)]\<rparr>"
  from ensuresD [OF tracked_result [OF t] run] obtain st1 where "tracked st1 (map tbrCall rs @ p) s1" by blast
  then have "tracked st1 (map tbrCall rs @ p) ?s" by (rule tracked_quiet) (simp add: quiet_def)
  moreover have "history ?s = history s1" by (rule sameHistory_facts(2)) (simp add: sameHistory_def)
  ultimately show ?case using Cons.IH [of st1 ?s, OF _ done'(4) idx(2)] h
    by (auto simp: done' idx(1) bindTx_apply run writeToolTerminalActivity_def writeActivity_run)
qed simp

lemma finishToolBatch_succeeds:
  assumes "batchReady batch s" and "list_all recordDone (tbRecords batch)"
  shows "\<exists>next s'. finishToolBatch ctx batch s = Inr (next, s') \<and>
     history s' = history s @ map (resultMessage ctx) (tbRecords batch)"
proof -
  from assms(1) have idx: "map tbrIndex (tbRecords batch) = map (\<lambda>k. tbFirstIndex batch + int k) [0..<length (tbRecords batch)]"
    by (auto simp: batchReady_def)
  from assms(1) obtain st rest where b: "tracked st (map tbrCall (tbRecords batch) @ rest) s"
    "tbFirstIndex batch = stPendingToolIndex st" "sort_key tbrIndex (tbRecords batch) = tbRecords batch"
    by (rule batchReady_tracked)
  from appendRecords_succeeds [OF b(1) assms(2) idx] obtain s1 where
    run: "appendRecords ctx (tbFirstIndex batch) (tbRecords batch) s = Inr ((), s1)" and
    h: "history s1 = history s @ map (resultMessage ctx) (tbRecords batch)" by blast
  from ensuresD [OF appendRecords_tracked [OF b(1)] run] obtain st1 where "tracked st1 rest s1" "sameCursor st1 st" by blast
  then obtain st2 where st2: "sState s1 = Some st2" "stPendingToolIndex st2 = stPendingToolIndex st"
    by (auto simp: tracked_def core_def sameCursor_def)
  have "history (s1 \<lparr>sState := Some (st2 \<lparr>stPendingToolCalls := calls, stPendingToolIndex := k\<rparr>)\<rparr>) = history s1" for calls k
    by (rule sameHistory_facts(2)) (simp add: sameHistory_def st2(1) counters_def)
  note keep = this
  have "history (s1 \<lparr>sState := Some (st2 \<lparr>stPendingToolIndex := k\<rparr>)\<rparr>) = history s1" for k
    by (rule sameHistory_facts(2)) (simp add: sameHistory_def st2(1) counters_def)
  with keep h st2 show ?thesis
    by (auto simp: finishToolBatch_def appendToolBatchResults_def b(2,3) bindTx_apply run [unfolded b(2)] attribute_gets
        advanceCursor_def Let_def attribute_sets)
qed

lemma executing_accounts:
  assumes "reachable flow c" and "cfOutcome c = Running" and "a \<in> set (cfActive c)"
    and "asInput a = AwaitParallelToolResults i"
  shows "accounts (AwaitParallelToolResults i) (asPhase a) (branchesOf (map asInput (cfActive c))) (chParallel (cfStore c))"
proof -
  from reachable_accounted [OF assms(1)] assms(2) obtain m where m: "mains (cfActive c) = [m]" and
    acc: "accounts (asInput m) (asPhase m) (branchesOf (map asInput (cfActive c))) (chParallel (cfStore c))"
    by (auto simp: accounted_def)
  have "a \<in> set (mains (cfActive c))" using assms(3,4) by (simp add: mains_def)
  with m have "a = m" by simp
  with acc assms(4) show ?thesis by simp
qed

text \<open>What a join that succeeds does with the records \<open>out\<close> of its batch.\<close>

definition joinCommits :: "ctx \<Rightarrow> conditions \<Rightarrow> awaitParallelInput \<Rightarrow> store \<Rightarrow> toolBatchRecord list \<Rightarrow> bool" where
  "joinCommits ctx cn i s out \<longleftrightarrow>
     (if list_ex recordNeedsManualRecovery out
      then awaitParallelExecute ctx cn i s = Inr (goTo (AwaitManualToolRecovery ((apiBatch i) \<lparr>tbRecords := out,
        tbRecoveryRevision := (if tbRecoveryRevision (apiBatch i) = 0 then 1 else tbRecoveryRevision (apiBatch i))\<rparr>)), s)
      else \<exists>next s'. awaitParallelExecute ctx cn i s = Inr (goTo (CheckSteered next), s') \<and>
        history s' = history s @ map (resultMessage ctx) out)"

lemma batch_commits_ok:
  assumes "reachable flow c" and "cfOutcome c = Running" and "a \<in> set (cfActive c)"
    and "asInput a = AwaitParallelToolResults i" and "asPhase a = Executing cn"
  shows "branchesOf (map asInput (cfActive c)) = [] \<and>
     distinct (map tbrIndex (tbRecords (apiBatch i))) \<and>
     mset (map resultKey (cnParallel cn (apiResultInstance i))) =
       mset (map recordKey (openRecords (tbRecords (apiBatch i)))) \<and>
     (\<exists>out. list_all2 (answeredBy (cnParallel cn (apiResultInstance i))) (tbRecords (apiBatch i)) out \<and>
        joinCommits ctx cn i (cfStore c) out)"
proof -
  from executing_accounts [OF assms(1-4)] assms(5) have acc: "branchesOf (map asInput (cfActive c)) = []"
    "recordsSound (tbRecords (apiBatch i))" "apiExpectedCount i = int (length (openRecords (tbRecords (apiBatch i))))"
    "delivers (cnParallel cn (apiResultInstance i)) (tbRecords (apiBatch i))" by simp_all
  let ?ps = "cnParallel cn (apiResultInstance i)"
  from acc(4) have m: "mset (map resultKey ?ps) = mset (map recordKey (openRecords (tbRecords (apiBatch i))))"
    by (simp add: delivers_def)
  from arg_cong [OF m, of size] acc(3) have len: "int (length ?ps) = apiExpectedCount i" by simp
  from join_complete [OF acc(2,4), of "[]"] obtain out where out: "joinResults ?ps [] (tbRecords (apiBatch i)) = Inr out"
    "list_all recordDone out" "list_all2 (answeredBy ?ps) (tbRecords (apiBatch i)) out" by auto
  from governed_ready [OF assms(1-3)] assms(4) have "batchReady (apiBatch i) (cfStore c)" by simp
  from batchReady_cong [OF this, of "(apiBatch i) \<lparr>tbRecords := out\<rparr>"] joinResults_shape [OF out(1)]
  have "batchReady ((apiBatch i) \<lparr>tbRecords := out\<rparr>) (cfStore c)" by simp
  from finishToolBatch_succeeds [OF this, of ctx] out(2) obtain k s' where
    "finishToolBatch ctx ((apiBatch i) \<lparr>tbRecords := out\<rparr>) (cfStore c) = Inr (k, s')"
    "history s' = history (cfStore c) @ map (resultMessage ctx) out" by auto
  with len out(1) have "joinCommits ctx cn i (cfStore c) out"
    by (auto simp: joinCommits_def awaitParallelExecute_def Let_def bindTx_apply batchNeedsManualRecovery_def)
  with acc(1,2) m out(3) show ?thesis by (auto simp: recordsSound_def)
qed

lemma joinCommits_runs: "joinCommits ctx cn i s out \<Longrightarrow> \<exists>d s'. awaitParallelExecute ctx cn i s = Inr (d, s')"
  by (auto simp: joinCommits_def split: if_splits)

lemma wait_completes_ok:
  assumes "reachable flow c" and "cfOutcome c = Running" and "a \<in> set (cfActive c)"
    and "asInput a = AwaitParallelToolResults i" and "asPhase a = Waiting w since"
    and "\<forall>b \<in> set (cfActive c). branchOf (asInput b) = []"
  shows "\<exists>cn c'. flowStep flow c (Woke (asInput a) cn) c'"
proof -
  have none: "branchesOf (map asInput (cfActive c)) = []" using assms(6) by (auto simp: branchesOf_def)
  let ?ch = "chParallel (cfStore c) (apiResultInstance i)"
  from executing_accounts [OF assms(1-4)] assms(5) none have b: "balanced i [] (chParallel (cfStore c))" by simp
  then have len: "apiExpectedCount i = int (length ?ch)"
    unfolding balanced_def Let_def by (metis (no_types, lifting) add_cancel_left_left length_map list.simps(8) mset.simps(1) size_mset)
  from reachable_accounted [OF assms(1)] assms(3-5) have w: "w = Until (ParallelResultsForN (apiResultInstance i) (apiExpectedCount i))"
    by (auto simp: accounted_def list_all_iff waitsFitting_def)
  from len have "takeMessages (apiExpectedCount i) (apiExpectedCount i) ?ch = Some (map snd ?ch, [])"
    by (simp add: takeMessages_def)
  then obtain cn s' where "takeCondition (cfClock c - since) (ParallelResultsForN (apiResultInstance i) (apiExpectedCount i))
      (noConditions, cfStore c) = Some (cn, s')" by simp
  from wakeUntil [OF this] have "wakes (cfClock c - since) w (noConditions, cfStore c) (cn, s')" unfolding w .
  moreover from split_list [OF assms(3)] obtain pre post where "cfActive c = pre @ a # post" by blast
  ultimately show ?thesis using assms(2,5) by (blast intro: wakeStep)
qed

section \<open>A run with a parallel batch\<close>

text \<open>Two read-only calls; the second branch ends first.\<close>

definition parallelCalls :: "move list" where
  "parallelCalls = firstTurn [exampleCall ''a'' ''read_file'', exampleCall ''b'' ''read_file''] @
     [Start 0, Execute 0 quietly, Await 0, Start 2, Execute 2 quietly, Start 1, Execute 1 quietly]"

definition joined :: "move list" where
  "joined = parallelCalls @ [Wake 0 []]"

lemma parallel_fair: "list_all fair parallelCalls" "list_all fair joined"
  by (simp_all add: parallelCalls_def joined_def firstTurn_fair exampleCall_def)

fun phaseName :: "phase \<Rightarrow> string" where
  "phaseName Entering = ''entering''"
| "phaseName (Waiting w t) = ''waiting''"
| "phaseName (Executing cn) = ''executing''"

definition batchView :: "configuration \<Rightarrow> outcome \<times> (string \<times> bool) list" where
  "batchView c = (cfOutcome c, map (\<lambda>a. (phaseName (asPhase a), case asInput a of AwaitParallelToolResults i \<Rightarrow> True | _ \<Rightarrow> False))
     (cfActive c))"

lemma parallel_evaluates:
  "map_option (batchView \<circ> snd) (performAll exampleFlow exampleCtx parallelCalls [] beginning) = Some (Running, [(''waiting'', True)])"
  "map_option (batchView \<circ> snd) (performAll exampleFlow exampleCtx joined [] beginning) = Some (Running, [(''executing'', True)])"
  by code_simp+

lemma batchView_run:
  assumes "map_option (batchView \<circ> snd) (performAll exampleFlow exampleCtx ms [] beginning) = Some (Running, [(name, True)])"
    and "list_all fair ms"
  obtains c a i where "reachable exampleFlow c" "cfOutcome c = Running" "cfActive c = [a]"
    "asInput a = AwaitParallelToolResults i" "phaseName (asPhase a) = name"
proof -
  from assms(1) obtain ls c where r: "performAll exampleFlow exampleCtx ms [] beginning = Some (ls, c)"
    and v: "batchView c = (Running, [(name, True)])" by auto
  from v obtain a i where "cfOutcome c = Running" "cfActive c = [a]" "asInput a = AwaitParallelToolResults i"
    "phaseName (asPhase a) = name" by (auto simp: batchView_def split: stepInput.splits)
  with that schedule_reaches(2) [OF r assms(2)] show thesis by blast
qed

text \<open>
  C4. A parallel batch that has been waited for is always joined: when the join executes no branch
  is left; the results are, by index and call ID, exactly the open records of the batch, one each;
  every open record takes the result of its own call, and the records that had one keep it. The
  Execute method then succeeds: it appends one tool message per record to the history, in the order
  of the calls, or, when a record needs a manual decision, hands the filled batch to manual recovery
  and writes nothing. Its errors (a missing, duplicated or unexpected result, an incomplete batch, a
  moved cursor) are unreachable.
\<close>

theorem parallel_batch_commits:
  assumes "reachable flow c" and "cfOutcome c = Running" and "a \<in> set (cfActive c)"
    and "asInput a = AwaitParallelToolResults i" and "asPhase a = Executing cn"
  shows "branchesOf (map asInput (cfActive c)) = [] \<and>
     distinct (map tbrIndex (tbRecords (apiBatch i))) \<and>
     mset (map resultKey (cnParallel cn (apiResultInstance i))) =
       mset (map recordKey (openRecords (tbRecords (apiBatch i)))) \<and>
     (\<exists>out. list_all2 (answeredBy (cnParallel cn (apiResultInstance i))) (tbRecords (apiBatch i)) out \<and>
        joinCommits ctx cn i (cfStore c) out)"
  using assms by (rule batch_commits_ok)

theorem parallel_batch_commits_witness:
  "\<exists>c i cn out. reachable exampleFlow c \<and> map asInput (cfActive c) = [AwaitParallelToolResults i] \<and>
     list_all2 (answeredBy (cnParallel cn (apiResultInstance i))) (tbRecords (apiBatch i)) out \<and>
     joinCommits exampleCtx cn i (cfStore c) out"
proof -
  obtain c a i where c: "reachable exampleFlow c" "cfOutcome c = Running" "cfActive c = [a]"
    "asInput a = AwaitParallelToolResults i" "phaseName (asPhase a) = ''executing''"
    using parallel_evaluates(2) parallel_fair(2) by (rule batchView_run)
  then obtain cn where "asPhase a = Executing cn" by (cases "asPhase a") auto
  from parallel_batch_commits [OF c(1,2) _ c(4) this, of exampleCtx] c(3) obtain out where
    "list_all2 (answeredBy (cnParallel cn (apiResultInstance i))) (tbRecords (apiBatch i)) out"
    "joinCommits exampleCtx cn i (cfStore c) out" by auto
  moreover have "map asInput (cfActive c) = [AwaitParallelToolResults i]" using c(3,4) by simp
  ultimately show ?thesis using c(1) by (intro exI [of _ c] exI [of _ i] exI [of _ cn] exI [of _ out] conjI)
qed

text \<open>
  C5. The wait of a parallel batch cannot hang on a lost result: in every reachable configuration
  in which the join waits and no branch of a batch is active any more, its wait is complete and
  the Flow moves on.
\<close>

theorem parallel_wait_completes:
  assumes "reachable flow c" and "cfOutcome c = Running" and "a \<in> set (cfActive c)"
    and "asInput a = AwaitParallelToolResults i" and "asPhase a = Waiting w since"
    and "\<forall>b \<in> set (cfActive c). branchOf (asInput b) = []"
  shows "\<exists>cn c'. flowStep flow c (Woke (asInput a) cn) c'"
  using assms by (rule wait_completes_ok)

theorem parallel_wait_completes_witness:
  "\<exists>c i cn c'. reachable exampleFlow c \<and> map asInput (cfActive c) = [AwaitParallelToolResults i] \<and>
     flowStep exampleFlow c (Woke (AwaitParallelToolResults i) cn) c'"
proof -
  obtain c a i where c: "reachable exampleFlow c" "cfOutcome c = Running" "cfActive c = [a]"
    "asInput a = AwaitParallelToolResults i" "phaseName (asPhase a) = ''waiting''"
    using parallel_evaluates(1) parallel_fair(1) by (rule batchView_run)
  then obtain w since where "asPhase a = Waiting w since" by (cases "asPhase a") auto
  from parallel_wait_completes [OF c(1,2) _ c(4) this] c(3,4) obtain cn c' where
    "flowStep exampleFlow c (Woke (AwaitParallelToolResults i) cn) c'" by auto
  moreover have "map asInput (cfActive c) = [AwaitParallelToolResults i]" using c(3,4) by simp
  ultimately show ?thesis using c(1) by (intro exI [of _ c] exI [of _ i] exI [of _ cn] exI [of _ c'] conjI)
qed

text \<open>
  C11. The order in which the branches of a batch finish is irrelevant: joining the same results in
  another order succeeds exactly when joining them in this one does, with the same records.
\<close>

theorem join_order_irrelevant:
  assumes "mset (cnParallel cn (apiResultInstance i)) = mset (cnParallel cn' (apiResultInstance i))"
  shows "awaitParallelExecute ctx cn i s = Inr (d, s') \<longleftrightarrow> awaitParallelExecute ctx cn' i s = Inr (d, s')"
proof -
  from arg_cong [OF assms, of size] have "length (cnParallel cn (apiResultInstance i)) = length (cnParallel cn' (apiResultInstance i))"
    by simp
  with join_order [OF assms, of "[]"] show ?thesis
    by (auto simp: awaitParallelExecute_def Let_def bindTx_eq_Inr liftTx_Inr_iff)
qed

definition arriving :: "parallelToolResult list \<Rightarrow> conditions" where
  "arriving ps = noConditions \<lparr>cnParallel := (\<lambda>_. ps)\<rparr>"

theorem join_order_irrelevant_witness:
  "\<exists>c i cn d s'. reachable exampleFlow c \<and> awaitParallelExecute exampleCtx cn i (cfStore c) = Inr (d, s') \<and>
     awaitParallelExecute exampleCtx (arriving (rev (cnParallel cn (apiResultInstance i)))) i (cfStore c) = Inr (d, s')"
proof -
  obtain c a i where c: "reachable exampleFlow c" "cfOutcome c = Running" "cfActive c = [a]"
    "asInput a = AwaitParallelToolResults i" "phaseName (asPhase a) = ''executing''"
    using parallel_evaluates(2) parallel_fair(2) by (rule batchView_run)
  then obtain cn where "asPhase a = Executing cn" by (cases "asPhase a") auto
  from batch_commits_ok [OF c(1,2) _ c(4) this, of exampleCtx] c(3) obtain d s' where
    run: "awaitParallelExecute exampleCtx cn i (cfStore c) = Inr (d, s')" by (auto dest: joinCommits_runs)
  have "mset (cnParallel cn (apiResultInstance i)) =
      mset (cnParallel (arriving (rev (cnParallel cn (apiResultInstance i)))) (apiResultInstance i))"
    by (simp add: arriving_def)
  from join_order_irrelevant [OF this] run have
    "awaitParallelExecute exampleCtx (arriving (rev (cnParallel cn (apiResultInstance i)))) i (cfStore c) = Inr (d, s')" by blast
  with c(1) run show ?thesis by blast
qed

end
