(* ===== verification/Expiry.thy ===== *)
theory Expiry
  imports Joins
begin

text \<open>
  Inactivity. The Flow completes because of inactivity only after the deadline in its store, and
  every user command moves that deadline on; the only exception would be a duration that exceeds
  what \<^verbatim>\<open>time.Duration\<close> holds (292 years).
\<close>

section \<open>Timers that have fired\<close>

definition longestWait :: duration where
  "longestWait = 2 ^ 63 - 1"

definition ripe :: "goTime \<Rightarrow> goTime \<Rightarrow> activeStep \<Rightarrow> bool" where
  "ripe start clock a \<longleftrightarrow> (\<forall>d. asInput a = InactivityTimeout d \<longrightarrow> (case asPhase a of
       Entering \<Rightarrow> True
     | Waiting w since \<Rightarrow> start \<le> since \<and>
         (\<forall>t. Timer t \<in> set (conditionsOf w) \<longrightarrow> d \<le> since + t \<or> longestWait \<le> t)
     | Executing cn \<Rightarrow> cnTimerFired cn \<longrightarrow> d \<le> clock \<or> start + longestWait \<le> clock))"

definition timely :: "goTime \<Rightarrow> configuration \<Rightarrow> bool" where
  "timely start c \<longleftrightarrow> start \<le> cfClock c \<and> list_all (ripe start (cfClock c)) (cfActive c)"

lemma ripe_later: "ripe start clock a \<Longrightarrow> clock \<le> clock' \<Longrightarrow> ripe start clock' a"
  by (auto simp: ripe_def split: phase.splits)

lemma ripe_entering [simp]: "ripe start clock (entering m)"
  by (simp add: ripe_def)

lemma inactivityWaitFor_covers:
  assumes "cxFirstAttemptAt ctx \<le> clock"
  shows "ensures (inactivityWaitFor ctx d) s (\<lambda>w _. \<forall>t. Timer t \<in> set (conditionsOf w) \<longrightarrow> d \<le> clock + t \<or> longestWait \<le> t)"
proof -
  have "d \<le> clock + (if timeSub d (cxFirstAttemptAt ctx) \<le> 0 then nanosecond else timeSub d (cxFirstAttemptAt ctx)) \<or>
      longestWait \<le> (if timeSub d (cxFirstAttemptAt ctx) \<le> 0 then nanosecond else timeSub d (cxFirstAttemptAt ctx))"
    using assms by (auto simp: timeSub_def nanosecond_def longestWait_def min_def max_def split: if_splits)
  then show ?thesis
    by (auto simp: inactivityWaitFor_def ensures_simps Let_def intro!: ensures_any)
qed

lemma takeCondition_fired:
  "takeCondition elapsed c x = Some y \<Longrightarrow> cnTimerFired (fst y) \<Longrightarrow> cnTimerFired (fst x) \<or> (\<exists>t. c = Timer t \<and> t \<le> elapsed)"
  by (cases x; cases y; cases c) (auto split: if_splits)

lemma takeSome_fired:
  "takeSome elapsed cs x y \<Longrightarrow> cnTimerFired (fst y) \<Longrightarrow> cnTimerFired (fst x) \<or> (\<exists>t. Timer t \<in> set cs \<and> t \<le> elapsed)"
  by (induction rule: takeSome.induct) (auto dest: takeCondition_fired)

lemma wakes_fired:
  "wakes elapsed w x y \<Longrightarrow> cnTimerFired (fst y) \<Longrightarrow>
     cnTimerFired (fst x) \<or> (\<exists>t. Timer t \<in> set (conditionsOf w) \<and> t \<le> elapsed)"
proof (induction rule: wakes.induct)
  case (wakeUntil elapsed c x y)
  from takeCondition_fired [OF wakeUntil] show ?case by auto
next
  case (wakeAny pre c post cs elapsed x y z z')
  from takeSome_fired [OF wakeAny(4,5)] takeCondition_fired [OF wakeAny(3)] takeSome_fired [OF wakeAny(2)]
  show ?case unfolding conditionsOf.simps wakeAny(1) [symmetric] set_append list.set by blast
qed

lemma timely_phase:
  assumes "timely start c" and "cfActive c = pre @ a # post" and "ripe start (cfClock c) (a \<lparr>asPhase := ph\<rparr>)"
  shows "timely start (c \<lparr>cfStore := s', cfActive := pre @ a \<lparr>asPhase := ph\<rparr> # post\<rparr>)"
  using assms by (simp add: timely_def)

lemma timely_step:
  assumes "timely start c" and "flowStep flow c l c'"
  shows "timely start c'"
  using assms(2)
proof (cases rule: flowStep.cases)
  case (timeStep now)
  with assms(1) show ?thesis by (auto simp: timely_def list_all_iff intro: ripe_later)
next
  case (waitStep pre a post ctx w wt s')
  have "\<forall>t. Timer t \<in> set (conditionsOf wt) \<longrightarrow> d \<le> cfClock c + t \<or> longestWait \<le> t" if "asInput a = InactivityTimeout d" for d
    using waitStep(6,7) that by (intro ensuresD [OF inactivityWaitFor_covers [OF waitStep(8)]]) auto
  then have "ripe start (cfClock c) (a \<lparr>asPhase := Waiting wt (cfClock c)\<rparr>)"
    using assms(1) by (simp add: ripe_def timely_def)
  with assms(1) waitStep show ?thesis by (auto intro: timely_phase)
next
  case (startStep pre a post ctx)
  have "ripe start (cfClock c) (a \<lparr>asPhase := Executing noConditions\<rparr>)" by (simp add: ripe_def noConditions_def)
  with assms(1) startStep show ?thesis by (simp add: timely_def)
next
  case (wakeStep pre a post w since cn s')
  have "ripe start (cfClock c) a" using assms(1) wakeStep(4) by (simp add: timely_def)
  with wakes_fired [OF wakeStep(6)] wakeStep(5) have "ripe start (cfClock c) (a \<lparr>asPhase := Executing cn\<rparr>)"
    by (fastforce simp: ripe_def noConditions_def)
  with assms(1) wakeStep show ?thesis by (simp add: timely_def)
next
  case (executeStep pre a post cn ef ctx d s')
  with assms(1) show ?thesis by (cases d) (auto simp: timely_def list_all_iff)
qed (use assms(1) in \<open>auto simp: timely_def\<close>)

lemma run_timely: "run flow (startConfiguration config metadata now) ls c \<Longrightarrow> timely now c"
proof (induction rule: run.induct)
  case runNil
  show ?case by (simp add: timely_def startConfiguration_def)
next
  case (runSnoc ls c l c')
  then show ?case by (blast intro: timely_step)
qed

section \<open>Expiry\<close>

lemma expiry_ok:
  assumes "run flow (startConfiguration config metadata now) ls c"
    and "flowStep flow c (Executed (InactivityTimeout d) (ForceComplete r)) c'"
    and "cfClock c < now + longestWait"
  shows "\<exists>deadline. sDeadline (cfStore c) = Some deadline \<and> deadline \<le> cfClock c \<and> sDeadline (cfStore c') = None \<and>
     cfOutcome c' = Completed r \<and> fHasExpirationHandler flow"
  using assms(2)
proof (cases rule: flowStep.cases)
  case (executeStep pre a post cn ef ctx s')
  from executeStep(1) have a: "asInput a = InactivityTimeout d" by simp
  from executeStep(7) [unfolded a executeOf.simps] obtain deadline where dl: "sDeadline (cfStore c) = Some deadline"
    "deadline \<le> d" "cnTimerFired cn" "fHasExpirationHandler flow" "sDeadline s' = None"
    by (auto simp: inactivityExecute_def bindTx_eq_Inr timeAfter_def goTo_def attrGet_def inactivityDeadlineAttribute_def
        clearInactivityDeadline_write updateStatus_def attribute_sets writeActivity_run split: option.splits if_splits)
  from run_timely [OF assms(1)] executeStep(4,5) a dl(3) assms(3) have "d \<le> cfClock c"
    by (auto simp: timely_def ripe_def)
  with dl executeStep(2) show ?thesis by auto
qed

text \<open>
  C10. A Flow completes as inactive only when its clock has reached the inactivity deadline that is
  in the store at that very commit, however often user operations and durable waits moved it; the
  deadline is cleared in the same commit (for runs younger than the longest \<^verbatim>\<open>time.Duration\<close>).
\<close>

theorem expires_only_after_deadline:
  assumes "run flow (startConfiguration config metadata now) ls c"
    and "flowStep flow c (Executed (InactivityTimeout d) (ForceComplete r)) c'"
    and "cfClock c < now + longestWait"
  shows "\<exists>deadline. sDeadline (cfStore c) = Some deadline \<and> deadline \<le> cfClock c \<and> sDeadline (cfStore c') = None \<and>
     cfOutcome c' = Completed r \<and> fHasExpirationHandler flow"
  using assms by (rule expiry_ok)

text \<open>An hour without user activity.\<close>

definition hourly :: agentConfig where
  "hourly = newAgentConfig \<lparr>cfgInactivityTimeoutSeconds := 3600\<rparr>"

definition idleHour :: "move list" where
  "idleHour = [Start 0, Execute 0 quietly, Await 1, Tick (startedAt + 3600 * second), Wake 1 [True, False]]"

lemma idleHour_evaluates:
  "map_option (\<lambda>(ls, c). case perform exampleFlow exampleCtx (Execute 1 quietly) c of
       Some (Executed (InactivityTimeout d) (ForceComplete r), c') \<Rightarrow> (cfOutcome c, r, cfClock c)
     | _ \<Rightarrow> (Failed, [], 0)) (performAll exampleFlow exampleCtx idleHour [] (startConfiguration hourly ''{}'' startedAt)) =
     Some (Running, ''inactivity_expired'', startedAt + 3600 * second)"
  by code_simp

theorem expires_only_after_deadline_witness:
  "\<exists>ls c d c' deadline. run exampleFlow (startConfiguration hourly ''{}'' startedAt) ls c \<and>
     flowStep exampleFlow c (Executed (InactivityTimeout d) (ForceComplete ''inactivity_expired'')) c' \<and>
     sDeadline (cfStore c) = Some deadline \<and> deadline \<le> startedAt + 3600 * second"
proof -
  from idleHour_evaluates obtain ls c where
    r: "performAll exampleFlow exampleCtx idleHour [] (startConfiguration hourly ''{}'' startedAt) = Some (ls, c)"
    and v: "(case perform exampleFlow exampleCtx (Execute 1 quietly) c of
       Some (Executed (InactivityTimeout d) (ForceComplete r), c') \<Rightarrow> (cfOutcome c, r, cfClock c)
     | _ \<Rightarrow> (Failed, [], 0)) = (Running, ''inactivity_expired'', startedAt + 3600 * second)" by auto
  from v obtain d c' where p: "perform exampleFlow exampleCtx (Execute 1 quietly) c =
      Some (Executed (InactivityTimeout d) (ForceComplete ''inactivity_expired''), c')"
    and c: "cfOutcome c = Running" "cfClock c = startedAt + 3600 * second"
    by (auto simp del: perform.simps split: option.splits prod.splits label.splits decision.splits stepInput.splits)
  have "list_all fair idleHour" by (simp add: idleHour_def)
  from performAll_run [OF r this] have run: "run exampleFlow (startConfiguration hourly ''{}'' startedAt) ls c" .
  have step: "flowStep exampleFlow c (Executed (InactivityTimeout d) (ForceComplete ''inactivity_expired'')) c'"
    using perform_step [OF p c(1)] by simp
  have "cfClock c < startedAt + longestWait" by (simp add: c longestWait_def second_def)
  from expires_only_after_deadline [OF run step this] c(2) run step show ?thesis by metis
qed

end
