(* ===== verification/Sdk.thy ===== *)
theory Sdk
  imports Commands
begin

text \<open>
  The boundary of the Dex SDK as the application client uses it. An effect outside the Flow
  takes the state of the world and answers an error or a value with the state after it, or
  does not return (\<open>None\<close>). The SDK is not part of the repository: its calls are the fields of
  a record, and what the client relies on is the locale \<open>dexService\<close>. A reference service that
  runs the commands of the Flow on a map of durable stores interprets it.
\<close>

section \<open>Effects\<close>

type_synonym ('w, 'a) io = "'w \<Rightarrow> ('a result \<times> 'w) option"

definition returnIO :: "'a \<Rightarrow> ('w, 'a) io" where
  "returnIO x = (\<lambda>w. Some (Inr x, w))"

definition failIO :: "goError \<Rightarrow> ('w, 'a) io" where
  "failIO e = (\<lambda>w. Some (Inl e, w))"

text \<open>Both outcomes of \<open>m\<close> are handed on: Go code looks at the error before it returns it.\<close>

definition thenIO :: "('w, 'a) io \<Rightarrow> ('a result \<Rightarrow> ('w, 'b) io) \<Rightarrow> ('w, 'b) io" where
  "thenIO m f = (\<lambda>w. case m w of None \<Rightarrow> None | Some (r, w') \<Rightarrow> f r w')"

definition bindIO :: "('w, 'a) io \<Rightarrow> ('a \<Rightarrow> ('w, 'b) io) \<Rightarrow> ('w, 'b) io" where
  "bindIO m f = thenIO m (\<lambda>r. case r of Inl e \<Rightarrow> failIO e | Inr x \<Rightarrow> f x)"

definition liftIO :: "'a result \<Rightarrow> ('w, 'a) io" where
  "liftIO r = (\<lambda>w. Some (r, w))"

lemma io_apply [simp]:
  "returnIO x w = Some (Inr x, w)" "failIO e w = Some (Inl e, w)" "liftIO r w = Some (r, w)"
  by (simp_all add: returnIO_def failIO_def liftIO_def)

lemma thenIO_apply: "thenIO m f w = (case m w of None \<Rightarrow> None | Some (r, w') \<Rightarrow> f r w')"
  by (simp add: thenIO_def)

lemma thenIO_lift [simp]: "thenIO (liftIO r) f = f r"
  by (simp add: thenIO_def liftIO_def)

lemma bindIO_apply:
  "bindIO m f w = (case m w of None \<Rightarrow> None | Some (Inl e, w') \<Rightarrow> Some (Inl e, w') | Some (Inr x, w') \<Rightarrow> f x w')"
  by (simp add: bindIO_def thenIO_def split: option.splits sum.splits)

lemma bindIO_lift [simp]: "bindIO (liftIO (Inr x)) f = f x" "bindIO (liftIO (Inl e)) f = failIO e"
  by (simp_all add: bindIO_def fun_eq_iff)

lemma bindIO_Some_Inr:
  "bindIO m f w = Some (Inr y, w2) \<longleftrightarrow> (\<exists>x w1. m w = Some (Inr x, w1) \<and> f x w1 = Some (Inr y, w2))"
  by (auto simp: bindIO_apply split: option.splits sum.splits)

lemma bindIO_Some_Inl:
  "bindIO m f w = Some (Inl e, w2) \<longleftrightarrow>
     m w = Some (Inl e, w2) \<or> (\<exists>x w1. m w = Some (Inr x, w1) \<and> f x w1 = Some (Inl e, w2))"
  by (auto simp: bindIO_apply split: option.splits sum.splits)

section \<open>errors.As\<close>

text \<open>The verbs of a format string, in order, and the errors \<^verbatim>\<open>fmt.Errorf\<close> wraps with \<^verbatim>\<open>%w\<close>.\<close>

fun verbs :: "string \<Rightarrow> string" where
  "verbs (c # d # s) = (if c = CHR ''%'' then (if d = CHR ''%'' then verbs s else d # verbs s) else verbs (d # s))"
| "verbs _ = []"

text \<open>\<^verbatim>\<open>errors.As\<close>: some error of the chain has the type \<open>P\<close> selects.\<close>

function anyError :: "(goError \<Rightarrow> bool) \<Rightarrow> goError \<Rightarrow> bool" where
  "anyError P (Errorf f as) \<longleftrightarrow> P (Errorf f as) \<or>
     list_ex (\<lambda>a. case a of (v, ArgErr e) \<Rightarrow> v = CHR ''w'' \<and> anyError P e | _ \<Rightarrow> False) (zip (verbs f) as)"
| "anyError P (New t) \<longleftrightarrow> P (New t)"
| "anyError P (EnumValidationError ty v) \<longleftrightarrow> P (EnumValidationError ty v)"
| "anyError P (AttributeNotFoundError n) \<longleftrightarrow> P (AttributeNotFoundError n)"
| "anyError P (ChannelMessageNotFoundError n) \<longleftrightarrow> P (ChannelMessageNotFoundError n)"
| "anyError P (CommandRejectedError c) \<longleftrightarrow> P (CommandRejectedError c)"
| "anyError P (PendingMessageNotFoundError i) \<longleftrightarrow> P (PendingMessageNotFoundError i)"
| "anyError P (ArchivedMessagesNotFoundError n) \<longleftrightarrow> P (ArchivedMessagesNotFoundError n)"
| "anyError P (TransportValidationError t) \<longleftrightarrow> P (TransportValidationError t)"
| "anyError P (External t) \<longleftrightarrow> P (External t)"
| "anyError P (RuntimePanic t) \<longleftrightarrow> P (RuntimePanic t)"
  by pat_completeness auto
termination
proof (relation "measure (size \<circ> snd)", goal_cases)
  case (2 P f as z a b e)
  then have "ArgErr e \<in> set as" by (auto dest: set_zip_rightD)
  then have "size (ArgErr e) \<le> size_list size as" by (rule size_list_estimation') simp
  then show ?case by simp
qed simp

text \<open>\<^verbatim>\<open>errors.Join\<close>: the errors that are not nil, on lines of their own.\<close>

definition joinErrors :: "goError option list \<Rightarrow> goError" where
  "joinErrors es =
     (let present = List.map_filter id es in
      Errorf (joinStrings (map (\<lambda>_. ''%w'') present) [CHR 10]) (map ArgErr present))"

definition lockConflict :: "goError \<Rightarrow> bool" where
  "lockConflict = anyError (\<lambda>e. e = External ''*dex.RPCLockConflictError'')"

lemma lockConflict_External [simp]:
  "lockConflict (External t) \<longleftrightarrow> t = ''*dex.RPCLockConflictError''"
  by (simp add: lockConflict_def)

section \<open>The calls of the SDK\<close>

datatype idReusePolicy = IDReuseDisallow

text \<open>The durability a started Flow runs its Steps with; the code names one.\<close>

datatype flowDurability = StepDurabilityAsync

record startFlowOptions =
  sfoIDReusePolicy :: idReusePolicy
  sfoRuntimeMetadata :: jsonObject
  sfoStepDurability :: flowDurability

record streamMessage =
  smgResumeToken :: string
  smgCreatedTime :: goTime
  smgSource :: string

text \<open>
  A field is one SDK call with the types the client uses it at: \<^verbatim>\<open>InvokeRPC\<close> of a command, of
  \<^verbatim>\<open>GetSnapshot\<close> and of \<^verbatim>\<open>GetArchivedMessages\<close>, \<^verbatim>\<open>ReadStream\<close> and \<^verbatim>\<open>ListStreamMessages\<close> of a
  text stream or the activity stream. An optional time is the deadline of the call's context.
  \<open>sdkPause\<close> is the \<^verbatim>\<open>select\<close> between a timer and the end of the context; \<open>sdkNow\<close> and
  \<open>sdkUUID\<close> are the clock and \<^verbatim>\<open>uuid.NewString\<close>.
\<close>

record 'w sdk =
  sdkNow :: "'w \<Rightarrow> goTime"
  sdkUUID :: "'w \<Rightarrow> string \<times> 'w"
  sdkPause :: "duration \<Rightarrow> goTime \<Rightarrow> ('w, unit) io"
  sdkInitialAttribute :: "jsonObject \<Rightarrow> unit result"
  sdkStartFlow :: "string \<Rightarrow> agentConfig \<Rightarrow> startFlowOptions \<Rightarrow> ('w, string) io"
  sdkCommand :: "goTime option \<Rightarrow> string \<Rightarrow> command \<Rightarrow> ('w, bool) io"
  sdkSnapshot :: "string \<Rightarrow> ('w, agentSnapshot) io"
  sdkArchived :: "string \<Rightarrow> int \<Rightarrow> ('w, archivedMessagesOutput) io"
  sdkWaitRound :: "string \<Rightarrow> int \<Rightarrow> ('w, int) io"
  sdkReadText :: "goTime \<Rightarrow> string \<Rightarrow> eventStream \<Rightarrow> string \<Rightarrow> ('w, streamMessage \<times> string) io"
  sdkReadActivity :: "goTime \<Rightarrow> string \<Rightarrow> string \<Rightarrow> ('w, streamMessage \<times> agentEvent) io"
  sdkListText :: "string \<Rightarrow> eventStream \<Rightarrow> int \<Rightarrow> ('w, (string \<times> streamMessage) list) io"
  sdkListActivity :: "string \<Rightarrow> int \<Rightarrow> ('w, (agentEvent \<times> streamMessage) list) io"

section \<open>What the client relies on\<close>

text \<open>A command as the service executed it: one atomic transaction on the store of a Flow.\<close>

record transaction =
  tnFlowID :: string
  tnCommand :: command
  tnAnswer :: bool
  tnBefore :: store
  tnAfter :: store

text \<open>
  A world \<open>w\<close> has a clock that calls never set back. A pause ends with the context's error,
  or after its duration at the earliest; a call whose context is over does not end in a lock
  conflict (it fails with the context's error instead). A lock conflict means that the command
  was not executed; an answered command was executed exactly once, as a method of the Flow.
  \<open>executed\<close> lists the commands this client had executed; other clients and the Flow itself
  may have changed the store in between. Errors of the SDK are not of the types of this repository.
\<close>

definition foreign :: "goError \<Rightarrow> bool" where
  "foreign e \<longleftrightarrow> (case e of External t \<Rightarrow> True | _ \<Rightarrow> False)"

lemma foreign_External [simp]: "foreign (External t)"
  by (simp add: foreign_def)

locale dexService =
  fixes sdk :: "'w sdk" and flow :: flow and executed :: "'w \<Rightarrow> transaction list"
  assumes pause_returns: "\<exists>r w'. sdkPause sdk d deadline w = Some (r, w')"
    and pause_timer: "sdkPause sdk d deadline w = Some (Inr (), w') \<Longrightarrow> sdkNow sdk w + d \<le> sdkNow sdk w'"
    and pause_error: "sdkPause sdk d deadline w = Some (Inl e, w') \<Longrightarrow> foreign e \<and> \<not> lockConflict e"
    and pause_executed: "sdkPause sdk d deadline w = Some (r, w') \<Longrightarrow> executed w' = executed w"
    and command_returns: "\<exists>r w'. sdkCommand sdk (Some deadline) flowID cmd w = Some (r, w')"
    and command_time: "sdkCommand sdk deadline' flowID cmd w = Some (answer, w') \<Longrightarrow> sdkNow sdk w \<le> sdkNow sdk w'"
    and command_over: "sdkCommand sdk (Some deadline) flowID cmd w = Some (Inl e, w') \<Longrightarrow>
      deadline \<le> sdkNow sdk w \<Longrightarrow> \<not> lockConflict e"
    and command_error: "sdkCommand sdk deadline' flowID cmd w = Some (Inl e, w') \<Longrightarrow> foreign e"
    and command_answer: "sdkCommand sdk deadline' flowID cmd w = Some (Inr b, w') \<Longrightarrow>
      \<exists>t ctx. executed w' = executed w @ [t] \<and> tnFlowID t = flowID \<and> tnCommand t = cmd \<and> tnAnswer t = b \<and>
        runCommand flow ctx cmd (tnBefore t) = Inr (b, tnAfter t)"
    and command_conflict: "sdkCommand sdk deadline' flowID cmd w = Some (Inl e, w') \<Longrightarrow> lockConflict e \<Longrightarrow>
      executed w' = executed w"
    and uuid_executed: "executed (snd (sdkUUID sdk w)) = executed w"

text \<open>While nothing else happens to a Flow, reading its archive answers from its store.\<close>

locale archiveService =
  fixes sdk :: "'w sdk" and storeAt :: "'w \<Rightarrow> string \<Rightarrow> store option"
  assumes archived_reads: "storeAt w flowID = Some s \<Longrightarrow> getArchivedMessages before s = Inr (out, s) \<Longrightarrow>
      \<exists>w'. sdkArchived sdk flowID before w = Some (Inr out, w') \<and> storeAt w' flowID = Some s"

section \<open>A reference service\<close>

text \<open>
  The Flows of a namespace, each a durable store, and the commands of the Flow executed on
  them as transactions. \<open>svBusy\<close> says which of the coming calls find their locks held;
  every call takes a millisecond.
\<close>

record served =
  svStores :: "string \<Rightarrow> store option"
  svClock :: goTime
  svBusy :: "bool list"
  svIssued :: nat
  svExecuted :: "transaction list"

definition millisecond :: duration where "millisecond = 1000000"

definition flowNotFound :: goError where "flowNotFound = External ''*dex.FlowNotFoundError''"

definition tick :: "served \<Rightarrow> served" where
  "tick w = w \<lparr>svClock := svClock w + millisecond\<rparr>"

definition servedCtx :: "string \<Rightarrow> served \<Rightarrow> ctx" where
  "servedCtx flowID w = \<lparr>cxFlowID = flowID, cxRunID = flowID @ ''-run'', cxStepExecutionID = [],
     cxNow = svClock w, cxAttempt = 1, cxFirstAttemptAt = svClock w\<rparr>"

text \<open>A method of the Flow, as one transaction on its store.\<close>

definition serve :: "string \<Rightarrow> (ctx \<Rightarrow> 'a action) \<Rightarrow> (served, 'a) io" where
  "serve flowID method w =
     (case svStores w flowID of
        None \<Rightarrow> Some (Inl flowNotFound, tick w)
      | Some s \<Rightarrow>
          (case method (servedCtx flowID w) s of
             Inl e \<Rightarrow> Some (Inl (External ''*dex.RPCExecutionError''), tick w)
           | Inr (x, s') \<Rightarrow> Some (Inr x, tick (w \<lparr>svStores := (svStores w)(flowID \<mapsto> s')\<rparr>))))"

definition servedCommand :: "flow \<Rightarrow> goTime option \<Rightarrow> string \<Rightarrow> command \<Rightarrow> (served, bool) io" where
  "servedCommand flow deadline flowID cmd w =
     (if (case deadline of Some t \<Rightarrow> t \<le> svClock w | None \<Rightarrow> False)
      then Some (Inl (External ''context.deadlineExceededError''), w)
      else if svBusy w \<noteq> [] \<and> hd (svBusy w)
      then Some (Inl (External ''*dex.RPCLockConflictError''), tick (w \<lparr>svBusy := tl (svBusy w)\<rparr>))
      else (case svStores w flowID of
         None \<Rightarrow> Some (Inl flowNotFound, tick w)
       | Some s \<Rightarrow>
           (case runCommand flow (servedCtx flowID w) cmd s of
              Inl e \<Rightarrow> Some (Inl (External ''*dex.RPCExecutionError''), tick w)
            | Inr (b, s') \<Rightarrow> Some (Inr b, tick (w \<lparr>svBusy := tl (svBusy w),
                svStores := (svStores w)(flowID \<mapsto> s'),
                svExecuted := svExecuted w @ [\<lparr>tnFlowID = flowID, tnCommand = cmd, tnAnswer = b,
                  tnBefore = s, tnAfter = s'\<rparr>]\<rparr>)))))"

definition servedPause :: "duration \<Rightarrow> goTime \<Rightarrow> (served, unit) io" where
  "servedPause d deadline w =
     (if svClock w + d \<le> deadline then Some (Inr (), w \<lparr>svClock := svClock w + d\<rparr>)
      else Some (Inl (External ''context.deadlineExceededError''), w \<lparr>svClock := max (svClock w) deadline\<rparr>))"

definition servedUUID :: "served \<Rightarrow> string \<times> served" where
  "servedUUID w = (''message-'' @ showNat (svIssued w), w \<lparr>svIssued := Suc (svIssued w)\<rparr>)"

definition unanswered :: "(served, 'a) io" where
  "unanswered w = Some (Inl (External ''*dex.LongPollTimeoutError''), tick w)"

definition servedSdk :: "flow \<Rightarrow> served sdk" where
  "servedSdk flow = \<lparr>
     sdkNow = svClock, sdkUUID = servedUUID, sdkPause = servedPause,
     sdkInitialAttribute = (\<lambda>value. case parseJSONObject value of Inl e \<Rightarrow> Inl e | Inr v \<Rightarrow> Inr ()),
     sdkStartFlow = (\<lambda>flowID config options w.
       if svStores w flowID \<noteq> None then Some (Inl (External ''*dex.FlowAlreadyStartedError''), tick w)
       else Some (Inr (flowID @ ''-run''), tick (w \<lparr>svStores := (svStores w)(flowID \<mapsto>
              emptyStore \<lparr>sRuntimeMetadata := Some (sfoRuntimeMetadata options)\<rparr>)\<rparr>))),
     sdkCommand = servedCommand flow,
     sdkSnapshot = (\<lambda>flowID w. serve flowID (getSnapshot flow) w),
     sdkArchived = (\<lambda>flowID before. serve flowID (\<lambda>ctx. getArchivedMessages before)),
     sdkWaitRound = (\<lambda>flowID after w.
       case Option.bind (svStores w flowID) sWaitingInputRound of
         Some r \<Rightarrow> if after < r then Some (Inr r, tick w) else unanswered w
       | None \<Rightarrow> unanswered w),
     sdkReadText = (\<lambda>deadline flowID stream token. unanswered),
     sdkReadActivity = (\<lambda>deadline flowID token. unanswered),
     sdkListText = (\<lambda>flowID stream limit. returnIO []),
     sdkListActivity = (\<lambda>flowID limit w.
       case svStores w flowID of
         None \<Rightarrow> Some (Inl flowNotFound, tick w)
       | Some s \<Rightarrow> Some (Inr (map (\<lambda>e. (e, \<lparr>smgResumeToken = [], smgCreatedTime = svClock w, smgSource = flowID\<rparr>))
             (take (nat limit) (rev (sActivity s)))), tick w))\<rparr>"

lemmas served_defs = servedCommand_def servedPause_def servedUUID_def serve_def tick_def millisecond_def
  flowNotFound_def

interpretation served: dexService "servedSdk flow" flow svExecuted for flow
proof unfold_locales
  fix d deadline flowID cmd and w w' :: served and deadline' b e
    and r :: "unit result" and answer :: "bool result"
  let ?sdk = "servedSdk flow"
  show "\<exists>r w'. sdkPause ?sdk d deadline w = Some (r, w')"
    by (simp add: servedSdk_def servedPause_def)
  show "sdkNow ?sdk w + d \<le> sdkNow ?sdk w'" if "sdkPause ?sdk d deadline w = Some (Inr (), w')"
    using that by (auto simp: servedSdk_def servedPause_def split: if_splits)
  show "foreign e \<and> \<not> lockConflict e" if "sdkPause ?sdk d deadline w = Some (Inl e, w')"
    using that by (auto simp: servedSdk_def servedPause_def split: if_splits)
  show "svExecuted w' = svExecuted w" if "sdkPause ?sdk d deadline w = Some (r, w')"
    using that by (auto simp: servedSdk_def servedPause_def split: if_splits)
  show "\<exists>r w'. sdkCommand ?sdk (Some deadline) flowID cmd w = Some (r, w')"
    by (simp add: servedSdk_def served_defs split: option.splits sum.splits)
  show "sdkNow ?sdk w \<le> sdkNow ?sdk w'" if "sdkCommand ?sdk deadline' flowID cmd w = Some (answer, w')"
    using that by (auto simp: servedSdk_def served_defs split: option.splits sum.splits if_splits)
  show "\<not> lockConflict e"
    if "sdkCommand ?sdk (Some deadline) flowID cmd w = Some (Inl e, w')" "deadline \<le> sdkNow ?sdk w"
    using that by (auto simp: servedSdk_def served_defs)
  show "foreign e" if "sdkCommand ?sdk deadline' flowID cmd w = Some (Inl e, w')"
    using that by (auto simp: servedSdk_def served_defs split: option.splits sum.splits if_splits)
  show "\<exists>t ctx. svExecuted w' = svExecuted w @ [t] \<and> tnFlowID t = flowID \<and> tnCommand t = cmd \<and> tnAnswer t = b \<and>
      runCommand flow ctx cmd (tnBefore t) = Inr (b, tnAfter t)"
    if "sdkCommand ?sdk deadline' flowID cmd w = Some (Inr b, w')"
    using that by (auto simp: servedSdk_def served_defs split: option.splits sum.splits if_splits)
  show "svExecuted w' = svExecuted w"
    if "sdkCommand ?sdk deadline' flowID cmd w = Some (Inl e, w')" "lockConflict e"
    using that by (auto simp: servedSdk_def served_defs split: option.splits sum.splits if_splits)
  show "svExecuted (snd (sdkUUID ?sdk w)) = svExecuted w"
    by (simp add: servedSdk_def servedUUID_def)
qed

interpretation archive: archiveService "servedSdk flow" svStores for flow
  by unfold_locales (auto simp: servedSdk_def served_defs)

end
