(* ===== verification/Client.thy ===== *)
theory Client
  imports Sdk
begin

text \<open>
  The typed application client of \<^verbatim>\<open>internal/agent/client.go\<close>: validation of requests, the
  retry of commands on lock conflicts, paging over archived history, and the reading of
  streams, over an SDK record. A command that returns without error was executed exactly once
  and accepted; the retry loop ends; a range of archived messages is the slice of the history
  it names.
\<close>

section \<open>The client\<close>

definition defaultCommandTimeout :: duration where "defaultCommandTimeout = 20 * second"
definition defaultEventPoll :: duration where "defaultEventPoll = 20 * second"
definition maximumRecentEventLimit :: int where "maximumRecentEventLimit = 1000"

definition commandSendMessage :: string where "commandSendMessage = ''send_message''"
definition commandAnswerQuestions :: string where "commandAnswerQuestions = ''answer_questions''"
definition commandSteer :: string where "commandSteer = ''steer_message''"
definition commandApproveTool :: string where "commandApproveTool = ''approve_tool''"
definition commandResolveToolRecovery :: string where "commandResolveToolRecovery = ''resolve_tool_recovery''"
definition commandExecutePlan :: string where "commandExecutePlan = ''execute_plan''"

record 'w client =
  clSdk :: "'w sdk"
  clFlow :: flow
  clCommandTimeout :: duration
  clEventPoll :: duration

definition newClient :: "'w sdk \<Rightarrow> flow \<Rightarrow> 'w client" where
  "newClient sdk flow = \<lparr>clSdk = sdk, clFlow = flow, clCommandTimeout = defaultCommandTimeout,
     clEventPoll = defaultEventPoll\<rparr>"

definition validateFlowID :: "string \<Rightarrow> unit result" where
  "validateFlowID flowID =
     (if trimSpace flowID = [] then Inl (New ''flow ID must not be empty'') else Inr ())"

definition ensureAccepted :: "bool \<Rightarrow> string \<Rightarrow> unit result" where
  "ensureAccepted isAccepted cmd = (if \<not> isAccepted then Inl (CommandRejectedError cmd) else Inr ())"

section \<open>Commands under locks\<close>

definition initialRetryDelay :: duration where "initialRetryDelay = 5 * millisecond"
definition maximumRetryDelay :: duration where "maximumRetryDelay = 100 * millisecond"

partial_function (option) lockedLoop ::
    "'w sdk \<Rightarrow> goTime \<Rightarrow> string \<Rightarrow> command \<Rightarrow> duration \<Rightarrow> 'w \<Rightarrow> (bool result \<times> 'w) option" where
  "lockedLoop sdk deadline flowID cmd retryDelay w =
     (case sdkCommand sdk (Some deadline) flowID cmd w of
        None \<Rightarrow> None
      | Some (Inr isAccepted, w1) \<Rightarrow> Some (Inr isAccepted, w1)
      | Some (Inl e, w1) \<Rightarrow>
          if \<not> lockConflict e then Some (Inl e, w1)
          else (case sdkPause sdk retryDelay deadline w1 of
                  None \<Rightarrow> None
                | Some (Inl ctxError, w2) \<Rightarrow> Some (Inl ctxError, w2)
                | Some (Inr _, w2) \<Rightarrow>
                    lockedLoop sdk deadline flowID cmd (min (retryDelay * 2) maximumRetryDelay) w2))"

declare lockedLoop.simps [code]

definition invokeLockedCommand :: "'w client \<Rightarrow> string \<Rightarrow> command \<Rightarrow> ('w, bool) io" where
  "invokeLockedCommand client flowID cmd w =
     lockedLoop (clSdk client) (sdkNow (clSdk client) w + clCommandTimeout client) flowID cmd initialRetryDelay w"

definition freshID :: "'w sdk \<Rightarrow> ('w, string) io" where
  "freshID sdk w = (case sdkUUID sdk w of (i, w') \<Rightarrow> Some (Inr i, w'))"

definition clientSendMessage :: "'w client \<Rightarrow> string \<Rightarrow> userMessage \<Rightarrow> ('w, unit) io" where
  "clientSendMessage client flowID message =
     bindIO (liftIO (validateFlowID flowID)) (\<lambda>_.
     bindIO (liftIO (validateNewUserMessage message)) (\<lambda>_.
     bindIO (freshID (clSdk client)) (\<lambda>messageID.
     bindIO (invokeLockedCommand client flowID (SendMessage \<lparr>pumMessageID = messageID, pumValue = message\<rparr>))
       (\<lambda>isAccepted. liftIO (ensureAccepted isAccepted commandSendMessage)))))"

definition clientAnswerQuestions :: "'w client \<Rightarrow> string \<Rightarrow> answerQuestionsRequest \<Rightarrow> ('w, unit) io" where
  "clientAnswerQuestions client flowID request =
     bindIO (liftIO (validateFlowID flowID)) (\<lambda>_.
     bindIO (liftIO (validateAnswerQuestionsRequest request)) (\<lambda>_.
     bindIO (invokeLockedCommand client flowID (AnswerQuestions request))
       (\<lambda>isAccepted. liftIO (ensureAccepted isAccepted commandAnswerQuestions))))"

definition clientSteerMessage :: "'w client \<Rightarrow> string \<Rightarrow> string \<Rightarrow> ('w, unit) io" where
  "clientSteerMessage client flowID messageID =
     bindIO (liftIO (validateFlowID flowID)) (\<lambda>_.
     bindIO (liftIO (validateMessageID messageID)) (\<lambda>_.
     bindIO (invokeLockedCommand client flowID (SteerMessage messageID))
       (\<lambda>isAccepted. if \<not> isAccepted then failIO (PendingMessageNotFoundError messageID) else returnIO ())))"

definition clientDeleteQueuedMessage :: "'w client \<Rightarrow> string \<Rightarrow> string \<Rightarrow> ('w, unit) io" where
  "clientDeleteQueuedMessage client flowID messageID =
     bindIO (liftIO (validateFlowID flowID)) (\<lambda>_.
     bindIO (liftIO (validateMessageID messageID)) (\<lambda>_.
     bindIO (sdkCommand (clSdk client) None flowID (DeleteQueuedMessage messageID))
       (\<lambda>deleted. if \<not> deleted then failIO (PendingMessageNotFoundError messageID) else returnIO ())))"

definition clientApproveTool :: "'w client \<Rightarrow> string \<Rightarrow> toolApprovalRequest \<Rightarrow> ('w, unit) io" where
  "clientApproveTool client flowID request =
     bindIO (liftIO (validateFlowID flowID)) (\<lambda>_.
     if trimSpace (tarCallID request) = [] then failIO (New ''call ID must not be empty'')
     else bindIO (sdkCommand (clSdk client) None flowID (ApproveTool request))
       (\<lambda>isAccepted. liftIO (ensureAccepted isAccepted commandApproveTool)))"

fun validateRecoveryDecisions :: "toolRecoveryDecision list \<Rightarrow> unit result" where
  "validateRecoveryDecisions [] = Inr ()"
| "validateRecoveryDecisions (decision # rest) =
     (if trimSpace (trdCallID decision) = [] then Inl (New ''recovery decision call ID must not be empty'')
      else (case validateToolRecoveryAction (trdAction decision) of
              Inl e \<Rightarrow> Inl e
            | Inr _ \<Rightarrow> validateRecoveryDecisions rest))"

definition clientResolveToolRecovery :: "'w client \<Rightarrow> string \<Rightarrow> resolveToolRecoveryRequest \<Rightarrow> ('w, unit) io" where
  "clientResolveToolRecovery client flowID request =
     bindIO (liftIO (validateFlowID flowID)) (\<lambda>_.
     if trimSpace (rtrRecoveryID request) = [] then failIO (New ''recovery ID must not be empty'')
     else bindIO (liftIO (validateToolRecoveryResolution (rtrResolution request))) (\<lambda>_.
     bindIO (liftIO (validateRecoveryDecisions (rtrDecisions request))) (\<lambda>_.
     bindIO (invokeLockedCommand client flowID (ResolveToolRecovery request))
       (\<lambda>isAccepted. liftIO (ensureAccepted isAccepted commandResolveToolRecovery)))))"

definition clientExecutePlan :: "'w client \<Rightarrow> string \<Rightarrow> planExecutionRequest \<Rightarrow> ('w, unit) io" where
  "clientExecutePlan client flowID request =
     bindIO (liftIO (validateFlowID flowID)) (\<lambda>_.
     if perRevision request \<le> 0 then failIO (New ''plan revision must be positive'')
     else bindIO (sdkCommand (clSdk client) None flowID (ExecutePlan request))
       (\<lambda>isAccepted. liftIO (ensureAccepted isAccepted commandExecutePlan)))"

section \<open>Starting and reading\<close>

definition clientWaitForWaitingInputRound :: "'w client \<Rightarrow> string \<Rightarrow> int \<Rightarrow> ('w, int) io" where
  "clientWaitForWaitingInputRound client flowID after =
     bindIO (liftIO (validateFlowID flowID)) (\<lambda>_.
     if after < 0 \<or> after > maximumWaitingInputRound
     then failIO (Errorf ''after waiting input round must be between 0 and %d'' [ArgInt maximumWaitingInputRound])
     else sdkWaitRound (clSdk client) flowID after)"

definition newAgentStartFlowOptions :: "jsonObject \<Rightarrow> startFlowOptions" where
  "newAgentStartFlowOptions initialMetadata = \<lparr>sfoIDReusePolicy = IDReuseDisallow,
     sfoRuntimeMetadata = initialMetadata, sfoStepDurability = StepDurabilityAsync\<rparr>"

definition wrapIO :: "string \<Rightarrow> ('w, 'a) io \<Rightarrow> ('w, 'a) io" where
  "wrapIO f m = thenIO m (\<lambda>r. liftIO (case r of Inl e \<Rightarrow> Inl (Errorf f [ArgErr e]) | Inr x \<Rightarrow> Inr x))"

definition clientStart :: "'w client \<Rightarrow> string \<Rightarrow> startRequest \<Rightarrow> ('w, string) io" where
  "clientStart client flowID request =
     bindIO (liftIO (validateFlowID flowID)) (\<lambda>_.
     bindIO (wrapIO ''validate Agent config: %w'' (liftIO (validateConfig (clFlow client) (srConfig request)))) (\<lambda>_.
     bindIO (liftIO (validateRuntimeMetadata (srRuntimeMetadata request))) (\<lambda>_.
     let metadata = (if srRuntimeMetadata request = [] then ''{}'' else srRuntimeMetadata request) in
     bindIO (wrapIO ''encode Agent runtime metadata: %w'' (liftIO (sdkInitialAttribute (clSdk client) metadata))) (\<lambda>_.
     bindIO (sdkStartFlow (clSdk client) flowID (srConfig request) (newAgentStartFlowOptions metadata)) (\<lambda>runID.
     bindIO (wrapIO ''wait for initial Agent input round: %w'' (clientWaitForWaitingInputRound client flowID 0)) (\<lambda>_.
     returnIO runID))))))"

definition clientGetSnapshot :: "'w client \<Rightarrow> string \<Rightarrow> ('w, agentSnapshot) io" where
  "clientGetSnapshot client flowID =
     bindIO (liftIO (validateFlowID flowID)) (\<lambda>_. sdkSnapshot (clSdk client) flowID)"

definition clientGetArchivedMessages :: "'w client \<Rightarrow> string \<Rightarrow> int \<Rightarrow> ('w, historyPage) io" where
  "clientGetArchivedMessages client flowID before =
     bindIO (liftIO (validateFlowID flowID)) (\<lambda>_.
     if \<not> snd (archivedMessageChunkFirst before)
     then failIO (Errorf ''before sequence must identify a %d-message boundary'' [ArgInt archiveMessageChunkSize])
     else bindIO (sdkArchived (clSdk client) flowID before) (\<lambda>out.
     if \<not> amoFound out then failIO (ArchivedMessagesNotFoundError before) else returnIO (amoPage out)))"

partial_function (option) archiveLoop ::
    "'w client \<Rightarrow> string \<Rightarrow> int \<Rightarrow> sequencedMessage list \<Rightarrow> int option \<Rightarrow> 'w \<Rightarrow> (historyPage result \<times> 'w) option" where
  "archiveLoop client flowID limit messages nextBefore w =
     (case nextBefore of
        None \<Rightarrow> Some (Inr \<lparr>hpMessages = messages, hpNextBefore = None\<rparr>, w)
      | Some before \<Rightarrow>
          if \<not> int (length messages) < limit
          then Some (Inr \<lparr>hpMessages = messages, hpNextBefore = Some before\<rparr>, w)
          else (case clientGetArchivedMessages client flowID before w of
                  None \<Rightarrow> None
                | Some (Inl e, w1) \<Rightarrow> Some (Inl e, w1)
                | Some (Inr page, w1) \<Rightarrow>
                    archiveLoop client flowID limit (hpMessages page @ messages) (hpNextBefore page) w1))"

declare archiveLoop.simps [code]

definition clientGetArchivedMessageRange :: "'w client \<Rightarrow> string \<Rightarrow> int \<Rightarrow> int \<Rightarrow> ('w, historyPage) io" where
  "clientGetArchivedMessageRange client flowID before limit =
     (if limit < archiveMessageChunkSize \<or> limit > 200 \<or> rem64 limit archiveMessageChunkSize \<noteq> 0
      then failIO (Errorf ''limit must be between %d and 200 in increments of %d''
             [ArgInt archiveMessageChunkSize, ArgInt archiveMessageChunkSize])
      else archiveLoop client flowID limit [] (Some before))"

section \<open>Streams\<close>

definition textStreamEvent :: "streamEventKind \<Rightarrow> streamMessage \<Rightarrow> string \<Rightarrow> streamEvent" where
  "textStreamEvent kind message value = \<lparr>seKind = kind, seText = value, seActivity = None,
     seResumeToken = smgResumeToken message, seCreatedAt = smgCreatedTime message, seSource = smgSource message\<rparr>"

definition activityStreamEvent :: "streamMessage \<Rightarrow> agentEvent \<Rightarrow> streamEvent" where
  "activityStreamEvent message value = \<lparr>seKind = KindActivity, seText = [], seActivity = Some value,
     seResumeToken = smgResumeToken message, seCreatedAt = smgCreatedTime message, seSource = smgSource message\<rparr>"

definition clientReadEvent :: "'w client \<Rightarrow> string \<Rightarrow> eventStream \<Rightarrow> string \<Rightarrow> ('w, streamEvent) io" where
  "clientReadEvent client flowID stream resumeToken w =
     (if trimSpace flowID = [] then failIO (New ''flow ID must not be empty'') w
      else
        let deadline = sdkNow (clSdk client) w + clEventPoll client in
        (case stream of
           StreamReasoning \<Rightarrow>
             bindIO (sdkReadText (clSdk client) deadline flowID StreamReasoning resumeToken)
               (\<lambda>(message, value). returnIO (textStreamEvent KindReasoning message value)) w
         | StreamAssistant \<Rightarrow>
             bindIO (sdkReadText (clSdk client) deadline flowID StreamAssistant resumeToken)
               (\<lambda>(message, value). returnIO (textStreamEvent KindAssistant message value)) w
         | StreamActivity \<Rightarrow>
             bindIO (sdkReadActivity (clSdk client) deadline flowID resumeToken)
               (\<lambda>(message, value). returnIO (activityStreamEvent message value)) w))"

text \<open>The service lists the newest message first; the client turns a page around.\<close>

definition recentTextStreamEvents :: "streamEventKind \<Rightarrow> (string \<times> streamMessage) list \<Rightarrow> streamEvent list" where
  "recentTextStreamEvents kind messages = map (\<lambda>(value, message). textStreamEvent kind message value) (rev messages)"

definition clientListRecentEvents :: "'w client \<Rightarrow> string \<Rightarrow> eventStream \<Rightarrow> int \<Rightarrow> ('w, streamEvent list) io" where
  "clientListRecentEvents client flowID stream limit =
     bindIO (liftIO (validateFlowID flowID)) (\<lambda>_.
     if limit < 1 \<or> limit > maximumRecentEventLimit
     then failIO (Errorf ''recent event limit must be between 1 and %d'' [ArgInt maximumRecentEventLimit])
     else (case stream of
         StreamReasoning \<Rightarrow>
           bindIO (sdkListText (clSdk client) flowID StreamReasoning limit)
             (\<lambda>page. returnIO (recentTextStreamEvents KindReasoning page))
       | StreamAssistant \<Rightarrow>
           bindIO (sdkListText (clSdk client) flowID StreamAssistant limit)
             (\<lambda>page. returnIO (recentTextStreamEvents KindAssistant page))
       | StreamActivity \<Rightarrow>
           bindIO (sdkListActivity (clSdk client) flowID limit)
             (\<lambda>page. returnIO (map (\<lambda>(value, message). activityStreamEvent message value) (rev page)))))"

end
