(* ===== verification/ClientCommands.thy ===== *)
theory ClientCommands
  imports Client
begin

text \<open>
  What a caller of the client can rely on: the retry of a command on lock conflicts ends, and
  a command is executed exactly once when its call returns a decision, whatever conflicts
  and other writers came in between.
\<close>

section \<open>The operations of a user\<close>

datatype operation =
    OpSendMessage userMessage
  | OpAnswerQuestions answerQuestionsRequest
  | OpSteerMessage string
  | OpDeleteQueuedMessage string
  | OpApproveTool toolApprovalRequest
  | OpResolveToolRecovery resolveToolRecoveryRequest
  | OpExecutePlan planExecutionRequest

fun submit :: "'w client \<Rightarrow> string \<Rightarrow> operation \<Rightarrow> ('w, unit) io" where
  "submit client flowID (OpSendMessage m) = clientSendMessage client flowID m"
| "submit client flowID (OpAnswerQuestions r) = clientAnswerQuestions client flowID r"
| "submit client flowID (OpSteerMessage i) = clientSteerMessage client flowID i"
| "submit client flowID (OpDeleteQueuedMessage i) = clientDeleteQueuedMessage client flowID i"
| "submit client flowID (OpApproveTool r) = clientApproveTool client flowID r"
| "submit client flowID (OpResolveToolRecovery r) = clientResolveToolRecovery client flowID r"
| "submit client flowID (OpExecutePlan r) = clientExecutePlan client flowID r"

text \<open>The command of an operation; a message gets a fresh identity.\<close>

fun commandOf :: "operation \<Rightarrow> string \<Rightarrow> command" where
  "commandOf (OpSendMessage m) i = SendMessage \<lparr>pumMessageID = i, pumValue = m\<rparr>"
| "commandOf (OpAnswerQuestions r) i = AnswerQuestions r"
| "commandOf (OpSteerMessage m) i = SteerMessage m"
| "commandOf (OpDeleteQueuedMessage m) i = DeleteQueuedMessage m"
| "commandOf (OpApproveTool r) i = ApproveTool r"
| "commandOf (OpResolveToolRecovery r) i = ResolveToolRecovery r"
| "commandOf (OpExecutePlan r) i = ExecutePlan r"

definition refusal :: "goError \<Rightarrow> bool" where
  "refusal e \<longleftrightarrow> (case e of CommandRejectedError c \<Rightarrow> True | PendingMessageNotFoundError i \<Rightarrow> True | _ \<Rightarrow> False)"

lemma foreign_not_refusal: "foreign e \<Longrightarrow> \<not> refusal e"
  by (cases e) (simp_all add: foreign_def refusal_def)

text \<open>The calls that lead to a decision \<open>b\<close> on a command: one transaction, atomic on the Flow.\<close>

definition decidedOnce ::
    "flow \<Rightarrow> string \<Rightarrow> command \<Rightarrow> bool \<Rightarrow> transaction list \<Rightarrow> transaction list \<Rightarrow> bool" where
  "decidedOnce flow flowID cmd b before after \<longleftrightarrow>
     (\<exists>t ctx. after = before @ [t] \<and> tnFlowID t = flowID \<and> tnCommand t = cmd \<and> tnAnswer t = b \<and>
        runCommand flow ctx cmd (tnBefore t) = Inr (b, tnAfter t))"

lemma decidedOnce_unchanged:
  "decidedOnce flow flowID cmd False before after \<Longrightarrow> tnAfter (last after) = tnBefore (last after)"
  by (auto simp: decidedOnce_def dest: runCommand_Inr)

context dexService
begin

lemma lockedLoop_ends:
  assumes "0 < d"
  shows "\<exists>r w'. lockedLoop sdk deadline flowID cmd d w = Some (r, w')"
  using assms
proof (induction "nat (deadline - sdkNow sdk w)" arbitrary: d w rule: less_induct)
  case less
  obtain r w1 where call: "sdkCommand sdk (Some deadline) flowID cmd w = Some (r, w1)"
    using command_returns by blast
  show ?case
  proof (cases "\<exists>e. r = Inl e \<and> lockConflict e")
    case False
    with call show ?thesis by (cases r) (auto simp: lockedLoop.simps [of _ _ _ _ _ w])
  next
    case True
    then obtain e where e: "r = Inl e" "lockConflict e" by blast
    with command_over call have early: "sdkNow sdk w < deadline" by (meson not_le)
    obtain p w2 where pause: "sdkPause sdk d deadline w1 = Some (p, w2)" using pause_returns by blast
    show ?thesis
    proof (cases p)
      case (Inl ctxError)
      with call e pause show ?thesis by (simp add: lockedLoop.simps [of _ _ _ _ _ w])
    next
      case (Inr u)
      with pause pause_timer have "sdkNow sdk w1 + d \<le> sdkNow sdk w2" by simp
      with command_time [OF call] less.prems early
      have "nat (deadline - sdkNow sdk w2) < nat (deadline - sdkNow sdk w)" by simp
      moreover have "0 < min (d * 2) maximumRetryDelay"
        using less.prems by (simp add: maximumRetryDelay_def millisecond_def)
      ultimately have "\<exists>r w'. lockedLoop sdk deadline flowID cmd (min (d * 2) maximumRetryDelay) w2 = Some (r, w')"
        by (rule less.hyps)
      with call e pause Inr show ?thesis by (simp add: lockedLoop.simps [of _ _ _ _ _ w])
    qed
  qed
qed

lemma command_once:
  "sdkCommand sdk deadline' flowID cmd w = Some (Inr b, w') \<Longrightarrow> decidedOnce flow flowID cmd b (executed w) (executed w')"
  unfolding decidedOnce_def by (rule command_answer)

lemma lockedLoop_decides:
  assumes "lockedLoop sdk deadline flowID cmd d w = Some (r, w')" and "0 < d"
  shows "(\<forall>b. r = Inr b \<longrightarrow> decidedOnce flow flowID cmd b (executed w) (executed w')) \<and> (\<forall>e. r = Inl e \<longrightarrow> foreign e)"
  using assms
proof (induction "nat (deadline - sdkNow sdk w)" arbitrary: d w rule: less_induct)
  case less
  obtain a w1 where call: "sdkCommand sdk (Some deadline) flowID cmd w = Some (a, w1)"
    using command_returns by blast
  show ?case
  proof (cases "\<exists>e. a = Inl e \<and> lockConflict e")
    case False
    with call less.prems(1) have "r = a" "w' = w1"
      by (cases a; simp add: lockedLoop.simps [of _ _ _ _ _ w])+
    with call show ?thesis by (auto dest: command_once command_error)
  next
    case True
    then obtain e where e: "a = Inl e" "lockConflict e" by blast
    with command_over call have early: "sdkNow sdk w < deadline" by (meson not_le)
    obtain p w2 where pause: "sdkPause sdk d deadline w1 = Some (p, w2)" using pause_returns by blast
    show ?thesis
    proof (cases p)
      case (Inl ctxError)
      with call e pause less.prems(1) have "r = Inl ctxError" by (simp add: lockedLoop.simps [of _ _ _ _ _ w])
      with pause_error pause Inl show ?thesis by simp
    next
      case (Inr u)
      with pause pause_timer have "sdkNow sdk w1 + d \<le> sdkNow sdk w2" by simp
      with command_time [OF call] less.prems(2) early
      have nearer: "nat (deadline - sdkNow sdk w2) < nat (deadline - sdkNow sdk w)" by simp
      have "executed w2 = executed w"
        using pause_executed [OF pause] command_conflict call e by simp
      with less.hyps [OF nearer, of "min (d * 2) maximumRetryDelay"] less.prems call e pause Inr
      show ?thesis by (simp add: lockedLoop.simps [of _ _ _ _ _ w] maximumRetryDelay_def millisecond_def)
    qed
  qed
qed

lemma invoke_decides:
  assumes "clSdk client = sdk" and "invokeLockedCommand client flowID cmd w = Some (r, w')"
  shows "r = Inr b \<Longrightarrow> decidedOnce flow flowID cmd b (executed w) (executed w')" and "r = Inl e \<Longrightarrow> foreign e"
  using lockedLoop_decides [of _ flowID cmd initialRetryDelay w r w'] assms
  by (simp_all add: invokeLockedCommand_def initialRetryDelay_def millisecond_def)

lemma command_decides:
  assumes "sdkCommand sdk deadline' flowID cmd w = Some (r, w')"
  shows "r = Inr b \<Longrightarrow> decidedOnce flow flowID cmd b (executed w) (executed w')" and "r = Inl e \<Longrightarrow> foreign e"
  using assms by (auto dest: command_once command_error)

text \<open>The end of every operation: the answer of its command is turned into an error when negative.\<close>

lemma answered:
  assumes "bindIO call f w = Some (r, w')"
    and "\<And>a w1. call w = Some (a, w1) \<Longrightarrow> (\<forall>b. a = Inr b \<longrightarrow> P b w1) \<and> (\<forall>e. a = Inl e \<longrightarrow> foreign e)"
    and "\<And>b. f b = (if b then returnIO () else failIO e0)" and "refusal e0"
  shows "(r = Inr () \<longrightarrow> P True w') \<and> (\<forall>e. r = Inl e \<and> refusal e \<longrightarrow> P False w')"
  using assms(1,3,4) assms(2) foreign_not_refusal
  by (auto simp: bindIO_apply split: option.splits sum.splits prod.splits if_splits)

lemma ensureAccepted_if:
  "liftIO (ensureAccepted b c) = (if b then returnIO () else failIO (CommandRejectedError c))"
  by (simp add: ensureAccepted_def liftIO_def returnIO_def failIO_def)

text \<open>A validation in front of an operation answers an error that is no refusal.\<close>

definition decides :: "string \<Rightarrow> command \<Rightarrow> 'w \<Rightarrow> unit result \<Rightarrow> 'w \<Rightarrow> bool" where
  "decides flowID cmd w r w' \<longleftrightarrow>
     (r = Inr () \<longrightarrow> decidedOnce flow flowID cmd True (executed w) (executed w')) \<and>
     (\<forall>e. r = Inl e \<and> refusal e \<longrightarrow> decidedOnce flow flowID cmd False (executed w) (executed w'))"

lemma decides_refused: "\<not> refusal e \<Longrightarrow> decides flowID cmd w (Inl e) w'"
  by (simp add: decides_def)

lemma decides_locked:
  assumes "bindIO (invokeLockedCommand client flowID cmd) (\<lambda>b. if b then returnIO () else failIO e) w = Some (r, w')"
    and "clSdk client = sdk" and "refusal e"
  shows "decides flowID cmd w r w'"
  using answered [OF assms(1), of "\<lambda>b w1. decidedOnce flow flowID cmd b (executed w) (executed w1)" e]
    invoke_decides [OF assms(2)] assms(3)
  by (auto simp: decides_def)

lemma decides_unlocked:
  assumes "bindIO (sdkCommand sdk None flowID cmd) (\<lambda>b. if b then returnIO () else failIO e) w = Some (r, w')"
    and "refusal e"
  shows "decides flowID cmd w r w'"
  using answered [OF assms(1), of "\<lambda>b w1. decidedOnce flow flowID cmd b (executed w) (executed w1)" e]
    command_decides assms(2)
  by (auto simp: decides_def)

lemma refusals [simp]: "refusal (CommandRejectedError c)" "refusal (PendingMessageNotFoundError i)"
  "\<not> refusal (New t)" "\<not> refusal (Errorf f as)" "\<not> refusal (EnumValidationError ty v)"
  by (simp_all add: refusal_def)

text \<open>Every operation is its validations in front of one call.\<close>

lemma validated:
  assumes "bindIO (liftIO v) f w = Some (r, w')" and "\<And>e. v = Inl e \<Longrightarrow> \<not> refusal e"
    and "\<And>x. f x w = Some (r, w') \<Longrightarrow> decides flowID cmd w r w'"
  shows "decides flowID cmd w r w'"
  using assms by (cases v) (auto simp: decides_refused)

lemma guarded:
  assumes "(if b then failIO e else m) w = Some (r, w')" and "\<not> refusal e"
    and "m w = Some (r, w') \<Longrightarrow> decides flowID cmd w r w'"
  shows "decides flowID cmd w r w'"
  using assms by (cases b) (auto simp: decides_refused)

lemma negated: "(if \<not> b then failIO e else returnIO ()) = (if b then returnIO () else failIO e)"
  by simp

lemma validations_no_refusal:
  "validateFlowID flowID = Inl e \<Longrightarrow> \<not> refusal e"
  "validateNewUserMessage m = Inl e \<Longrightarrow> \<not> refusal e"
  "validateMessageID i = Inl e \<Longrightarrow> \<not> refusal e"
  "validateToolRecoveryResolution res = Inl e \<Longrightarrow> \<not> refusal e"
  by (auto simp: validateFlowID_def validateNewUserMessage_def validateMessageID_def
      validateToolRecoveryResolution_def refusal_def split: if_splits recoveryResolution.splits)

lemma answers_no_refusal:
  assumes "validateAnswerQuestionsRequest req = Inl e"
  shows "\<not> refusal e"
proof -
  have "validateAnswers answers seen = Inl e' \<Longrightarrow> \<not> refusal e'" for answers seen e'
    by (induction answers seen rule: validateAnswers.induct) (auto simp: refusal_def split: if_splits)
  with assms show ?thesis by (auto simp: validateAnswerQuestionsRequest_def refusal_def split: if_splits)
qed

lemma decisions_no_refusal: "validateRecoveryDecisions ds = Inl e \<Longrightarrow> \<not> refusal e"
  by (induction ds)
    (auto simp: refusal_def validateToolRecoveryAction_def split: if_splits recoveryAction.splits)

lemma submit_message_decides:
  assumes "clientSendMessage client flowID m w = Some (r, w')" and sdk: "clSdk client = sdk"
  shows "\<exists>i. decides flowID (SendMessage \<lparr>pumMessageID = i, pumValue = m\<rparr>) w r w'"
proof -
  obtain i w1 where fresh: "sdkUUID sdk w = (i, w1)" by fastforce
  with uuid_executed [of w] have same: "executed w1 = executed w" by simp
  let ?cmd = "SendMessage \<lparr>pumMessageID = i, pumValue = m\<rparr>"
  have "decides flowID ?cmd w r w'"
    using assms(1) unfolding clientSendMessage_def ensureAccepted_if sdk
  proof (elim validated)
    assume "bindIO (freshID sdk) (\<lambda>i. bindIO (invokeLockedCommand client flowID (SendMessage \<lparr>pumMessageID = i, pumValue = m\<rparr>))
       (\<lambda>b. if b then returnIO () else failIO (CommandRejectedError commandSendMessage))) w = Some (r, w')"
    with fresh have "bindIO (invokeLockedCommand client flowID ?cmd)
       (\<lambda>b. if b then returnIO () else failIO (CommandRejectedError commandSendMessage)) w1 = Some (r, w')"
      by (simp add: bindIO_apply [of "freshID sdk"] freshID_def)
    from decides_locked [OF this sdk] same show "decides flowID ?cmd w r w'"
      by (simp add: decides_def)
  qed (auto dest: validations_no_refusal)
  then show ?thesis by blast
qed

lemma submit_decides:
  assumes "submit client flowID op w = Some (r, w')" and sdk: "clSdk client = sdk"
  shows "\<exists>i. decides flowID (commandOf op i) w r w'"
proof (cases op)
  case (OpSendMessage m)
  with submit_message_decides [OF _ sdk] assms(1) show ?thesis by simp
next
  case (OpAnswerQuestions request)
  have "decides flowID (AnswerQuestions request) w r w'"
    using assms(1) unfolding OpAnswerQuestions submit.simps clientAnswerQuestions_def ensureAccepted_if
    by (elim validated) (auto dest: validations_no_refusal answers_no_refusal decides_locked [OF _ sdk])
  with OpAnswerQuestions show ?thesis by simp
next
  case (OpSteerMessage i)
  have "decides flowID (SteerMessage i) w r w'"
    using assms(1) unfolding OpSteerMessage submit.simps clientSteerMessage_def negated
    by (elim validated) (auto dest: validations_no_refusal decides_locked [OF _ sdk])
  with OpSteerMessage show ?thesis by simp
next
  case (OpDeleteQueuedMessage i)
  have "decides flowID (DeleteQueuedMessage i) w r w'"
    using assms(1) unfolding OpDeleteQueuedMessage submit.simps clientDeleteQueuedMessage_def negated sdk
    by (elim validated) (auto dest: validations_no_refusal decides_unlocked)
  with OpDeleteQueuedMessage show ?thesis by simp
next
  case (OpApproveTool request)
  have "decides flowID (ApproveTool request) w r w'"
    using assms(1) unfolding OpApproveTool submit.simps clientApproveTool_def ensureAccepted_if sdk
    by (elim validated guarded) (auto dest: validations_no_refusal decides_unlocked)
  with OpApproveTool show ?thesis by simp
next
  case (OpResolveToolRecovery request)
  have "decides flowID (ResolveToolRecovery request) w r w'"
    using assms(1) unfolding OpResolveToolRecovery submit.simps clientResolveToolRecovery_def ensureAccepted_if
    by (elim validated guarded) (auto dest: validations_no_refusal decisions_no_refusal decides_locked [OF _ sdk])
  with OpResolveToolRecovery show ?thesis by simp
next
  case (OpExecutePlan request)
  have "decides flowID (ExecutePlan request) w r w'"
    using assms(1) unfolding OpExecutePlan submit.simps clientExecutePlan_def ensureAccepted_if sdk
    by (elim validated guarded) (auto dest: validations_no_refusal decides_unlocked)
  with OpExecutePlan show ?thesis by simp
qed

end

section \<open>Properties\<close>

text \<open>A namespace with one Flow, a queued message, and two collisions to come.\<close>

definition exampleServed :: served where
  "exampleServed = \<lparr>svStores = [''agent-1'' \<mapsto> queueStore], svClock = 63000000000 * second,
     svBusy = [True, True], svIssued = 0, svExecuted = []\<rparr>"

definition exampleClient :: "served client" where
  "exampleClient = newClient (servedSdk exampleFlow) exampleFlow"

lemma exampleClient_simps [simp]:
  "clSdk exampleClient = servedSdk exampleFlow" "clFlow exampleClient = exampleFlow"
  by (simp_all add: exampleClient_def newClient_def)

text \<open>
  C26. The retry of a command always ends: whatever conflicts it meets, the call returns the
  decision of the Flow or an error, because every pause moves the clock towards the deadline
  of the call and a call past its deadline does not conflict.
\<close>

theorem command_retry_ends:
  assumes "dexService (clSdk client) flow executed"
  shows "\<exists>r w'. invokeLockedCommand client flowID cmd w = Some (r, w')"
  using dexService.lockedLoop_ends [OF assms, of initialRetryDelay]
  by (simp add: invokeLockedCommand_def initialRetryDelay_def millisecond_def)

theorem command_retry_ends_witness:
  "\<exists>r w'. invokeLockedCommand exampleClient ''agent-1'' (SteerMessage ''m-1'') exampleServed = Some (r, w')"
  by (rule command_retry_ends [of exampleClient exampleFlow svExecuted], simp) (rule served.dexService_axioms)

text \<open>
  C20. Exactly once: when an operation of the client succeeds, exactly one command was executed
  on the Flow, the one of the request, and it was accepted; when the client answers that the
  command was rejected, exactly one was executed and it left the durable state as it was.
  Retries neither lose nor repeat a command.
\<close>

theorem client_executes_once:
  assumes "dexService (clSdk client) flow executed" and "submit client flowID op w = Some (r, w')"
  shows "(r = Inr () \<longrightarrow> (\<exists>i. decidedOnce flow flowID (commandOf op i) True (executed w) (executed w'))) \<and>
     (\<forall>e. r = Inl e \<and> refusal e \<longrightarrow>
        (\<exists>i. decidedOnce flow flowID (commandOf op i) False (executed w) (executed w')) \<and>
        tnAfter (last (executed w')) = tnBefore (last (executed w')))"
  using dexService.submit_decides [OF assms refl] decidedOnce_unchanged
  unfolding dexService.decides_def [OF assms(1)] by blast

lemma exampleServed_steers:
  "map_option (\<lambda>(r, w'). (r, map tnAnswer (svExecuted w'))) (submit exampleClient ''agent-1'' (OpSteerMessage ''m-1'') exampleServed)
     = Some (Inr (), [True])"
  by code_simp

theorem client_executes_once_witness:
  "\<exists>w'. submit exampleClient ''agent-1'' (OpSteerMessage ''m-1'') exampleServed = Some (Inr (), w') \<and>
     decidedOnce exampleFlow ''agent-1'' (SteerMessage ''m-1'') True [] (svExecuted w')"
proof -
  from exampleServed_steers obtain w' where
    run: "submit exampleClient ''agent-1'' (OpSteerMessage ''m-1'') exampleServed = Some (Inr (), w')" by auto
  have "dexService (clSdk exampleClient) exampleFlow svExecuted" by (simp add: served.dexService_axioms)
  from client_executes_once [OF this run] run show ?thesis by (auto simp: exampleServed_def)
qed

end
