(* ===== verification/ClientArchive.thy ===== *)
theory ClientArchive
  imports ClientCommands
begin

text \<open>
  Paging over archived history: the loop of \<^verbatim>\<open>GetArchivedMessageRange\<close> ends on every
  well-formed store, and what it collects is one slice of the history.
\<close>

lemma range64_append: "a \<le> b \<Longrightarrow> b \<le> c + 1 \<Longrightarrow> range64 a (b - 1) @ range64 b c = range64 a c"
  by (intro nth_equalityI) (auto simp: nth_append)

text \<open>The page of the messages from \<open>a\<close> up to \<open>before\<close>, as they stand in the store.\<close>

definition isSlice :: "store \<Rightarrow> agentState \<Rightarrow> int \<Rightarrow> int \<Rightarrow> sequencedMessage list \<Rightarrow> bool" where
  "isSlice s st a before ms \<longleftrightarrow>
     map smSequence ms = range64 a (before - 1) \<and> map smMessage ms = window s st a (before - 1)"

lemma isSlice_Nil [simp]: "isSlice s st before before []"
  by (simp add: isSlice_def window_def)

lemma isSlice_append:
  "isSlice s st a b xs \<Longrightarrow> isSlice s st b c ys \<Longrightarrow> a \<le> b \<Longrightarrow> b \<le> c \<Longrightarrow> isSlice s st a c (xs @ ys)"
  by (simp add: isSlice_def window_def range64_append [of a b "c - 1", symmetric])

lemma isSlice_length:
  assumes "isSlice s st a before ms"
  shows "int (length ms) = max 0 (before - a)"
proof -
  have "length ms = length (range64 a (before - 1))" using assms unfolding isSlice_def by (metis length_map)
  then show ?thesis by simp
qed

lemma archive_page_slice:
  assumes "histInv s" and "sState s = Some st" and "b mod 10 = 1"
    and "stFirstRetained st + 10 \<le> b" and "b \<le> stCurrentFirst st"
  obtains out where "getArchivedMessages b s = Inr (out, s)" and "amoFound out"
    and "isSlice s st (b - 10) b (hpMessages (amoPage out))"
    and "hpNextBefore (amoPage out) = (if b - 10 > stFirstRetained st then Some (b - 10) else None)"
proof -
  from archive_page [OF assms(1,2), of b] assms(3-) obtain out where out: "getArchivedMessages b s = Inr (out, s)"
    "amoFound out" "map smMessage (hpMessages (amoPage out)) = take 10 (drop (nat (b - 10 - stFirstRetained st)) (history s))"
    "map smSequence (hpMessages (amoPage out)) = range64 (b - 10) (b - 1)"
    "hpNextBefore (amoPage out) = (if b - 10 > stFirstRetained st then Some (b - 10) else None)"
    by auto
  from assms have "stCurrentFirst st \<le> stLastSequence st + 1" by (simp add: histInv_def histOf_def countersOk_def)
  with window_slice [OF assms(2), of "b - 10" "b - 1"] assms(4,5)
  have "window s st (b - 10) (b - 1) = take 10 (drop (nat (b - 10 - stFirstRetained st)) (history s))" by simp
  with out show thesis by (intro that) (simp_all add: isSlice_def)
qed

context archiveService
begin

lemma read_page:
  assumes "storeAt w flowID = Some s" and "trimSpace flowID \<noteq> []" and "clSdk client = sdk" and "10 < b" and "b mod 10 = 1"
    and "getArchivedMessages b s = Inr (out, s)"
  shows "\<exists>w'. storeAt w' flowID = Some s \<and>
     clientGetArchivedMessages client flowID b w =
       Some (if amoFound out then Inr (amoPage out) else Inl (ArchivedMessagesNotFoundError b), w')"
proof -
  have "snd (archivedMessageChunkFirst b)"
    using archivedMessageChunkFirst_iff [of b "b - 10"] assms(4,5) by (cases "archivedMessageChunkFirst b") simp
  with archived_reads [OF assms(1,6)] assms(2,3) show ?thesis
    by (auto simp: clientGetArchivedMessages_def validateFlowID_def bindIO_apply)
qed

lemma archiveLoop_collects:
  assumes "histInv s" and "sState s = Some st" and "trimSpace flowID \<noteq> []" and "clSdk client = sdk"
    and "before \<le> stCurrentFirst st" and "limit mod 10 = 0" and "before - b \<le> limit"
    and "stFirstRetained st \<le> b" and "b \<le> before" and "before mod 10 = 1" and "b mod 10 = 1"
    and "isSlice s st b before ms" and "storeAt w flowID = Some s"
    and "first = max (stFirstRetained st) (before - limit)"
  shows "\<exists>page w'. archiveLoop client flowID limit ms (if b > stFirstRetained st then Some b else None) w = Some (Inr page, w') \<and>
     isSlice s st first before (hpMessages page) \<and>
     hpNextBefore page = (if first > stFirstRetained st then Some first else None)"
  using assms(7-9,11-13)
proof (induction "nat (b - first)" arbitrary: b ms w rule: less_induct)
  case less
  have len: "int (length ms) = before - b" using isSlice_length [OF less.prems(5)] less.prems(3) by simp
  from assms(1,2) have fr: "1 \<le> stFirstRetained st" "stFirstRetained st mod 10 = 1"
    by (simp_all add: histInv_def histOf_def countersOk_def)
  show ?case
  proof (cases "b > stFirstRetained st \<and> before - b < limit")
    case False
    then have "b = first" using less.prems(1,2) assms(14) by auto
    with less.prems(5) False len show ?thesis
      by (subst archiveLoop.simps) (auto simp: less.prems(1))
  next
    case True
    have b: "stFirstRetained st + 10 \<le> b" "before - (b - 10) \<le> limit"
      using True fr(2) less.prems(4) assms(6,10) by presburger+
    from archive_page_slice [OF assms(1,2) less.prems(4) b(1)] less.prems(3) assms(5)
    obtain out where out: "getArchivedMessages b s = Inr (out, s)" "amoFound out"
      "isSlice s st (b - 10) b (hpMessages (amoPage out))"
      "hpNextBefore (amoPage out) = (if b - 10 > stFirstRetained st then Some (b - 10) else None)"
      by auto
    have "10 < b" using b(1) fr(1) by simp
    from read_page [OF less.prems(6) assms(3,4) this less.prems(4) out(1)] out(2) obtain w1 where
      read: "storeAt w1 flowID = Some s" "clientGetArchivedMessages client flowID b w = Some (Inr (amoPage out), w1)"
      by auto
    have "isSlice s st (b - 10) before (hpMessages (amoPage out) @ ms)"
      using isSlice_append [OF out(3) less.prems(5)] less.prems(3) by simp
    moreover have "(b - 10) mod 10 = 1" using less.prems(4) by presburger
    moreover have "nat (b - 10 - first) < nat (b - first)" using True b assms(14) by simp
    ultimately have "\<exists>page w'. archiveLoop client flowID limit (hpMessages (amoPage out) @ ms)
        (if b - 10 > stFirstRetained st then Some (b - 10) else None) w1 = Some (Inr page, w') \<and>
       isSlice s st first before (hpMessages page) \<and>
       hpNextBefore page = (if first > stFirstRetained st then Some first else None)"
      using less.hyps [of "b - 10" "hpMessages (amoPage out) @ ms" w1] b less.prems(3) read(1) by simp
    with True len read(2) out(4) show ?thesis by (subst archiveLoop.simps) auto
  qed
qed

end

text \<open>
  C27. Reading a range of archived messages ends and answers one page: the messages before the
  boundary, at most \<open>limit\<close> of them and all that are retained below that, in order and under
  their sequences, with a pointer to what remains exactly when something does.
\<close>

theorem archived_range_is_slice:
  assumes "archiveService (clSdk client) storeAt" and "storeAt w flowID = Some s" and "trimSpace flowID \<noteq> []"
    and "histInv s" and "sState s = Some st"
    and "before mod 10 = 1" and "stFirstRetained st + 10 \<le> before" and "before \<le> stCurrentFirst st"
    and "limit mod 10 = 0" and "10 \<le> limit" and "limit \<le> 200"
    and "first = max (stFirstRetained st) (before - limit)"
  shows "\<exists>page w'. clientGetArchivedMessageRange client flowID before limit w = Some (Inr page, w') \<and>
     map smSequence (hpMessages page) = range64 first (before - 1) \<and>
     map smMessage (hpMessages page) =
       take (nat (before - first)) (drop (nat (first - stFirstRetained st)) (history s)) \<and>
     hpNextBefore page = (if first > stFirstRetained st then Some first else None)"
proof -
  from assms(4,5) have c: "stCurrentFirst st \<le> stLastSequence st + 1" by (simp add: histInv_def histOf_def countersOk_def)
  have "\<exists>page w'. archiveLoop client flowID limit [] (Some before) w = Some (Inr page, w') \<and>
     isSlice s st first before (hpMessages page) \<and>
     hpNextBefore page = (if first > stFirstRetained st then Some first else None)"
    using archiveService.archiveLoop_collects [OF assms(1,4,5,3) refl assms(8,9), of before "[]" w first] assms
    by simp
  moreover have "window s st first (before - 1) =
      take (nat (before - first)) (drop (nat (first - stFirstRetained st)) (history s))"
    using window_slice [OF assms(5), of first "before - 1"] assms(7,8,12) c by simp
  moreover have "rem64 limit archiveMessageChunkSize = 0"
    using assms(9,10) by (simp add: rem64_nonneg archiveMessageChunkSize_def)
  ultimately show ?thesis using assms(10,11)
    by (auto simp: clientGetArchivedMessageRange_def archiveMessageChunkSize_def isSlice_def)
qed

theorem archived_range_is_slice_witness:
  "\<exists>page w'. clientGetArchivedMessageRange exampleClient ''agent-1'' 11 10
       (exampleServed \<lparr>svStores := [''agent-1'' \<mapsto> archivedStore]\<rparr>) = Some (Inr page, w') \<and>
     map smSequence (hpMessages page) = [1, 2, 3, 4, 5, 6, 7, 8, 9, 10] \<and> hpNextBefore page = None"
proof -
  have "trimSpace ''agent-1'' \<noteq> []" by code_simp
  moreover have "range64 1 (11 - 1) = [1, 2, 3, 4, 5, 6, 7, 8, 9, 10]" by code_simp
  moreover have "archiveService (clSdk exampleClient) svStores" by (simp add: archive.archiveService_axioms)
  moreover have "sState archivedStore = Some archivedState" "stFirstRetained archivedState = 1" "stCurrentFirst archivedState = 11"
    by (simp_all add: archivedStore_parts)
  ultimately show ?thesis
    using archived_range_is_slice [of exampleClient svStores "exampleServed \<lparr>svStores := [''agent-1'' \<mapsto> archivedStore]\<rparr>" "''agent-1''"
        archivedStore archivedState 11 10 1] histInv_archivedStore
    by auto
qed

end
