(* ===== verification/Transport.thy ===== *)
theory Transport
  imports Client
begin

text \<open>
  The transport types of \<^verbatim>\<open>internal/api/generated/oas_schemas_gen.go\<close> and the mapping of
  domain values to them in \<^verbatim>\<open>internal/api/handler.go\<close>. A generated enumeration is a string
  type; a \<^verbatim>\<open>Nil\<close> type is an optional value and an \<^verbatim>\<open>OptNil\<close> type has a third state.
\<close>

section \<open>Transport types\<close>

datatype 'a optNil = OptUnset | OptNull | OptValue 'a

record apiToolCall =
  atcID :: string
  atcName :: string
  atcArgumentsJson :: string

record apiMessage =
  amsRole :: string
  amsContent :: string
  amsToolCalls :: "apiToolCall list"
  amsToolCallId :: "string option"
  amsToolName :: "string option"
  amsAnsweredInputCallId :: "string optNil"
  amsCreatedAt :: goTime
  amsStartedAt :: "goTime optNil"

record apiSequencedMessage =
  asmSequence :: int
  asmMessage :: apiMessage

record apiHistoryPage =
  ahpMessages :: "apiSequencedMessage list"
  ahpNextBeforeSequence :: "int option"

record apiPlanTask =
  aptContent :: string
  aptStatus :: string

record apiPlan =
  aplRevision :: int
  aplStatus :: string
  aplTasks :: "apiPlanTask list"

record apiPendingApproval =
  apaCallId :: string
  apaToolName :: string
  apaArgumentsJson :: string
  apaStartedAt :: "goTime optNil"

record apiPendingToolRecoveryCall =
  aprcCallId :: string
  aprcToolName :: string
  aprcArgumentsJson :: string
  aprcErrorType :: string

record apiPendingToolRecovery =
  aprRecoveryId :: string
  aprCalls :: "apiPendingToolRecoveryCall list"
  aprStartedAt :: "goTime optNil"

record apiPendingTimer =
  aptmCallId :: string
  aptmDurationSeconds :: int
  aptmReason :: string
  aptmStartedAt :: "goTime optNil"

record apiOption =
  aopLabel :: string
  aopDescription :: string

record apiQuestion =
  aquID :: string
  aquHeader :: string
  aquQuestion :: string
  aquOptions :: "apiOption list"

record apiPendingUserInput =
  apuCallId :: string
  apuQuestions :: "apiQuestion list"
  apuStartedAt :: "goTime optNil"

record apiUserMessage =
  aumContent :: string
  aumPlanMode :: bool

record apiPendingUserMessage =
  apmMessageId :: string
  apmValue :: apiUserMessage

record apiDescription =
  adStatus :: string
  adWaitingInputRound :: int
  adModel :: string
  adSystemPrompt :: string
  adFirstRetainedSequence :: int
  adLastSequence :: int
  adSummarizedThroughSequence :: int
  adPendingApproval :: "apiPendingApproval option"
  adPendingToolRecovery :: "apiPendingToolRecovery option"
  adPendingTimer :: "apiPendingTimer option"
  adPendingUserInput :: "apiPendingUserInput option"
  adPlan :: "apiPlan option"
  adIsPlanExecutionRequested :: bool
  adPendingQueuedMessageCount :: int
  adPendingSteeredMessageCount :: int
  adAvailableMcpServers :: "string list"
  adAvailableTools :: "string list"
  adInactivityDeadline :: "goTime option"

record apiSnapshot =
  asnRunId :: string
  asnHistory :: apiHistoryPage
  asnDescription :: apiDescription
  asnQueued :: "apiPendingUserMessage list"
  asnSteered :: "apiPendingUserMessage list"

record apiInputConsumption =
  aicQueuedMessageIds :: "string list"
  aicSteeredMessageIds :: "string list"
  aicPlanExecutionRevision :: "int option"

record apiEvent =
  aevKind :: string
  aevMessage :: string
  aevCallId :: "string option"
  aevToolName :: "string option"
  aevMessageSequence :: "int option"
  aevPlanBaseRevision :: "int optNil"
  aevPlanRevision :: "int optNil"
  aevPlanTaskIndex :: "int optNil"
  aevPlanTaskStatus :: "string optNil"
  aevInputConsumption :: "apiInputConsumption option"
  aevAttempt :: "int optNil"

text \<open>The three events of a stream; the generated sum type carries the kind of each as a constant.\<close>

record apiTextEvent =
  ateKind :: string
  ateValue :: string
  ateResumeToken :: string
  ateCreatedAt :: goTime
  ateSource :: string

record apiActivityEvent =
  aaeKind :: string
  aaeValue :: apiEvent
  aaeResumeToken :: string
  aaeCreatedAt :: goTime
  aaeSource :: string

datatype apiStreamEvent =
    ReasoningStreamEvent apiTextEvent
  | AssistantStreamEvent apiTextEvent
  | ActivityStreamEvent apiActivityEvent

section \<open>Enumerations\<close>

fun transportAgentStatus :: "agentStatus \<Rightarrow> string result" where
  "transportAgentStatus Initializing = Inr ''initializing''"
| "transportAgentStatus WaitingForMessage = Inr ''waiting_for_message''"
| "transportAgentStatus CompactingContext = Inr ''compacting_context''"
| "transportAgentStatus CallingModel = Inr ''calling_model''"
| "transportAgentStatus RoutingTool = Inr ''routing_tool''"
| "transportAgentStatus WaitingForToolApproval = Inr ''waiting_for_tool_approval''"
| "transportAgentStatus WaitingForToolRecovery = Inr ''waiting_for_tool_recovery''"
| "transportAgentStatus ExecutingTool = Inr ''executing_tool''"
| "transportAgentStatus WaitingForTimer = Inr ''waiting_for_timer''"
| "transportAgentStatus ApplyingSteering = Inr ''applying_steering''"
| "transportAgentStatus Expiring = Inr ''expiring''"

fun transportMessageRole :: "messageRole \<Rightarrow> string result" where
  "transportMessageRole RoleSystem = Inr ''system''"
| "transportMessageRole RoleUser = Inr ''user''"
| "transportMessageRole RoleAssistant = Inr ''assistant''"
| "transportMessageRole RoleTool = Inr ''tool''"

fun transportPlanStatus :: "planStatus \<Rightarrow> string result" where
  "transportPlanStatus PlanDraft = Inr ''draft''"
| "transportPlanStatus PlanActive = Inr ''active''"
| "transportPlanStatus PlanCompleted = Inr ''completed''"

fun transportTaskStatus :: "taskStatus \<Rightarrow> string result" where
  "transportTaskStatus TaskPending = Inr ''pending''"
| "transportTaskStatus TaskInProgress = Inr ''in_progress''"
| "transportTaskStatus TaskCompleted = Inr ''completed''"

text \<open>The \<^verbatim>\<open>switch\<close> of the code; its default answers an error.\<close>

fun transportEventKind :: "eventKind \<Rightarrow> string result" where
  "transportEventKind PlanStarted = Inr ''plan_started''"
| "transportEventKind PlanUpdated = Inr ''plan_updated''"
| "transportEventKind PlanTaskUpdated = Inr ''plan_task_updated''"
| "transportEventKind InputConsumed = Inr ''input_consumed''"
| "transportEventKind UserInputAnswered = Inr ''user_input_answered''"
| "transportEventKind UserInputCancelled = Inr ''user_input_cancelled''"
| "transportEventKind SnapshotRequired = Inr ''snapshot_required''"
| "transportEventKind SteeringApplied = Inr ''steering_applied''"
| "transportEventKind CompactionFailed = Inr ''compaction_failed''"
| "transportEventKind Compacted = Inr ''compacted''"
| "transportEventKind ModelStarted = Inr ''model_started''"
| "transportEventKind ModelFailed = Inr ''model_failed''"
| "transportEventKind ModelCompleted = Inr ''model_completed''"
| "transportEventKind ModelToolCall = Inr ''model_tool_call''"
| "transportEventKind UserInputRequested = Inr ''user_input_requested''"
| "transportEventKind ToolApprovalRequested = Inr ''tool_approval_requested''"
| "transportEventKind ToolApprovalResolved = Inr ''tool_approval_resolved''"
| "transportEventKind TimerStarted = Inr ''timer_started''"
| "transportEventKind TimerResolved = Inr ''timer_resolved''"
| "transportEventKind ToolProgress = Inr ''tool_progress''"
| "transportEventKind ToolFailed = Inr ''tool_failed''"
| "transportEventKind ToolRecoveryRequired = Inr ''tool_recovery_required''"
| "transportEventKind ToolRecoveryResolved = Inr ''tool_recovery_resolved''"
| "transportEventKind ToolCompleted = Inr ''tool_completed''"
| "transportEventKind kind = Inl (EnumValidationError ''EventKind'' (eventKindText kind))"

section \<open>Values\<close>

text \<open>A loop that maps and stops at the first error.\<close>

fun mapResult :: "('a \<Rightarrow> 'b result) \<Rightarrow> 'a list \<Rightarrow> 'b list result" where
  "mapResult f [] = Inr []"
| "mapResult f (x # xs) =
     (case f x of Inl e \<Rightarrow> Inl e | Inr y \<Rightarrow> (case mapResult f xs of Inl e \<Rightarrow> Inl e | Inr ys \<Rightarrow> Inr (y # ys)))"

lemma mapResult_Inr: "mapResult f xs = Inr ys \<longleftrightarrow> list_all2 (\<lambda>x y. f x = Inr y) xs ys"
  by (induction xs arbitrary: ys) (auto simp: list_all2_Cons1 split: sum.splits, metis Inr_inject)

lemma mapResult_total: "(\<And>x. x \<in> set xs \<Longrightarrow> f x = Inr (g x)) \<Longrightarrow> mapResult f xs = Inr (map g xs)"
  by (induction xs) auto

lemma mapResult_error: "(\<exists>e. mapResult f xs = Inl e) \<longleftrightarrow> (\<exists>x \<in> set xs. \<exists>e. f x = Inl e)"
  by (induction xs) (auto split: sum.splits)

definition transportOptionalDateTime :: "goTime option \<Rightarrow> goTime optNil" where
  "transportOptionalDateTime value =
     (case value of None \<Rightarrow> OptNull | Some t \<Rightarrow> if timeIsZero t then OptNull else OptValue t)"

definition transportNilDateTime :: "goTime option \<Rightarrow> goTime option" where
  "transportNilDateTime value =
     (case value of None \<Rightarrow> None | Some t \<Rightarrow> if timeIsZero t then None else Some t)"

definition transportAgentMessage :: "agentMessage \<Rightarrow> apiMessage result" where
  "transportAgentMessage message =
     (case transportMessageRole (msgRole message) of
        Inl e \<Rightarrow> Inl e
      | Inr role \<Rightarrow> Inr \<lparr>
          amsRole = role,
          amsContent = msgContent message,
          amsToolCalls = map (\<lambda>call. \<lparr>atcID = tcID call, atcName = tcName call, atcArgumentsJson = tcArguments call\<rparr>)
            (msgToolCalls message),
          amsToolCallId = msgToolCallID message,
          amsToolName = msgToolName message,
          amsAnsweredInputCallId = (case msgAnsweredInputCallID message of None \<Rightarrow> OptNull | Some i \<Rightarrow> OptValue i),
          amsCreatedAt = msgCreatedAt message,
          amsStartedAt = transportOptionalDateTime (msgStartedAt message)\<rparr>)"

definition transportSequencedMessage :: "sequencedMessage \<Rightarrow> apiSequencedMessage result" where
  "transportSequencedMessage message =
     (case transportAgentMessage (smMessage message) of
        Inl e \<Rightarrow> Inl e
      | Inr mapped \<Rightarrow> Inr \<lparr>asmSequence = smSequence message, asmMessage = mapped\<rparr>)"

definition transportHistoryPage :: "historyPage \<Rightarrow> apiHistoryPage result" where
  "transportHistoryPage page =
     (case mapResult transportSequencedMessage (hpMessages page) of
        Inl e \<Rightarrow> Inl e
      | Inr messages \<Rightarrow> Inr \<lparr>ahpMessages = messages, ahpNextBeforeSequence = hpNextBefore page\<rparr>)"

definition transportOptionalPendingToolRecovery :: "pendingToolRecovery option \<Rightarrow> apiPendingToolRecovery option" where
  "transportOptionalPendingToolRecovery pending =
     (case pending of
        None \<Rightarrow> None
      | Some p \<Rightarrow> Some \<lparr>
          aprRecoveryId = ptrRecoveryID p,
          aprCalls = map (\<lambda>call. \<lparr>aprcCallId = ptrcCallID call, aprcToolName = ptrcToolName call,
            aprcArgumentsJson = ptrcArguments call, aprcErrorType = ptrcErrorType call\<rparr>) (ptrCalls p),
          aprStartedAt = transportOptionalDateTime (ptrStartedAt p)\<rparr>)"

definition transportPendingUserMessages :: "pendingUserMessage list \<Rightarrow> apiPendingUserMessage list" where
  "transportPendingUserMessages messages =
     map (\<lambda>m. \<lparr>apmMessageId = pumMessageID m,
       apmValue = \<lparr>aumContent = umContent (pumValue m), aumPlanMode = umPlanMode (pumValue m)\<rparr>\<rparr>) messages"

definition transportOptionalPendingApproval :: "pendingApproval option \<Rightarrow> apiPendingApproval option" where
  "transportOptionalPendingApproval pending =
     (case pending of
        None \<Rightarrow> None
      | Some p \<Rightarrow> Some \<lparr>apaCallId = paCallID p, apaToolName = paToolName p, apaArgumentsJson = paArguments p,
          apaStartedAt = transportOptionalDateTime (paStartedAt p)\<rparr>)"

definition transportOptionalPendingTimer :: "pendingTimer option \<Rightarrow> apiPendingTimer option" where
  "transportOptionalPendingTimer pending =
     (case pending of
        None \<Rightarrow> None
      | Some p \<Rightarrow> Some \<lparr>aptmCallId = ptmCallID p, aptmDurationSeconds = ptmDurationSeconds p,
          aptmReason = ptmReason p, aptmStartedAt = transportOptionalDateTime (ptmStartedAt p)\<rparr>)"

definition transportQuestion :: "userInputQuestion \<Rightarrow> apiQuestion" where
  "transportQuestion question = \<lparr>
     aquID = uiqID question, aquHeader = uiqHeader question, aquQuestion = uiqQuestion question,
     aquOptions = map (\<lambda>opt. \<lparr>aopLabel = uioLabel opt, aopDescription = uioDescription opt\<rparr>) (uiqOptions question)\<rparr>"

definition transportOptionalPendingUserInput :: "pendingUserInput option \<Rightarrow> apiPendingUserInput option" where
  "transportOptionalPendingUserInput pending =
     (case pending of
        None \<Rightarrow> None
      | Some p \<Rightarrow> Some \<lparr>apuCallId = puiCallID p, apuQuestions = map transportQuestion (puiQuestions p),
          apuStartedAt = transportOptionalDateTime (puiStartedAt p)\<rparr>)"

definition transportOptionalAgentPlan :: "agentPlan option \<Rightarrow> apiPlan option result" where
  "transportOptionalAgentPlan plan =
     (case plan of
        None \<Rightarrow> Inr None
      | Some p \<Rightarrow>
          (case transportPlanStatus (planStatusOf p) of
             Inl e \<Rightarrow> Inl e
           | Inr status \<Rightarrow>
               (case mapResult (\<lambda>task. case transportTaskStatus (ptStatus task) of
                        Inl e \<Rightarrow> Inl e
                      | Inr taskStatus \<Rightarrow> Inr \<lparr>aptContent = ptContent task, aptStatus = taskStatus\<rparr>) (planTasks p) of
                  Inl e \<Rightarrow> Inl e
                | Inr tasks \<Rightarrow> Inr (Some \<lparr>aplRevision = planRevision p, aplStatus = status, aplTasks = tasks\<rparr>))))"

definition transportAgentDescription :: "agentDescription \<Rightarrow> apiDescription result" where
  "transportAgentDescription description =
     (case transportAgentStatus (dStatus description) of
        Inl e \<Rightarrow> Inl e
      | Inr status \<Rightarrow>
          (case transportOptionalAgentPlan (dPlan description) of
             Inl e \<Rightarrow> Inl e
           | Inr plan \<Rightarrow> Inr \<lparr>
               adStatus = status,
               adWaitingInputRound = dWaitingInputRound description,
               adModel = dModel description,
               adSystemPrompt = dSystemPrompt description,
               adFirstRetainedSequence = dFirstRetained description,
               adLastSequence = dLastSequence description,
               adSummarizedThroughSequence = dSummarizedThrough description,
               adPendingApproval = transportOptionalPendingApproval (dPendingApproval description),
               adPendingToolRecovery = transportOptionalPendingToolRecovery (dPendingToolRecovery description),
               adPendingTimer = transportOptionalPendingTimer (dPendingTimer description),
               adPendingUserInput = transportOptionalPendingUserInput (dPendingUserInput description),
               adPlan = plan,
               adIsPlanExecutionRequested = dIsPlanExecutionRequested description,
               adPendingQueuedMessageCount = dPendingQueuedCount description,
               adPendingSteeredMessageCount = dPendingSteeredCount description,
               adAvailableMcpServers = dAvailableMCPServers description,
               adAvailableTools = dAvailableTools description,
               adInactivityDeadline = transportNilDateTime (dInactivityDeadline description)\<rparr>))"

definition transportSnapshot :: "agentSnapshot \<Rightarrow> apiSnapshot result" where
  "transportSnapshot snapshot =
     (case transportHistoryPage (snapHistory snapshot) of
        Inl e \<Rightarrow> Inl e
      | Inr page \<Rightarrow>
          (case transportAgentDescription (snapDescription snapshot) of
             Inl e \<Rightarrow> Inl e
           | Inr description \<Rightarrow> Inr \<lparr>
               asnRunId = snapRunID snapshot, asnHistory = page, asnDescription = description,
               asnQueued = transportPendingUserMessages (snapQueued snapshot),
               asnSteered = transportPendingUserMessages (snapSteered snapshot)\<rparr>))"

section \<open>Events\<close>

definition transportActivity :: "agentEvent \<Rightarrow> apiEvent result" where
  "transportActivity ev =
     (case transportEventKind (evKind ev) of
        Inl e \<Rightarrow> Inl e
      | Inr kind \<Rightarrow>
          (case (case evPlanTaskStatus ev of
                   None \<Rightarrow> Inr OptUnset
                 | Some s \<Rightarrow> (case transportTaskStatus s of Inl e \<Rightarrow> Inl e | Inr status \<Rightarrow> Inr (OptValue status))) of
             Inl e \<Rightarrow> Inl e
           | Inr planTaskStatus \<Rightarrow> Inr \<lparr>
               aevKind = kind,
               aevMessage = evMessage ev,
               aevCallId = evCallID ev,
               aevToolName = evToolName ev,
               aevMessageSequence = evMessageSequence ev,
               aevPlanBaseRevision = (case evPlanBaseRevision ev of None \<Rightarrow> OptUnset | Some r \<Rightarrow> OptValue r),
               aevPlanRevision = (case evPlanRevision ev of None \<Rightarrow> OptUnset | Some r \<Rightarrow> OptValue r),
               aevPlanTaskIndex = (case evPlanTaskIndex ev of None \<Rightarrow> OptUnset | Some i \<Rightarrow> OptValue i),
               aevPlanTaskStatus = planTaskStatus,
               aevInputConsumption = (case evInputConsumption ev of
                   None \<Rightarrow> None
                 | Some c \<Rightarrow> Some \<lparr>aicQueuedMessageIds = icQueued c, aicSteeredMessageIds = icSteered c,
                     aicPlanExecutionRevision = icPlanExecution c\<rparr>),
               aevAttempt = (case evAttempt ev of None \<Rightarrow> OptNull | Some n \<Rightarrow> OptValue n)\<rparr>))"

text \<open>Only an activity event carries an activity; the zero activity has the empty kind.\<close>

definition transportStreamEvent :: "streamEvent \<Rightarrow> apiStreamEvent result" where
  "transportStreamEvent ev =
     (case seKind ev of
        KindReasoning \<Rightarrow> Inr (ReasoningStreamEvent \<lparr>ateKind = ''reasoning_summary'', ateValue = seText ev,
          ateResumeToken = seResumeToken ev, ateCreatedAt = seCreatedAt ev, ateSource = seSource ev\<rparr>)
      | KindAssistant \<Rightarrow> Inr (AssistantStreamEvent \<lparr>ateKind = ''assistant_text'', ateValue = seText ev,
          ateResumeToken = seResumeToken ev, ateCreatedAt = seCreatedAt ev, ateSource = seSource ev\<rparr>)
      | KindActivity \<Rightarrow>
          (case (case seActivity ev of
                   None \<Rightarrow> Inl (EnumValidationError ''EventKind'' [])
                 | Some activity \<Rightarrow> transportActivity activity) of
             Inl e \<Rightarrow> Inl e
           | Inr activity \<Rightarrow> Inr (ActivityStreamEvent \<lparr>aaeKind = ''activity'', aaeValue = activity,
               aaeResumeToken = seResumeToken ev, aaeCreatedAt = seCreatedAt ev, aaeSource = seSource ev\<rparr>)))"

end
