(* ===== verification/Contracts.thy ===== *)
theory Contracts
  imports Transport
begin

text \<open>
  The validators of \<^verbatim>\<open>internal/api/generated/oas_validators_gen.go\<close>. The server runs them on
  every request it decodes and on every response before it is written. A validator collects
  the faults of all fields, in order, under the names of the fields; the faults of a leaf (a
  length, a range, an enumeration) are not distinguished. A nil slice is invalid in the
  generated code; the handler and the decoders always allocate theirs.
\<close>

section \<open>Faults\<close>

datatype fault = Fault | InField string "fault list"

definition fieldFaults :: "string \<Rightarrow> fault list \<Rightarrow> fault list" where
  "fieldFaults name faults = (if faults = [] then [] else [InField name faults])"

definition unless :: "bool \<Rightarrow> fault list" where
  "unless ok = (if ok then [] else [Fault])"

text \<open>Lengths of strings count runes; \<open>None\<close> is a limit that is not set.\<close>

definition textFaults :: "nat \<Rightarrow> nat option \<Rightarrow> string \<Rightarrow> fault list" where
  "textFaults low high s =
     unless (low \<le> runeCount s \<and> (case high of None \<Rightarrow> True | Some h \<Rightarrow> runeCount s \<le> h))"

definition intFaults :: "int \<Rightarrow> int option \<Rightarrow> int \<Rightarrow> fault list" where
  "intFaults low high i = unless (low \<le> i \<and> (case high of None \<Rightarrow> True | Some h \<Rightarrow> i \<le> h))"

fun elementFaults :: "nat \<Rightarrow> ('a \<Rightarrow> fault list) \<Rightarrow> 'a list \<Rightarrow> fault list" where
  "elementFaults i faults [] = []"
| "elementFaults i faults (x # xs) =
     fieldFaults (''['' @ showNat i @ '']'') (faults x) @ elementFaults (Suc i) faults xs"

definition listFaults :: "nat \<Rightarrow> nat option \<Rightarrow> ('a \<Rightarrow> fault list) \<Rightarrow> 'a list \<Rightarrow> fault list" where
  "listFaults low high faults xs =
     (if low \<le> length xs \<and> (case high of None \<Rightarrow> True | Some h \<Rightarrow> length xs \<le> h)
      then elementFaults 0 faults xs else [Fault])"

definition nilFaults :: "('a \<Rightarrow> fault list) \<Rightarrow> 'a option \<Rightarrow> fault list" where
  "nilFaults faults value = (case value of None \<Rightarrow> [] | Some x \<Rightarrow> faults x)"

definition optNilFaults :: "('a \<Rightarrow> fault list) \<Rightarrow> 'a optNil \<Rightarrow> fault list" where
  "optNilFaults faults value = (case value of OptValue x \<Rightarrow> faults x | _ \<Rightarrow> [])"

lemma fieldFaults_Nil [simp]: "fieldFaults name faults = [] \<longleftrightarrow> faults = []"
  by (simp add: fieldFaults_def)

lemma unless_Nil [simp]: "unless ok = [] \<longleftrightarrow> ok"
  by (simp add: unless_def)

lemma textFaults_Nil [simp]:
  "textFaults low high s = [] \<longleftrightarrow> low \<le> runeCount s \<and> (\<forall>h. high = Some h \<longrightarrow> runeCount s \<le> h)"
  by (simp add: textFaults_def split: option.split)

lemma intFaults_Nil [simp]: "intFaults low high i = [] \<longleftrightarrow> low \<le> i \<and> (\<forall>h. high = Some h \<longrightarrow> i \<le> h)"
  by (simp add: intFaults_def split: option.split)

lemma elementFaults_Nil [simp]: "elementFaults i faults xs = [] \<longleftrightarrow> (\<forall>x \<in> set xs. faults x = [])"
  by (induction xs arbitrary: i) simp_all

lemma listFaults_Nil [simp]:
  "listFaults low high faults xs = [] \<longleftrightarrow>
     low \<le> length xs \<and> (\<forall>h. high = Some h \<longrightarrow> length xs \<le> h) \<and> (\<forall>x \<in> set xs. faults x = [])"
  by (auto simp: listFaults_def split: option.splits)

lemma nilFaults_Nil [simp]: "nilFaults faults value = [] \<longleftrightarrow> (\<forall>x. value = Some x \<longrightarrow> faults x = [])"
  by (simp add: nilFaults_def split: option.split)

lemma optNilFaults_Nil [simp]: "optNilFaults faults value = [] \<longleftrightarrow> (\<forall>x. value = OptValue x \<longrightarrow> faults x = [])"
  by (simp add: optNilFaults_def split: optNil.split)

section \<open>Identities and enumerations\<close>

definition maxSafe :: int where "maxSafe = 9007199254740991"

definition callIDFaults :: "string \<Rightarrow> fault list" where "callIDFaults = textFaults 1 (Some 255)"
definition flowIDFaults :: "string \<Rightarrow> fault list" where "flowIDFaults = textFaults 1 (Some 255)"
definition messageIDFaults :: "string \<Rightarrow> fault list" where "messageIDFaults = textFaults 1 (Some 256)"
definition runIDFaults :: "string \<Rightarrow> fault list" where "runIDFaults = textFaults 1 (Some 255)"
definition toolNameFaults :: "string \<Rightarrow> fault list" where "toolNameFaults = textFaults 1 (Some 64)"
definition resumeTokenFaults :: "string \<Rightarrow> fault list" where "resumeTokenFaults = textFaults 0 (Some 4096)"
definition sequenceFaults :: "int \<Rightarrow> fault list" where "sequenceFaults = intFaults 1 (Some maxSafe)"
definition waitingInputRoundFaults :: "int \<Rightarrow> fault list" where "waitingInputRoundFaults = intFaults 0 (Some maxSafe)"

definition agentStatusFaults :: "string \<Rightarrow> fault list" where
  "agentStatusFaults s = unless (s \<in> set [''initializing'', ''waiting_for_message'', ''compacting_context'',
     ''calling_model'', ''routing_tool'', ''waiting_for_tool_approval'', ''waiting_for_tool_recovery'',
     ''executing_tool'', ''waiting_for_timer'', ''applying_steering'', ''expiring''])"

definition messageRoleFaults :: "string \<Rightarrow> fault list" where
  "messageRoleFaults s = unless (s \<in> set [''system'', ''user'', ''assistant'', ''tool''])"

definition planStatusFaults :: "string \<Rightarrow> fault list" where
  "planStatusFaults s = unless (s \<in> set [''draft'', ''active'', ''completed''])"

definition taskStatusFaults :: "string \<Rightarrow> fault list" where
  "taskStatusFaults s = unless (s \<in> set [''pending'', ''in_progress'', ''completed''])"

definition eventKindFaults :: "string \<Rightarrow> fault list" where
  "eventKindFaults s = unless (s \<in> set [''plan_started'', ''plan_updated'', ''plan_task_updated'', ''input_consumed'',
     ''user_input_answered'', ''user_input_cancelled'', ''snapshot_required'', ''steering_applied'',
     ''compaction_failed'', ''compacted'', ''model_started'', ''model_failed'', ''model_completed'',
     ''model_tool_call'', ''user_input_requested'', ''tool_approval_requested'', ''tool_approval_resolved'',
     ''timer_started'', ''timer_resolved'', ''tool_progress'', ''tool_failed'', ''tool_completed'',
     ''tool_recovery_required'', ''tool_recovery_resolved'', ''inactivity_expired''])"

definition eventStreamFaults :: "string \<Rightarrow> fault list" where
  "eventStreamFaults s = unless (s \<in> set [''reasoning'', ''assistant'', ''activity''])"

definition providerFaults :: "string \<Rightarrow> fault list" where
  "providerFaults s = unless (s \<in> set [''mock'', ''openai'', ''anthropic'', ''gemini'', ''groq''])"

definition recoveryActionFaults :: "string \<Rightarrow> fault list" where
  "recoveryActionFaults s = unless (s \<in> set [''retry'', ''continue_with_unknown''])"

definition recoveryResolutionFaults :: "string \<Rightarrow> fault list" where
  "recoveryResolutionFaults s = unless (s \<in> set [''resume'', ''stop''])"

section \<open>Messages\<close>

definition toolCallFaults :: "apiToolCall \<Rightarrow> fault list" where
  "toolCallFaults s =
     fieldFaults ''id'' (callIDFaults (atcID s)) @
     fieldFaults ''name'' (toolNameFaults (atcName s)) @
     fieldFaults ''argumentsJson'' (textFaults 2 None (atcArgumentsJson s))"

definition agentMessageFaults :: "apiMessage \<Rightarrow> fault list" where
  "agentMessageFaults s =
     fieldFaults ''role'' (messageRoleFaults (amsRole s)) @
     fieldFaults ''toolCalls'' (listFaults 0 None toolCallFaults (amsToolCalls s)) @
     fieldFaults ''toolCallId'' (nilFaults callIDFaults (amsToolCallId s)) @
     fieldFaults ''toolName'' (nilFaults toolNameFaults (amsToolName s)) @
     fieldFaults ''answeredInputCallId'' (optNilFaults callIDFaults (amsAnsweredInputCallId s))"

definition sequencedMessageFaults :: "apiSequencedMessage \<Rightarrow> fault list" where
  "sequencedMessageFaults s =
     fieldFaults ''sequence'' (sequenceFaults (asmSequence s)) @
     fieldFaults ''message'' (agentMessageFaults (asmMessage s))"

definition historyPageFaults :: "apiHistoryPage \<Rightarrow> fault list" where
  "historyPageFaults s =
     fieldFaults ''messages'' (listFaults 0 (Some 200) sequencedMessageFaults (ahpMessages s)) @
     fieldFaults ''nextBeforeSequence'' (nilFaults sequenceFaults (ahpNextBeforeSequence s))"

definition userMessageFaults :: "apiUserMessage \<Rightarrow> fault list" where
  "userMessageFaults s = fieldFaults ''content'' (textFaults 1 (Some 1000000) (aumContent s))"

definition pendingUserMessageFaults :: "apiPendingUserMessage \<Rightarrow> fault list" where
  "pendingUserMessageFaults s =
     fieldFaults ''messageId'' (messageIDFaults (apmMessageId s)) @
     fieldFaults ''value'' (userMessageFaults (apmValue s))"

section \<open>The description and the snapshot\<close>

definition planTaskFaults :: "apiPlanTask \<Rightarrow> fault list" where
  "planTaskFaults s =
     fieldFaults ''content'' (textFaults 1 None (aptContent s)) @
     fieldFaults ''status'' (taskStatusFaults (aptStatus s))"

definition agentPlanFaults :: "apiPlan \<Rightarrow> fault list" where
  "agentPlanFaults s =
     fieldFaults ''revision'' (intFaults 1 (Some maxSafe) (aplRevision s)) @
     fieldFaults ''status'' (planStatusFaults (aplStatus s)) @
     fieldFaults ''tasks'' (listFaults 0 None planTaskFaults (aplTasks s))"

definition pendingApprovalFaults :: "apiPendingApproval \<Rightarrow> fault list" where
  "pendingApprovalFaults s =
     fieldFaults ''callId'' (callIDFaults (apaCallId s)) @
     fieldFaults ''toolName'' (toolNameFaults (apaToolName s)) @
     fieldFaults ''argumentsJson'' (textFaults 2 None (apaArgumentsJson s))"

definition pendingTimerFaults :: "apiPendingTimer \<Rightarrow> fault list" where
  "pendingTimerFaults s =
     fieldFaults ''callId'' (callIDFaults (aptmCallId s)) @
     fieldFaults ''durationSeconds'' (intFaults 1 None (aptmDurationSeconds s))"

definition pendingToolRecoveryCallFaults :: "apiPendingToolRecoveryCall \<Rightarrow> fault list" where
  "pendingToolRecoveryCallFaults s =
     fieldFaults ''callId'' (callIDFaults (aprcCallId s)) @
     fieldFaults ''toolName'' (toolNameFaults (aprcToolName s)) @
     fieldFaults ''argumentsJson'' (textFaults 2 None (aprcArgumentsJson s)) @
     fieldFaults ''errorType'' (textFaults 1 (Some 256) (aprcErrorType s))"

definition pendingToolRecoveryFaults :: "apiPendingToolRecovery \<Rightarrow> fault list" where
  "pendingToolRecoveryFaults s =
     fieldFaults ''recoveryId'' (textFaults 1 None (aprRecoveryId s)) @
     fieldFaults ''calls'' (listFaults 1 (Some 32) pendingToolRecoveryCallFaults (aprCalls s))"

definition userInputOptionFaults :: "apiOption \<Rightarrow> fault list" where
  "userInputOptionFaults s =
     fieldFaults ''label'' (textFaults 1 None (aopLabel s)) @
     fieldFaults ''description'' (textFaults 1 None (aopDescription s))"

definition userInputQuestionFaults :: "apiQuestion \<Rightarrow> fault list" where
  "userInputQuestionFaults s =
     fieldFaults ''id'' (textFaults 1 (Some 255) (aquID s)) @
     fieldFaults ''header'' (textFaults 1 (Some 32) (aquHeader s)) @
     fieldFaults ''question'' (textFaults 1 None (aquQuestion s)) @
     fieldFaults ''options'' (listFaults 2 (Some 3) userInputOptionFaults (aquOptions s))"

definition pendingUserInputFaults :: "apiPendingUserInput \<Rightarrow> fault list" where
  "pendingUserInputFaults s =
     fieldFaults ''callId'' (callIDFaults (apuCallId s)) @
     fieldFaults ''questions'' (listFaults 1 (Some 3) userInputQuestionFaults (apuQuestions s))"

definition agentDescriptionFaults :: "apiDescription \<Rightarrow> fault list" where
  "agentDescriptionFaults s =
     fieldFaults ''status'' (agentStatusFaults (adStatus s)) @
     fieldFaults ''waitingInputRound'' (waitingInputRoundFaults (adWaitingInputRound s)) @
     fieldFaults ''firstRetainedSequence'' (intFaults 0 (Some maxSafe) (adFirstRetainedSequence s)) @
     fieldFaults ''lastSequence'' (intFaults 0 (Some maxSafe) (adLastSequence s)) @
     fieldFaults ''summarizedThroughSequence'' (intFaults 0 (Some maxSafe) (adSummarizedThroughSequence s)) @
     fieldFaults ''pendingApproval'' (nilFaults pendingApprovalFaults (adPendingApproval s)) @
     fieldFaults ''pendingToolRecovery'' (nilFaults pendingToolRecoveryFaults (adPendingToolRecovery s)) @
     fieldFaults ''pendingTimer'' (nilFaults pendingTimerFaults (adPendingTimer s)) @
     fieldFaults ''pendingUserInput'' (nilFaults pendingUserInputFaults (adPendingUserInput s)) @
     fieldFaults ''plan'' (nilFaults agentPlanFaults (adPlan s)) @
     fieldFaults ''pendingQueuedMessageCount'' (intFaults 0 None (adPendingQueuedMessageCount s)) @
     fieldFaults ''pendingSteeredMessageCount'' (intFaults 0 None (adPendingSteeredMessageCount s)) @
     fieldFaults ''availableMcpServers'' (listFaults 0 None (textFaults 1 None) (adAvailableMcpServers s)) @
     fieldFaults ''availableTools'' (listFaults 0 None toolNameFaults (adAvailableTools s))"

definition agentSnapshotFaults :: "apiSnapshot \<Rightarrow> fault list" where
  "agentSnapshotFaults s =
     fieldFaults ''runId'' (runIDFaults (asnRunId s)) @
     fieldFaults ''history'' (historyPageFaults (asnHistory s)) @
     fieldFaults ''description'' (agentDescriptionFaults (asnDescription s)) @
     fieldFaults ''queued'' (listFaults 0 None pendingUserMessageFaults (asnQueued s)) @
     fieldFaults ''steered'' (listFaults 0 None pendingUserMessageFaults (asnSteered s))"

section \<open>Events\<close>

definition inputConsumptionFaults :: "apiInputConsumption \<Rightarrow> fault list" where
  "inputConsumptionFaults s =
     fieldFaults ''queuedMessageIds'' (listFaults 0 None messageIDFaults (aicQueuedMessageIds s)) @
     fieldFaults ''steeredMessageIds'' (listFaults 0 None messageIDFaults (aicSteeredMessageIds s)) @
     fieldFaults ''planExecutionRevision'' (nilFaults (intFaults 1 (Some maxSafe)) (aicPlanExecutionRevision s))"

definition agentEventFaults :: "apiEvent \<Rightarrow> fault list" where
  "agentEventFaults s =
     fieldFaults ''kind'' (eventKindFaults (aevKind s)) @
     fieldFaults ''callId'' (nilFaults callIDFaults (aevCallId s)) @
     fieldFaults ''toolName'' (nilFaults toolNameFaults (aevToolName s)) @
     fieldFaults ''messageSequence'' (nilFaults sequenceFaults (aevMessageSequence s)) @
     fieldFaults ''planBaseRevision'' (optNilFaults (intFaults 1 (Some maxSafe)) (aevPlanBaseRevision s)) @
     fieldFaults ''planRevision'' (optNilFaults (intFaults 1 (Some maxSafe)) (aevPlanRevision s)) @
     fieldFaults ''planTaskIndex'' (optNilFaults (intFaults 0 None) (aevPlanTaskIndex s)) @
     fieldFaults ''planTaskStatus'' (optNilFaults taskStatusFaults (aevPlanTaskStatus s)) @
     fieldFaults ''inputConsumption'' (nilFaults inputConsumptionFaults (aevInputConsumption s)) @
     fieldFaults ''attempt'' (optNilFaults (intFaults 1 None) (aevAttempt s))"

text \<open>A text event is validated against the kind its type prescribes.\<close>

definition textEventFaults :: "string \<Rightarrow> apiTextEvent \<Rightarrow> fault list" where
  "textEventFaults kind s =
     fieldFaults ''resumeToken'' (resumeTokenFaults (ateResumeToken s)) @
     fieldFaults ''source'' (textFaults 1 None (ateSource s)) @
     fieldFaults ''kind'' (unless (ateKind s = kind))"

definition activityEventFaults :: "apiActivityEvent \<Rightarrow> fault list" where
  "activityEventFaults s =
     fieldFaults ''kind'' (unless (aaeKind s = ''activity'')) @
     fieldFaults ''value'' (agentEventFaults (aaeValue s)) @
     fieldFaults ''resumeToken'' (resumeTokenFaults (aaeResumeToken s)) @
     fieldFaults ''source'' (textFaults 1 None (aaeSource s))"

fun streamEventFaults :: "apiStreamEvent \<Rightarrow> fault list" where
  "streamEventFaults (ReasoningStreamEvent s) = textEventFaults ''reasoning_summary'' s"
| "streamEventFaults (AssistantStreamEvent s) = textEventFaults ''assistant_text'' s"
| "streamEventFaults (ActivityStreamEvent s) = activityEventFaults s"

definition recentEventsFaults :: "apiStreamEvent list \<Rightarrow> fault list" where
  "recentEventsFaults events = fieldFaults ''events'' (listFaults 0 (Some 1000) streamEventFaults events)"

end
