(* ===== verification/Handler.thy ===== *)
theory Handler
  imports Contracts
begin

text \<open>
  The operations of the HTTP API, \<^verbatim>\<open>internal/api/handler.go\<close>, with the server around them: a
  request that violates the contract is answered by the error handler of \<^verbatim>\<open>server.go\<close>, and so
  is a response that does. The logging of failures is left out, and the JSON text of bodies.
\<close>

section \<open>Problems and failures\<close>

record problem =
  prTitle :: string
  prStatus :: int
  prDetail :: string

datatype failureType = BadRequest | NotFound | Conflict | Gone | ServiceUnavailable

datatype 'a response = Answer 'a | Failure failureType problem | PollTimeout

definition newProblem :: "int \<Rightarrow> string \<Rightarrow> string \<Rightarrow> problem" where
  "newProblem status title detail = \<lparr>prTitle = title, prStatus = status, prDetail = detail\<rparr>"

definition unavailable :: "string \<Rightarrow> 'a response" where
  "unavailable detail = Failure ServiceUnavailable (newProblem 503 ''Service Unavailable'' detail)"

datatype failureKind = FailureUnavailable | FailureNotFound | FailureConflict

definition isExternal :: "string \<Rightarrow> goError \<Rightarrow> bool" where
  "isExternal t e \<longleftrightarrow> (case e of External t' \<Rightarrow> t' = t | _ \<Rightarrow> False)"

definition isConflict :: "goError \<Rightarrow> bool" where
  "isConflict e \<longleftrightarrow>
     (case e of
        External t \<Rightarrow> t \<in> set [''*dex.RPCLockConflictError'', ''*dex.FlowNotActiveError'',
          ''*dex.FlowAlreadyStartedError'', ''*dex.ChannelMessageNotFoundError'']
      | ChannelMessageNotFoundError i \<Rightarrow> True
      | CommandRejectedError c \<Rightarrow> True
      | PendingMessageNotFoundError i \<Rightarrow> True
      | _ \<Rightarrow> False)"

definition isArchivedNotFound :: "goError \<Rightarrow> bool" where
  "isArchivedNotFound e \<longleftrightarrow> (case e of ArchivedMessagesNotFoundError n \<Rightarrow> True | _ \<Rightarrow> False)"

definition classifyFailure :: "goError \<Rightarrow> failureKind" where
  "classifyFailure e =
     (if anyError (isExternal ''*dex.FlowNotFoundError'') e then FailureNotFound
      else if anyError isArchivedNotFound e then FailureNotFound
      else if anyError isConflict e then FailureConflict
      else FailureUnavailable)"

definition commandProblem :: "goError \<Rightarrow> problem \<times> failureKind" where
  "commandProblem e =
     (case classifyFailure e of
        FailureNotFound \<Rightarrow> (newProblem 404 ''Not Found'' ''the Agent Flow does not exist'', FailureNotFound)
      | FailureConflict \<Rightarrow> (newProblem 409 ''Conflict'' ''the command conflicts with current durable state'', FailureConflict)
      | FailureUnavailable \<Rightarrow>
          (newProblem 503 ''Service Unavailable'' ''the command could not be completed'', FailureUnavailable))"

text \<open>\<^verbatim>\<open>sendMessageError\<close>, \<^verbatim>\<open>answerQuestionsError\<close>, \<^verbatim>\<open>approveToolError\<close>, \<^verbatim>\<open>resolveToolRecoveryError\<close>.\<close>

definition commandError :: "goError \<Rightarrow> 'a response" where
  "commandError e =
     (case commandProblem e of
        (p, FailureNotFound) \<Rightarrow> Failure NotFound p
      | (p, FailureConflict) \<Rightarrow> Failure Conflict p
      | (p, FailureUnavailable) \<Rightarrow> Failure ServiceUnavailable p)"

definition flowMissing :: "'a response" where
  "flowMissing = Failure NotFound (newProblem 404 ''Not Found'' ''the Agent Flow does not exist'')"

definition startError :: "goError \<Rightarrow> 'a response" where
  "startError e =
     (case classifyFailure e of
        FailureConflict \<Rightarrow> Failure Conflict (newProblem 409 ''Conflict'' ''the Flow ID has already been used'')
      | _ \<Rightarrow> unavailable ''the Agent Flow could not be started'')"

definition executePlanError :: "goError \<Rightarrow> 'a response" where
  "executePlanError e =
     (case classifyFailure e of
        FailureNotFound \<Rightarrow> flowMissing
      | FailureConflict \<Rightarrow> Failure Conflict (newProblem 409 ''Conflict''
          ''the Agent is not at an executable wait or the Plan revision changed'')
      | FailureUnavailable \<Rightarrow> unavailable ''the command could not be completed'')"

definition snapshotError :: "goError \<Rightarrow> 'a response" where
  "snapshotError e =
     (case classifyFailure e of
        FailureNotFound \<Rightarrow> flowMissing
      | _ \<Rightarrow> unavailable ''the Agent Snapshot is unavailable'')"

definition archivedMessagesError :: "goError \<Rightarrow> 'a response" where
  "archivedMessagesError e =
     (case classifyFailure e of
        FailureNotFound \<Rightarrow> Failure NotFound (newProblem 404 ''Not Found'' ''the archived message chunk does not exist'')
      | _ \<Rightarrow> unavailable ''the archived messages are unavailable'')"

definition queueError :: "string \<Rightarrow> goError \<Rightarrow> 'a response" where
  "queueError detail e =
     (case classifyFailure e of
        FailureNotFound \<Rightarrow> flowMissing
      | FailureConflict \<Rightarrow> Failure Conflict (newProblem 409 ''Conflict'' ''the queued message is no longer pending'')
      | FailureUnavailable \<Rightarrow> unavailable detail)"

definition deleteQueuedMessageError :: "goError \<Rightarrow> 'a response" where
  "deleteQueuedMessageError = queueError ''the queued message could not be deleted''"

definition steerQueuedMessageError :: "goError \<Rightarrow> 'a response" where
  "steerQueuedMessageError = queueError ''the queued message could not be steered''"

definition deadlineExceeded :: goError where "deadlineExceeded = External ''context.deadlineExceededError''"

text \<open>The context of the request may be over; \<open>ctxError\<close> is its error then.\<close>

definition requestOver :: "goError option \<Rightarrow> goError \<Rightarrow> bool" where
  "requestOver ctxError e \<longleftrightarrow> (case ctxError of None \<Rightarrow> False | Some c \<Rightarrow> anyError (\<lambda>x. x = c) e)"

definition readEventError :: "goError option \<Rightarrow> goError \<Rightarrow> 'a response result" where
  "readEventError ctxError e =
     (if requestOver ctxError e then Inl (the ctxError)
      else if anyError (isExternal ''*dex.LongPollTimeoutError'') e \<or> anyError (\<lambda>x. x = deadlineExceeded) e
      then Inr PollTimeout
      else Inr (case classifyFailure e of
          FailureNotFound \<Rightarrow> flowMissing
        | FailureConflict \<Rightarrow> Failure Gone (newProblem 410 ''Gone'' ''the Agent Flow is no longer active'')
        | FailureUnavailable \<Rightarrow> unavailable ''the event Stream is unavailable''))"

definition listRecentEventsError :: "goError \<Rightarrow> 'a response" where
  "listRecentEventsError e =
     (case classifyFailure e of
        FailureNotFound \<Rightarrow> flowMissing
      | FailureConflict \<Rightarrow> Failure BadRequest (newProblem 400 ''Bad Request'' ''the Stream recovery request is invalid'')
      | FailureUnavailable \<Rightarrow> unavailable ''the recent event Stream is unavailable'')"

definition waitForWaitingInputRoundError :: "goError option \<Rightarrow> goError \<Rightarrow> 'a response result" where
  "waitForWaitingInputRoundError ctxError e =
     (if requestOver ctxError e then Inl (the ctxError)
      else Inr (case classifyFailure e of
          FailureNotFound \<Rightarrow> flowMissing
        | FailureConflict \<Rightarrow> Failure Conflict (newProblem 409 ''Conflict'' ''the Agent Flow is no longer active'')
        | FailureUnavailable \<Rightarrow> unavailable ''the waiting input round is unavailable''))"

section \<open>The handler\<close>

record 'w handler =
  hdAgent :: "'w client"
  hdServerNames :: "string list"
  hdRegisteredTools :: "registeredTool list"
  hdDefinitions :: "string list \<Rightarrow> string list \<Rightarrow> toolDefinition list"
  hdHasAPIKey :: "string \<Rightarrow> provider \<Rightarrow> bool"
  hdRecoveryLimit :: int
  hdReady :: bool
  hdErrorText :: "goError \<Rightarrow> string"

definition badRequest :: "'w handler \<Rightarrow> goError \<Rightarrow> 'a response" where
  "badRequest handler e = Failure BadRequest (newProblem 400 ''Bad Request'' (hdErrorText handler e))"

definition getReadiness :: "'w handler \<Rightarrow> unit response" where
  "getReadiness handler = (if hdReady handler then Answer () else unavailable ''required dependencies are not ready'')"

subsection \<open>Starting an agent\<close>

definition domainProvider :: "string \<Rightarrow> provider result" where
  "domainProvider p =
     (if p = ''mock'' then Inr ProviderMock
      else if p = ''openai'' then Inr ProviderOpenAI
      else if p = ''anthropic'' then Inr ProviderAnthropic
      else if p = ''gemini'' then Inr ProviderGemini
      else if p = ''groq'' then Inr ProviderGroq
      else Inl (EnumValidationError ''Provider'' p))"

definition domainEventStream :: "string \<Rightarrow> eventStream result" where
  "domainEventStream s =
     (if s = ''reasoning'' then Inr StreamReasoning
      else if s = ''assistant'' then Inr StreamAssistant
      else if s = ''activity'' then Inr StreamActivity
      else Inl (EnumValidationError ''EventStream'' s))"

definition qualifyModel :: "provider \<Rightarrow> string \<Rightarrow> string result" where
  "qualifyModel p requested =
     (let model = trimSpace requested in
      if model = [] then Inl (New ''model must not be empty'')
      else if CHR ''/'' \<in> set model then
        (case modelProvider model of
           Inl e \<Rightarrow> Inl e
         | Inr mp \<Rightarrow> if mp \<noteq> p
             then Inl (Errorf ''model provider %q does not match selected provider %q''
                    [ArgStr (providerText mp), ArgStr (providerText p)])
             else Inr model)
      else if p = ProviderMock then Inl (New ''mock model must be mock/dex'')
      else Inr (providerText p @ ''/'' @ model))"

fun providerEnvironmentVariable :: "provider \<Rightarrow> string" where
  "providerEnvironmentVariable ProviderOpenAI = ''OPENAI_API_KEY''"
| "providerEnvironmentVariable ProviderAnthropic = ''ANTHROPIC_API_KEY''"
| "providerEnvironmentVariable ProviderGemini = ''GEMINI_API_KEY''"
| "providerEnvironmentVariable ProviderGroq = ''GROQ_API_KEY''"
| "providerEnvironmentVariable ProviderMock = []"

record startAgentRequest =
  sarFlowId :: string
  sarProvider :: string
  sarModel :: string
  sarSystemPrompt :: string
  sarCompactionModel :: "string optNil"
  sarMaxContextTokens :: int
  sarTriggerFraction :: "float64 option"
  sarKeepFraction :: "float64 option"
  sarMessageRetentionLimit :: int
  sarMaxParallelToolCalls :: "int option"
  sarMcpEnabled :: bool
  sarEnabledMcpServers :: "string list"
  sarEnabledTools :: "string list"

definition optionOr :: "'a option \<Rightarrow> 'a \<Rightarrow> 'a" where
  "optionOr value d = (case value of None \<Rightarrow> d | Some x \<Rightarrow> x)"

definition requestedConfig :: "startAgentRequest \<Rightarrow> string \<Rightarrow> agentConfig" where
  "requestedConfig request model = newAgentConfig \<lparr>
     cfgModel := model,
     cfgSystemPrompt := sarSystemPrompt request,
     cfgMaxContextTokens := sarMaxContextTokens request,
     cfgMessageRetentionLimit := sarMessageRetentionLimit request,
     cfgMCPEnabled := sarMcpEnabled request,
     cfgEnabledMCPServers := sarEnabledMcpServers request,
     cfgEnabledTools := sarEnabledTools request,
     cfgTriggerFraction := optionOr (sarTriggerFraction request) (cfgTriggerFraction newAgentConfig),
     cfgKeepFraction := optionOr (sarKeepFraction request) (cfgKeepFraction newAgentConfig),
     cfgMaxParallelToolCalls := optionOr (sarMaxParallelToolCalls request) (cfgMaxParallelToolCalls newAgentConfig)\<rparr>"

text \<open>What \<^verbatim>\<open>StartAgent\<close> makes of a request before it starts the Flow.\<close>

definition startConfig :: "'w handler \<Rightarrow> startAgentRequest \<Rightarrow> agentConfig result" where
  "startConfig handler request =
     (case domainProvider (sarProvider request) of Inl e \<Rightarrow> Inl e | Inr p \<Rightarrow>
      case qualifyModel p (sarModel request) of Inl e \<Rightarrow> Inl e | Inr model \<Rightarrow>
      if p \<noteq> ProviderMock \<and> \<not> hdHasAPIKey handler (sarFlowId request) p
      then Inl (Errorf ''provider %q is not configured; set %s and restart SuperAgent''
             [ArgStr (providerText p), ArgStr (providerEnvironmentVariable p)])
      else
        case (case sarCompactionModel request of
                OptValue m \<Rightarrow>
                  (case qualifyModel p m of
                     Inl e \<Rightarrow> Inl (Errorf ''compaction model: %w'' [ArgErr e])
                   | Inr q \<Rightarrow> Inr (requestedConfig request model \<lparr>cfgCompactionModel := Some q\<rparr>))
              | _ \<Rightarrow> Inr (requestedConfig request model)) of Inl e \<Rightarrow> Inl e | Inr config \<Rightarrow>
        case agentConfigValidate config of Inl e \<Rightarrow> Inl e | Inr _ \<Rightarrow> Inr config)"

definition startAgent :: "'w handler \<Rightarrow> startAgentRequest \<Rightarrow> ('w, string response) io" where
  "startAgent handler request =
     (case startConfig handler request of
        Inl e \<Rightarrow> returnIO (badRequest handler e)
      | Inr config \<Rightarrow>
          thenIO (clientStart (hdAgent handler) (sarFlowId request) \<lparr>srConfig = config, srRuntimeMetadata = []\<rparr>)
            (\<lambda>r. returnIO (case r of Inl e \<Rightarrow> startError e | Inr _ \<Rightarrow> Answer (sarFlowId request))))"

subsection \<open>Commands\<close>

definition handled :: "('w, 'a) io \<Rightarrow> ('a \<Rightarrow> 'b response) \<Rightarrow> (goError \<Rightarrow> 'b response) \<Rightarrow> ('w, 'b response) io" where
  "handled call ok failed = thenIO call (\<lambda>r. returnIO (case r of Inl e \<Rightarrow> failed e | Inr x \<Rightarrow> ok x))"

record sendMessageRequest =
  smrFlowId :: string
  smrContent :: string
  smrPlanMode :: bool

definition apiSendMessage :: "'w handler \<Rightarrow> sendMessageRequest \<Rightarrow> ('w, unit response) io" where
  "apiSendMessage handler request =
     handled (clientSendMessage (hdAgent handler) (smrFlowId request)
         \<lparr>umContent = smrContent request, umPlanMode = smrPlanMode request, umAnsweredInputCallID = None\<rparr>)
       Answer commandError"

record apiAnswersRequest =
  aarFlowId :: string
  aarCallId :: string
  aarAnswers :: "(string \<times> string) list"

definition apiAnswerQuestions :: "'w handler \<Rightarrow> apiAnswersRequest \<Rightarrow> ('w, unit response) io" where
  "apiAnswerQuestions handler request =
     handled (clientAnswerQuestions (hdAgent handler) (aarFlowId request)
         \<lparr>aqrCallID = aarCallId request,
          aqrAnswers = map (\<lambda>(q, a). \<lparr>uiaQuestionID = q, uiaAnswer = a\<rparr>) (aarAnswers request)\<rparr>)
       Answer commandError"

definition apiDeleteQueuedMessage :: "'w handler \<Rightarrow> string \<Rightarrow> string \<Rightarrow> ('w, (string \<times> string) response) io" where
  "apiDeleteQueuedMessage handler flowID messageID =
     handled (clientDeleteQueuedMessage (hdAgent handler) flowID messageID)
       (\<lambda>_. Answer (messageID, ''deleted'')) deleteQueuedMessageError"

definition apiSteerQueuedMessage :: "'w handler \<Rightarrow> string \<Rightarrow> string \<Rightarrow> ('w, (string \<times> string) response) io" where
  "apiSteerQueuedMessage handler flowID messageID =
     handled (clientSteerMessage (hdAgent handler) flowID messageID)
       (\<lambda>_. Answer (messageID, ''steered'')) steerQueuedMessageError"

definition apiExecutePlan :: "'w handler \<Rightarrow> string \<Rightarrow> int \<Rightarrow> ('w, unit response) io" where
  "apiExecutePlan handler flowID revision =
     handled (clientExecutePlan (hdAgent handler) flowID \<lparr>perRevision = revision\<rparr>) Answer executePlanError"

definition apiApproveTool :: "'w handler \<Rightarrow> string \<Rightarrow> string \<Rightarrow> bool \<Rightarrow> ('w, unit response) io" where
  "apiApproveTool handler flowID callID approved =
     handled (clientApproveTool (hdAgent handler) flowID \<lparr>tarCallID = callID, tarApproved = approved\<rparr>)
       Answer commandError"

definition recoveryActionFrom :: "string \<Rightarrow> recoveryAction" where
  "recoveryActionFrom t =
     (if t = ''retry'' then ActionRetry else if t = ''continue_with_unknown'' then ActionContinueWithUnknown
      else OtherAction t)"

definition recoveryResolutionFrom :: "string \<Rightarrow> recoveryResolution" where
  "recoveryResolutionFrom t =
     (if t = ''resume'' then ResolutionResume else if t = ''stop'' then ResolutionStop else OtherResolution t)"

record apiRecoveryRequest =
  arrFlowId :: string
  arrRecoveryId :: string
  arrResolution :: string
  arrDecisions :: "(string \<times> string) list"

definition apiResolveToolRecovery :: "'w handler \<Rightarrow> apiRecoveryRequest \<Rightarrow> ('w, unit response) io" where
  "apiResolveToolRecovery handler request =
     handled (clientResolveToolRecovery (hdAgent handler) (arrFlowId request)
         \<lparr>rtrRecoveryID = arrRecoveryId request, rtrResolution = recoveryResolutionFrom (arrResolution request),
          rtrDecisions = map (\<lambda>(c, a). \<lparr>trdCallID = c, trdAction = recoveryActionFrom a\<rparr>) (arrDecisions request)\<rparr>)
       Answer commandError"

subsection \<open>Reading\<close>

definition apiGetAgentSnapshot :: "'w handler \<Rightarrow> string \<Rightarrow> ('w, apiSnapshot response) io" where
  "apiGetAgentSnapshot handler flowID =
     handled (clientGetSnapshot (hdAgent handler) flowID)
       (\<lambda>snapshot. case transportSnapshot snapshot of
          Inl e \<Rightarrow> unavailable ''the Agent Snapshot could not be encoded''
        | Inr result \<Rightarrow> Answer result) snapshotError"

definition apiGetArchivedMessages :: "'w handler \<Rightarrow> string \<Rightarrow> int \<Rightarrow> int option \<Rightarrow> ('w, apiHistoryPage response) io" where
  "apiGetArchivedMessages handler flowID before requestedLimit =
     (if before \<le> 10 \<or> rem64 (before - 1) 10 \<noteq> 0
      then returnIO (Failure BadRequest (newProblem 400 ''Bad Request'' ''beforeSequence must identify an archive boundary''))
      else
        let limit = optionOr requestedLimit 10 in
        if limit < 10 \<or> limit > 200 \<or> rem64 limit 10 \<noteq> 0
        then returnIO (Failure BadRequest (newProblem 400 ''Bad Request'' ''limit must be 10 through 200 in increments of 10''))
        else handled (clientGetArchivedMessageRange (hdAgent handler) flowID before limit)
          (\<lambda>page. case transportHistoryPage page of
             Inl e \<Rightarrow> unavailable ''the archived messages could not be encoded''
           | Inr result \<Rightarrow> Answer result) archivedMessagesError)"

definition apiWaitForWaitingInputRound ::
    "'w handler \<Rightarrow> goError option \<Rightarrow> string \<Rightarrow> int \<Rightarrow> ('w, int response) io" where
  "apiWaitForWaitingInputRound handler ctxError flowID after =
     thenIO (clientWaitForWaitingInputRound (hdAgent handler) flowID after)
       (\<lambda>r. liftIO (case r of Inl e \<Rightarrow> waitForWaitingInputRoundError ctxError e | Inr round \<Rightarrow> Inr (Answer round)))"

definition apiReadEvent ::
    "'w handler \<Rightarrow> goError option \<Rightarrow> string \<Rightarrow> string \<Rightarrow> string option \<Rightarrow> ('w, apiStreamEvent response) io" where
  "apiReadEvent handler ctxError flowID streamName resumeToken =
     (case domainEventStream streamName of
        Inl e \<Rightarrow> returnIO (badRequest handler e)
      | Inr stream \<Rightarrow>
          thenIO (clientReadEvent (hdAgent handler) flowID stream (optionOr resumeToken []))
            (\<lambda>r. liftIO (case r of
                 Inl e \<Rightarrow> readEventError ctxError e
               | Inr ev \<Rightarrow> Inr (case transportStreamEvent ev of
                     Inl e \<Rightarrow> unavailable ''the event could not be encoded''
                   | Inr result \<Rightarrow> Answer result))))"

definition apiListRecentEvents :: "'w handler \<Rightarrow> string \<Rightarrow> string \<Rightarrow> ('w, apiStreamEvent list response) io" where
  "apiListRecentEvents handler flowID streamName =
     (case domainEventStream streamName of
        Inl e \<Rightarrow> returnIO (badRequest handler e)
      | Inr stream \<Rightarrow>
          handled (clientListRecentEvents (hdAgent handler) flowID stream (hdRecoveryLimit handler))
            (\<lambda>events. case mapResult transportStreamEvent events of
               Inl e \<Rightarrow> unavailable ''the recent events could not be encoded''
             | Inr result \<Rightarrow> Answer result) listRecentEventsError)"

subsection \<open>The portal\<close>

record portalProvider =
  ppID :: string
  ppLabel :: string
  ppModelPrefix :: string
  ppDefaultModel :: string
  ppCredentialVariable :: "string option"
  ppConfigured :: bool

record portalTool =
  ptlName :: string
  ptlDescription :: string
  ptlRequiresApproval :: bool
  ptlServer :: "string option"

record portal =
  poProviders :: "portalProvider list"
  poMcpServers :: "string list"
  poTools :: "portalTool list"
  poBuiltInTools :: "string list"

definition portalDefinitions :: "(provider \<times> string \<times> string \<times> string \<times> string) list" where
  "portalDefinitions =
     [(ProviderMock, ''mock'', ''Local mock'', [], ''mock/dex''),
      (ProviderOpenAI, ''openai'', ''OpenAI'', ''openai'', ''gpt-5-mini''),
      (ProviderAnthropic, ''anthropic'', ''Anthropic'', ''anthropic'', ''claude-sonnet-4-5''),
      (ProviderGemini, ''gemini'', ''Google Gemini'', ''gemini'', ''gemini-2.5-flash''),
      (ProviderGroq, ''groq'', ''Groq'', ''groq'', ''llama-3.3-70b-versatile'')]"

definition portalProviders :: "'w handler \<Rightarrow> portalProvider list" where
  "portalProviders handler =
     map (\<lambda>(p, transport, label, prefix, model). \<lparr>ppID = transport, ppLabel = label, ppModelPrefix = prefix,
         ppDefaultModel = model,
         ppCredentialVariable = (if p = ProviderMock then None else Some (providerEnvironmentVariable p)),
         ppConfigured = (p = ProviderMock \<or> hdHasAPIKey handler [] p)\<rparr>) portalDefinitions"

definition getPortal :: "'w handler \<Rightarrow> portal" where
  "getPortal handler =
     (let servers = map_of (rev (map (\<lambda>t. (tdName (rtDefinition t), rtServerName t)) (hdRegisteredTools handler))) in
      \<lparr>poProviders = portalProviders handler,
       poMcpServers = hdServerNames handler,
       poTools = map (\<lambda>d. \<lparr>ptlName = tdName d, ptlDescription = tdDescription d,
         ptlRequiresApproval = tdRequiresApproval d, ptlServer = servers (tdName d)\<rparr>) (hdDefinitions handler [] []),
       poBuiltInTools = [toolNameWriteTodos, toolNameRequestUserInput, toolNameDurableWait]\<rparr>)"

section \<open>The server\<close>

text \<open>
  The status an encoder writes for each type of response, and the error handler of the server,
  which answers every contract violation, of a request or of a response, with status 400.
\<close>

fun failureStatus :: "failureType \<Rightarrow> int" where
  "failureStatus BadRequest = 400"
| "failureStatus NotFound = 404"
| "failureStatus Conflict = 409"
| "failureStatus Gone = 410"
| "failureStatus ServiceUnavailable = 503"

datatype 'a httpAnswer = Written int 'a | WrittenProblem int problem | WrittenTimeout int

definition contractViolation :: "'a httpAnswer" where
  "contractViolation = WrittenProblem 400 (newProblem 400 ''Bad Request'' ''request does not match the OpenAPI contract'')"

definition problemFaults :: "problem \<Rightarrow> fault list" where
  "problemFaults s =
     fieldFaults ''title'' (textFaults 1 None (prTitle s)) @
     fieldFaults ''status'' (intFaults 400 (Some 599) (prStatus s))"

definition encodeResponse :: "int \<Rightarrow> ('a \<Rightarrow> fault list) \<Rightarrow> 'a response result \<Rightarrow> 'a httpAnswer" where
  "encodeResponse status faults r =
     (case r of
        Inl e \<Rightarrow> contractViolation
      | Inr (Answer x) \<Rightarrow> if faults x = [] then Written status x else contractViolation
      | Inr (Failure t p) \<Rightarrow> if problemFaults p = [] then WrittenProblem (failureStatus t) p else contractViolation
      | Inr PollTimeout \<Rightarrow> WrittenTimeout 504)"

text \<open>One operation as the server runs it: decoded, handled, encoded.\<close>

definition httpOperation ::
    "int \<Rightarrow> ('a \<Rightarrow> fault list) \<Rightarrow> fault list \<Rightarrow> ('w, 'a response) io \<Rightarrow> 'w \<Rightarrow> ('a httpAnswer \<times> 'w) option" where
  "httpOperation status faults requestFaults operation w =
     (if requestFaults \<noteq> [] then Some (contractViolation, w)
      else map_option (\<lambda>(r, w'). (encodeResponse status faults r, w')) (operation w))"

subsection \<open>Requests\<close>

definition floatFaults :: "float64 \<Rightarrow> fault list" where
  "floatFaults x = unless (floatLessEq floatZero x \<and> floatLessEq x floatOne)"

definition uniqueFaults :: "nat \<Rightarrow> (string \<Rightarrow> fault list) \<Rightarrow> string list \<Rightarrow> fault list" where
  "uniqueFaults high faults xs =
     (if length xs \<le> high \<and> distinct xs then elementFaults 0 faults xs else [Fault])"

definition startAgentRequestFaults :: "startAgentRequest \<Rightarrow> fault list" where
  "startAgentRequestFaults s =
     fieldFaults ''flowId'' (flowIDFaults (sarFlowId s)) @
     fieldFaults ''provider'' (providerFaults (sarProvider s)) @
     fieldFaults ''model'' (textFaults 1 (Some 255) (sarModel s)) @
     fieldFaults ''systemPrompt'' (textFaults 1 (Some 100000) (sarSystemPrompt s)) @
     fieldFaults ''compactionModel'' (optNilFaults (textFaults 1 (Some 255)) (sarCompactionModel s)) @
     fieldFaults ''maxContextTokens'' (intFaults 1 (Some 2000000) (sarMaxContextTokens s)) @
     fieldFaults ''compactionTriggerFraction'' (nilFaults floatFaults (sarTriggerFraction s)) @
     fieldFaults ''compactionKeepFraction'' (nilFaults floatFaults (sarKeepFraction s)) @
     fieldFaults ''messageRetentionLimit''
       (unless (20 \<le> sarMessageRetentionLimit s \<and> sarMessageRetentionLimit s \<le> 1000000 \<and>
          rem64 (sarMessageRetentionLimit s) 10 = 0)) @
     fieldFaults ''maxParallelToolCalls'' (nilFaults (intFaults 1 (Some 32)) (sarMaxParallelToolCalls s)) @
     fieldFaults ''enabledMcpServers'' (uniqueFaults 1000 (textFaults 1 None) (sarEnabledMcpServers s)) @
     fieldFaults ''enabledTools'' (uniqueFaults 10000 toolNameFaults (sarEnabledTools s))"

definition sendMessageRequestFaults :: "sendMessageRequest \<Rightarrow> fault list" where
  "sendMessageRequestFaults s =
     fieldFaults ''flowId'' (flowIDFaults (smrFlowId s)) @
     fieldFaults ''content'' (textFaults 1 (Some 1000000) (smrContent s))"

definition userInputAnswerFaults :: "string \<times> string \<Rightarrow> fault list" where
  "userInputAnswerFaults s =
     fieldFaults ''questionId'' (textFaults 1 (Some 255) (fst s)) @
     fieldFaults ''answer'' (textFaults 1 (Some 1000000) (snd s))"

definition answerQuestionsRequestFaults :: "apiAnswersRequest \<Rightarrow> fault list" where
  "answerQuestionsRequestFaults s =
     fieldFaults ''flowId'' (flowIDFaults (aarFlowId s)) @
     fieldFaults ''callId'' (callIDFaults (aarCallId s)) @
     fieldFaults ''answers'' (listFaults 1 (Some 3) userInputAnswerFaults (aarAnswers s))"

definition queueMutationFaults :: "string \<Rightarrow> string \<Rightarrow> fault list" where
  "queueMutationFaults flowID messageID =
     fieldFaults ''flowId'' (flowIDFaults flowID) @ fieldFaults ''messageId'' (messageIDFaults messageID)"

definition queueMutationResponseFaults :: "string \<times> string \<Rightarrow> fault list" where
  "queueMutationResponseFaults s =
     fieldFaults ''messageId'' (messageIDFaults (fst s)) @
     fieldFaults ''action'' (unless (snd s \<in> set [''deleted'', ''steered'']))"

definition executePlanRequestFaults :: "string \<Rightarrow> int \<Rightarrow> fault list" where
  "executePlanRequestFaults flowID revision =
     fieldFaults ''flowId'' (flowIDFaults flowID) @ fieldFaults ''revision'' (intFaults 1 (Some maxSafe) revision)"

definition toolApprovalRequestFaults :: "string \<Rightarrow> string \<Rightarrow> fault list" where
  "toolApprovalRequestFaults flowID callID =
     fieldFaults ''flowId'' (flowIDFaults flowID) @ fieldFaults ''callId'' (callIDFaults callID)"

definition toolRecoveryDecisionFaults :: "string \<times> string \<Rightarrow> fault list" where
  "toolRecoveryDecisionFaults s =
     fieldFaults ''callId'' (callIDFaults (fst s)) @ fieldFaults ''action'' (recoveryActionFaults (snd s))"

definition resolveToolRecoveryRequestFaults :: "apiRecoveryRequest \<Rightarrow> fault list" where
  "resolveToolRecoveryRequestFaults s =
     fieldFaults ''flowId'' (flowIDFaults (arrFlowId s)) @
     fieldFaults ''recoveryId'' (textFaults 1 (Some 512) (arrRecoveryId s)) @
     fieldFaults ''resolution'' (recoveryResolutionFaults (arrResolution s)) @
     fieldFaults ''decisions'' (listFaults 0 (Some 32) toolRecoveryDecisionFaults (arrDecisions s))"

subsection \<open>Operations of the server\<close>

definition noFaults :: "'a \<Rightarrow> fault list" where "noFaults x = []"

definition httpStartAgent :: "'w handler \<Rightarrow> startAgentRequest \<Rightarrow> 'w \<Rightarrow> (string httpAnswer \<times> 'w) option" where
  "httpStartAgent handler request =
     httpOperation 201 (\<lambda>flowID. fieldFaults ''flowId'' (flowIDFaults flowID)) (startAgentRequestFaults request)
       (startAgent handler request)"

definition httpSendMessage :: "'w handler \<Rightarrow> sendMessageRequest \<Rightarrow> 'w \<Rightarrow> (unit httpAnswer \<times> 'w) option" where
  "httpSendMessage handler request =
     httpOperation 202 noFaults (sendMessageRequestFaults request) (apiSendMessage handler request)"

definition httpAnswerQuestions :: "'w handler \<Rightarrow> apiAnswersRequest \<Rightarrow> 'w \<Rightarrow> (unit httpAnswer \<times> 'w) option" where
  "httpAnswerQuestions handler request =
     httpOperation 202 noFaults (answerQuestionsRequestFaults request) (apiAnswerQuestions handler request)"

definition httpDeleteQueuedMessage ::
    "'w handler \<Rightarrow> string \<Rightarrow> string \<Rightarrow> 'w \<Rightarrow> ((string \<times> string) httpAnswer \<times> 'w) option" where
  "httpDeleteQueuedMessage handler flowID messageID =
     httpOperation 200 queueMutationResponseFaults (queueMutationFaults flowID messageID)
       (apiDeleteQueuedMessage handler flowID messageID)"

definition httpSteerQueuedMessage ::
    "'w handler \<Rightarrow> string \<Rightarrow> string \<Rightarrow> 'w \<Rightarrow> ((string \<times> string) httpAnswer \<times> 'w) option" where
  "httpSteerQueuedMessage handler flowID messageID =
     httpOperation 200 queueMutationResponseFaults (queueMutationFaults flowID messageID)
       (apiSteerQueuedMessage handler flowID messageID)"

definition httpExecutePlan :: "'w handler \<Rightarrow> string \<Rightarrow> int \<Rightarrow> 'w \<Rightarrow> (unit httpAnswer \<times> 'w) option" where
  "httpExecutePlan handler flowID revision =
     httpOperation 202 noFaults (executePlanRequestFaults flowID revision) (apiExecutePlan handler flowID revision)"

definition httpApproveTool :: "'w handler \<Rightarrow> string \<Rightarrow> string \<Rightarrow> bool \<Rightarrow> 'w \<Rightarrow> (unit httpAnswer \<times> 'w) option" where
  "httpApproveTool handler flowID callID approved =
     httpOperation 202 noFaults (toolApprovalRequestFaults flowID callID) (apiApproveTool handler flowID callID approved)"

definition httpResolveToolRecovery :: "'w handler \<Rightarrow> apiRecoveryRequest \<Rightarrow> 'w \<Rightarrow> (unit httpAnswer \<times> 'w) option" where
  "httpResolveToolRecovery handler request =
     httpOperation 202 noFaults (resolveToolRecoveryRequestFaults request) (apiResolveToolRecovery handler request)"

definition httpGetAgentSnapshot :: "'w handler \<Rightarrow> string \<Rightarrow> 'w \<Rightarrow> (apiSnapshot httpAnswer \<times> 'w) option" where
  "httpGetAgentSnapshot handler flowID =
     httpOperation 200 agentSnapshotFaults (fieldFaults ''flowId'' (flowIDFaults flowID)) (apiGetAgentSnapshot handler flowID)"

definition httpGetArchivedMessages ::
    "'w handler \<Rightarrow> string \<Rightarrow> int \<Rightarrow> int option \<Rightarrow> 'w \<Rightarrow> (apiHistoryPage httpAnswer \<times> 'w) option" where
  "httpGetArchivedMessages handler flowID before limit =
     httpOperation 200 historyPageFaults
       (fieldFaults ''flowId'' (flowIDFaults flowID) @ fieldFaults ''beforeSequence'' (sequenceFaults before) @
        fieldFaults ''limit'' (nilFaults (\<lambda>l. unless (10 \<le> l \<and> l \<le> 200 \<and> rem64 l 10 = 0)) limit))
       (apiGetArchivedMessages handler flowID before limit)"

definition httpListRecentEvents :: "'w handler \<Rightarrow> string \<Rightarrow> string \<Rightarrow> 'w \<Rightarrow> (apiStreamEvent list httpAnswer \<times> 'w) option" where
  "httpListRecentEvents handler flowID streamName =
     httpOperation 200 recentEventsFaults
       (fieldFaults ''flowId'' (flowIDFaults flowID) @ fieldFaults ''stream'' (eventStreamFaults streamName))
       (apiListRecentEvents handler flowID streamName)"

definition httpReadEvent ::
    "'w handler \<Rightarrow> goError option \<Rightarrow> string \<Rightarrow> string \<Rightarrow> string option \<Rightarrow> 'w \<Rightarrow> (apiStreamEvent httpAnswer \<times> 'w) option" where
  "httpReadEvent handler ctxError flowID streamName resumeToken =
     httpOperation 200 streamEventFaults
       (fieldFaults ''flowId'' (flowIDFaults flowID) @ fieldFaults ''stream'' (eventStreamFaults streamName) @
        fieldFaults ''resumeToken'' (nilFaults resumeTokenFaults resumeToken))
       (apiReadEvent handler ctxError flowID streamName resumeToken)"

definition httpWaitForWaitingInputRound ::
    "'w handler \<Rightarrow> goError option \<Rightarrow> string \<Rightarrow> int \<Rightarrow> 'w \<Rightarrow> (int httpAnswer \<times> 'w) option" where
  "httpWaitForWaitingInputRound handler ctxError flowID after =
     httpOperation 200 (\<lambda>round. fieldFaults ''waitingInputRound'' (waitingInputRoundFaults round))
       (fieldFaults ''flowId'' (flowIDFaults flowID) @
        fieldFaults ''afterWaitingInputRound'' (waitingInputRoundFaults after))
       (apiWaitForWaitingInputRound handler ctxError flowID after)"

end
