(* ===== verification/ApiCommands.thy ===== *)
theory ApiCommands
  imports Handler ClientCommands
begin

text \<open>
  From an HTTP request to the durable store: what the status of a command's answer says about
  the transactions of the Flow.
\<close>

section \<open>The command endpoints\<close>

datatype apiCommand =
    PostMessage sendMessageRequest
  | PostAnswers apiAnswersRequest
  | PostDelete string string
  | PostSteer string string
  | PostPlanExecution string int
  | PostApproval string string bool
  | PostRecovery apiRecoveryRequest

fun statusOf :: "'a httpAnswer \<Rightarrow> int" where
  "statusOf (Written s x) = s"
| "statusOf (WrittenProblem s p) = s"
| "statusOf (WrittenTimeout s) = s"

definition withStatus :: "('a httpAnswer \<times> 'w) option \<Rightarrow> (int \<times> 'w) option" where
  "withStatus = map_option (\<lambda>(a, w'). (statusOf a, w'))"

fun post :: "'w handler \<Rightarrow> apiCommand \<Rightarrow> 'w \<Rightarrow> (int \<times> 'w) option" where
  "post handler (PostMessage r) w = withStatus (httpSendMessage handler r w)"
| "post handler (PostAnswers r) w = withStatus (httpAnswerQuestions handler r w)"
| "post handler (PostDelete f m) w = withStatus (httpDeleteQueuedMessage handler f m w)"
| "post handler (PostSteer f m) w = withStatus (httpSteerQueuedMessage handler f m w)"
| "post handler (PostPlanExecution f r) w = withStatus (httpExecutePlan handler f r w)"
| "post handler (PostApproval f c b) w = withStatus (httpApproveTool handler f c b w)"
| "post handler (PostRecovery r) w = withStatus (httpResolveToolRecovery handler r w)"

text \<open>The operation of the client that a request asks for.\<close>

fun requested :: "apiCommand \<Rightarrow> string \<times> operation" where
  "requested (PostMessage r) = (smrFlowId r, OpSendMessage
     \<lparr>umContent = smrContent r, umPlanMode = smrPlanMode r, umAnsweredInputCallID = None\<rparr>)"
| "requested (PostAnswers r) = (aarFlowId r, OpAnswerQuestions
     \<lparr>aqrCallID = aarCallId r, aqrAnswers = map (\<lambda>(q, a). \<lparr>uiaQuestionID = q, uiaAnswer = a\<rparr>) (aarAnswers r)\<rparr>)"
| "requested (PostDelete f m) = (f, OpDeleteQueuedMessage m)"
| "requested (PostSteer f m) = (f, OpSteerMessage m)"
| "requested (PostPlanExecution f r) = (f, OpExecutePlan \<lparr>perRevision = r\<rparr>)"
| "requested (PostApproval f c b) = (f, OpApproveTool \<lparr>tarCallID = c, tarApproved = b\<rparr>)"
| "requested (PostRecovery r) = (arrFlowId r, OpResolveToolRecovery
     \<lparr>rtrRecoveryID = arrRecoveryId r, rtrResolution = recoveryResolutionFrom (arrResolution r),
      rtrDecisions = map (\<lambda>(c, a). \<lparr>trdCallID = c, trdAction = recoveryActionFrom a\<rparr>) (arrDecisions r)\<rparr>)"

section \<open>Failures keep their status\<close>

text \<open>The problems of the handler satisfy the contract and carry the status they are sent with.\<close>

definition plainFailure :: "'a response \<Rightarrow> bool" where
  "plainFailure r \<longleftrightarrow>
     (case r of Failure t p \<Rightarrow> t \<in> {NotFound, Conflict, ServiceUnavailable} \<and> problemFaults p = [] \<and> prStatus p = failureStatus t
      | _ \<Rightarrow> False)"

lemma titles [simp]:
  "1 \<le> runeCount ''Not Found''" "1 \<le> runeCount ''Conflict''" "1 \<le> runeCount ''Service Unavailable''"
  by code_simp+

lemma plain_problems [simp]:
  "plainFailure (Failure NotFound (newProblem 404 ''Not Found'' d))"
  "plainFailure (Failure Conflict (newProblem 409 ''Conflict'' d))"
  "plainFailure (Failure ServiceUnavailable (newProblem 503 ''Service Unavailable'' d))"
  using titles by (simp_all add: plainFailure_def problemFaults_def newProblem_def)

lemma plain_failures [simp]:
  "plainFailure flowMissing" "plainFailure (unavailable d)"
  "plainFailure (commandError e)" "plainFailure (executePlanError e)"
  "plainFailure (deleteQueuedMessageError e)" "plainFailure (steerQueuedMessageError e)"
  by (simp_all add: flowMissing_def unavailable_def commandError_def commandProblem_def executePlanError_def
      deleteQueuedMessageError_def steerQueuedMessageError_def queueError_def
      split: failureKind.split)

lemma encode_plainFailure: "plainFailure r \<Longrightarrow> statusOf (encodeResponse s faults (Inr r)) \<in> {404, 409, 503}"
  by (auto simp: plainFailure_def encodeResponse_def split: response.splits)

text \<open>What the status of an operation around one client call tells.\<close>

lemma http_outcome:
  assumes "withStatus (httpOperation s faults requestFaults (handled call ok failed) w) = Some (status, w')"
    and "\<And>e. plainFailure (failed e)" and "\<And>x. requestFaults = [] \<Longrightarrow> \<exists>y. ok x = Answer y \<and> faults y = []"
    and "s \<in> {200, 202}"
  shows "(status = s \<longrightarrow> (\<exists>x. call w = Some (Inr x, w'))) \<and> (status = 400 \<longrightarrow> w' = w) \<and>
     status \<in> {s, 400, 404, 409, 503}"
proof (cases "requestFaults = []")
  case False
  with assms(1,4) show ?thesis
    by (auto simp: withStatus_def httpOperation_def contractViolation_def)
next
  case True
  with assms(1) obtain r where r: "call w = Some (r, w')"
    "status = statusOf (encodeResponse s faults (Inr (case r of Inl e \<Rightarrow> failed e | Inr x \<Rightarrow> ok x)))"
    by (auto simp: withStatus_def httpOperation_def handled_def thenIO_apply split: option.splits)
  show ?thesis
  proof (cases r)
    case (Inl e)
    with r(2) encode_plainFailure [OF assms(2), of s faults e] assms(4) show ?thesis by auto
  next
    case (Inr x)
    with assms(3) [OF True, of x] r assms(4) show ?thesis by (auto simp: encodeResponse_def)
  qed
qed

lemmas endpoints = httpSendMessage_def httpAnswerQuestions_def httpDeleteQueuedMessage_def
  httpSteerQueuedMessage_def httpExecutePlan_def httpApproveTool_def httpResolveToolRecovery_def
  apiSendMessage_def apiAnswerQuestions_def apiDeleteQueuedMessage_def apiSteerQueuedMessage_def
  apiExecutePlan_def apiApproveTool_def apiResolveToolRecovery_def

lemma queue_answer_valid:
  "queueMutationFaults f m = [] \<Longrightarrow> action \<in> {''deleted'', ''steered''} \<Longrightarrow> queueMutationResponseFaults (m, action) = []"
  by (auto simp: queueMutationFaults_def queueMutationResponseFaults_def)

lemma post_outcome:
  assumes "post handler cmd w = Some (status, w')" and "requested cmd = (flowID, op)"
  shows "(status \<in> {200, 202} \<longrightarrow> submit (hdAgent handler) flowID op w = Some (Inr (), w')) \<and>
     (status = 400 \<longrightarrow> w' = w) \<and> status \<in> {200, 202, 400, 404, 409, 503}"
  using assms
  by (cases cmd) (auto simp: endpoints noFaults_def queue_answer_valid dest!: http_outcome)

section \<open>Property\<close>

text \<open>
  The status of a command's answer: a success (200 or 202) means that exactly one
  transaction executed the requested command on the Flow and the Flow accepted it; a rejection
  of the request (400) means that nothing was executed at all; no other status than these,
  404, 409 and 503 is written.
\<close>

theorem status_tells_outcome:
  assumes "dexService (clSdk (hdAgent handler)) flow executed"
    and "post handler cmd w = Some (status, w')" and "requested cmd = (flowID, op)"
  shows "(status \<in> {200, 202} \<longrightarrow> (\<exists>i. decidedOnce flow flowID (commandOf op i) True (executed w) (executed w'))) \<and>
     (status = 400 \<longrightarrow> executed w' = executed w) \<and> status \<in> {200, 202, 400, 404, 409, 503}"
  using post_outcome [OF assms(2,3)] dexService.submit_decides [OF assms(1) _ refl, of flowID op w "Inr ()" w']
  unfolding dexService.decides_def [OF assms(1)] by blast

definition exampleHandler :: "served handler" where
  "exampleHandler = \<lparr>hdAgent = exampleClient, hdServerNames = [], hdRegisteredTools = [],
     hdDefinitions = (\<lambda>servers names. []), hdHasAPIKey = (\<lambda>flowID p. False), hdRecoveryLimit = 100,
     hdReady = True, hdErrorText = (\<lambda>e. [])\<rparr>"

lemma exampleHandler_steers:
  "map_option (\<lambda>(status, w'). (status, map tnAnswer (svExecuted w')))
     (post exampleHandler (PostSteer ''agent-1'' ''m-1'') exampleServed) = Some (200, [True])"
  by code_simp

theorem status_tells_outcome_witness:
  "\<exists>w'. post exampleHandler (PostSteer ''agent-1'' ''m-1'') exampleServed = Some (200, w') \<and>
     decidedOnce exampleFlow ''agent-1'' (SteerMessage ''m-1'') True [] (svExecuted w')"
proof -
  from exampleHandler_steers obtain w' where
    run: "post exampleHandler (PostSteer ''agent-1'' ''m-1'') exampleServed = Some (200, w')" by auto
  have "dexService (clSdk (hdAgent exampleHandler)) exampleFlow svExecuted"
    by (simp add: exampleHandler_def served.dexService_axioms)
  from status_tells_outcome [OF this run] run show ?thesis by (auto simp: exampleServed_def)
qed

end
