(* ===== verification/ApiEvents.thy ===== *)
theory ApiEvents
  imports ApiCommands Scenario
begin

text \<open>
  The event endpoints against the Flow. The \<^verbatim>\<open>switch\<close> that maps event kinds has no case for
  \<^verbatim>\<open>inactivity_expired\<close>, the last event of a Flow that expires, although the contract lists
  that kind: after an expiry the recent activity of the Flow cannot be read.
\<close>

section \<open>Event kinds\<close>

lemma transportEventKind_fails: "(\<exists>e. transportEventKind k = Inl e) \<longleftrightarrow> k = InactivityExpired"
  by (cases k) simp_all

lemma transportEventKind_text: "transportEventKind k = Inr t \<Longrightarrow> t = eventKindText k"
  by (cases k) auto

lemma contract_lists_kinds: "eventKindFaults (eventKindText k) = []"
  by (cases k) (simp_all add: eventKindFaults_def)

lemma transportTaskStatus_total [simp]: "transportTaskStatus s = Inr (taskStatusText s)"
  by (cases s) simp_all

lemma transportActivity_fails: "(\<exists>e. transportActivity ev = Inl e) \<longleftrightarrow> evKind ev = InactivityExpired"
  using transportEventKind_fails [of "evKind ev"]
  by (auto simp: transportActivity_def split: sum.splits option.splits)

lemma transportStreamEvent_fails:
  "seActivity ev = Some a \<Longrightarrow> seKind ev = KindActivity \<Longrightarrow> evKind a = InactivityExpired \<Longrightarrow>
     \<exists>e. transportStreamEvent ev = Inl e"
  using transportActivity_fails [of a] by (auto simp: transportStreamEvent_def)

section \<open>The activity of an expired Flow\<close>

text \<open>The service lists the newest activity of a Flow first.\<close>

locale activityService =
  fixes sdk :: "'w sdk" and storeAt :: "'w \<Rightarrow> string \<Rightarrow> store option"
  assumes activity_listed: "storeAt w flowID = Some s \<Longrightarrow>
      \<exists>page w'. sdkListActivity sdk flowID limit w = Some (Inr page, w') \<and>
        map fst page = take (nat limit) (rev (sActivity s))"
begin

lemma listing_fails:
  assumes "storeAt w flowID = Some s" and "sActivity s = es @ [ev]" and "evKind ev = InactivityExpired"
    and "clSdk (hdAgent handler) = sdk" and "trimSpace flowID \<noteq> []"
    and "1 \<le> hdRecoveryLimit handler" and "hdRecoveryLimit handler \<le> 1000"
  shows "\<exists>w'. apiListRecentEvents handler flowID ''activity'' w =
     Some (Inr (unavailable ''the recent events could not be encoded''), w')"
proof -
  let ?limit = "hdRecoveryLimit handler"
  obtain page w' where page: "sdkListActivity sdk flowID ?limit w = Some (Inr page, w')"
    "map fst page = take (nat ?limit) (rev (sActivity s))"
    using activity_listed [OF assms(1)] by blast
  have "ev \<in> set (map fst page)" unfolding page(2) assms(2) using assms(6) by (cases "nat ?limit") auto
  then obtain m where "(ev, m) \<in> set page" by auto
  moreover have "\<exists>e. transportStreamEvent (activityStreamEvent m ev) = Inl e"
    by (rule transportStreamEvent_fails [where a = ev]) (simp_all add: activityStreamEvent_def assms(3))
  ultimately obtain e where "mapResult transportStreamEvent
      (map (\<lambda>(value, message). activityStreamEvent message value) (rev page)) = Inl e"
    using mapResult_error [of transportStreamEvent "map (\<lambda>(value, message). activityStreamEvent message value) (rev page)"]
    by force
  with page(1) assms(4-7) show ?thesis
    by (simp add: apiListRecentEvents_def domainEventStream_def clientListRecentEvents_def validateFlowID_def
        handled_def thenIO_apply bindIO_apply maximumRecentEventLimit_def)
qed

end

interpretation activity: activityService "servedSdk flow" svStores for flow
  by unfold_locales (auto simp: servedSdk_def comp_def)

lemma expiry_publishes:
  assumes "inactivityExecute flow ef ctx cn deadline s = Inr (ForceComplete t, s')"
  shows "\<exists>es ev. sActivity s' = es @ [ev] \<and> evKind ev = InactivityExpired"
  using assms
  by (auto simp: inactivityExecute_def bindTx_eq_Inr writeActivity_def event_def goTo_def split: if_splits)

text \<open>
  C29. After a Flow expired, its recent activity cannot be read any more: the last event is of a
  kind that the handler does not map, and the endpoint answers 503 for every recovery limit.
\<close>

theorem expired_activity_unreadable:
  assumes "activityService (clSdk (hdAgent handler)) storeAt"
    and "inactivityExecute flow ef ctx cn deadline s = Inr (ForceComplete t, s')"
    and "storeAt w flowID = Some s'"
    and "trimSpace flowID \<noteq> []" and "flowIDFaults flowID = []"
    and "1 \<le> hdRecoveryLimit handler" and "hdRecoveryLimit handler \<le> 1000"
  shows "\<exists>p w'. httpListRecentEvents handler flowID ''activity'' w = Some (WrittenProblem 503 p, w')"
proof -
  obtain es ev where "sActivity s' = es @ [ev]" "evKind ev = InactivityExpired"
    using expiry_publishes [OF assms(2)] by blast
  from activityService.listing_fails [OF assms(1,3) this refl assms(4,6,7)] obtain w' where
    "apiListRecentEvents handler flowID ''activity'' w =
       Some (Inr (unavailable ''the recent events could not be encoded''), w')" by blast
  moreover have "plainFailure (unavailable ''the recent events could not be encoded'' :: apiStreamEvent list response)"
    by simp
  ultimately show ?thesis using assms(5)
    by (auto simp: httpListRecentEvents_def httpOperation_def eventStreamFaults_def encodeResponse_def
        unavailable_def plainFailure_def)
qed

text \<open>A Flow at its deadline.\<close>

definition expiringStore :: store where
  "expiringStore = initialStore \<lparr>sConfig := Some newAgentConfig, sRuntimeMetadata := Some ''{}'', sDeadline := Some 1000\<rparr>"

lemma expiringStore_expires:
  "(case inactivityExecute exampleFlow quietly exampleCtx (noConditions \<lparr>cnTimerFired := True\<rparr>) 1000 expiringStore of
      Inr (ForceComplete t, s') \<Rightarrow> True | _ \<Rightarrow> False)"
  by code_simp

theorem expired_activity_unreadable_witness:
  "\<exists>s' p w'. httpListRecentEvents exampleHandler ''agent-1'' ''activity'' (exampleServed \<lparr>svStores := [''agent-1'' \<mapsto> s']\<rparr>) =
     Some (WrittenProblem 503 p, w')"
proof -
  from expiringStore_expires obtain t s' where run:
    "inactivityExecute exampleFlow quietly exampleCtx (noConditions \<lparr>cnTimerFired := True\<rparr>) 1000 expiringStore
       = Inr (ForceComplete t, s')"
    by (auto split: sum.splits decision.splits)
  have "trimSpace ''agent-1'' \<noteq> []" "flowIDFaults ''agent-1'' = []" by code_simp+
  moreover have "activityService (clSdk (hdAgent exampleHandler)) svStores"
    by (simp add: exampleHandler_def activity.activityService_axioms)
  ultimately show ?thesis
    using expired_activity_unreadable [of exampleHandler svStores, OF _ run,
        of "exampleServed \<lparr>svStores := [''agent-1'' \<mapsto> s']\<rparr>" "''agent-1''"]
    by (auto simp: exampleHandler_def)
qed

end
