(* ===== verification/ApiSnapshot.thy ===== *)
theory ApiSnapshot
  imports ApiCommands
begin

text \<open>
  The snapshot endpoint against the Flow: \<^verbatim>\<open>GetSnapshot\<close> of the Flow, its mapping to transport
  types and the validation of the answer by the generated server. What holds of every well-formed
  store (the order of the counters, the sequences and the size of the page, roles, statuses, the
  sizes of the queues) needs no condition; what the contract asks of the other stored values, whoever
  made them, is \<open>storeFits\<close>.
\<close>

section \<open>What the contract asks of stored values\<close>

text \<open>
  Most of these values come from outside: identities and names of the model client, questions, plan
  tasks, user messages, the catalog. Some the Flow computes: the waiting-input round, the last sequence
  and the revision of the plan, which count up, the identity and the calls of a recovery, and the
  duration of a timer. They are conditions here too; that the Flow keeps them within the bounds is
  not part of the property.
\<close>

text \<open>A condition on a value that may be missing.\<close>

definition given :: "('a \<Rightarrow> bool) \<Rightarrow> 'a option \<Rightarrow> bool" where
  "given P v \<longleftrightarrow> (case v of None \<Rightarrow> True | Some x \<Rightarrow> P x)"

lemma given_simps [simp]: "given P None" "given P (Some x) \<longleftrightarrow> P x"
  by (simp_all add: given_def)

lemma given_iff: "given P v \<longleftrightarrow> (\<forall>x. v = Some x \<longrightarrow> P x)"
  by (cases v) simp_all

definition idFits :: "string \<Rightarrow> bool" where
  "idFits i \<longleftrightarrow> 1 \<le> runeCount i \<and> runeCount i \<le> 255"

definition nameFits :: "string \<Rightarrow> bool" where
  "nameFits n \<longleftrightarrow> 1 \<le> runeCount n \<and> runeCount n \<le> 64"

definition callFits :: "string \<Rightarrow> string \<Rightarrow> string \<Rightarrow> bool" where
  "callFits i n arguments \<longleftrightarrow> idFits i \<and> nameFits n \<and> 2 \<le> runeCount arguments"

definition messageFits :: "agentMessage \<Rightarrow> bool" where
  "messageFits m \<longleftrightarrow>
     list_all (\<lambda>c. callFits (tcID c) (tcName c) (tcArguments c)) (msgToolCalls m) \<and>
     given idFits (msgToolCallID m) \<and> given nameFits (msgToolName m) \<and>
     given idFits (msgAnsweredInputCallID m)"

definition questionFits :: "userInputQuestion \<Rightarrow> bool" where
  "questionFits q \<longleftrightarrow> idFits (uiqID q) \<and> 1 \<le> runeCount (uiqHeader q) \<and> runeCount (uiqHeader q) \<le> 32 \<and>
     1 \<le> runeCount (uiqQuestion q) \<and> 2 \<le> length (uiqOptions q) \<and> length (uiqOptions q) \<le> 3 \<and>
     list_all (\<lambda>p. 1 \<le> runeCount (uioLabel p) \<and> 1 \<le> runeCount (uioDescription p)) (uiqOptions q)"

definition inputFits :: "pendingUserInput \<Rightarrow> bool" where
  "inputFits p \<longleftrightarrow> idFits (puiCallID p) \<and> 1 \<le> length (puiQuestions p) \<and> length (puiQuestions p) \<le> 3 \<and>
     list_all questionFits (puiQuestions p)"

definition recoveryFits :: "pendingToolRecovery \<Rightarrow> bool" where
  "recoveryFits p \<longleftrightarrow> 1 \<le> runeCount (ptrRecoveryID p) \<and> 1 \<le> length (ptrCalls p) \<and> length (ptrCalls p) \<le> 32 \<and>
     list_all (\<lambda>c. callFits (ptrcCallID c) (ptrcToolName c) (ptrcArguments c) \<and>
       1 \<le> runeCount (ptrcErrorType c) \<and> runeCount (ptrcErrorType c) \<le> 256) (ptrCalls p)"

definition planFits :: "agentPlan \<Rightarrow> bool" where
  "planFits p \<longleftrightarrow> 1 \<le> planRevision p \<and> planRevision p \<le> maxSafe \<and> list_all (\<lambda>t. 1 \<le> runeCount (ptContent t)) (planTasks p)"

definition userMessageFits :: "pendingUserMessage \<Rightarrow> bool" where
  "userMessageFits m \<longleftrightarrow> 1 \<le> runeCount (pumMessageID m) \<and> runeCount (pumMessageID m) \<le> 256 \<and>
     1 \<le> runeCount (umContent (pumValue m)) \<and> runeCount (umContent (pumValue m)) \<le> 1000000"

definition interactionsFit :: "store \<Rightarrow> bool" where
  "interactionsFit s \<longleftrightarrow>
     given (\<lambda>p. callFits (paCallID p) (paToolName p) (paArguments p)) (sApproval s) \<and>
     given recoveryFits (sRecovery s) \<and>
     given (\<lambda>p. idFits (ptmCallID p) \<and> 1 \<le> ptmDurationSeconds p) (sTimer s) \<and>
     given inputFits (sUserInput s) \<and> given planFits (sPlan s)"

definition catalogFits :: "flow \<Rightarrow> agentConfig \<Rightarrow> bool" where
  "catalogFits flow config \<longleftrightarrow>
     list_all (\<lambda>n. 1 \<le> runeCount n) (fServerNames flow) \<and>
     list_all (\<lambda>d. nameFits (tdName d)) (toolDefinitions flow config)"

definition conversationFits :: "store \<Rightarrow> bool" where
  "conversationFits s \<longleftrightarrow>
     (case sState s of
        None \<Rightarrow> False
      | Some st \<Rightarrow> list_all messageFits (drop (nat (stCurrentFirst st - stFirstRetained st)) (history s)) \<and>
          stLastSequence st \<le> maxSafe) \<and>
     given (\<lambda>r. 0 \<le> r \<and> r \<le> maxSafe) (sWaitingInputRound s) \<and>
     list_all userMessageFits (map snd (chQueued s)) \<and> list_all userMessageFits (map snd (chSteered s))"

definition storeFits :: "flow \<Rightarrow> string \<Rightarrow> store \<Rightarrow> bool" where
  "storeFits flow runID s \<longleftrightarrow> idFits runID \<and> conversationFits s \<and> interactionsFit s \<and>
     given (catalogFits flow) (sConfig s)"

lemmas fits_defs = idFits_def nameFits_def callFits_def callIDFaults_def toolNameFaults_def

section \<open>Mapped values\<close>

text \<open>A mapping that cannot fail, with the faults of its results.\<close>

definition faultless :: "('a \<Rightarrow> 'b result) \<Rightarrow> ('b \<Rightarrow> fault list) \<Rightarrow> 'a \<Rightarrow> bool \<Rightarrow> bool" where
  "faultless f faults x ok \<longleftrightarrow> (\<exists>y. f x = Inr y \<and> (faults y = [] \<longleftrightarrow> ok))"

lemma faultless_list:
  assumes "\<And>x. x \<in> set xs \<Longrightarrow> faultless f faults x (P x)"
  shows "\<exists>ys. mapResult f xs = Inr ys \<and> length ys = length xs \<and> ((\<forall>y \<in> set ys. faults y = []) \<longleftrightarrow> list_all P xs)"
  using assms
proof (induction xs)
  case (Cons x xs)
  from Cons.prems [of x] obtain y where "f x = Inr y" "(faults y = []) = P x" by (auto simp: faultless_def)
  moreover from Cons obtain ys where "mapResult f xs = Inr ys" "length ys = length xs"
    "(\<forall>y \<in> set ys. faults y = []) = list_all P xs" by auto
  ultimately show ?case by auto
qed simp

lemma transportMessageRole_valid: "\<exists>r. transportMessageRole role = Inr r \<and> messageRoleFaults r = []"
  by (cases role) (simp_all add: messageRoleFaults_def)

lemma transportAgentStatus_valid: "\<exists>r. transportAgentStatus status = Inr r \<and> agentStatusFaults r = []"
  by (cases status) (simp_all add: agentStatusFaults_def)

lemma transportPlanStatus_valid: "\<exists>r. transportPlanStatus status = Inr r \<and> planStatusFaults r = []"
  by (cases status) (simp_all add: planStatusFaults_def)

lemma transportTaskStatus_valid: "\<exists>r. transportTaskStatus status = Inr r \<and> taskStatusFaults r = []"
  by (cases status) (simp_all add: taskStatusFaults_def)

lemma message_faultless: "faultless transportAgentMessage agentMessageFaults m (messageFits m)"
  using transportMessageRole_valid [of "msgRole m"]
  by (auto simp: faultless_def transportAgentMessage_def agentMessageFaults_def messageFits_def fits_defs
      toolCallFaults_def list_all_iff given_iff split: option.splits)

lemma sequenced_faultless:
  "faultless transportSequencedMessage sequencedMessageFaults m
     (1 \<le> smSequence m \<and> smSequence m \<le> maxSafe \<and> messageFits (smMessage m))"
  using message_faultless [of "smMessage m"]
  by (auto simp: faultless_def transportSequencedMessage_def sequencedMessageFaults_def sequenceFaults_def)

lemma plan_faultless: "faultless transportOptionalAgentPlan (nilFaults agentPlanFaults) p (given planFits p)"
proof (cases p)
  case (Some q)
  let ?task = "\<lambda>task. case transportTaskStatus (ptStatus task) of Inl e \<Rightarrow> Inl e
     | Inr taskStatus \<Rightarrow> Inr \<lparr>aptContent = ptContent task, aptStatus = taskStatus\<rparr>"
  have "faultless ?task planTaskFaults t (1 \<le> runeCount (ptContent t))" for t
    using transportTaskStatus_valid [of "ptStatus t"] by (auto simp: faultless_def planTaskFaults_def)
  from faultless_list [OF this, of "planTasks q"] transportPlanStatus_valid [of "planStatusOf q"] Some show ?thesis
    by (auto simp: faultless_def transportOptionalAgentPlan_def agentPlanFaults_def planFits_def)
qed (simp add: faultless_def transportOptionalAgentPlan_def)

lemma page_faultless:
  "faultless transportHistoryPage historyPageFaults page
     (length (hpMessages page) \<le> 200 \<and>
      list_all (\<lambda>m. 1 \<le> smSequence m \<and> smSequence m \<le> maxSafe \<and> messageFits (smMessage m)) (hpMessages page) \<and>
      given (\<lambda>q. 1 \<le> q \<and> q \<le> maxSafe) (hpNextBefore page))"
  using faultless_list [OF sequenced_faultless, of "hpMessages page"]
  by (auto simp: faultless_def transportHistoryPage_def historyPageFaults_def sequenceFaults_def given_iff)

lemma pending_faults:
  "nilFaults pendingApprovalFaults (transportOptionalPendingApproval a) = [] \<longleftrightarrow>
     given (\<lambda>p. callFits (paCallID p) (paToolName p) (paArguments p)) a"
  "nilFaults pendingToolRecoveryFaults (transportOptionalPendingToolRecovery r) = [] \<longleftrightarrow> given recoveryFits r"
  "nilFaults pendingTimerFaults (transportOptionalPendingTimer t) = [] \<longleftrightarrow>
     given (\<lambda>p. idFits (ptmCallID p) \<and> 1 \<le> ptmDurationSeconds p) t"
  "nilFaults pendingUserInputFaults (transportOptionalPendingUserInput u) = [] \<longleftrightarrow> given inputFits u"
  by (auto simp: transportOptionalPendingApproval_def pendingApprovalFaults_def fits_defs
      transportOptionalPendingToolRecovery_def pendingToolRecoveryFaults_def pendingToolRecoveryCallFaults_def
      recoveryFits_def transportOptionalPendingTimer_def pendingTimerFaults_def
      transportOptionalPendingUserInput_def pendingUserInputFaults_def inputFits_def questionFits_def
      transportQuestion_def userInputQuestionFaults_def userInputOptionFaults_def list_all_iff
      split: option.splits)

lemma userMessages_faults:
  "(\<forall>m \<in> set (transportPendingUserMessages ms). pendingUserMessageFaults m = []) \<longleftrightarrow> list_all userMessageFits ms"
  by (simp add: transportPendingUserMessages_def pendingUserMessageFaults_def userMessageFaults_def
      messageIDFaults_def userMessageFits_def list_all_iff)

section \<open>The endpoint\<close>

text \<open>The description repeats the counters, the pending interactions, the plan and the catalog.\<close>

lemma description_faultless:
  "faultless transportAgentDescription agentDescriptionFaults d
     (0 \<le> dWaitingInputRound d \<and> dWaitingInputRound d \<le> maxSafe \<and>
      0 \<le> dFirstRetained d \<and> dFirstRetained d \<le> maxSafe \<and> 0 \<le> dLastSequence d \<and> dLastSequence d \<le> maxSafe \<and>
      0 \<le> dSummarizedThrough d \<and> dSummarizedThrough d \<le> maxSafe \<and>
      given (\<lambda>p. callFits (paCallID p) (paToolName p) (paArguments p)) (dPendingApproval d) \<and>
      given recoveryFits (dPendingToolRecovery d) \<and>
      given (\<lambda>p. idFits (ptmCallID p) \<and> 1 \<le> ptmDurationSeconds p) (dPendingTimer d) \<and>
      given inputFits (dPendingUserInput d) \<and> given planFits (dPlan d) \<and>
      0 \<le> dPendingQueuedCount d \<and> 0 \<le> dPendingSteeredCount d \<and>
      list_all (\<lambda>n. 1 \<le> runeCount n) (dAvailableMCPServers d) \<and> list_all nameFits (dAvailableTools d))"
proof -
  obtain status where "transportAgentStatus (dStatus d) = Inr status" "agentStatusFaults status = []"
    using transportAgentStatus_valid by blast
  moreover obtain plan where "transportOptionalAgentPlan (dPlan d) = Inr plan"
    "(nilFaults agentPlanFaults plan = []) = given planFits (dPlan d)"
    using plan_faultless unfolding faultless_def by blast
  ultimately show ?thesis
    by (simp add: faultless_def transportAgentDescription_def agentDescriptionFaults_def
        pending_faults [unfolded nilFaults_Nil] waitingInputRoundFaults_def list_all_iff fits_defs)
qed

text \<open>What the Flow reads for a snapshot, written out.\<close>

definition currentMessages :: "store \<Rightarrow> agentState \<Rightarrow> sequencedMessage list" where
  "currentMessages s st = map (\<lambda>q. \<lparr>smSequence = q, smMessage = the (sCurrent s (sequenceKey q))\<rparr>)
     (range64 (stCurrentFirst st) (stLastSequence st))"

lemma currentMessages_of:
  assumes "histInv s" and "sState s = Some st"
  shows "collectCurrent (range64 (stCurrentFirst st) (stLastSequence st)) s = Inr (currentMessages s st, s)"
    and "map smMessage (currentMessages s st) = drop (nat (stCurrentFirst st - stFirstRetained st)) (history s)"
    and "length (currentMessages s st) < 20"
    and "\<forall>m \<in> set (currentMessages s st). 1 \<le> smSequence m \<and> smSequence m \<le> stLastSequence st"
proof -
  from assms have h: "histOf s st" by (simp add: histInv_def)
  then have c: "1 \<le> stFirstRetained st" "stFirstRetained st \<le> stCurrentFirst st"
    "stCurrentFirst st \<le> stLastSequence st + 1" "stLastSequence st - stCurrentFirst st + 1 < 20"
    by (simp_all add: histOf_def countersOk_def)
  show "collectCurrent (range64 (stCurrentFirst st) (stLastSequence st)) s = Inr (currentMessages s st, s)"
    unfolding currentMessages_def using h by (intro collectCurrent_ok) (simp add: histOf_def)
  have "length (history s) = nat (stLastSequence st - stFirstRetained st + 1)"
    by (simp add: history_def assms(2) window_def)
  then have "window s st (stCurrentFirst st) (stLastSequence st) =
      drop (nat (stCurrentFirst st - stFirstRetained st)) (history s)"
    using window_slice [OF assms(2) c(2) order.refl] c by simp
  moreover have "window s st (stCurrentFirst st) (stLastSequence st) = map smMessage (currentMessages s st)"
    by (simp add: currentMessages_def window_def storedMessage_def)
  ultimately show "map smMessage (currentMessages s st) = drop (nat (stCurrentFirst st - stFirstRetained st)) (history s)"
    by simp
  show "length (currentMessages s st) < 20" using c by (simp add: currentMessages_def)
  show "\<forall>m \<in> set (currentMessages s st). 1 \<le> smSequence m \<and> smSequence m \<le> stLastSequence st"
    using c by (auto simp: currentMessages_def)
qed

lemma writeTodos_fits: "nameFits toolNameWriteTodos"
  by code_simp

lemma snapshot_faultless:
  assumes "histInv s" and "sState s = Some st" and "sConfig s = Some config" and "sWaitingInputRound s = Some r"
  shows "\<exists>snap. getSnapshot flow ctx s = Inr (snap, s) \<and> hpMessages (snapHistory snap) = currentMessages s st \<and>
     faultless transportSnapshot agentSnapshotFaults snap (storeFits flow (cxRunID ctx) s)"
proof -
  from assms(1,2) have h: "histOf s st" by (simp add: histInv_def)
  then have c: "1 \<le> stFirstRetained st" "stFirstRetained st \<le> stCurrentFirst st"
    "stCurrentFirst st \<le> stLastSequence st + 1" "stFirstRetained st \<le> stSummarizedThrough st + 1"
    "stSummarizedThrough st \<le> stLastSequence st" "stFirstRetained st \<le> stLastSequence st + 1"
    by (simp_all add: histOf_def countersOk_def)
  have mods: "stFirstRetained st mod 10 = 1" "stCurrentFirst st mod 10 = 1"
    using h by (simp_all add: histOf_def countersOk_def)
  have small: "stFirstRetained st \<le> maxSafe" "stCurrentFirst st \<le> maxSafe" "stSummarizedThrough st \<le> maxSafe"
    "0 \<le> stFirstRetained st" "0 \<le> stSummarizedThrough st" "1 \<le> stCurrentFirst st" "0 \<le> stLastSequence st"
    if "stLastSequence st \<le> maxSafe"
    using c that mods unfolding maxSafe_def by presburger+
  note current = currentMessages_of [OF assms(1,2)]
  have start: "max (stFirstRetained st) (stCurrentFirst st) = stCurrentFirst st" using c by simp
  obtain snap where snap: "getSnapshot flow ctx s = Inr (snap, s)"
    "snapRunID snap = cxRunID ctx" "hpMessages (snapHistory snap) = currentMessages s st"
    "hpNextBefore (snapHistory snap) = (if stCurrentFirst st > stFirstRetained st then Some (stCurrentFirst st) else None)"
    "snapQueued snap = map snd (chQueued s)" "snapSteered snap = map snd (chSteered s)"
    "dWaitingInputRound (snapDescription snap) = r" "dFirstRetained (snapDescription snap) = stFirstRetained st"
    "dLastSequence (snapDescription snap) = stLastSequence st"
    "dSummarizedThrough (snapDescription snap) = stSummarizedThrough st"
    "dPendingApproval (snapDescription snap) = sApproval s" "dPendingToolRecovery (snapDescription snap) = sRecovery s"
    "dPendingTimer (snapDescription snap) = sTimer s" "dPendingUserInput (snapDescription snap) = sUserInput s"
    "dPlan (snapDescription snap) = sPlan s" "0 \<le> dPendingQueuedCount (snapDescription snap)"
    "0 \<le> dPendingSteeredCount (snapDescription snap)"
    "dAvailableMCPServers (snapDescription snap) = fServerNames flow"
    "dAvailableTools (snapDescription snap) = toolNameWriteTodos # map tdName (toolDefinitions flow config)"
    using assms(2-4) c current(1)
    by (simp add: getSnapshot_def describe_def bindTx_apply attrGet_def getOptional_def pendingMessages_def
        attr_defs optional_reads start Let_def comp_def pendingUserMessages_def)
  obtain page where page: "transportHistoryPage (snapHistory snap) = Inr page" and pageOk: "(historyPageFaults page = []) \<longleftrightarrow>
      (length (hpMessages (snapHistory snap)) \<le> 200 \<and>
       list_all (\<lambda>m. 1 \<le> smSequence m \<and> smSequence m \<le> maxSafe \<and> messageFits (smMessage m)) (hpMessages (snapHistory snap)) \<and>
       given (\<lambda>q. 1 \<le> q \<and> q \<le> maxSafe) (hpNextBefore (snapHistory snap)))"
    using page_faultless [of "snapHistory snap"] unfolding faultless_def by blast
  obtain d where d: "transportAgentDescription (snapDescription snap) = Inr d" and dOk: "(agentDescriptionFaults d = []) \<longleftrightarrow>
      (0 \<le> r \<and> r \<le> maxSafe \<and> stLastSequence st \<le> maxSafe \<and> interactionsFit s \<and> catalogFits flow config)"
    using description_faultless [of "snapDescription snap"] small snap(16,17) unfolding faultless_def snap interactionsFit_def catalogFits_def
    by (auto simp: list.pred_map comp_def writeTodos_fits)
  have "(historyPageFaults page = []) \<longleftrightarrow> list_all messageFits (map smMessage (currentMessages s st))"
    if "stLastSequence st \<le> maxSafe"
    using pageOk current(3,4) small that by (auto simp: snap list_all_iff)
  then have "(agentSnapshotFaults \<lparr>asnRunId = snapRunID snap, asnHistory = page, asnDescription = d,
       asnQueued = transportPendingUserMessages (snapQueued snap),
       asnSteered = transportPendingUserMessages (snapSteered snap)\<rparr> = []) \<longleftrightarrow> storeFits flow (cxRunID ctx) s"
    using dOk assms by (auto simp: agentSnapshotFaults_def storeFits_def conversationFits_def current(2) snap
        userMessages_faults runIDFaults_def idFits_def)
  with snap(1,3) page d show ?thesis by (auto simp: faultless_def transportSnapshot_def)
qed

text \<open>The service runs the method of the Flow on the stored state; \<open>ctxAt\<close> is the context it gives it.\<close>

locale snapshotService =
  fixes sdk :: "'w sdk" and flow :: flow and storeAt :: "'w \<Rightarrow> string \<Rightarrow> store option" and ctxAt :: "'w \<Rightarrow> string \<Rightarrow> ctx"
  assumes snapshot_reads: "storeAt w flowID = Some s \<Longrightarrow> getSnapshot flow (ctxAt w flowID) s = Inr (snap, s) \<Longrightarrow>
      \<exists>w'. sdkSnapshot sdk flowID w = Some (Inr snap, w')"
begin

lemma endpoint_answers:
  assumes "storeAt w flowID = Some s" and "histInv s" and "sState s = Some st" and "sConfig s = Some config"
    and "sWaitingInputRound s = Some r"
    and "clSdk (hdAgent handler) = sdk" and "trimSpace flowID \<noteq> []" and "flowIDFaults flowID = []"
  shows "\<exists>w' api. httpGetAgentSnapshot handler flowID w =
      Some (if storeFits flow (cxRunID (ctxAt w flowID)) s then Written 200 api else contractViolation, w')"
proof -
  from snapshot_faultless [OF assms(2-5), of flow "ctxAt w flowID"] obtain snap api where
    "getSnapshot flow (ctxAt w flowID) s = Inr (snap, s)" "transportSnapshot snap = Inr api"
    "(agentSnapshotFaults api = []) \<longleftrightarrow> storeFits flow (cxRunID (ctxAt w flowID)) s"
    unfolding faultless_def by blast
  with snapshot_reads [OF assms(1)] assms(6-8) show ?thesis
    by (fastforce simp: httpGetAgentSnapshot_def httpOperation_def apiGetAgentSnapshot_def clientGetSnapshot_def
        validateFlowID_def handled_def thenIO_apply bindIO_apply encodeResponse_def)
qed

end

interpretation snapshots: snapshotService "servedSdk flow" flow svStores "\<lambda>w flowID. servedCtx flowID w" for flow
  by unfold_locales (auto simp: servedSdk_def served_defs)

text \<open>
  C28. The snapshot endpoint answers for a well-formed store with 200 exactly when the values in it
  satisfy \<open>storeFits\<close>, the bounds of the OpenAPI contract written out over the Flow's own state
  (identities, names, questions, plan, recovery, timer, user messages, catalog, round and last
  sequence); otherwise its answer is the 400 of a contract violation, whatever the request was. The
  mapping to transport types never fails, and the order of the counters, the sequences of the page, its
  size, roles, statuses and the numbers of queued messages are never the reason.
\<close>

theorem snapshot_is_valid:
  assumes "snapshotService (clSdk (hdAgent handler)) flow storeAt ctxAt"
    and "storeAt w flowID = Some s" and "histInv s" and "sState s = Some st" and "sConfig s = Some config"
    and "sWaitingInputRound s = Some r" and "trimSpace flowID \<noteq> []" and "flowIDFaults flowID = []"
  shows "\<exists>w' api. httpGetAgentSnapshot handler flowID w =
      Some (if storeFits flow (cxRunID (ctxAt w flowID)) s then Written 200 api else contractViolation, w')"
  by (rule snapshotService.endpoint_answers [OF assms(1-6) refl assms(7,8)])

text \<open>A Flow that waits for an approval, and one whose tool has a name of 65 characters.\<close>

definition approvalOf :: "string \<Rightarrow> store" where
  "approvalOf name = initialStore \<lparr>sConfig := Some newAgentConfig, sWaitingInputRound := Some 0,
     sApproval := Some \<lparr>paCallID = ''call-1'', paToolName = name, paArguments = ''{}'', paStartedAt = None\<rparr>\<rparr>"

lemma approvalOf_fits:
  "storeFits exampleFlow ''agent-1-run'' (approvalOf ''write_file'')"
  "\<not> storeFits exampleFlow ''agent-1-run'' (approvalOf (replicate 65 (CHR ''a'')))"
  by code_simp+

theorem snapshot_is_valid_witness:
  "(\<exists>w' api. httpGetAgentSnapshot exampleHandler ''agent-1'' (exampleServed \<lparr>svStores := [''agent-1'' \<mapsto> approvalOf ''write_file'']\<rparr>)
      = Some (Written 200 api, w')) \<and>
   (\<exists>w'. httpGetAgentSnapshot exampleHandler ''agent-1''
        (exampleServed \<lparr>svStores := [''agent-1'' \<mapsto> approvalOf (replicate 65 (CHR ''a''))]\<rparr>) = Some (contractViolation, w'))"
proof -
  have inv: "histInv (approvalOf n)" "sState (approvalOf n) = Some newAgentState"
    "sConfig (approvalOf n) = Some newAgentConfig" "sWaitingInputRound (approvalOf n) = Some 0" for n
    using histInv_initial(1) by (simp_all add: approvalOf_def histInv_def histOf_def initialStore_def)
  have service: "snapshotService (clSdk (hdAgent exampleHandler)) exampleFlow svStores (\<lambda>w flowID. servedCtx flowID w)"
    by (simp add: exampleHandler_def snapshots.snapshotService_axioms)
  have "trimSpace ''agent-1'' \<noteq> []" "flowIDFaults ''agent-1'' = []" by code_simp+
  note answer = snapshot_is_valid [OF service _ inv this]
  show ?thesis
    using answer [of "exampleServed \<lparr>svStores := [''agent-1'' \<mapsto> approvalOf ''write_file'']\<rparr>" "''write_file''"]
      answer [of "exampleServed \<lparr>svStores := [''agent-1'' \<mapsto> approvalOf (replicate 65 (CHR ''a''))]\<rparr>" "replicate 65 (CHR ''a'')"]
    by (simp add: servedCtx_def approvalOf_fits)
qed

end
