(* ===== verification/McpConfig.thy ===== *)
theory McpConfig
  imports FlowBase
begin

text \<open>
  The trusted configuration of MCP servers, \<^verbatim>\<open>internal/mcp/config.go\<close>. Strings of the
  enumerations stay strings, as the Go types are. A Go map is the list of its entries in the
  order a \<^verbatim>\<open>range\<close> visits them. Parsing YAML and URLs and the token syntax of header names are
  libraries: they are arguments.
\<close>

section \<open>Enumerations\<close>

definition transportStdio :: string where "transportStdio = ''stdio''"
definition transportStreamableHTTP :: string where "transportStreamableHTTP = ''streamable_http''"

definition validateTransport :: "string \<Rightarrow> unit result" where
  "validateTransport t =
     (if t = transportStdio \<or> t = transportStreamableHTTP then Inr () else Inl (TransportValidationError t))"

definition mcpManualRecovery :: string where "mcpManualRecovery = ''manual_recovery''"
definition mcpContinueWithUnknown :: string where "mcpContinueWithUnknown = ''continue_with_unknown''"

definition validateExhaustion :: "string \<Rightarrow> unit result" where
  "validateExhaustion p =
     (if p = mcpManualRecovery \<or> p = mcpContinueWithUnknown then Inr ()
      else Inl (Errorf ''unsupported retry exhaustion policy %q'' [ArgStr p]))"

definition mcpShortRunning :: string where "mcpShortRunning = ''short_running''"
definition mcpLongRunning :: string where "mcpLongRunning = ''long_running''"

definition validateRunningType :: "string \<Rightarrow> unit result" where
  "validateRunningType t =
     (if t = mcpShortRunning \<or> t = mcpLongRunning then Inr ()
      else Inl (Errorf ''unsupported running type %q'' [ArgStr t]))"

text \<open>The three decoders from YAML: the scalar, then its validation.\<close>

definition unmarshalYAML :: "(string \<Rightarrow> unit result) \<Rightarrow> string result \<Rightarrow> string result" where
  "unmarshalYAML validate node =
     (case node of Inl e \<Rightarrow> Inl e | Inr v \<Rightarrow> (case validate v of Inl e \<Rightarrow> Inl e | Inr _ \<Rightarrow> Inr v))"

section \<open>Policies and servers\<close>

record toolPolicy =
  tpReadOnly :: "bool option"
  tpTimeoutSeconds :: float64
  tpRunningType :: string
  tpMaximumAttempts :: "int option"
  tpRetryTotalSeconds :: float64
  tpRetryExhaustionPolicy :: string

record serverConfig =
  scName :: string
  scTransport :: string
  scCommand :: string
  scArgs :: "string list"
  scCWD :: string
  scEnvironment :: "(string \<times> string) list"
  scURL :: string
  scHeaders :: "(string \<times> string) list"
  scTrustReadOnlyAnnotations :: bool
  scTools :: "(string \<times> toolPolicy) list"

definition maximumToolAttempts :: int where "maximumToolAttempts = 10"
definition maximumToolTimeout :: int where "maximumToolTimeout = 24 * 60 * 60"
definition maximumToolRetrySeconds :: int where "maximumToolRetrySeconds = 7 * 24 * 60 * 60"

definition floatIsZero :: "float64 \<Rightarrow> bool" where
  "floatIsZero x \<longleftrightarrow> (case x of Finite m e \<Rightarrow> m = 0 | _ \<Rightarrow> False)"

definition defaultPolicy :: "toolPolicy \<Rightarrow> toolPolicy" where
  "defaultPolicy p = p \<lparr>
     tpTimeoutSeconds := (if floatIsZero (tpTimeoutSeconds p) then Finite 60 0 else tpTimeoutSeconds p),
     tpRetryTotalSeconds := (if floatIsZero (tpRetryTotalSeconds p) then Finite 300 0 else tpRetryTotalSeconds p),
     tpRunningType := (if tpRunningType p = [] then mcpShortRunning else tpRunningType p),
     tpRetryExhaustionPolicy := (if tpRetryExhaustionPolicy p = [] then mcpManualRecovery else tpRetryExhaustionPolicy p)\<rparr>"

definition applyDefaults :: "serverConfig \<Rightarrow> serverConfig" where
  "applyDefaults server = server \<lparr>scTools := map (\<lambda>(name, policy). (name, defaultPolicy policy)) (scTools server)\<rparr>"

section \<open>Validation\<close>

definition isFinitePositive :: "float64 \<Rightarrow> bool" where
  "isFinitePositive x \<longleftrightarrow> floatLess floatZero x \<and> isFinite x"

fun checkAll :: "('a \<Rightarrow> unit result) \<Rightarrow> 'a list \<Rightarrow> unit result" where
  "checkAll check [] = Inr ()"
| "checkAll check (x # xs) = (case check x of Inl e \<Rightarrow> Inl e | Inr _ \<Rightarrow> checkAll check xs)"

lemma checkAll_Inr: "checkAll check xs = Inr () \<longleftrightarrow> (\<forall>x \<in> set xs. check x = Inr ())"
  by (induction xs) (auto split: sum.splits)

text \<open>\<^verbatim>\<open>^[A-Za-z_][A-Za-z0-9_]*$\<close>.\<close>

definition isNameLetter :: "char \<Rightarrow> bool" where
  "isNameLetter c \<longleftrightarrow> inRange 65 90 (byte c) \<or> inRange 97 122 (byte c) \<or> c = CHR ''_''"

definition isNameChar :: "char \<Rightarrow> bool" where
  "isNameChar c \<longleftrightarrow> isNameLetter c \<or> isDigit c"

definition environmentVariableName :: "string \<Rightarrow> bool" where
  "environmentVariableName s \<longleftrightarrow> (case s of [] \<Rightarrow> False | c # cs \<Rightarrow> isNameLetter c \<and> list_all isNameChar cs)"

definition validateEnvironmentMapping :: "string \<Rightarrow> (string \<times> string) list \<Rightarrow> unit result" where
  "validateEnvironmentMapping kind mapping =
     checkAll (\<lambda>(targetName, sourceName).
       if kind = ''env'' \<and> \<not> environmentVariableName targetName
       then Inl (Errorf ''MCP env target %q is not a valid environment variable name'' [ArgStr targetName])
       else if \<not> environmentVariableName sourceName
       then Inl (Errorf ''MCP %s source %q is not a valid environment variable name'' [ArgStr kind, ArgStr sourceName])
       else Inr ()) mapping"

text \<open>What \<^verbatim>\<open>url.Parse\<close> answers, as far as the code looks at it.\<close>

record parsedURL =
  puScheme :: string
  puHost :: string
  puHasUser :: bool
  puFragment :: string

record urlLibrary =
  ulParse :: "string \<Rightarrow> parsedURL result"
  ulValidHeaderFieldName :: "string \<Rightarrow> bool"

definition validateHTTPServer :: "urlLibrary \<Rightarrow> serverConfig \<Rightarrow> unit result" where
  "validateHTTPServer lib server =
     (case ulParse lib (scURL server) of
        Inl e \<Rightarrow> Inl (Errorf ''HTTP MCP server %q has invalid url: %w'' [ArgStr (scName server), ArgErr e])
      | Inr parsed \<Rightarrow>
        if (puScheme parsed \<noteq> ''http'' \<and> puScheme parsed \<noteq> ''https'') \<or> puHost parsed = []
        then Inl (Errorf ''HTTP MCP server %q requires an absolute http or https url'' [ArgStr (scName server)])
        else if puHasUser parsed \<or> puFragment parsed \<noteq> []
        then Inl (Errorf ''HTTP MCP server %q url cannot contain user information or a fragment'' [ArgStr (scName server)])
        else checkAll (\<lambda>(name, source).
          if \<not> ulValidHeaderFieldName lib name \<or> equalFold name ''Host''
          then Inl (Errorf ''HTTP MCP server %q has an invalid header name'' [ArgStr (scName server)])
          else Inr ()) (scHeaders server))"

definition validatePolicy :: "string \<times> toolPolicy \<Rightarrow> unit result" where
  "validatePolicy entry =
     (let (name, policy) = entry in
      if trimSpace name = [] then Inl (New ''MCP tool policy name must not be empty'')
      else if \<not> isFinitePositive (tpTimeoutSeconds policy) \<or> floatLess (Finite maximumToolTimeout 0) (tpTimeoutSeconds policy)
      then Inl (Errorf ''timeout_seconds for %q must be positive and at most %d'' [ArgStr name, ArgInt maximumToolTimeout])
      else case validateRunningType (tpRunningType policy) of
        Inl e \<Rightarrow> Inl (Errorf ''running_type for %q: %w'' [ArgStr name, ArgErr e])
      | Inr _ \<Rightarrow>
        if \<not> isFinitePositive (tpRetryTotalSeconds policy) \<or> floatLess (Finite maximumToolRetrySeconds 0) (tpRetryTotalSeconds policy)
        then Inl (Errorf ''retry_total_seconds for %q must be positive and at most %d'' [ArgStr name, ArgInt maximumToolRetrySeconds])
        else if (case tpMaximumAttempts policy of None \<Rightarrow> False | Some n \<Rightarrow> n \<le> 0 \<or> n > maximumToolAttempts)
        then Inl (Errorf ''maximum_attempts for %q must be between 1 and %d'' [ArgStr name, ArgInt maximumToolAttempts])
        else case validateExhaustion (tpRetryExhaustionPolicy policy) of
          Inl e \<Rightarrow> Inl (Errorf ''retry_exhaustion_policy for %q: %w'' [ArgStr name, ArgErr e])
        | Inr _ \<Rightarrow> Inr ())"

definition validateTransportFields :: "urlLibrary \<Rightarrow> serverConfig \<Rightarrow> unit result" where
  "validateTransportFields lib server =
     (if scTransport server = transportStdio then
        if trimSpace (scCommand server) = [] then Inl (Errorf ''stdio MCP server %q requires command'' [ArgStr (scName server)])
        else if scURL server \<noteq> [] \<or> scHeaders server \<noteq> []
        then Inl (Errorf ''stdio MCP server %q cannot set HTTP fields'' [ArgStr (scName server)])
        else Inr ()
      else if scTransport server = transportStreamableHTTP then
        (case validateHTTPServer lib server of
           Inl e \<Rightarrow> Inl e
         | Inr _ \<Rightarrow>
             if scCommand server \<noteq> [] \<or> scArgs server \<noteq> [] \<or> scCWD server \<noteq> [] \<or> scEnvironment server \<noteq> []
             then Inl (Errorf ''HTTP MCP server %q cannot set stdio fields'' [ArgStr (scName server)])
             else Inr ())
      else Inr ())"

definition validateServer :: "urlLibrary \<Rightarrow> serverConfig \<Rightarrow> unit result" where
  "validateServer lib server =
     (if trimSpace (scName server) = [] then Inl (New ''MCP server name must not be empty'')
      else case validateTransport (scTransport server) of Inl e \<Rightarrow> Inl e | Inr _ \<Rightarrow>
        case validateTransportFields lib server of Inl e \<Rightarrow> Inl e | Inr _ \<Rightarrow>
        case validateEnvironmentMapping ''env'' (scEnvironment server) of Inl e \<Rightarrow> Inl e | Inr _ \<Rightarrow>
        case validateEnvironmentMapping ''headers'' (scHeaders server) of Inl e \<Rightarrow> Inl e | Inr _ \<Rightarrow>
        checkAll validatePolicy (scTools server))"

section \<open>Loading\<close>

datatype trailing = TrailingEOF | TrailingDocument | TrailingError goError

record configLibrary =
  clReadFile :: "string \<Rightarrow> string result"
  clDecode :: "string \<Rightarrow> serverConfig list result"
  clTrailing :: "string \<Rightarrow> trailing"

text \<open>The loop over the servers, with the names seen; \<open>duplicate\<close> is the error of a repeated one.\<close>

fun acceptServers ::
    "urlLibrary \<Rightarrow> (string \<Rightarrow> goError) \<Rightarrow> nat \<Rightarrow> string list \<Rightarrow> serverConfig list \<Rightarrow> serverConfig list result" where
  "acceptServers lib duplicate index seen [] = Inr []"
| "acceptServers lib duplicate index seen (s # rest) =
     (let server = applyDefaults s in
      case validateServer lib server of
        Inl e \<Rightarrow> Inl (Errorf ''MCP server %d: %w'' [ArgInt (int index), ArgErr e])
      | Inr _ \<Rightarrow>
        if scName server \<in> set seen then Inl (duplicate (scName server))
        else case acceptServers lib duplicate (Suc index) (scName server # seen) rest of
          Inl e \<Rightarrow> Inl e
        | Inr servers \<Rightarrow> Inr (server # servers))"

definition loadConfig :: "configLibrary \<Rightarrow> urlLibrary \<Rightarrow> string \<Rightarrow> serverConfig list result" where
  "loadConfig yaml lib path =
     (if path = [] then Inr []
      else case clReadFile yaml path of
        Inl e \<Rightarrow> Inl (Errorf ''read MCP config: %w'' [ArgErr e])
      | Inr contents \<Rightarrow>
        case clDecode yaml contents of
          Inl e \<Rightarrow> Inl (Errorf ''decode MCP config: %w'' [ArgErr e])
        | Inr servers \<Rightarrow>
          case clTrailing yaml contents of
            TrailingDocument \<Rightarrow> Inl (New ''MCP config must contain one YAML document'')
          | TrailingError e \<Rightarrow> Inl (Errorf ''decode trailing MCP config: %w'' [ArgErr e])
          | TrailingEOF \<Rightarrow>
              acceptServers lib (\<lambda>name. Errorf ''MCP server name %q is duplicated'' [ArgStr name]) 0 [] servers)"

fun resolveEnvironment :: "(string \<Rightarrow> string option) \<Rightarrow> (string \<times> string) list \<Rightarrow> (string \<times> string) list result" where
  "resolveEnvironment env [] = Inr []"
| "resolveEnvironment env ((targetName, sourceName) # rest) =
     (case env sourceName of
        None \<Rightarrow> Inl (Errorf ''required environment variable %q is unset'' [ArgStr sourceName])
      | Some value \<Rightarrow>
        case resolveEnvironment env rest of Inl e \<Rightarrow> Inl e | Inr result \<Rightarrow> Inr ((targetName, value) # result))"

section \<open>What is accepted\<close>

lemma validatePolicy_Inr:
  "validatePolicy (name, p) = Inr () \<longleftrightarrow>
     trimSpace name \<noteq> [] \<and>
     isFinitePositive (tpTimeoutSeconds p) \<and> \<not> floatLess (Finite maximumToolTimeout 0) (tpTimeoutSeconds p) \<and>
     tpRunningType p \<in> {mcpShortRunning, mcpLongRunning} \<and>
     isFinitePositive (tpRetryTotalSeconds p) \<and> \<not> floatLess (Finite maximumToolRetrySeconds 0) (tpRetryTotalSeconds p) \<and>
     (\<forall>n. tpMaximumAttempts p = Some n \<longrightarrow> 1 \<le> n \<and> n \<le> maximumToolAttempts) \<and>
     tpRetryExhaustionPolicy p \<in> {mcpManualRecovery, mcpContinueWithUnknown}"
  by (auto simp: validatePolicy_def validateRunningType_def validateExhaustion_def
      split: sum.splits if_splits option.splits)

lemma acceptServers_Inr:
  "acceptServers lib duplicate index seen servers = Inr accepted \<Longrightarrow>
     accepted = map applyDefaults servers \<and> (\<forall>s \<in> set accepted. validateServer lib s = Inr ()) \<and>
     distinct (map scName accepted) \<and> set (map scName accepted) \<inter> set seen = {}"
proof (induction servers arbitrary: index seen accepted)
  case (Cons s rest)
  then show ?case by (fastforce simp: Let_def split: sum.splits if_splits)
qed simp

end
