(* ===== verification/Sha256.thy ===== *)
theory Sha256
  imports Prelude "HOL-Library.Word"
begin

text \<open>
  \<^verbatim>\<open>sha256.Sum256\<close> of the package \<^verbatim>\<open>crypto/sha256\<close> (FIPS 180-4) and
  \<^verbatim>\<open>hex.EncodeToString\<close>, which the registry uses to shorten long tool names.
\<close>

unbundle bit_operations_syntax

text \<open>
  The constants are the first 32 bits of the fractions of roots of the first primes: square roots of
  eight for the initial hash, cube roots of 64 for the rounds. \<open>floorRoot k n\<close> is the integer part of a
  root below \<open>2 ^ 40\<close>, bit by bit; a word keeps its last 32 bits.
\<close>

definition floorRoot :: "nat \<Rightarrow> nat \<Rightarrow> nat" where
  "floorRoot k n = fold (\<lambda>b r. if (r + 2 ^ b) ^ k \<le> n then r + 2 ^ b else r) (rev [0..<40]) 0"

definition rootFraction :: "nat \<Rightarrow> nat \<Rightarrow> 32 word" where
  "rootFraction k p = word_of_nat (floorRoot k (p * 2 ^ (32 * k)))"

definition shaPrimes :: "nat list" where
  "shaPrimes =
    [2, 3, 5, 7, 11, 13, 17, 19, 23, 29, 31, 37, 41, 43, 47, 53,
     59, 61, 67, 71, 73, 79, 83, 89, 97, 101, 103, 107, 109, 113, 127, 131,
     137, 139, 149, 151, 157, 163, 167, 173, 179, 181, 191, 193, 197, 199, 211, 223,
     227, 229, 233, 239, 241, 251, 257, 263, 269, 271, 277, 281, 283, 293, 307, 311]"

definition shaInitial :: "32 word list" where
  "shaInitial = map (rootFraction 2) (take 8 shaPrimes)"

definition shaConstants :: "32 word list" where
  "shaConstants = map (rootFraction 3) shaPrimes"

definition shaMix :: "nat \<Rightarrow> nat \<Rightarrow> 32 word \<Rightarrow> 32 word \<Rightarrow> 32 word" where
  "shaMix a b z x = word_rotr a x XOR word_rotr b x XOR z"

fun shaSchedule :: "nat \<Rightarrow> 32 word list \<Rightarrow> 32 word list" where
  "shaSchedule 0 w = w"
| "shaSchedule (Suc n) w =
     (let t = length w; x = w ! (t - 15); y = w ! (t - 2) in
      shaSchedule n (w @ [shaMix 17 19 (drop_bit 10 y) y + w ! (t - 7) + shaMix 7 18 (drop_bit 3 x) x + w ! (t - 16)]))"

fun shaRound :: "32 word \<times> 32 word \<Rightarrow> 32 word list \<Rightarrow> 32 word list" where
  "shaRound (k, w) [a, b, c, d, e, f, g, h] =
     (let t1 = h + shaMix 6 11 (word_rotr 25 e) e + ((e AND f) XOR (NOT e AND g)) + k + w;
          t2 = shaMix 2 13 (word_rotr 22 a) a + ((a AND b) XOR (a AND c) XOR (b AND c))
      in [t1 + t2, a, b, c, d + t1, e, f, g])"
| "shaRound kw other = other"

definition shaBlock :: "32 word list \<Rightarrow> 32 word list \<Rightarrow> 32 word list" where
  "shaBlock block hash = map2 (+) hash (fold shaRound (zip shaConstants (shaSchedule 48 block)) hash)"

text \<open>Padding to whole blocks of sixteen big-endian words.\<close>

definition shaPadded :: "string \<Rightarrow> nat list" where
  "shaPadded s =
     (let n = length s; zeros = (119 - n mod 64) mod 64 in
      map of_char s @ [128] @ replicate zeros 0 @ map (\<lambda>i. (8 * n) div 256 ^ (7 - i) mod 256) [0..<8])"

fun shaWords :: "nat list \<Rightarrow> 32 word list" where
  "shaWords (a # b # c # d # rest) = word_of_nat (((a * 256 + b) * 256 + c) * 256 + d) # shaWords rest"
| "shaWords rest = []"

fun shaBlocks :: "nat \<Rightarrow> 32 word list \<Rightarrow> 32 word list \<Rightarrow> 32 word list" where
  "shaBlocks 0 words hash = hash"
| "shaBlocks (Suc n) words hash = shaBlocks n (drop 16 words) (shaBlock (take 16 words) hash)"

definition sha256 :: "string \<Rightarrow> 32 word list" where
  "sha256 s = (let words = shaWords (shaPadded s) in shaBlocks (length words div 16) words shaInitial)"

definition hexOfWord :: "32 word \<Rightarrow> string" where
  "hexOfWord w = map (\<lambda>i. ''0123456789abcdef'' ! (unat w div 16 ^ (7 - i) mod 16)) [0..<8]"

definition hexDigest :: "string \<Rightarrow> string" where
  "hexDigest s = concat (map hexOfWord (sha256 s))"

lemma length_hexOfWord [simp]: "length (hexOfWord w) = 8"
  by (simp add: hexOfWord_def)

text \<open>A digest is eight words, 64 hexadecimal digits.\<close>

lemma length_shaRound: "length hash = 8 \<Longrightarrow> length (shaRound kw hash) = 8"
  by (cases "(kw, hash)" rule: shaRound.cases) (simp_all add: Let_def)

lemma length_shaBlock: "length hash = 8 \<Longrightarrow> length (shaBlock block hash) = 8"
proof -
  have "length (fold shaRound kws hash') = 8" if "length hash' = 8" for kws hash'
    using that by (induction kws arbitrary: hash') (simp_all add: length_shaRound)
  then show "length hash = 8 \<Longrightarrow> length (shaBlock block hash) = 8"
    by (simp add: shaBlock_def)
qed

lemma length_shaBlocks: "length hash = 8 \<Longrightarrow> length (shaBlocks n words hash) = 8"
  by (induction n words hash rule: shaBlocks.induct) (simp_all add: length_shaBlock)

lemma length_sha256 [simp]: "length (sha256 s) = 8"
  by (simp add: sha256_def Let_def length_shaBlocks shaInitial_def shaPrimes_def)

lemma set_hexOfWord: "set (hexOfWord w) \<subseteq> set ''0123456789abcdef''"
proof
  fix c
  assume "c \<in> set (hexOfWord w)"
  then obtain k where "c = ''0123456789abcdef'' ! (k mod 16)" by (auto simp: hexOfWord_def)
  moreover have "k mod 16 < length ''0123456789abcdef''" by simp
  ultimately show "c \<in> set ''0123456789abcdef''" by (metis nth_mem)
qed

lemma set_hexDigest: "set (hexDigest s) \<subseteq> set ''0123456789abcdef''"
  unfolding hexDigest_def set_concat set_map
proof (rule UN_least)
  fix x
  assume "x \<in> hexOfWord ` set (sha256 s)"
  then obtain w where "x = hexOfWord w" by blast
  then show "set x \<subseteq> set ''0123456789abcdef''" by (simp only: set_hexOfWord)
qed

lemma length_hexDigest: "length (hexDigest s) = 64"
  by (simp add: hexDigest_def length_concat comp_def sum_list_triv)

end
