(* ===== verification/McpTools.thy ===== *)
theory McpTools
  imports McpConfig Sha256 Sdk
begin

text \<open>
  The registry of MCP tools, \<^verbatim>\<open>internal/mcp/registry.go\<close> and \<^verbatim>\<open>broker.go\<close>: discovery of the tools
  of the configured servers, the catalog the Flow sees, and the execution of one invocation. The
  MCP SDK and the process environment are the fields of a record. Go maps are lists of entries
  in iteration order. Logging is left out; the lifecycle is the theory \<open>McpLifecycle\<close>.
\<close>

section \<open>Public names\<close>

definition maximumPublicNameSize :: nat where "maximumPublicNameSize = 64"

text \<open>\<^verbatim>\<open>[^A-Za-z0-9_]\<close> is replaced rune by rune; a byte that is not UTF-8 is a rune of its own.\<close>

definition normalizedRune :: "int \<times> string \<Rightarrow> char" where
  "normalizedRune seg =
     (if inRange 0 127 (fst seg) \<and> isNameChar (char_of (nat (fst seg))) then char_of (nat (fst seg)) else CHR ''_'')"

definition normalizeName :: "string \<Rightarrow> string" where
  "normalizeName s = map normalizedRune (segs s)"

definition componentName :: "string \<Rightarrow> string \<Rightarrow> string" where
  "componentName serverName component =
     (let candidate = normalizeName serverName @ ''__'' @ normalizeName component in
      if length candidate \<le> maximumPublicNameSize then candidate
      else take 55 candidate @ ''_'' @ take 8 (hexDigest candidate))"

section \<open>Registered tools\<close>

text \<open>A tool as the SDK lists it; \<open>mtInputSchema\<close> is what \<^verbatim>\<open>json.Marshal\<close> answers for its schema.\<close>

record mcpTool =
  mtName :: string
  mtDescription :: string
  mtReadOnlyHint :: "bool option"
  mtInputSchema :: "string result"

definition unconfiguredPolicy :: toolPolicy where
  "unconfiguredPolicy = \<lparr>tpReadOnly = None, tpTimeoutSeconds = Finite 60 0, tpRunningType = mcpShortRunning,
     tpMaximumAttempts = None, tpRetryTotalSeconds = Finite 300 0, tpRetryExhaustionPolicy = mcpManualRecovery\<rparr>"

definition policyFor :: "serverConfig \<Rightarrow> mcpTool \<Rightarrow> toolPolicy" where
  "policyFor server tool =
     (case map_of (scTools server) (mtName tool) of Some p \<Rightarrow> p | None \<Rightarrow> unconfiguredPolicy)"

text \<open>What is known about a tool: the policy of the operator, or the annotation of a trusted server.\<close>

definition readOnlyFor :: "serverConfig \<Rightarrow> mcpTool \<Rightarrow> bool option" where
  "readOnlyFor server tool =
     (case tpReadOnly (policyFor server tool) of
        Some b \<Rightarrow> Some b
      | None \<Rightarrow> if scTrustReadOnlyAnnotations server then mtReadOnlyHint tool else None)"

definition toDuration :: "float64 \<Rightarrow> duration" where
  "toDuration x = intOfFloat (floatMult x (floatOfInt second))"

definition defaultToolTimeout :: duration where "defaultToolTimeout = 60 * second"
definition defaultRetryDuration :: duration where "defaultRetryDuration = 5 * minute"

definition schemaObject :: "string result \<Rightarrow> jsonObject result" where
  "schemaObject encoded = (case encoded of Inl e \<Rightarrow> Inl e | Inr text \<Rightarrow> parseJSONObject text)"

definition attemptsFor :: "serverConfig \<Rightarrow> mcpTool \<Rightarrow> int" where
  "attemptsFor server tool =
     (case tpMaximumAttempts (policyFor server tool) of
        Some n \<Rightarrow> n
      | None \<Rightarrow> if readOnlyFor server tool = Some True then 3 else 1)"

definition attemptTimeoutFor :: "toolPolicy \<Rightarrow> duration" where
  "attemptTimeoutFor policy =
     (let timeout = toDuration (tpTimeoutSeconds policy) in if timeout = 0 then defaultToolTimeout else timeout)"

definition retryDurationFor :: "toolPolicy \<Rightarrow> duration" where
  "retryDurationFor policy =
     (let d = toDuration (tpRetryTotalSeconds policy) in if d = 0 then defaultRetryDuration else d)"

definition exhaustionFor :: "toolPolicy \<Rightarrow> retryExhaustionPolicy" where
  "exhaustionFor policy =
     (if tpRetryExhaustionPolicy policy = mcpContinueWithUnknown then PolicyContinueWithUnknown else PolicyManualRecovery)"

definition runningTypeFor :: "toolPolicy \<Rightarrow> toolRunningType result" where
  "runningTypeFor policy =
     (if tpRunningType policy = [] \<or> tpRunningType policy = mcpShortRunning then Inr ShortRunning
      else if tpRunningType policy = mcpLongRunning then Inr LongRunning
      else Inl (New ''invalid running type''))"

definition registeredToolFor :: "serverConfig \<Rightarrow> mcpTool \<Rightarrow> registeredTool result" where
  "registeredToolFor server tool =
     (let publicName = componentName (scName server) (mtName tool); policy = policyFor server tool in
      if attemptsFor server tool \<le> 0 \<or> attemptTimeoutFor policy \<le> 0 \<or> retryDurationFor policy \<le> 0
      then Inl (Errorf ''invalid policy for %q'' [ArgStr publicName])
      else case runningTypeFor policy of
        Inl _ \<Rightarrow> Inl (Errorf ''invalid running type %q for %q'' [ArgStr (tpRunningType policy), ArgStr publicName])
      | Inr runningType \<Rightarrow>
        case schemaObject (mtInputSchema tool) of
          Inl e \<Rightarrow> Inl (Errorf ''tool %q input schema: %w'' [ArgStr publicName, ArgErr e])
        | Inr inputSchema \<Rightarrow> Inr \<lparr>
            rtServerName = scName server, rtRemoteName = mtName tool,
            rtDefinition = \<lparr>
              tdName = publicName,
              tdDescription = (if mtDescription tool = [] then ''MCP tool '' @ mtName tool else mtDescription tool),
              tdInputSchema = inputSchema,
              tdRequiresApproval = (readOnlyFor server tool \<noteq> Some True),
              tdRunningType = runningType,
              tdAttemptTimeout = attemptTimeoutFor policy, tdMaximumAttempts = attemptsFor server tool,
              tdRetryTotalDuration = retryDurationFor policy,
              tdSupportsParallel = (readOnlyFor server tool = Some True),
              tdRetryExhaustionPolicy = exhaustionFor policy\<rparr>\<rparr>)"

section \<open>Connections\<close>

text \<open>The variables of a subprocess: three of the process, then the configured ones, sorted by name.\<close>

definition environmentNames :: "(string \<Rightarrow> string option) \<Rightarrow> (string \<times> string) list \<Rightarrow> string list" where
  "environmentNames env additional =
     sortTexts (remdups (map fst additional @ filter (\<lambda>n. env n \<noteq> None) [''PATH'', ''HOME'', ''TMPDIR'']))"

definition minimalEnvironment :: "(string \<Rightarrow> string option) \<Rightarrow> (string \<times> string) list \<Rightarrow> string list" where
  "minimalEnvironment env additional =
     map (\<lambda>n. n @ ''='' @ (case map_of additional n of Some v \<Rightarrow> v | None \<Rightarrow> the (env n))) (environmentNames env additional)"

datatype connection =
    Subprocess string "string list" string "string list"
  | Endpoint string "(string \<times> string) list"

definition connectionFor :: "(string \<Rightarrow> string option) \<Rightarrow> serverConfig \<Rightarrow> connection result" where
  "connectionFor env server =
     (if scTransport server = transportStdio then
        (case resolveEnvironment env (scEnvironment server) of
           Inl e \<Rightarrow> Inl e
         | Inr resolved \<Rightarrow> Inr (Subprocess (scCommand server) (scArgs server) (scCWD server) (minimalEnvironment env resolved)))
      else if scTransport server = transportStreamableHTTP then
        (case resolveEnvironment env (scHeaders server) of
           Inl e \<Rightarrow> Inl e
         | Inr resolved \<Rightarrow> Inr (Endpoint (scURL server) resolved))
      else Inl (Errorf ''unsupported MCP transport %q'' [ArgStr (scTransport server)]))"

text \<open>A progress notification; \<open>pnCurrent\<close> and \<open>pnTotal\<close> are its numbers as \<^verbatim>\<open>%v\<close> prints them, a total of zero is none.\<close>

record progressNote =
  pnCurrent :: string
  pnTotal :: "string option"
  pnMessage :: string

definition progressDetail :: "progressNote \<Rightarrow> string" where
  "progressDetail note =
     (let detail = (if pnMessage note = [] then ''MCP progress: '' @ pnCurrent note else pnMessage note) in
      case pnTotal note of None \<Rightarrow> detail | Some t \<Rightarrow> detail @ '' / '' @ t)"

text \<open>Every notification is written; the first error is kept.\<close>

fun progressError :: "(string \<Rightarrow> unit result) \<Rightarrow> progressNote list \<Rightarrow> goError option" where
  "progressError write [] = None"
| "progressError write (note # notes) =
     (case write (progressDetail note) of Inl e \<Rightarrow> Some e | Inr _ \<Rightarrow> progressError write notes)"

record brokerArguments =
  baServer :: string
  baURI :: string
  baName :: string
  baArguments :: "(string \<times> string) list"

text \<open>The operations of the MCP SDK; results of calls come as \<^verbatim>\<open>json.Marshal\<close> encodes them.\<close>

record 'w mcpSdk =
  mkEnvironment :: "string \<Rightarrow> string option"
  mkConnect :: "string \<Rightarrow> connection \<Rightarrow> ('w, nat \<times> progressNote list) io"
  mkListTools :: "nat \<Rightarrow> string \<Rightarrow> ('w, mcpTool option list \<times> string) io"
  mkCallTool :: "nat \<Rightarrow> string \<Rightarrow> string \<Rightarrow> string \<Rightarrow> 'w \<Rightarrow> ((string result \<times> bool) result \<times> progressNote list \<times> 'w) option"
  mkClose :: "nat \<Rightarrow> ('w, unit) io"
  mkListResources :: "nat \<Rightarrow> ('w, string result) io"
  mkReadResource :: "nat \<Rightarrow> string \<Rightarrow> ('w, string result) io"
  mkListResourceTemplates :: "nat \<Rightarrow> ('w, string result) io"
  mkListPrompts :: "nat \<Rightarrow> ('w, string result) io"
  mkGetPrompt :: "nat \<Rightarrow> string \<Rightarrow> (string \<times> string) list \<Rightarrow> ('w, string result) io"
  mkDecodeArguments :: "string \<Rightarrow> string option result"
  mkDecodeBroker :: "string \<Rightarrow> (brokerArguments \<times> trailing) result"

definition errorOf :: "'a result \<Rightarrow> goError option" where
  "errorOf r = (case r of Inl e \<Rightarrow> Some e | Inr x \<Rightarrow> None)"

definition mcpConnect :: "'w mcpSdk \<Rightarrow> serverConfig \<Rightarrow> (string \<Rightarrow> unit result) option \<Rightarrow> ('w, nat) io" where
  "mcpConnect sdk server progress =
     bindIO (liftIO (connectionFor (mkEnvironment sdk) server)) (\<lambda>conn.
     thenIO (mkConnect sdk (scName server) conn) (\<lambda>r. case r of
       Inl e \<Rightarrow> failIO (Errorf ''connect MCP server %q: %w'' [ArgStr (scName server), ArgErr e])
     | Inr (session, notes) \<Rightarrow>
         (case Option.bind progress (\<lambda>write. progressError write notes) of
            None \<Rightarrow> returnIO session
          | Some e \<Rightarrow> thenIO (mkClose sdk session) (\<lambda>c. failIO (joinErrors [Some e, errorOf c])))))"

section \<open>Discovery\<close>

fun addTools :: "serverConfig \<Rightarrow> mcpTool option list \<Rightarrow> (string \<times> registeredTool) list \<Rightarrow> (string \<times> registeredTool) list result" where
  "addTools server [] discovered = Inr discovered"
| "addTools server (None # rest) discovered = Inl (New ''MCP tools/list returned a nil tool'')"
| "addTools server (Some tool # rest) discovered =
     (case registeredToolFor server tool of
        Inl e \<Rightarrow> Inl e
      | Inr registered \<Rightarrow>
          let name = tdName (rtDefinition registered) in
          if name \<in> fst ` set discovered then Inl (Errorf ''duplicate normalized MCP tool name %q'' [ArgStr name])
          else addTools server rest (discovered @ [(name, registered)]))"

text \<open>A server may answer one more page for ever.\<close>

partial_function (option) discoverPages ::
    "'w mcpSdk \<Rightarrow> serverConfig \<Rightarrow> nat \<Rightarrow> string \<Rightarrow> (string \<times> registeredTool) list \<Rightarrow> 'w
       \<Rightarrow> ((string \<times> registeredTool) list result \<times> 'w) option" where
  "discoverPages sdk server session cursor discovered w =
     (case mkListTools sdk session cursor w of
        None \<Rightarrow> None
      | Some (Inl e, w1) \<Rightarrow> Some (Inl e, w1)
      | Some (Inr (tools, nextCursor), w1) \<Rightarrow>
          (case addTools server tools discovered of
             Inl e \<Rightarrow> Some (Inl e, w1)
           | Inr found \<Rightarrow>
               if nextCursor = [] then Some (Inr found, w1)
               else discoverPages sdk server session nextCursor found w1))"

declare discoverPages.simps [code]

definition discoverServer ::
    "'w mcpSdk \<Rightarrow> serverConfig \<Rightarrow> (string \<times> registeredTool) list \<Rightarrow> ('w, (string \<times> registeredTool) list) io" where
  "discoverServer sdk server discovered =
     bindIO (mcpConnect sdk server None) (\<lambda>session.
     thenIO (discoverPages sdk server session [] discovered) (\<lambda>r.
     thenIO (mkClose sdk session) (\<lambda>_. liftIO r)))"

fun discoverServers ::
    "'w mcpSdk \<Rightarrow> serverConfig list \<Rightarrow> (string \<times> registeredTool) list \<Rightarrow> ('w, (string \<times> registeredTool) list) io" where
  "discoverServers sdk [] discovered = returnIO discovered"
| "discoverServers sdk (server # rest) discovered =
     thenIO (discoverServer sdk server discovered) (\<lambda>r. case r of
       Inl e \<Rightarrow> failIO (Errorf ''discover MCP server %q: %w'' [ArgStr (scName server), ArgErr e])
     | Inr found \<Rightarrow> discoverServers sdk rest found)"

section \<open>The registry\<close>

record registry =
  rgServers :: "serverConfig list"
  rgServerNames :: "string list"
  rgReady :: bool
  rgTools :: "(string \<times> registeredTool) list"

definition newRegistry :: "urlLibrary \<Rightarrow> serverConfig list \<Rightarrow> registry result" where
  "newRegistry lib servers =
     (case acceptServers lib (\<lambda>name. New ''MCP server names must be unique'') 0 [] servers of
        Inl e \<Rightarrow> Inl e
      | Inr kept \<Rightarrow> Inr \<lparr>rgServers = kept, rgServerNames = sortTexts (map scName kept),
          rgReady = False, rgTools = []\<rparr>)"

definition newRegistryFromFile :: "configLibrary \<Rightarrow> urlLibrary \<Rightarrow> string \<Rightarrow> registry result" where
  "newRegistryFromFile yaml lib path =
     (case loadConfig yaml lib path of Inl e \<Rightarrow> Inl e | Inr servers \<Rightarrow> newRegistry lib servers)"

definition serverNamed :: "registry \<Rightarrow> string \<Rightarrow> serverConfig option" where
  "serverNamed reg name = List.find (\<lambda>s. scName s = name) (rgServers reg)"

text \<open>\<^verbatim>\<open>Start\<close> of a stopped registry that nobody closes meanwhile.\<close>

definition startRegistry :: "'w mcpSdk \<Rightarrow> registry \<Rightarrow> 'w \<Rightarrow> (unit result \<times> registry \<times> 'w) option" where
  "startRegistry sdk reg w =
     (case discoverServers sdk (List.map_filter (serverNamed reg) (rgServerNames reg)) [] w of
        None \<Rightarrow> None
      | Some (Inl e, w') \<Rightarrow> Some (Inl e, reg \<lparr>rgReady := False, rgTools := []\<rparr>, w')
      | Some (Inr found, w') \<Rightarrow> Some (Inr (), reg \<lparr>rgReady := True, rgTools := found\<rparr>, w'))"

text \<open>\<^verbatim>\<open>sort.Slice\<close> by name.\<close>

fun insertNamed :: "('a \<Rightarrow> string) \<Rightarrow> 'a \<Rightarrow> 'a list \<Rightarrow> 'a list" where
  "insertNamed name x [] = [x]"
| "insertNamed name x (y # ys) = (if textLess (name y) (name x) then y # insertNamed name x ys else x # y # ys)"

definition sortNamed :: "('a \<Rightarrow> string) \<Rightarrow> 'a list \<Rightarrow> 'a list" where
  "sortNamed name xs = foldr (insertNamed name) xs []"

definition registeredTools :: "registry \<Rightarrow> registeredTool list" where
  "registeredTools reg = sortNamed (\<lambda>t. tdName (rtDefinition t)) (map snd (rgTools reg))"

section \<open>The broker\<close>

definition brokerListResources :: string where "brokerListResources = ''mcp_list_resources''"
definition brokerReadResource :: string where "brokerReadResource = ''mcp_read_resource''"
definition brokerListResourceTemplates :: string where "brokerListResourceTemplates = ''mcp_list_resource_templates''"
definition brokerListPrompts :: string where "brokerListPrompts = ''mcp_list_prompts''"
definition brokerGetPrompt :: string where "brokerGetPrompt = ''mcp_get_prompt''"

definition brokerNames :: "string list" where
  "brokerNames = [brokerListResources, brokerReadResource, brokerListResourceTemplates, brokerListPrompts, brokerGetPrompt]"

lemmas broker_names = brokerNames_def brokerListResources_def brokerReadResource_def
  brokerListResourceTemplates_def brokerListPrompts_def brokerGetPrompt_def

text \<open>The schemas as the literals of the code spell them, with their line breaks and tabs.\<close>

definition tabs :: "nat \<Rightarrow> string" where
  "tabs n = CHR 10 # replicate n (CHR 9)"

definition schemaText :: "nat \<Rightarrow> string list \<Rightarrow> string" where
  "schemaText indent lines = ''{'' @ concat (map (\<lambda>l. tabs indent @ l) lines) @ tabs (indent - 1) @ ''}''"

definition typeMember :: "string \<Rightarrow> string" where
  "typeMember t = jsonString ''type'' @ '':'' @ jsonString t"

definition textProperty :: "string \<Rightarrow> string" where
  "textProperty name = jsonString name @ '':{'' @ typeMember ''string'' @ '','' @ jsonString ''minLength'' @ '':1}''"

definition closedSchema :: "nat \<Rightarrow> string list \<Rightarrow> string list \<Rightarrow> jsonObject" where
  "closedSchema indent properties required = schemaText indent
     ([typeMember ''object'' @ '',''] @ properties @
      [jsonString ''required'' @ '':['' @ joinStrings (map jsonString required) '','' @ ''],'',
       jsonString ''additionalProperties'' @ '':false''])"

definition propertiesLine :: "string list \<Rightarrow> string" where
  "propertiesLine properties = jsonString ''properties'' @ '':{'' @ joinStrings properties '','' @ ''},''"

definition listSchema :: jsonObject where
  "listSchema = closedSchema 2 [propertiesLine [textProperty ''server'']] [''server'']"

definition readResourceSchema :: jsonObject where
  "readResourceSchema = closedSchema 3 [propertiesLine [textProperty ''server'', textProperty ''uri'']] [''server'', ''uri'']"

definition getPromptSchema :: jsonObject where
  "getPromptSchema = closedSchema 3
     [jsonString ''properties'' @ '':{'',
      CHR 9 # textProperty ''server'' @ '','',
      CHR 9 # textProperty ''name'' @ '','',
      CHR 9 # jsonString ''arguments'' @ '':{'' @ typeMember ''object'' @ '','' @ jsonString ''additionalProperties'' @
        '':{'' @ typeMember ''string'' @ ''}}'',
      ''},''] [''server'', ''name'']"

definition brokerDefinition :: "string \<Rightarrow> string \<Rightarrow> jsonObject \<Rightarrow> toolDefinition" where
  "brokerDefinition name description schema = \<lparr>
     tdName = name, tdDescription = description, tdInputSchema = schema, tdRequiresApproval = False,
     tdRunningType = OtherRunningType [], tdAttemptTimeout = minute, tdMaximumAttempts = 3,
     tdRetryTotalDuration = 5 * minute, tdSupportsParallel = False, tdRetryExhaustionPolicy = OtherPolicy []\<rparr>"

definition brokerDefinitions :: "toolDefinition list" where
  "brokerDefinitions =
     [brokerDefinition brokerListResources ''List resources exposed by an enabled MCP server.'' listSchema,
      brokerDefinition brokerReadResource ''Read one resource from an enabled MCP server.'' readResourceSchema,
      brokerDefinition brokerListResourceTemplates ''List resource templates exposed by an enabled MCP server.'' listSchema,
      brokerDefinition brokerListPrompts ''List prompts exposed by an enabled MCP server.'' listSchema,
      brokerDefinition brokerGetPrompt ''Render a prompt from an enabled MCP server as tool data.'' getPromptSchema]"

definition decodeBrokerArguments :: "'w mcpSdk \<Rightarrow> string \<Rightarrow> string \<Rightarrow> brokerArguments result" where
  "decodeBrokerArguments sdk name encoded =
     (case mkDecodeBroker sdk encoded of
        Inl e \<Rightarrow> Inl (Errorf ''decode %q arguments: %w'' [ArgStr name, ArgErr e])
      | Inr (arguments, TrailingDocument) \<Rightarrow> Inl (Errorf ''%q arguments contain trailing JSON'' [ArgStr name])
      | Inr (arguments, TrailingError e) \<Rightarrow> Inl (Errorf ''decode %q trailing arguments: %w'' [ArgStr name, ArgErr e])
      | Inr (arguments, TrailingEOF) \<Rightarrow>
          let trimmed = arguments \<lparr>baServer := trimSpace (baServer arguments), baURI := trimSpace (baURI arguments),
                baName := trimSpace (baName arguments)\<rparr>
          in if baServer trimmed = [] then Inl (Errorf ''%q requires server'' [ArgStr name]) else Inr trimmed)"

definition brokerEncoded :: "string result \<Rightarrow> string result" where
  "brokerEncoded r = (case r of Inl e \<Rightarrow> Inl (Errorf ''encode MCP broker result: %w'' [ArgErr e]) | Inr x \<Rightarrow> Inr x)"

definition invokeBroker :: "'w mcpSdk \<Rightarrow> nat \<Rightarrow> string \<Rightarrow> brokerArguments \<Rightarrow> ('w, string) io" where
  "invokeBroker sdk session name arguments =
     (if name = brokerListResources then bindIO (mkListResources sdk session) (\<lambda>r. liftIO (brokerEncoded r))
      else if name = brokerReadResource then
        (if baURI arguments = [] then failIO (New ''mcp_read_resource requires uri'')
         else bindIO (mkReadResource sdk session (baURI arguments)) (\<lambda>r. liftIO (brokerEncoded r)))
      else if name = brokerListResourceTemplates
      then bindIO (mkListResourceTemplates sdk session) (\<lambda>r. liftIO (brokerEncoded r))
      else if name = brokerListPrompts then bindIO (mkListPrompts sdk session) (\<lambda>r. liftIO (brokerEncoded r))
      else if name = brokerGetPrompt then
        (if baName arguments = [] then failIO (New ''mcp_get_prompt requires name'')
         else bindIO (mkGetPrompt sdk session (baName arguments) (baArguments arguments)) (\<lambda>r. liftIO (brokerEncoded r)))
      else failIO (Errorf ''unknown MCP broker tool %q'' [ArgStr name]))"

definition executeBroker ::
    "'w mcpSdk \<Rightarrow> registry \<Rightarrow> string list \<Rightarrow> toolInvocation \<Rightarrow> ('w, toolExecutionResult) io" where
  "executeBroker sdk reg enabled invocation =
     bindIO (liftIO (decodeBrokerArguments sdk (tiName invocation) (tiArguments invocation))) (\<lambda>arguments.
     case serverNamed reg (baServer arguments) of
       None \<Rightarrow> failIO (Errorf ''MCP server %q is not enabled'' [ArgStr (baServer arguments)])
     | Some server \<Rightarrow>
       if baServer arguments \<notin> set enabled
       then failIO (Errorf ''MCP server %q is not enabled'' [ArgStr (baServer arguments)])
       else bindIO (mcpConnect sdk server None) (\<lambda>session.
         thenIO (invokeBroker sdk session (tiName invocation) arguments) (\<lambda>r.
         thenIO (mkClose sdk session) (\<lambda>closed.
         case r of
           Inl e \<Rightarrow> failIO (joinErrors [Some e, errorOf closed])
         | Inr encoded \<Rightarrow> returnIO \<lparr>terContent = encoded, terOutcome = OutcomeSucceeded, terIsError = False\<rparr>))))"

section \<open>The catalog\<close>

definition isEnabled :: "string list \<Rightarrow> toolDefinition \<Rightarrow> bool" where
  "isEnabled enabledTools d \<longleftrightarrow> enabledTools = [] \<or> tdName d \<in> set enabledTools"

definition registryDefinitions :: "registry \<Rightarrow> string list \<Rightarrow> string list \<Rightarrow> toolDefinition list" where
  "registryDefinitions reg enabledServers enabledTools =
     (let servers = (if enabledServers = [] then rgServerNames reg else enabledServers);
          found = map rtDefinition (filter (\<lambda>t. rtServerName t \<in> set servers \<and> isEnabled enabledTools (rtDefinition t)) (map snd (rgTools reg)));
          brokers = (if servers = [] then [] else filter (isEnabled enabledTools) brokerDefinitions)
      in sortNamed tdName (found @ brokers))"

section \<open>Execution\<close>

definition decodeMCPArguments :: "'w mcpSdk \<Rightarrow> string \<Rightarrow> string result" where
  "decodeMCPArguments sdk encoded =
     (case mkDecodeArguments sdk encoded of
        Inl e \<Rightarrow> Inl (Errorf ''decode MCP tool arguments: %w'' [ArgErr e])
      | Inr None \<Rightarrow> Inl (New ''MCP tool arguments must be an object'')
      | Inr (Some arguments) \<Rightarrow> Inr arguments)"

definition toolOutcomeOf :: "string result \<Rightarrow> bool \<Rightarrow> toolExecutionResult result" where
  "toolOutcomeOf encoded isError =
     (case encoded of
        Inl e \<Rightarrow> Inl (Errorf ''encode MCP tool result: %w'' [ArgErr e])
      | Inr text \<Rightarrow> Inr \<lparr>terContent = text, terOutcome = (if isError then OutcomeKnownFailure else OutcomeSucceeded),
          terIsError = isError\<rparr>)"

definition executeOnce ::
    "'w mcpSdk \<Rightarrow> (string \<Rightarrow> unit result) \<Rightarrow> registeredTool \<Rightarrow> serverConfig \<Rightarrow> toolInvocation \<Rightarrow> ('w, toolExecutionResult) io" where
  "executeOnce sdk write tool server invocation =
     bindIO (mcpConnect sdk server (Some write)) (\<lambda>session.
     case decodeMCPArguments sdk (tiArguments invocation) of
       Inl e \<Rightarrow> thenIO (mkClose sdk session) (\<lambda>closed. failIO (joinErrors [Some e, errorOf closed]))
     | Inr arguments \<Rightarrow> (\<lambda>w. case mkCallTool sdk session (rtRemoteName tool) arguments (tiCallID invocation) w of
         None \<Rightarrow> None
       | Some (called, notes, w1) \<Rightarrow>
           thenIO (mkClose sdk session) (\<lambda>closed.
             case called of
               Inl e \<Rightarrow> failIO (joinErrors [Some e, errorOf closed, progressError write notes])
             | Inr (encoded, isError) \<Rightarrow>
                 (case progressError write notes of
                    Some e \<Rightarrow> failIO (joinErrors [Some e, errorOf closed])
                  | None \<Rightarrow> liftIO (toolOutcomeOf encoded isError))) w1))"

definition registryExecute ::
    "'w mcpSdk \<Rightarrow> registry \<Rightarrow> (string \<Rightarrow> unit result) option \<Rightarrow> toolInvocation \<Rightarrow> ('w, toolExecutionResult) io" where
  "registryExecute sdk reg progress invocation =
     (case progress of
        None \<Rightarrow> failIO (New ''MCP progress writer is required'')
      | Some write \<Rightarrow>
        let allowed = (if tiEnabledServers invocation = [] then map scName (rgServers reg) else tiEnabledServers invocation) in
        if tiName invocation \<in> set brokerNames then executeBroker sdk reg allowed invocation
        else if \<not> rgReady reg then failIO (New ''MCP registry is not started'')
        else case map_of (rgTools reg) (tiName invocation) of
          None \<Rightarrow> failIO (Errorf ''unknown MCP tool %q'' [ArgStr (tiName invocation)])
        | Some registered \<Rightarrow>
            if rtServerName registered \<notin> set allowed
            then failIO (Errorf ''MCP server %q is not enabled'' [ArgStr (rtServerName registered)])
            else case serverNamed reg (rtServerName registered) of
              None \<Rightarrow> failIO (Errorf ''unsupported MCP transport %q'' [ArgStr []])
            | Some server \<Rightarrow> executeOnce sdk write registered server invocation)"

end
