(* ===== verification/McpCatalog.thy ===== *)
theory McpCatalog
  imports McpTools ApiSnapshot Guarantees "HOL-Library.Multiset"
begin

text \<open>
  What the registry guarantees to the Flow that uses it: names that tell tools apart and fit the
  API contract, policies that the Flow accepts, and, with the approval gate of the Flow, that
  only a tool known to be read-only runs without approval. An invocation only reaches the server
  it is meant for.
\<close>

section \<open>Public names\<close>

lemma normalizedRune_ok: "isNameChar (normalizedRune seg)"
proof -
  have "isNameChar (CHR ''_'')" by code_simp
  then show ?thesis by (simp add: normalizedRune_def)
qed

lemma normalizeName_ok: "list_all isNameChar (normalizeName s)"
  by (simp add: normalizeName_def list_all_iff normalizedRune_ok)

lemma hexDigest_ok: "list_all isNameChar (hexDigest s)"
proof -
  have "list_all isNameChar ''0123456789abcdef''" by code_simp
  with set_hexDigest show ?thesis by (auto simp only: list_all_iff)
qed

text \<open>Two underscores in a row, and the length of a shortened name, tell public names from others.\<close>

fun underscored :: "string \<Rightarrow> bool" where
  "underscored (a # b # rest) \<longleftrightarrow> (a = CHR ''_'' \<and> b = CHR ''_'') \<or> underscored (b # rest)"
| "underscored rest \<longleftrightarrow> False"

lemma underscored_append: "underscored (xs @ ''__'' @ ys)"
proof (induction xs)
  case (Cons x xs)
  then show ?case by (cases xs) auto
qed simp

definition publicName :: "string \<Rightarrow> bool" where
  "publicName n \<longleftrightarrow> list_all isNameChar n \<and> 2 \<le> length n \<and> length n \<le> 64 \<and> (length n = 64 \<or> underscored n)"

lemma componentName_public: "publicName (componentName server component)"
proof -
  let ?c = "normalizeName server @ ''__'' @ normalizeName component"
  have c: "list_all isNameChar ?c" using normalizedRune_ok [of "(95, [])"]
    by (simp add: normalizeName_ok normalizedRune_def isNameChar_def isNameLetter_def)
  show ?thesis
  proof (cases "length ?c \<le> 64")
    case True
    then show ?thesis using c underscored_append [of "normalizeName server" "normalizeName component"]
      by (simp add: componentName_def publicName_def maximumPublicNameSize_def)
  next
    case False
    have "list_all isNameChar (take 55 ?c)" using c set_take_subset [of 55 ?c] unfolding list_all_iff by blast
    moreover have "list_all isNameChar (take 8 (hexDigest ?c))"
      using hexDigest_ok [of ?c] by (auto simp: list_all_iff dest: in_set_takeD)
    moreover have "isNameChar (CHR ''_'')" by code_simp
    ultimately have "list_all isNameChar (take 55 ?c @ ''_'' @ take 8 (hexDigest ?c))" by simp
    moreover have "length (take 55 ?c @ ''_'' @ take 8 (hexDigest ?c)) = 64"
      using False by (simp add: length_hexDigest)
    ultimately show ?thesis using False
      by (simp only: componentName_def Let_def maximumPublicNameSize_def publicName_def if_False) simp
  qed
qed

lemma own_names:
  "\<not> publicName toolNameWriteTodos" "\<not> publicName toolNameDurableWait" "\<not> publicName toolNameRequestUserInput"
  "\<not> publicName toolNameSimulateFailure" "list_all (\<lambda>n. \<not> publicName n) brokerNames"
  "distinct (toolNameWriteTodos # toolNameDurableWait # toolNameRequestUserInput # toolNameSimulateFailure # brokerNames)"
  by code_simp+

lemma publicName_fits: "publicName n \<Longrightarrow> nameFits n"
proof -
  assume n: "publicName n"
  have "length (segs s) = length s" if "list_all isNameChar s" for s
    using that
  proof (induction s)
    case Nil
    then show ?case by (simp add: segs.simps)
  next
    case (Cons c s)
    have "byte c < 128" using Cons.prems
      by (auto simp: isNameChar_def isNameLetter_def isDigit_def inRange_def)
    with Cons show ?case by (simp add: segs_Cons_ascii)
  qed
  with n show ?thesis by (simp add: publicName_def nameFits_def runeCount_def)
qed

section \<open>Registered tools\<close>

lemma registeredToolFor_Inr:
  assumes "registeredToolFor server tool = Inr t"
  shows "rtServerName t = scName server" "rtRemoteName t = mtName tool"
    and "tdName (rtDefinition t) = componentName (scName server) (mtName tool)"
    and "tdRequiresApproval (rtDefinition t) \<longleftrightarrow> readOnlyFor server tool \<noteq> Some True"
    and "tdSupportsParallel (rtDefinition t) \<longleftrightarrow> readOnlyFor server tool = Some True"
    and "runningTypeFor (policyFor server tool) = Inr (tdRunningType (rtDefinition t))"
    and "tdRetryExhaustionPolicy (rtDefinition t) = exhaustionFor (policyFor server tool)"
    and "tdMaximumAttempts (rtDefinition t) = attemptsFor server tool"
    and "0 < tdMaximumAttempts (rtDefinition t)" "0 < tdAttemptTimeout (rtDefinition t)"
    and "0 < tdRetryTotalDuration (rtDefinition t)"
  using assms unfolding registeredToolFor_def Let_def
  by (auto split: if_split_asm sum.split_asm)

text \<open>The tools of validated servers.\<close>

definition discoveredFrom :: "serverConfig list \<Rightarrow> (string \<times> registeredTool) list \<Rightarrow> bool" where
  "discoveredFrom servers tools \<longleftrightarrow> distinct (map fst tools) \<and>
     (\<forall>(n, t) \<in> set tools. n = tdName (rtDefinition t) \<and>
        (\<exists>server \<in> set servers. \<exists>tool. registeredToolFor server tool = Inr t))"

lemma addTools_discovered:
  assumes "addTools server tools discovered = Inr found" and "discoveredFrom servers discovered" and "server \<in> set servers"
  shows "discoveredFrom servers found"
  using assms
proof (induction server tools discovered rule: addTools.induct)
  case (3 server tool rest discovered)
  from 3(2) obtain t where t: "registeredToolFor server tool = Inr t"
    "tdName (rtDefinition t) \<notin> fst ` set discovered"
    "addTools server rest (discovered @ [(tdName (rtDefinition t), t)]) = Inr found"
    by (auto simp: Let_def split: sum.splits if_splits)
  have "discoveredFrom servers (discovered @ [(tdName (rtDefinition t), t)])"
    using 3(3,4) t(1,2) by (auto simp: discoveredFrom_def)
  with 3(1) [OF t(1) refl t(2) t(3)] 3(4) show ?case by blast
qed auto

lemma discoverPages_discovered:
  assumes "discoverPages sdk server session cursor discovered w = Some y"
    and "server \<in> set servers" and "discoveredFrom servers discovered" and "fst y = Inr found"
  shows "discoveredFrom servers found"
proof -
  let ?P = "\<lambda>sdk server session cursor discovered w y. server \<in> set servers \<longrightarrow>
    discoveredFrom servers discovered \<longrightarrow> (\<forall>found. fst y = Inr found \<longrightarrow> discoveredFrom servers found)"
  have "?P sdk server session cursor discovered w y"
  proof (rule discoverPages.raw_induct [where P = ?P, OF _ assms(1)], intro impI allI)
    fix loop :: "'a mcpSdk \<Rightarrow> serverConfig \<Rightarrow> nat \<Rightarrow> string \<Rightarrow> (string \<times> registeredTool) list \<Rightarrow> 'a
       \<Rightarrow> ((string \<times> registeredTool) list result \<times> 'a) option"
      and sdk server session cursor discovered w y found
    assume IH: "\<And>sdk server session cursor discovered w y. loop sdk server session cursor discovered w = Some y \<Longrightarrow>
        ?P sdk server session cursor discovered w y"
      and body: "(case mkListTools sdk session cursor w of None \<Rightarrow> None
         | Some (Inl e, w1) \<Rightarrow> Some (Inl e, w1)
         | Some (Inr (tools, nextCursor), w1) \<Rightarrow>
             (case addTools server tools discovered of Inl e \<Rightarrow> Some (Inl e, w1)
              | Inr found \<Rightarrow> if nextCursor = [] then Some (Inr found, w1)
                  else loop sdk server session nextCursor found w1)) = Some y"
      and server: "server \<in> set servers" and d: "discoveredFrom servers discovered" and y: "fst y = Inr found"
    from body y obtain tools after w1 more where page: "mkListTools sdk session cursor w = Some (Inr (tools, after), w1)"
      "addTools server tools discovered = Inr more"
      by (auto split: option.splits sum.splits prod.splits)
    from addTools_discovered [OF page(2) d server] IH [of sdk server session after more w1] body y page server
    show "discoveredFrom servers found" by (auto split: if_splits)
  qed
  with assms show ?thesis by blast
qed

lemma discoverServer_discovered:
  assumes "discoverServer sdk server discovered w = Some (Inr found, w')" and "server \<in> set servers"
    and "discoveredFrom servers discovered"
  shows "discoveredFrom servers found"
proof -
  from assms(1) obtain session w1 y where "discoverPages sdk server session [] discovered w1 = Some y" "fst y = Inr found"
    by (auto simp: discoverServer_def bindIO_apply thenIO_apply split: option.splits sum.splits prod.splits)
  from discoverPages_discovered [OF this(1) assms(2,3) this(2)] show ?thesis .
qed

lemma discoverServers_discovered:
  "discoverServers sdk rest discovered w = Some (Inr found, w') \<Longrightarrow> set rest \<subseteq> set servers \<Longrightarrow>
     discoveredFrom servers discovered \<Longrightarrow> discoveredFrom servers found"
proof (induction rest arbitrary: discovered w)
  case (Cons server rest)
  from Cons.prems(1) obtain more w1 where "discoverServer sdk server discovered w = Some (Inr more, w1)"
    "discoverServers sdk rest more w1 = Some (Inr found, w')"
    by (auto simp: thenIO_apply split: option.splits sum.splits prod.splits)
  with Cons show ?case by (auto intro: discoverServer_discovered)
qed simp

section \<open>A started registry\<close>

definition registryOk :: "urlLibrary \<Rightarrow> registry \<Rightarrow> bool" where
  "registryOk lib reg \<longleftrightarrow> discoveredFrom (rgServers reg) (rgTools reg) \<and> distinct (map scName (rgServers reg)) \<and>
     (\<forall>s \<in> set (rgServers reg). validateServer lib s = Inr ()) \<and> set (rgServerNames reg) = scName ` set (rgServers reg)"

lemma serverNamed_Some: "serverNamed reg n = Some s \<Longrightarrow> s \<in> set (rgServers reg) \<and> scName s = n"
  by (auto simp: serverNamed_def find_Some_iff)

lemma registry_ok:
  assumes "newRegistry lib servers = Inr reg" and "startRegistry sdk reg w = Some (r, reg', w')"
  shows "registryOk lib reg'"
proof -
  from assms(1) obtain kept where reg: "reg = \<lparr>rgServers = kept, rgServerNames = sortTexts (map scName kept), rgReady = False, rgTools = []\<rparr>"
    "acceptServers lib (\<lambda>name. New ''MCP server names must be unique'') 0 [] servers = Inr kept"
    by (auto simp: newRegistry_def split: sum.splits)
  from acceptServers_Inr [OF this(2)] have "\<forall>s \<in> set kept. validateServer lib s = Inr ()" "distinct (map scName kept)"
    by blast+
  then have new: "registryOk lib reg"
    unfolding reg by (simp add: registryOk_def discoveredFrom_def)
  have subset: "set (List.map_filter (serverNamed reg) (rgServerNames reg)) \<subseteq> set (rgServers reg)"
    by (auto simp: List.map_filter_def dest: serverNamed_Some)
  show ?thesis
  proof (cases r)
    case (Inl e)
    with assms(2) new show ?thesis
      by (auto simp: startRegistry_def registryOk_def discoveredFrom_def split: option.splits sum.splits prod.splits)
  next
    case (Inr u)
    with assms(2) obtain found where "discoverServers sdk (List.map_filter (serverNamed reg) (rgServerNames reg)) [] w = Some (Inr found, w')"
      "reg' = reg \<lparr>rgReady := True, rgTools := found\<rparr>"
      by (auto simp: startRegistry_def split: option.splits sum.splits prod.splits)
    moreover have "discoveredFrom (rgServers reg) []" by (simp add: discoveredFrom_def)
    ultimately show ?thesis using new discoverServers_discovered [OF _ subset]
      by (auto simp: registryOk_def)
  qed
qed

section \<open>The catalog\<close>

lemma mset_insertNamed: "mset (insertNamed name x xs) = add_mset x (mset xs)"
  by (induction xs) auto

lemma mset_sortNamed [simp]: "mset (sortNamed name xs) = mset xs"
  by (induction xs) (simp_all add: sortNamed_def mset_insertNamed)

lemma set_sortNamed [simp]: "set (sortNamed name xs) = set xs"
  using mset_sortNamed [of name xs] by (metis set_mset_mset)

lemma distinct_sortNamed: "distinct (map f (sortNamed name xs)) \<longleftrightarrow> distinct (map f xs)"
  using mset_sortNamed [of name xs] by (metis mset_eq_imp_distinct_iff mset_map)

lemma brokerDefinitions_names: "map tdName brokerDefinitions = brokerNames"
  by (simp add: brokerDefinitions_def brokerDefinition_def brokerNames_def)

lemma brokerDefinitions_policies:
  "d \<in> set brokerDefinitions \<Longrightarrow> validateToolExecutionPolicy d = Inr () \<and> \<not> tdRequiresApproval d \<and> \<not> tdSupportsParallel d"
  by (auto simp: brokerDefinitions_def brokerDefinition_def validateToolExecutionPolicy_Inr
      effectiveRunningType_def effectivePolicy_def minute_def second_def nanosecond_def)

lemma registryDefinitions_member:
  assumes "d \<in> set (registryDefinitions reg es ns)"
  shows "d \<in> set brokerDefinitions \<or> (\<exists>n t. (n, t) \<in> set (rgTools reg) \<and> d = rtDefinition t)"
  using assms by (auto simp: registryDefinitions_def Let_def split: if_splits) blast+

lemma registered_from:
  assumes "registryOk lib reg" and "(n, t) \<in> set (rgTools reg)"
  obtains server tool where "server \<in> set (rgServers reg)" "registeredToolFor server tool = Inr t"
    "n = tdName (rtDefinition t)" "validateServer lib server = Inr ()"
  using assms by (fastforce simp: registryOk_def discoveredFrom_def)

lemma registered_public:
  assumes "registryOk lib reg" and "(n, t) \<in> set (rgTools reg)"
  shows "n = tdName (rtDefinition t)" and "publicName n"
proof -
  obtain server tool where "registeredToolFor server tool = Inr t" "n = tdName (rtDefinition t)"
    by (rule registered_from [OF assms])
  with registeredToolFor_Inr(3) componentName_public show "n = tdName (rtDefinition t)" "publicName n" by metis+
qed

lemma policyFor_limits:
  assumes "validateServer lib server = Inr ()"
  shows "attemptsFor server tool \<le> maximumToolAttempts"
proof -
  have "checkAll validatePolicy (scTools server) = Inr ()"
    using assms by (auto simp: validateServer_def split: if_splits sum.splits)
  then have "validatePolicy (mtName tool, p) = Inr ()" if "map_of (scTools server) (mtName tool) = Some p" for p
    using that by (auto simp: checkAll_Inr dest: map_of_SomeD)
  then show ?thesis
    by (auto simp: attemptsFor_def policyFor_def unconfiguredPolicy_def maximumToolAttempts_def validatePolicy_Inr
        split: option.splits)
qed

lemma registered_policy:
  assumes "registryOk lib reg" and "(n, t) \<in> set (rgTools reg)"
  shows "validateToolExecutionPolicy (rtDefinition t) = Inr ()"
proof -
  obtain server tool where t: "registeredToolFor server tool = Inr t" "validateServer lib server = Inr ()"
    by (rule registered_from [OF assms])
  note r = registeredToolFor_Inr [OF t(1)]
  have "tdRunningType (rtDefinition t) \<in> {ShortRunning, LongRunning}"
    using r(6) by (auto simp: runningTypeFor_def split: if_splits)
  moreover have "tdMaximumAttempts (rtDefinition t) \<le> 10"
    using policyFor_limits [OF t(2)] r(8) by (simp add: maximumToolAttempts_def)
  ultimately show ?thesis using r(7,9-11)
    by (auto simp: validateToolExecutionPolicy_Inr effectiveRunningType_def effectivePolicy_def exhaustionFor_def)
qed

lemma registryDefinitions_ok:
  assumes "registryOk lib reg" and "d \<in> set (registryDefinitions reg es ns)"
  shows "validateToolExecutionPolicy d = Inr ()" and "tdName d \<in> set brokerNames \<or> publicName (tdName d)"
  using registryDefinitions_member [OF assms(2)] registered_policy [OF assms(1)] registered_public [OF assms(1)]
    brokerDefinitions_policies brokerDefinitions_names
  by (auto simp flip: set_map) (metis image_eqI set_map)+

lemma registryDefinitions_distinct:
  assumes "registryOk lib reg"
  shows "distinct (map tdName (registryDefinitions reg es ns))"
proof -
  let ?tools = "map snd (rgTools reg)"
  have "map tdName (map rtDefinition ?tools) = map fst (rgTools reg)"
    using registered_public(1) [OF assms] by auto
  moreover have "distinct (map fst (rgTools reg))"
    using assms by (simp add: registryOk_def discoveredFrom_def)
  ultimately have tools: "distinct (map tdName (map rtDefinition ?tools))" by (simp only:)
  have brokers: "distinct (map tdName brokerDefinitions)" using own_names(6) by (simp add: brokerDefinitions_names)
  have "tdName (rtDefinition t) \<notin> set brokerNames" if "t \<in> set ?tools" for t
    using registered_public [OF assms] own_names(5) that by (auto simp: list_all_iff)
  then have "tdName ` rtDefinition ` set ?tools \<inter> set (map tdName brokerDefinitions) = {}"
    unfolding brokerDefinitions_names by auto
  with tools brokers show ?thesis
    unfolding registryDefinitions_def Let_def distinct_sortNamed map_append distinct_append
    by (auto simp: distinct_map inj_on_def)
qed

text \<open>The Flow that uses a registry.\<close>

definition usesRegistry :: "flow \<Rightarrow> registry \<Rightarrow> bool" where
  "usesRegistry flow reg \<longleftrightarrow> fDefinitions flow = registryDefinitions reg \<and> fServerNames flow = rgServerNames reg"

lemma catalog_distinct:
  assumes "registryOk lib reg" and "usesRegistry flow reg"
  shows "distinctTools flow config"
proof -
  let ?mcp = "if cfgMCPEnabled config then registryDefinitions reg (cfgEnabledMCPServers config) (cfgEnabledTools config) else []"
  have own: "publicName n \<Longrightarrow> n \<notin> {toolNameWriteTodos, toolNameDurableWait, toolNameRequestUserInput, toolNameSimulateFailure}"
    "n \<in> set brokerNames \<Longrightarrow> n \<notin> {toolNameWriteTodos, toolNameDurableWait, toolNameRequestUserInput, toolNameSimulateFailure}" for n
    using own_names by auto
  have "tdName d \<notin> {toolNameWriteTodos, toolNameDurableWait, toolNameRequestUserInput, toolNameSimulateFailure}"
    if "d \<in> set ?mcp" for d
  proof -
    have "d \<in> set (registryDefinitions reg (cfgEnabledMCPServers config) (cfgEnabledTools config))"
      using that by (simp split: if_splits)
    from registryDefinitions_ok(2) [OF assms(1) this] own [of "tdName d"] show ?thesis by blast
  qed
  then have "set (map tdName ?mcp) \<inter>
      {toolNameWriteTodos, toolNameDurableWait, toolNameRequestUserInput, toolNameSimulateFailure} = {}" unfolding set_map by blast
  moreover have "distinct (map tdName ?mcp)" using registryDefinitions_distinct [OF assms(1)] by simp
  moreover have "map tdName (writeTodosDefinition flow # toolDefinitions flow config) =
      toolNameWriteTodos # map tdName ?mcp @ [toolNameDurableWait, toolNameRequestUserInput] @
      (if cfgModel config = defaultModel then [toolNameSimulateFailure] else [])"
    using assms(2) by (simp add: toolDefinitions_def usesRegistry_def writeTodosDefinition_def
        durableWaitDefinition_def requestUserInputDefinition_def simulateFailureDefinition_def builtInTool_def)
  ultimately show ?thesis using own_names(6) unfolding distinctTools_def by (simp del: set_map)
qed

lemma catalog_policies:
  assumes "registryOk lib reg" and "usesRegistry flow reg" and "d \<in> set (toolDefinitions flow config)"
  shows "validateToolExecutionPolicy d = Inr ()" and "nameFits (tdName d)"
proof -
  have own: "nameFits toolNameDurableWait" "nameFits toolNameRequestUserInput" "nameFits toolNameSimulateFailure"
    "list_all nameFits brokerNames" by code_simp+
  let ?mcp = "registryDefinitions reg (cfgEnabledMCPServers config) (cfgEnabledTools config)"
  have d: "d \<in> set ?mcp \<or> d \<in> {durableWaitDefinition flow, requestUserInputDefinition flow, simulateFailureDefinition}"
    using assms(2,3) by (auto simp: toolDefinitions_def usesRegistry_def split: if_splits)
  have built: "validateToolExecutionPolicy (durableWaitDefinition flow) = Inr ()"
    "validateToolExecutionPolicy (requestUserInputDefinition flow) = Inr ()"
    by (simp_all add: validateToolExecutionPolicy_Inr durableWaitDefinition_def requestUserInputDefinition_def
        builtInTool_def effectiveRunningType_def effectivePolicy_def)
  have "validateToolExecutionPolicy simulateFailureDefinition = Inr ()" by code_simp
  with d built registryDefinitions_ok(1) [OF assms(1)] show "validateToolExecutionPolicy d = Inr ()" by blast
  have "nameFits (tdName d)" if "d \<in> set ?mcp"
    using registryDefinitions_ok(2) [OF assms(1) that] own(4) publicName_fits by (auto simp: list_all_iff)
  with d own(1-3) show "nameFits (tdName d)"
    by (auto simp: durableWaitDefinition_def requestUserInputDefinition_def simulateFailureDefinition_def builtInTool_def)
qed

lemma servers_named:
  assumes "registryOk lib reg" and "n \<in> set (rgServerNames reg)"
  shows "1 \<le> runeCount n"
proof -
  from assms obtain s where "validateServer lib s = Inr ()" "scName s = n" by (auto simp: registryOk_def)
  then have "trimSpace n \<noteq> []" by (auto simp: validateServer_def split: if_splits)
  then have "n \<noteq> []" by auto
  then have "segs n \<noteq> []" by (subst segs.simps) (simp split: prod.split)
  then show ?thesis by (cases "segs n") (simp_all add: runeCount_def)
qed

section \<open>A concrete registry\<close>

definition exampleServer :: serverConfig where
  "exampleServer = \<lparr>scName = ''files'', scTransport = transportStdio, scCommand = ''mcp-files'', scArgs = [], scCWD = [],
     scEnvironment = [], scURL = [], scHeaders = [], scTrustReadOnlyAnnotations = True, scTools = []\<rparr>"

definition listedTool :: "string \<Rightarrow> bool \<Rightarrow> mcpTool" where
  "listedTool name hint = \<lparr>mtName = name, mtDescription = [], mtReadOnlyHint = Some hint, mtInputSchema = Inr ''{}''\<rparr>"

definition exampleSdk :: "unit mcpSdk" where
  "exampleSdk = \<lparr>mkEnvironment = (\<lambda>n. None), mkConnect = (\<lambda>name conn. returnIO (0, [])),
     mkListTools = (\<lambda>session cursor. returnIO (if cursor = [] then ([Some (listedTool ''read_file'' True)], ''2'')
       else ([Some (listedTool ''write_file'' False)], []))),
     mkCallTool = (\<lambda>session name arguments token w. Some (Inr (Inr ''{}'', False), [], w)),
     mkClose = (\<lambda>session. returnIO ()), mkListResources = (\<lambda>session. returnIO (Inr ''{}'')),
     mkReadResource = (\<lambda>session uri. returnIO (Inr ''{}'')), mkListResourceTemplates = (\<lambda>session. returnIO (Inr ''{}'')),
     mkListPrompts = (\<lambda>session. returnIO (Inr ''{}'')), mkGetPrompt = (\<lambda>session name arguments. returnIO (Inr ''{}'')),
     mkDecodeArguments = (\<lambda>arguments. Inr (Some arguments)),
     mkDecodeBroker = (\<lambda>arguments. Inl (External ''*json.SyntaxError''))\<rparr>"

definition exampleURLs :: urlLibrary where
  "exampleURLs = \<lparr>ulParse = (\<lambda>u. Inl (External ''*url.Error'')), ulValidHeaderFieldName = (\<lambda>n. True)\<rparr>"

definition registeredExample :: "string \<Rightarrow> bool \<Rightarrow> registeredTool" where
  "registeredExample name readOnly = \<lparr>rtServerName = ''files'', rtRemoteName = name, rtDefinition = \<lparr>
     tdName = ''files__'' @ name, tdDescription = ''MCP tool '' @ name, tdInputSchema = ''{}'',
     tdRequiresApproval = (\<not> readOnly), tdRunningType = ShortRunning, tdAttemptTimeout = 60 * second,
     tdMaximumAttempts = (if readOnly then 3 else 1), tdRetryTotalDuration = 300 * second,
     tdSupportsParallel = readOnly, tdRetryExhaustionPolicy = PolicyManualRecovery\<rparr>\<rparr>"

definition exampleRegistry :: registry where
  "exampleRegistry = \<lparr>rgServers = [exampleServer], rgServerNames = [''files''], rgReady = False, rgTools = []\<rparr>"

definition startedRegistry :: registry where
  "startedRegistry = exampleRegistry \<lparr>rgReady := True,
     rgTools := [(''files__read_file'', registeredExample ''read_file'' True),
       (''files__write_file'', registeredExample ''write_file'' False)]\<rparr>"

lemma example_new: "newRegistry exampleURLs [exampleServer] = Inr exampleRegistry"
  by code_simp

lemma example_started: "startRegistry exampleSdk exampleRegistry () = Some (Inr (), startedRegistry, ())"
  by code_simp

definition registryFlow :: flow where
  "registryFlow = exampleFlow \<lparr>fServerNames := rgServerNames startedRegistry, fDefinitions := registryDefinitions startedRegistry\<rparr>"

lemma registryFlow_uses: "usesRegistry registryFlow startedRegistry"
  by (simp add: registryFlow_def usesRegistry_def)

text \<open>
  C7. A started registry and the Flow fit together: whatever servers and tools a configuration
  enables, the tools of a turn have distinct names, none of them the name of a built-in tool,
  every policy is one the Flow accepts, and every name fits the API contract of the snapshot.
\<close>

theorem registry_fits_flow:
  assumes "newRegistry lib servers = Inr reg" and "startRegistry sdk reg w = Some (r, reg', w')"
    and "usesRegistry flow reg'"
  shows "distinctTools flow config \<and> (\<forall>d \<in> set (toolDefinitions flow config). validateToolExecutionPolicy d = Inr ()) \<and>
     catalogFits flow config"
proof -
  note ok = registry_ok [OF assms(1,2)]
  have "list_all (\<lambda>n. 1 \<le> runeCount n) (fServerNames flow)"
    using servers_named [OF ok] assms(3) by (simp add: list_all_iff usesRegistry_def)
  then show ?thesis
    using catalog_distinct [OF ok assms(3)] catalog_policies [OF ok assms(3)]
    by (simp add: catalogFits_def list_all_iff)
qed

theorem registry_fits_flow_witness:
  "distinctTools registryFlow newAgentConfig \<and> catalogFits registryFlow newAgentConfig \<and>
     map tdName (registryDefinitions startedRegistry [] [''files__write_file'', ''mcp_get_prompt'']) =
       [''files__write_file'', ''mcp_get_prompt'']"
proof -
  have "map tdName (registryDefinitions startedRegistry [] [''files__write_file'', ''mcp_get_prompt'']) =
      [''files__write_file'', ''mcp_get_prompt'']" by code_simp
  with registry_fits_flow [OF example_new example_started registryFlow_uses] show ?thesis by blast
qed

section \<open>Approval\<close>

text \<open>The operator's word about a tool: its policy, or trust in the annotations of its server.\<close>

definition knownReadOnly :: "serverConfig \<Rightarrow> mcpTool \<Rightarrow> bool" where
  "knownReadOnly server tool \<longleftrightarrow>
     (case map_of (scTools server) (mtName tool) of
        Some policy \<Rightarrow> tpReadOnly policy = Some True \<or>
          (tpReadOnly policy = None \<and> scTrustReadOnlyAnnotations server \<and> mtReadOnlyHint tool = Some True)
      | None \<Rightarrow> scTrustReadOnlyAnnotations server \<and> mtReadOnlyHint tool = Some True)"

lemma knownReadOnly_iff: "readOnlyFor server tool = Some True \<longleftrightarrow> knownReadOnly server tool"
  by (auto simp: readOnlyFor_def knownReadOnly_def policyFor_def unconfiguredPolicy_def split: option.splits)

lemma needsApproval_unknown:
  assumes "registryOk lib reg" and "usesRegistry flow reg" and "(name, t) \<in> set (rgTools reg)"
    and "rtDefinition t \<in> set (toolDefinitions flow config)"
  shows "\<exists>server tool. server \<in> set (rgServers reg) \<and> registeredToolFor server tool = Inr t \<and>
     (needsApproval flow config name \<longleftrightarrow> \<not> knownReadOnly server tool)"
proof -
  obtain server tool where t: "server \<in> set (rgServers reg)" "registeredToolFor server tool = Inr t"
    "name = tdName (rtDefinition t)" by (rule registered_from [OF assms(1,3)])
  have unique: "d = rtDefinition t" if "d \<in> set (toolDefinitions flow config)" "tdName d = name" for d
    using catalog_distinct [OF assms(1,2), of config] that assms(4) t(3)
    by (auto simp: distinctTools_def distinct_map dest: inj_onD)
  have "needsApproval flow config name \<longleftrightarrow> tdRequiresApproval (rtDefinition t)"
    unfolding needsApproval_def using unique assms(4) t(3) by blast
  with registeredToolFor_Inr(4) [OF t(2)] t(1,2) show ?thesis by (auto simp: knownReadOnly_iff)
qed

text \<open>
  C6. A tool of an MCP server runs without the approval of a user only if the operator knows it to
  be read-only: along every run of a Flow on a started registry, when a call of a discovered tool
  is attempted, then either a command that approved this call was accepted before, or the tool's
  policy says it is read-only, or the operator trusts the annotations of the server and the
  server says so (and no policy says otherwise).
\<close>

theorem unapproved_tools_are_read_only:
  assumes "newRegistry lib servers = Inr reg" and "startRegistry sdk reg w = Some (r, reg', w')"
    and "usesRegistry flow reg'"
    and "run flow (startConfiguration config metadata now) ls c" and "cfOutcome c = Running"
    and "a \<in> set (cfActive c)" and "attempted (asInput a) (cfStore c) = Some call"
    and "(tcName call, t) \<in> set (rgTools reg')" and "rtDefinition t \<in> set (toolDefinitions flow config)"
  shows "(\<exists>d. Commanded (ApproveTool d) True \<in> set ls \<and> tarApproved d \<and> tarCallID d = tcID call) \<or>
     (\<exists>server tool. server \<in> set (rgServers reg') \<and> registeredToolFor server tool = Inr t \<and> knownReadOnly server tool)"
proof -
  note ok = registry_ok [OF assms(1,2)]
  from needsApproval_unknown [OF ok assms(3,8,9)] obtain server tool where t: "server \<in> set (rgServers reg')"
    "registeredToolFor server tool = Inr t" "needsApproval flow config (tcName call) \<longleftrightarrow> \<not> knownReadOnly server tool" by blast
  show ?thesis
    using approval_ok [OF assms(4) catalog_distinct [OF ok assms(3)] assms(5-7)] t by blast
qed

definition approvedRemoteCall :: "move list" where
  "approvedRemoteCall = firstTurn [exampleCall ''a'' ''files__write_file''] @ drop (length (firstTurn [])) approvedCall"

lemma approvedRemoteCall_evaluates:
  "map_option (glance \<circ> snd) (performAll registryFlow exampleCtx approvedRemoteCall [] beginning) =
     Some (Running, [ExecuteTool], Some (''a'', ''files__write_file''))"
  by code_simp

theorem unapproved_tools_are_read_only_witness:
  "\<exists>ls c d. run registryFlow (startConfiguration newAgentConfig ''{}'' startedAt) ls c \<and>
     map asInput (cfActive c) = [ExecuteTool] \<and> Commanded (ApproveTool d) True \<in> set ls \<and> tarCallID d = ''a''"
proof -
  from approvedRemoteCall_evaluates obtain ls c where
    r: "performAll registryFlow exampleCtx approvedRemoteCall [] beginning = Some (ls, c)"
    and g: "glance c = (Running, [ExecuteTool], Some (''a'', ''files__write_file''))" by auto
  have "list_all fair (firstTurn [exampleCall ''a'' ''files__write_file''])" by (simp add: firstTurn_fair)
  then have "list_all fair approvedRemoteCall"
    using approvedCall_fair by (auto simp: approvedRemoteCall_def list_all_iff dest: in_set_dropD)
  with performAll_run [OF r] have run: "run registryFlow (startConfiguration newAgentConfig ''{}'' startedAt) ls c"
    by (simp add: beginning_def)
  from g obtain a call where c: "cfOutcome c = Running" "cfActive c = [a]" "asInput a = ExecuteTool"
    "attempted (asInput a) (cfStore c) = Some call" "tcID call = ''a''" "tcName call = ''files__write_file''"
    by (auto simp: glance_def)
  let ?t = "registeredExample ''write_file'' False"
  have "rtDefinition ?t \<in> set (toolDefinitions registryFlow newAgentConfig)" by code_simp
  moreover have "(tcName call, ?t) \<in> set (rgTools startedRegistry)" by (simp add: c(6) startedRegistry_def)
  moreover have "\<not> knownReadOnly server tool" if "registeredToolFor server tool = Inr ?t" for server tool
    using registeredToolFor_Inr(4) [OF that] by (simp add: registeredExample_def knownReadOnly_iff)
  ultimately obtain d where "Commanded (ApproveTool d) True \<in> set ls" "tarCallID d = ''a''"
    using unapproved_tools_are_read_only [OF example_new example_started registryFlow_uses run c(1), of a call ?t] c by auto
  with run c(2,3) show ?thesis by (intro exI conjI) auto
qed

section \<open>Execution\<close>

text \<open>The servers an invocation may reach: enabled and configured, and for a tool only its own.\<close>

definition reachableServers :: "registry \<Rightarrow> toolInvocation \<Rightarrow> string set" where
  "reachableServers reg invocation = {n. n \<in> scName ` set (rgServers reg) \<and>
     (tiEnabledServers invocation = [] \<or> n \<in> set (tiEnabledServers invocation)) \<and>
     (tiName invocation \<in> set brokerNames \<or>
       (rgReady reg \<and> (\<exists>t. map_of (rgTools reg) (tiName invocation) = Some t \<and> n = rtServerName t)))}"

lemma connect_update:
  "mkConnect (sdk \<lparr>mkConnect := connect\<rparr>) = connect" "mkEnvironment (sdk \<lparr>mkConnect := connect\<rparr>) = mkEnvironment sdk"
  "mkClose (sdk \<lparr>mkConnect := connect\<rparr>) = mkClose sdk" "mkCallTool (sdk \<lparr>mkConnect := connect\<rparr>) = mkCallTool sdk"
  "mkDecodeArguments (sdk \<lparr>mkConnect := connect\<rparr>) = mkDecodeArguments sdk"
  "mkDecodeBroker (sdk \<lparr>mkConnect := connect\<rparr>) = mkDecodeBroker sdk"
  by simp_all

lemma mcpConnect_same:
  "connect (scName server) = mkConnect sdk (scName server) \<Longrightarrow>
     mcpConnect (sdk \<lparr>mkConnect := connect\<rparr>) server progress = mcpConnect sdk server progress"
  unfolding mcpConnect_def connect_update by simp

lemma executeOnce_same:
  "connect (scName server) = mkConnect sdk (scName server) \<Longrightarrow>
     executeOnce (sdk \<lparr>mkConnect := connect\<rparr>) write tool server invocation = executeOnce sdk write tool server invocation"
  unfolding executeOnce_def decodeMCPArguments_def connect_update by (simp only: mcpConnect_same)

lemma decodeBroker_same: "decodeBrokerArguments (sdk \<lparr>mkConnect := connect\<rparr>) = decodeBrokerArguments sdk"
  by (simp add: decodeBrokerArguments_def fun_eq_iff)

lemma invokeBroker_same: "invokeBroker (sdk \<lparr>mkConnect := connect\<rparr>) = invokeBroker sdk"
  by (simp add: invokeBroker_def fun_eq_iff)

lemma executeBroker_same:
  assumes "\<And>n. n \<in> scName ` set (rgServers reg) \<Longrightarrow> n \<in> set enabled \<Longrightarrow> connect n = mkConnect sdk n"
  shows "executeBroker (sdk \<lparr>mkConnect := connect\<rparr>) reg enabled invocation = executeBroker sdk reg enabled invocation"
proof -
  have "mcpConnect (sdk \<lparr>mkConnect := connect\<rparr>) server None = mcpConnect sdk server None"
    if "serverNamed reg (baServer arguments) = Some server" "baServer arguments \<in> set enabled" for server arguments
    using serverNamed_Some [OF that(1)] that(2) by (intro mcpConnect_same assms) (metis image_eqI, simp)
  note connects = this
  show ?thesis
  proof (cases "decodeBrokerArguments sdk (tiName invocation) (tiArguments invocation)")
    case (Inl e)
    then show ?thesis by (simp add: executeBroker_def decodeBroker_same)
  next
    case (Inr arguments)
    then show ?thesis
      unfolding executeBroker_def decodeBroker_same invokeBroker_same connect_update
      by (cases "serverNamed reg (baServer arguments)") (simp_all add: connects fun_eq_iff)
  qed
qed

text \<open>
  C8. Confinement: an invocation reaches no server but those the Agent enabled and the operator
  configured, and the invocation of a tool only the server of that tool. Whatever the other
  servers do, its result and its effects are the same.
\<close>

theorem execute_is_confined:
  assumes "\<And>n. n \<in> reachableServers reg invocation \<Longrightarrow> connect n = mkConnect sdk n"
  shows "registryExecute (sdk \<lparr>mkConnect := connect\<rparr>) reg progress invocation = registryExecute sdk reg progress invocation"
proof (cases progress)
  case (Some writer)
  let ?allowed = "if tiEnabledServers invocation = [] then map scName (rgServers reg) else tiEnabledServers invocation"
  show ?thesis
  proof (cases "tiName invocation \<in> set brokerNames")
    case True
    have "executeBroker (sdk \<lparr>mkConnect := connect\<rparr>) reg ?allowed invocation = executeBroker sdk reg ?allowed invocation"
      using True by (intro executeBroker_same assms) (auto simp: reachableServers_def split: if_splits)
    with True Some show ?thesis by (simp add: registryExecute_def Let_def)
  next
    case False
    have "executeOnce (sdk \<lparr>mkConnect := connect\<rparr>) writer t server invocation = executeOnce sdk writer t server invocation"
      if "rgReady reg" "map_of (rgTools reg) (tiName invocation) = Some t" "rtServerName t \<in> set ?allowed"
        "serverNamed reg (rtServerName t) = Some server" for t server
      using serverNamed_Some [OF that(4)] that(1-3)
      by (intro executeOnce_same assms) (auto simp: reachableServers_def image_iff split: if_splits intro: sym)
    with False Some show ?thesis
      by (auto simp: registryExecute_def Let_def split: option.split)
  qed
qed (simp add: registryExecute_def)

definition exampleInvocation :: toolInvocation where
  "exampleInvocation = \<lparr>tiFlowID = ''agent-1'', tiRuntimeMetadata = ''{}'', tiName = ''files__read_file'', tiArguments = ''{}'',
     tiEnabledServers = [''files''], tiCallID = ''a'', tiAttempt = 1, tiFirstAttemptAt = 0\<rparr>"

theorem execute_is_confined_witness:
  "registryExecute (exampleSdk \<lparr>mkConnect := (\<lambda>n. if n = ''files'' then mkConnect exampleSdk n else (\<lambda>conn w. None))\<rparr>)
     startedRegistry (Some (\<lambda>text. Inr ())) exampleInvocation () =
   Some (Inr \<lparr>terContent = ''{}'', terOutcome = OutcomeSucceeded, terIsError = False\<rparr>, ())"
proof -
  have "registryExecute exampleSdk startedRegistry (Some (\<lambda>text. Inr ())) exampleInvocation () =
      Some (Inr \<lparr>terContent = ''{}'', terOutcome = OutcomeSucceeded, terIsError = False\<rparr>, ())" by code_simp
  moreover have "n = ''files''" if "n \<in> reachableServers startedRegistry exampleInvocation" for n
    using that by (simp add: reachableServers_def exampleInvocation_def)
  ultimately show ?thesis
    by (subst execute_is_confined) auto
qed

end
