(* ===== verification/McpLifecycle.thy ===== *)
theory McpLifecycle
  imports McpTools
begin

text \<open>
  The lifecycle of the registry under concurrent calls of \<^verbatim>\<open>Start\<close> and \<^verbatim>\<open>Close\<close>
  (\<^verbatim>\<open>internal/mcp/registry.go\<close>). A move is one critical section of the mutex, or the return of a
  caller that waits for the channel \<^verbatim>\<open>startDone\<close>. Callers are numbered; a channel is numbered by
  the discovery that made it.
\<close>

section \<open>Callers and moves\<close>

datatype lifecycle = Stopped | Starting | Ready | Closing

datatype caller =
    Idle
  | Joining nat
  | Discovering nat
  | Refused nat
  | CloseWaiting nat
  | Returned "goError option"
  | Panicked

record life =
  lfLifecycle :: lifecycle
  lfStartDone :: "nat option"
  lfStartErr :: "goError option"
  lfTools :: "(string \<times> registeredTool) list"
  lfClosed :: "nat set"
  lfCancelled :: "nat set"
  lfNext :: nat
  lfCallers :: "nat \<Rightarrow> caller"

definition stoppedLife :: life where
  "stoppedLife = \<lparr>lfLifecycle = Stopped, lfStartDone = None, lfStartErr = None, lfTools = [], lfClosed = {},
     lfCancelled = {}, lfNext = 0, lfCallers = (\<lambda>t. Idle)\<rparr>"

text \<open>
  A caller starts, returns from joining, gives up because its context is done, ends its discovery
  with a result; a caller closes, and ends its close once the discovery it cancelled is over.
\<close>

datatype lifeMove =
    CallStart nat
  | JoinStart nat
  | GiveUp nat goError
  | FinishStart nat "(string \<times> registeredTool) list result"
  | CallClose nat
  | EndClose nat

definition at :: "nat \<Rightarrow> caller \<Rightarrow> life \<Rightarrow> life" where
  "at t c s = s \<lparr>lfCallers := (lfCallers s)(t := c)\<rparr>"

definition mayCall :: "caller \<Rightarrow> bool" where
  "mayCall c \<longleftrightarrow> (case c of Idle \<Rightarrow> True | Returned e \<Rightarrow> True | _ \<Rightarrow> False)"

definition enterStart :: "nat \<Rightarrow> life \<Rightarrow> life" where
  "enterStart t s =
     (case lfLifecycle s of
        Ready \<Rightarrow> at t (Returned None) s
      | Starting \<Rightarrow> (case lfStartDone s of Some ch \<Rightarrow> at t (Joining ch) s | None \<Rightarrow> s)
      | Closing \<Rightarrow> (case lfStartDone s of
            Some ch \<Rightarrow> at t (Refused ch) s
          | None \<Rightarrow> at t (Returned (Some (New ''MCP registry is closing''))) s)
      | Stopped \<Rightarrow> at t (Discovering (lfNext s))
          (s \<lparr>lfLifecycle := Starting, lfStartDone := Some (lfNext s), lfStartErr := None, lfNext := Suc (lfNext s)\<rparr>))"

text \<open>The closing section of \<^verbatim>\<open>Start\<close>; closing a closed channel panics.\<close>

definition finishStart :: "nat \<Rightarrow> (string \<times> registeredTool) list result \<Rightarrow> life \<Rightarrow> life" where
  "finishStart t r s =
     (let s' = s \<lparr>lfLifecycle := (if lfLifecycle s = Closing then Stopped else case r of Inr found \<Rightarrow> Ready | Inl e \<Rightarrow> Stopped),
            lfTools := (if lfLifecycle s = Closing then [] else case r of Inr found \<Rightarrow> found | Inl e \<Rightarrow> []),
            lfStartErr := errorOf r\<rparr>
      in case lfStartDone s of
           None \<Rightarrow> at t Panicked s'
         | Some ch \<Rightarrow>
             if ch \<in> lfClosed s then at t Panicked s'
             else at t (Returned (errorOf r)) (s' \<lparr>lfClosed := insert ch (lfClosed s)\<rparr>))"

definition enterClose :: "nat \<Rightarrow> life \<Rightarrow> life" where
  "enterClose t s =
     (if lfLifecycle s = Starting
      then (case lfStartDone s of
              Some ch \<Rightarrow> at t (CloseWaiting ch) (s \<lparr>lfLifecycle := Closing, lfCancelled := insert ch (lfCancelled s)\<rparr>)
            | None \<Rightarrow> s)
      else at t (Returned None) (s \<lparr>lfLifecycle := Stopped, lfTools := []\<rparr>))"

definition endClose :: "nat \<Rightarrow> life \<Rightarrow> life" where
  "endClose t s = at t (Returned None) (s \<lparr>lfLifecycle := Stopped, lfTools := []\<rparr>)"

fun performMove :: "lifeMove \<Rightarrow> life \<Rightarrow> life option" where
  "performMove (CallStart t) s = (if mayCall (lfCallers s t) then Some (enterStart t s) else None)"
| "performMove (JoinStart t) s =
     (case lfCallers s t of
        Joining ch \<Rightarrow> if ch \<in> lfClosed s then Some (at t (Returned (lfStartErr s)) s) else None
      | Refused ch \<Rightarrow> if ch \<in> lfClosed s then Some (at t (Returned (Some (New ''MCP registry is closing''))) s) else None
      | _ \<Rightarrow> None)"
| "performMove (GiveUp t e) s =
     (case lfCallers s t of
        Joining ch \<Rightarrow> Some (at t (Returned (Some e)) s)
      | Refused ch \<Rightarrow> Some (at t (Returned (Some e)) s)
      | _ \<Rightarrow> None)"
| "performMove (FinishStart t r) s = (case lfCallers s t of Discovering ch \<Rightarrow> Some (finishStart t r s) | _ \<Rightarrow> None)"
| "performMove (CallClose t) s = (if mayCall (lfCallers s t) then Some (enterClose t s) else None)"
| "performMove (EndClose t) s =
     (case lfCallers s t of CloseWaiting ch \<Rightarrow> if ch \<in> lfClosed s then Some (endClose t s) else None | _ \<Rightarrow> None)"

section \<open>Orderly runs\<close>

text \<open>In an orderly run nobody calls \<^verbatim>\<open>Start\<close> or \<^verbatim>\<open>Close\<close> while a \<^verbatim>\<open>Close\<close> is waiting.\<close>

definition closing :: "life \<Rightarrow> bool" where
  "closing s \<longleftrightarrow> (\<exists>t ch. lfCallers s t = CloseWaiting ch)"

definition orderly :: "lifeMove \<Rightarrow> life \<Rightarrow> bool" where
  "orderly m s \<longleftrightarrow> (case m of CallStart t \<Rightarrow> \<not> closing s | CallClose t \<Rightarrow> \<not> closing s | _ \<Rightarrow> True)"

inductive lifeRun :: "bool \<Rightarrow> life \<Rightarrow> bool" for ordered where
  lifeStart: "lifeRun ordered stoppedLife"
| lifeNext: "lifeRun ordered s \<Longrightarrow> performMove m s = Some s' \<Longrightarrow> (ordered \<Longrightarrow> orderly m s) \<Longrightarrow> lifeRun ordered s'"

inductive_cases lifeRunE: "lifeRun ordered s"

text \<open>The discovery in progress owns the channel that everybody waits for.\<close>

definition inProgress :: "life \<Rightarrow> nat \<Rightarrow> bool" where
  "inProgress s ch \<longleftrightarrow> lfLifecycle s \<in> {Starting, Closing} \<and> lfStartDone s = Some ch \<and> ch \<notin> lfClosed s"

fun callerOk :: "life \<Rightarrow> caller \<Rightarrow> bool" where
  "callerOk s Idle \<longleftrightarrow> True"
| "callerOk s (Joining ch) \<longleftrightarrow> ch \<in> lfClosed s \<or> inProgress s ch"
| "callerOk s (Discovering ch) \<longleftrightarrow> inProgress s ch"
| "callerOk s (Refused ch) \<longleftrightarrow> ch \<in> lfClosed s \<or> inProgress s ch"
| "callerOk s (CloseWaiting ch) \<longleftrightarrow>
     (if ch \<in> lfClosed s then lfLifecycle s = Stopped else inProgress s ch \<and> lfLifecycle s = Closing)"
| "callerOk s (Returned e) \<longleftrightarrow> True"
| "callerOk s Panicked \<longleftrightarrow> False"

definition discoverers :: "life \<Rightarrow> nat set" where
  "discoverers s = {t. \<exists>ch. lfCallers s t = Discovering ch}"

definition lifeInv :: "life \<Rightarrow> bool" where
  "lifeInv s \<longleftrightarrow> (\<forall>t. callerOk s (lfCallers s t)) \<and>
     (if lfLifecycle s \<in> {Starting, Closing} then \<exists>t. discoverers s = {t} else discoverers s = {}) \<and>
     (lfLifecycle s = Closing \<longrightarrow> closing s) \<and>
     (\<forall>ch \<in> lfClosed s. ch < lfNext s) \<and> (\<forall>ch. lfStartDone s = Some ch \<longrightarrow> ch < lfNext s) \<and>
     (lfLifecycle s \<noteq> Ready \<longrightarrow> lfTools s = [])"

lemma at_simps [simp]:
  "lfLifecycle (at t c s) = lfLifecycle s" "lfStartDone (at t c s) = lfStartDone s" "lfClosed (at t c s) = lfClosed s"
  "lfTools (at t c s) = lfTools s" "lfNext (at t c s) = lfNext s" "lfStartErr (at t c s) = lfStartErr s"
  "lfCallers (at t c s) = (lfCallers s)(t := c)"
  by (simp_all add: at_def)

lemma callerOk_cong:
  assumes "lfLifecycle s' = lfLifecycle s" "lfStartDone s' = lfStartDone s" "lfClosed s' = lfClosed s"
  shows "callerOk s' c = callerOk s c"
  using assms by (cases c) (simp_all add: inProgress_def)

lemma callerOk_at [simp]: "callerOk (at t c s) d = callerOk s d"
  by (rule callerOk_cong) simp_all

text \<open>A caller that neither discovers nor closes changes its own place only.\<close>

lemma lifeInv_at:
  assumes "lifeInv s" and "\<And>ch. lfCallers s t \<noteq> Discovering ch" and "\<And>ch. lfCallers s t \<noteq> CloseWaiting ch"
    and "callerOk s c" and "\<And>ch. c \<noteq> Discovering ch"
  shows "lifeInv (at t c s)"
proof -
  have "discoverers (at t c s) = discoverers s"
    using assms(2,5) by (auto simp: discoverers_def)
  moreover have "closing s \<Longrightarrow> closing (at t c s)"
    using assms(3) unfolding closing_def at_simps fun_upd_apply by metis
  ultimately show ?thesis using assms by (simp add: lifeInv_def)
qed

lemma enterStart_inv:
  assumes "lifeInv s" and "\<not> closing s" and "mayCall (lfCallers s t)"
  shows "lifeInv (enterStart t s)"
proof -
  have here: "lfCallers s t \<noteq> Discovering ch" "lfCallers s t \<noteq> CloseWaiting ch" for ch
    using assms(3) by (auto simp: mayCall_def)
  show ?thesis
  proof (cases "lfLifecycle s")
    case Stopped
    let ?s = "s \<lparr>lfLifecycle := Starting, lfStartDone := Some (lfNext s), lfStartErr := None, lfNext := Suc (lfNext s)\<rparr>"
    have fresh: "lfNext s \<notin> lfClosed s" using assms(1) by (auto simp: lifeInv_def)
    have "callerOk ?s (lfCallers s u)" for u
    proof -
      have "callerOk s (lfCallers s u)" using assms(1) by (simp add: lifeInv_def)
      moreover have "lfCallers s u \<noteq> CloseWaiting ch" for ch using assms(2) by (auto simp: closing_def)
      ultimately show ?thesis using Stopped by (cases "lfCallers s u") (auto simp: inProgress_def)
    qed
    moreover have "discoverers (at t (Discovering (lfNext s)) ?s) = {t}"
      using assms(1) Stopped by (auto simp: discoverers_def lifeInv_def)
    moreover have "\<forall>ch \<in> lfClosed s. ch < Suc (lfNext s)" "lfTools s = []"
      using assms(1) Stopped by (auto simp: lifeInv_def)
    ultimately show ?thesis using Stopped fresh
      by (simp add: enterStart_def lifeInv_def inProgress_def)
  next
    case Starting
    with assms(1) obtain d where "discoverers s = {d}" by (auto simp: lifeInv_def)
    then obtain ch where "lfCallers s d = Discovering ch" by (auto simp: discoverers_def)
    with assms(1) have "inProgress s ch" unfolding lifeInv_def by (metis callerOk.simps(3))
    with Starting show ?thesis
      using lifeInv_at [OF assms(1) here, of "Joining ch"] by (simp add: enterStart_def inProgress_def)
  next
    case Ready
    then show ?thesis using lifeInv_at [OF assms(1) here, of "Returned None"] by (simp add: enterStart_def)
  next
    case Closing
    with assms(1,2) show ?thesis by (simp add: lifeInv_def)
  qed
qed

lemma finishStart_inv:
  assumes "lifeInv s" and "lfCallers s t = Discovering ch"
  shows "lifeInv (finishStart t r s)" and "lfCallers (finishStart t r s) t = Returned (errorOf r)"
proof -
  have ch: "inProgress s ch" using assms unfolding lifeInv_def by (metis callerOk.simps(3))
  let ?l = "if lfLifecycle s = Closing then Stopped else case r of Inr found \<Rightarrow> Ready | Inl e \<Rightarrow> Stopped"
  let ?s = "s \<lparr>lfLifecycle := ?l,
      lfTools := (if lfLifecycle s = Closing then [] else case r of Inr found \<Rightarrow> found | Inl e \<Rightarrow> []),
      lfStartErr := errorOf r, lfClosed := insert ch (lfClosed s)\<rparr>"
  have fin: "finishStart t r s = at t (Returned (errorOf r)) ?s"
    using ch by (simp add: finishStart_def inProgress_def Let_def)
  then show "lfCallers (finishStart t r s) t = Returned (errorOf r)" by simp
  have at: "t \<in> discoverers s" using assms(2) by (auto simp: discoverers_def)
  have busy: "lfLifecycle s \<in> {Starting, Closing}" "lfStartDone s = Some ch" using ch by (auto simp: inProgress_def)
  then obtain d where "discoverers s = {d}" using assms(1) unfolding lifeInv_def by auto
  then have only: "discoverers s = {t}" using at by auto
  have fresh: "ch < lfNext s" using assms(1) busy(2) by (simp add: lifeInv_def)
  have empty: "lfTools s = []" using assms(1) busy(1) by (auto simp: lifeInv_def)
  have others: "callerOk ?s (lfCallers s u)" if "u \<noteq> t" for u
  proof -
    have "callerOk s (lfCallers s u)" using assms(1) by (simp add: lifeInv_def)
    moreover have "lfCallers s u \<noteq> Discovering c" for c using only that by (auto simp: discoverers_def)
    ultimately show ?thesis using ch by (cases "lfCallers s u") (auto simp: inProgress_def split: if_splits)
  qed
  have none: "discoverers (at t (Returned (errorOf r)) ?s) = {}"
    using only by (auto simp: discoverers_def)
  have life: "?l \<notin> {Starting, Closing}" "?l \<noteq> Closing" by (auto split: sum.splits)
  have callers: "callerOk (at t (Returned (errorOf r)) ?s) (lfCallers (at t (Returned (errorOf r)) ?s) u)" for u
    using others [of u] by simp
  have below: "\<forall>c \<in> lfClosed (at t (Returned (errorOf r)) ?s). c < lfNext s"
    using assms(1) fresh by (simp add: lifeInv_def)
  have "?l \<noteq> Ready \<longrightarrow> lfTools (at t (Returned (errorOf r)) ?s) = []" by (auto split: sum.splits)
  then show "lifeInv (finishStart t r s)"
    unfolding fin lifeInv_def using callers none life below fresh busy(2) by simp
qed

lemma idle_close:
  assumes "lifeInv s" and "\<And>u ch. lfCallers s u \<noteq> CloseWaiting ch \<or> ch \<in> lfClosed s \<or> u = t" and "lfLifecycle s \<noteq> Starting"
    and "lfLifecycle s \<noteq> Closing"
  shows "lifeInv (at t (Returned None) (s \<lparr>lfLifecycle := Stopped, lfTools := []\<rparr>))"
proof -
  let ?s = "s \<lparr>lfLifecycle := Stopped, lfTools := []\<rparr>"
  have none: "discoverers s = {}" using assms(1,3,4) by (simp add: lifeInv_def)
  then have "discoverers (at t (Returned None) ?s) = {}" by (auto simp: discoverers_def)
  moreover have "callerOk ?s (lfCallers s u)" if "u \<noteq> t" for u
  proof -
    have "callerOk s (lfCallers s u)" using assms(1) by (simp add: lifeInv_def)
    then show ?thesis using none assms(3,4)
      by (cases "lfCallers s u") (auto simp: inProgress_def discoverers_def split: if_splits)
  qed
  ultimately show ?thesis using assms(1) by (simp add: lifeInv_def)
qed

lemma enterClose_inv:
  assumes "lifeInv s" and "\<not> closing s" and "mayCall (lfCallers s t)"
  shows "lifeInv (enterClose t s)"
proof (cases "lfLifecycle s = Starting")
  case False
  moreover have "lfLifecycle s \<noteq> Closing" using assms(1,2) by (auto simp: lifeInv_def)
  ultimately show ?thesis using idle_close [OF assms(1), of t] assms(2) by (simp add: enterClose_def closing_def)
next
  case True
  with assms(1) obtain d where d: "discoverers s = {d}" by (auto simp: lifeInv_def)
  then obtain ch where "lfCallers s d = Discovering ch" by (auto simp: discoverers_def)
  with assms(1) have ch: "inProgress s ch" unfolding lifeInv_def by (metis callerOk.simps(3))
  let ?s = "s \<lparr>lfLifecycle := Closing, lfCancelled := insert ch (lfCancelled s)\<rparr>"
  have eq: "enterClose t s = at t (CloseWaiting ch) ?s" using True ch by (simp add: enterClose_def inProgress_def)
  have "callerOk ?s (lfCallers s u)" for u
  proof -
    have "callerOk s (lfCallers s u)" using assms(1) by (simp add: lifeInv_def)
    moreover have "lfCallers s u \<noteq> CloseWaiting c" for c using assms(2) by (auto simp: closing_def)
    ultimately show ?thesis by (cases "lfCallers s u") (auto simp: inProgress_def)
  qed
  moreover have "callerOk ?s (CloseWaiting ch)" using ch by (simp add: inProgress_def)
  moreover have "discoverers (at t (CloseWaiting ch) ?s) = {d}"
  proof -
    have "t \<notin> discoverers s" using assms(3) by (auto simp: discoverers_def mayCall_def)
    moreover have "discoverers (at t (CloseWaiting ch) ?s) = discoverers s - {t}" by (auto simp: discoverers_def)
    ultimately show ?thesis using d by simp
  qed
  moreover have "closing (at t (CloseWaiting ch) ?s)" by (auto simp: closing_def)
  ultimately show ?thesis using assms(1) True unfolding eq by (auto simp: lifeInv_def)
qed

lemma endClose_inv:
  assumes "lifeInv s" and "lfCallers s t = CloseWaiting ch" and "ch \<in> lfClosed s"
  shows "lifeInv (endClose t s)"
proof -
  have stopped: "lfLifecycle s = Stopped"
    using assms unfolding lifeInv_def by (metis callerOk.simps(5))
  have "lfCallers s u \<noteq> CloseWaiting c \<or> c \<in> lfClosed s \<or> u = t" for u c
  proof -
    have "callerOk s (lfCallers s u)" using assms(1) by (simp add: lifeInv_def)
    then show ?thesis using stopped by (auto split: if_splits)
  qed
  then show ?thesis unfolding endClose_def using idle_close [OF assms(1), of t] stopped by simp
qed

lemma performMove_inv:
  assumes "lifeInv s" and "performMove m s = Some s'" and "orderly m s"
  shows "lifeInv s'"
proof -
  have ok: "callerOk s (lfCallers s t)" for t using assms(1) by (simp add: lifeInv_def)
  show ?thesis
  proof (cases m)
    case (CallStart t)
    with assms enterStart_inv show ?thesis by (auto simp: orderly_def split: if_splits)
  next
    case (JoinStart t)
    with assms show ?thesis by (auto split: caller.splits if_splits intro!: lifeInv_at)
  next
    case (GiveUp t e)
    with assms show ?thesis by (auto split: caller.splits if_splits intro!: lifeInv_at)
  next
    case (FinishStart t r)
    with assms finishStart_inv show ?thesis by (auto split: caller.splits)
  next
    case (CallClose t)
    with assms enterClose_inv show ?thesis by (auto simp: orderly_def split: if_splits)
  next
    case (EndClose t)
    with assms endClose_inv show ?thesis by (auto split: caller.splits if_splits)
  qed
qed

lemma lifeRun_inv: "lifeRun True s \<Longrightarrow> lifeInv s"
proof (induction rule: lifeRun.induct)
  case lifeStart
  show ?case by (simp add: lifeInv_def stoppedLife_def discoverers_def closing_def)
next
  case (lifeNext s m s')
  then show ?case using performMove_inv by blast
qed

text \<open>Whoever waits for a discovery waits for one that is over, or for the one in progress, which will end the wait.\<close>

lemma waited_for:
  assumes "lifeInv s" and "lfCallers s t \<in> {Joining ch, Refused ch, CloseWaiting ch}" and "ch \<notin> lfClosed s"
  shows "\<exists>u. lfCallers s u = Discovering ch \<and>
    (\<forall>r. \<exists>s'. performMove (FinishStart u r) s = Some s' \<and> ch \<in> lfClosed s' \<and> lfCallers s' u = Returned (errorOf r))"
proof -
  have ok: "callerOk s (lfCallers s v)" for v using assms(1) by (simp add: lifeInv_def)
  have ch: "inProgress s ch" using ok [of t] assms(2,3) by auto
  then have "lfLifecycle s \<in> {Starting, Closing}" by (simp add: inProgress_def)
  with assms(1) obtain u where "discoverers s = {u}" unfolding lifeInv_def by auto
  then obtain c where c: "lfCallers s u = Discovering c" by (auto simp: discoverers_def)
  then have "inProgress s c" using ok [of u] by simp
  with ch have "c = ch" by (simp add: inProgress_def)
  with c ch show ?thesis by (intro exI [of _ u]) (simp add: finishStart_def inProgress_def Let_def)
qed

lemma one_discovery:
  assumes "lifeInv s" and "lfCallers s t = Discovering c" and "lfCallers s u = Discovering d"
  shows "t = u"
proof -
  have "t \<in> discoverers s" "u \<in> discoverers s" using assms(2,3) by (auto simp: discoverers_def)
  moreover have "discoverers s = {} \<or> (\<exists>v. discoverers s = {v})"
    using assms(1) by (simp add: lifeInv_def split: if_splits)
  ultimately show ?thesis by auto
qed

section \<open>The guarantee, and why it needs orderly calls\<close>

text \<open>
  C9. In every run of any number of concurrent callers in which no \<open>Start\<close> or \<open>Close\<close> is called
  while a \<open>Close\<close> is waiting: nobody panics; at most one caller discovers; the registry offers tools
  only while it is ready; and whoever joins a discovery, is refused during one or closes during
  one waits for a channel that is closed already or that the single discoverer will close,
  whatever the outcome of its discovery.
\<close>

theorem orderly_lifecycle_is_safe:
  assumes "lifeRun True s"
  shows "lfCallers s t \<noteq> Panicked \<and>
    (lfCallers s t = Discovering c \<and> lfCallers s u = Discovering d \<longrightarrow> t = u) \<and>
    (lfLifecycle s \<noteq> Ready \<longrightarrow> lfTools s = []) \<and>
    (lfCallers s t \<in> {Joining ch, Refused ch, CloseWaiting ch} \<longrightarrow> ch \<in> lfClosed s \<or>
      (\<exists>v. lfCallers s v = Discovering ch \<and>
        (\<forall>r. \<exists>s'. performMove (FinishStart v r) s = Some s' \<and> ch \<in> lfClosed s' \<and> lfCallers s' v = Returned (errorOf r))))"
proof -
  note inv = lifeRun_inv [OF assms]
  have "callerOk s (lfCallers s t)" using inv by (simp add: lifeInv_def)
  then have "lfCallers s t \<noteq> Panicked" by auto
  moreover have "lfLifecycle s \<noteq> Ready \<longrightarrow> lfTools s = []" using inv by (simp add: lifeInv_def)
  ultimately show ?thesis using one_discovery [OF inv, of t c u d] waited_for [OF inv, of t ch] by blast
qed

fun performMoves :: "lifeMove list \<Rightarrow> life \<Rightarrow> life option" where
  "performMoves [] s = Some s"
| "performMoves (m # ms) s = (case performMove m s of None \<Rightarrow> None | Some s' \<Rightarrow> performMoves ms s')"

lemma performMoves_run: "lifeRun False s \<Longrightarrow> performMoves ms s = Some s' \<Longrightarrow> lifeRun False s'"
  by (induction ms s rule: performMoves.induct) (auto split: option.splits intro: lifeRun.lifeNext)

definition closingLife :: life where
  "closingLife = at 1 (CloseWaiting 0) (at 0 (Discovering 0)
     (stoppedLife \<lparr>lfLifecycle := Closing, lfStartDone := Some 0, lfNext := 1, lfCancelled := {0}\<rparr>))"

lemma closingLife_run: "lifeRun True closingLife"
proof -
  let ?s = "enterStart 0 stoppedLife"
  have "lifeRun True ?s"
    by (rule lifeRun.lifeNext [OF lifeRun.lifeStart, of "CallStart 0"])
      (simp_all add: stoppedLife_def mayCall_def orderly_def closing_def)
  moreover have "performMove (CallClose 1) ?s = Some closingLife"
    by (simp add: enterStart_def enterClose_def stoppedLife_def closingLife_def mayCall_def at_def)
  moreover have "orderly (CallClose 1) ?s"
    by (simp add: orderly_def closing_def enterStart_def stoppedLife_def at_def)
  ultimately show ?thesis by (rule lifeRun.lifeNext)
qed

theorem orderly_lifecycle_is_safe_witness:
  "lfCallers closingLife 1 = CloseWaiting 0 \<and> 0 \<notin> lfClosed closingLife \<and> lfTools closingLife = [] \<and>
   (\<exists>v s'. lfCallers closingLife v = Discovering 0 \<and>
     performMove (FinishStart v (Inr [])) closingLife = Some s' \<and> 0 \<in> lfClosed s')"
proof -
  have waits: "lfCallers closingLife 1 = CloseWaiting 0" "0 \<notin> lfClosed closingLife" "lfLifecycle closingLife \<noteq> Ready"
    by (simp_all add: closingLife_def stoppedLife_def)
  show ?thesis
    using orderly_lifecycle_is_safe [OF closingLife_run, of 1 0 0 0 0] waits by blast
qed

text \<open>
  Calls that overlap a waiting \<open>Close\<close> break it. The close that wakes up late resets the registry
  under a newer discovery; the next caller then starts a second one, both close the channel
  of the second, and the later of them panics.
\<close>

theorem overlapping_close_panics: "\<exists>s t. lifeRun False s \<and> lfCallers s t = Panicked"
proof -
  let ?ms = "[CallStart 0, CallClose 1, FinishStart 0 (Inr []), CallStart 0, EndClose 1, CallStart 2,
    FinishStart 0 (Inr []), FinishStart 2 (Inr [])]"
  have "map_option (\<lambda>s. lfCallers s 2) (performMoves ?ms stoppedLife) = Some Panicked"
    by (simp add: stoppedLife_def at_def mayCall_def enterStart_def finishStart_def enterClose_def endClose_def Let_def)
  then obtain s where "performMoves ?ms stoppedLife = Some s" "lfCallers s 2 = Panicked" by auto
  then show ?thesis using performMoves_run [OF lifeRun.lifeStart] by blast
qed

end
