(* ===== verification/Wire.thy ===== *)
theory Wire
  imports Contracts
begin

text \<open>
  The JSON boundary of the generated code (\<^verbatim>\<open>oas_json_gen.go\<close> and the input types of the
  built-in tools). A body is a tree of JSON values: scanning bytes into it and writing it out
  is the work of the library \<^verbatim>\<open>jx\<close>, a parameter, as are the texts of numbers and times. Every
  generated \<^verbatim>\<open>Encode\<close> is a function to a tree and every \<^verbatim>\<open>Decode\<close> a function that reads a tree
  into a value that exists already, as the methods do: what the tree does not mention keeps
  its value. The first fault of a body ends its decoding; which one is reported when a body
  has syntax errors as well is not distinguished.
\<close>

section \<open>Bodies and the library\<close>

datatype json =
    JNull
  | JBool bool
  | JNum string
  | JStr string
  | JArr "json list"
  | JObj "(string \<times> json) list"

record jxLibrary =
  jxParse :: "string \<Rightarrow> json result"
  jxIntText :: "int \<Rightarrow> string"
  jxInt :: "string \<Rightarrow> int result"
  jxInt32 :: "string \<Rightarrow> int result"
  jxInt64 :: "string \<Rightarrow> int result"
  jxFloat :: "string \<Rightarrow> float64 result"
  jxFloatText :: "float64 \<Rightarrow> string"
  jxTimeText :: "goTime \<Rightarrow> string"
  jxTime :: "string \<Rightarrow> goTime result"

type_synonym 'a decoder = "json \<Rightarrow> 'a \<Rightarrow> 'a result"

definition wrapError :: "string \<Rightarrow> goError \<Rightarrow> goError" where
  "wrapError text e = Errorf (text @ '': %w'') [ArgErr e]"

definition mapError :: "(goError \<Rightarrow> goError) \<Rightarrow> 'a result \<Rightarrow> 'a result" where
  "mapError f r = (case r of Inl e \<Rightarrow> Inl (f e) | Inr x \<Rightarrow> Inr x)"

definition onResult :: "('a \<Rightarrow> 'b) \<Rightarrow> 'a result \<Rightarrow> 'b result" where
  "onResult f r = (case r of Inl e \<Rightarrow> Inl e | Inr x \<Rightarrow> Inr (f x))"

lemma mapError_Inr [simp]: "mapError f r = Inr x \<longleftrightarrow> r = Inr x" "mapError f (Inr x) = Inr x"
  by (auto simp: mapError_def split: sum.splits)

lemma onResult_Inr [simp]: "onResult f r = Inr y \<longleftrightarrow> (\<exists>x. r = Inr x \<and> y = f x)" "onResult f (Inr x) = Inr (f x)"
  by (auto simp: onResult_def split: sum.splits)

definition unexpectedType :: goError where "unexpectedType = External ''jx: unexpected type''"

section \<open>Values without parts\<close>

definition readStr :: "string decoder" where
  "readStr j old = (case j of JStr s \<Rightarrow> Inr s | _ \<Rightarrow> Inl unexpectedType)"

definition readBool :: "bool decoder" where
  "readBool j old = (case j of JBool b \<Rightarrow> Inr b | _ \<Rightarrow> Inl unexpectedType)"

definition readNum :: "(string \<Rightarrow> 'a result) \<Rightarrow> 'a decoder" where
  "readNum convert j old = (case j of JNum text \<Rightarrow> convert text | _ \<Rightarrow> Inl unexpectedType)"

definition readInt :: "jxLibrary \<Rightarrow> int decoder" where "readInt jx = readNum (jxInt jx)"
definition readInt32 :: "jxLibrary \<Rightarrow> int decoder" where "readInt32 jx = readNum (jxInt32 jx)"
definition readInt64 :: "jxLibrary \<Rightarrow> int decoder" where "readInt64 jx = readNum (jxInt64 jx)"
definition readFloat :: "jxLibrary \<Rightarrow> float64 decoder" where "readFloat jx = readNum (jxFloat jx)"

definition readTime :: "jxLibrary \<Rightarrow> goTime decoder" where
  "readTime jx j old = (case j of JStr text \<Rightarrow> jxTime jx text | _ \<Rightarrow> Inl unexpectedType)"

definition writeInt :: "jxLibrary \<Rightarrow> int \<Rightarrow> json" where "writeInt jx i = JNum (jxIntText jx i)"
definition writeFloat :: "jxLibrary \<Rightarrow> float64 \<Rightarrow> json" where "writeFloat jx x = JNum (jxFloatText jx x)"
definition writeTime :: "jxLibrary \<Rightarrow> goTime \<Rightarrow> json" where "writeTime jx t = JStr (jxTimeText jx t)"

text \<open>A named type over another decodes as that type and names itself in an error.\<close>

definition readAlias :: "'a decoder \<Rightarrow> 'a decoder" where
  "readAlias decode j old = mapError (wrapError ''alias'') (decode j old)"

section \<open>Arrays and optional values\<close>

definition writeArray :: "('a \<Rightarrow> json) \<Rightarrow> 'a list \<Rightarrow> json" where "writeArray encode xs = JArr (map encode xs)"

definition readArray :: "'a decoder \<Rightarrow> 'a \<Rightarrow> 'a list decoder" where
  "readArray decode zero j old = (case j of JArr js \<Rightarrow> mapResult (\<lambda>j. decode j zero) js | _ \<Rightarrow> Inl unexpectedType)"

text \<open>A \<^verbatim>\<open>Nil\<close> type is null or a value; an \<^verbatim>\<open>OptNil\<close> type may be absent as well, an \<^verbatim>\<open>Opt\<close> type only absent.\<close>

definition writeNil :: "('a \<Rightarrow> json) \<Rightarrow> 'a option \<Rightarrow> json" where
  "writeNil encode value = (case value of None \<Rightarrow> JNull | Some x \<Rightarrow> encode x)"

definition readNil :: "'a decoder \<Rightarrow> 'a \<Rightarrow> 'a option decoder" where
  "readNil decode zero j old =
     (if j = JNull then Inr None
      else onResult Some (decode j (case old of None \<Rightarrow> zero | Some x \<Rightarrow> x)))"

definition readOptNil :: "'a decoder \<Rightarrow> 'a \<Rightarrow> 'a optNil decoder" where
  "readOptNil decode zero j old =
     (if j = JNull then Inr OptNull
      else onResult OptValue (decode j (case old of OptValue x \<Rightarrow> x | _ \<Rightarrow> zero)))"

definition readOpt :: "'a decoder \<Rightarrow> 'a \<Rightarrow> 'a option decoder" where
  "readOpt decode zero j old = onResult Some (decode j (case old of None \<Rightarrow> zero | Some x \<Rightarrow> x))"

section \<open>Objects\<close>

definition writeField :: "string \<Rightarrow> json \<Rightarrow> (string \<times> json) list" where
  "writeField name j = [(name, j)]"

definition writeOptNilField :: "string \<Rightarrow> ('a \<Rightarrow> json) \<Rightarrow> 'a optNil \<Rightarrow> (string \<times> json) list" where
  "writeOptNilField name encode value =
     (case value of OptUnset \<Rightarrow> [] | OptNull \<Rightarrow> [(name, JNull)] | OptValue x \<Rightarrow> [(name, encode x)])"

definition writeOptField :: "string \<Rightarrow> ('a \<Rightarrow> json) \<Rightarrow> 'a option \<Rightarrow> (string \<times> json) list" where
  "writeOptField name encode value = (case value of None \<Rightarrow> [] | Some x \<Rightarrow> [(name, encode x)])"

text \<open>A field is decoded into its present value; an optional field is reset first.\<close>

definition readField :: "'a decoder \<Rightarrow> ('s \<Rightarrow> 'a) \<Rightarrow> ('a \<Rightarrow> 's \<Rightarrow> 's) \<Rightarrow> 's decoder" where
  "readField decode get put j s = onResult (\<lambda>x. put x s) (decode j (get s))"

definition readReset :: "'a decoder \<Rightarrow> 'a \<Rightarrow> ('a \<Rightarrow> 's \<Rightarrow> 's) \<Rightarrow> 's decoder" where
  "readReset decode unset put j s = onResult (\<lambda>x. put x s) (decode j unset)"

text \<open>The callback of the object's fields, and the names it has seen: the bit set of the code.\<close>

fun readFields :: "(string \<times> 's decoder) list \<Rightarrow> (string \<times> json) list \<Rightarrow> string list \<Rightarrow> 's \<Rightarrow> (string list \<times> 's) result" where
  "readFields table [] seen s = Inr (seen, s)"
| "readFields table ((k, j) # rest) seen s =
     (case map_of table k of
        None \<Rightarrow> Inl (Errorf ''unexpected field %q'' [ArgStr k])
      | Some decode \<Rightarrow>
          (case decode j s of
             Inl e \<Rightarrow> Inl (wrapError (''decode field '' @ k) e)
           | Inr s' \<Rightarrow> readFields table rest (k # seen) s'))"

definition requireFields :: "string list \<Rightarrow> string list \<times> 's \<Rightarrow> 's result" where
  "requireFields required read =
     (let missed = filter (\<lambda>name. name \<notin> set (fst read)) required
      in if missed = [] then Inr (snd read) else Inl (Errorf ''invalid: field required: %v'' [ArgStrs missed]))"

definition readObject :: "string \<Rightarrow> string list \<Rightarrow> (string \<times> 's decoder) list \<Rightarrow> 's decoder" where
  "readObject name required table j s =
     (case j of
        JObj entries \<Rightarrow>
          (case readFields table entries [] s of
             Inl e \<Rightarrow> Inl (wrapError (''decode '' @ name) e)
           | Inr read \<Rightarrow> requireFields required read)
      | _ \<Rightarrow> Inl (wrapError (''decode '' @ name) unexpectedType))"


text \<open>An object that is accepted has no unknown field and all the required ones.\<close>

lemma readFields_names:
  "readFields table entries seen s = Inr (seen', s') \<Longrightarrow>
     fst ` set entries \<subseteq> fst ` set table \<and> set seen' = set seen \<union> fst ` set entries"
proof (induction entries arbitrary: seen s)
  case (Cons e rest)
  obtain k j where e: "e = (k, j)" by (cases e)
  with Cons.prems obtain decode t where t: "map_of table k = Some decode" "decode j s = Inr t"
    "readFields table rest (k # seen) t = Inr (seen', s')"
    by (auto split: option.splits sum.splits)
  have "k \<in> fst ` set table" using map_of_SomeD [OF t(1)] by force
  with Cons.IH [OF t(3)] e show ?case by auto
qed simp

lemma requireFields_Inr: "requireFields required (seen, s) = Inr t \<longleftrightarrow> set required \<subseteq> set seen \<and> t = s"
  by (auto simp: requireFields_def Let_def filter_empty_conv)

lemma readObject_names:
  assumes "readObject name required table j s = Inr s'"
  obtains entries where "j = JObj entries" "set required \<subseteq> fst ` set entries" "fst ` set entries \<subseteq> fst ` set table"
proof -
  from assms obtain entries seen t where "j = JObj entries" "readFields table entries [] s = Inr (seen, t)"
    "requireFields required (seen, t) = Inr s'"
    by (auto simp: readObject_def split: json.splits sum.splits)
  then show thesis using readFields_names [of table entries "[]" s seen t] that by (auto simp: requireFields_Inr)
qed

text \<open>What every field's decoder keeps, the object keeps.\<close>

lemma readFields_keeps:
  assumes "\<And>k decode j s s'. (k, decode) \<in> set table \<Longrightarrow> decode j s = Inr s' \<Longrightarrow> P s \<Longrightarrow> P s'"
  shows "readFields table entries seen s = Inr (seen', s') \<Longrightarrow> P s \<Longrightarrow> P s'"
proof (induction entries arbitrary: seen s)
  case (Cons e rest)
  obtain k j where "e = (k, j)" by (cases e)
  with Cons.prems obtain decode t where t: "map_of table k = Some decode" "decode j s = Inr t"
    "readFields table rest (k # seen) t = Inr (seen', s')"
    by (auto split: option.splits sum.splits)
  then have "P t" using assms Cons.prems(2) by (blast dest: map_of_SomeD)
  with Cons.IH t(3) show ?case by blast
qed simp

lemma readObject_keeps:
  assumes "readObject name required table j s = Inr s'" and "P s"
    and "\<And>k decode j s s'. (k, decode) \<in> set table \<Longrightarrow> decode j s = Inr s' \<Longrightarrow> P s \<Longrightarrow> P s'"
  shows "P s'"
proof -
  from assms(1) obtain entries seen t where "readFields table entries [] s = Inr (seen, t)"
    "requireFields required (seen, t) = Inr s'"
    by (auto simp: readObject_def split: json.splits sum.splits)
  then show ?thesis using readFields_keeps [OF assms(3), where entries = entries and seen = "[]" and s = s] assms(2)
    by (auto simp: requireFields_Inr)
qed

section \<open>What the library promises\<close>

definition int64Range :: "int \<Rightarrow> bool" where "int64Range i \<longleftrightarrow> - (2 ^ 63) \<le> i \<and> i < 2 ^ 63"
definition int32Range :: "int \<Rightarrow> bool" where "int32Range i \<longleftrightarrow> - (2 ^ 31) \<le> i \<and> i < 2 ^ 31"

text \<open>A time of the years 1 to 9999 in whole seconds, which the format of RFC 3339 writes exactly.\<close>

definition sendableTime :: "goTime \<Rightarrow> bool" where
  "sendableTime t \<longleftrightarrow> 0 \<le> t \<and> t < 315537897600 * 10 ^ 9 \<and> t mod 10 ^ 9 = 0"

text \<open>That format has no fraction of a second: it writes the whole second a time lies in.\<close>

definition wholeSeconds :: "goTime \<Rightarrow> goTime" where
  "wholeSeconds t = t - t mod 10 ^ 9"

lemma wholeSeconds_div: "wholeSeconds t = t div 10 ^ 9 * 10 ^ 9"
  by (simp add: wholeSeconds_def minus_mod_eq_div_mult)

lemma div_less_mult:
  fixes t d k :: int
  assumes "0 < d"
  shows "t div d < k \<longleftrightarrow> t < k * d"
proof
  assume "t div d < k"
  then have "(t div d + 1) * d \<le> k * d" using assms by (intro mult_right_mono) simp_all
  moreover have "t < (t div d + 1) * d"
    using pos_mod_bound [OF assms, of t] div_mult_mod_eq [of t d] by (simp only: distrib_right)
  ultimately show "t < k * d" by linarith
next
  assume "t < k * d"
  then have "t div d * d < k * d" using pos_mod_sign [OF assms, of t] div_mult_mod_eq [of t d] by linarith
  then show "t div d < k" using assms by simp
qed

lemma sendable_wholeSeconds [simp]: "sendableTime (wholeSeconds t) \<longleftrightarrow> 0 \<le> t \<and> t < 315537897600 * 10 ^ 9"
proof -
  have "0 \<le> t div 10 ^ 9 * 10 ^ 9 \<longleftrightarrow> 0 \<le> t" by (simp add: zero_le_mult_iff pos_imp_zdiv_nonneg_iff)
  moreover have "t div 10 ^ 9 * 10 ^ 9 < 315537897600 * 10 ^ 9 \<longleftrightarrow> t < 315537897600 * 10 ^ 9"
    using div_less_mult [of "10 ^ 9" t 315537897600] by (simp only: mult_less_cancel_right) simp
  ultimately show ?thesis unfolding sendableTime_def wholeSeconds_div by simp
qed

lemma wholeSeconds_idem: "wholeSeconds (wholeSeconds t) = wholeSeconds t"
  by (simp add: wholeSeconds_div)

lemma wholeSeconds_id: "sendableTime t \<Longrightarrow> wholeSeconds t = t"
  by (simp add: sendableTime_def wholeSeconds_def)

definition jxLaws :: "jxLibrary \<Rightarrow> bool" where
  "jxLaws jx \<longleftrightarrow>
     (\<forall>i. int64Range i \<longrightarrow> jxInt jx (jxIntText jx i) = Inr i \<and> jxInt64 jx (jxIntText jx i) = Inr i) \<and>
     (\<forall>i. int32Range i \<longrightarrow> jxInt32 jx (jxIntText jx i) = Inr i) \<and>
     (\<forall>t. sendableTime t \<longrightarrow> jxTime jx (jxTimeText jx t) = Inr t) \<and>
     (\<forall>t. jxTimeText jx (wholeSeconds t) = jxTimeText jx t)"

definition whenGiven :: "('a \<Rightarrow> bool) \<Rightarrow> 'a option \<Rightarrow> bool" where
  "whenGiven P v \<longleftrightarrow> (case v of None \<Rightarrow> True | Some x \<Rightarrow> P x)"

definition whenValue :: "('a \<Rightarrow> bool) \<Rightarrow> 'a optNil \<Rightarrow> bool" where
  "whenValue P v \<longleftrightarrow> (case v of OptValue x \<Rightarrow> P x | _ \<Rightarrow> True)"

section \<open>Reading what was written\<close>

named_theorems wire

lemma read_leaf [simp]:
  "readStr (JStr s) old = Inr s" "readBool (JBool b) before = Inr b"
  "writeInt jx i \<noteq> JNull" "writeTime jx t \<noteq> JNull" "writeFloat jx x \<noteq> JNull"
  by (simp_all add: readStr_def readBool_def writeInt_def writeTime_def writeFloat_def)

lemma read_int [wire]:
  assumes "jxLaws jx"
  shows "int64Range i \<Longrightarrow> readInt jx (writeInt jx i) old = Inr i"
    and "int64Range i \<Longrightarrow> readInt64 jx (writeInt jx i) old = Inr i"
    and "int32Range i \<Longrightarrow> readInt32 jx (writeInt jx i) old = Inr i"
    and "sendableTime t \<Longrightarrow> readTime jx (writeTime jx t) old = Inr t"
  using assms
  by (simp_all add: readInt_def readInt64_def readInt32_def readNum_def readTime_def writeInt_def writeTime_def jxLaws_def)

lemma read_array:
  assumes "list_all P xs" and "\<And>x. P x \<Longrightarrow> decode (encode x) zero = Inr x"
  shows "readArray decode zero (writeArray encode xs) old = Inr xs"
  using assms by (induction xs) (simp_all add: readArray_def writeArray_def)

lemma read_array_all [wire]:
  assumes "\<And>x. decode (encode x) zero = Inr x"
  shows "readArray decode zero (writeArray encode xs) old = Inr xs"
  by (rule read_array [where P = "\<lambda>x. True"]) (simp_all add: assms list_all_iff)

lemma read_nil:
  assumes "whenGiven P v" and "\<And>x. P x \<Longrightarrow> decode (encode x) zero = Inr x" and "\<And>x. encode x \<noteq> JNull"
  shows "readNil decode zero (writeNil encode v) (Some zero) = Inr v"
  using assms by (cases v) (simp_all add: readNil_def writeNil_def whenGiven_def)

lemma read_nil_all [wire]:
  assumes "\<And>x. decode (encode x) zero = Inr x" and "\<And>x. encode x \<noteq> JNull"
  shows "readNil decode zero (writeNil encode v) (Some zero) = Inr v"
  by (rule read_nil [where P = "\<lambda>x. True"]) (simp_all add: assms whenGiven_def split: option.split)

lemma when_simps [simp]:
  "whenGiven P None" "whenGiven P (Some x) \<longleftrightarrow> P x" "whenValue P OptUnset" "whenValue P OptNull"
  "whenValue P (OptValue x) \<longleftrightarrow> P x"
  by (simp_all add: whenGiven_def whenValue_def)

lemma write_field [simp]: "writeField name j = [(name, j)]"
  by (simp add: writeField_def)

text \<open>An optional field that was unset stays unset; whether it was there does not touch the required names.\<close>

definition carriedOptNil :: "'a decoder \<Rightarrow> ('a \<Rightarrow> json) \<Rightarrow> 'a \<Rightarrow> 'a optNil \<Rightarrow> bool" where
  "carriedOptNil decode encode zero v \<longleftrightarrow>
     (case v of OptValue x \<Rightarrow> decode (encode x) zero = Inr x \<and> encode x \<noteq> JNull | _ \<Rightarrow> True)"

definition seenWith :: "string \<Rightarrow> 'a optNil \<Rightarrow> string list \<Rightarrow> string list" where
  "seenWith name v seen = (case v of OptUnset \<Rightarrow> seen | _ \<Rightarrow> name # seen)"

lemma seenWith_other [simp]: "n \<noteq> name \<Longrightarrow> n \<in> set (seenWith name v seen) \<longleftrightarrow> n \<in> set seen"
  by (cases v) (simp_all add: seenWith_def)

lemma read_optNil_field [wire]:
  assumes "map_of table name = Some (readReset (readOptNil decode zero) OptUnset put)"
    and "carriedOptNil decode encode zero v" and "put OptUnset s = s"
  shows "readFields table (writeOptNilField name encode v @ rest) seen s =
      readFields table rest (seenWith name v seen) (put v s)"
    and "readFields table (writeOptNilField name encode v) seen s = Inr (seenWith name v seen, put v s)"
  using assms
  by (cases v; simp add: writeOptNilField_def seenWith_def carriedOptNil_def readReset_def readOptNil_def)+

lemma carried_leaf [wire]:
  assumes "jxLaws jx"
  shows "whenValue int64Range v \<Longrightarrow> carriedOptNil (readInt64 jx) (writeInt jx) 0 v"
    and "whenValue int64Range v \<Longrightarrow> carriedOptNil (readInt jx) (writeInt jx) 0 v"
    and "whenValue int32Range v \<Longrightarrow> carriedOptNil (readInt32 jx) (writeInt jx) 0 v"
    and "whenValue sendableTime v \<Longrightarrow> carriedOptNil (readTime jx) (writeTime jx) 0 v"
  using read_int [OF assms] by (cases v; simp add: carriedOptNil_def)+

lemma carried_text [wire]: "carriedOptNil readStr JStr zero w" "carriedOptNil (readAlias readStr) JStr zero w"
  by (cases w; simp add: carriedOptNil_def readAlias_def)+

lemma read_nil_leaf [wire]:
  assumes "jxLaws jx"
  shows "whenGiven int64Range v \<Longrightarrow> readNil (readInt64 jx) 0 (writeNil (writeInt jx) v) (Some 0) = Inr v"
    and "whenGiven int64Range v \<Longrightarrow> readNil (readAlias (readInt64 jx)) 0 (writeNil (writeInt jx) v) (Some 0) = Inr v"
    and "whenGiven sendableTime w \<Longrightarrow> readNil (readTime jx) 0 (writeNil (writeTime jx) w) (Some 0) = Inr w"
  by (rule read_nil, assumption, simp_all add: read_int [OF assms] readAlias_def)+

lemmas wire_object = readAlias_def readObject_def readField_def readReset_def requireFields_def Let_def


section \<open>An instance of the library\<close>

text \<open>Decimal integers, and times as the integer their second is; the parser knows no text.\<close>

definition readDecimal :: "string \<Rightarrow> int" where
  "readDecimal text =
     (case text of [] \<Rightarrow> 0 | c # rest \<Rightarrow> if c = CHR ''-'' then - int (readNat rest) else int (readNat text))"

lemma readDecimal_showInt [simp]: "readDecimal (showInt i) = i"
proof (cases "i < 0")
  case False
  obtain c rest where c: "showNat (nat i) = c # rest"
    by (metis list.exhaust showNat.simps append_is_Nil_conv not_Cons_self2)
  then have "c \<noteq> CHR ''-''" using showNat_not_minus by metis
  with False c readNat_showNat [of "nat i"] show ?thesis by (simp add: readDecimal_def showInt_def)
qed (simp add: readDecimal_def showInt_def)

definition exampleJx :: jxLibrary where
  "exampleJx = \<lparr>jxParse = (\<lambda>text. Inl unexpectedType), jxIntText = showInt, jxInt = (\<lambda>text. Inr (readDecimal text)),
     jxInt32 = (\<lambda>text. Inr (readDecimal text)), jxInt64 = (\<lambda>text. Inr (readDecimal text)),
     jxFloat = (\<lambda>text. Inl unexpectedType), jxFloatText = (\<lambda>x. []), jxTimeText = (\<lambda>t. showInt (wholeSeconds t)),
     jxTime = (\<lambda>text. Inr (readDecimal text))\<rparr>"

lemma exampleJx_laws: "jxLaws exampleJx" "jxLaws (exampleJx\<lparr>jxParse := parse\<rparr>)"
  by (simp_all add: jxLaws_def exampleJx_def wholeSeconds_id wholeSeconds_idem)

end
