(* ===== verification/WireSnapshot.thy ===== *)
theory WireSnapshot
  imports Wire
begin

text \<open>
  The JSON of the Agent's messages, plans, pending work and Snapshot, type by type as
  \<^verbatim>\<open>internal/api/generated/oas_json_gen.go\<close> writes and reads it. \<open>zero\<close> names the zero value of
  a struct. \<open>exact\<close> names the values the wire carries exactly: integers in their width and
  times in whole seconds. For each type, reading what was written gives the value back.
\<close>

definition encodeRunID :: "string \<Rightarrow> json" where "encodeRunID = JStr"

definition decodeRunID :: "string decoder" where "decodeRunID = readAlias readStr"

definition encodeSequence :: "jxLibrary \<Rightarrow> int \<Rightarrow> json" where "encodeSequence jx = writeInt jx"

definition decodeSequence :: "jxLibrary \<Rightarrow> int decoder" where "decodeSequence jx = readAlias (readInt64 jx)"

definition encodeMessageRole :: "string \<Rightarrow> json" where "encodeMessageRole = JStr"

definition decodeApiMessageRole :: "string decoder" where "decodeApiMessageRole = readStr"

definition encodeCallID :: "string \<Rightarrow> json" where "encodeCallID = JStr"

definition decodeCallID :: "string decoder" where "decodeCallID = readAlias readStr"

definition encodeToolName :: "string \<Rightarrow> json" where "encodeToolName = JStr"

definition decodeToolName :: "string decoder" where "decodeToolName = readAlias readStr"

definition zeroToolCall :: apiToolCall where
  "zeroToolCall = \<lparr>atcID = [], atcName = [], atcArgumentsJson = []\<rparr>"

definition encodeToolCall :: "jxLibrary \<Rightarrow> apiToolCall \<Rightarrow> json" where
  "encodeToolCall jx s = JObj (
     writeField ''id'' (encodeCallID (atcID s)) @
     writeField ''name'' (encodeToolName (atcName s)) @
     writeField ''argumentsJson'' (JStr (atcArgumentsJson s)))"

definition decodeToolCall :: "jxLibrary \<Rightarrow> apiToolCall decoder" where
  "decodeToolCall jx = readObject ''ToolCall'' [''id'', ''name'', ''argumentsJson'']
     [(''id'', readField decodeCallID atcID (\<lambda>x s. s\<lparr>atcID := x\<rparr>)),
      (''name'', readField decodeToolName atcName (\<lambda>x s. s\<lparr>atcName := x\<rparr>)),
      (''argumentsJson'', readField readStr atcArgumentsJson (\<lambda>x s. s\<lparr>atcArgumentsJson := x\<rparr>))]"

lemmas [wire] =
  encodeRunID_def decodeRunID_def encodeSequence_def decodeSequence_def
  encodeMessageRole_def decodeApiMessageRole_def encodeCallID_def decodeCallID_def
  encodeToolName_def decodeToolName_def

lemma ToolCall_object [simp]: "encodeToolCall jx s \<noteq> JNull" by (simp add: encodeToolCall_def)

lemma ToolCall_carried [wire]:
  assumes "jxLaws jx"
  shows "decodeToolCall jx (encodeToolCall jx s) zeroToolCall = Inr s"
  using assms by (cases s)
    (simp_all add: wire wire_object encodeToolCall_def decodeToolCall_def zeroToolCall_def)

definition encodeNilCallID :: "jxLibrary \<Rightarrow> (string option) \<Rightarrow> json" where
  "encodeNilCallID jx = writeNil encodeCallID"

definition decodeNilCallID :: "jxLibrary \<Rightarrow> (string option) decoder" where
  "decodeNilCallID jx = readNil decodeCallID []"

definition encodeNilToolName :: "jxLibrary \<Rightarrow> (string option) \<Rightarrow> json" where
  "encodeNilToolName jx = writeNil encodeToolName"

definition decodeNilToolName :: "jxLibrary \<Rightarrow> (string option) decoder" where
  "decodeNilToolName jx = readNil decodeToolName []"

definition decodeOptNilCallID :: "jxLibrary \<Rightarrow> (string optNil) decoder" where
  "decodeOptNilCallID jx = readOptNil decodeCallID []"

definition decodeOptNilDateTime :: "jxLibrary \<Rightarrow> (goTime optNil) decoder" where
  "decodeOptNilDateTime jx = readOptNil (readTime jx) 0"

definition zeroAgentMessage :: apiMessage where
  "zeroAgentMessage = \<lparr>amsRole = [], amsContent = [], amsToolCalls = [], amsToolCallId = Some [], amsToolName =
    Some [], amsAnsweredInputCallId = OptUnset, amsCreatedAt = 0, amsStartedAt = OptUnset\<rparr>"

definition encodeAgentMessage :: "jxLibrary \<Rightarrow> apiMessage \<Rightarrow> json" where
  "encodeAgentMessage jx s = JObj (
     writeField ''role'' (encodeMessageRole (amsRole s)) @
     writeField ''content'' (JStr (amsContent s)) @
     writeField ''toolCalls'' (writeArray (encodeToolCall jx) (amsToolCalls s)) @
     writeField ''toolCallId'' (encodeNilCallID jx (amsToolCallId s)) @
     writeField ''toolName'' (encodeNilToolName jx (amsToolName s)) @
     writeOptNilField ''answeredInputCallId'' encodeCallID (amsAnsweredInputCallId s) @
     writeField ''createdAt'' (writeTime jx (amsCreatedAt s)) @
     writeOptNilField ''startedAt'' (writeTime jx) (amsStartedAt s))"

definition decodeAgentMessage :: "jxLibrary \<Rightarrow> apiMessage decoder" where
  "decodeAgentMessage jx = readObject ''AgentMessage'' [''role'', ''content'', ''toolCalls'', ''toolCallId'',
    ''toolName'', ''createdAt'']
     [(''role'', readField decodeApiMessageRole amsRole (\<lambda>x s. s\<lparr>amsRole := x\<rparr>)),
      (''content'', readField readStr amsContent (\<lambda>x s. s\<lparr>amsContent := x\<rparr>)),
      (''toolCalls'', readField (readArray (decodeToolCall jx) zeroToolCall) amsToolCalls
        (\<lambda>x s. s\<lparr>amsToolCalls := x\<rparr>)),
      (''toolCallId'', readField (decodeNilCallID jx) amsToolCallId (\<lambda>x s. s\<lparr>amsToolCallId := x\<rparr>)),
      (''toolName'', readField (decodeNilToolName jx) amsToolName (\<lambda>x s. s\<lparr>amsToolName := x\<rparr>)),
      (''answeredInputCallId'', readReset (decodeOptNilCallID jx) OptUnset
        (\<lambda>x s. s\<lparr>amsAnsweredInputCallId := x\<rparr>)),
      (''createdAt'', readField (readTime jx) amsCreatedAt (\<lambda>x s. s\<lparr>amsCreatedAt := x\<rparr>)),
      (''startedAt'', readReset (decodeOptNilDateTime jx) OptUnset (\<lambda>x s. s\<lparr>amsStartedAt := x\<rparr>))]"

lemmas [wire] =
  decodeNilCallID_def encodeNilCallID_def decodeNilToolName_def encodeNilToolName_def
  decodeOptNilCallID_def decodeOptNilDateTime_def

definition exactAgentMessage :: "apiMessage \<Rightarrow> bool" where
  "exactAgentMessage s \<longleftrightarrow> sendableTime (amsCreatedAt s) \<and> whenValue sendableTime (amsStartedAt s)"

lemma AgentMessage_object [simp]: "encodeAgentMessage jx s \<noteq> JNull" by (simp add: encodeAgentMessage_def)

lemma AgentMessage_carried [wire]:
  assumes "jxLaws jx" and "exactAgentMessage s"
  shows "decodeAgentMessage jx (encodeAgentMessage jx s) zeroAgentMessage = Inr s"
  using assms by (cases s)
    (simp_all add: wire wire_object encodeAgentMessage_def decodeAgentMessage_def zeroAgentMessage_def
    exactAgentMessage_def)

definition zeroSequencedMessage :: apiSequencedMessage where
  "zeroSequencedMessage = \<lparr>asmSequence = 0, asmMessage = zeroAgentMessage\<rparr>"

definition encodeSequencedMessage :: "jxLibrary \<Rightarrow> apiSequencedMessage \<Rightarrow> json" where
  "encodeSequencedMessage jx s = JObj (
     writeField ''sequence'' (encodeSequence jx (asmSequence s)) @
     writeField ''message'' (encodeAgentMessage jx (asmMessage s)))"

definition decodeSequencedMessage :: "jxLibrary \<Rightarrow> apiSequencedMessage decoder" where
  "decodeSequencedMessage jx = readObject ''SequencedMessage'' [''sequence'', ''message'']
     [(''sequence'', readField (decodeSequence jx) asmSequence (\<lambda>x s. s\<lparr>asmSequence := x\<rparr>)),
      (''message'', readField (decodeAgentMessage jx) asmMessage (\<lambda>x s. s\<lparr>asmMessage := x\<rparr>))]"

definition exactSequencedMessage :: "apiSequencedMessage \<Rightarrow> bool" where
  "exactSequencedMessage s \<longleftrightarrow> int64Range (asmSequence s) \<and> exactAgentMessage (asmMessage s)"

lemma SequencedMessage_object [simp]: "encodeSequencedMessage jx s \<noteq> JNull" by
  (simp add: encodeSequencedMessage_def)

lemma SequencedMessage_carried [wire]:
  assumes "jxLaws jx" and "exactSequencedMessage s"
  shows "decodeSequencedMessage jx (encodeSequencedMessage jx s) zeroSequencedMessage = Inr s"
  using assms by (cases s)
    (simp_all
    add: wire wire_object encodeSequencedMessage_def decodeSequencedMessage_def zeroSequencedMessage_def
    exactSequencedMessage_def)

lemma SequencedMessage_parts_carried [wire]:
  assumes "jxLaws jx"
  shows "list_all exactSequencedMessage xs \<Longrightarrow> readArray (decodeSequencedMessage jx) zeroSequencedMessage
    (writeArray (encodeSequencedMessage jx) xs) old = Inr xs"
  using read_array [of exactSequencedMessage xs "decodeSequencedMessage jx" "encodeSequencedMessage jx"
    zeroSequencedMessage old] SequencedMessage_carried [OF assms]
  by simp_all

definition encodeNilSequence :: "jxLibrary \<Rightarrow> (int option) \<Rightarrow> json" where
  "encodeNilSequence jx = writeNil (encodeSequence jx)"

definition decodeNilSequence :: "jxLibrary \<Rightarrow> (int option) decoder" where
  "decodeNilSequence jx = readNil (decodeSequence jx) 0"

definition zeroHistoryPage :: apiHistoryPage where
  "zeroHistoryPage = \<lparr>ahpMessages = [], ahpNextBeforeSequence = Some 0\<rparr>"

definition encodeHistoryPage :: "jxLibrary \<Rightarrow> apiHistoryPage \<Rightarrow> json" where
  "encodeHistoryPage jx s = JObj (
     writeField ''messages'' (writeArray (encodeSequencedMessage jx) (ahpMessages s)) @
     writeField ''nextBeforeSequence'' (encodeNilSequence jx (ahpNextBeforeSequence s)))"

definition decodeHistoryPage :: "jxLibrary \<Rightarrow> apiHistoryPage decoder" where
  "decodeHistoryPage jx = readObject ''HistoryPage'' [''messages'', ''nextBeforeSequence'']
     [(''messages'', readField (readArray (decodeSequencedMessage jx) zeroSequencedMessage) ahpMessages
       (\<lambda>x s. s\<lparr>ahpMessages := x\<rparr>)),
      (''nextBeforeSequence'', readField (decodeNilSequence jx) ahpNextBeforeSequence
        (\<lambda>x s. s\<lparr>ahpNextBeforeSequence := x\<rparr>))]"

lemmas [wire] =
  decodeNilSequence_def encodeNilSequence_def

definition exactHistoryPage :: "apiHistoryPage \<Rightarrow> bool" where
  "exactHistoryPage s \<longleftrightarrow> list_all exactSequencedMessage (ahpMessages s) \<and> whenGiven int64Range
    (ahpNextBeforeSequence s)"

lemma HistoryPage_object [simp]: "encodeHistoryPage jx s \<noteq> JNull" by (simp add: encodeHistoryPage_def)

lemma HistoryPage_carried [wire]:
  assumes "jxLaws jx" and "exactHistoryPage s"
  shows "decodeHistoryPage jx (encodeHistoryPage jx s) zeroHistoryPage = Inr s"
  using assms by (cases s)
    (simp_all add: wire wire_object encodeHistoryPage_def decodeHistoryPage_def zeroHistoryPage_def
    exactHistoryPage_def)

definition encodeAgentStatus :: "string \<Rightarrow> json" where "encodeAgentStatus = JStr"

definition decodeApiAgentStatus :: "string decoder" where "decodeApiAgentStatus = readStr"

definition encodeWaitingInputRound :: "jxLibrary \<Rightarrow> int \<Rightarrow> json" where "encodeWaitingInputRound jx = writeInt jx"

definition decodeWaitingInputRound :: "jxLibrary \<Rightarrow> int decoder" where "decodeWaitingInputRound jx = readAlias
  (readInt64 jx)"

definition zeroPendingApproval :: apiPendingApproval where
  "zeroPendingApproval = \<lparr>apaCallId = [], apaToolName = [], apaArgumentsJson = [], apaStartedAt = OptUnset\<rparr>"

definition encodePendingApproval :: "jxLibrary \<Rightarrow> apiPendingApproval \<Rightarrow> json" where
  "encodePendingApproval jx s = JObj (
     writeField ''callId'' (encodeCallID (apaCallId s)) @
     writeField ''toolName'' (encodeToolName (apaToolName s)) @
     writeField ''argumentsJson'' (JStr (apaArgumentsJson s)) @
     writeOptNilField ''startedAt'' (writeTime jx) (apaStartedAt s))"

definition decodePendingApproval :: "jxLibrary \<Rightarrow> apiPendingApproval decoder" where
  "decodePendingApproval jx = readObject ''PendingApproval'' [''callId'', ''toolName'', ''argumentsJson'']
     [(''callId'', readField decodeCallID apaCallId (\<lambda>x s. s\<lparr>apaCallId := x\<rparr>)),
      (''toolName'', readField decodeToolName apaToolName (\<lambda>x s. s\<lparr>apaToolName := x\<rparr>)),
      (''argumentsJson'', readField readStr apaArgumentsJson (\<lambda>x s. s\<lparr>apaArgumentsJson := x\<rparr>)),
      (''startedAt'', readReset (decodeOptNilDateTime jx) OptUnset (\<lambda>x s. s\<lparr>apaStartedAt := x\<rparr>))]"

lemmas [wire] =
  encodeAgentStatus_def decodeApiAgentStatus_def encodeWaitingInputRound_def decodeWaitingInputRound_def

definition exactPendingApproval :: "apiPendingApproval \<Rightarrow> bool" where
  "exactPendingApproval s \<longleftrightarrow> whenValue sendableTime (apaStartedAt s)"

lemma PendingApproval_object [simp]: "encodePendingApproval jx s \<noteq> JNull" by
  (simp add: encodePendingApproval_def)

lemma PendingApproval_carried [wire]:
  assumes "jxLaws jx" and "exactPendingApproval s"
  shows "decodePendingApproval jx (encodePendingApproval jx s) zeroPendingApproval = Inr s"
  using assms by (cases s)
    (simp_all add: wire wire_object encodePendingApproval_def decodePendingApproval_def zeroPendingApproval_def
    exactPendingApproval_def)

lemma PendingApproval_parts_carried [wire]:
  assumes "jxLaws jx"
  shows "whenGiven exactPendingApproval v \<Longrightarrow> readNil (decodePendingApproval jx) zeroPendingApproval (writeNil
    (encodePendingApproval jx) v) (Some zeroPendingApproval) = Inr v"
  using read_nil [of exactPendingApproval v "decodePendingApproval jx" "encodePendingApproval jx"
    zeroPendingApproval] PendingApproval_carried [OF assms]
  by simp_all

definition encodeNilPendingApproval :: "jxLibrary \<Rightarrow> (apiPendingApproval option) \<Rightarrow> json" where
  "encodeNilPendingApproval jx = writeNil (encodePendingApproval jx)"

definition decodeNilPendingApproval :: "jxLibrary \<Rightarrow> (apiPendingApproval option) decoder" where
  "decodeNilPendingApproval jx = readNil (decodePendingApproval jx) zeroPendingApproval"

definition zeroPendingToolRecoveryCall :: apiPendingToolRecoveryCall where
  "zeroPendingToolRecoveryCall = \<lparr>aprcCallId = [], aprcToolName = [], aprcArgumentsJson = [], aprcErrorType =
    []\<rparr>"

definition encodePendingToolRecoveryCall :: "jxLibrary \<Rightarrow> apiPendingToolRecoveryCall \<Rightarrow> json" where
  "encodePendingToolRecoveryCall jx s = JObj (
     writeField ''callId'' (encodeCallID (aprcCallId s)) @
     writeField ''toolName'' (encodeToolName (aprcToolName s)) @
     writeField ''argumentsJson'' (JStr (aprcArgumentsJson s)) @
     writeField ''errorType'' (JStr (aprcErrorType s)))"

definition decodePendingToolRecoveryCall :: "jxLibrary \<Rightarrow> apiPendingToolRecoveryCall decoder" where
  "decodePendingToolRecoveryCall jx = readObject ''PendingToolRecoveryCall'' [''callId'', ''toolName'',
    ''argumentsJson'', ''errorType'']
     [(''callId'', readField decodeCallID aprcCallId (\<lambda>x s. s\<lparr>aprcCallId := x\<rparr>)),
      (''toolName'', readField decodeToolName aprcToolName (\<lambda>x s. s\<lparr>aprcToolName := x\<rparr>)),
      (''argumentsJson'', readField readStr aprcArgumentsJson (\<lambda>x s. s\<lparr>aprcArgumentsJson := x\<rparr>)),
      (''errorType'', readField readStr aprcErrorType (\<lambda>x s. s\<lparr>aprcErrorType := x\<rparr>))]"

lemmas [wire] =
  decodeNilPendingApproval_def encodeNilPendingApproval_def

lemma PendingToolRecoveryCall_object [simp]: "encodePendingToolRecoveryCall jx s \<noteq> JNull" by
  (simp add: encodePendingToolRecoveryCall_def)

lemma PendingToolRecoveryCall_carried [wire]:
  assumes "jxLaws jx"
  shows "decodePendingToolRecoveryCall jx
    (encodePendingToolRecoveryCall jx s) zeroPendingToolRecoveryCall = Inr s"
  using assms by (cases s)
    (simp_all add: wire wire_object encodePendingToolRecoveryCall_def decodePendingToolRecoveryCall_def
    zeroPendingToolRecoveryCall_def)

definition zeroPendingToolRecovery :: apiPendingToolRecovery where
  "zeroPendingToolRecovery = \<lparr>aprRecoveryId = [], aprCalls = [], aprStartedAt = OptUnset\<rparr>"

definition encodePendingToolRecovery :: "jxLibrary \<Rightarrow> apiPendingToolRecovery \<Rightarrow> json" where
  "encodePendingToolRecovery jx s = JObj (
     writeField ''recoveryId'' (JStr (aprRecoveryId s)) @
     writeField ''calls'' (writeArray (encodePendingToolRecoveryCall jx) (aprCalls s)) @
     writeOptNilField ''startedAt'' (writeTime jx) (aprStartedAt s))"

definition decodePendingToolRecovery :: "jxLibrary \<Rightarrow> apiPendingToolRecovery decoder" where
  "decodePendingToolRecovery jx = readObject ''PendingToolRecovery'' [''recoveryId'', ''calls'']
     [(''recoveryId'', readField readStr aprRecoveryId (\<lambda>x s. s\<lparr>aprRecoveryId := x\<rparr>)),
      (''calls'', readField (readArray (decodePendingToolRecoveryCall jx) zeroPendingToolRecoveryCall) aprCalls
        (\<lambda>x s. s\<lparr>aprCalls := x\<rparr>)),
      (''startedAt'', readReset (decodeOptNilDateTime jx) OptUnset (\<lambda>x s. s\<lparr>aprStartedAt := x\<rparr>))]"

definition exactPendingToolRecovery :: "apiPendingToolRecovery \<Rightarrow> bool" where
  "exactPendingToolRecovery s \<longleftrightarrow> whenValue sendableTime (aprStartedAt s)"

lemma PendingToolRecovery_object [simp]: "encodePendingToolRecovery jx s \<noteq> JNull" by
  (simp add: encodePendingToolRecovery_def)

lemma PendingToolRecovery_carried [wire]:
  assumes "jxLaws jx" and "exactPendingToolRecovery s"
  shows "decodePendingToolRecovery jx (encodePendingToolRecovery jx s) zeroPendingToolRecovery = Inr s"
  using assms by (cases s)
    (simp_all add: wire wire_object encodePendingToolRecovery_def decodePendingToolRecovery_def
    zeroPendingToolRecovery_def exactPendingToolRecovery_def)

lemma PendingToolRecovery_parts_carried [wire]:
  assumes "jxLaws jx"
  shows "whenGiven exactPendingToolRecovery v \<Longrightarrow> readNil (decodePendingToolRecovery jx) zeroPendingToolRecovery
    (writeNil (encodePendingToolRecovery jx) v) (Some zeroPendingToolRecovery) = Inr v"
  using read_nil [of exactPendingToolRecovery v "decodePendingToolRecovery jx" "encodePendingToolRecovery jx"
    zeroPendingToolRecovery] PendingToolRecovery_carried [OF assms]
  by simp_all

definition encodeNilPendingToolRecovery :: "jxLibrary \<Rightarrow> (apiPendingToolRecovery option) \<Rightarrow> json" where
  "encodeNilPendingToolRecovery jx = writeNil (encodePendingToolRecovery jx)"

definition decodeNilPendingToolRecovery :: "jxLibrary \<Rightarrow> (apiPendingToolRecovery option) decoder" where
  "decodeNilPendingToolRecovery jx = readNil (decodePendingToolRecovery jx) zeroPendingToolRecovery"

definition zeroPendingTimer :: apiPendingTimer where
  "zeroPendingTimer = \<lparr>aptmCallId = [], aptmDurationSeconds = 0, aptmReason = [], aptmStartedAt = OptUnset\<rparr>"

definition encodePendingTimer :: "jxLibrary \<Rightarrow> apiPendingTimer \<Rightarrow> json" where
  "encodePendingTimer jx s = JObj (
     writeField ''callId'' (encodeCallID (aptmCallId s)) @
     writeField ''durationSeconds'' (writeInt jx (aptmDurationSeconds s)) @
     writeField ''reason'' (JStr (aptmReason s)) @
     writeOptNilField ''startedAt'' (writeTime jx) (aptmStartedAt s))"

definition decodePendingTimer :: "jxLibrary \<Rightarrow> apiPendingTimer decoder" where
  "decodePendingTimer jx = readObject ''PendingTimer'' [''callId'', ''durationSeconds'', ''reason'']
     [(''callId'', readField decodeCallID aptmCallId (\<lambda>x s. s\<lparr>aptmCallId := x\<rparr>)),
      (''durationSeconds'', readField (readInt64 jx) aptmDurationSeconds (\<lambda>x s. s\<lparr>aptmDurationSeconds := x\<rparr>)),
      (''reason'', readField readStr aptmReason (\<lambda>x s. s\<lparr>aptmReason := x\<rparr>)),
      (''startedAt'', readReset (decodeOptNilDateTime jx) OptUnset (\<lambda>x s. s\<lparr>aptmStartedAt := x\<rparr>))]"

lemmas [wire] =
  decodeNilPendingToolRecovery_def encodeNilPendingToolRecovery_def

definition exactPendingTimer :: "apiPendingTimer \<Rightarrow> bool" where
  "exactPendingTimer s \<longleftrightarrow> int64Range (aptmDurationSeconds s) \<and> whenValue sendableTime (aptmStartedAt s)"

lemma PendingTimer_object [simp]: "encodePendingTimer jx s \<noteq> JNull" by (simp add: encodePendingTimer_def)

lemma PendingTimer_carried [wire]:
  assumes "jxLaws jx" and "exactPendingTimer s"
  shows "decodePendingTimer jx (encodePendingTimer jx s) zeroPendingTimer = Inr s"
  using assms by (cases s)
    (simp_all add: wire wire_object encodePendingTimer_def decodePendingTimer_def zeroPendingTimer_def
    exactPendingTimer_def)

lemma PendingTimer_parts_carried [wire]:
  assumes "jxLaws jx"
  shows "whenGiven exactPendingTimer v \<Longrightarrow> readNil (decodePendingTimer jx) zeroPendingTimer (writeNil
    (encodePendingTimer jx) v) (Some zeroPendingTimer) = Inr v"
  using read_nil [of exactPendingTimer v "decodePendingTimer jx" "encodePendingTimer jx" zeroPendingTimer]
    PendingTimer_carried [OF assms]
  by simp_all

definition encodeNilPendingTimer :: "jxLibrary \<Rightarrow> (apiPendingTimer option) \<Rightarrow> json" where
  "encodeNilPendingTimer jx = writeNil (encodePendingTimer jx)"

definition decodeNilPendingTimer :: "jxLibrary \<Rightarrow> (apiPendingTimer option) decoder" where
  "decodeNilPendingTimer jx = readNil (decodePendingTimer jx) zeroPendingTimer"

definition zeroUserInputOption :: apiOption where
  "zeroUserInputOption = \<lparr>aopLabel = [], aopDescription = []\<rparr>"

definition encodeUserInputOption :: "jxLibrary \<Rightarrow> apiOption \<Rightarrow> json" where
  "encodeUserInputOption jx s = JObj (
     writeField ''label'' (JStr (aopLabel s)) @
     writeField ''description'' (JStr (aopDescription s)))"

definition decodeUserInputOption :: "jxLibrary \<Rightarrow> apiOption decoder" where
  "decodeUserInputOption jx = readObject ''UserInputOption'' [''label'', ''description'']
     [(''label'', readField readStr aopLabel (\<lambda>x s. s\<lparr>aopLabel := x\<rparr>)),
      (''description'', readField readStr aopDescription (\<lambda>x s. s\<lparr>aopDescription := x\<rparr>))]"

lemmas [wire] =
  decodeNilPendingTimer_def encodeNilPendingTimer_def

lemma UserInputOption_object [simp]: "encodeUserInputOption jx s \<noteq> JNull" by
  (simp add: encodeUserInputOption_def)

lemma UserInputOption_carried [wire]:
  assumes "jxLaws jx"
  shows "decodeUserInputOption jx (encodeUserInputOption jx s) zeroUserInputOption = Inr s"
  using assms by (cases s)
    (simp_all add: wire wire_object encodeUserInputOption_def decodeUserInputOption_def zeroUserInputOption_def)

definition zeroUserInputQuestion :: apiQuestion where
  "zeroUserInputQuestion = \<lparr>aquID = [], aquHeader = [], aquQuestion = [], aquOptions = []\<rparr>"

definition encodeUserInputQuestion :: "jxLibrary \<Rightarrow> apiQuestion \<Rightarrow> json" where
  "encodeUserInputQuestion jx s = JObj (
     writeField ''id'' (JStr (aquID s)) @
     writeField ''header'' (JStr (aquHeader s)) @
     writeField ''question'' (JStr (aquQuestion s)) @
     writeField ''options'' (writeArray (encodeUserInputOption jx) (aquOptions s)))"

definition decodeUserInputQuestion :: "jxLibrary \<Rightarrow> apiQuestion decoder" where
  "decodeUserInputQuestion jx = readObject ''UserInputQuestion'' [''id'', ''header'', ''question'', ''options'']
     [(''id'', readField readStr aquID (\<lambda>x s. s\<lparr>aquID := x\<rparr>)),
      (''header'', readField readStr aquHeader (\<lambda>x s. s\<lparr>aquHeader := x\<rparr>)),
      (''question'', readField readStr aquQuestion (\<lambda>x s. s\<lparr>aquQuestion := x\<rparr>)),
      (''options'', readField (readArray (decodeUserInputOption jx) zeroUserInputOption) aquOptions
        (\<lambda>x s. s\<lparr>aquOptions := x\<rparr>))]"

lemma UserInputQuestion_object [simp]: "encodeUserInputQuestion jx s \<noteq> JNull" by
  (simp add: encodeUserInputQuestion_def)

lemma UserInputQuestion_carried [wire]:
  assumes "jxLaws jx"
  shows "decodeUserInputQuestion jx (encodeUserInputQuestion jx s) zeroUserInputQuestion = Inr s"
  using assms by (cases s)
    (simp_all
    add: wire wire_object encodeUserInputQuestion_def decodeUserInputQuestion_def zeroUserInputQuestion_def)

definition zeroPendingUserInput :: apiPendingUserInput where
  "zeroPendingUserInput = \<lparr>apuCallId = [], apuQuestions = [], apuStartedAt = OptUnset\<rparr>"

definition encodePendingUserInput :: "jxLibrary \<Rightarrow> apiPendingUserInput \<Rightarrow> json" where
  "encodePendingUserInput jx s = JObj (
     writeField ''callId'' (encodeCallID (apuCallId s)) @
     writeField ''questions'' (writeArray (encodeUserInputQuestion jx) (apuQuestions s)) @
     writeOptNilField ''startedAt'' (writeTime jx) (apuStartedAt s))"

definition decodePendingUserInput :: "jxLibrary \<Rightarrow> apiPendingUserInput decoder" where
  "decodePendingUserInput jx = readObject ''PendingUserInput'' [''callId'', ''questions'']
     [(''callId'', readField decodeCallID apuCallId (\<lambda>x s. s\<lparr>apuCallId := x\<rparr>)),
      (''questions'', readField (readArray (decodeUserInputQuestion jx) zeroUserInputQuestion) apuQuestions
        (\<lambda>x s. s\<lparr>apuQuestions := x\<rparr>)),
      (''startedAt'', readReset (decodeOptNilDateTime jx) OptUnset (\<lambda>x s. s\<lparr>apuStartedAt := x\<rparr>))]"

definition exactPendingUserInput :: "apiPendingUserInput \<Rightarrow> bool" where
  "exactPendingUserInput s \<longleftrightarrow> whenValue sendableTime (apuStartedAt s)"

lemma PendingUserInput_object [simp]: "encodePendingUserInput jx s \<noteq> JNull" by
  (simp add: encodePendingUserInput_def)

lemma PendingUserInput_carried [wire]:
  assumes "jxLaws jx" and "exactPendingUserInput s"
  shows "decodePendingUserInput jx (encodePendingUserInput jx s) zeroPendingUserInput = Inr s"
  using assms by (cases s)
    (simp_all
    add: wire wire_object encodePendingUserInput_def decodePendingUserInput_def zeroPendingUserInput_def
    exactPendingUserInput_def)

lemma PendingUserInput_parts_carried [wire]:
  assumes "jxLaws jx"
  shows "whenGiven exactPendingUserInput v \<Longrightarrow> readNil (decodePendingUserInput jx) zeroPendingUserInput (writeNil
    (encodePendingUserInput jx) v) (Some zeroPendingUserInput) = Inr v"
  using read_nil [of exactPendingUserInput v "decodePendingUserInput jx" "encodePendingUserInput jx"
    zeroPendingUserInput] PendingUserInput_carried [OF assms]
  by simp_all

definition encodeNilPendingUserInput :: "jxLibrary \<Rightarrow> (apiPendingUserInput option) \<Rightarrow> json" where
  "encodeNilPendingUserInput jx = writeNil (encodePendingUserInput jx)"

definition decodeNilPendingUserInput :: "jxLibrary \<Rightarrow> (apiPendingUserInput option) decoder" where
  "decodeNilPendingUserInput jx = readNil (decodePendingUserInput jx) zeroPendingUserInput"

definition encodePlanStatus :: "string \<Rightarrow> json" where "encodePlanStatus = JStr"

definition decodeApiPlanStatus :: "string decoder" where "decodeApiPlanStatus = readStr"

definition encodeTaskStatus :: "string \<Rightarrow> json" where "encodeTaskStatus = JStr"

definition decodeApiTaskStatus :: "string decoder" where "decodeApiTaskStatus = readStr"

definition zeroPlanTask :: apiPlanTask where
  "zeroPlanTask = \<lparr>aptContent = [], aptStatus = []\<rparr>"

definition encodePlanTask :: "jxLibrary \<Rightarrow> apiPlanTask \<Rightarrow> json" where
  "encodePlanTask jx s = JObj (
     writeField ''content'' (JStr (aptContent s)) @
     writeField ''status'' (encodeTaskStatus (aptStatus s)))"

definition decodePlanTask :: "jxLibrary \<Rightarrow> apiPlanTask decoder" where
  "decodePlanTask jx = readObject ''PlanTask'' [''content'', ''status'']
     [(''content'', readField readStr aptContent (\<lambda>x s. s\<lparr>aptContent := x\<rparr>)),
      (''status'', readField decodeApiTaskStatus aptStatus (\<lambda>x s. s\<lparr>aptStatus := x\<rparr>))]"

lemmas [wire] =
  decodeNilPendingUserInput_def encodeNilPendingUserInput_def encodePlanStatus_def decodeApiPlanStatus_def
  encodeTaskStatus_def decodeApiTaskStatus_def

lemma PlanTask_object [simp]: "encodePlanTask jx s \<noteq> JNull" by (simp add: encodePlanTask_def)

lemma PlanTask_carried [wire]:
  assumes "jxLaws jx"
  shows "decodePlanTask jx (encodePlanTask jx s) zeroPlanTask = Inr s"
  using assms by (cases s)
    (simp_all add: wire wire_object encodePlanTask_def decodePlanTask_def zeroPlanTask_def)

definition zeroAgentPlan :: apiPlan where
  "zeroAgentPlan = \<lparr>aplRevision = 0, aplStatus = [], aplTasks = []\<rparr>"

definition encodeAgentPlan :: "jxLibrary \<Rightarrow> apiPlan \<Rightarrow> json" where
  "encodeAgentPlan jx s = JObj (
     writeField ''revision'' (writeInt jx (aplRevision s)) @
     writeField ''status'' (encodePlanStatus (aplStatus s)) @
     writeField ''tasks'' (writeArray (encodePlanTask jx) (aplTasks s)))"

definition decodeAgentPlan :: "jxLibrary \<Rightarrow> apiPlan decoder" where
  "decodeAgentPlan jx = readObject ''AgentPlan'' [''revision'', ''status'', ''tasks'']
     [(''revision'', readField (readInt64 jx) aplRevision (\<lambda>x s. s\<lparr>aplRevision := x\<rparr>)),
      (''status'', readField decodeApiPlanStatus aplStatus (\<lambda>x s. s\<lparr>aplStatus := x\<rparr>)),
      (''tasks'', readField (readArray (decodePlanTask jx) zeroPlanTask) aplTasks (\<lambda>x s. s\<lparr>aplTasks := x\<rparr>))]"

definition exactAgentPlan :: "apiPlan \<Rightarrow> bool" where
  "exactAgentPlan s \<longleftrightarrow> int64Range (aplRevision s)"

lemma AgentPlan_object [simp]: "encodeAgentPlan jx s \<noteq> JNull" by (simp add: encodeAgentPlan_def)

lemma AgentPlan_carried [wire]:
  assumes "jxLaws jx" and "exactAgentPlan s"
  shows "decodeAgentPlan jx (encodeAgentPlan jx s) zeroAgentPlan = Inr s"
  using assms by (cases s)
    (simp_all
    add: wire wire_object encodeAgentPlan_def decodeAgentPlan_def zeroAgentPlan_def exactAgentPlan_def)

lemma AgentPlan_parts_carried [wire]:
  assumes "jxLaws jx"
  shows "whenGiven exactAgentPlan v \<Longrightarrow> readNil (decodeAgentPlan jx) zeroAgentPlan (writeNil
    (encodeAgentPlan jx) v) (Some zeroAgentPlan) = Inr v"
  using read_nil [of exactAgentPlan v "decodeAgentPlan jx" "encodeAgentPlan jx" zeroAgentPlan] AgentPlan_carried
    [OF assms]
  by simp_all

definition encodeNilAgentPlan :: "jxLibrary \<Rightarrow> (apiPlan option) \<Rightarrow> json" where
  "encodeNilAgentPlan jx = writeNil (encodeAgentPlan jx)"

definition decodeNilAgentPlan :: "jxLibrary \<Rightarrow> (apiPlan option) decoder" where
  "decodeNilAgentPlan jx = readNil (decodeAgentPlan jx) zeroAgentPlan"

definition encodeNilDateTime :: "jxLibrary \<Rightarrow> (goTime option) \<Rightarrow> json" where
  "encodeNilDateTime jx = writeNil (writeTime jx)"

definition decodeNilDateTime :: "jxLibrary \<Rightarrow> (goTime option) decoder" where
  "decodeNilDateTime jx = readNil (readTime jx) 0"

definition zeroAgentDescription :: apiDescription where
  "zeroAgentDescription = \<lparr>adStatus = [], adWaitingInputRound = 0, adModel = [], adSystemPrompt = [],
    adFirstRetainedSequence = 0, adLastSequence = 0, adSummarizedThroughSequence = 0, adPendingApproval = Some
    zeroPendingApproval, adPendingToolRecovery = Some zeroPendingToolRecovery, adPendingTimer = Some
    zeroPendingTimer, adPendingUserInput = Some zeroPendingUserInput, adPlan = Some zeroAgentPlan,
    adIsPlanExecutionRequested = False, adPendingQueuedMessageCount = 0, adPendingSteeredMessageCount = 0,
    adAvailableMcpServers = [], adAvailableTools = [], adInactivityDeadline = Some 0\<rparr>"

definition encodeAgentDescription :: "jxLibrary \<Rightarrow> apiDescription \<Rightarrow> json" where
  "encodeAgentDescription jx s = JObj (
     writeField ''status'' (encodeAgentStatus (adStatus s)) @
     writeField ''waitingInputRound'' (encodeWaitingInputRound jx (adWaitingInputRound s)) @
     writeField ''model'' (JStr (adModel s)) @
     writeField ''systemPrompt'' (JStr (adSystemPrompt s)) @
     writeField ''firstRetainedSequence'' (writeInt jx (adFirstRetainedSequence s)) @
     writeField ''lastSequence'' (writeInt jx (adLastSequence s)) @
     writeField ''summarizedThroughSequence'' (writeInt jx (adSummarizedThroughSequence s)) @
     writeField ''pendingApproval'' (encodeNilPendingApproval jx (adPendingApproval s)) @
     writeField ''pendingToolRecovery'' (encodeNilPendingToolRecovery jx (adPendingToolRecovery s)) @
     writeField ''pendingTimer'' (encodeNilPendingTimer jx (adPendingTimer s)) @
     writeField ''pendingUserInput'' (encodeNilPendingUserInput jx (adPendingUserInput s)) @
     writeField ''plan'' (encodeNilAgentPlan jx (adPlan s)) @
     writeField ''isPlanExecutionRequested'' (JBool (adIsPlanExecutionRequested s)) @
     writeField ''pendingQueuedMessageCount'' (writeInt jx (adPendingQueuedMessageCount s)) @
     writeField ''pendingSteeredMessageCount'' (writeInt jx (adPendingSteeredMessageCount s)) @
     writeField ''availableMcpServers'' (writeArray JStr (adAvailableMcpServers s)) @
     writeField ''availableTools'' (writeArray encodeToolName (adAvailableTools s)) @
     writeField ''inactivityDeadline'' (encodeNilDateTime jx (adInactivityDeadline s)))"

definition decodeAgentDescription :: "jxLibrary \<Rightarrow> apiDescription decoder" where
  "decodeAgentDescription jx = readObject ''AgentDescription''
     [''status'', ''waitingInputRound'', ''model'', ''systemPrompt'',
      ''firstRetainedSequence'', ''lastSequence'', ''summarizedThroughSequence'',
      ''pendingApproval'', ''pendingToolRecovery'', ''pendingTimer'', ''pendingUserInput'',
      ''plan'', ''isPlanExecutionRequested'', ''pendingQueuedMessageCount'',
      ''pendingSteeredMessageCount'', ''availableMcpServers'', ''availableTools'',
      ''inactivityDeadline'']
     [(''status'', readField decodeApiAgentStatus adStatus (\<lambda>x s. s\<lparr>adStatus := x\<rparr>)),
      (''waitingInputRound'', readField (decodeWaitingInputRound jx) adWaitingInputRound
        (\<lambda>x s. s\<lparr>adWaitingInputRound := x\<rparr>)),
      (''model'', readField readStr adModel (\<lambda>x s. s\<lparr>adModel := x\<rparr>)),
      (''systemPrompt'', readField readStr adSystemPrompt (\<lambda>x s. s\<lparr>adSystemPrompt := x\<rparr>)),
      (''firstRetainedSequence'', readField (readInt64 jx) adFirstRetainedSequence
        (\<lambda>x s. s\<lparr>adFirstRetainedSequence := x\<rparr>)),
      (''lastSequence'', readField (readInt64 jx) adLastSequence (\<lambda>x s. s\<lparr>adLastSequence := x\<rparr>)),
      (''summarizedThroughSequence'', readField (readInt64 jx) adSummarizedThroughSequence
        (\<lambda>x s. s\<lparr>adSummarizedThroughSequence := x\<rparr>)),
      (''pendingApproval'', readField (decodeNilPendingApproval jx) adPendingApproval
        (\<lambda>x s. s\<lparr>adPendingApproval := x\<rparr>)),
      (''pendingToolRecovery'', readField (decodeNilPendingToolRecovery jx) adPendingToolRecovery
        (\<lambda>x s. s\<lparr>adPendingToolRecovery := x\<rparr>)),
      (''pendingTimer'', readField (decodeNilPendingTimer jx) adPendingTimer (\<lambda>x s. s\<lparr>adPendingTimer := x\<rparr>)),
      (''pendingUserInput'', readField (decodeNilPendingUserInput jx) adPendingUserInput
        (\<lambda>x s. s\<lparr>adPendingUserInput := x\<rparr>)),
      (''plan'', readField (decodeNilAgentPlan jx) adPlan (\<lambda>x s. s\<lparr>adPlan := x\<rparr>)),
      (''isPlanExecutionRequested'', readField readBool adIsPlanExecutionRequested
        (\<lambda>x s. s\<lparr>adIsPlanExecutionRequested := x\<rparr>)),
      (''pendingQueuedMessageCount'', readField (readInt jx) adPendingQueuedMessageCount
        (\<lambda>x s. s\<lparr>adPendingQueuedMessageCount := x\<rparr>)),
      (''pendingSteeredMessageCount'', readField (readInt jx) adPendingSteeredMessageCount
        (\<lambda>x s. s\<lparr>adPendingSteeredMessageCount := x\<rparr>)),
      (''availableMcpServers'', readField (readArray readStr []) adAvailableMcpServers
        (\<lambda>x s. s\<lparr>adAvailableMcpServers := x\<rparr>)),
      (''availableTools'', readField (readArray decodeToolName []) adAvailableTools
        (\<lambda>x s. s\<lparr>adAvailableTools := x\<rparr>)),
      (''inactivityDeadline'', readField (decodeNilDateTime jx) adInactivityDeadline
        (\<lambda>x s. s\<lparr>adInactivityDeadline := x\<rparr>))]"

lemmas [wire] =
  decodeNilAgentPlan_def encodeNilAgentPlan_def decodeNilDateTime_def encodeNilDateTime_def

definition exactAgentDescription :: "apiDescription \<Rightarrow> bool" where
  "exactAgentDescription s \<longleftrightarrow> int64Range (adWaitingInputRound s) \<and> int64Range
    (adFirstRetainedSequence s) \<and> int64Range (adLastSequence s) \<and> int64Range
    (adSummarizedThroughSequence s) \<and> whenGiven exactPendingApproval
    (adPendingApproval s) \<and> whenGiven exactPendingToolRecovery
    (adPendingToolRecovery s) \<and> whenGiven exactPendingTimer (adPendingTimer s) \<and> whenGiven exactPendingUserInput
    (adPendingUserInput s) \<and> whenGiven exactAgentPlan (adPlan s) \<and> int64Range
    (adPendingQueuedMessageCount s) \<and> int64Range (adPendingSteeredMessageCount s) \<and> whenGiven sendableTime
    (adInactivityDeadline s)"

lemma AgentDescription_object [simp]: "encodeAgentDescription jx s \<noteq> JNull" by
  (simp add: encodeAgentDescription_def)

lemma AgentDescription_carried [wire]:
  assumes "jxLaws jx" and "exactAgentDescription s"
  shows "decodeAgentDescription jx (encodeAgentDescription jx s) zeroAgentDescription = Inr s"
  using assms by (cases s)
    (simp_all
    add: wire wire_object encodeAgentDescription_def decodeAgentDescription_def zeroAgentDescription_def
    exactAgentDescription_def)

definition encodeMessageID :: "string \<Rightarrow> json" where "encodeMessageID = JStr"

definition decodeMessageID :: "string decoder" where "decodeMessageID = readAlias readStr"

definition zeroUserMessage :: apiUserMessage where
  "zeroUserMessage = \<lparr>aumContent = [], aumPlanMode = False\<rparr>"

definition encodeUserMessage :: "jxLibrary \<Rightarrow> apiUserMessage \<Rightarrow> json" where
  "encodeUserMessage jx s = JObj (
     writeField ''content'' (JStr (aumContent s)) @
     writeField ''planMode'' (JBool (aumPlanMode s)))"

definition decodeUserMessage :: "jxLibrary \<Rightarrow> apiUserMessage decoder" where
  "decodeUserMessage jx = readObject ''UserMessage'' [''content'', ''planMode'']
     [(''content'', readField readStr aumContent (\<lambda>x s. s\<lparr>aumContent := x\<rparr>)),
      (''planMode'', readField readBool aumPlanMode (\<lambda>x s. s\<lparr>aumPlanMode := x\<rparr>))]"

lemmas [wire] =
  encodeMessageID_def decodeMessageID_def

lemma UserMessage_object [simp]: "encodeUserMessage jx s \<noteq> JNull" by (simp add: encodeUserMessage_def)

lemma UserMessage_carried [wire]:
  assumes "jxLaws jx"
  shows "decodeUserMessage jx (encodeUserMessage jx s) zeroUserMessage = Inr s"
  using assms by (cases s)
    (simp_all add: wire wire_object encodeUserMessage_def decodeUserMessage_def zeroUserMessage_def)

definition zeroPendingUserMessage :: apiPendingUserMessage where
  "zeroPendingUserMessage = \<lparr>apmMessageId = [], apmValue = zeroUserMessage\<rparr>"

definition encodePendingUserMessage :: "jxLibrary \<Rightarrow> apiPendingUserMessage \<Rightarrow> json" where
  "encodePendingUserMessage jx s = JObj (
     writeField ''messageId'' (encodeMessageID (apmMessageId s)) @
     writeField ''value'' (encodeUserMessage jx (apmValue s)))"

definition decodePendingUserMessage :: "jxLibrary \<Rightarrow> apiPendingUserMessage decoder" where
  "decodePendingUserMessage jx = readObject ''PendingUserMessage'' [''messageId'', ''value'']
     [(''messageId'', readField decodeMessageID apmMessageId (\<lambda>x s. s\<lparr>apmMessageId := x\<rparr>)),
      (''value'', readField (decodeUserMessage jx) apmValue (\<lambda>x s. s\<lparr>apmValue := x\<rparr>))]"

lemma PendingUserMessage_object [simp]: "encodePendingUserMessage jx s \<noteq> JNull" by
  (simp add: encodePendingUserMessage_def)

lemma PendingUserMessage_carried [wire]:
  assumes "jxLaws jx"
  shows "decodePendingUserMessage jx (encodePendingUserMessage jx s) zeroPendingUserMessage = Inr s"
  using assms by (cases s)
    (simp_all
    add: wire wire_object encodePendingUserMessage_def decodePendingUserMessage_def zeroPendingUserMessage_def)

definition zeroAgentSnapshot :: apiSnapshot where
  "zeroAgentSnapshot = \<lparr>asnRunId = [], asnHistory = zeroHistoryPage, asnDescription = zeroAgentDescription,
    asnQueued = [], asnSteered = []\<rparr>"

definition encodeAgentSnapshot :: "jxLibrary \<Rightarrow> apiSnapshot \<Rightarrow> json" where
  "encodeAgentSnapshot jx s = JObj (
     writeField ''runId'' (encodeRunID (asnRunId s)) @
     writeField ''history'' (encodeHistoryPage jx (asnHistory s)) @
     writeField ''description'' (encodeAgentDescription jx (asnDescription s)) @
     writeField ''queued'' (writeArray (encodePendingUserMessage jx) (asnQueued s)) @
     writeField ''steered'' (writeArray (encodePendingUserMessage jx) (asnSteered s)))"

definition decodeAgentSnapshot :: "jxLibrary \<Rightarrow> apiSnapshot decoder" where
  "decodeAgentSnapshot jx = readObject ''AgentSnapshot'' [''runId'', ''history'', ''description'', ''queued'',
    ''steered'']
     [(''runId'', readField decodeRunID asnRunId (\<lambda>x s. s\<lparr>asnRunId := x\<rparr>)),
      (''history'', readField (decodeHistoryPage jx) asnHistory (\<lambda>x s. s\<lparr>asnHistory := x\<rparr>)),
      (''description'', readField (decodeAgentDescription jx) asnDescription (\<lambda>x s. s\<lparr>asnDescription := x\<rparr>)),
      (''queued'', readField (readArray (decodePendingUserMessage jx) zeroPendingUserMessage) asnQueued
        (\<lambda>x s. s\<lparr>asnQueued := x\<rparr>)),
      (''steered'', readField (readArray (decodePendingUserMessage jx) zeroPendingUserMessage) asnSteered
        (\<lambda>x s. s\<lparr>asnSteered := x\<rparr>))]"

definition exactAgentSnapshot :: "apiSnapshot \<Rightarrow> bool" where
  "exactAgentSnapshot s \<longleftrightarrow> exactHistoryPage (asnHistory s) \<and> exactAgentDescription (asnDescription s)"

lemma AgentSnapshot_object [simp]: "encodeAgentSnapshot jx s \<noteq> JNull" by (simp add: encodeAgentSnapshot_def)

lemma AgentSnapshot_carried [wire]:
  assumes "jxLaws jx" and "exactAgentSnapshot s"
  shows "decodeAgentSnapshot jx (encodeAgentSnapshot jx s) zeroAgentSnapshot = Inr s"
  using assms by (cases s)
    (simp_all add: wire wire_object encodeAgentSnapshot_def decodeAgentSnapshot_def zeroAgentSnapshot_def
    exactAgentSnapshot_def)

end
