(* ===== verification/WireEvents.thy ===== *)
theory WireEvents
  imports WireSnapshot
begin

text \<open>
  The JSON of the events of a stream and of the list of recent events
  (\<^verbatim>\<open>internal/api/generated/oas_json_gen.go\<close>). An event is a sum of three types, told apart by its
  field \<^verbatim>\<open>kind\<close>.
\<close>

definition encodeResumeToken :: "string \<Rightarrow> json" where "encodeResumeToken = JStr"

definition decodeResumeToken :: "string decoder" where "decodeResumeToken = readAlias readStr"

definition encodeReasoningStreamEventKind :: "string \<Rightarrow> json" where "encodeReasoningStreamEventKind = JStr"

definition decodeReasoningStreamEventKind :: "string decoder" where "decodeReasoningStreamEventKind = readStr"

definition zeroReasoningStreamEvent :: apiTextEvent where
  "zeroReasoningStreamEvent = \<lparr>ateKind = [], ateValue = [], ateResumeToken = [], ateCreatedAt = 0, ateSource =
    []\<rparr>"

definition encodeReasoningStreamEvent :: "jxLibrary \<Rightarrow> apiTextEvent \<Rightarrow> json" where
  "encodeReasoningStreamEvent jx s = JObj (
     writeField ''value'' (JStr (ateValue s)) @
     writeField ''resumeToken'' (encodeResumeToken (ateResumeToken s)) @
     writeField ''createdAt'' (writeTime jx (ateCreatedAt s)) @
     writeField ''source'' (JStr (ateSource s)) @
     writeField ''kind'' (encodeReasoningStreamEventKind (ateKind s)))"

definition decodeReasoningStreamEvent :: "jxLibrary \<Rightarrow> apiTextEvent decoder" where
  "decodeReasoningStreamEvent jx = readObject ''ReasoningStreamEvent'' [''value'', ''resumeToken'',
    ''createdAt'', ''source'', ''kind'']
     [(''value'', readField readStr ateValue (\<lambda>x s. s\<lparr>ateValue := x\<rparr>)),
      (''resumeToken'', readField decodeResumeToken ateResumeToken (\<lambda>x s. s\<lparr>ateResumeToken := x\<rparr>)),
      (''createdAt'', readField (readTime jx) ateCreatedAt (\<lambda>x s. s\<lparr>ateCreatedAt := x\<rparr>)),
      (''source'', readField readStr ateSource (\<lambda>x s. s\<lparr>ateSource := x\<rparr>)),
      (''kind'', readField decodeReasoningStreamEventKind ateKind (\<lambda>x s. s\<lparr>ateKind := x\<rparr>))]"

lemmas [wire] =
  encodeResumeToken_def
    decodeResumeToken_def encodeReasoningStreamEventKind_def decodeReasoningStreamEventKind_def

definition exactReasoningStreamEvent :: "apiTextEvent \<Rightarrow> bool" where
  "exactReasoningStreamEvent s \<longleftrightarrow> sendableTime (ateCreatedAt s)"

lemma ReasoningStreamEvent_object [simp]: "encodeReasoningStreamEvent jx s \<noteq> JNull" by
  (simp add: encodeReasoningStreamEvent_def)

lemma ReasoningStreamEvent_carried [wire]:
  assumes "jxLaws jx" and "exactReasoningStreamEvent s"
  shows "decodeReasoningStreamEvent jx (encodeReasoningStreamEvent jx s) zeroReasoningStreamEvent = Inr s"
  using assms by (cases s)
    (simp_all add: wire wire_object encodeReasoningStreamEvent_def decodeReasoningStreamEvent_def
    zeroReasoningStreamEvent_def exactReasoningStreamEvent_def)

definition encodeAssistantStreamEventKind :: "string \<Rightarrow> json" where "encodeAssistantStreamEventKind = JStr"

definition decodeAssistantStreamEventKind :: "string decoder" where "decodeAssistantStreamEventKind = readStr"

definition encodeAssistantStreamEvent :: "jxLibrary \<Rightarrow> apiTextEvent \<Rightarrow> json" where
  "encodeAssistantStreamEvent jx s = JObj (
     writeField ''value'' (JStr (ateValue s)) @
     writeField ''resumeToken'' (encodeResumeToken (ateResumeToken s)) @
     writeField ''createdAt'' (writeTime jx (ateCreatedAt s)) @
     writeField ''source'' (JStr (ateSource s)) @
     writeField ''kind'' (encodeAssistantStreamEventKind (ateKind s)))"

definition decodeAssistantStreamEvent :: "jxLibrary \<Rightarrow> apiTextEvent decoder" where
  "decodeAssistantStreamEvent jx = readObject ''AssistantStreamEvent'' [''value'', ''resumeToken'',
    ''createdAt'', ''source'', ''kind'']
     [(''value'', readField readStr ateValue (\<lambda>x s. s\<lparr>ateValue := x\<rparr>)),
      (''resumeToken'', readField decodeResumeToken ateResumeToken (\<lambda>x s. s\<lparr>ateResumeToken := x\<rparr>)),
      (''createdAt'', readField (readTime jx) ateCreatedAt (\<lambda>x s. s\<lparr>ateCreatedAt := x\<rparr>)),
      (''source'', readField readStr ateSource (\<lambda>x s. s\<lparr>ateSource := x\<rparr>)),
      (''kind'', readField decodeAssistantStreamEventKind ateKind (\<lambda>x s. s\<lparr>ateKind := x\<rparr>))]"

lemmas [wire] =
  encodeAssistantStreamEventKind_def decodeAssistantStreamEventKind_def

definition exactAssistantStreamEvent :: "apiTextEvent \<Rightarrow> bool" where
  "exactAssistantStreamEvent s \<longleftrightarrow> sendableTime (ateCreatedAt s)"

lemma AssistantStreamEvent_object [simp]: "encodeAssistantStreamEvent jx s \<noteq> JNull" by
  (simp add: encodeAssistantStreamEvent_def)

lemma AssistantStreamEvent_carried [wire]:
  assumes "jxLaws jx" and "exactAssistantStreamEvent s"
  shows "decodeAssistantStreamEvent jx (encodeAssistantStreamEvent jx s) zeroReasoningStreamEvent = Inr s"
  using assms by (cases s)
    (simp_all add: wire wire_object encodeAssistantStreamEvent_def decodeAssistantStreamEvent_def
    zeroReasoningStreamEvent_def exactAssistantStreamEvent_def)

definition encodeActivityStreamEventKind :: "string \<Rightarrow> json" where "encodeActivityStreamEventKind = JStr"

definition decodeActivityStreamEventKind :: "string decoder" where "decodeActivityStreamEventKind = readStr"

definition encodeEventKind :: "string \<Rightarrow> json" where "encodeEventKind = JStr"

definition decodeApiEventKind :: "string decoder" where "decodeApiEventKind = readStr"

definition decodeOptNilInt64 :: "jxLibrary \<Rightarrow> (int optNil) decoder" where
  "decodeOptNilInt64 jx = readOptNil (readInt64 jx) 0"

definition decodeOptNilInt :: "jxLibrary \<Rightarrow> (int optNil) decoder" where
  "decodeOptNilInt jx = readOptNil (readInt jx) 0"

definition decodeOptNilTaskStatus :: "jxLibrary \<Rightarrow> (string optNil) decoder" where
  "decodeOptNilTaskStatus jx = readOptNil decodeApiTaskStatus []"

definition encodeNilInt64 :: "jxLibrary \<Rightarrow> (int option) \<Rightarrow> json" where
  "encodeNilInt64 jx = writeNil (writeInt jx)"

definition decodeNilInt64 :: "jxLibrary \<Rightarrow> (int option) decoder" where
  "decodeNilInt64 jx = readNil (readInt64 jx) 0"

definition zeroInputConsumption :: apiInputConsumption where
  "zeroInputConsumption = \<lparr>aicQueuedMessageIds = [], aicSteeredMessageIds = [], aicPlanExecutionRevision = Some
    0\<rparr>"

definition encodeInputConsumption :: "jxLibrary \<Rightarrow> apiInputConsumption \<Rightarrow> json" where
  "encodeInputConsumption jx s = JObj (
     writeField ''queuedMessageIds'' (writeArray encodeMessageID (aicQueuedMessageIds s)) @
     writeField ''steeredMessageIds'' (writeArray encodeMessageID (aicSteeredMessageIds s)) @
     writeField ''planExecutionRevision'' (encodeNilInt64 jx (aicPlanExecutionRevision s)))"

definition decodeInputConsumption :: "jxLibrary \<Rightarrow> apiInputConsumption decoder" where
  "decodeInputConsumption jx = readObject ''InputConsumption'' [''queuedMessageIds'', ''steeredMessageIds'',
    ''planExecutionRevision'']
     [(''queuedMessageIds'', readField (readArray decodeMessageID []) aicQueuedMessageIds
       (\<lambda>x s. s\<lparr>aicQueuedMessageIds := x\<rparr>)),
      (''steeredMessageIds'', readField (readArray decodeMessageID []) aicSteeredMessageIds
        (\<lambda>x s. s\<lparr>aicSteeredMessageIds := x\<rparr>)),
      (''planExecutionRevision'', readField (decodeNilInt64 jx) aicPlanExecutionRevision
        (\<lambda>x s. s\<lparr>aicPlanExecutionRevision := x\<rparr>))]"

lemmas [wire] =
  encodeActivityStreamEventKind_def decodeActivityStreamEventKind_def encodeEventKind_def decodeApiEventKind_def
  decodeOptNilInt64_def decodeOptNilInt_def decodeOptNilTaskStatus_def decodeNilInt64_def
  encodeNilInt64_def

definition exactInputConsumption :: "apiInputConsumption \<Rightarrow> bool" where
  "exactInputConsumption s \<longleftrightarrow> whenGiven int64Range (aicPlanExecutionRevision s)"

lemma InputConsumption_object [simp]: "encodeInputConsumption jx s \<noteq> JNull" by
  (simp add: encodeInputConsumption_def)

lemma InputConsumption_carried [wire]:
  assumes "jxLaws jx" and "exactInputConsumption s"
  shows "decodeInputConsumption jx (encodeInputConsumption jx s) zeroInputConsumption = Inr s"
  using assms by (cases s)
    (simp_all
    add: wire wire_object encodeInputConsumption_def decodeInputConsumption_def zeroInputConsumption_def
    exactInputConsumption_def)

lemma InputConsumption_parts_carried [wire]:
  assumes "jxLaws jx"
  shows "whenGiven exactInputConsumption v \<Longrightarrow> readNil (decodeInputConsumption jx) zeroInputConsumption (writeNil
    (encodeInputConsumption jx) v) (Some zeroInputConsumption) = Inr v"
  using read_nil [of exactInputConsumption v "decodeInputConsumption jx" "encodeInputConsumption jx"
    zeroInputConsumption] InputConsumption_carried [OF assms]
  by simp_all

definition encodeNilInputConsumption :: "jxLibrary \<Rightarrow> (apiInputConsumption option) \<Rightarrow> json" where
  "encodeNilInputConsumption jx = writeNil (encodeInputConsumption jx)"

definition decodeNilInputConsumption :: "jxLibrary \<Rightarrow> (apiInputConsumption option) decoder" where
  "decodeNilInputConsumption jx = readNil (decodeInputConsumption jx) zeroInputConsumption"

definition decodeOptNilInt32 :: "jxLibrary \<Rightarrow> (int optNil) decoder" where
  "decodeOptNilInt32 jx = readOptNil (readInt32 jx) 0"

definition zeroAgentEvent :: apiEvent where
  "zeroAgentEvent = \<lparr>aevKind = [], aevMessage = [], aevCallId = Some [], aevToolName = Some [],
    aevMessageSequence = Some 0, aevPlanBaseRevision = OptUnset, aevPlanRevision = OptUnset, aevPlanTaskIndex =
    OptUnset, aevPlanTaskStatus = OptUnset, aevInputConsumption = Some zeroInputConsumption, aevAttempt =
    OptUnset\<rparr>"

definition encodeAgentEvent :: "jxLibrary \<Rightarrow> apiEvent \<Rightarrow> json" where
  "encodeAgentEvent jx s = JObj (
     writeField ''kind'' (encodeEventKind (aevKind s)) @
     writeField ''message'' (JStr (aevMessage s)) @
     writeField ''callId'' (encodeNilCallID jx (aevCallId s)) @
     writeField ''toolName'' (encodeNilToolName jx (aevToolName s)) @
     writeField ''messageSequence'' (encodeNilSequence jx (aevMessageSequence s)) @
     writeOptNilField ''planBaseRevision'' (writeInt jx) (aevPlanBaseRevision s) @
     writeOptNilField ''planRevision'' (writeInt jx) (aevPlanRevision s) @
     writeOptNilField ''planTaskIndex'' (writeInt jx) (aevPlanTaskIndex s) @
     writeOptNilField ''planTaskStatus'' encodeTaskStatus (aevPlanTaskStatus s) @
     writeField ''inputConsumption'' (encodeNilInputConsumption jx (aevInputConsumption s)) @
     writeOptNilField ''attempt'' (writeInt jx) (aevAttempt s))"

definition decodeAgentEvent :: "jxLibrary \<Rightarrow> apiEvent decoder" where
  "decodeAgentEvent jx = readObject ''AgentEvent''
     [''kind'', ''message'', ''callId'', ''toolName'', ''messageSequence'',
      ''inputConsumption'']
     [(''kind'', readField decodeApiEventKind aevKind (\<lambda>x s. s\<lparr>aevKind := x\<rparr>)),
      (''message'', readField readStr aevMessage (\<lambda>x s. s\<lparr>aevMessage := x\<rparr>)),
      (''callId'', readField (decodeNilCallID jx) aevCallId (\<lambda>x s. s\<lparr>aevCallId := x\<rparr>)),
      (''toolName'', readField (decodeNilToolName jx) aevToolName (\<lambda>x s. s\<lparr>aevToolName := x\<rparr>)),
      (''messageSequence'', readField (decodeNilSequence jx) aevMessageSequence
        (\<lambda>x s. s\<lparr>aevMessageSequence := x\<rparr>)),
      (''planBaseRevision'', readReset (decodeOptNilInt64 jx) OptUnset (\<lambda>x s. s\<lparr>aevPlanBaseRevision := x\<rparr>)),
      (''planRevision'', readReset (decodeOptNilInt64 jx) OptUnset (\<lambda>x s. s\<lparr>aevPlanRevision := x\<rparr>)),
      (''planTaskIndex'', readReset (decodeOptNilInt jx) OptUnset (\<lambda>x s. s\<lparr>aevPlanTaskIndex := x\<rparr>)),
      (''planTaskStatus'', readReset (decodeOptNilTaskStatus jx) OptUnset (\<lambda>x s. s\<lparr>aevPlanTaskStatus := x\<rparr>)),
      (''inputConsumption'', readField (decodeNilInputConsumption jx) aevInputConsumption
        (\<lambda>x s. s\<lparr>aevInputConsumption := x\<rparr>)),
      (''attempt'', readReset (decodeOptNilInt32 jx) OptUnset (\<lambda>x s. s\<lparr>aevAttempt := x\<rparr>))]"

lemmas [wire] =
  decodeNilInputConsumption_def encodeNilInputConsumption_def decodeOptNilInt32_def

definition exactAgentEvent :: "apiEvent \<Rightarrow> bool" where
  "exactAgentEvent s \<longleftrightarrow> whenGiven int64Range (aevMessageSequence s) \<and> whenValue int64Range
    (aevPlanBaseRevision s) \<and> whenValue int64Range (aevPlanRevision s) \<and> whenValue int64Range
    (aevPlanTaskIndex s) \<and> whenGiven exactInputConsumption (aevInputConsumption s) \<and> whenValue int32Range
    (aevAttempt s)"

lemma AgentEvent_object [simp]: "encodeAgentEvent jx s \<noteq> JNull" by (simp add: encodeAgentEvent_def)

lemma AgentEvent_carried [wire]:
  assumes "jxLaws jx" and "exactAgentEvent s"
  shows "decodeAgentEvent jx (encodeAgentEvent jx s) zeroAgentEvent = Inr s"
  using assms by (cases s)
    (simp_all add: wire wire_object encodeAgentEvent_def decodeAgentEvent_def zeroAgentEvent_def
    exactAgentEvent_def)

definition zeroActivityStreamEvent :: apiActivityEvent where
  "zeroActivityStreamEvent = \<lparr>aaeKind = [], aaeValue = zeroAgentEvent, aaeResumeToken = [], aaeCreatedAt = 0,
    aaeSource = []\<rparr>"

definition encodeActivityStreamEvent :: "jxLibrary \<Rightarrow> apiActivityEvent \<Rightarrow> json" where
  "encodeActivityStreamEvent jx s = JObj (
     writeField ''kind'' (encodeActivityStreamEventKind (aaeKind s)) @
     writeField ''value'' (encodeAgentEvent jx (aaeValue s)) @
     writeField ''resumeToken'' (encodeResumeToken (aaeResumeToken s)) @
     writeField ''createdAt'' (writeTime jx (aaeCreatedAt s)) @
     writeField ''source'' (JStr (aaeSource s)))"

definition decodeActivityStreamEvent :: "jxLibrary \<Rightarrow> apiActivityEvent decoder" where
  "decodeActivityStreamEvent jx = readObject ''ActivityStreamEvent'' [''kind'', ''value'', ''resumeToken'',
    ''createdAt'', ''source'']
     [(''kind'', readField decodeActivityStreamEventKind aaeKind (\<lambda>x s. s\<lparr>aaeKind := x\<rparr>)),
      (''value'', readField (decodeAgentEvent jx) aaeValue (\<lambda>x s. s\<lparr>aaeValue := x\<rparr>)),
      (''resumeToken'', readField decodeResumeToken aaeResumeToken (\<lambda>x s. s\<lparr>aaeResumeToken := x\<rparr>)),
      (''createdAt'', readField (readTime jx) aaeCreatedAt (\<lambda>x s. s\<lparr>aaeCreatedAt := x\<rparr>)),
      (''source'', readField readStr aaeSource (\<lambda>x s. s\<lparr>aaeSource := x\<rparr>))]"

definition exactActivityStreamEvent :: "apiActivityEvent \<Rightarrow> bool" where
  "exactActivityStreamEvent s \<longleftrightarrow> exactAgentEvent (aaeValue s) \<and> sendableTime (aaeCreatedAt s)"

lemma ActivityStreamEvent_object [simp]: "encodeActivityStreamEvent jx s \<noteq> JNull" by
  (simp add: encodeActivityStreamEvent_def)

lemma ActivityStreamEvent_carried [wire]:
  assumes "jxLaws jx" and "exactActivityStreamEvent s"
  shows "decodeActivityStreamEvent jx (encodeActivityStreamEvent jx s) zeroActivityStreamEvent = Inr s"
  using assms by (cases s)
    (simp_all add: wire wire_object encodeActivityStreamEvent_def decodeActivityStreamEvent_def
    zeroActivityStreamEvent_def exactActivityStreamEvent_def)

section \<open>The sum of the three events\<close>

text \<open>
  The sum writes the kind of its variant as a constant. Reading looks for the first field
  \<^verbatim>\<open>kind\<close>, and then reads the whole object as the variant it names, into a fresh value as in
  every caller.
\<close>

fun encodeStreamEvent :: "jxLibrary \<Rightarrow> apiStreamEvent \<Rightarrow> json" where
  "encodeStreamEvent jx (ReasoningStreamEvent s) = JObj (
     writeField ''kind'' (JStr ''reasoning_summary'') @
     writeField ''value'' (JStr (ateValue s)) @
     writeField ''resumeToken'' (encodeResumeToken (ateResumeToken s)) @
     writeField ''createdAt'' (writeTime jx (ateCreatedAt s)) @
     writeField ''source'' (JStr (ateSource s)))"
| "encodeStreamEvent jx (AssistantStreamEvent s) = JObj (
     writeField ''kind'' (JStr ''assistant_text'') @
     writeField ''value'' (JStr (ateValue s)) @
     writeField ''resumeToken'' (encodeResumeToken (ateResumeToken s)) @
     writeField ''createdAt'' (writeTime jx (ateCreatedAt s)) @
     writeField ''source'' (JStr (ateSource s)))"
| "encodeStreamEvent jx (ActivityStreamEvent s) = JObj (
     writeField ''kind'' (JStr ''activity'') @
     writeField ''value'' (encodeAgentEvent jx (aaeValue s)) @
     writeField ''resumeToken'' (encodeResumeToken (aaeResumeToken s)) @
     writeField ''createdAt'' (writeTime jx (aaeCreatedAt s)) @
     writeField ''source'' (JStr (aaeSource s)))"

fun detectVariant :: "(string \<times> json) list \<Rightarrow> string result" where
  "detectVariant [] = Inl (New ''unable to detect sum type variant'')"
| "detectVariant ((k, j) # rest) =
     (if k = ''kind''
      then (case j of
              JStr typ \<Rightarrow>
                if typ \<in> set [''reasoning_summary'', ''assistant_text'', ''activity''] then Inr typ
                else Inl (wrapError ''capture'' (Errorf ''unknown type %s'' [ArgStr typ]))
            | _ \<Rightarrow> Inl (wrapError ''capture'' unexpectedType))
      else detectVariant rest)"

definition decodeStreamEvent :: "jxLibrary \<Rightarrow> apiStreamEvent decoder" where
  "decodeStreamEvent jx j old =
     (case j of
        JObj entries \<Rightarrow>
          (case detectVariant entries of
             Inl e \<Rightarrow> Inl e
           | Inr typ \<Rightarrow>
               if typ = ''reasoning_summary''
               then onResult ReasoningStreamEvent (decodeReasoningStreamEvent jx j zeroReasoningStreamEvent)
               else if typ = ''assistant_text''
               then onResult AssistantStreamEvent (decodeAssistantStreamEvent jx j zeroReasoningStreamEvent)
               else onResult ActivityStreamEvent (decodeActivityStreamEvent jx j zeroActivityStreamEvent))
      | _ \<Rightarrow> Inl (Errorf ''unexpected json type %q'' []))"

definition encodeRecentEvents :: "jxLibrary \<Rightarrow> apiStreamEvent list \<Rightarrow> json" where
  "encodeRecentEvents jx s = JObj (
     writeField ''events'' (writeArray (encodeStreamEvent jx) s))"

definition decodeRecentEvents :: "jxLibrary \<Rightarrow> apiStreamEvent list decoder" where
  "decodeRecentEvents jx = readObject ''RecentEvents'' [''events'']
     [(''events'', readField (readArray (decodeStreamEvent jx) (ReasoningStreamEvent zeroReasoningStreamEvent))
        (\<lambda>s. s) (\<lambda>x s. x))]"

text \<open>An event is carried exactly when its own kind is the one its variant stands for, as the handler sets it.\<close>

fun exactStreamEvent :: "apiStreamEvent \<Rightarrow> bool" where
  "exactStreamEvent (ReasoningStreamEvent s) \<longleftrightarrow> exactReasoningStreamEvent s \<and> ateKind s = ''reasoning_summary''"
| "exactStreamEvent (AssistantStreamEvent s) \<longleftrightarrow> exactAssistantStreamEvent s \<and> ateKind s = ''assistant_text''"
| "exactStreamEvent (ActivityStreamEvent s) \<longleftrightarrow> exactActivityStreamEvent s \<and> aaeKind s = ''activity''"

lemma StreamEvent_carried [wire]:
  assumes "jxLaws jx" and "exactStreamEvent s"
  shows "decodeStreamEvent jx (encodeStreamEvent jx s) old = Inr s"
proof (cases s)
  case (ReasoningStreamEvent t)
  with assms show ?thesis
    by (cases t) (simp add: wire wire_object decodeStreamEvent_def decodeReasoningStreamEvent_def
      zeroReasoningStreamEvent_def exactReasoningStreamEvent_def)
next
  case (AssistantStreamEvent t)
  with assms show ?thesis
    by (cases t) (simp add: wire wire_object decodeStreamEvent_def decodeAssistantStreamEvent_def
      zeroReasoningStreamEvent_def exactAssistantStreamEvent_def)
next
  case (ActivityStreamEvent t)
  with assms show ?thesis
    by (cases t) (simp add: wire wire_object decodeStreamEvent_def decodeActivityStreamEvent_def
      zeroActivityStreamEvent_def exactActivityStreamEvent_def)
qed

lemma RecentEvents_carried:
  assumes "jxLaws jx" and "list_all exactStreamEvent s"
  shows "decodeRecentEvents jx (encodeRecentEvents jx s) [] = Inr s"
  using assms read_array [OF assms(2), of "decodeStreamEvent jx" "encodeStreamEvent jx"] StreamEvent_carried
  by (simp add: wire_object encodeRecentEvents_def decodeRecentEvents_def)

end
