(* ===== verification/WireRequests.thy ===== *)
theory WireRequests
  imports WireEvents Handler
begin

text \<open>
  The JSON of requests and of the small responses (\<^verbatim>\<open>oas_json_gen.go\<close>, \<^verbatim>\<open>oas_defaults_gen.go\<close>),
  the decoding of request bodies (\<^verbatim>\<open>oas_request_decoders_gen.go\<close>), and the commands of the API as they
  are posted: body, decoding, contract, handler.
\<close>

section \<open>Requests\<close>

definition encodeFlowID :: "string \<Rightarrow> json" where "encodeFlowID = JStr"

definition decodeFlowID :: "string decoder" where "decodeFlowID = readAlias readStr"

definition encodeProvider :: "string \<Rightarrow> json" where "encodeProvider = JStr"

definition decodeApiProvider :: "string decoder" where "decodeApiProvider = readStr"

definition decodeOptNilString :: "jxLibrary \<Rightarrow> (string optNil) decoder" where
  "decodeOptNilString jx = readOptNil readStr []"

definition decodeOptFloat64 :: "jxLibrary \<Rightarrow> (float64 option) decoder" where
  "decodeOptFloat64 jx = readOpt (readFloat jx) floatZero"

definition decodeOptInt :: "jxLibrary \<Rightarrow> (int option) decoder" where
  "decodeOptInt jx = readOpt (readInt jx) 0"

definition zeroStartAgentRequest :: startAgentRequest where
  "zeroStartAgentRequest = \<lparr>sarFlowId = [], sarProvider = [], sarModel = [], sarSystemPrompt = [],
    sarCompactionModel = OptUnset, sarMaxContextTokens = 0, sarTriggerFraction = None, sarKeepFraction = None,
    sarMessageRetentionLimit = 0, sarMaxParallelToolCalls = None, sarMcpEnabled = False, sarEnabledMcpServers =
    [], sarEnabledTools = []\<rparr>"

definition encodeStartAgentRequest :: "jxLibrary \<Rightarrow> startAgentRequest \<Rightarrow> json" where
  "encodeStartAgentRequest jx s = JObj (
     writeField ''flowId'' (encodeFlowID (sarFlowId s)) @
     writeField ''provider'' (encodeProvider (sarProvider s)) @
     writeField ''model'' (JStr (sarModel s)) @
     writeField ''systemPrompt'' (JStr (sarSystemPrompt s)) @
     writeOptNilField ''compactionModel'' JStr (sarCompactionModel s) @
     writeField ''maxContextTokens'' (writeInt jx (sarMaxContextTokens s)) @
     writeOptField ''compactionTriggerFraction'' (writeFloat jx) (sarTriggerFraction s) @
     writeOptField ''compactionKeepFraction'' (writeFloat jx) (sarKeepFraction s) @
     writeField ''messageRetentionLimit'' (writeInt jx (sarMessageRetentionLimit s)) @
     writeOptField ''maxParallelToolCalls'' (writeInt jx) (sarMaxParallelToolCalls s) @
     writeField ''mcpEnabled'' (JBool (sarMcpEnabled s)) @
     writeField ''enabledMcpServers'' (writeArray JStr (sarEnabledMcpServers s)) @
     writeField ''enabledTools'' (writeArray encodeToolName (sarEnabledTools s)))"

text \<open>\<^verbatim>\<open>setDefaults\<close> fills the optional settings before a request is decoded.\<close>

definition setDefaults :: "startAgentRequest \<Rightarrow> startAgentRequest" where
  "setDefaults s = s\<lparr>sarTriggerFraction := Some float085, sarKeepFraction := Some float010,
     sarMaxParallelToolCalls := Some 4\<rparr>"

definition decodeStartAgentRequest :: "jxLibrary \<Rightarrow> startAgentRequest decoder" where
  "decodeStartAgentRequest jx j old = readObject ''StartAgentRequest''
     [''flowId'', ''provider'', ''model'', ''systemPrompt'', ''maxContextTokens'',
      ''messageRetentionLimit'', ''mcpEnabled'', ''enabledMcpServers'', ''enabledTools'']
     [(''flowId'', readField decodeFlowID sarFlowId (\<lambda>x s. s\<lparr>sarFlowId := x\<rparr>)),
      (''provider'', readField decodeApiProvider sarProvider (\<lambda>x s. s\<lparr>sarProvider := x\<rparr>)),
      (''model'', readField readStr sarModel (\<lambda>x s. s\<lparr>sarModel := x\<rparr>)),
      (''systemPrompt'', readField readStr sarSystemPrompt (\<lambda>x s. s\<lparr>sarSystemPrompt := x\<rparr>)),
      (''compactionModel'', readReset (decodeOptNilString jx) OptUnset (\<lambda>x s. s\<lparr>sarCompactionModel := x\<rparr>)),
      (''maxContextTokens'', readField (readInt jx) sarMaxContextTokens (\<lambda>x s. s\<lparr>sarMaxContextTokens := x\<rparr>)),
      (''compactionTriggerFraction'', readReset (decodeOptFloat64 jx) None (\<lambda>x s. s\<lparr>sarTriggerFraction := x\<rparr>)),
      (''compactionKeepFraction'', readReset (decodeOptFloat64 jx) None (\<lambda>x s. s\<lparr>sarKeepFraction := x\<rparr>)),
      (''messageRetentionLimit'', readField (readInt jx) sarMessageRetentionLimit
        (\<lambda>x s. s\<lparr>sarMessageRetentionLimit := x\<rparr>)),
      (''maxParallelToolCalls'', readReset (decodeOptInt jx) None (\<lambda>x s. s\<lparr>sarMaxParallelToolCalls := x\<rparr>)),
      (''mcpEnabled'', readField readBool sarMcpEnabled (\<lambda>x s. s\<lparr>sarMcpEnabled := x\<rparr>)),
      (''enabledMcpServers'', readField (readArray readStr []) sarEnabledMcpServers
        (\<lambda>x s. s\<lparr>sarEnabledMcpServers := x\<rparr>)),
      (''enabledTools'', readField (readArray decodeToolName []) sarEnabledTools
        (\<lambda>x s. s\<lparr>sarEnabledTools := x\<rparr>))] j (setDefaults old)"

definition zeroSendMessageRequest :: sendMessageRequest where
  "zeroSendMessageRequest = \<lparr>smrFlowId = [], smrContent = [], smrPlanMode = False\<rparr>"

definition encodeSendMessageRequest :: "jxLibrary \<Rightarrow> sendMessageRequest \<Rightarrow> json" where
  "encodeSendMessageRequest jx s = JObj (
     writeField ''flowId'' (encodeFlowID (smrFlowId s)) @
     writeField ''content'' (JStr (smrContent s)) @
     writeField ''planMode'' (JBool (smrPlanMode s)))"

definition decodeSendMessageRequest :: "jxLibrary \<Rightarrow> sendMessageRequest decoder" where
  "decodeSendMessageRequest jx = readObject ''SendMessageRequest'' [''flowId'', ''content'', ''planMode'']
     [(''flowId'', readField decodeFlowID smrFlowId (\<lambda>x s. s\<lparr>smrFlowId := x\<rparr>)),
      (''content'', readField readStr smrContent (\<lambda>x s. s\<lparr>smrContent := x\<rparr>)),
      (''planMode'', readField readBool smrPlanMode (\<lambda>x s. s\<lparr>smrPlanMode := x\<rparr>))]"

definition encodeUserInputAnswer :: "jxLibrary \<Rightarrow> (string \<times> string) \<Rightarrow> json" where
  "encodeUserInputAnswer jx s = JObj (
     writeField ''questionId'' (JStr (fst s)) @
     writeField ''answer'' (JStr (snd s)))"

definition decodeUserInputAnswer :: "jxLibrary \<Rightarrow> (string \<times> string) decoder" where
  "decodeUserInputAnswer jx = readObject ''UserInputAnswer'' [''questionId'', ''answer'']
     [(''questionId'', readField readStr fst (\<lambda>x s. (x, snd s))),
      (''answer'', readField readStr snd (\<lambda>x s. (fst s, x)))]"

definition zeroAnswerQuestionsRequest :: apiAnswersRequest where
  "zeroAnswerQuestionsRequest = \<lparr>aarFlowId = [], aarCallId = [], aarAnswers = []\<rparr>"

definition encodeAnswerQuestionsRequest :: "jxLibrary \<Rightarrow> apiAnswersRequest \<Rightarrow> json" where
  "encodeAnswerQuestionsRequest jx s = JObj (
     writeField ''flowId'' (encodeFlowID (aarFlowId s)) @
     writeField ''callId'' (encodeCallID (aarCallId s)) @
     writeField ''answers'' (writeArray (encodeUserInputAnswer jx) (aarAnswers s)))"

definition decodeAnswerQuestionsRequest :: "jxLibrary \<Rightarrow> apiAnswersRequest decoder" where
  "decodeAnswerQuestionsRequest jx = readObject ''AnswerQuestionsRequest'' [''flowId'', ''callId'', ''answers'']
     [(''flowId'', readField decodeFlowID aarFlowId (\<lambda>x s. s\<lparr>aarFlowId := x\<rparr>)),
      (''callId'', readField decodeCallID aarCallId (\<lambda>x s. s\<lparr>aarCallId := x\<rparr>)),
      (''answers'', readField (readArray (decodeUserInputAnswer jx) ([], [])) aarAnswers
        (\<lambda>x s. s\<lparr>aarAnswers := x\<rparr>))]"

definition encodeQueueMutationRequest :: "jxLibrary \<Rightarrow> (string \<times> string) \<Rightarrow> json" where
  "encodeQueueMutationRequest jx s = JObj (
     writeField ''flowId'' (encodeFlowID (fst s)) @
     writeField ''messageId'' (encodeMessageID (snd s)))"

definition decodeQueueMutationRequest :: "jxLibrary \<Rightarrow> (string \<times> string) decoder" where
  "decodeQueueMutationRequest jx = readObject ''QueueMutationRequest'' [''flowId'', ''messageId'']
     [(''flowId'', readField decodeFlowID fst (\<lambda>x s. (x, snd s))),
      (''messageId'', readField decodeMessageID snd (\<lambda>x s. (fst s, x)))]"

definition encodeExecutePlanRequest :: "jxLibrary \<Rightarrow> (string \<times> int) \<Rightarrow> json" where
  "encodeExecutePlanRequest jx s = JObj (
     writeField ''flowId'' (encodeFlowID (fst s)) @
     writeField ''revision'' (writeInt jx (snd s)))"

definition decodeExecutePlanRequest :: "jxLibrary \<Rightarrow> (string \<times> int) decoder" where
  "decodeExecutePlanRequest jx = readObject ''ExecutePlanRequest'' [''flowId'', ''revision'']
     [(''flowId'', readField decodeFlowID fst (\<lambda>x s. (x, snd s))),
      (''revision'', readField (readInt64 jx) snd (\<lambda>x s. (fst s, x)))]"

definition encodeToolApprovalRequest :: "jxLibrary \<Rightarrow> (string \<times> string \<times> bool) \<Rightarrow> json" where
  "encodeToolApprovalRequest jx s = JObj (
     writeField ''flowId'' (encodeFlowID (fst s)) @
     writeField ''callId'' (encodeCallID (fst (snd s))) @
     writeField ''approved'' (JBool (snd (snd s))))"

definition decodeToolApprovalRequest :: "jxLibrary \<Rightarrow> (string \<times> string \<times> bool) decoder" where
  "decodeToolApprovalRequest jx = readObject ''ToolApprovalRequest'' [''flowId'', ''callId'', ''approved'']
     [(''flowId'', readField decodeFlowID fst (\<lambda>x s. (x, snd s))),
      (''callId'', readField decodeCallID (\<lambda>s. fst (snd s)) (\<lambda>x s. (fst s, x, snd (snd s)))),
      (''approved'', readField readBool (\<lambda>s. snd (snd s)) (\<lambda>x s. (fst s, fst (snd s), x)))]"

definition encodeToolRecoveryResolution :: "string \<Rightarrow> json" where "encodeToolRecoveryResolution = JStr"

definition decodeToolRecoveryResolution :: "string decoder" where "decodeToolRecoveryResolution = readStr"

definition encodeToolRecoveryAction :: "string \<Rightarrow> json" where "encodeToolRecoveryAction = JStr"

definition decodeToolRecoveryAction :: "string decoder" where "decodeToolRecoveryAction = readStr"

definition encodeToolRecoveryDecision :: "jxLibrary \<Rightarrow> (string \<times> string) \<Rightarrow> json" where
  "encodeToolRecoveryDecision jx s = JObj (
     writeField ''callId'' (encodeCallID (fst s)) @
     writeField ''action'' (encodeToolRecoveryAction (snd s)))"

definition decodeToolRecoveryDecision :: "jxLibrary \<Rightarrow> (string \<times> string) decoder" where
  "decodeToolRecoveryDecision jx = readObject ''ToolRecoveryDecision'' [''callId'', ''action'']
     [(''callId'', readField decodeCallID fst (\<lambda>x s. (x, snd s))),
      (''action'', readField decodeToolRecoveryAction snd (\<lambda>x s. (fst s, x)))]"

definition zeroResolveToolRecoveryRequest :: apiRecoveryRequest where
  "zeroResolveToolRecoveryRequest = \<lparr>arrFlowId = [], arrRecoveryId = [], arrResolution = [], arrDecisions = []\<rparr>"

definition encodeResolveToolRecoveryRequest :: "jxLibrary \<Rightarrow> apiRecoveryRequest \<Rightarrow> json" where
  "encodeResolveToolRecoveryRequest jx s = JObj (
     writeField ''flowId'' (encodeFlowID (arrFlowId s)) @
     writeField ''recoveryId'' (JStr (arrRecoveryId s)) @
     writeField ''resolution'' (encodeToolRecoveryResolution (arrResolution s)) @
     writeField ''decisions'' (writeArray (encodeToolRecoveryDecision jx) (arrDecisions s)))"

definition decodeResolveToolRecoveryRequest :: "jxLibrary \<Rightarrow> apiRecoveryRequest decoder" where
  "decodeResolveToolRecoveryRequest jx = readObject ''ResolveToolRecoveryRequest'' [''flowId'', ''recoveryId'',
    ''resolution'', ''decisions'']
     [(''flowId'', readField decodeFlowID arrFlowId (\<lambda>x s. s\<lparr>arrFlowId := x\<rparr>)),
      (''recoveryId'', readField readStr arrRecoveryId (\<lambda>x s. s\<lparr>arrRecoveryId := x\<rparr>)),
      (''resolution'', readField decodeToolRecoveryResolution arrResolution (\<lambda>x s. s\<lparr>arrResolution := x\<rparr>)),
      (''decisions'', readField (readArray (decodeToolRecoveryDecision jx) ([], [])) arrDecisions
        (\<lambda>x s. s\<lparr>arrDecisions := x\<rparr>))]"

section \<open>Responses\<close>

text \<open>A problem of the handler has the type \<^verbatim>\<open>about:blank\<close> and no instance.\<close>

definition encodeProblem :: "jxLibrary \<Rightarrow> problem \<Rightarrow> json" where
  "encodeProblem jx s = JObj (
     writeField ''type'' (JStr ''about:blank'') @
     writeField ''title'' (JStr (prTitle s)) @
     writeField ''status'' (writeInt jx (prStatus s)) @
     writeField ''detail'' (JStr (prDetail s)))"

definition encodeAcceptedAccepted :: "bool \<Rightarrow> json" where "encodeAcceptedAccepted = JBool"

definition decodeAcceptedAccepted :: "bool decoder" where "decodeAcceptedAccepted = readBool"

definition encodeAccepted :: "jxLibrary \<Rightarrow> bool \<Rightarrow> json" where
  "encodeAccepted jx s = JObj (
     writeField ''accepted'' (encodeAcceptedAccepted s))"

definition decodeAccepted :: "jxLibrary \<Rightarrow> bool decoder" where
  "decodeAccepted jx = readObject ''Accepted'' [''accepted'']
     [(''accepted'', readField decodeAcceptedAccepted (\<lambda>s. s) (\<lambda>x s. x))]"

definition encodeHealthStatus :: "string \<Rightarrow> json" where "encodeHealthStatus = JStr"

definition decodeHealthStatus :: "string decoder" where "decodeHealthStatus = readStr"

definition encodeHealth :: "jxLibrary \<Rightarrow> string \<Rightarrow> json" where
  "encodeHealth jx s = JObj (
     writeField ''status'' (encodeHealthStatus s))"

definition decodeHealth :: "jxLibrary \<Rightarrow> string decoder" where
  "decodeHealth jx = readObject ''Health'' [''status'']
     [(''status'', readField decodeHealthStatus (\<lambda>s. s) (\<lambda>x s. x))]"

definition encodePollTimeoutReason :: "string \<Rightarrow> json" where "encodePollTimeoutReason = JStr"

definition decodePollTimeoutReason :: "string decoder" where "decodePollTimeoutReason = readStr"

definition encodePollTimeout :: "jxLibrary \<Rightarrow> string \<Rightarrow> json" where
  "encodePollTimeout jx s = JObj (
     writeField ''reason'' (encodePollTimeoutReason s))"

definition decodePollTimeout :: "jxLibrary \<Rightarrow> string decoder" where
  "decodePollTimeout jx = readObject ''PollTimeout'' [''reason'']
     [(''reason'', readField decodePollTimeoutReason (\<lambda>s. s) (\<lambda>x s. x))]"

definition encodeStartAgentResponse :: "jxLibrary \<Rightarrow> string \<Rightarrow> json" where
  "encodeStartAgentResponse jx s = JObj (
     writeField ''flowId'' (encodeFlowID s))"

definition decodeStartAgentResponse :: "jxLibrary \<Rightarrow> string decoder" where
  "decodeStartAgentResponse jx = readObject ''StartAgentResponse'' [''flowId'']
     [(''flowId'', readField decodeFlowID (\<lambda>s. s) (\<lambda>x s. x))]"

definition encodeQueueAction :: "string \<Rightarrow> json" where "encodeQueueAction = JStr"

definition decodeQueueAction :: "string decoder" where "decodeQueueAction = readStr"

definition encodeQueueMutationResponse :: "jxLibrary \<Rightarrow> (string \<times> string) \<Rightarrow> json" where
  "encodeQueueMutationResponse jx s = JObj (
     writeField ''messageId'' (encodeMessageID (fst s)) @
     writeField ''action'' (encodeQueueAction (snd s)))"

definition decodeQueueMutationResponse :: "jxLibrary \<Rightarrow> (string \<times> string) decoder" where
  "decodeQueueMutationResponse jx = readObject ''QueueMutationResponse'' [''messageId'', ''action'']
     [(''messageId'', readField decodeMessageID fst (\<lambda>x s. (x, snd s))),
      (''action'', readField decodeQueueAction snd (\<lambda>x s. (fst s, x)))]"

definition encodeWaitingInputRoundState :: "jxLibrary \<Rightarrow> int \<Rightarrow> json" where
  "encodeWaitingInputRoundState jx s = JObj (
     writeField ''waitingInputRound'' (encodeWaitingInputRound jx s))"

definition decodeWaitingInputRoundState :: "jxLibrary \<Rightarrow> int decoder" where
  "decodeWaitingInputRoundState jx = readObject ''WaitingInputRoundState'' [''waitingInputRound'']
     [(''waitingInputRound'', readField (decodeWaitingInputRound jx) (\<lambda>s. s) (\<lambda>x s. x))]"

definition encodeNilString :: "jxLibrary \<Rightarrow> (string option) \<Rightarrow> json" where
  "encodeNilString jx = writeNil JStr"

definition decodeNilString :: "jxLibrary \<Rightarrow> (string option) decoder" where
  "decodeNilString jx = readNil readStr []"

definition zeroPortalProvider :: portalProvider where
  "zeroPortalProvider = \<lparr>ppID = [], ppLabel = [], ppModelPrefix = [], ppDefaultModel = [], ppCredentialVariable
    = Some [], ppConfigured = False\<rparr>"

definition encodePortalProvider :: "jxLibrary \<Rightarrow> portalProvider \<Rightarrow> json" where
  "encodePortalProvider jx s = JObj (
     writeField ''id'' (encodeProvider (ppID s)) @
     writeField ''label'' (JStr (ppLabel s)) @
     writeField ''modelPrefix'' (JStr (ppModelPrefix s)) @
     writeField ''defaultModel'' (JStr (ppDefaultModel s)) @
     writeField ''credentialEnvironmentVariable'' (encodeNilString jx (ppCredentialVariable s)) @
     writeField ''configured'' (JBool (ppConfigured s)))"

definition decodePortalProvider :: "jxLibrary \<Rightarrow> portalProvider decoder" where
  "decodePortalProvider jx = readObject ''PortalProvider''
     [''id'', ''label'', ''modelPrefix'', ''defaultModel'',
      ''credentialEnvironmentVariable'', ''configured'']
     [(''id'', readField decodeApiProvider ppID (\<lambda>x s. s\<lparr>ppID := x\<rparr>)),
      (''label'', readField readStr ppLabel (\<lambda>x s. s\<lparr>ppLabel := x\<rparr>)),
      (''modelPrefix'', readField readStr ppModelPrefix (\<lambda>x s. s\<lparr>ppModelPrefix := x\<rparr>)),
      (''defaultModel'', readField readStr ppDefaultModel (\<lambda>x s. s\<lparr>ppDefaultModel := x\<rparr>)),
      (''credentialEnvironmentVariable'', readField (decodeNilString jx) ppCredentialVariable
        (\<lambda>x s. s\<lparr>ppCredentialVariable := x\<rparr>)),
      (''configured'', readField readBool ppConfigured (\<lambda>x s. s\<lparr>ppConfigured := x\<rparr>))]"

definition zeroPortalTool :: portalTool where
  "zeroPortalTool = \<lparr>ptlName = [], ptlDescription = [], ptlRequiresApproval = False, ptlServer = Some []\<rparr>"

definition encodePortalTool :: "jxLibrary \<Rightarrow> portalTool \<Rightarrow> json" where
  "encodePortalTool jx s = JObj (
     writeField ''name'' (encodeToolName (ptlName s)) @
     writeField ''description'' (JStr (ptlDescription s)) @
     writeField ''requiresApproval'' (JBool (ptlRequiresApproval s)) @
     writeField ''server'' (encodeNilString jx (ptlServer s)))"

definition decodePortalTool :: "jxLibrary \<Rightarrow> portalTool decoder" where
  "decodePortalTool jx = readObject ''PortalTool'' [''name'', ''description'', ''requiresApproval'', ''server'']
     [(''name'', readField decodeToolName ptlName (\<lambda>x s. s\<lparr>ptlName := x\<rparr>)),
      (''description'', readField readStr ptlDescription (\<lambda>x s. s\<lparr>ptlDescription := x\<rparr>)),
      (''requiresApproval'', readField readBool ptlRequiresApproval (\<lambda>x s. s\<lparr>ptlRequiresApproval := x\<rparr>)),
      (''server'', readField (decodeNilString jx) ptlServer (\<lambda>x s. s\<lparr>ptlServer := x\<rparr>))]"

definition zeroPortal :: portal where
  "zeroPortal = \<lparr>poProviders = [], poMcpServers = [], poTools = [], poBuiltInTools = []\<rparr>"

definition encodePortal :: "jxLibrary \<Rightarrow> portal \<Rightarrow> json" where
  "encodePortal jx s = JObj (
     writeField ''providers'' (writeArray (encodePortalProvider jx) (poProviders s)) @
     writeField ''mcpServers'' (writeArray JStr (poMcpServers s)) @
     writeField ''tools'' (writeArray (encodePortalTool jx) (poTools s)) @
     writeField ''builtInTools'' (writeArray encodeToolName (poBuiltInTools s)))"

definition decodePortal :: "jxLibrary \<Rightarrow> portal decoder" where
  "decodePortal jx = readObject ''Portal'' [''providers'', ''mcpServers'', ''tools'', ''builtInTools'']
     [(''providers'', readField (readArray (decodePortalProvider jx) zeroPortalProvider) poProviders
       (\<lambda>x s. s\<lparr>poProviders := x\<rparr>)),
      (''mcpServers'', readField (readArray readStr []) poMcpServers (\<lambda>x s. s\<lparr>poMcpServers := x\<rparr>)),
      (''tools'', readField (readArray (decodePortalTool jx) zeroPortalTool) poTools (\<lambda>x s. s\<lparr>poTools := x\<rparr>)),
      (''builtInTools'', readField (readArray decodeToolName []) poBuiltInTools
        (\<lambda>x s. s\<lparr>poBuiltInTools := x\<rparr>))]"

section \<open>Bodies of requests\<close>

text \<open>
  What the server reads from a request: the media type as the library parses it, the declared
  length, and the bytes or the error of reading them.
\<close>

record httpBody =
  bdMediaType :: "string result"
  bdLength :: int
  bdBytes :: "string result"

definition bodyRequired :: goError where "bodyRequired = External ''validate.ErrBodyRequired''"

definition readBody :: "jxLibrary \<Rightarrow> 'a decoder \<Rightarrow> 'a \<Rightarrow> ('a \<Rightarrow> fault list) \<Rightarrow> httpBody \<Rightarrow> 'a result" where
  "readBody jx decode zero faults body =
     (case bdMediaType body of
        Inl e \<Rightarrow> Inl (wrapError ''parse media type'' e)
      | Inr mediaType \<Rightarrow>
          if mediaType \<noteq> ''application/json'' then Inl (Errorf ''unexpected Content-Type: %s'' [ArgStr mediaType])
          else if bdLength body = 0 then Inl bodyRequired
          else
            (case bdBytes body of
               Inl e \<Rightarrow> Inl e
             | Inr bytes \<Rightarrow>
                 if bytes = [] then Inl bodyRequired
                 else
                   (case jxParse jx bytes of
                      Inl e \<Rightarrow> Inl (External ''*ogenerrors.DecodeBodyError'')
                    | Inr j \<Rightarrow>
                        (case decode j zero of
                           Inl e \<Rightarrow> Inl (External ''*ogenerrors.DecodeBodyError'')
                         | Inr request \<Rightarrow>
                             if faults request = [] then Inr request
                             else Inl (wrapError ''validate'' (External ''*validate.Error''))))))"

definition bodyOfStartAgent :: "jxLibrary \<Rightarrow> httpBody \<Rightarrow> startAgentRequest result" where
  "bodyOfStartAgent jx = readBody jx (decodeStartAgentRequest jx) zeroStartAgentRequest startAgentRequestFaults"

definition bodyOfSendMessage :: "jxLibrary \<Rightarrow> httpBody \<Rightarrow> sendMessageRequest result" where
  "bodyOfSendMessage jx = readBody jx (decodeSendMessageRequest jx) zeroSendMessageRequest sendMessageRequestFaults"

definition bodyOfAnswerQuestions :: "jxLibrary \<Rightarrow> httpBody \<Rightarrow> apiAnswersRequest result" where
  "bodyOfAnswerQuestions jx =
     readBody jx (decodeAnswerQuestionsRequest jx) zeroAnswerQuestionsRequest answerQuestionsRequestFaults"

definition bodyOfDeleteQueuedMessage :: "jxLibrary \<Rightarrow> httpBody \<Rightarrow> (string \<times> string) result" where
  "bodyOfDeleteQueuedMessage jx =
     readBody jx (decodeQueueMutationRequest jx) ([], []) (\<lambda>(flowID, messageID). queueMutationFaults flowID messageID)"

definition bodyOfSteerQueuedMessage :: "jxLibrary \<Rightarrow> httpBody \<Rightarrow> (string \<times> string) result" where
  "bodyOfSteerQueuedMessage jx =
     readBody jx (decodeQueueMutationRequest jx) ([], []) (\<lambda>(flowID, messageID). queueMutationFaults flowID messageID)"

definition bodyOfExecutePlan :: "jxLibrary \<Rightarrow> httpBody \<Rightarrow> (string \<times> int) result" where
  "bodyOfExecutePlan jx =
     readBody jx (decodeExecutePlanRequest jx) ([], 0) (\<lambda>(flowID, revision). executePlanRequestFaults flowID revision)"

definition bodyOfApproveTool :: "jxLibrary \<Rightarrow> httpBody \<Rightarrow> (string \<times> string \<times> bool) result" where
  "bodyOfApproveTool jx =
     readBody jx (decodeToolApprovalRequest jx) ([], [], False)
       (\<lambda>(flowID, callID, approved). toolApprovalRequestFaults flowID callID)"

definition bodyOfResolveToolRecovery :: "jxLibrary \<Rightarrow> httpBody \<Rightarrow> apiRecoveryRequest result" where
  "bodyOfResolveToolRecovery jx =
     readBody jx (decodeResolveToolRecoveryRequest jx) zeroResolveToolRecoveryRequest resolveToolRecoveryRequestFaults"

text \<open>A body that is accepted is JSON within the contract; the decoded value has no fault.\<close>

lemma readBody_Inr:
  "readBody jx decode zero faults body = Inr x \<longleftrightarrow>
     bdMediaType body = Inr ''application/json'' \<and> bdLength body \<noteq> 0 \<and>
     (\<exists>bytes j. bdBytes body = Inr bytes \<and> bytes \<noteq> [] \<and> jxParse jx bytes = Inr j \<and> decode j zero = Inr x \<and> faults x = [])"
  by (auto simp: readBody_def split: sum.splits)

lemma setDefaults_kept:
  assumes "decodeStartAgentRequest jx j old = Inr request"
  shows "sarTriggerFraction request \<noteq> None \<and> sarKeepFraction request \<noteq> None \<and> sarMaxParallelToolCalls request \<noteq> None"
  by (rule readObject_keeps [OF assms [unfolded decodeStartAgentRequest_def]])
    (auto simp: setDefaults_def readField_def readReset_def decodeOptFloat64_def decodeOptInt_def readOpt_def)

end
