(* ===== verification/WireRoundTrip.thy ===== *)
theory WireRoundTrip
  imports WireRequests
begin

text \<open>
  What the API and its clients write to each other is read back: the round trips of requests and of
  the portal, and the property over all bodies. The format of times has no fraction of a second, while
  the Flow stamps nanoseconds (\<^verbatim>\<open>time.Now\<close>), so what is read back has its times in whole seconds;
  and a request to start an Agent comes back with its defaults.
\<close>

lemmas request_wire = encodeFlowID_def decodeFlowID_def encodeProvider_def decodeApiProvider_def
  encodeToolRecoveryResolution_def decodeToolRecoveryResolution_def encodeToolRecoveryAction_def
  decodeToolRecoveryAction_def encodeNilString_def decodeNilString_def encodeQueueAction_def decodeQueueAction_def

lemma requests_carried:
  assumes "jxLaws jx"
  shows "decodeSendMessageRequest jx (encodeSendMessageRequest jx sent) zeroSendMessageRequest = Inr sent"
    and "decodeQueueMutationRequest jx (encodeQueueMutationRequest jx mutation) ([], []) = Inr mutation"
    and "decodeToolApprovalRequest jx (encodeToolApprovalRequest jx approval) ([], [], False) = Inr approval"
    and "int64Range (snd plan) \<Longrightarrow> decodeExecutePlanRequest jx (encodeExecutePlanRequest jx plan) ([], 0) = Inr plan"
  using assms
  by (cases sent; simp add: wire wire_object request_wire decodeSendMessageRequest_def encodeSendMessageRequest_def
      zeroSendMessageRequest_def decodeQueueMutationRequest_def encodeQueueMutationRequest_def
      decodeToolApprovalRequest_def encodeToolApprovalRequest_def decodeExecutePlanRequest_def
      encodeExecutePlanRequest_def)+

lemma pairs_carried [wire]:
  "decodeUserInputAnswer jx (encodeUserInputAnswer jx answer) ([], []) = Inr answer"
  "decodeToolRecoveryDecision jx (encodeToolRecoveryDecision jx decision) ([], []) = Inr decision"
  by (simp_all add: wire wire_object request_wire decodeUserInputAnswer_def encodeUserInputAnswer_def
      decodeToolRecoveryDecision_def encodeToolRecoveryDecision_def)

lemma answers_carried:
  "decodeAnswerQuestionsRequest jx (encodeAnswerQuestionsRequest jx answers) zeroAnswerQuestionsRequest = Inr answers"
  by (cases answers) (simp add: wire wire_object request_wire decodeAnswerQuestionsRequest_def
      encodeAnswerQuestionsRequest_def zeroAnswerQuestionsRequest_def)

lemma recovery_carried:
  "decodeResolveToolRecoveryRequest jx (encodeResolveToolRecoveryRequest jx recovery) zeroResolveToolRecoveryRequest =
     Inr recovery"
  by (cases recovery) (simp add: wire wire_object request_wire decodeResolveToolRecoveryRequest_def
      encodeResolveToolRecoveryRequest_def zeroResolveToolRecoveryRequest_def)

lemma portal_parts_carried [wire]:
  "decodePortalProvider jx (encodePortalProvider jx provider) zeroPortalProvider = Inr provider"
  "decodePortalTool jx (encodePortalTool jx tool) zeroPortalTool = Inr tool"
  by (cases provider, simp add: wire wire_object request_wire decodePortalProvider_def encodePortalProvider_def
      zeroPortalProvider_def)
    (cases tool, simp add: wire wire_object request_wire decodePortalTool_def encodePortalTool_def zeroPortalTool_def)

lemma portal_carried: "decodePortal jx (encodePortal jx portal) zeroPortal = Inr portal"
  by (cases portal) (simp add: wire wire_object request_wire decodePortal_def encodePortal_def zeroPortal_def)

section \<open>Starting an Agent\<close>

text \<open>The optional settings that a request to start an Agent leaves out.\<close>

definition withDefaults :: "startAgentRequest \<Rightarrow> startAgentRequest" where
  "withDefaults s = s\<lparr>sarTriggerFraction := Some (optionOr (sarTriggerFraction s) float085),
     sarKeepFraction := Some (optionOr (sarKeepFraction s) float010),
     sarMaxParallelToolCalls := Some (optionOr (sarMaxParallelToolCalls s) 4)\<rparr>"

text \<open>Its integers fit their width, and its fractions are numbers that the library reads as it wrote them.\<close>

definition exactStartAgentRequest :: "jxLibrary \<Rightarrow> startAgentRequest \<Rightarrow> bool" where
  "exactStartAgentRequest jx s \<longleftrightarrow> int64Range (sarMaxContextTokens s) \<and> int64Range (sarMessageRetentionLimit s) \<and>
     whenGiven int64Range (sarMaxParallelToolCalls s) \<and>
     whenGiven (\<lambda>x. jxFloat jx (jxFloatText jx x) = Inr x) (sarTriggerFraction s) \<and>
     whenGiven (\<lambda>x. jxFloat jx (jxFloatText jx x) = Inr x) (sarKeepFraction s)"

definition seenIf :: "string \<Rightarrow> 'a option \<Rightarrow> string list \<Rightarrow> string list" where
  "seenIf name v seen = (case v of None \<Rightarrow> seen | Some _ \<Rightarrow> name # seen)"

lemma seenIf_other [simp]: "n \<noteq> name \<Longrightarrow> n \<in> set (seenIf name v seen) \<longleftrightarrow> n \<in> set seen"
  by (cases v) (simp_all add: seenIf_def)

lemma read_opt_field:
  assumes "map_of table name = Some (readReset (readOpt decode zero) None put)"
    and "whenGiven (\<lambda>x. decode (encode x) zero = Inr x) v"
  shows "readFields table (writeOptField name encode v @ rest) seen s =
      readFields table rest (seenIf name v seen) (case v of None \<Rightarrow> s | Some x \<Rightarrow> put (Some x) s)"
  using assms
  by (cases v; simp add: writeOptField_def seenIf_def whenGiven_def readReset_def readOpt_def)

lemma start_carried:
  assumes "jxLaws jx" and "exactStartAgentRequest jx s"
  shows "decodeStartAgentRequest jx (encodeStartAgentRequest jx s) zeroStartAgentRequest = Inr (withDefaults s)"
proof -
  have floats: "whenGiven (\<lambda>x. readFloat jx (writeFloat jx x) floatZero = Inr x) (sarTriggerFraction s)"
    "whenGiven (\<lambda>x. readFloat jx (writeFloat jx x) floatZero = Inr x) (sarKeepFraction s)"
    using assms(2) by (simp_all add: exactStartAgentRequest_def readFloat_def writeFloat_def readNum_def)
  have calls: "whenGiven (\<lambda>x. readInt jx (writeInt jx x) 0 = Inr x) (sarMaxParallelToolCalls s)"
    using assms by (cases "sarMaxParallelToolCalls s") (simp_all add: exactStartAgentRequest_def whenGiven_def read_int)
  have ints: "int64Range (sarMaxContextTokens s)" "int64Range (sarMessageRetentionLimit s)"
    using assms(2) by (simp_all add: exactStartAgentRequest_def)
  have opts: "decodeOptFloat64 jx = readOpt (readFloat jx) floatZero" "decodeOptInt jx = readOpt (readInt jx) 0"
    "decodeOptNilString jx = readOptNil readStr []"
    by (simp_all add: fun_eq_iff decodeOptFloat64_def decodeOptInt_def decodeOptNilString_def)
  show ?thesis
    using floats calls ints assms(1)
    by (cases s; cases "sarTriggerFraction s"; cases "sarKeepFraction s"; cases "sarMaxParallelToolCalls s")
      (simp_all add: wire wire_object request_wire decodeStartAgentRequest_def encodeStartAgentRequest_def
        zeroStartAgentRequest_def opts read_opt_field setDefaults_def withDefaults_def optionOr_def)
qed

section \<open>Times in whole seconds\<close>

text \<open>What is left of a value when each of its times is cut to its second.\<close>

definition secondsOfMessage :: "apiMessage \<Rightarrow> apiMessage" where
  "secondsOfMessage s = s\<lparr>amsCreatedAt := wholeSeconds (amsCreatedAt s),
     amsStartedAt := map_optNil wholeSeconds (amsStartedAt s)\<rparr>"

definition secondsOfPage :: "apiHistoryPage \<Rightarrow> apiHistoryPage" where
  "secondsOfPage s = s\<lparr>ahpMessages := map (\<lambda>m. m\<lparr>asmMessage := secondsOfMessage (asmMessage m)\<rparr>) (ahpMessages s)\<rparr>"

definition secondsOfDescription :: "apiDescription \<Rightarrow> apiDescription" where
  "secondsOfDescription s = s\<lparr>
     adPendingApproval := map_option (\<lambda>p. p\<lparr>apaStartedAt := map_optNil wholeSeconds (apaStartedAt p)\<rparr>) (adPendingApproval s),
     adPendingToolRecovery := map_option (\<lambda>p. p\<lparr>aprStartedAt := map_optNil wholeSeconds (aprStartedAt p)\<rparr>) (adPendingToolRecovery s),
     adPendingTimer := map_option (\<lambda>p. p\<lparr>aptmStartedAt := map_optNil wholeSeconds (aptmStartedAt p)\<rparr>) (adPendingTimer s),
     adPendingUserInput := map_option (\<lambda>p. p\<lparr>apuStartedAt := map_optNil wholeSeconds (apuStartedAt p)\<rparr>) (adPendingUserInput s),
     adInactivityDeadline := map_option wholeSeconds (adInactivityDeadline s)\<rparr>"

definition secondsOfSnapshot :: "apiSnapshot \<Rightarrow> apiSnapshot" where
  "secondsOfSnapshot s = s\<lparr>asnHistory := secondsOfPage (asnHistory s),
     asnDescription := secondsOfDescription (asnDescription s)\<rparr>"

fun secondsOfEvent :: "apiStreamEvent \<Rightarrow> apiStreamEvent" where
  "secondsOfEvent (ReasoningStreamEvent s) = ReasoningStreamEvent (s\<lparr>ateCreatedAt := wholeSeconds (ateCreatedAt s)\<rparr>)"
| "secondsOfEvent (AssistantStreamEvent s) = AssistantStreamEvent (s\<lparr>ateCreatedAt := wholeSeconds (ateCreatedAt s)\<rparr>)"
| "secondsOfEvent (ActivityStreamEvent s) = ActivityStreamEvent (s\<lparr>aaeCreatedAt := wholeSeconds (aaeCreatedAt s)\<rparr>)"

text \<open>What is written does not show the difference.\<close>

lemma written_time:
  assumes "jxLaws jx"
  shows "writeTime jx (wholeSeconds t) = writeTime jx t"
    and "writeOptNilField name (writeTime jx) (map_optNil wholeSeconds v) = writeOptNilField name (writeTime jx) v"
    and "writeNil (writeTime jx) (map_option wholeSeconds w) = writeNil (writeTime jx) w"
  using assms by (cases v; cases w; simp add: jxLaws_def writeTime_def writeOptNilField_def writeNil_def)+

lemma written_map: "(\<And>x. encode (f x) = encode x) \<Longrightarrow> writeNil encode (map_option f v) = writeNil encode v"
  "(\<And>x. encode (f x) = encode x) \<Longrightarrow> writeArray encode (map f xs) = writeArray encode xs"
  by (cases v) (simp_all add: writeNil_def writeArray_def comp_def)

lemma written_seconds:
  assumes "jxLaws jx"
  shows "encodeHistoryPage jx (secondsOfPage page) = encodeHistoryPage jx page"
    and "encodeAgentSnapshot jx (secondsOfSnapshot snapshot) = encodeAgentSnapshot jx snapshot"
    and "encodeRecentEvents jx (map secondsOfEvent events) = encodeRecentEvents jx events"
proof -
  have message: "encodeAgentMessage jx (secondsOfMessage m) = encodeAgentMessage jx m" for m
    by (simp add: encodeAgentMessage_def secondsOfMessage_def written_time [OF assms])
  have sequenced: "encodeSequencedMessage jx (m\<lparr>asmMessage := secondsOfMessage (asmMessage m)\<rparr>) = encodeSequencedMessage jx m" for m
    by (simp add: encodeSequencedMessage_def message)
  show page: "encodeHistoryPage jx (secondsOfPage page) = encodeHistoryPage jx page" for page
    by (simp add: encodeHistoryPage_def secondsOfPage_def written_map(2) sequenced)
  have parts: "encodePendingApproval jx (a\<lparr>apaStartedAt := map_optNil wholeSeconds (apaStartedAt a)\<rparr>) = encodePendingApproval jx a"
    "encodePendingToolRecovery jx (r\<lparr>aprStartedAt := map_optNil wholeSeconds (aprStartedAt r)\<rparr>) = encodePendingToolRecovery jx r"
    "encodePendingTimer jx (t\<lparr>aptmStartedAt := map_optNil wholeSeconds (aptmStartedAt t)\<rparr>) = encodePendingTimer jx t"
    "encodePendingUserInput jx (u\<lparr>apuStartedAt := map_optNil wholeSeconds (apuStartedAt u)\<rparr>) = encodePendingUserInput jx u"
    for a r t u
    by (simp_all add: encodePendingApproval_def encodePendingToolRecovery_def encodePendingTimer_def
      encodePendingUserInput_def written_time [OF assms])
  have "encodeAgentDescription jx (secondsOfDescription d) = encodeAgentDescription jx d" for d
    by (simp add: encodeAgentDescription_def secondsOfDescription_def encodeNilPendingApproval_def
      encodeNilPendingToolRecovery_def encodeNilPendingTimer_def encodeNilPendingUserInput_def encodeNilDateTime_def
      written_map(1) parts written_time [OF assms])
  with page show "encodeAgentSnapshot jx (secondsOfSnapshot snapshot) = encodeAgentSnapshot jx snapshot"
    by (simp add: encodeAgentSnapshot_def secondsOfSnapshot_def)
  have "encodeStreamEvent jx (secondsOfEvent e) = encodeStreamEvent jx e" for e
    by (cases e) (simp_all add: written_time [OF assms])
  then show "encodeRecentEvents jx (map secondsOfEvent events) = encodeRecentEvents jx events"
    by (simp add: encodeRecentEvents_def written_map(2))
qed

section \<open>Property\<close>

text \<open>
  C23. A body that one side writes is the value that the other reads. For every Snapshot, history page
  and list of events whose integers fit their width, whose times are of the years 1 to 9999 and whose
  events carry the kind of their variant, decoding the encoding returns the value with its times
  cut to whole seconds (the wire has no finer time, the Flow stamps nanoseconds): no field is lost,
  added, renamed or mixed up, and no other value changes. Every portal and every command comes back
  as it was, and a request to start an Agent with its missing settings filled by their defaults.
\<close>

theorem bodies_round_trip:
  assumes "jxLaws jx"
  shows "(exactAgentSnapshot (secondsOfSnapshot snapshot) \<longrightarrow>
       decodeAgentSnapshot jx (encodeAgentSnapshot jx snapshot) zeroAgentSnapshot = Inr (secondsOfSnapshot snapshot)) \<and>
    (exactHistoryPage (secondsOfPage page) \<longrightarrow>
       decodeHistoryPage jx (encodeHistoryPage jx page) zeroHistoryPage = Inr (secondsOfPage page)) \<and>
    (list_all exactStreamEvent (map secondsOfEvent events) \<longrightarrow>
       decodeRecentEvents jx (encodeRecentEvents jx events) [] = Inr (map secondsOfEvent events)) \<and>
    decodePortal jx (encodePortal jx portal) zeroPortal = Inr portal \<and>
    (exactStartAgentRequest jx start \<longrightarrow>
       decodeStartAgentRequest jx (encodeStartAgentRequest jx start) zeroStartAgentRequest = Inr (withDefaults start)) \<and>
    decodeSendMessageRequest jx (encodeSendMessageRequest jx sent) zeroSendMessageRequest = Inr sent \<and>
    decodeAnswerQuestionsRequest jx (encodeAnswerQuestionsRequest jx answers) zeroAnswerQuestionsRequest = Inr answers \<and>
    decodeQueueMutationRequest jx (encodeQueueMutationRequest jx mutation) ([], []) = Inr mutation \<and>
    decodeToolApprovalRequest jx (encodeToolApprovalRequest jx approval) ([], [], False) = Inr approval \<and>
    decodeResolveToolRecoveryRequest jx (encodeResolveToolRecoveryRequest jx recovery) zeroResolveToolRecoveryRequest =
      Inr recovery \<and>
    (int64Range (snd plan) \<longrightarrow> decodeExecutePlanRequest jx (encodeExecutePlanRequest jx plan) ([], 0) = Inr plan)"
proof -
  note carried = AgentSnapshot_carried [OF assms, of "secondsOfSnapshot snapshot", unfolded written_seconds [OF assms]]
    HistoryPage_carried [OF assms, of "secondsOfPage page", unfolded written_seconds [OF assms]]
    RecentEvents_carried [OF assms, of "map secondsOfEvent events", unfolded written_seconds [OF assms]]
  show ?thesis
    using carried portal_carried start_carried [OF assms] requests_carried [OF assms] answers_carried recovery_carried
    by blast
qed

definition examplePage :: apiHistoryPage where
  "examplePage = \<lparr>ahpMessages = [\<lparr>asmSequence = 1, asmMessage = \<lparr>amsRole = ''user'', amsContent = ''hello'', amsToolCalls = [],
     amsToolCallId = None, amsToolName = None, amsAnsweredInputCallId = OptNull, amsCreatedAt = 63900000000 * 10 ^ 9 + 123456789,
     amsStartedAt = OptUnset\<rparr>\<rparr>], ahpNextBeforeSequence = None\<rparr>"

definition exampleWireSnapshot :: apiSnapshot where
  "exampleWireSnapshot = zeroAgentSnapshot\<lparr>asnRunId := ''run-1'', asnHistory := examplePage\<rparr>"

definition exampleText :: apiTextEvent where
  "exampleText = \<lparr>ateKind = ''assistant_text'', ateValue = ''hello'', ateResumeToken = ''t'',
     ateCreatedAt = 63900000000 * 10 ^ 9, ateSource = ''model''\<rparr>"

definition exampleStart :: startAgentRequest where
  "exampleStart = zeroStartAgentRequest\<lparr>sarFlowId := ''agent-1'', sarProvider := ''openai'', sarModel := ''gpt'',
     sarMaxContextTokens := 100000\<rparr>"

lemma example_exact: "exactHistoryPage (secondsOfPage examplePage)" "exactAgentSnapshot (secondsOfSnapshot exampleWireSnapshot)"
  "list_all exactStreamEvent (map secondsOfEvent [AssistantStreamEvent exampleText])"
  "exactStartAgentRequest exampleJx exampleStart"
  by code_simp+

lemma example_second: "amsCreatedAt (asmMessage (hd (ahpMessages (secondsOfPage examplePage)))) = 63900000000 * 10 ^ 9"
  by code_simp

theorem bodies_round_trip_witness:
  "decodeAgentSnapshot exampleJx (encodeAgentSnapshot exampleJx exampleWireSnapshot) zeroAgentSnapshot =
     Inr (secondsOfSnapshot exampleWireSnapshot) \<and>
   decodeHistoryPage exampleJx (encodeHistoryPage exampleJx examplePage) zeroHistoryPage = Inr (secondsOfPage examplePage) \<and>
   decodeRecentEvents exampleJx (encodeRecentEvents exampleJx [AssistantStreamEvent exampleText]) [] =
     Inr (map secondsOfEvent [AssistantStreamEvent exampleText]) \<and>
   decodeStartAgentRequest exampleJx (encodeStartAgentRequest exampleJx exampleStart) zeroStartAgentRequest =
     Inr (withDefaults exampleStart) \<and>
   decodeExecutePlanRequest exampleJx (encodeExecutePlanRequest exampleJx (''agent-1'', 2)) ([], 0) = Inr (''agent-1'', 2)"
  using bodies_round_trip [OF exampleJx_laws(1), of exampleWireSnapshot examplePage "[AssistantStreamEvent exampleText]"
      _ exampleStart _ _ _ _ _ "(''agent-1'', 2)"] example_exact
  by (simp add: int64Range_def del: list.map)

end
