(* ===== verification/ToolContracts.thy ===== *)
theory ToolContracts
  imports Wire
begin

text \<open>
  The input contracts of the built-in tools: \<^verbatim>\<open>internal/toolcontract/contract.go\<close> and the types
  generated from its schemas under \<^verbatim>\<open>internal/toolcontract/generated\<close>. They are the decoders that
  the Flow is given in the program; here the Flow's environment is completed with them, and the
  contracts are compared with the schemas that the model provider is shown.
\<close>

section \<open>Generated inputs\<close>

definition encodeDurableWaitInput :: "jxLibrary \<Rightarrow> int \<times> string \<Rightarrow> json" where
  "encodeDurableWaitInput jx s = JObj (
     writeField ''duration_seconds'' (writeInt jx (fst s)) @
     writeField ''reason'' (JStr (snd s)))"

definition decodeDurableWaitInput :: "jxLibrary \<Rightarrow> (int \<times> string) decoder" where
  "decodeDurableWaitInput jx = readObject ''DurableWaitInput'' [''duration_seconds'', ''reason'']
     [(''duration_seconds'', readField (readInt jx) fst (\<lambda>x s. (x, snd s))),
      (''reason'', readField readStr snd (\<lambda>x s. (fst s, x)))]"

definition durableWaitInputFaults :: "int \<times> string \<Rightarrow> fault list" where
  "durableWaitInputFaults s = fieldFaults ''duration_seconds'' (intFaults 1 None (fst s))"

definition encodeTodoStatus :: "string \<Rightarrow> json" where "encodeTodoStatus = JStr"
definition decodeTodoStatus :: "string decoder" where "decodeTodoStatus = readStr"

definition todoStatusFaults :: "string \<Rightarrow> fault list" where
  "todoStatusFaults s = unless (s \<in> set [''pending'', ''in_progress'', ''completed''])"

definition encodeTodosItem :: "jxLibrary \<Rightarrow> string \<times> string \<Rightarrow> json" where
  "encodeTodosItem jx s = JObj (
     writeField ''content'' (JStr (fst s)) @
     writeField ''status'' (encodeTodoStatus (snd s)))"

definition decodeTodosItem :: "jxLibrary \<Rightarrow> (string \<times> string) decoder" where
  "decodeTodosItem jx = readObject ''WriteTodosInputTodosItem'' [''content'', ''status'']
     [(''content'', readField readStr fst (\<lambda>x s. (x, snd s))),
      (''status'', readField decodeTodoStatus snd (\<lambda>x s. (fst s, x)))]"

definition todosItemFaults :: "string \<times> string \<Rightarrow> fault list" where
  "todosItemFaults s =
     fieldFaults ''content'' (textFaults 1 None (fst s)) @ fieldFaults ''status'' (todoStatusFaults (snd s))"

definition encodeWriteTodosInput :: "jxLibrary \<Rightarrow> (string \<times> string) list \<Rightarrow> json" where
  "encodeWriteTodosInput jx s = JObj (
     writeField ''todos'' (writeArray (encodeTodosItem jx) s))"

definition decodeWriteTodosInput :: "jxLibrary \<Rightarrow> (string \<times> string) list decoder" where
  "decodeWriteTodosInput jx = readObject ''WriteTodosInput'' [''todos'']
     [(''todos'', readField (readArray (decodeTodosItem jx) ([], [])) (\<lambda>s. s) (\<lambda>x s. x))]"

definition writeTodosInputFaults :: "(string \<times> string) list \<Rightarrow> fault list" where
  "writeTodosInputFaults s = fieldFaults ''todos'' (listFaults 0 None todosItemFaults s)"

definition encodeOptionsItem :: "jxLibrary \<Rightarrow> userInputOption \<Rightarrow> json" where
  "encodeOptionsItem jx s = JObj (
     writeField ''label'' (JStr (uioLabel s)) @
     writeField ''description'' (JStr (uioDescription s)))"

definition zeroOptionsItem :: userInputOption where
  "zeroOptionsItem = \<lparr>uioLabel = [], uioDescription = []\<rparr>"

definition decodeOptionsItem :: "jxLibrary \<Rightarrow> userInputOption decoder" where
  "decodeOptionsItem jx = readObject ''RequestUserInputInputQuestionsItemOptionsItem'' [''label'', ''description'']
     [(''label'', readField readStr uioLabel (\<lambda>x s. s\<lparr>uioLabel := x\<rparr>)),
      (''description'', readField readStr uioDescription (\<lambda>x s. s\<lparr>uioDescription := x\<rparr>))]"

definition optionsItemFaults :: "userInputOption \<Rightarrow> fault list" where
  "optionsItemFaults s =
     fieldFaults ''label'' (textFaults 1 None (uioLabel s)) @
     fieldFaults ''description'' (textFaults 1 None (uioDescription s))"

definition encodeQuestionsItem :: "jxLibrary \<Rightarrow> userInputQuestion \<Rightarrow> json" where
  "encodeQuestionsItem jx s = JObj (
     writeField ''id'' (JStr (uiqID s)) @
     writeField ''header'' (JStr (uiqHeader s)) @
     writeField ''question'' (JStr (uiqQuestion s)) @
     writeField ''options'' (writeArray (encodeOptionsItem jx) (uiqOptions s)))"

definition zeroQuestionsItem :: userInputQuestion where
  "zeroQuestionsItem = \<lparr>uiqID = [], uiqHeader = [], uiqQuestion = [], uiqOptions = []\<rparr>"

definition decodeQuestionsItem :: "jxLibrary \<Rightarrow> userInputQuestion decoder" where
  "decodeQuestionsItem jx = readObject ''RequestUserInputInputQuestionsItem'' [''id'', ''header'', ''question'', ''options'']
     [(''id'', readField readStr uiqID (\<lambda>x s. s\<lparr>uiqID := x\<rparr>)),
      (''header'', readField readStr uiqHeader (\<lambda>x s. s\<lparr>uiqHeader := x\<rparr>)),
      (''question'', readField readStr uiqQuestion (\<lambda>x s. s\<lparr>uiqQuestion := x\<rparr>)),
      (''options'', readField (readArray (decodeOptionsItem jx) zeroOptionsItem) uiqOptions
         (\<lambda>x s. s\<lparr>uiqOptions := x\<rparr>))]"

definition questionsItemFaults :: "userInputQuestion \<Rightarrow> fault list" where
  "questionsItemFaults s =
     fieldFaults ''id'' (textFaults 1 None (uiqID s)) @
     fieldFaults ''header'' (textFaults 1 (Some 32) (uiqHeader s)) @
     fieldFaults ''question'' (textFaults 1 None (uiqQuestion s)) @
     fieldFaults ''options'' (listFaults 2 (Some 3) optionsItemFaults (uiqOptions s))"

definition encodeRequestUserInput :: "jxLibrary \<Rightarrow> userInputQuestion list \<Rightarrow> json" where
  "encodeRequestUserInput jx s = JObj (
     writeField ''questions'' (writeArray (encodeQuestionsItem jx) s))"

definition decodeRequestUserInput :: "jxLibrary \<Rightarrow> userInputQuestion list decoder" where
  "decodeRequestUserInput jx = readObject ''RequestUserInputInput'' [''questions'']
     [(''questions'', readField (readArray (decodeQuestionsItem jx) zeroQuestionsItem) (\<lambda>s. s) (\<lambda>x s. x))]"

definition requestUserInputFaults :: "userInputQuestion list \<Rightarrow> fault list" where
  "requestUserInputFaults s = fieldFaults ''questions'' (listFaults 1 (Some 3) questionsItemFaults s)"

section \<open>Contracts\<close>

text \<open>\<^verbatim>\<open>json.Unmarshal\<close> first scans the text; the generated decoder then reads it and the result is validated.\<close>

definition contractDecode ::
    "jxLibrary \<Rightarrow> 'a decoder \<Rightarrow> 'a \<Rightarrow> ('a \<Rightarrow> fault list) \<Rightarrow> string \<Rightarrow> 'a result" where
  "contractDecode jx decode zero faults encoded =
     (if \<not> jsonValid encoded then Inl (External ''*json.SyntaxError'')
      else
        (case jxParse jx encoded of
           Inl e \<Rightarrow> Inl e
         | Inr j \<Rightarrow>
             (case decode j zero of
                Inl e \<Rightarrow> Inl e
              | Inr x \<Rightarrow> if faults x = [] then Inr x else Inl (External ''*validate.Error''))))"

definition writeTodosContract :: "jxLibrary \<Rightarrow> string \<Rightarrow> (string \<times> string) list result" where
  "writeTodosContract jx = contractDecode jx (decodeWriteTodosInput jx) [] writeTodosInputFaults"

definition durableWaitContract :: "jxLibrary \<Rightarrow> string \<Rightarrow> (int \<times> string) result" where
  "durableWaitContract jx = contractDecode jx (decodeDurableWaitInput jx) (0, []) durableWaitInputFaults"

definition requestUserInputContract :: "jxLibrary \<Rightarrow> string \<Rightarrow> userInputQuestion list result" where
  "requestUserInputContract jx = contractDecode jx (decodeRequestUserInput jx) [] requestUserInputFaults"

text \<open>The environment of the Flow with the contracts it has in the program.\<close>

definition withContracts :: "jxLibrary \<Rightarrow> flow \<Rightarrow> flow" where
  "withContracts jx flow = flow\<lparr>fDecodeWriteTodos := writeTodosContract jx,
     fDecodeDurableWait := durableWaitContract jx, fDecodeUserInput := requestUserInputContract jx\<rparr>"

section \<open>Schemas\<close>

text \<open>
  The part of JSON Schema that \<^verbatim>\<open>internal/toolcontract/schema\<close> uses: every property is required
  and no other is allowed. \<open>reads\<close> is what counts as an integer; for JSON Schema that is every
  number without a fractional part, also when it is written with a fraction or an exponent.
\<close>

definition integerValue :: "string \<Rightarrow> int option" where
  "integerValue text =
     (let negative = take 1 text = ''-'';
          t = (if negative then drop 1 text else text);
          whole = takeWhile isDigit t; after = dropWhile isDigit t;
          fraction = (if take 1 after = ''.'' then takeWhile isDigit (drop 1 after) else []);
          scale = (if take 1 after = ''.'' then dropWhile isDigit (drop 1 after) else after);
          e = (if scale = [] then 0
               else if take 1 (drop 1 scale) = ''-'' then - int (readNat (drop 2 scale))
               else if take 1 (drop 1 scale) = ''+'' then int (readNat (drop 2 scale))
               else int (readNat (drop 1 scale)));
          m = int (readNat (whole @ fraction)); k = e - int (length fraction)
      in map_option (\<lambda>v. if negative then - v else v)
           (if 0 \<le> k then Some (m * 10 ^ nat k)
            else if m mod 10 ^ nat (- k) = 0 then Some (m div 10 ^ nat (- k))
            else None))"

text \<open>An integer as JSON writes it without a fraction and without an exponent.\<close>

definition plainInteger :: "string \<Rightarrow> bool" where
  "plainInteger text \<longleftrightarrow>
     (let t = (if take 1 text = ''-'' then drop 1 text else text)
      in t \<noteq> [] \<and> list_all isDigit t \<and> (t = ''0'' \<or> take 1 t \<noteq> ''0''))"

lemma integerValue_examples:
  "integerValue ''60'' = Some 60" "integerValue ''-7'' = Some (- 7)" "integerValue ''60.0'' = Some 60"
  "integerValue ''6e1'' = Some 60" "integerValue ''1.5'' = None" "integerValue ''1500E-2'' = Some 15"
  "integerValue ''12.5e+1'' = Some 125" "plainInteger ''60''" "plainInteger ''-7''" "plainInteger ''0''"
  "\<not> plainInteger ''60.0''" "\<not> plainInteger ''6e1''" "\<not> plainInteger ''-''"
  by code_simp+

text \<open>
  What is relied on of the library: it reads as an \<^verbatim>\<open>int\<close> the plain integers of 64 bits. (After
  the digits of a number with a fraction or an exponent the object cannot be read on.)
\<close>

definition jxIntegers :: "jxLibrary \<Rightarrow> bool" where
  "jxIntegers jx \<longleftrightarrow>
     (\<forall>text i. jxInt jx text = Inr i \<longleftrightarrow> plainInteger text \<and> integerValue text = Some i \<and> int64Range i)"

definition jxReads :: "jxLibrary \<Rightarrow> string \<Rightarrow> int option" where
  "jxReads jx text = (case jxInt jx text of Inl e \<Rightarrow> None | Inr i \<Rightarrow> Some i)"

lemma jxReads_plain:
  assumes "jxIntegers jx"
  shows "jxReads jx text =
    (case integerValue text of None \<Rightarrow> None | Some i \<Rightarrow> if plainInteger text \<and> int64Range i then Some i else None)"
proof (cases "jxInt jx text")
  case (Inl e)
  then have "\<not> (plainInteger text \<and> integerValue text = Some i \<and> int64Range i)" for i
    using assms by (metis jxIntegers_def sum.distinct(1))
  with Inl show ?thesis by (auto simp: jxReads_def split: option.split)
next
  case (Inr i)
  with assms have "plainInteger text \<and> integerValue text = Some i \<and> int64Range i" by (simp add: jxIntegers_def)
  then show ?thesis by (simp add: jxReads_def Inr)
qed

datatype schema =
    IntegerFrom int
  | Text nat "nat option"
  | OneOf "string list"
  | Items nat "nat option" schema
  | Properties "(string \<times> schema) list"

fun meets :: "(string \<Rightarrow> int option) \<Rightarrow> schema \<Rightarrow> json \<Rightarrow> bool" where
  "meets reads (IntegerFrom low) j \<longleftrightarrow>
     (case j of JNum text \<Rightarrow> (case reads text of None \<Rightarrow> False | Some i \<Rightarrow> low \<le> i) | _ \<Rightarrow> False)"
| "meets reads (Text low high) j \<longleftrightarrow>
     (case j of
        JStr s \<Rightarrow> low \<le> runeCount s \<and> (case high of None \<Rightarrow> True | Some h \<Rightarrow> runeCount s \<le> h)
      | _ \<Rightarrow> False)"
| "meets reads (OneOf names) j \<longleftrightarrow> (case j of JStr s \<Rightarrow> s \<in> set names | _ \<Rightarrow> False)"
| "meets reads (Items low high item) j \<longleftrightarrow>
     (case j of
        JArr js \<Rightarrow>
          low \<le> length js \<and> (case high of None \<Rightarrow> True | Some h \<Rightarrow> length js \<le> h) \<and> (\<forall>i \<in> set js. meets reads item i)
      | _ \<Rightarrow> False)"
| "meets reads (Properties properties) j \<longleftrightarrow>
     (case j of
        JObj entries \<Rightarrow>
          fst ` set entries = fst ` set properties \<and>
          (\<forall>(name, s) \<in> set properties. \<forall>(k, i) \<in> set entries. k = name \<longrightarrow> meets reads s i)
      | _ \<Rightarrow> False)"

definition durableWaitSchema :: schema where
  "durableWaitSchema = Properties [(''duration_seconds'', IntegerFrom 1), (''reason'', Text 0 None)]"

definition todosItemSchema :: schema where
  "todosItemSchema = Properties [(''content'', Text 1 None), (''status'', OneOf [''pending'', ''in_progress'', ''completed''])]"

definition writeTodosSchema :: schema where
  "writeTodosSchema = Properties [(''todos'', Items 0 None todosItemSchema)]"

definition optionsItemSchema :: schema where
  "optionsItemSchema = Properties [(''label'', Text 1 None), (''description'', Text 1 None)]"

definition questionsItemSchema :: schema where
  "questionsItemSchema = Properties [(''id'', Text 1 None), (''header'', Text 1 (Some 32)), (''question'', Text 1 None),
     (''options'', Items 2 (Some 3) optionsItemSchema)]"

definition requestUserInputSchema :: schema where
  "requestUserInputSchema = Properties [(''questions'', Items 1 (Some 3) questionsItemSchema)]"

text \<open>A body that names no field of an object twice.\<close>

fun tidy :: "json \<Rightarrow> bool" where
  "tidy (JArr js) \<longleftrightarrow> (\<forall>j \<in> set js. tidy j)"
| "tidy (JObj entries) \<longleftrightarrow> distinct (map fst entries) \<and> (\<forall>(k, j) \<in> set entries. tidy j)"
| "tidy j \<longleftrightarrow> True"

section \<open>Decoding against a schema\<close>

text \<open>When no field's success depends on what was read before, an object is accepted field by field.\<close>

lemma readFields_succeeds:
  assumes "\<And>k decode j s. map_of table k = Some decode \<Longrightarrow> (\<exists>s'. decode j s = Inr s') \<longleftrightarrow> ok k j"
  shows "(\<exists>r. readFields table entries seen s = Inr r) \<longleftrightarrow> (\<forall>(k, j) \<in> set entries. k \<in> fst ` set table \<and> ok k j)"
proof (induction entries arbitrary: seen s)
  case (Cons e rest)
  obtain k j where e: "e = (k, j)" by (cases e)
  show ?case
  proof (cases "map_of table k")
    case None
    then have "k \<notin> fst ` set table" by (simp add: map_of_eq_None_iff)
    then show ?thesis by (simp add: e None)
  next
    case (Some decode)
    then have k: "k \<in> fst ` set table" by (force dest: map_of_SomeD)
    show ?thesis using Cons.IH assms [OF Some, of j s] Some e k by (cases "decode j s") (auto split: prod.splits)
  qed
qed simp

lemma readObject_succeeds:
  assumes "\<And>k decode j s. map_of table k = Some decode \<Longrightarrow> (\<exists>s'. decode j s = Inr s') \<longleftrightarrow> ok k j"
    and "fst ` set table = set required"
  shows "(\<exists>s'. readObject name required table j s = Inr s') \<longleftrightarrow>
    (\<exists>entries. j = JObj entries \<and> fst ` set entries = set required \<and> (\<forall>(k, i) \<in> set entries. ok k i))"
proof (cases j)
  case (JObj entries)
  show ?thesis
  proof (cases "readFields table entries [] s")
    case (Inl e)
    then have "\<not> (\<forall>(k, i) \<in> set entries. k \<in> fst ` set table \<and> ok k i)"
      using readFields_succeeds [of table ok entries "[]" s] assms(1) by auto
    then have "\<not> (fst ` set entries = set required \<and> (\<forall>(k, i) \<in> set entries. ok k i))"
      using assms(2) by force
    with Inl JObj show ?thesis by (simp add: readObject_def)
  next
    case (Inr r)
    obtain seen t where r: "r = (seen, t)" by (cases r)
    have all: "\<forall>(k, i) \<in> set entries. k \<in> fst ` set table \<and> ok k i"
      using readFields_succeeds [of table ok entries "[]" s] assms(1) Inr by auto
    have "set seen = fst ` set entries" "fst ` set entries \<subseteq> set required"
      using readFields_names [of table entries "[]" s seen t] Inr r assms(2) by auto
    with all Inr r JObj show ?thesis by (auto simp: readObject_def requireFields_Inr)
  qed
qed (simp_all add: readObject_def)

text \<open>What is true of a field that only its own name writes is what was true when it was read.\<close>

lemma readFields_value:
  assumes "map_of table n = Some decode" and "\<And>j s s'. decode j s = Inr s' \<Longrightarrow> R j (get s')"
    and "\<And>k d j s s'. map_of table k = Some d \<Longrightarrow> k \<noteq> n \<Longrightarrow> d j s = Inr s' \<Longrightarrow> get s' = get s"
  shows "readFields table entries seen s = Inr (seen', s') \<Longrightarrow> distinct (map fst entries) \<Longrightarrow>
    (case map_of entries n of None \<Rightarrow> get s' = get s | Some j \<Rightarrow> R j (get s'))"
proof (induction entries arbitrary: seen s)
  case (Cons e rest)
  obtain k j where e: "e = (k, j)" by (cases e)
  with Cons.prems obtain d t where t: "map_of table k = Some d" "d j s = Inr t"
    "readFields table rest (k # seen) t = Inr (seen', s')"
    by (auto split: option.splits sum.splits)
  note rest = Cons.IH [OF t(3)]
  show ?case
  proof (cases "k = n")
    case True
    then have "map_of rest n = None" using Cons.prems(2) e by (simp add: map_of_eq_None_iff)
    moreover have "R j (get t)" using assms(1,2) t True by auto
    ultimately show ?thesis using rest Cons.prems(2) e True by simp
  next
    case False
    have same: "get t = get s" using assms(3) [OF t(1) False t(2)] .
    show ?thesis using rest Cons.prems(2) False unfolding same e by simp
  qed
qed simp

lemma readObject_value:
  assumes "readObject name required table (JObj entries) s = Inr s'" and "distinct (map fst entries)"
    and "(n, j) \<in> set entries" and "map_of table n = Some decode"
    and "\<And>j s s'. decode j s = Inr s' \<Longrightarrow> R j (get s')"
    and "\<And>k d j s s'. map_of table k = Some d \<Longrightarrow> k \<noteq> n \<Longrightarrow> d j s = Inr s' \<Longrightarrow> get s' = get s"
  shows "R j (get s')"
proof -
  from assms(1) obtain seen where "readFields table entries [] s = Inr (seen, s')"
    by (auto simp: readObject_def requireFields_Inr split: sum.splits)
  from readFields_value [where R = R and get = get, OF assms(4) assms(5) assms(6) this assms(2)]
  show ?thesis using assms(2,3) by (simp add: map_of_eq_Some_iff)
qed

section \<open>The contracts are the schemas\<close>

text \<open>The decoder of a type and its validator accept a tidy body exactly when it meets a schema.\<close>

definition agrees :: "jxLibrary \<Rightarrow> schema \<Rightarrow> 'a decoder \<Rightarrow> 'a \<Rightarrow> ('a \<Rightarrow> fault list) \<Rightarrow> bool" where
  "agrees jx sch decode zero faults \<longleftrightarrow>
     (\<forall>j. tidy j \<longrightarrow> ((\<exists>x. decode j zero = Inr x \<and> faults x = []) \<longleftrightarrow> meets (jxReads jx) sch j))"

lemma meets_leaf:
  "meets (jxReads jx) (IntegerFrom low) j \<longleftrightarrow> (\<exists>i. readInt jx j old = Inr i \<and> low \<le> i)"
  "meets (jxReads jx) (Text least most) j \<longleftrightarrow> (\<exists>s. readStr j before = Inr s \<and> textFaults least most s = [])"
  "meets (jxReads jx) (OneOf names) j \<longleftrightarrow> (\<exists>s. readStr j before = Inr s \<and> s \<in> set names)"
  by (auto simp: readInt_def readNum_def readStr_def jxReads_def split: json.splits sum.splits option.splits)

lemma mapResult_exists:
  "(\<exists>ys. mapResult f xs = Inr ys \<and> (\<forall>y \<in> set ys. P y)) \<longleftrightarrow> (\<forall>x \<in> set xs. \<exists>y. f x = Inr y \<and> P y)"
proof (induction xs)
  case (Cons x xs)
  then show ?case by (cases "f x"; cases "mapResult f xs") auto
qed simp

lemma meets_items:
  assumes "agrees jx item decode zero faults" and "tidy j"
  shows "meets (jxReads jx) (Items low high item) j \<longleftrightarrow>
    (\<exists>xs. readArray decode zero j old = Inr xs \<and> listFaults low high faults xs = [])"
proof (cases j)
  case (JArr js)
  have len: "length ys = length js" if "mapResult (\<lambda>i. decode i zero) js = Inr ys" for ys
    using that by (auto simp: mapResult_Inr dest: list_all2_lengthD)
  have "(\<forall>i \<in> set js. meets (jxReads jx) item i) \<longleftrightarrow> (\<forall>i \<in> set js. \<exists>x. decode i zero = Inr x \<and> faults x = [])"
    using assms JArr by (simp add: agrees_def)
  then show ?thesis
    using len JArr mapResult_exists [of "\<lambda>i. decode i zero" js "\<lambda>x. faults x = []"]
    by (auto simp: readArray_def split: option.splits)
qed (simp_all add: readArray_def)


lemma agrees_object:
  assumes success: "\<And>k decode j s. map_of table k = Some decode \<Longrightarrow> (\<exists>s'. decode j s = Inr s') \<longleftrightarrow> ok k j"
    and names: "fst ` set table = fst ` set properties"
    and held: "\<And>n sch decode j s s'. (n, sch) \<in> set properties \<Longrightarrow> map_of table n = Some decode \<Longrightarrow>
      decode j s = Inr s' \<Longrightarrow> tidy j \<longrightarrow> (P n s' \<longleftrightarrow> meets (jxReads jx) sch j)"
    and own: "\<And>n k d j s s'. map_of table k = Some d \<Longrightarrow> k \<noteq> n \<Longrightarrow> d j s = Inr s' \<Longrightarrow> P n s' = P n s"
    and readable: "\<And>n sch j. (n, sch) \<in> set properties \<Longrightarrow> tidy j \<Longrightarrow> meets (jxReads jx) sch j \<Longrightarrow> ok n j"
    and faults: "\<And>x. faults x = [] \<longleftrightarrow> (\<forall>n \<in> fst ` set properties. P n x)"
  shows "agrees jx (Properties properties) (readObject name (map fst properties) table) zero faults"
  unfolding agrees_def
proof (intro allI impI)
  fix j assume tidy: "tidy j"
  let ?read = "\<lambda>x. readObject name (map fst properties) table j zero = Inr x"
  have checked: "P n x \<longleftrightarrow> meets (jxReads jx) sch i"
    if x: "?read x" and j: "j = JObj entries" and n: "(n, sch) \<in> set properties" and i: "(n, i) \<in> set entries" for n sch i entries x
  proof -
    have "n \<in> fst ` set table" using n names by force
    then obtain decode where d: "map_of table n = Some decode"
      by (metis map_of_eq_None_iff not_None_eq)
    have i': "tidy i" and entries: "distinct (map fst entries)" using tidy j i by auto
    have "tidy i \<longrightarrow> (P n x \<longleftrightarrow> meets (jxReads jx) sch i)"
    proof (rule readObject_value [where R = "\<lambda>j v. tidy j \<longrightarrow> (v \<longleftrightarrow> meets (jxReads jx) sch j)" and get = "P n",
        OF x [unfolded j] entries i d])
      show "decode j s = Inr s' \<Longrightarrow> tidy j \<longrightarrow> (P n s' \<longleftrightarrow> meets (jxReads jx) sch j)" for j s s'
        by (rule held [OF n d])
      show "map_of table k = Some d \<Longrightarrow> k \<noteq> n \<Longrightarrow> d j s = Inr s' \<Longrightarrow> P n s' = P n s" for k d j s s'
        by (rule own)
    qed
    with i' show ?thesis by simp
  qed
  show "(\<exists>x. ?read x \<and> faults x = []) \<longleftrightarrow> meets (jxReads jx) (Properties properties) j"
  proof
    assume "\<exists>x. ?read x \<and> faults x = []"
    then obtain x where x: "?read x" "faults x = []" by blast
    from x(1) obtain entries where j: "j = JObj entries" "set (map fst properties) \<subseteq> fst ` set entries"
      "fst ` set entries \<subseteq> fst ` set table" by (rule readObject_names)
    have "meets (jxReads jx) sch i" if "(n, sch) \<in> set properties" "(n, i) \<in> set entries" for n sch i
      using checked [OF x(1) j(1) that] faults [of x] x(2) that(1) by force
    with j names show "meets (jxReads jx) (Properties properties) j" by auto
  next
    assume meets: "meets (jxReads jx) (Properties properties) j"
    then obtain entries where j: "j = JObj entries" and same: "fst ` set entries = fst ` set properties"
      and all: "\<forall>(n, sch) \<in> set properties. \<forall>(k, i) \<in> set entries. k = n \<longrightarrow> meets (jxReads jx) sch i"
      by (auto split: json.splits)
    have each: "meets (jxReads jx) sch i" if "(n, sch) \<in> set properties" "(n, i) \<in> set entries" for n sch i
      using all that by fastforce
    have "ok k i" if "(k, i) \<in> set entries" for k i
    proof -
      have "k \<in> fst ` set properties" using that same by force
      then obtain sch where "(k, sch) \<in> set properties" by force
      then show ?thesis using readable each that tidy j by fastforce
    qed
    with j same names obtain x where x: "?read x"
      using readObject_succeeds [of table ok "map fst properties" name j zero] success by auto
    have "P n x" if "n \<in> fst ` set properties" for n
    proof -
      from that obtain sch where sch: "(n, sch) \<in> set properties" by force
      have "n \<in> fst ` set entries" using that same by simp
      then obtain i where "(n, i) \<in> set entries" by force
      then show ?thesis using checked [OF x j sch] each [OF sch] by simp
    qed
    with x faults show "\<exists>x. ?read x \<and> faults x = []" by blast
  qed
qed


text \<open>Leaves ignore what was there before.\<close>

lemma read_Inr: "readStr j before = Inr s \<longleftrightarrow> j = JStr s"
  "readInt jx j old = Inr i \<longleftrightarrow> (\<exists>text. j = JNum text \<and> jxInt jx text = Inr i)"
  "readArray decode zero j old' = Inr xs \<longleftrightarrow> (\<exists>js. j = JArr js \<and> mapResult (\<lambda>i. decode i zero) js = Inr xs)"
  by (auto simp: readInt_def readNum_def readStr_def readArray_def split: json.splits)

lemma readField_Inr: "readField decode get put j s = Inr s' \<longleftrightarrow> (\<exists>x. decode j (get s) = Inr x \<and> s' = put x s)"
  by (auto simp: readField_def)

lemma durableWait_agrees: "agrees jx durableWaitSchema (decodeDurableWaitInput jx) zero durableWaitInputFaults"
proof -
  let ?table = "[(''duration_seconds'', readField (readInt jx) fst (\<lambda>x s. (x, snd s))),
      (''reason'', readField readStr snd (\<lambda>x s. (fst s, x)))]"
  let ?properties = "[(''duration_seconds'', IntegerFrom 1), (''reason'', Text 0 None)]"
  let ?ok = "\<lambda>k j. if k = ''duration_seconds'' then \<exists>i. readInt jx j 0 = Inr i else \<exists>s. readStr j [] = Inr s"
  let ?P = "\<lambda>n (x :: int \<times> string). n = ''duration_seconds'' \<longrightarrow> 1 \<le> fst x"
  have "agrees jx (Properties ?properties) (readObject ''DurableWaitInput'' (map fst ?properties) ?table) zero
      durableWaitInputFaults"
  proof (rule agrees_object [where ok = ?ok and P = ?P])
    show "(\<exists>s'. d j s = Inr s') \<longleftrightarrow> ?ok k j" if "map_of ?table k = Some d" for k d j s
      using that by (auto simp: readField_Inr read_Inr split: if_splits)
    show "tidy j \<longrightarrow> (?P n s' \<longleftrightarrow> meets (jxReads jx) sch j)"
      if "(n, sch) \<in> set ?properties" "map_of ?table n = Some d" "d j s = Inr s'" for n sch d j s s'
      using that by (auto simp: readField_Inr read_Inr jxReads_def)
    show "?P n s' = ?P n s" if "map_of ?table k = Some d" "k \<noteq> n" "d j s = Inr s'" for n k d j s s'
      using that by (auto simp: readField_Inr split: if_splits)
    show "?ok n j" if "(n, sch) \<in> set ?properties" "tidy j" "meets (jxReads jx) sch j" for n sch j
      using that by (auto simp: read_Inr jxReads_def split: json.splits sum.splits)
    show "durableWaitInputFaults x = [] \<longleftrightarrow> (\<forall>n \<in> fst ` set ?properties. ?P n x)" for x
      by (auto simp: durableWaitInputFaults_def)
  qed simp
  then show ?thesis by (simp add: durableWaitSchema_def decodeDurableWaitInput_def)
qed

lemma todosItem_agrees: "agrees jx todosItemSchema (decodeTodosItem jx) zero todosItemFaults"
proof -
  let ?table = "[(''content'', readField readStr fst (\<lambda>x s. (x, snd s))),
      (''status'', readField decodeTodoStatus snd (\<lambda>x s. (fst s, x)))]"
  let ?properties = "[(''content'', Text 1 None), (''status'', OneOf [''pending'', ''in_progress'', ''completed''])]"
  let ?ok = "\<lambda>k j. \<exists>s. j = JStr s"
  let ?P = "\<lambda>n (x :: string \<times> string). (n = ''content'' \<longrightarrow> textFaults 1 None (fst x) = []) \<and>
      (n = ''status'' \<longrightarrow> snd x \<in> set [''pending'', ''in_progress'', ''completed''])"
  have "agrees jx (Properties ?properties) (readObject ''WriteTodosInputTodosItem'' (map fst ?properties) ?table) zero
      todosItemFaults"
  proof (rule agrees_object [where ok = ?ok and P = ?P])
    show "(\<exists>s'. d j s = Inr s') \<longleftrightarrow> ?ok k j" if "map_of ?table k = Some d" for k d j s
      using that by (auto simp: readField_Inr read_Inr decodeTodoStatus_def todoStatusFaults_def split: if_splits)
    show "tidy j \<longrightarrow> (?P n s' \<longleftrightarrow> meets (jxReads jx) sch j)"
      if "(n, sch) \<in> set ?properties" "map_of ?table n = Some d" "d j s = Inr s'" for n sch d j s s'
      using that by (auto simp: readField_Inr read_Inr decodeTodoStatus_def todoStatusFaults_def)
    show "?P n s' = ?P n s" if "map_of ?table k = Some d" "k \<noteq> n" "d j s = Inr s'" for n k d j s s'
      using that by (auto simp: readField_Inr split: if_splits)
    show "?ok n j" if "(n, sch) \<in> set ?properties" "tidy j" "meets (jxReads jx) sch j" for n sch j
      using that by (auto simp: read_Inr decodeTodoStatus_def todoStatusFaults_def split: json.splits sum.splits)
    show "todosItemFaults x = [] \<longleftrightarrow> (\<forall>n \<in> fst ` set ?properties. ?P n x)" for x
      by (auto simp: todosItemFaults_def decodeTodoStatus_def todoStatusFaults_def)
  qed simp
  then show ?thesis by (simp add: todosItemSchema_def decodeTodosItem_def)
qed

lemma optionsItem_agrees: "agrees jx optionsItemSchema (decodeOptionsItem jx) zero optionsItemFaults"
proof -
  let ?table = "[(''label'', readField readStr uioLabel (\<lambda>x s. s\<lparr>uioLabel := x\<rparr>)),
      (''description'', readField readStr uioDescription (\<lambda>x s. s\<lparr>uioDescription := x\<rparr>))]"
  let ?properties = "[(''label'', Text 1 None), (''description'', Text 1 None)]"
  let ?ok = "\<lambda>k j. \<exists>s. j = JStr s"
  let ?P = "\<lambda>n x. (n = ''label'' \<longrightarrow> textFaults 1 None (uioLabel x) = []) \<and>
      (n = ''description'' \<longrightarrow> textFaults 1 None (uioDescription x) = [])"
  have "agrees jx (Properties ?properties) (readObject ''RequestUserInputInputQuestionsItemOptionsItem'' (map fst ?properties) ?table) zero
      optionsItemFaults"
  proof (rule agrees_object [where ok = ?ok and P = ?P])
    show "(\<exists>s'. d j s = Inr s') \<longleftrightarrow> ?ok k j" if "map_of ?table k = Some d" for k d j s
      using that by (auto simp: readField_Inr read_Inr split: if_splits)
    show "tidy j \<longrightarrow> (?P n s' \<longleftrightarrow> meets (jxReads jx) sch j)"
      if "(n, sch) \<in> set ?properties" "map_of ?table n = Some d" "d j s = Inr s'" for n sch d j s s'
      using that by (auto simp: readField_Inr read_Inr)
    show "?P n s' = ?P n s" if "map_of ?table k = Some d" "k \<noteq> n" "d j s = Inr s'" for n k d j s s'
      using that by (auto simp: readField_Inr split: if_splits)
    show "?ok n j" if "(n, sch) \<in> set ?properties" "tidy j" "meets (jxReads jx) sch j" for n sch j
      using that by (auto simp: read_Inr split: json.splits sum.splits)
    show "optionsItemFaults x = [] \<longleftrightarrow> (\<forall>n \<in> fst ` set ?properties. ?P n x)" for x
      by (auto simp: optionsItemFaults_def)
  qed simp
  then show ?thesis by (simp add: optionsItemSchema_def decodeOptionsItem_def)
qed

lemma items_field:
  assumes "agrees jx item decode zero faults" and "readArray decode zero j old = Inr xs" and "tidy j"
  shows "meets (jxReads jx) (Items low high item) j \<longleftrightarrow> listFaults low high faults xs = []"
  using meets_items [OF assms(1,3), of low high old] assms(2) by auto

lemma agrees_items:
  assumes "agrees jx item decode z itemFaults" and "\<And>x. faults x = fieldFaults field (listFaults low high itemFaults x)"
  shows "agrees jx (Properties [(field, Items low high item)])
    (readObject name [field] [(field, readField (readArray decode z) (\<lambda>s. s) (\<lambda>x s. x))]) zero faults"
proof -
  let ?table = "[(field, readField (readArray decode z) (\<lambda>s. s) (\<lambda>x s. x))]"
  let ?properties = "[(field, Items low high item)]"
  let ?ok = "\<lambda>k j. \<exists>xs. readArray decode z j [] = Inr xs"
  let ?P = "\<lambda>n x. n = field \<longrightarrow> listFaults low high itemFaults x = []"
  have "agrees jx (Properties ?properties) (readObject name (map fst ?properties) ?table) zero faults"
  proof (rule agrees_object [where ok = ?ok and P = ?P])
    show "(\<exists>s'. d j s = Inr s') \<longleftrightarrow> ?ok k j" if "map_of ?table k = Some d" for k d j s
      using that by (auto simp: readField_Inr read_Inr split: if_splits)
    show "tidy j \<longrightarrow> (?P n s' \<longleftrightarrow> meets (jxReads jx) sch j)"
      if "(n, sch) \<in> set ?properties" "map_of ?table n = Some d" "d j s = Inr s'" for n sch d j s s'
      using that items_field [OF assms(1), of j s s' low high]
      by (auto simp: readField_Inr simp del: meets.simps listFaults_Nil)
    show "?P n s' = ?P n s" if "map_of ?table k = Some d" "k \<noteq> n" "d j s = Inr s'" for n k d j s s'
      using that by (auto split: if_splits)
    show "?ok n j" if "(n, sch) \<in> set ?properties" "tidy j" "meets (jxReads jx) sch j" for n sch j
      using that meets_items [OF assms(1), of j low high "[]"] by auto
  qed (simp_all add: assms(2) del: listFaults_Nil)
  then show ?thesis by simp
qed

lemma writeTodos_agrees: "agrees jx writeTodosSchema (decodeWriteTodosInput jx) zero writeTodosInputFaults"
  unfolding writeTodosSchema_def decodeWriteTodosInput_def
  by (rule agrees_items [OF todosItem_agrees]) (simp add: writeTodosInputFaults_def)

lemma questionsItem_agrees: "agrees jx questionsItemSchema (decodeQuestionsItem jx) zero questionsItemFaults"
proof -
  let ?table = "[(''id'', readField readStr uiqID (\<lambda>x s. s\<lparr>uiqID := x\<rparr>)),
      (''header'', readField readStr uiqHeader (\<lambda>x s. s\<lparr>uiqHeader := x\<rparr>)),
      (''question'', readField readStr uiqQuestion (\<lambda>x s. s\<lparr>uiqQuestion := x\<rparr>)),
      (''options'', readField (readArray (decodeOptionsItem jx) zeroOptionsItem) uiqOptions
         (\<lambda>x s. s\<lparr>uiqOptions := x\<rparr>))]"
  let ?properties = "[(''id'', Text 1 None), (''header'', Text 1 (Some 32)), (''question'', Text 1 None),
     (''options'', Items 2 (Some 3) optionsItemSchema)]"
  let ?ok = "\<lambda>k j. if k = ''options'' then \<exists>xs. readArray (decodeOptionsItem jx) zeroOptionsItem j [] = Inr xs
      else \<exists>s. j = JStr s"
  let ?P = "\<lambda>n x. if n = ''id'' then textFaults 1 None (uiqID x) = []
      else if n = ''header'' then textFaults 1 (Some 32) (uiqHeader x) = []
      else if n = ''question'' then textFaults 1 None (uiqQuestion x) = []
      else n = ''options'' \<longrightarrow> listFaults 2 (Some 3) optionsItemFaults (uiqOptions x) = []"
  have "agrees jx (Properties ?properties) (readObject ''RequestUserInputInputQuestionsItem'' (map fst ?properties) ?table)
      zero questionsItemFaults"
  proof (rule agrees_object [where ok = ?ok and P = ?P])
    show "(\<exists>s'. d j s = Inr s') \<longleftrightarrow> ?ok k j" if "map_of ?table k = Some d" for k d j s
      using that by (auto simp: readField_Inr read_Inr split: if_splits)
    show "tidy j \<longrightarrow> (?P n s' \<longleftrightarrow> meets (jxReads jx) sch j)"
      if "(n, sch) \<in> set ?properties" "map_of ?table n = Some d" "d j s = Inr s'" for n sch d j s s'
    proof (cases "n = ''options''")
      case True
      then have "sch = Items 2 (Some 3) optionsItemSchema"
        and "readArray (decodeOptionsItem jx) zeroOptionsItem j (uiqOptions s) = Inr (uiqOptions s')"
        using that by (auto simp: readField_Inr)
      with True items_field [OF optionsItem_agrees this(2), where low = 2 and high = "Some 3"] show ?thesis
        by (simp del: meets.simps listFaults_Nil)
    next
      case False
      with that(1) consider (id) "n = ''id''" "sch = Text 1 None" | (header) "n = ''header''" "sch = Text 1 (Some 32)"
        | (question) "n = ''question''" "sch = Text 1 None" by fastforce
      then show ?thesis
      proof cases
        case id
        then have "j = JStr (uiqID s')" using that(2,3) by (auto simp: readField_Inr read_Inr(1))
        with id show ?thesis by simp
      next
        case header
        then have "j = JStr (uiqHeader s')" using that(2,3) by (auto simp: readField_Inr read_Inr(1))
        with header show ?thesis by simp
      next
        case question
        then have "j = JStr (uiqQuestion s')" using that(2,3) by (auto simp: readField_Inr read_Inr(1))
        with question show ?thesis by simp
      qed
    qed
    show "?P n s' = ?P n s" if "map_of ?table k = Some d" "k \<noteq> n" "d j s = Inr s'" for n k d j s s'
    proof -
      from that(1,3) consider (id) x where "k = ''id''" "s' = s\<lparr>uiqID := x\<rparr>"
        | (header) x where "k = ''header''" "s' = s\<lparr>uiqHeader := x\<rparr>"
        | (question) x where "k = ''question''" "s' = s\<lparr>uiqQuestion := x\<rparr>"
        | (options) x where "k = ''options''" "s' = s\<lparr>uiqOptions := x\<rparr>"
        by (auto simp: readField_Inr split: if_splits)
      then show ?thesis using that(2) by cases simp_all
    qed
    show "?ok n j" if "(n, sch) \<in> set ?properties" "tidy j" "meets (jxReads jx) sch j" for n sch j
    proof (cases "n = ''options''")
      case True
      then have "sch = Items 2 (Some 3) optionsItemSchema" using that(1) by auto
      with True that(2,3) meets_items [OF optionsItem_agrees that(2), where low = 2 and high = "Some 3" and old = "[]"]
      show ?thesis by (auto simp del: meets.simps listFaults_Nil)
    next
      case False
      then show ?thesis using that(1,3) by (auto split: json.splits simp del: meets.simps(4))
    qed
    show "questionsItemFaults x = [] \<longleftrightarrow> (\<forall>n \<in> fst ` set ?properties. ?P n x)" for x
      by (auto simp: questionsItemFaults_def simp del: listFaults_Nil)
  qed auto
  then show ?thesis by (simp add: questionsItemSchema_def decodeQuestionsItem_def)
qed

lemma requestUserInput_agrees: "agrees jx requestUserInputSchema (decodeRequestUserInput jx) zero requestUserInputFaults"
  unfolding requestUserInputSchema_def decodeRequestUserInput_def
  by (rule agrees_items [OF questionsItem_agrees]) (simp add: requestUserInputFaults_def)


section \<open>The decoded input\<close>

text \<open>What the tree of a body says under its field names.\<close>

fun fieldOf :: "json \<Rightarrow> string \<Rightarrow> json option" where
  "fieldOf (JObj entries) name = map_of entries name"
| "fieldOf j name = None"

definition textIn :: "json \<Rightarrow> string \<Rightarrow> string" where
  "textIn j name = (case fieldOf j name of Some (JStr s) \<Rightarrow> s | _ \<Rightarrow> [])"

definition numberIn :: "json \<Rightarrow> string \<Rightarrow> string" where
  "numberIn j name = (case fieldOf j name of Some (JNum text) \<Rightarrow> text | _ \<Rightarrow> [])"

definition itemsIn :: "json \<Rightarrow> string \<Rightarrow> json list" where
  "itemsIn j name = (case fieldOf j name of Some (JArr js) \<Rightarrow> js | _ \<Rightarrow> [])"

definition waitIn :: "json \<Rightarrow> int \<times> string" where
  "waitIn j = (case integerValue (numberIn j ''duration_seconds'') of None \<Rightarrow> 0 | Some i \<Rightarrow> i, textIn j ''reason'')"

definition todoIn :: "json \<Rightarrow> string \<times> string" where
  "todoIn j = (textIn j ''content'', textIn j ''status'')"

definition optionIn :: "json \<Rightarrow> userInputOption" where
  "optionIn j = \<lparr>uioLabel = textIn j ''label'', uioDescription = textIn j ''description''\<rparr>"

definition questionIn :: "json \<Rightarrow> userInputQuestion" where
  "questionIn j = \<lparr>uiqID = textIn j ''id'', uiqHeader = textIn j ''header'', uiqQuestion = textIn j ''question'',
     uiqOptions = map optionIn (itemsIn j ''options'')\<rparr>"

text \<open>A field that only its own name writes holds what its decoder read.\<close>

lemma readObject_field:
  assumes "readObject name required table j s = Inr s'" and "tidy j" and "n \<in> set required" and "map_of table n = Some decode"
    and "\<And>j s s'. decode j s = Inr s' \<Longrightarrow> R j (get s')"
    and "\<And>k d j s s'. map_of table k = Some d \<Longrightarrow> k \<noteq> n \<Longrightarrow> d j s = Inr s' \<Longrightarrow> get s' = get s"
  shows "\<exists>i. fieldOf j n = Some i \<and> tidy i \<and> R i (get s')"
proof -
  from assms(1) obtain entries where j: "j = JObj entries" "set required \<subseteq> fst ` set entries" by (rule readObject_names)
  with assms(3) obtain i where i: "(n, i) \<in> set entries" by force
  from assms(2) j(1) i have d: "distinct (map fst entries)" "tidy i" by auto
  from readObject_value [where R = R and get = get, OF assms(1) [unfolded j(1)] d(1) i assms(4,5,6)] d i j(1)
  show ?thesis by (auto simp: map_of_eq_Some_iff)
qed

text \<open>A decoder returns the value that \<open>value\<close> finds in a tidy body.\<close>

definition finds :: "'a decoder \<Rightarrow> 'a \<Rightarrow> (json \<Rightarrow> 'a) \<Rightarrow> bool" where
  "finds decode zero value \<longleftrightarrow> (\<forall>j x. tidy j \<longrightarrow> decode j zero = Inr x \<longrightarrow> x = value j)"

lemma array_finds:
  assumes "finds decode zero value" and "readArray decode zero j old = Inr xs" and "tidy j"
  shows "\<exists>js. j = JArr js \<and> xs = map value js"
proof -
  from assms(2) obtain js where js: "j = JArr js" "mapResult (\<lambda>i. decode i zero) js = Inr xs" by (auto simp: read_Inr)
  have "mapResult (\<lambda>i. decode i zero) is = Inr ys \<Longrightarrow> \<forall>i \<in> set is. tidy i \<Longrightarrow> ys = map value is" for "is" ys
    using assms(1) by (induction "is" arbitrary: ys) (auto simp: finds_def split: sum.splits)
  with js assms(3) show ?thesis by auto
qed

lemma text_field:
  assumes "readObject name required table j s = Inr s'" and "tidy j" and "n \<in> set required"
    and "map_of table n = Some (readField readStr get put)" and "\<And>x s. get (put x s) = x"
    and "\<And>k d j s s'. map_of table k = Some d \<Longrightarrow> k \<noteq> n \<Longrightarrow> d j s = Inr s' \<Longrightarrow> get s' = get s"
  shows "get s' = textIn j n"
proof -
  have "\<exists>i. fieldOf j n = Some i \<and> tidy i \<and> i = JStr (get s')"
  proof (rule readObject_field [where R = "\<lambda>i v. i = JStr v" and get = get, OF assms(1-4)])
    show "j = JStr (get s')" if "readField readStr get put j s = Inr s'" for j s s'
      using that by (auto simp: readField_Inr read_Inr assms(5))
    show "get s' = get s" if "map_of table k = Some d" "k \<noteq> n" "d j s = Inr s'" for k d j s s'
      using that by (rule assms(6))
  qed
  then show ?thesis by (auto simp: textIn_def)
qed

lemma items_field_value:
  assumes "finds decode zero value"
    and "readObject name required table j s = Inr s'" and "tidy j" and "n \<in> set required"
    and "map_of table n = Some (readField (readArray decode zero) get put)" and "\<And>x s. get (put x s) = x"
    and "\<And>k d j s s'. map_of table k = Some d \<Longrightarrow> k \<noteq> n \<Longrightarrow> d j s = Inr s' \<Longrightarrow> get s' = get s"
  shows "get s' = map value (itemsIn j n)"
proof -
  have "\<exists>i. fieldOf j n = Some i \<and> tidy i \<and> (\<exists>old. readArray decode zero i old = Inr (get s'))"
  proof (rule readObject_field [where R = "\<lambda>i v. \<exists>old. readArray decode zero i old = Inr v" and get = get, OF assms(2-5)])
    show "\<exists>old. readArray decode zero j old = Inr (get s')" if "readField (readArray decode zero) get put j s = Inr s'" for j s s'
      using that by (auto simp: readField_Inr assms(6))
    show "get s' = get s" if "map_of table k = Some d" "k \<noteq> n" "d j s = Inr s'" for k d j s s'
      using that by (rule assms(7))
  qed
  then show ?thesis using array_finds [OF assms(1)] by (force simp: itemsIn_def)
qed

lemma todosItem_finds: "finds (decodeTodosItem jx) zero todoIn"
  unfolding finds_def
proof (intro allI impI)
  fix j x assume j: "tidy j" and x: "decodeTodosItem jx j zero = Inr x"
  have "fst x = textIn j ''content''"
    by (rule text_field [OF x [unfolded decodeTodosItem_def] j]) (auto simp: readField_Inr split: if_splits)
  moreover have "snd x = textIn j ''status''"
    by (rule text_field [OF x [unfolded decodeTodosItem_def decodeTodoStatus_def] j]) (auto simp: readField_Inr split: if_splits)
  ultimately show "x = todoIn j" by (simp add: todoIn_def prod_eq_iff)
qed

lemma optionsItem_finds: "finds (decodeOptionsItem jx) zero optionIn"
  unfolding finds_def
proof (intro allI impI)
  fix j x assume j: "tidy j" and x: "decodeOptionsItem jx j zero = Inr x"
  have "uioLabel x = textIn j ''label''"
    by (rule text_field [OF x [unfolded decodeOptionsItem_def] j]) (auto simp: readField_Inr split: if_splits)
  moreover have "uioDescription x = textIn j ''description''"
    by (rule text_field [OF x [unfolded decodeOptionsItem_def] j]) (auto simp: readField_Inr split: if_splits)
  ultimately show "x = optionIn j" by (simp add: optionIn_def)
qed

lemma questionsItem_finds: "finds (decodeQuestionsItem jx) zero questionIn"
  unfolding finds_def
proof (intro allI impI)
  fix j x assume j: "tidy j" and x: "decodeQuestionsItem jx j zero = Inr x"
  have "uiqID x = textIn j ''id''"
    by (rule text_field [OF x [unfolded decodeQuestionsItem_def] j]) (auto simp: readField_Inr split: if_splits)
  moreover have "uiqHeader x = textIn j ''header''"
    by (rule text_field [OF x [unfolded decodeQuestionsItem_def] j]) (auto simp: readField_Inr split: if_splits)
  moreover have "uiqQuestion x = textIn j ''question''"
    by (rule text_field [OF x [unfolded decodeQuestionsItem_def] j]) (auto simp: readField_Inr split: if_splits)
  moreover have "uiqOptions x = map optionIn (itemsIn j ''options'')"
    by (rule items_field_value [OF optionsItem_finds x [unfolded decodeQuestionsItem_def] j])
      (auto simp: readField_Inr split: if_splits)
  ultimately show "x = questionIn j" by (simp add: questionIn_def)
qed

lemma writeTodos_finds: "finds (decodeWriteTodosInput jx) zero (\<lambda>j. map todoIn (itemsIn j ''todos''))"
  unfolding finds_def decodeWriteTodosInput_def
  by (intro allI impI, rule items_field_value [OF todosItem_finds, where get = "\<lambda>s. s"], assumption, assumption) auto

lemma requestUserInput_finds:
  "finds (decodeRequestUserInput jx) zero (\<lambda>j. map questionIn (itemsIn j ''questions''))"
  unfolding finds_def decodeRequestUserInput_def
  by (intro allI impI, rule items_field_value [OF questionsItem_finds, where get = "\<lambda>s. s"], assumption, assumption) auto

lemma durableWait_finds:
  assumes "jxIntegers jx"
  shows "finds (decodeDurableWaitInput jx) zero waitIn"
  unfolding finds_def
proof (intro allI impI)
  fix j x assume j: "tidy j" and x: "decodeDurableWaitInput jx j zero = Inr x"
  have "\<exists>i. fieldOf j ''duration_seconds'' = Some i \<and> tidy i \<and> (\<exists>text. i = JNum text \<and> jxInt jx text = Inr (fst x))"
    by (rule readObject_field [where get = fst and R = "\<lambda>i v. \<exists>text. i = JNum text \<and> jxInt jx text = Inr v",
          OF x [unfolded decodeDurableWaitInput_def] j])
      (auto simp: readField_Inr read_Inr split: if_splits)
  then have "integerValue (numberIn j ''duration_seconds'') = Some (fst x)"
    using assms by (auto simp: numberIn_def jxIntegers_def)
  moreover have "snd x = textIn j ''reason''"
    by (rule text_field [OF x [unfolded decodeDurableWaitInput_def] j]) (auto simp: readField_Inr split: if_splits)
  ultimately show "x = waitIn j" by (simp add: waitIn_def prod_eq_iff)
qed

text \<open>The two readings of an integer differ only where a schema has one.\<close>

fun countsNumbers :: "schema \<Rightarrow> bool" where
  "countsNumbers (IntegerFrom low) = True"
| "countsNumbers (Items low high item) = countsNumbers item"
| "countsNumbers (Properties properties) = list_ex (\<lambda>(name, s). countsNumbers s) properties"
| "countsNumbers _ = False"

lemma meets_same: "\<not> countsNumbers sch \<Longrightarrow> meets reads sch j \<longleftrightarrow> meets reads' sch j"
proof (induction reads sch j rule: meets.induct)
  case (5 reads properties j)
  show ?case
  proof (cases j)
    case (JObj entries)
    have eq: "meets reads s i \<longleftrightarrow> meets reads' s i" if "(name, s) \<in> set properties" "(name, i) \<in> set entries" for name s i
    proof -
      have "\<not> countsNumbers s" using 5(2) that(1) by (auto simp: list_ex_iff)
      then show ?thesis using 5(1) [OF JObj that(1) refl that(2) refl refl] by simp
    qed
    show ?thesis unfolding JObj meets.simps json.case by (intro conj_cong refl ball_cong) (clarsimp, rule ball_cong, rule refl, auto simp: eq)
  qed simp_all
qed (auto split: json.split)

lemma meets_wait:
  assumes "jxIntegers jx" and "tidy j"
  shows "meets (jxReads jx) durableWaitSchema j \<longleftrightarrow>
    meets integerValue durableWaitSchema j \<and> plainInteger (numberIn j ''duration_seconds'') \<and> int64Range (fst (waitIn j))"
proof (cases j)
  case (JObj entries)
  have d: "distinct (map fst entries)" using assms(2) JObj by simp
  show ?thesis
  proof (cases "map_of entries ''duration_seconds''")
    case None
    then have "''duration_seconds'' \<notin> fst ` set entries" by (simp add: map_of_eq_None_iff)
    then show ?thesis by (auto simp: JObj durableWaitSchema_def)
  next
    case (Some i)
    then have only: "(''duration_seconds'', k) \<in> set entries \<longleftrightarrow> k = i" for k
      by (auto simp: map_of_eq_Some_iff [OF d, symmetric])
    have "meets (jxReads jx) (IntegerFrom 1) i \<longleftrightarrow> meets integerValue (IntegerFrom 1) i \<and>
      plainInteger (numberIn j ''duration_seconds'') \<and> int64Range (fst (waitIn j))"
      using assms(1) Some by (auto simp: JObj numberIn_def waitIn_def jxReads_plain split: json.splits option.splits)
    moreover have "meets reads durableWaitSchema j \<longleftrightarrow> fst ` set entries = {''duration_seconds'', ''reason''} \<and>
      meets reads (IntegerFrom 1) i \<and> (\<forall>v. (''reason'', v) \<in> set entries \<longrightarrow> meets reads (Text 0 None) v)" for reads
      unfolding durableWaitSchema_def JObj meets.simps(5) json.case using only
      by (simp add: split_beta Ball_def del: meets.simps) (metis fst_conv snd_conv surj_pair)
    ultimately show ?thesis by (simp add: conj_ac)
  qed
qed (simp_all add: durableWaitSchema_def)

lemma contract_decodes:
  assumes "agrees jx sch decode zero faults" and "finds decode zero value"
    and "jsonValid text" and "jxParse jx text = Inr j" and "tidy j"
  shows "contractDecode jx decode zero faults text = Inr x \<longleftrightarrow> meets (jxReads jx) sch j \<and> x = value j"
proof -
  have "contractDecode jx decode zero faults text = Inr x \<longleftrightarrow> decode j zero = Inr x \<and> faults x = []"
    using assms(3,4) by (auto simp: contractDecode_def split: sum.splits)
  with assms(1,2,5) show ?thesis unfolding agrees_def finds_def by blast
qed

lemmas contract_defs = durableWaitContract_def writeTodosContract_def requestUserInputContract_def

text \<open>
  C25. The Flow accepts the arguments of a built-in tool exactly when they meet the schema that the
  model was shown for it, and reads from them what they say: for a valid JSON text whose objects
  name no field twice, the decoder of a tool returns a value if and only if the text has every
  required property, no other one, and every value is of the type and within the bounds of the
  schema; the value has, field by field and item by item, what the text has. One condition is not in
  the schemas: the seconds of a wait must be written without a fraction and without an exponent, and fit
  64 bits; the schema also allows 60.0, 6e1 and numbers of any size, which the Flow refuses.
\<close>

theorem contracts_accept_schemas:
  assumes "jsonValid text" and "jxParse jx text = Inr j" and "tidy j" and "jxIntegers jx"
  shows "(fDecodeDurableWait (withContracts jx flow) text = Inr wait \<longleftrightarrow>
      meets integerValue durableWaitSchema j \<and> plainInteger (numberIn j ''duration_seconds'') \<and>
      int64Range (fst (waitIn j)) \<and> wait = waitIn j) \<and>
    (fDecodeWriteTodos (withContracts jx flow) text = Inr todos \<longleftrightarrow>
      meets integerValue writeTodosSchema j \<and> todos = map todoIn (itemsIn j ''todos'')) \<and>
    (fDecodeUserInput (withContracts jx flow) text = Inr questions \<longleftrightarrow>
      meets integerValue requestUserInputSchema j \<and> questions = map questionIn (itemsIn j ''questions''))"
proof -
  have "\<not> countsNumbers writeTodosSchema" "\<not> countsNumbers requestUserInputSchema"
    by (simp_all add: writeTodosSchema_def todosItemSchema_def requestUserInputSchema_def questionsItemSchema_def
      optionsItemSchema_def)
  note same = this [THEN meets_same, of "jxReads jx" j integerValue]
  from contract_decodes [OF durableWait_agrees durableWait_finds [OF assms(4)] assms(1-3)]
    contract_decodes [OF writeTodos_agrees writeTodos_finds assms(1-3)]
    contract_decodes [OF requestUserInput_agrees requestUserInput_finds assms(1-3)]
  show ?thesis by (simp add: withContracts_def contract_defs meets_wait [OF assms(4,3)] same)
qed

definition waitText :: string where
  "waitText = ''{'' @ jsonString ''duration_seconds'' @ '':60,'' @ jsonString ''reason'' @ '':'' @ jsonString ''rate limit'' @ ''}''"

definition waitTree :: json where
  "waitTree = JObj [(''duration_seconds'', JNum ''60''), (''reason'', JStr ''rate limit'')]"

definition contractJx :: jxLibrary where
  "contractJx = exampleJx\<lparr>jxParse := (\<lambda>text. if text = waitText then Inr waitTree else Inl unexpectedType),
     jxInt := (\<lambda>text. case integerValue text of None \<Rightarrow> Inl unexpectedType
       | Some i \<Rightarrow> if plainInteger text \<and> int64Range i then Inr i else Inl unexpectedType)\<rparr>"

lemma contractJx_integers: "jxIntegers contractJx"
  by (auto simp: jxIntegers_def contractJx_def split: option.split)

lemma waitText_valid: "jsonValid waitText"
  by code_simp

lemma waitTree_meets: "meets integerValue durableWaitSchema waitTree" "\<not> meets integerValue writeTodosSchema waitTree"
  "plainInteger (numberIn waitTree ''duration_seconds'')" "waitIn waitTree = (60, ''rate limit'')" "int64Range 60"
  by code_simp+

theorem contracts_accept_schemas_witness:
  "fDecodeDurableWait (withContracts contractJx exampleFlow) waitText = Inr (60, ''rate limit'') \<and>
   (\<nexists>x. fDecodeWriteTodos (withContracts contractJx exampleFlow) waitText = Inr x)"
proof -
  have "jxParse contractJx waitText = Inr waitTree" "tidy waitTree"
    by (simp_all add: contractJx_def waitTree_def)
  from contracts_accept_schemas [OF waitText_valid this contractJx_integers, of exampleFlow] waitTree_meets show ?thesis by simp
qed

text \<open>
  The schema of the durable wait has no maximum: a wait of 9223372037 seconds is accepted, and as a
  \<^verbatim>\<open>time.Duration\<close> its length is negative.
\<close>

lemma long_wait_is_accepted:
  assumes "jxLaws jx" and "jsonValid text" and "jxParse jx text = Inr (encodeDurableWaitInput jx (9223372037, reason))"
  shows "fDecodeDurableWait (withContracts jx flow) text = Inr (9223372037, reason)" and "seconds 9223372037 < 0"
proof -
  have "readInt jx (writeInt jx 9223372037) old = Inr 9223372037" for old
    using read_int(1) [OF assms(1)] by (simp add: int64Range_def)
  with assms(2,3) show "fDecodeDurableWait (withContracts jx flow) text = Inr (9223372037, reason)"
    by (simp add: withContracts_def durableWaitContract_def contractDecode_def decodeDurableWaitInput_def
      encodeDurableWaitInput_def wire_object durableWaitInputFaults_def)
  show "seconds 9223372037 < 0" by (simp add: seconds_def second_def wrap64_def)
qed

end
