(* ===== verification/Router.thy ===== *)
theory Router
  imports GoText
begin

text \<open>
  The router of the generated server (\<^verbatim>\<open>internal/api/generated/oas_router_gen.go\<close>): two nested
  switches over the characters of the path, here two tries with the walk that the switches
  perform, and the answer to a method that a path does not have (\<^verbatim>\<open>oas_cfg_gen.go\<close>). The path
  is the one that is left after the library normalised its escapes.
\<close>

section \<open>Tries\<close>

text \<open>A node has a prefix, the methods that may end there, and the nodes below by their first character.\<close>

datatype 'a route = Route string "(string \<times> 'a) list option" "(char \<times> 'a route) list"

fun walk :: "'a route \<Rightarrow> string \<Rightarrow> (string \<times> 'a) list option"
and walkIn :: "(char \<times> 'a route) list \<Rightarrow> string \<Rightarrow> (string \<times> 'a) list option" where
  "walk (Route pre leaf below) elem =
     (if take (length pre) elem = pre
      then (if drop (length pre) elem = [] then leaf else walkIn below (drop (length pre) elem))
      else None)"
| "walkIn [] elem = None"
| "walkIn ((c, r) # rest) elem = (if hd elem = c then walk r elem else walkIn rest elem)"

section \<open>The routes\<close>

text \<open>\<^verbatim>\<open>ServeHTTP\<close>: the operation whose handler is called.\<close>

definition serveArchivedMessages :: "string route" where
  "serveArchivedMessages = Route ''archived-messages'' (Some [(''GET'', ''GetArchivedMessages'')]) []"

definition serveEvents :: "string route" where
  "serveEvents = Route ''events'' (Some [(''GET'', ''ReadEvent'')])
      [(CHR ''/'', Route ''/recent'' (Some [(''GET'', ''ListRecentEvents'')]) [])]"

definition serveMessage :: "string route" where
  "serveMessage = Route ''message'' None
      [(CHR ''-'', Route ''-queue/'' None
      [(CHR ''d'', Route ''delete'' (Some [(''POST'', ''DeleteQueuedMessage'')]) []),
       (CHR ''s'', Route ''steer'' (Some [(''POST'', ''SteerQueuedMessage'')]) [])]),
       (CHR ''s'', Route ''s'' (Some [(''POST'', ''SendMessage'')]) [])]"

definition servePlanPortal :: "string route" where
  "servePlanPortal = Route ''p'' None
      [(CHR ''l'', Route ''lans/execute'' (Some [(''POST'', ''ExecutePlan'')]) []),
       (CHR ''o'', Route ''ortal'' (Some [(''GET'', ''GetPortal'')]) [])]"

definition serveQuestions :: "string route" where
  "serveQuestions = Route ''questions/answer'' (Some [(''POST'', ''AnswerQuestions'')]) []"

definition serveSnapshotStart :: "string route" where
  "serveSnapshotStart = Route ''s'' None
      [(CHR ''n'', Route ''napshot'' (Some [(''GET'', ''GetAgentSnapshot'')]) []),
       (CHR ''t'', Route ''tart'' (Some [(''POST'', ''StartAgent'')]) [])]"

definition serveTool :: "string route" where
  "serveTool = Route ''tool-'' None
      [(CHR ''a'', Route ''approvals'' (Some [(''POST'', ''ApproveTool'')]) []),
       (CHR ''r'', Route ''recoveries'' (Some [(''POST'', ''ResolveToolRecovery'')]) [])]"

definition serveWaitingInputRound :: "string route" where
  "serveWaitingInputRound = Route ''waiting-input-round'' (Some [(''GET'', ''WaitForWaitingInputRound'')]) []"

definition serveProduct :: "string route" where
  "serveProduct = Route ''products/ai-agent/'' None
      [(CHR ''a'', serveArchivedMessages),
       (CHR ''e'', serveEvents),
       (CHR ''m'', serveMessage),
       (CHR ''p'', servePlanPortal),
       (CHR ''q'', serveQuestions),
       (CHR ''s'', serveSnapshotStart),
       (CHR ''t'', serveTool),
       (CHR ''w'', serveWaitingInputRound)]"

definition serveApi :: "string route" where
  "serveApi = Route ''/'' None
      [(CHR ''h'', Route ''healthz'' (Some [(''GET'', ''GetHealth'')]) []),
       (CHR ''p'', serveProduct),
       (CHR ''r'', Route ''readyz'' (Some [(''GET'', ''GetReadiness'')]) [])]"

text \<open>\<^verbatim>\<open>FindPath\<close>: the description of the operation.\<close>

record foundRoute =
  rtName :: string
  rtOperationID :: string
  rtPathPattern :: string

definition found :: "string \<Rightarrow> string \<Rightarrow> string \<Rightarrow> foundRoute" where
  "found name operationID pathPattern = \<lparr>rtName = name, rtOperationID = operationID, rtPathPattern = pathPattern\<rparr>"

definition findArchivedMessages :: "foundRoute route" where
  "findArchivedMessages = Route ''archived-messages'' (Some [(''GET'',
      found ''GetArchivedMessages'' ''getArchivedMessages'' ''/products/ai-agent/archived-messages'')]) []"

definition findEvents :: "foundRoute route" where
  "findEvents = Route ''events'' (Some [(''GET'',
      found ''ReadEvent'' ''readEvent'' ''/products/ai-agent/events'')])
      [(CHR ''/'', Route ''/recent'' (Some [(''GET'',
          found ''ListRecentEvents'' ''listRecentEvents'' ''/products/ai-agent/events/recent'')]) [])]"

definition findMessage :: "foundRoute route" where
  "findMessage = Route ''message'' None
      [(CHR ''-'', Route ''-queue/'' None
      [(CHR ''d'', Route ''delete'' (Some [(''POST'',
          found ''DeleteQueuedMessage'' ''deleteQueuedMessage'' ''/products/ai-agent/message-queue/delete'')]) []),
       (CHR ''s'', Route ''steer'' (Some [(''POST'',
           found ''SteerQueuedMessage'' ''steerQueuedMessage'' ''/products/ai-agent/message-queue/steer'')]) [])]),
       (CHR ''s'', Route ''s'' (Some [(''POST'',
           found ''SendMessage'' ''sendMessage'' ''/products/ai-agent/messages'')]) [])]"

definition findPlanPortal :: "foundRoute route" where
  "findPlanPortal = Route ''p'' None
      [(CHR ''l'', Route ''lans/execute'' (Some [(''POST'',
          found ''ExecutePlan'' ''executePlan'' ''/products/ai-agent/plans/execute'')]) []),
       (CHR ''o'', Route ''ortal'' (Some [(''GET'',
           found ''GetPortal'' ''getPortal'' ''/products/ai-agent/portal'')]) [])]"

definition findQuestions :: "foundRoute route" where
  "findQuestions = Route ''questions/answer'' (Some [(''POST'',
      found ''AnswerQuestions'' ''answerQuestions'' ''/products/ai-agent/questions/answer'')]) []"

definition findSnapshotStart :: "foundRoute route" where
  "findSnapshotStart = Route ''s'' None
      [(CHR ''n'', Route ''napshot'' (Some [(''GET'',
          found ''GetAgentSnapshot'' ''getAgentSnapshot'' ''/products/ai-agent/snapshot'')]) []),
       (CHR ''t'', Route ''tart'' (Some [(''POST'',
           found ''StartAgent'' ''startAgent'' ''/products/ai-agent/start'')]) [])]"

definition findTool :: "foundRoute route" where
  "findTool = Route ''tool-'' None
      [(CHR ''a'', Route ''approvals'' (Some [(''POST'',
          found ''ApproveTool'' ''approveTool'' ''/products/ai-agent/tool-approvals'')]) []),
       (CHR ''r'', Route ''recoveries'' (Some [(''POST'',
           found ''ResolveToolRecovery'' ''resolveToolRecovery'' ''/products/ai-agent/tool-recoveries'')]) [])]"

definition findWaitingInputRound :: "foundRoute route" where
  "findWaitingInputRound = Route ''waiting-input-round'' (Some [(''GET'',
      found ''WaitForWaitingInputRound'' ''waitForWaitingInputRound''
      ''/products/ai-agent/waiting-input-round'')]) []"

definition findProduct :: "foundRoute route" where
  "findProduct = Route ''products/ai-agent/'' None
      [(CHR ''a'', findArchivedMessages),
       (CHR ''e'', findEvents),
       (CHR ''m'', findMessage),
       (CHR ''p'', findPlanPortal),
       (CHR ''q'', findQuestions),
       (CHR ''s'', findSnapshotStart),
       (CHR ''t'', findTool),
       (CHR ''w'', findWaitingInputRound)]"

definition findApi :: "foundRoute route" where
  "findApi = Route ''/'' None
      [(CHR ''h'', Route ''healthz'' (Some [(''GET'', found ''GetHealth'' ''getHealth'' ''/healthz'')]) []),
       (CHR ''p'', findProduct),
       (CHR ''r'', Route ''readyz'' (Some [(''GET'', found ''GetReadiness'' ''getReadiness'' ''/readyz'')]) [])]"

section \<open>Dispatch\<close>

datatype dispatch = Handled string | NotAllowed string | NoRoute

definition cutPrefix :: "string \<Rightarrow> string \<Rightarrow> string option" where
  "cutPrefix pre path =
     (if pre = [] then Some path
      else if take (length pre) path \<noteq> pre then None
      else Some (drop (length pre) path))"

definition serveHTTP :: "string \<Rightarrow> string \<Rightarrow> string \<Rightarrow> dispatch" where
  "serveHTTP pre method path =
     (case cutPrefix pre path of
        None \<Rightarrow> NoRoute
      | Some elem \<Rightarrow>
          if elem = [] then NoRoute
          else
            (case walkIn [(CHR ''/'', serveApi)] elem of
               None \<Rightarrow> NoRoute
             | Some methods \<Rightarrow>
                 (case map_of methods method of Some op \<Rightarrow> Handled op | None \<Rightarrow> NotAllowed (fst (hd methods)))))"

definition findPath :: "string \<Rightarrow> string \<Rightarrow> string \<Rightarrow> foundRoute option" where
  "findPath pre method path =
     (case cutPrefix pre path of
        None \<Rightarrow> None
      | Some elem \<Rightarrow>
          if elem = [] then None
          else
            (case walkIn [(CHR ''/'', findApi)] elem of
               None \<Rightarrow> None
             | Some methods \<Rightarrow> map_of methods method))"

text \<open>
  \<^verbatim>\<open>strings.ToUpper\<close> as far as it decides whether the result is an ASCII text: \<open>a..z\<close> and the two other
  letters with an ASCII capital, the long s (UTF-8 C5 BF) and the dotless i (C4 B1).
\<close>

fun upperCase :: "string \<Rightarrow> string" where
  "upperCase (c # d # rest) =
     (if byte c = 197 \<and> byte d = 191 then CHR ''S'' # upperCase rest
      else if byte c = 196 \<and> byte d = 177 then CHR ''I'' # upperCase rest
      else (if inRange 97 122 (byte c) then char_of (of_char c - 32 :: nat) else c) # upperCase (d # rest))"
| "upperCase [c] = [if inRange 97 122 (byte c) then char_of (of_char c - 32 :: nat) else c]"
| "upperCase [] = []"

lemma upperCase_posts: "upperCase ''post'' = ''POST''" "upperCase ''PoST'' = ''POST''"
  by code_simp+

text \<open>
  A path without the method. A preflight request is told what is allowed, in headers; a path takes
  one method, and a POST takes JSON. \<open>requested\<close> is the header
  \<^verbatim>\<open>Access-Control-Request-Method\<close>, empty without it.
\<close>

definition allowHeaders :: "string \<Rightarrow> string \<Rightarrow> string \<Rightarrow> (string \<times> string) list" where
  "allowHeaders method requested allowed =
     (if method = ''OPTIONS''
      then [(''Access-Control-Allow-Methods'', allowed)] @
        (if allowed = ''POST'' \<and> upperCase requested = ''POST'' then [(''Access-Control-Allow-Headers'', ''Content-Type'')] else []) @
        (if allowed = ''POST'' then [(''Accept-Post'', ''application/json'')] else [])
      else [])"

section \<open>A trie is the table of its paths\<close>

fun paths :: "'a route \<Rightarrow> (string \<times> (string \<times> 'a) list) list"
and pathsIn :: "(char \<times> 'a route) list \<Rightarrow> (string \<times> (string \<times> 'a) list) list" where
  "paths (Route pre leaf below) =
     (case leaf of None \<Rightarrow> [] | Some methods \<Rightarrow> [(pre, methods)]) @ map (\<lambda>(p, methods). (pre @ p, methods)) (pathsIn below)"
| "pathsIn [] = []"
| "pathsIn ((c, r) # rest) = paths r @ pathsIn rest"

text \<open>Every node has a prefix, which starts with the character that leads to it, and no two neighbours share it.\<close>

fun trie :: "'a route \<Rightarrow> bool"
and trieIn :: "(char \<times> 'a route) list \<Rightarrow> bool" where
  "trie (Route pre leaf below) \<longleftrightarrow> pre \<noteq> [] \<and> trieIn below"
| "trieIn [] \<longleftrightarrow> True"
| "trieIn ((c, r) # rest) \<longleftrightarrow>
     (case r of Route pre leaf below \<Rightarrow> take 1 pre = [c]) \<and> c \<notin> set (map fst rest) \<and> trie r \<and> trieIn rest"

lemma paths_first:
  "trie r \<Longrightarrow> take 1 (case r of Route pre leaf below \<Rightarrow> pre) = [c] \<Longrightarrow> (p, m) \<in> set (paths r) \<Longrightarrow> p \<noteq> [] \<and> hd p = c"
  by (cases r) (auto split: option.splits simp: take_Suc hd_append)

lemma pathsIn_first: "trieIn rs \<Longrightarrow> (p, m) \<in> set (pathsIn rs) \<Longrightarrow> p \<noteq> [] \<and> hd p \<in> set (map fst rs)"
proof (induction rs)
  case (Cons a rest)
  obtain c r where a: "a = (c, r)" by (cases a)
  show ?case
  proof (cases "(p, m) \<in> set (paths r)")
    case True
    with Cons.prems a paths_first [of r c p m] show ?thesis by (auto split: route.splits)
  next
    case False
    with Cons a show ?thesis by auto
  qed
qed simp

lemma map_of_prefixed:
  "map_of (map (\<lambda>(p, m). (pre @ p, m)) t) elem =
     (if take (length pre) elem = pre then map_of t (drop (length pre) elem) else None)"
proof (induction t)
  case (Cons a t)
  obtain p m where a: "a = (p, m)" by (cases a)
  have "elem = pre @ p \<longleftrightarrow> take (length pre) elem = pre \<and> drop (length pre) elem = p"
    by (metis append_eq_conv_conj)
  with Cons a show ?case by auto
qed simp

lemma walk_paths:
  fixes r :: "'a route" and rs :: "(char \<times> 'a route) list"
  shows "trie r \<Longrightarrow> walk r elem = map_of (paths r) elem"
    and "trieIn rs \<Longrightarrow> elem \<noteq> [] \<Longrightarrow> walkIn rs elem = map_of (pathsIn rs) elem"
proof (induction r elem and rs elem rule: walk_walkIn.induct)
  case (1 pre leaf below elem)
  show ?case
  proof (cases "take (length pre) elem = pre \<and> drop (length pre) elem \<noteq> []")
    case True
    then have "elem \<noteq> pre" by auto
    with 1 True show ?thesis by (auto simp: map_of_prefixed map_add_def split: option.splits)
  next
    case False
    have "map_of (pathsIn below) [] = None"
      using 1(2) pathsIn_first [of below "[]"] by (auto simp: map_of_eq_None_iff)
    moreover have "elem = pre \<longleftrightarrow> take (length pre) elem = pre \<and> drop (length pre) elem = []"
      by (metis append_Nil2 append_take_drop_id drop_all order_refl take_all)
    ultimately show ?thesis using False by (auto simp: map_of_prefixed map_add_def split: option.splits)
  qed
next
  case (3 c r rest elem)
  have r: "take 1 (case r of Route pre leaf below \<Rightarrow> pre) = [c]" "trie r" "trieIn rest" "c \<notin> set (map fst rest)"
    using 3(3) by (auto split: route.splits)
  show ?case
  proof (cases "hd elem = c")
    case True
    then have "map_of (pathsIn rest) elem = None"
      using pathsIn_first [OF r(3)] r(4) by (force simp: map_of_eq_None_iff)
    with True 3 r show ?thesis by (simp add: map_add_def split: option.splits)
  next
    case False
    then have "map_of (paths r) elem = None"
      using paths_first [OF r(2,1)] by (force simp: map_of_eq_None_iff)
    with False 3 r show ?thesis by (simp add: map_add_def split: option.splits)
  qed
qed simp

section \<open>The documented routes\<close>

text \<open>The routes of the OpenAPI document (\<^verbatim>\<open>api/openapi.yaml\<close>): path, method, operation and its identifier.\<close>

definition documented :: "(string \<times> string \<times> string \<times> string) list" where
  "documented =
     [(''/healthz'', ''GET'', ''GetHealth'', ''getHealth''),
      (''/products/ai-agent/archived-messages'', ''GET'', ''GetArchivedMessages'', ''getArchivedMessages''),
      (''/products/ai-agent/events'', ''GET'', ''ReadEvent'', ''readEvent''),
      (''/products/ai-agent/events/recent'', ''GET'', ''ListRecentEvents'', ''listRecentEvents''),
      (''/products/ai-agent/message-queue/delete'', ''POST'', ''DeleteQueuedMessage'', ''deleteQueuedMessage''),
      (''/products/ai-agent/message-queue/steer'', ''POST'', ''SteerQueuedMessage'', ''steerQueuedMessage''),
      (''/products/ai-agent/messages'', ''POST'', ''SendMessage'', ''sendMessage''),
      (''/products/ai-agent/plans/execute'', ''POST'', ''ExecutePlan'', ''executePlan''),
      (''/products/ai-agent/portal'', ''GET'', ''GetPortal'', ''getPortal''),
      (''/products/ai-agent/questions/answer'', ''POST'', ''AnswerQuestions'', ''answerQuestions''),
      (''/products/ai-agent/snapshot'', ''GET'', ''GetAgentSnapshot'', ''getAgentSnapshot''),
      (''/products/ai-agent/start'', ''POST'', ''StartAgent'', ''startAgent''),
      (''/products/ai-agent/tool-approvals'', ''POST'', ''ApproveTool'', ''approveTool''),
      (''/products/ai-agent/tool-recoveries'', ''POST'', ''ResolveToolRecovery'', ''resolveToolRecovery''),
      (''/products/ai-agent/waiting-input-round'', ''GET'', ''WaitForWaitingInputRound'', ''waitForWaitingInputRound''),
      (''/readyz'', ''GET'', ''GetReadiness'', ''getReadiness'')]"

lemmas serve_defs = serveApi_def serveProduct_def serveArchivedMessages_def serveEvents_def serveMessage_def
  servePlanPortal_def serveQuestions_def serveSnapshotStart_def serveTool_def serveWaitingInputRound_def

lemmas find_defs = findApi_def findProduct_def findArchivedMessages_def findEvents_def findMessage_def
  findPlanPortal_def findQuestions_def findSnapshotStart_def findTool_def findWaitingInputRound_def

lemma tries: "trieIn [(CHR ''/'', serveApi)]" "trieIn [(CHR ''/'', findApi)]"
  by code_simp+

lemma serve_table: "pathsIn [(CHR ''/'', serveApi)] = map (\<lambda>(p, m, op, i). (p, [(m, op)])) documented"
  by (simp add: serve_defs documented_def)

lemma find_table: "pathsIn [(CHR ''/'', findApi)] = map (\<lambda>(p, m, op, i). (p, [(m, found op i p)])) documented"
  by (simp add: find_defs documented_def)

lemma map_of_parts:
  "map_of (map (\<lambda>(p, m, op, i). (p, f p m op i)) t) elem = map_option (\<lambda>(m, op, i). f elem m op i) (map_of t elem)"
  by (induction t) auto

text \<open>The two tries, at a path that is not empty, are the tables.\<close>

lemma served_table:
  assumes "path \<noteq> []"
  shows "walkIn [(CHR ''/'', serveApi)] path = map_option (\<lambda>(m, op, i). [(m, op)]) (map_of documented path)"
    and "walkIn [(CHR ''/'', findApi)] path = map_option (\<lambda>(m, op, i). [(m, found op i path)]) (map_of documented path)"
  using assms
  by (simp_all add: walk_paths(2) [OF tries(1)] walk_paths(2) [OF tries(2)] serve_table find_table map_of_parts
    del: walk.simps walkIn.simps pathsIn.simps paths.simps)

lemma serveHTTP_documented:
  "serveHTTP pre method (pre @ path) =
     (case map_of documented path of
        None \<Rightarrow> NoRoute
      | Some (m, op, i) \<Rightarrow> if method = m then Handled op else NotAllowed m)"
proof -
  have cut: "cutPrefix pre (pre @ path) = Some path" by (simp add: cutPrefix_def)
  show ?thesis
  proof (cases "path = []")
    case True
    have "map_of documented [] = None" by code_simp
    with cut True show ?thesis by (simp add: serveHTTP_def)
  next
    case False
    show ?thesis
      unfolding serveHTTP_def cut using False by (simp add: served_table split: option.split prod.split del: walkIn.simps)
  qed
qed

text \<open>
  C24. The router is the table of the documented routes: under any server prefix, a request is handled by
  an operation exactly when the OpenAPI document has that path with that method and that operation;
  a documented path under another method is answered with the one method it has, every other
  path is not found. The look-up of routes knows the same ones, with the identifier and the
  path of the document.
\<close>

theorem router_serves_documented:
  "serveHTTP pre method (pre @ path) =
     (case map_of documented path of
        None \<Rightarrow> NoRoute
      | Some (m, op, i) \<Rightarrow> if method = m then Handled op else NotAllowed m) \<and>
   findPath pre method (pre @ path) =
     (case map_of documented path of
        None \<Rightarrow> None
      | Some (m, op, i) \<Rightarrow> if method = m then Some (found op i path) else None)"
proof -
  have cut: "cutPrefix pre (pre @ path) = Some path" by (simp add: cutPrefix_def)
  have "map_of documented [] = None" by code_simp
  then have "findPath pre method (pre @ path) =
     (case map_of documented path of
        None \<Rightarrow> None
      | Some (m, op, i) \<Rightarrow> if method = m then Some (found op i path) else None)"
    unfolding findPath_def cut
    by (cases "path = []") (simp_all add: served_table split: option.split prod.split del: walkIn.simps)
  with serveHTTP_documented show ?thesis by blast
qed

end
