(* ===== verification/HttpServer.thy ===== *)
theory HttpServer
  imports WireRequests Router ApiCommands
begin

text \<open>
  The HTTP server from request to response: the CORS handler (\<^verbatim>\<open>internal/api/cors.go\<close>), the bounds,
  problems and error handlers of \<^verbatim>\<open>internal/api/server.go\<close>, and in the generated code the router, the
  decoding of parameters (\<^verbatim>\<open>oas_parameters_gen.go\<close>) and bodies, the call of the handler and the
  writing of its response (\<^verbatim>\<open>oas_response_encoders_gen.go\<close>). A failure to write to the connection
  is not modelled.
\<close>

section \<open>Requests and responses\<close>

text \<open>
  A request as \<^verbatim>\<open>net/http\<close> gives it. \<open>rqQuery\<close> is what the library finds for a query parameter: nothing, an
  error, or its text. An absent header is empty.
\<close>

record httpRequest =
  rqMethod :: string
  rqPath :: string
  rqOrigins :: "string list"
  rqRequestMethod :: string
  rqRequestHeaders :: string
  rqQuery :: "string \<Rightarrow> string result option"
  rqBody :: httpBody

text \<open>Headers are in the order in which they are set; a response may have no body.\<close>

record written =
  wrStatus :: int
  wrHeaders :: "(string \<times> string) list"
  wrBody :: "json option"

text \<open>The conversions of query parameters are the library's.\<close>

record apiLibrary =
  alJx :: jxLibrary
  alInt :: "string \<Rightarrow> int result"
  alInt64 :: "string \<Rightarrow> int result"

definition writeProblem :: "jxLibrary \<Rightarrow> int \<Rightarrow> string \<Rightarrow> string \<Rightarrow> written" where
  "writeProblem jx status title detail = \<lparr>wrStatus = status,
     wrHeaders = [(''Content-Type'', ''application/problem+json''), (''X-Content-Type-Options'', ''nosniff'')],
     wrBody = Some (encodeProblem jx (newProblem status title detail))\<rparr>"

definition rejectedByContract :: "jxLibrary \<Rightarrow> written" where
  "rejectedByContract jx = writeProblem jx 400 ''Bad Request'' ''request does not match the OpenAPI contract''"

definition resourceNotFound :: "jxLibrary \<Rightarrow> written" where
  "resourceNotFound jx = writeProblem jx 404 ''Not Found'' ''the requested resource does not exist''"

definition withHeaders :: "(string \<times> string) list \<Rightarrow> written \<Rightarrow> written" where
  "withHeaders headers answer = answer\<lparr>wrHeaders := headers @ wrHeaders answer\<rparr>"

definition methodNotAllowed :: "jxLibrary \<Rightarrow> httpRequest \<Rightarrow> string \<Rightarrow> written" where
  "methodNotAllowed jx request allowed =
     withHeaders (allowHeaders (rqMethod request) (rqRequestMethod request) allowed @ [(''Allow'', allowed)])
       (writeProblem jx 405 ''Method Not Allowed'' ''the request method is not allowed'')"

section \<open>Writing responses\<close>

definition jsonHeaders :: "(string \<times> string) list" where
  "jsonHeaders = [(''Content-Type'', ''application/json; charset=utf-8'')]"

text \<open>
  An encoder validates the response, writes its status and its JSON; of the failures it knows those of its
  operation, any other is an error.
\<close>

definition writeAnswer ::
    "jxLibrary \<Rightarrow> int \<Rightarrow> (string \<times> string) list \<Rightarrow> ('a \<Rightarrow> fault list) \<Rightarrow> ('a \<Rightarrow> json) \<Rightarrow> failureType list \<Rightarrow> bool \<Rightarrow>
     'a response \<Rightarrow> written result" where
  "writeAnswer jx status headers faults encode failures polls response =
     (case response of
        Answer x \<Rightarrow>
          if faults x = [] then Inr \<lparr>wrStatus = status, wrHeaders = jsonHeaders @ headers, wrBody = Some (encode x)\<rparr>
          else Inl (wrapError ''validate'' (External ''*validate.Error''))
      | Failure t p \<Rightarrow>
          if t \<notin> set failures then Inl (New ''unexpected response type'')
          else if problemFaults p = []
          then Inr \<lparr>wrStatus = failureStatus t, wrHeaders = [(''Content-Type'', ''application/problem+json'')],
            wrBody = Some (encodeProblem jx p)\<rparr>
          else Inl (wrapError ''validate'' (External ''*validate.Error''))
      | PollTimeout \<Rightarrow>
          if polls then Inr \<lparr>wrStatus = 504, wrHeaders = jsonHeaders, wrBody = Some (encodePollTimeout jx ''timeout'')\<rparr>
          else Inl (New ''unexpected response type''))"

definition commandFailures :: "failureType list" where
  "commandFailures = [BadRequest, NotFound, Conflict, ServiceUnavailable]"

definition noStore :: "(string \<times> string) list" where "noStore = [(''Cache-Control'', ''no-store'')]"

definition writeAnswerQuestions :: "jxLibrary \<Rightarrow> unit response \<Rightarrow> written result" where
  "writeAnswerQuestions jx = writeAnswer jx 202 [] noFaults (\<lambda>_. encodeAccepted jx True) commandFailures False"

definition writeApproveTool :: "jxLibrary \<Rightarrow> unit response \<Rightarrow> written result" where
  "writeApproveTool jx = writeAnswer jx 202 [] noFaults (\<lambda>_. encodeAccepted jx True) commandFailures False"

definition writeDeleteQueuedMessage :: "jxLibrary \<Rightarrow> (string \<times> string) response \<Rightarrow> written result" where
  "writeDeleteQueuedMessage jx =
     writeAnswer jx 200 [] queueMutationResponseFaults (encodeQueueMutationResponse jx) commandFailures False"

definition writeExecutePlan :: "jxLibrary \<Rightarrow> unit response \<Rightarrow> written result" where
  "writeExecutePlan jx = writeAnswer jx 202 [] noFaults (\<lambda>_. encodeAccepted jx True) commandFailures False"

definition writeGetAgentSnapshot :: "jxLibrary \<Rightarrow> apiSnapshot response \<Rightarrow> written result" where
  "writeGetAgentSnapshot jx =
     writeAnswer jx 200 noStore agentSnapshotFaults (encodeAgentSnapshot jx) [BadRequest, NotFound, ServiceUnavailable] False"

definition writeGetArchivedMessages :: "jxLibrary \<Rightarrow> apiHistoryPage response \<Rightarrow> written result" where
  "writeGetArchivedMessages jx =
     writeAnswer jx 200 noStore historyPageFaults (encodeHistoryPage jx) [BadRequest, NotFound, ServiceUnavailable] False"

definition writeGetHealth :: "jxLibrary \<Rightarrow> unit response \<Rightarrow> written result" where
  "writeGetHealth jx = writeAnswer jx 200 [] noFaults (\<lambda>_. encodeHealth jx ''ok'') [] False"

definition portalProviderFaults :: "portalProvider \<Rightarrow> fault list" where
  "portalProviderFaults s =
     fieldFaults ''id'' (providerFaults (ppID s)) @
     fieldFaults ''label'' (textFaults 1 None (ppLabel s)) @
     fieldFaults ''defaultModel'' (textFaults 1 None (ppDefaultModel s))"

definition portalToolFaults :: "portalTool \<Rightarrow> fault list" where
  "portalToolFaults s =
     fieldFaults ''name'' (toolNameFaults (ptlName s)) @
     fieldFaults ''server'' (nilFaults (textFaults 1 None) (ptlServer s))"

definition portalFaults :: "portal \<Rightarrow> fault list" where
  "portalFaults s =
     fieldFaults ''providers'' (listFaults 0 None portalProviderFaults (poProviders s)) @
     fieldFaults ''tools'' (listFaults 0 None portalToolFaults (poTools s)) @
     fieldFaults ''builtInTools'' (listFaults 0 None toolNameFaults (poBuiltInTools s))"

definition writeGetPortal :: "jxLibrary \<Rightarrow> portal response \<Rightarrow> written result" where
  "writeGetPortal jx = writeAnswer jx 200 [] portalFaults (encodePortal jx) [ServiceUnavailable] False"

definition writeGetReadiness :: "jxLibrary \<Rightarrow> unit response \<Rightarrow> written result" where
  "writeGetReadiness jx = writeAnswer jx 200 [] noFaults (\<lambda>_. encodeHealth jx ''ok'') [ServiceUnavailable] False"

definition writeListRecentEvents :: "jxLibrary \<Rightarrow> apiStreamEvent list response \<Rightarrow> written result" where
  "writeListRecentEvents jx =
     writeAnswer jx 200 [] recentEventsFaults (encodeRecentEvents jx) [BadRequest, NotFound, ServiceUnavailable] False"

definition writeReadEvent :: "jxLibrary \<Rightarrow> apiStreamEvent response \<Rightarrow> written result" where
  "writeReadEvent jx =
     writeAnswer jx 200 [] streamEventFaults (encodeStreamEvent jx) [BadRequest, NotFound, Gone, ServiceUnavailable] True"

definition writeResolveToolRecovery :: "jxLibrary \<Rightarrow> unit response \<Rightarrow> written result" where
  "writeResolveToolRecovery jx = writeAnswer jx 202 [] noFaults (\<lambda>_. encodeAccepted jx True) commandFailures False"

definition writeSendMessage :: "jxLibrary \<Rightarrow> unit response \<Rightarrow> written result" where
  "writeSendMessage jx = writeAnswer jx 202 [] noFaults (\<lambda>_. encodeAccepted jx True) commandFailures False"

definition writeStartAgent :: "jxLibrary \<Rightarrow> string response \<Rightarrow> written result" where
  "writeStartAgent jx =
     writeAnswer jx 201 [] (\<lambda>flowID. fieldFaults ''flowId'' (flowIDFaults flowID)) (encodeStartAgentResponse jx)
       [BadRequest, Conflict, ServiceUnavailable] False"

definition writeSteerQueuedMessage :: "jxLibrary \<Rightarrow> (string \<times> string) response \<Rightarrow> written result" where
  "writeSteerQueuedMessage jx =
     writeAnswer jx 200 [] queueMutationResponseFaults (encodeQueueMutationResponse jx) commandFailures False"

definition writeWaitForWaitingInputRound :: "jxLibrary \<Rightarrow> int response \<Rightarrow> written result" where
  "writeWaitForWaitingInputRound jx =
     writeAnswer jx 200 [] (\<lambda>round. fieldFaults ''waitingInputRound'' (waitingInputRoundFaults round))
       (encodeWaitingInputRoundState jx) commandFailures False"

section \<open>Parameters\<close>

definition badParameter :: goError where "badParameter = External ''*ogenerrors.DecodeParamError''"

text \<open>A required parameter, and one with a default: found, converted, validated.\<close>

definition readValue :: "(string \<Rightarrow> 'a result) \<Rightarrow> ('a \<Rightarrow> fault list) \<Rightarrow> string result \<Rightarrow> 'a result" where
  "readValue convert faults r =
     (case r of
        Inl e \<Rightarrow> Inl badParameter
      | Inr text \<Rightarrow>
          (case convert text of
             Inl e \<Rightarrow> Inl badParameter
           | Inr x \<Rightarrow> if faults x = [] then Inr x else Inl badParameter))"

definition requiredParameter :: "httpRequest \<Rightarrow> string \<Rightarrow> (string \<Rightarrow> 'a result) \<Rightarrow> ('a \<Rightarrow> fault list) \<Rightarrow> 'a result" where
  "requiredParameter request name convert faults =
     (case rqQuery request name of None \<Rightarrow> Inl badParameter | Some r \<Rightarrow> readValue convert faults r)"

definition optionalParameter ::
    "httpRequest \<Rightarrow> string \<Rightarrow> (string \<Rightarrow> 'a result) \<Rightarrow> ('a \<Rightarrow> fault list) \<Rightarrow> 'a option \<Rightarrow> 'a option result" where
  "optionalParameter request name convert faults absent =
     (case rqQuery request name of
        None \<Rightarrow> Inr absent
      | Some r \<Rightarrow> onResult Some (readValue convert faults r))"

definition limitFaults :: "int \<Rightarrow> fault list" where
  "limitFaults l = unless (10 \<le> l \<and> l \<le> 200 \<and> rem64 l 10 = 0)"

definition paramsOfGetAgentSnapshot :: "httpRequest \<Rightarrow> string result" where
  "paramsOfGetAgentSnapshot request = requiredParameter request ''flowId'' Inr flowIDFaults"

definition paramsOfGetArchivedMessages :: "apiLibrary \<Rightarrow> httpRequest \<Rightarrow> (string \<times> int \<times> int option) result" where
  "paramsOfGetArchivedMessages lib request =
     (case requiredParameter request ''flowId'' Inr flowIDFaults of Inl e \<Rightarrow> Inl e | Inr flowID \<Rightarrow>
      case requiredParameter request ''beforeSequence'' (alInt64 lib) sequenceFaults of Inl e \<Rightarrow> Inl e | Inr before \<Rightarrow>
      case optionalParameter request ''limit'' (alInt lib) limitFaults (Some 10) of Inl e \<Rightarrow> Inl e | Inr limit \<Rightarrow>
      Inr (flowID, before, limit))"

definition paramsOfListRecentEvents :: "httpRequest \<Rightarrow> (string \<times> string) result" where
  "paramsOfListRecentEvents request =
     (case requiredParameter request ''flowId'' Inr flowIDFaults of Inl e \<Rightarrow> Inl e | Inr flowID \<Rightarrow>
      case requiredParameter request ''stream'' Inr eventStreamFaults of Inl e \<Rightarrow> Inl e | Inr stream \<Rightarrow>
      Inr (flowID, stream))"

definition paramsOfReadEvent :: "httpRequest \<Rightarrow> (string \<times> string \<times> string option) result" where
  "paramsOfReadEvent request =
     (case requiredParameter request ''flowId'' Inr flowIDFaults of Inl e \<Rightarrow> Inl e | Inr flowID \<Rightarrow>
      case requiredParameter request ''stream'' Inr eventStreamFaults of Inl e \<Rightarrow> Inl e | Inr stream \<Rightarrow>
      case optionalParameter request ''resumeToken'' Inr resumeTokenFaults None of Inl e \<Rightarrow> Inl e | Inr token \<Rightarrow>
      Inr (flowID, stream, token))"

definition paramsOfWaitForWaitingInputRound :: "apiLibrary \<Rightarrow> httpRequest \<Rightarrow> (string \<times> int) result" where
  "paramsOfWaitForWaitingInputRound lib request =
     (case requiredParameter request ''flowId'' Inr flowIDFaults of Inl e \<Rightarrow> Inl e | Inr flowID \<Rightarrow>
      case requiredParameter request ''afterWaitingInputRound'' (alInt64 lib) waitingInputRoundFaults of Inl e \<Rightarrow> Inl e | Inr after \<Rightarrow>
      Inr (flowID, after))"

section \<open>Serving an operation\<close>

text \<open>
  What every generated handler does: it decodes the request, calls the handler and writes the answer;
  any error on the way is answered by the error handler.
\<close>

definition operate ::
    "jxLibrary \<Rightarrow> 'q result \<Rightarrow> ('q \<Rightarrow> ('w, 'a response) io) \<Rightarrow> ('a response \<Rightarrow> written result) \<Rightarrow> 'w \<Rightarrow> (written \<times> 'w) option" where
  "operate jx decoded operation write w =
     (case decoded of
        Inl e \<Rightarrow> Some (rejectedByContract jx, w)
      | Inr q \<Rightarrow>
          map_option (\<lambda>(r, w').
            (case r of
               Inl e \<Rightarrow> rejectedByContract jx
             | Inr response \<Rightarrow> (case write response of Inl e \<Rightarrow> rejectedByContract jx | Inr answer \<Rightarrow> answer), w'))
            (operation q w))"

text \<open>\<open>ctxError\<close> is the error of the request's context, where the connection ended or a deadline passed.\<close>

definition serveRead ::
    "apiLibrary \<Rightarrow> 'w handler \<Rightarrow> goError option \<Rightarrow> string \<Rightarrow> httpRequest \<Rightarrow> 'w \<Rightarrow> (written \<times> 'w) option" where
  "serveRead lib handler ctxError op request =
     (let jx = alJx lib in
      if op = ''GetHealth'' then operate jx (Inr ()) (\<lambda>_. returnIO (Answer ())) (writeGetHealth jx)
      else if op = ''GetReadiness'' then operate jx (Inr ()) (\<lambda>_. returnIO (getReadiness handler)) (writeGetReadiness jx)
      else if op = ''GetPortal'' then operate jx (Inr ()) (\<lambda>_. returnIO (Answer (getPortal handler))) (writeGetPortal jx)
      else if op = ''GetAgentSnapshot''
      then operate jx (paramsOfGetAgentSnapshot request) (apiGetAgentSnapshot handler) (writeGetAgentSnapshot jx)
      else if op = ''GetArchivedMessages''
      then operate jx (paramsOfGetArchivedMessages lib request)
        (\<lambda>(flowID, before, limit). apiGetArchivedMessages handler flowID before limit) (writeGetArchivedMessages jx)
      else if op = ''ListRecentEvents''
      then operate jx (paramsOfListRecentEvents request)
        (\<lambda>(flowID, stream). apiListRecentEvents handler flowID stream) (writeListRecentEvents jx)
      else if op = ''ReadEvent''
      then operate jx (paramsOfReadEvent request)
        (\<lambda>(flowID, stream, token). apiReadEvent handler ctxError flowID stream token) (writeReadEvent jx)
      else operate jx (paramsOfWaitForWaitingInputRound lib request)
        (\<lambda>(flowID, after). apiWaitForWaitingInputRound handler ctxError flowID after) (writeWaitForWaitingInputRound jx))"

definition serveCommand ::
    "apiLibrary \<Rightarrow> 'w handler \<Rightarrow> string \<Rightarrow> httpBody \<Rightarrow> 'w \<Rightarrow> (written \<times> 'w) option" where
  "serveCommand lib handler op body =
     (let jx = alJx lib in
      if op = ''StartAgent'' then operate jx (bodyOfStartAgent jx body) (startAgent handler) (writeStartAgent jx)
      else if op = ''SendMessage''
      then operate jx (bodyOfSendMessage jx body) (apiSendMessage handler) (writeSendMessage jx)
      else if op = ''AnswerQuestions''
      then operate jx (bodyOfAnswerQuestions jx body) (apiAnswerQuestions handler) (writeAnswerQuestions jx)
      else if op = ''DeleteQueuedMessage''
      then operate jx (bodyOfDeleteQueuedMessage jx body)
        (\<lambda>(flowID, messageID). apiDeleteQueuedMessage handler flowID messageID) (writeDeleteQueuedMessage jx)
      else if op = ''SteerQueuedMessage''
      then operate jx (bodyOfSteerQueuedMessage jx body)
        (\<lambda>(flowID, messageID). apiSteerQueuedMessage handler flowID messageID) (writeSteerQueuedMessage jx)
      else if op = ''ExecutePlan''
      then operate jx (bodyOfExecutePlan jx body)
        (\<lambda>(flowID, revision). apiExecutePlan handler flowID revision) (writeExecutePlan jx)
      else if op = ''ApproveTool''
      then operate jx (bodyOfApproveTool jx body)
        (\<lambda>(flowID, callID, approved). apiApproveTool handler flowID callID approved) (writeApproveTool jx)
      else operate jx (bodyOfResolveToolRecovery jx body) (apiResolveToolRecovery handler) (writeResolveToolRecovery jx))"

section \<open>The server\<close>

text \<open>\<^verbatim>\<open>http.MaxBytesReader\<close>: reading more than the bound fails.\<close>

definition maximumRequestBodyBytes :: nat where "maximumRequestBodyBytes = 2097152"

definition boundedBody :: "httpBody \<Rightarrow> httpBody" where
  "boundedBody body =
     (case bdBytes body of
        Inl e \<Rightarrow> body
      | Inr bytes \<Rightarrow>
          if length bytes > maximumRequestBodyBytes then body\<lparr>bdBytes := Inl (External ''*http.MaxBytesError'')\<rparr> else body)"

definition serveApiRequest ::
    "apiLibrary \<Rightarrow> 'w handler \<Rightarrow> goError option \<Rightarrow> httpRequest \<Rightarrow> 'w \<Rightarrow> (written \<times> 'w) option" where
  "serveApiRequest lib handler ctxError request w =
     (case serveHTTP [] (rqMethod request) (rqPath request) of
        NoRoute \<Rightarrow> Some (resourceNotFound (alJx lib), w)
      | NotAllowed allowed \<Rightarrow> Some (methodNotAllowed (alJx lib) request allowed, w)
      | Handled op \<Rightarrow>
          if rqMethod request = ''GET'' then serveRead lib handler ctxError op request w
          else serveCommand lib handler op (boundedBody (rqBody request)) w)"

section \<open>CORS\<close>

definition supportsCORSMethod :: "string \<Rightarrow> bool" where
  "supportsCORSMethod m \<longleftrightarrow> m = ''GET'' \<or> m = ''POST''"

fun splitOn :: "char \<Rightarrow> string \<Rightarrow> string list" where
  "splitOn c [] = [[]]"
| "splitOn c (x # xs) =
     (if x = c then [] # splitOn c xs
      else (case splitOn c xs of [] \<Rightarrow> [[x]] | part # parts \<Rightarrow> (x # part) # parts))"

definition supportsCORSHeaders :: "string \<Rightarrow> bool" where
  "supportsCORSHeaders headers \<longleftrightarrow>
     trimSpace headers = [] \<or> list_all (\<lambda>h. equalFold (trimSpace h) ''Content-Type'') (splitOn (CHR '','') headers)"

definition isCORSPreflight :: "httpRequest \<Rightarrow> bool" where
  "isCORSPreflight request \<longleftrightarrow> rqMethod request = ''OPTIONS'' \<and> rqRequestMethod request \<noteq> []"

definition reject :: "jxLibrary \<Rightarrow> string \<Rightarrow> written" where
  "reject jx detail = writeProblem jx 403 ''Forbidden'' detail"

definition preflightAllowed :: written where
  "preflightAllowed = \<lparr>wrStatus = 204,
     wrHeaders = [(''Access-Control-Allow-Methods'', ''GET, POST''), (''Access-Control-Allow-Headers'', ''Content-Type''),
       (''Access-Control-Max-Age'', ''600''), (''Vary'', ''Access-Control-Request-Method''),
       (''Vary'', ''Access-Control-Request-Headers'')],
     wrBody = None\<rparr>"

definition serveCORS ::
    "apiLibrary \<Rightarrow> string list \<Rightarrow> 'w handler \<Rightarrow> goError option \<Rightarrow> httpRequest \<Rightarrow> 'w \<Rightarrow> (written \<times> 'w) option" where
  "serveCORS lib allowedOrigins handler ctxError request w =
     (let jx = alJx lib; next = serveApiRequest lib handler ctxError request w in
      case rqOrigins request of
        [] \<Rightarrow> next
      | [origin] \<Rightarrow>
          let vary = [(''Vary'', ''Origin'')]; allow = vary @ [(''Access-Control-Allow-Origin'', origin)] in
          if origin \<notin> set allowedOrigins
          then Some (withHeaders vary (reject jx ''the request origin is not allowed''), w)
          else if \<not> isCORSPreflight request then map_option (\<lambda>(answer, w'). (withHeaders allow answer, w')) next
          else if \<not> supportsCORSMethod (rqRequestMethod request)
          then Some (withHeaders allow (reject jx ''the requested cross-origin method is not allowed''), w)
          else if \<not> supportsCORSHeaders (rqRequestHeaders request)
          then Some (withHeaders allow (reject jx ''the requested cross-origin headers are not allowed''), w)
          else Some (withHeaders allow preflightAllowed, w)
      | _ \<Rightarrow> Some (reject jx ''exactly one Origin header is required'', w))"

section \<open>Answers name no origin\<close>

definition namesOrigin :: "written \<Rightarrow> bool" where
  "namesOrigin answer \<longleftrightarrow> ''Access-Control-Allow-Origin'' \<in> fst ` set (wrHeaders answer)"

lemma namesOrigin_withHeaders [simp]:
  "namesOrigin (withHeaders hs answer) \<longleftrightarrow> ''Access-Control-Allow-Origin'' \<in> fst ` set hs \<or> namesOrigin answer"
  by (auto simp: namesOrigin_def withHeaders_def)

lemma problems_name_no_origin [simp]:
  "\<not> namesOrigin (writeProblem jx status title detail)" "\<not> namesOrigin (rejectedByContract jx)"
  "\<not> namesOrigin (resourceNotFound jx)" "\<not> namesOrigin (reject jx detail)" "\<not> namesOrigin preflightAllowed"
  by (simp_all add: namesOrigin_def writeProblem_def rejectedByContract_def resourceNotFound_def reject_def preflightAllowed_def)

lemma methodNotAllowed_names_no_origin [simp]: "\<not> namesOrigin (methodNotAllowed jx request allowed)"
  by (auto simp: namesOrigin_def methodNotAllowed_def allowHeaders_def withHeaders_def writeProblem_def)

definition silent :: "('a response \<Rightarrow> written result) \<Rightarrow> bool" where
  "silent write \<longleftrightarrow> (\<forall>response answer. write response = Inr answer \<longrightarrow> \<not> namesOrigin answer)"

lemma silent_writeAnswer:
  "''Access-Control-Allow-Origin'' \<notin> fst ` set hs \<Longrightarrow> silent (writeAnswer jx status hs faults encode failures polls)"
  by (auto simp: namesOrigin_def silent_def writeAnswer_def jsonHeaders_def image_Un split: response.splits if_splits)

lemmas writers = writeAnswerQuestions_def writeApproveTool_def writeDeleteQueuedMessage_def writeExecutePlan_def
  writeGetAgentSnapshot_def writeGetArchivedMessages_def writeGetHealth_def writeGetPortal_def writeGetReadiness_def
  writeListRecentEvents_def writeReadEvent_def writeResolveToolRecovery_def writeSendMessage_def writeStartAgent_def
  writeSteerQueuedMessage_def writeWaitForWaitingInputRound_def

lemma silent_writers [simp]:
  "silent (writeAnswerQuestions jx)" "silent (writeApproveTool jx)" "silent (writeDeleteQueuedMessage jx)"
  "silent (writeExecutePlan jx)" "silent (writeGetAgentSnapshot jx)" "silent (writeGetArchivedMessages jx)"
  "silent (writeGetHealth jx)" "silent (writeGetPortal jx)" "silent (writeGetReadiness jx)"
  "silent (writeListRecentEvents jx)" "silent (writeReadEvent jx)" "silent (writeResolveToolRecovery jx)"
  "silent (writeSendMessage jx)" "silent (writeStartAgent jx)" "silent (writeSteerQueuedMessage jx)"
  "silent (writeWaitForWaitingInputRound jx)"
  unfolding writers noStore_def by (rule silent_writeAnswer; simp)+

lemma operate_names_no_origin:
  fixes operation :: "'q \<Rightarrow> ('w, 'a response) io"
  assumes "operate jx decoded operation write w = Some (answer, w')" and "silent write"
  shows "\<not> namesOrigin answer"
proof (cases decoded)
  case Inl
  with assms(1) show ?thesis by (auto simp: operate_def)
next
  case (Inr q)
  with assms(1) obtain r :: "'a response result" where "answer =
      (case r of Inl e \<Rightarrow> rejectedByContract jx
       | Inr response \<Rightarrow> (case write response of Inl e \<Rightarrow> rejectedByContract jx | Inr written \<Rightarrow> written))"
    by (auto simp: operate_def)
  with assms(2) show ?thesis by (auto simp: silent_def split: sum.split)
qed

lemma serveRead_names_no_origin:
  "serveRead lib handler ctxError op request w = Some (answer, w') \<Longrightarrow> \<not> namesOrigin answer"
  by (auto simp: serveRead_def Let_def split: if_splits dest!: operate_names_no_origin)

lemma serveCommand_names_no_origin:
  "serveCommand lib handler op body w = Some (answer, w') \<Longrightarrow> \<not> namesOrigin answer"
  by (auto simp: serveCommand_def Let_def split: if_splits dest!: operate_names_no_origin)

lemma served_name_no_origin:
  "serveApiRequest lib handler ctxError request w = Some (answer, w') \<Longrightarrow> \<not> namesOrigin answer"
  by (auto simp: serveApiRequest_def split: dispatch.splits if_splits
    dest: serveRead_names_no_origin serveCommand_names_no_origin)

section \<open>The gate\<close>

lemma unserved:
  assumes "serveApiRequest lib handler ctxError request w = Some (answer, w')" and "w' \<noteq> w"
  shows "\<exists>op i. map_of documented (rqPath request) = Some (rqMethod request, op, i)"
  using assms serveHTTP_documented [of "[]" "rqMethod request" "rqPath request"]
  by (auto simp: serveApiRequest_def split: option.splits prod.splits if_splits)

text \<open>
  C22. The gate in front of the API: a request with an Origin header changes the world only if it has
  exactly one, which is configured, and any request only if the OpenAPI document has its path with
  its method; in particular a preflight changes nothing. A response allows an origin only if
  it is the request's one origin and is configured, whatever the API answers behind the
  gate; any other origin gets 403.
\<close>

theorem origins_are_gated:
  assumes "serveCORS lib allowedOrigins handler ctxError request w = Some (answer, w')"
  shows "(w' = w \<or>
      (rqOrigins request = [] \<or> (\<exists>origin. rqOrigins request = [origin] \<and> origin \<in> set allowedOrigins)) \<and>
      (\<exists>op i. map_of documented (rqPath request) = Some (rqMethod request, op, i))) \<and>
    (\<forall>origin. (''Access-Control-Allow-Origin'', origin) \<notin> set (wrHeaders answer) \<or>
      rqOrigins request = [origin] \<and> origin \<in> set allowedOrigins) \<and>
    (rqOrigins request = [] \<or> (\<exists>origin. rqOrigins request = [origin] \<and> origin \<in> set allowedOrigins) \<or>
      wrStatus answer = 403)"
proof (cases "rqOrigins request" rule: remdups_adj.cases)
  case 1
  with assms unserved [of lib handler ctxError request w answer w'] served_name_no_origin [of lib handler ctxError request w answer w']
  show ?thesis by (force simp: serveCORS_def Let_def namesOrigin_def)
next
  case (2 origin)
  show ?thesis
  proof (cases "origin \<in> set allowedOrigins \<and> \<not> isCORSPreflight request")
    case True
    with assms 2 obtain inner where inner: "serveApiRequest lib handler ctxError request w = Some (inner, w')"
      "answer = withHeaders [(''Vary'', ''Origin''), (''Access-Control-Allow-Origin'', origin)] inner"
      by (auto simp: serveCORS_def Let_def)
    with True 2 unserved [OF inner(1)] served_name_no_origin [OF inner(1)] show ?thesis
      by (force simp: withHeaders_def namesOrigin_def)
  next
    case False
    with assms 2 show ?thesis
      by (auto simp: serveCORS_def Let_def withHeaders_def reject_def writeProblem_def preflightAllowed_def split: if_splits)
  qed
next
  case (3 a b rest)
  with assms show ?thesis by (auto simp: serveCORS_def Let_def reject_def writeProblem_def)
qed

text \<open>A request to steer a queued message, as a web page of \<open>origin\<close> posts it.\<close>

definition steerText :: string where
  "steerText = ''{'' @ jsonString ''flowId'' @ '':'' @ jsonString ''agent-1'' @ '','' @
     jsonString ''messageId'' @ '':'' @ jsonString ''m-1'' @ ''}''"

definition steerRequest :: "string \<Rightarrow> httpRequest" where
  "steerRequest origin = \<lparr>rqMethod = ''POST'', rqPath = ''/products/ai-agent/message-queue/steer'', rqOrigins = [origin],
     rqRequestMethod = [], rqRequestHeaders = [], rqQuery = (\<lambda>name. None),
     rqBody = \<lparr>bdMediaType = Inr ''application/json'', bdLength = int (length steerText), bdBytes = Inr steerText\<rparr>\<rparr>"

definition exampleApi :: apiLibrary where
  "exampleApi = \<lparr>alJx = exampleJx\<lparr>jxParse := (\<lambda>text. if text = steerText
       then Inr (JObj [(''flowId'', JStr ''agent-1''), (''messageId'', JStr ''m-1'')]) else Inl unexpectedType)\<rparr>,
     alInt = (\<lambda>text. Inr (readDecimal text)), alInt64 = (\<lambda>text. Inr (readDecimal text))\<rparr>"

lemma foreign_origin_answered:
  "map_option (wrStatus \<circ> fst) (serveCORS exampleApi [''https://app.example''] exampleHandler None
     (steerRequest ''https://other.example'') exampleServed) = Some 403"
  by (simp add: serveCORS_def Let_def steerRequest_def withHeaders_def reject_def writeProblem_def)

theorem origins_are_gated_witness:
  "\<exists>answer. serveCORS exampleApi [''https://app.example''] exampleHandler None
      (steerRequest ''https://other.example'') exampleServed = Some (answer, exampleServed) \<and> wrStatus answer = 403"
proof -
  from foreign_origin_answered obtain answer w' where
    run: "serveCORS exampleApi [''https://app.example''] exampleHandler None
      (steerRequest ''https://other.example'') exampleServed = Some (answer, w')" by auto
  from origins_are_gated [OF this] run show ?thesis by (auto simp: steerRequest_def)
qed

section \<open>From a request to a transaction\<close>

definition commandOfBody :: "jxLibrary \<Rightarrow> string \<Rightarrow> httpBody \<Rightarrow> apiCommand option" where
  "commandOfBody jx op body =
     (let posted = (\<lambda>r. case r of Inl e \<Rightarrow> None | Inr c \<Rightarrow> Some c) in
      if op = ''SendMessage'' then posted (onResult PostMessage (bodyOfSendMessage jx body))
      else if op = ''AnswerQuestions'' then posted (onResult PostAnswers (bodyOfAnswerQuestions jx body))
      else if op = ''DeleteQueuedMessage''
      then posted (onResult (\<lambda>(flowID, messageID). PostDelete flowID messageID) (bodyOfDeleteQueuedMessage jx body))
      else if op = ''SteerQueuedMessage''
      then posted (onResult (\<lambda>(flowID, messageID). PostSteer flowID messageID) (bodyOfSteerQueuedMessage jx body))
      else if op = ''ExecutePlan''
      then posted (onResult (\<lambda>(flowID, revision). PostPlanExecution flowID revision) (bodyOfExecutePlan jx body))
      else if op = ''ApproveTool''
      then posted (onResult (\<lambda>(flowID, callID, approved). PostApproval flowID callID approved) (bodyOfApproveTool jx body))
      else if op = ''ResolveToolRecovery'' then posted (onResult PostRecovery (bodyOfResolveToolRecovery jx body))
      else None)"

text \<open>The paths of the commands on a Flow; starting one is not a command.\<close>

definition commandPath :: "string \<Rightarrow> string option" where
  "commandPath path =
     (case map_of documented path of
        None \<Rightarrow> None
      | Some (m, op, i) \<Rightarrow> if m = ''POST'' \<and> op \<noteq> ''StartAgent'' then Some op else None)"

text \<open>
  The command a request posts: nothing, when its method is not POST, or its body is too long, does not
  decode or does not satisfy the contract.
\<close>

definition postedCommand :: "jxLibrary \<Rightarrow> httpRequest \<Rightarrow> apiCommand option" where
  "postedCommand jx request =
     (case commandPath (rqPath request) of
        None \<Rightarrow> None
      | Some op \<Rightarrow> if rqMethod request = ''POST'' then commandOfBody jx op (boundedBody (rqBody request)) else None)"

text \<open>The server answers a command as the endpoint does.\<close>

definition statusAnd :: "(written \<times> 'w) option \<Rightarrow> (int \<times> 'w) option" where
  "statusAnd = map_option (\<lambda>(answer, w'). (wrStatus answer, w'))"

lemma rejected_status [simp]: "wrStatus (rejectedByContract jx) = 400" "statusOf contractViolation = 400"
  by (simp_all add: rejectedByContract_def writeProblem_def contractViolation_def)

lemma written_plainFailure:
  assumes "plainFailure r"
  shows "\<exists>answer. writeAnswer jx s hs faults encode commandFailures polls r = Inr answer \<and>
    wrStatus answer = statusOf (encodeResponse s faults (Inr r))"
  using assms
  by (cases r) (auto simp: plainFailure_def writeAnswer_def encodeResponse_def commandFailures_def)

lemma operate_posts:
  assumes operation: "operation q = handled call ok failed"
    and failed: "\<And>e. plainFailure (failed e)" and ok: "\<And>x. \<exists>y. ok x = Answer y"
  shows "statusAnd (operate jx (Inr q) operation (writeAnswer jx s hs faults encode commandFailures polls) w) =
    withStatus (httpOperation s faults [] (operation q) w)"
proof (cases "call w")
  case None
  then show ?thesis
    by (simp add: statusAnd_def withStatus_def operate_def httpOperation_def operation handled_def thenIO_apply)
next
  case (Some a)
  obtain r w' where a: "a = (r, w')" by (cases a)
  show ?thesis
  proof (cases r)
    case (Inl e)
    obtain written where "writeAnswer jx s hs faults encode commandFailures polls (failed e) = Inr written"
      "wrStatus written = statusOf (encodeResponse s faults (Inr (failed e)))"
      using written_plainFailure [OF failed] by blast
    with Inl Some a show ?thesis
      by (simp add: statusAnd_def withStatus_def operate_def httpOperation_def operation handled_def thenIO_apply)
  next
    case (Inr x)
    obtain y where y: "ok x = Answer y" using ok by blast
    with Inr Some a show ?thesis
      by (simp add: statusAnd_def withStatus_def operate_def httpOperation_def operation handled_def thenIO_apply
        writeAnswer_def encodeResponse_def)
  qed
qed

lemmas bodies = bodyOfSendMessage_def bodyOfAnswerQuestions_def bodyOfDeleteQueuedMessage_def bodyOfSteerQueuedMessage_def
  bodyOfExecutePlan_def bodyOfApproveTool_def bodyOfResolveToolRecovery_def

lemma operateSendMessage:
  "sendMessageRequestFaults r = [] \<Longrightarrow>
     statusAnd (operate jx (Inr r) (apiSendMessage handler) (writeSendMessage jx) w) = post handler (PostMessage r) w"
  unfolding writers
  by (rule trans [OF operate_posts], simp only: prod.case endpoints, simp_all add: endpoints)

lemma operateAnswerQuestions:
  "answerQuestionsRequestFaults r = [] \<Longrightarrow>
     statusAnd (operate jx (Inr r) (apiAnswerQuestions handler) (writeAnswerQuestions jx) w) = post handler (PostAnswers r) w"
  unfolding writers
  by (rule trans [OF operate_posts], simp only: prod.case endpoints, simp_all add: endpoints)

lemma operateDeleteQueuedMessage:
  "queueMutationFaults f m = [] \<Longrightarrow>
     statusAnd (operate jx (Inr (f, m)) (\<lambda>(flowID, messageID). apiDeleteQueuedMessage handler flowID messageID) (writeDeleteQueuedMessage jx) w) = post handler (PostDelete f m) w"
  unfolding writers
  by (rule trans [OF operate_posts], simp only: prod.case endpoints, simp_all add: endpoints)

lemma operateSteerQueuedMessage:
  "queueMutationFaults f m = [] \<Longrightarrow>
     statusAnd (operate jx (Inr (f, m)) (\<lambda>(flowID, messageID). apiSteerQueuedMessage handler flowID messageID) (writeSteerQueuedMessage jx) w) = post handler (PostSteer f m) w"
  unfolding writers
  by (rule trans [OF operate_posts], simp only: prod.case endpoints, simp_all add: endpoints)

lemma operateExecutePlan:
  "executePlanRequestFaults f n = [] \<Longrightarrow>
     statusAnd (operate jx (Inr (f, n)) (\<lambda>(flowID, revision). apiExecutePlan handler flowID revision) (writeExecutePlan jx) w) = post handler (PostPlanExecution f n) w"
  unfolding writers
  by (rule trans [OF operate_posts], simp only: prod.case endpoints, simp_all add: endpoints)

lemma operateApproveTool:
  "toolApprovalRequestFaults f c = [] \<Longrightarrow>
     statusAnd (operate jx (Inr (f, c, b)) (\<lambda>(flowID, callID, approved). apiApproveTool handler flowID callID approved) (writeApproveTool jx) w) = post handler (PostApproval f c b) w"
  unfolding writers
  by (rule trans [OF operate_posts], simp only: prod.case endpoints, simp_all add: endpoints)

lemma operateResolveToolRecovery:
  "resolveToolRecoveryRequestFaults r = [] \<Longrightarrow>
     statusAnd (operate jx (Inr r) (apiResolveToolRecovery handler) (writeResolveToolRecovery jx) w) = post handler (PostRecovery r) w"
  unfolding writers
  by (rule trans [OF operate_posts], simp only: prod.case endpoints, simp_all add: endpoints)

lemmas operates = operateSendMessage operateAnswerQuestions operateDeleteQueuedMessage operateSteerQueuedMessage operateExecutePlan operateApproveTool operateResolveToolRecovery

lemma bodies_valid:
  "bodyOfSendMessage jx body = Inr r1 \<Longrightarrow> sendMessageRequestFaults r1 = []"
  "bodyOfAnswerQuestions jx body = Inr r2 \<Longrightarrow> answerQuestionsRequestFaults r2 = []"
  "bodyOfDeleteQueuedMessage jx body = Inr (f, m) \<Longrightarrow> queueMutationFaults f m = []"
  "bodyOfSteerQueuedMessage jx body = Inr (f, m) \<Longrightarrow> queueMutationFaults f m = []"
  "bodyOfExecutePlan jx body = Inr (f, n) \<Longrightarrow> executePlanRequestFaults f n = []"
  "bodyOfApproveTool jx body = Inr (f, c, b) \<Longrightarrow> toolApprovalRequestFaults f c = []"
  "bodyOfResolveToolRecovery jx body = Inr r7 \<Longrightarrow> resolveToolRecoveryRequestFaults r7 = []"
  by (auto simp: bodies readBody_Inr)

lemma serveCommand_posts:
  assumes "commandOfBody (alJx lib) op body = Some cmd"
  shows "statusAnd (serveCommand lib handler op body w) = post handler cmd w"
  using assms
  by (auto simp: commandOfBody_def Let_def onResult_def serveCommand_def operates simp del: post.simps
    dest: bodies_valid split: if_splits sum.splits)

lemma commandPath_Some:
  "commandPath path = Some op \<longleftrightarrow> (\<exists>i. map_of documented path = Some (''POST'', op, i)) \<and> op \<noteq> ''StartAgent''"
  by (auto simp: commandPath_def split: option.splits if_splits)

lemma commandPath_names:
  assumes "commandPath path = Some op"
  shows "op \<in> {''SendMessage'', ''AnswerQuestions'', ''DeleteQueuedMessage'', ''SteerQueuedMessage'', ''ExecutePlan'',
    ''ApproveTool'', ''ResolveToolRecovery''}"
proof -
  from assms obtain i where "map_of documented path = Some (''POST'', op, i)" "op \<noteq> ''StartAgent''"
    by (auto simp: commandPath_Some)
  from map_of_SomeD [OF this(1)] this(2) show ?thesis by (auto simp: documented_def)
qed

text \<open>A body that is no command is rejected before the handler is called.\<close>

lemma serveCommand_rejects:
  assumes "commandOfBody (alJx lib) op body = None" and "commandPath path = Some op"
  shows "serveCommand lib handler op body w = Some (rejectedByContract (alJx lib), w)"
proof -
  note defs = commandOfBody_def serveCommand_def Let_def onResult_def operate_def
  from commandPath_names [OF assms(2)] show ?thesis
    unfolding insert_iff empty_iff
  proof (elim disjE FalseE)
    assume "op = ''SendMessage''"
    with assms(1) show ?thesis by (cases "bodyOfSendMessage (alJx lib) body") (simp_all add: defs)
  next
    assume "op = ''AnswerQuestions''"
    with assms(1) show ?thesis by (cases "bodyOfAnswerQuestions (alJx lib) body") (simp_all add: defs)
  next
    assume "op = ''DeleteQueuedMessage''"
    with assms(1) show ?thesis by (cases "bodyOfDeleteQueuedMessage (alJx lib) body") (simp_all add: defs)
  next
    assume "op = ''SteerQueuedMessage''"
    with assms(1) show ?thesis by (cases "bodyOfSteerQueuedMessage (alJx lib) body") (simp_all add: defs)
  next
    assume "op = ''ExecutePlan''"
    with assms(1) show ?thesis by (cases "bodyOfExecutePlan (alJx lib) body") (simp_all add: defs)
  next
    assume "op = ''ApproveTool''"
    with assms(1) show ?thesis by (cases "bodyOfApproveTool (alJx lib) body") (simp_all add: defs)
  next
    assume "op = ''ResolveToolRecovery''"
    with assms(1) show ?thesis by (cases "bodyOfResolveToolRecovery (alJx lib) body") (simp_all add: defs)
  qed
qed

lemma served_unposted:
  assumes "commandPath (rqPath request) = Some op" and "postedCommand (alJx lib) request = None"
    and "serveApiRequest lib handler ctxError request w = Some (answer, w')"
  shows "w' = w \<and> wrStatus answer \<in> {400, 405}"
proof -
  from assms(1) obtain i where "map_of documented (rqPath request) = Some (''POST'', op, i)" by (auto simp: commandPath_Some)
  then have route: "serveHTTP [] (rqMethod request) (rqPath request) =
      (if rqMethod request = ''POST'' then Handled op else NotAllowed ''POST'')"
    using serveHTTP_documented [of "[]" "rqMethod request" "rqPath request"] by simp
  show ?thesis
  proof (cases "rqMethod request = ''POST''")
    case True
    with assms(1,2) have "commandOfBody (alJx lib) op (boundedBody (rqBody request)) = None" by (simp add: postedCommand_def)
    from serveCommand_rejects [OF this assms(1), of handler w] assms(3) route True
    have "answer = rejectedByContract (alJx lib)" "w' = w" by (auto simp: serveApiRequest_def)
    then show ?thesis by simp
  next
    case False
    with assms(3) route show ?thesis
      by (auto simp: serveApiRequest_def methodNotAllowed_def withHeaders_def writeProblem_def)
  qed
qed

lemma unposted_gated:
  assumes "commandPath (rqPath request) = Some op" and "postedCommand (alJx lib) request = None"
    and "serveCORS lib allowedOrigins handler ctxError request w = Some (answer, w')"
  shows "w' = w \<and> wrStatus answer \<in> {204, 400, 403, 405}"
  using assms(3) served_unposted [OF assms(1,2), of handler ctxError w]
  by (auto simp: serveCORS_def Let_def withHeaders_def reject_def writeProblem_def preflightAllowed_def
    split: list.splits if_splits)

text \<open>Nothing but the gate stands between a request and its command.\<close>

lemma posted_served:
  assumes "postedCommand (alJx lib) request = Some cmd"
  shows "statusAnd (serveApiRequest lib handler ctxError request w) = post handler cmd w"
  using assms serveHTTP_documented [of "[]" "rqMethod request" "rqPath request"]
    serveCommand_posts [of lib _ "boundedBody (rqBody request)" cmd handler w]
  by (auto simp: postedCommand_def commandPath_Some serveApiRequest_def split: option.splits if_splits)

lemma posted_gated:
  assumes "postedCommand (alJx lib) request = Some cmd"
    and "serveCORS lib allowedOrigins handler ctxError request w = Some (answer, w')"
  shows "post handler cmd w = Some (wrStatus answer, w') \<or> wrStatus answer = 403 \<and> w' = w"
proof -
  have posted: "\<not> isCORSPreflight request"
    using assms(1) by (auto simp: postedCommand_def isCORSPreflight_def split: option.splits if_splits)
  show ?thesis
    using assms(2) posted_served [OF assms(1), of handler ctxError w] posted
    by (auto simp: serveCORS_def Let_def statusAnd_def withHeaders_def reject_def writeProblem_def
      split: list.splits if_splits)
qed

text \<open>The endpoint of a command with a valid request does not reject it.\<close>

fun commandFaults :: "apiCommand \<Rightarrow> fault list" where
  "commandFaults (PostMessage r) = sendMessageRequestFaults r"
| "commandFaults (PostAnswers r) = answerQuestionsRequestFaults r"
| "commandFaults (PostDelete f m) = queueMutationFaults f m"
| "commandFaults (PostSteer f m) = queueMutationFaults f m"
| "commandFaults (PostPlanExecution f n) = executePlanRequestFaults f n"
| "commandFaults (PostApproval f c b) = toolApprovalRequestFaults f c"
| "commandFaults (PostRecovery r) = resolveToolRecoveryRequestFaults r"

lemma commandOfBody_valid: "commandOfBody jx op body = Some cmd \<Longrightarrow> commandFaults cmd = []"
  by (auto simp: commandOfBody_def Let_def onResult_def dest: bodies_valid split: if_splits sum.splits)

lemma http_answers:
  assumes "withStatus (httpOperation s faults [] (handled call ok failed) w) = Some (status, w')"
    and "\<And>e. plainFailure (failed e)" and "\<And>x. \<exists>y. ok x = Answer y \<and> faults y = []"
  shows "status \<in> {s, 404, 409, 503}"
proof -
  from assms(1) obtain r where r: "call w = Some (r, w')"
    "status = statusOf (encodeResponse s faults (Inr (case r of Inl e \<Rightarrow> failed e | Inr x \<Rightarrow> ok x)))"
    by (auto simp: withStatus_def httpOperation_def handled_def thenIO_apply split: option.splits)
  show ?thesis
  proof (cases r)
    case (Inl e)
    with r(2) encode_plainFailure [OF assms(2), of s faults e] show ?thesis by auto
  next
    case (Inr x)
    with assms(3) [of x] r show ?thesis by (auto simp: encodeResponse_def)
  qed
qed

lemma valid_post:
  assumes "post handler cmd w = Some (status, w')" and "commandFaults cmd = []"
  shows "status \<in> {200, 202, 404, 409, 503}"
  using assms
  by (cases cmd) (auto simp: endpoints noFaults_def queue_answer_valid dest!: http_answers)

text \<open>
  C21. From the bytes of an HTTP request to the durable store, on the paths of the commands. A request
  that posts a command (its body within the bound decodes and satisfies the contract) is answered
  with 200 or 202 only if exactly one transaction executed this command on its Flow and the Flow
  accepted it; it is refused at the gate with 403, and then nothing was executed; otherwise its
  status is 404, 409 or 503. Any other request on such a path (another method, a preflight, a body that
  is too long, is not JSON or violates the contract) changes nothing and is answered with 204, 400,
  403 or 405.
\<close>

theorem requests_become_transactions:
  assumes "dexService (clSdk (hdAgent handler)) flow executed"
    and "commandPath (rqPath request) = Some name"
    and "serveCORS lib allowedOrigins handler ctxError request w = Some (answer, w')"
  shows "case postedCommand (alJx lib) request of
      None \<Rightarrow> w' = w \<and> wrStatus answer \<in> {204, 400, 403, 405}
    | Some cmd \<Rightarrow>
        (wrStatus answer \<in> {200, 202} \<longrightarrow>
           (\<exists>i. decidedOnce flow (fst (requested cmd)) (commandOf (snd (requested cmd)) i) True (executed w) (executed w'))) \<and>
        (wrStatus answer = 403 \<longrightarrow> w' = w) \<and>
        wrStatus answer \<in> {200, 202, 403, 404, 409, 503}"
proof (cases "postedCommand (alJx lib) request")
  case None
  with unposted_gated [OF assms(2) None assms(3)] show ?thesis by simp
next
  case (Some cmd)
  then have valid: "commandFaults cmd = []"
    by (auto simp: postedCommand_def intro: commandOfBody_valid split: option.splits if_splits)
  from posted_gated [OF Some assms(3)] show ?thesis
  proof
    assume run: "post handler cmd w = Some (wrStatus answer, w')"
    from status_tells_outcome [OF assms(1) run, of "fst (requested cmd)" "snd (requested cmd)"] valid_post [OF run valid] Some
    show ?thesis by auto
  qed (simp add: Some)
qed

lemma steer_body:
  "boundedBody (rqBody (steerRequest origin)) = rqBody (steerRequest origin)"
  "bodyOfSteerQueuedMessage (alJx exampleApi) (rqBody (steerRequest origin)) = Inr (''agent-1'', ''m-1'')"
proof -
  have "length steerText = 38" by code_simp
  then show "boundedBody (rqBody (steerRequest origin)) = rqBody (steerRequest origin)"
    by (simp add: boundedBody_def steerRequest_def maximumRequestBodyBytes_def)
  have "steerText \<noteq> []" by (simp add: steerText_def)
  moreover have "decodeQueueMutationRequest (alJx exampleApi) (JObj [(''flowId'', JStr ''agent-1''), (''messageId'', JStr ''m-1'')])
      ([], []) = Inr (''agent-1'', ''m-1'')" by code_simp
  moreover have "queueMutationFaults ''agent-1'' ''m-1'' = []" by code_simp
  ultimately show "bodyOfSteerQueuedMessage (alJx exampleApi) (rqBody (steerRequest origin)) = Inr (''agent-1'', ''m-1'')"
    by (simp add: bodyOfSteerQueuedMessage_def readBody_Inr steerRequest_def exampleApi_def)
qed

lemma steer_path: "commandPath (rqPath (steerRequest origin)) = Some ''SteerQueuedMessage''"
  by (simp add: commandPath_def documented_def steerRequest_def)

lemma steer_request_posted:
  "postedCommand (alJx exampleApi) (steerRequest origin) = Some (PostSteer ''agent-1'' ''m-1'')"
  unfolding postedCommand_def steer_path steer_body
  by (simp add: commandOfBody_def onResult_def steer_body) (simp add: steerRequest_def)

lemma steer_request_served:
  "\<exists>answer w'. serveCORS exampleApi [''https://app.example''] exampleHandler None
     (steerRequest ''https://app.example'') exampleServed = Some (answer, w') \<and> wrStatus answer = 200"
proof -
  from exampleHandler_steers obtain w' where
    "post exampleHandler (PostSteer ''agent-1'' ''m-1'') exampleServed = Some (200, w')" by auto
  with posted_served [OF steer_request_posted
    [of "''https://app.example''"], where handler = exampleHandler and ctxError = None and w = exampleServed]
  have "statusAnd (serveApiRequest exampleApi exampleHandler None (steerRequest ''https://app.example'') exampleServed) =
    Some (200, w')" by simp
  then show ?thesis
    by (auto simp: serveCORS_def Let_def steerRequest_def isCORSPreflight_def statusAnd_def withHeaders_def)
qed

theorem requests_become_transactions_witness:
  "\<exists>answer w'. serveCORS exampleApi [''https://app.example''] exampleHandler None
       (steerRequest ''https://app.example'') exampleServed = Some (answer, w') \<and>
     wrStatus answer = 200 \<and> decidedOnce exampleFlow ''agent-1'' (SteerMessage ''m-1'') True [] (svExecuted w')"
proof -
  from steer_request_served obtain answer w' where
    run: "serveCORS exampleApi [''https://app.example''] exampleHandler None
      (steerRequest ''https://app.example'') exampleServed = Some (answer, w')" "wrStatus answer = 200" by auto
  have "dexService (clSdk (hdAgent exampleHandler)) exampleFlow svExecuted"
    by (simp add: exampleHandler_def served.dexService_axioms)
  from requests_become_transactions [OF this steer_path run(1)] run
  show ?thesis by (auto simp: steer_request_posted exampleServed_def)
qed

end
