(* ===== verification/Spec2Isabelle.thy ===== *)
theory Spec2Isabelle
  imports Expiry ClientArchive ApiEvents ApiSnapshot McpCatalog McpLifecycle WireRoundTrip ToolContracts HttpServer
begin

text \<open>
  SuperAgent: a durable AI agent on the Dex workflow engine.

  The program. \<^verbatim>\<open>src/internal/agent\<close> is a Dex Flow: a conversation with a model whose state is
  durable. Steps (\<^verbatim>\<open>flow.go\<close>) wait for user input, call the model, route its tool calls, wait
  for approvals, timers and recovery decisions, and compact the context; commands (RPCs of the
  Flow) change the same store from outside. \<^verbatim>\<open>client.go\<close> is the typed client of the Flow,
  \<^verbatim>\<open>src/internal/api\<close> the HTTP API over it (a handler inside a generated server),
  \<^verbatim>\<open>src/internal/mcp\<close> the registry of external tools, \<^verbatim>\<open>src/internal/toolcontract\<close> the
  input contracts of the built-in tools.

  Reading the model. A Go error is a value of \<open>goError\<close> and a fallible function returns
  \<open>goError + 'a\<close>. A method of the Flow is a transaction \<open>store \<Rightarrow> goError + ('a \<times> store)\<close>: the
  engine commits its writes together or not at all. An operation outside the Flow is an effect
  \<open>'w \<Rightarrow> (result \<times> 'w) option\<close> on the state of the world, \<open>None\<close> where it does not return.
  \<^verbatim>\<open>int\<close> and \<^verbatim>\<open>time.Duration\<close> are integers whose wrap-around is written out (\<open>wrap64\<close>) where a
  value can leave the range; \<^verbatim>\<open>float64\<close> is IEEE arithmetic on mantissa and exponent; strings are
  lists of bytes, read as UTF-8 where the code counts runes. A Go map is a HOL map, or the list
  of its entries in iteration order where the order could matter.

  The theories, bottom up.

  \<^item> \<open>Prelude\<close>, \<open>GoText\<close>, \<open>Json\<close>, \<open>Float64\<close>: errors, transactions, integers and time;
    \<^verbatim>\<open>strings\<close>, \<^verbatim>\<open>unicode/utf8\<close>, the scanner of \<^verbatim>\<open>encoding/json\<close>, \<^verbatim>\<open>float64\<close>.
  \<^item> \<open>Types\<close> (\<^verbatim>\<open>types.go\<close>): enumerations with their wire texts (locale \<open>wire_enum\<close>,
    interpreted for each), records, validation of configurations and requests.
  \<^item> \<open>DexStore\<close>: the durable store, one field for each attribute, attribute map, channel and
    channel map declared in \<^verbatim>\<open>flow.go\<close> (locale \<open>attribute\<close>, interpreted for each attribute).
  \<^item> \<open>Tools\<close> (\<^verbatim>\<open>tools.go\<close>): the built-in tools, tool results, answers, the compaction cutoff.
  \<^item> \<open>FlowBase\<close>, \<open>History\<close>, \<open>Commands\<close>: Step options, timers and activity; the message log with
    its archive of ten-message chunks (locale \<open>message_log\<close>); the commands and the snapshot.
  \<^item> \<open>Conversation\<close>, \<open>Turns\<close>, \<open>ModelContext\<close>: the automaton of well-formed conversations; how
    turns begin, are steered and end; what a model request holds and what is compacted.
  \<^item> \<open>UserSteps\<close>, \<open>ModelSteps\<close>, \<open>ToolSteps\<close>, \<open>TimerSteps\<close>: the WaitFor and Execute method of
    every Step (\<open>waitForOf\<close>, \<open>executeOf\<close>).
  \<^item> \<open>Machine\<close>: the running Flow as a step relation \<open>flowStep\<close> with labelled runs: commits,
    consumption of completed waits, failed attempts and recovery routing, commands, time.
  \<^item> \<open>Readiness\<close>, \<open>Handover\<close>, \<open>Movements\<close>, \<open>Safety\<close>: what each Step needs and hands over, the
    invariant of reachable configurations. \<open>Frames\<close>, \<open>Approval\<close>: what Steps leave alone (locales
    \<open>frame\<close>, \<open>conservative\<close>), the approval gate. \<open>Batches\<close>, \<open>Accounting\<close>, \<open>BatchRuns\<close>, \<open>Joins\<close>:
    parallel batches. \<open>Scenario\<close>: executable schedules, the witnesses of the run theorems.
    \<open>Guarantees\<close>, \<open>Expiry\<close>: the theorems over whole runs.
  \<^item> \<open>Sdk\<close>, \<open>Client\<close>, \<open>ClientCommands\<close>, \<open>ClientArchive\<close> (\<^verbatim>\<open>client.go\<close>): the calls of the SDK
    as a record, what the client relies on as locales (\<open>dexService\<close>, \<open>archiveService\<close>), both
    interpreted by a service that runs the modelled Flow on stores; exactly-once commands,
    paging over archives.
  \<^item> \<open>Transport\<close>, \<open>Contracts\<close>, \<open>Handler\<close> (\<^verbatim>\<open>api/handler.go\<close>, \<^verbatim>\<open>api/server.go\<close> and the generated
    schemas, validators, handlers): transport types and mapping, validators as trees of faults,
    the operations with request decoding errors and response validation around them.
    \<open>ApiCommands\<close>, \<open>ApiEvents\<close>, \<open>ApiSnapshot\<close>: what a status says about the Flow, which
    answers the contract admits (locales \<open>activityService\<close>, \<open>snapshotService\<close>).
  \<^item> \<open>Sha256\<close>, \<open>McpConfig\<close>, \<open>McpTools\<close>, \<open>McpCatalog\<close> (\<^verbatim>\<open>mcp/config.go\<close>, \<^verbatim>\<open>registry.go\<close>, \<^verbatim>\<open>broker.go\<close>): the
    configuration of servers, discovery and public names, execution and the broker; what the
    Flow and the API may rely on in a catalog. \<open>McpLifecycle\<close>: \<^verbatim>\<open>Start\<close> and \<^verbatim>\<open>Close\<close> as the moves
    of any number of callers between the sections under the mutex.
  \<^item> \<open>Wire\<close>, \<open>WireSnapshot\<close>, \<open>WireEvents\<close>, \<open>WireRequests\<close>, \<open>WireRoundTrip\<close> (\<^verbatim>\<open>oas_json_gen.go\<close>,
    \<^verbatim>\<open>oas_defaults_gen.go\<close>, \<^verbatim>\<open>oas_request_decoders_gen.go\<close>): encoders and decoders of every body
    over JSON trees, with the field masks of required fields; round trips.
  \<^item> \<open>ToolContracts\<close> (\<^verbatim>\<open>toolcontract\<close> and its generated inputs): decoders and validators of the
    inputs of the built-in tools, against their JSON schemas, and what they read from a text;
    \<open>withContracts\<close> puts them into a Flow.
  \<^item> \<open>Router\<close> (\<^verbatim>\<open>oas_router_gen.go\<close>), \<open>HttpServer\<close> (\<^verbatim>\<open>api/cors.go\<close>, \<^verbatim>\<open>api/server.go\<close>,
    \<^verbatim>\<open>oas_parameters_gen.go\<close>, \<^verbatim>\<open>oas_response_encoders_gen.go\<close>): the routes as tries, and the
    whole path of a request: origin, bound, route, parameters or body, handler, response; from the
    bytes of a request to the transaction of the Flow.

  Parameters. Code outside the repository is an argument: the model client, tool registry,
  hooks and expiration handler (\<open>effects\<close>), token counting, decoding of tool arguments (the
  contracts of \<open>ToolContracts\<close> are one instance) and error texts (fields of \<open>flow\<close>), the Dex SDK
  (record \<open>sdk\<close>), the MCP SDK (\<open>mcpSdk\<close>), the URL and YAML parsers (\<open>urlLibrary\<close>,
  \<open>configLibrary\<close>), the texts of JSON, numbers and times (\<open>jxLibrary\<close>, whose round trips are the
  predicate \<open>jxLaws\<close>), conversion of query parameters (\<open>apiLibrary\<close>). The engine is relied on for what
  \<^verbatim>\<open>docs/flow-model.md\<close> documents: a method is one atomic commit, a wait completes when one of
  its alternatives does, a timer fires at its duration or later, exhausted attempts are routed
  to the registered recovery Step.

  What is assumed of them, beside that. A reply of the model client has distinct call identities
  (\<open>distinctReplies\<close>, a premise of every Execute in \<open>flowStep\<close>): the comment of \<^verbatim>\<open>CallID\<close> in \<^verbatim>\<open>types.go\<close>
  says so, but the adapters of Groq and Anthropic pass on what the provider sends. The catalog of
  a registry does not change during a run (\<open>usesRegistry\<close>), although a Worker that starts again may
  discover another one. A Stream still holds its newest activity when it is listed
  (\<open>activityService\<close>), although Streams are best effort and may disappear. The texts of times have no
  fraction of a second (\<open>jxLaws\<close>, the format of RFC 3339), while the Flow stamps nanoseconds: what
  is read from the wire is \<open>secondsOf...\<close> of what was written. Integers in the arguments of a tool
  are read when they are plain integers of 64 bits (\<open>jxIntegers\<close>), which is less than what JSON
  Schema calls an integer (\<open>integerValue\<close>).

  Fuel and termination. No definition uses fuel. Loops of the code are structural recursions or
  have a measure (splitting runes, trimming chunks); the two loops of the client that depend on
  the outside world (\<open>lockedLoop\<close>, \<open>archiveLoop\<close>) are partial functions, and that they return is
  proved (\<open>command_retry_ends\<close>, \<open>archived_range_is_slice\<close>).

  Not modelled. Streamed text and the activity of attempts that fail (best effort by design);
  more than one reading of the clock per attempt; errors of \<^verbatim>\<open>GetConditionResults\<close>; logging; the
  order in which a decoder meets an error of syntax and an error of a field; decoding of
  problems, accessors and aliases of the generated code; the HTTP transport of MCP with its
  header injection, log handlers; the clients of model providers
  (\<^verbatim>\<open>internal/model\<close>), process configuration and wiring (\<^verbatim>\<open>internal/config\<close>, \<^verbatim>\<open>internal/app\<close>,
  \<^verbatim>\<open>cmd\<close>), the public alias packages (\<^verbatim>\<open>agent\<close>, \<^verbatim>\<open>model\<close>, \<^verbatim>\<open>toolcontract\<close>) and the web client.
\<close>

end
